(* ===== verification/Prelude.thy ===== *)
theory Prelude
  imports Main "HOL-Library.Word"
begin

unbundle bit_operations_syntax

text \<open>
  Shared vocabulary of the development: the machine integers and byte strings of the
  client, little-endian conversion between words and bytes (the \<open>memcpy\<close> plus
  \<open>boost::endian\<close> idiom of the serialization layer), and the collections of simplification
  facts the component theories add to.
\<close>

section \<open>Machine types\<close>

type_synonym u8 = "8 word"
type_synonym u16 = "16 word"
type_synonym u32 = "32 word"
type_synonym u64 = "64 word"

text \<open>
  A byte string is a list of bytes: message buffers, \<open>std::string_view\<close> and
  \<open>std::string\<close> values alike. String literals of the source are ASCII.
\<close>

type_synonym bytes = "u8 list"

definition ascii :: "string \<Rightarrow> bytes" where
  "ascii s = map of_char s"

text \<open>\<open>std::vector::resize\<close>: cut off or padded with zeroes.\<close>

definition resize :: "nat \<Rightarrow> bytes \<Rightarrow> bytes" where
  "resize n bs = take n bs @ replicate (n - length bs) 0"

lemma length_resize [simp]: "length (resize n bs) = n"
  by (simp add: resize_def)

named_theorems ctx_simps \<open>facts about deserialization and serialization contexts\<close>
named_theorems enc_simps \<open>byte encodings of protocol types\<close>
named_theorems deser_simps \<open>unfolding of deserialization functions\<close>

section \<open>Little-endian words\<close>

text \<open>
  The first \<open>n\<close> bytes of the in-memory representation of a word on a little-endian host,
  and the word whose low bytes are given (the rest being zero, as after \<open>memset\<close>).
\<close>

primrec le_bytes :: "nat \<Rightarrow> 'a::len word \<Rightarrow> bytes" where
  "le_bytes 0 w = []"
| "le_bytes (Suc n) w = ucast w # le_bytes n (drop_bit 8 w)"

primrec le_word :: "bytes \<Rightarrow> 'a::len word" where
  "le_word [] = 0"
| "le_word (b # bs) = ucast b OR push_bit 8 (le_word bs)"

lemma le_bytes_numeral:
  "le_bytes (numeral k) w = ucast w # le_bytes (pred_numeral k) (drop_bit 8 w)"
  by (simp add: numeral_eq_Suc)

lemma length_le_bytes [simp]: "length (le_bytes n w) = n"
  by (induction n arbitrary: w) auto

lemma le_word_le_bytes: "le_word (le_bytes n w) = take_bit (8 * n) w"
proof (induction n arbitrary: w)
  case 0
  then show ?case by simp
next
  case (Suc n)
  have "le_word (le_bytes (Suc n) w) = ucast (ucast w :: u8) OR push_bit 8 (take_bit (8 * n) (drop_bit 8 w))"
    by (simp add: Suc.IH)
  also have "\<dots> = take_bit (8 * Suc n) w"
    by (rule bit_word_eqI) (auto simp: bit_simps)
  finally show ?case .
qed

lemma le_bytes_le_word:
  assumes "8 * length bs \<le> LENGTH('a::len)"
  shows "le_bytes (length bs) (le_word bs :: 'a word) = bs"
  using assms
proof (induction bs)
  case Nil
  then show ?case by simp
next
  case (Cons b bs)
  have hi: "8 * length bs + 8 \<le> LENGTH('a)" using Cons.prems by simp
  have d: "drop_bit 8 (ucast b OR push_bit 8 (le_word bs) :: 'a word)
      = take_bit (LENGTH('a) - 8) (le_word bs)"
    by (rule bit_word_eqI) (auto simp: bit_simps dest: bit_imp_le_length)
  have e: "ucast (ucast b OR push_bit 8 (le_word bs) :: 'a word) = b"
    using hi by (intro bit_word_eqI) (auto simp: bit_simps)
  have t: "le_bytes n (take_bit m (w :: 'a word)) = le_bytes n w" if "8 * n \<le> m" for n m w
    using that
  proof (induction n arbitrary: m w)
    case 0
    then show ?case by simp
  next
    case (Suc n)
    have "ucast (take_bit m w) = (ucast w :: u8)"
      using Suc.prems by (intro bit_word_eqI) (auto simp: bit_simps)
    moreover have "drop_bit 8 (take_bit m w) = take_bit (m - 8) (drop_bit 8 w)"
      by (simp add: drop_bit_take_bit)
    ultimately show ?case using Suc.prems Suc.IH [of "m - 8" "drop_bit 8 w"] by simp
  qed
  show ?case
    using Cons hi by (simp only: list.size le_bytes.simps le_word.simps e d add_Suc_right add_0_right)
      (simp add: t)
qed

lemma le_word_le_bytes_id [simp]:
  "LENGTH('a::len) \<le> 8 * n \<Longrightarrow> le_word (le_bytes n (w :: 'a word)) = w"
  by (simp add: le_word_le_bytes take_bit_word_eq_self)

lemma nth_le_bytes: "i < n \<Longrightarrow> le_bytes n w ! i = ucast (drop_bit (8 * i) w)"
proof (induction n arbitrary: w i)
  case 0
  then show ?case by simp
next
  case (Suc n)
  then show ?case by (cases i) (simp_all add: drop_bit_drop_bit add.commute)
qed

text \<open>Widening or narrowing a word keeps the bytes both widths have.\<close>

lemma le_bytes_ucast:
  assumes "8 * n \<le> LENGTH('b::len)"
  shows "le_bytes n (ucast (w :: 'a::len word) :: 'b word) = le_bytes n w"
proof (rule nth_equalityI)
  fix i assume "i < length (le_bytes n (ucast w :: 'b word))"
  then have "8 * i + 8 \<le> LENGTH('b)" "i < n" using assms by simp_all
  then show "le_bytes n (ucast w :: 'b word) ! i = le_bytes n w ! i"
    by (simp add: nth_le_bytes, intro bit_word_eqI) (auto simp: bit_simps dest: bit_imp_le_length)
qed simp

lemma take_bit_eq_self_unat: "take_bit n w = w \<longleftrightarrow> unat w < 2 ^ n"
  by (simp add: word_unat_eq_iff unsigned_take_bit_eq take_bit_nat_eq_self_iff)

lemma take_bit_eq_self_less:
  "(v :: u64) < 251 \<Longrightarrow> take_bit 8 v = v" "(v :: u64) < 0x10000 \<Longrightarrow> take_bit 16 v = v"
  "(v :: u64) < 0x1000000 \<Longrightarrow> take_bit 24 v = v" "(v :: u64) < 0x1000000 \<Longrightarrow> take_bit 32 v = v"
  "take_bit 64 (v :: u64) = v"
  by (simp_all add: take_bit_eq_self_unat word_less_nat_alt take_bit_word_eq_self)

lemma ucast_ucast_take_bit: "ucast (ucast (v :: 'a::len word) :: 'b::len word) = take_bit LENGTH('b) v"
  by (rule bit_word_eqI) (auto simp: bit_simps)

lemma ucast_take_bit:
  "n \<le> LENGTH('b) \<Longrightarrow> take_bit n (ucast (v :: 'a::len word) :: 'b::len word) = ucast (take_bit n v)"
  by (rule bit_word_eqI) (auto simp: bit_simps)

lemma le_word_le_bytes_ucast:
  assumes "8 * n \<le> LENGTH('b::len)"
  shows "le_word (le_bytes n (v :: 'a::len word)) = (ucast (take_bit (8 * n) v) :: 'b word)"
proof -
  have "le_word (le_bytes n v) = le_word (le_bytes n (ucast v :: 'b word))"
    using assms by (simp only: le_bytes_ucast)
  also have "\<dots> = take_bit (8 * n) (ucast v :: 'b word)"
    by (rule le_word_le_bytes)
  also have "\<dots> = ucast (take_bit (8 * n) v)"
    using assms by (rule ucast_take_bit)
  finally show ?thesis .
qed

text \<open>Searching a list by a key that tells its elements apart finds the element.\<close>

lemma find_key:
  "distinct (map f xs) \<Longrightarrow> x \<in> set xs \<Longrightarrow> find (\<lambda>y. f y = f x) xs = Some x"
  by (induction xs) (auto simp: image_iff)

text \<open>The signed reading of a word, by cases on its sign.\<close>

lemma sint_uint_cases:
  "sint (w :: 'a::len word)
     = (if uint w < 2 ^ (LENGTH('a) - 1) then uint w else uint w - 2 ^ LENGTH('a))"
proof -
  let ?y = "2 ^ (LENGTH('a) - 1) :: int"
  have len: "Suc (LENGTH('a) - Suc 0) = LENGTH('a)" by simp
  have u: "uint w < 2 ^ LENGTH('a)" "0 \<le> uint w" by (rule unsigned_less) simp
  have p: "(2::int) ^ LENGTH('a) = 2 * ?y" using len by (metis power_Suc One_nat_def)
  have le: "uint w div ?y * ?y \<le> uint w" by (simp flip: minus_mod_eq_div_mult)
  have lt: "uint w div ?y < 2"
  proof (rule ccontr)
    assume "\<not> uint w div ?y < 2"
    then have "2 * ?y \<le> uint w div ?y * ?y" by (intro mult_right_mono) auto
    with le u p show False by linarith
  qed
  have "0 \<le> uint w div ?y" by (simp add: pos_imp_zdiv_nonneg_iff)
  with lt have cases: "uint w div ?y = 0 \<or> uint w div ?y = 1" by linarith
  have "sint w = uint w - 2 ^ LENGTH('a) * of_bool (bit (uint w) (LENGTH('a) - 1))"
    using u by (simp add: sint_uint signed_take_bit_eq_take_bit_minus len take_bit_int_eq_self)
  moreover have "bit (uint w) (LENGTH('a) - 1) \<longleftrightarrow> ?y \<le> uint w"
    unfolding bit_iff_odd using cases le u by (auto simp: zdiv_eq_0_iff)
  ultimately show ?thesis by auto
qed

end
