(* ===== verification/Errors.thy ===== *)
theory Errors
  imports Prelude
begin

text \<open>
  Error reporting: the numeric error codes of \<open>errc.hpp\<close> that the client itself produces,
  \<open>boost::system::error_code\<close> as a value with a category, \<open>error_info\<close>, and the helpers of
  \<open>impl/error.hpp\<close> shared by the synchronous (throwing and non-throwing) and asynchronous
  interfaces.
\<close>

section \<open>Error codes\<close>

text \<open>
  \<open>enum class errc : int\<close>. Codes below 65536 are the server's; a server error packet can carry
  any 16-bit number, listed in the enumeration or not, so the type is the underlying integer
  under a constructor.
\<close>

datatype errc = Errc (errc_value: int)

text \<open>Enumerators compare by their numbers, as the built-in comparison of the enumeration does.\<close>

instantiation errc :: linorder
begin

definition less_eq_errc :: "errc \<Rightarrow> errc \<Rightarrow> bool" where
  "e \<le> e' \<longleftrightarrow> errc_value e \<le> errc_value e'"

definition less_errc :: "errc \<Rightarrow> errc \<Rightarrow> bool" where
  "e < e' \<longleftrightarrow> errc_value e < errc_value e'"

instance
  by standard (auto simp: less_eq_errc_def less_errc_def errc.expand)

end

definition errc_ok :: errc where
  [simp]: "errc_ok = Errc 0"
definition incomplete_message :: errc where
  [simp]: "incomplete_message = Errc 65536"
definition extra_bytes :: errc where
  [simp]: "extra_bytes = Errc 65537"
definition sequence_number_mismatch :: errc where
  [simp]: "sequence_number_mismatch = Errc 65538"
definition server_unsupported :: errc where
  [simp]: "server_unsupported = Errc 65539"
definition protocol_value_error :: errc where
  [simp]: "protocol_value_error = Errc 65540"
definition unknown_auth_plugin :: errc where
  [simp]: "unknown_auth_plugin = Errc 65541"
definition auth_plugin_requires_ssl :: errc where
  [simp]: "auth_plugin_requires_ssl = Errc 65542"
definition wrong_num_params :: errc where
  [simp]: "wrong_num_params = Errc 65543"

text \<open>
  \<open>boost::system::error_code\<close>: a number and the category that gives it a meaning. Codes
  produced by the network library have a category of their own. In a condition the code is
  true when its number is not zero, whatever the category.
\<close>

datatype error_category = System_category | Mysql_category | Foreign_category nat

record error_code =
  ec_value :: int
  ec_category :: error_category

definition failed :: "error_code \<Rightarrow> bool" where
  "failed c \<longleftrightarrow> ec_value c \<noteq> 0"

definition no_error :: error_code where
  "no_error = \<lparr>ec_value = 0, ec_category = System_category\<rparr>"

definition make_error_code :: "errc \<Rightarrow> error_code" where
  "make_error_code e = \<lparr>ec_value = errc_value e, ec_category = Mysql_category\<rparr>"

lemma failed_no_error [simp]: "\<not> failed no_error"
  by (simp add: failed_def no_error_def)

lemma failed_make_error_code [simp]: "failed (make_error_code e) \<longleftrightarrow> errc_value e \<noteq> 0"
  by (simp add: failed_def make_error_code_def)

lemma make_error_code_inject [simp]: "make_error_code a = make_error_code b \<longleftrightarrow> a = b"
  by (auto simp: make_error_code_def errc.expand)

section \<open>Extended error information\<close>

record error_info =
  ei_msg :: bytes

definition empty_info :: error_info where
  "empty_info = \<lparr>ei_msg = []\<rparr>"

definition set_message :: "bytes \<Rightarrow> error_info \<Rightarrow> error_info" where
  "set_message m info = info\<lparr>ei_msg := m\<rparr>"

definition error_info_clear :: "error_info \<Rightarrow> error_info" where
  "error_info_clear info = info\<lparr>ei_msg := []\<rparr>"

text \<open>
  The pointer variants used by the asynchronous functions: a null pointer is \<open>None\<close> and stays
  untouched.
\<close>

definition conditional_clear :: "error_info option \<Rightarrow> error_info option" where
  "conditional_clear p = map_option error_info_clear p"

definition conditional_assign :: "error_info option \<Rightarrow> error_info \<Rightarrow> error_info option" where
  "conditional_assign p info = map_option (\<lambda>_. info) p"

definition clear_errors :: "error_code \<Rightarrow> error_info \<Rightarrow> error_code \<times> error_info" where
  "clear_errors err info = (no_error, error_info_clear info)"

text \<open>
  \<open>check_error_code\<close> throws \<open>boost::system::system_error\<close> with the code and the message; the
  exception is the left side of the sum.
\<close>

record system_error =
  se_code :: error_code
  se_what :: bytes

definition check_error_code :: "error_code \<Rightarrow> error_info \<Rightarrow> system_error + unit" where
  "check_error_code code info =
     (if failed code then Inl \<lparr>se_code = code, se_what = ei_msg info\<rparr> else Inr ())"

lemma error_info_clear_eq [simp]: "error_info_clear info = empty_info"
  by (simp add: error_info_clear_def empty_info_def)

end
