(* ===== verification/Contexts.thy ===== *)
theory Contexts
  imports Errors
begin

text \<open>
  The capability set and the two cursors of the serialization layer:
  \<open>deserialization_context\<close> walks over a received buffer, \<open>serialization_context\<close> writes into a
  buffer sized beforehand. Every length check of the code is written out; a write past the end
  of the output buffer is \<open>None\<close>.
\<close>

section \<open>Capabilities\<close>

record capabilities =
  cap_value :: u32

definition CLIENT_CONNECT_WITH_DB :: u32 where
  "CLIENT_CONNECT_WITH_DB = 8"
definition CLIENT_PROTOCOL_41 :: u32 where
  "CLIENT_PROTOCOL_41 = 512"
definition CLIENT_SSL :: u32 where
  "CLIENT_SSL = 2048"
definition CLIENT_SECURE_CONNECTION :: u32 where
  "CLIENT_SECURE_CONNECTION = 32768"
definition CLIENT_PLUGIN_AUTH :: u32 where
  "CLIENT_PLUGIN_AUTH = push_bit 19 1"
definition CLIENT_PLUGIN_AUTH_LENENC_CLIENT_DATA :: u32 where
  "CLIENT_PLUGIN_AUTH_LENENC_CLIENT_DATA = push_bit 21 1"
definition CLIENT_DEPRECATE_EOF :: u32 where
  "CLIENT_DEPRECATE_EOF = push_bit 24 1"

lemmas client_flag_defs =
  CLIENT_CONNECT_WITH_DB_def CLIENT_PROTOCOL_41_def CLIENT_SSL_def CLIENT_SECURE_CONNECTION_def
  CLIENT_PLUGIN_AUTH_def CLIENT_PLUGIN_AUTH_LENENC_CLIENT_DATA_def CLIENT_DEPRECATE_EOF_def

definition caps_of :: "u32 \<Rightarrow> capabilities" where
  "caps_of v = \<lparr>cap_value = v\<rparr>"

definition caps_has :: "capabilities \<Rightarrow> u32 \<Rightarrow> bool" where
  "caps_has c cap \<longleftrightarrow> cap_value c AND cap \<noteq> 0"

definition caps_has_all :: "capabilities \<Rightarrow> capabilities \<Rightarrow> bool" where
  "caps_has_all c other \<longleftrightarrow> cap_value c AND cap_value other = cap_value other"

definition caps_or :: "capabilities \<Rightarrow> capabilities \<Rightarrow> capabilities" where
  "caps_or a b = caps_of (cap_value a OR cap_value b)"

definition caps_and :: "capabilities \<Rightarrow> capabilities \<Rightarrow> capabilities" where
  "caps_and a b = caps_of (cap_value a AND cap_value b)"

definition mandatory_capabilities :: capabilities where
  "mandatory_capabilities = caps_of
     (CLIENT_PROTOCOL_41 OR CLIENT_PLUGIN_AUTH OR CLIENT_PLUGIN_AUTH_LENENC_CLIENT_DATA OR
      CLIENT_DEPRECATE_EOF OR CLIENT_SECURE_CONNECTION)"

definition optional_capabilities :: capabilities where
  "optional_capabilities = caps_of 0"

section \<open>The deserialization cursor\<close>

text \<open>
  \<open>first_\<close> is an index into the buffer; \<open>last_\<close> is the buffer's end. \<open>ctx_wf\<close> is the condition
  the constructor, \<open>set_first\<close> and \<open>advance\<close> assert: \<open>last_ >= first_\<close>.
\<close>

record deserialization_context =
  ctx_buffer :: bytes
  ctx_first :: nat
  ctx_caps :: capabilities

definition make_ctx :: "bytes \<Rightarrow> capabilities \<Rightarrow> deserialization_context" where
  "make_ctx buff caps = \<lparr>ctx_buffer = buff, ctx_first = 0, ctx_caps = caps\<rparr>"

definition ctx_wf :: "deserialization_context \<Rightarrow> bool" where
  "ctx_wf ctx \<longleftrightarrow> ctx_first ctx \<le> length (ctx_buffer ctx)"

definition ctx_size :: "deserialization_context \<Rightarrow> nat" where
  "ctx_size ctx = length (ctx_buffer ctx) - ctx_first ctx"

definition ctx_empty :: "deserialization_context \<Rightarrow> bool" where
  "ctx_empty ctx \<longleftrightarrow> length (ctx_buffer ctx) = ctx_first ctx"

definition enough_size :: "deserialization_context \<Rightarrow> nat \<Rightarrow> bool" where
  "enough_size ctx required_size \<longleftrightarrow> required_size \<le> ctx_size ctx"

definition ctx_advance :: "nat \<Rightarrow> deserialization_context \<Rightarrow> deserialization_context" where
  "ctx_advance sz ctx = ctx\<lparr>ctx_first := ctx_first ctx + sz\<rparr>"

definition ctx_rewind :: "nat \<Rightarrow> deserialization_context \<Rightarrow> deserialization_context" where
  "ctx_rewind sz ctx = ctx\<lparr>ctx_first := ctx_first ctx - sz\<rparr>"

text \<open>The bytes from \<open>first_\<close> to \<open>last_\<close>, that is what is left to read.\<close>

definition remaining :: "deserialization_context \<Rightarrow> bytes" where
  "remaining ctx = drop (ctx_first ctx) (ctx_buffer ctx)"

lemma ctx_size_remaining [ctx_simps]: "ctx_size ctx = length (remaining ctx)"
  by (simp add: ctx_size_def remaining_def)

lemma enough_size_remaining [ctx_simps]: "enough_size ctx n \<longleftrightarrow> n \<le> length (remaining ctx)"
  by (simp add: enough_size_def ctx_size_remaining)

lemma remaining_advance [simp]: "remaining (ctx_advance n ctx) = drop n (remaining ctx)"
  by (simp add: remaining_def ctx_advance_def add.commute)

lemma ctx_advance_0 [simp]: "ctx_advance 0 ctx = ctx"
  by (simp add: ctx_advance_def)

lemma ctx_advance_add [simp]: "ctx_advance n (ctx_advance m ctx) = ctx_advance (m + n) ctx"
  by (simp add: ctx_advance_def add.assoc)

lemma ctx_advance_frame [simp]:
  "ctx_buffer (ctx_advance n ctx) = ctx_buffer ctx" "ctx_caps (ctx_advance n ctx) = ctx_caps ctx"
  "ctx_first (ctx_advance n ctx) = ctx_first ctx + n"
  by (simp_all add: ctx_advance_def)

lemma ctx_rewind_advance [simp]: "ctx_rewind n (ctx_advance n ctx) = ctx"
  by (simp add: ctx_rewind_def ctx_advance_def)

lemma ctx_empty_remaining [ctx_simps]: "ctx_wf ctx \<Longrightarrow> ctx_empty ctx \<longleftrightarrow> remaining ctx = []"
  by (auto simp: ctx_wf_def ctx_empty_def remaining_def)

lemma ctx_wf_advance: "ctx_wf ctx \<Longrightarrow> n \<le> length (remaining ctx) \<Longrightarrow> ctx_wf (ctx_advance n ctx)"
  by (simp add: ctx_wf_def remaining_def)

lemma make_ctx_simps [simp]:
  "remaining (make_ctx b caps) = b" "ctx_wf (make_ctx b caps)" "ctx_caps (make_ctx b caps) = caps"
  "ctx_buffer (make_ctx b caps) = b" "ctx_first (make_ctx b caps) = 0"
  by (simp_all add: remaining_def make_ctx_def ctx_wf_def)

text \<open>
  One cursor comes after another when it walks over the same buffer, is not behind it and is
  still inside the buffer: what every successful read must establish.
\<close>

definition ctx_step :: "deserialization_context \<Rightarrow> deserialization_context \<Rightarrow> bool" where
  "ctx_step c c' \<longleftrightarrow> (\<exists>n. n \<le> length (remaining c) \<and> c' = ctx_advance n c)"

lemma ctx_step_refl [simp]: "ctx_step c c"
  unfolding ctx_step_def by (rule exI [of _ 0]) simp

lemma ctx_step_advance [simp]: "n \<le> length (remaining c) \<Longrightarrow> ctx_step c (ctx_advance n c)"
  unfolding ctx_step_def by blast

lemma ctx_step_trans [trans]: "ctx_step a b \<Longrightarrow> ctx_step b c \<Longrightarrow> ctx_step a c"
proof -
  assume "ctx_step a b" and "ctx_step b c"
  then obtain m n where "m \<le> length (remaining a)" "b = ctx_advance m a"
      "n \<le> length (remaining b)" "c = ctx_advance n b"
    by (auto simp: ctx_step_def)
  then show "ctx_step a c"
    unfolding ctx_step_def by (intro exI [of _ "m + n"]) auto
qed

lemma ctx_step_wf: "ctx_step c c' \<Longrightarrow> ctx_wf c \<Longrightarrow> ctx_wf c'"
  by (auto simp: ctx_step_def intro: ctx_wf_advance)

lemma ctx_step_frame:
  "ctx_step c c' \<Longrightarrow> ctx_buffer c' = ctx_buffer c \<and> ctx_caps c' = ctx_caps c \<and> ctx_first c \<le> ctx_first c'"
  by (auto simp: ctx_step_def)

section \<open>The serialization cursor\<close>

text \<open>
  The output buffer has its final size when writing starts. \<open>sctx_write\<close> is \<open>memcpy\<close> at the
  cursor; writing past the buffer's end is undefined behaviour in the source and \<open>None\<close> here
  (a \<open>memcpy\<close> of no bytes writes nothing).
\<close>

record serialization_context =
  sctx_buffer :: bytes
  sctx_first :: nat
  sctx_caps :: capabilities

definition sctx_write :: "bytes \<Rightarrow> serialization_context \<Rightarrow> serialization_context option" where
  "sctx_write bs ctx =
     (let stop = sctx_first ctx + length bs
      in if stop \<le> length (sctx_buffer ctx) \<or> bs = []
         then Some (ctx\<lparr>sctx_buffer := take (sctx_first ctx) (sctx_buffer ctx) @ bs @ drop stop (sctx_buffer ctx),
                        sctx_first := stop\<rparr>)
         else None)"

lemma sctx_write_Nil [simp]: "sctx_write [] ctx = Some ctx"
  by (simp add: sctx_write_def)

lemma sctx_write_append [ctx_simps]:
  "Option.bind (sctx_write xs ctx) (sctx_write ys) = sctx_write (xs @ ys) ctx"
  by (auto simp: sctx_write_def Let_def ac_simps)

lemma sctx_write_caps: "sctx_write bs ctx = Some ctx' \<Longrightarrow> sctx_caps ctx' = sctx_caps ctx"
  by (auto simp: sctx_write_def Let_def split: if_splits)

lemma bind_sctx_write:
  "(\<And>c. sctx_caps c = sctx_caps ctx \<Longrightarrow> f c = sctx_write ys c) \<Longrightarrow>
   Option.bind (sctx_write xs ctx) f = sctx_write (xs @ ys) ctx"
  by (cases "sctx_write xs ctx")
    (auto simp: sctx_write_caps simp flip: sctx_write_append)

lemma sctx_write_fill [ctx_simps]:
  "length bs = length buf \<Longrightarrow>
   sctx_write bs \<lparr>sctx_buffer = buf, sctx_first = 0, sctx_caps = caps\<rparr>
     = Some \<lparr>sctx_buffer = bs, sctx_first = length bs, sctx_caps = caps\<rparr>"
  by (simp add: sctx_write_def)

end
