(* ===== verification/Serialization.thy ===== *)
theory Serialization
  imports Contexts
begin

text \<open>
  The serialization framework of \<open>serialization.hpp\<close>: the traits of the protocol's field types
  (fixed-size integers, length-encoded integers, the four kinds of strings), the variadic
  helpers that put fields in sequence, and the two message-level entry points
  \<open>serialize_message\<close> and \<open>deserialize_message\<close>.

  A deserialization function returns the code's \<open>errc\<close> on the left or the value and the moved
  cursor on the right; a serialization function is \<open>None\<close> when it would write outside the output
  buffer or an assertion fails. The locales \<open>guarded_serializer\<close>, \<open>serializer\<close>, \<open>reader\<close> and \<open>codec\<close> state what the traits of a type
  promise: the bytes written are those of a reference encoding and as many as \<open>get_size\<close> says;
  a read never leaves the buffer; reading an encoding gives the value back and reading a proper
  prefix of it is \<open>errc::incomplete_message\<close>.
\<close>

type_synonym 'a deser = "deserialization_context \<Rightarrow> errc + ('a \<times> deserialization_context)"
type_synonym 'a ser = "serialization_context \<Rightarrow> 'a \<Rightarrow> serialization_context option"
type_synonym 'a sizer = "serialization_context \<Rightarrow> 'a \<Rightarrow> nat"
type_synonym 'a encoding = "capabilities \<Rightarrow> 'a \<Rightarrow> bytes"

section \<open>Sequences of fields\<close>

text \<open>
  The variadic templates \<open>deserialize(ctx, a, b, ...)\<close>, \<open>serialize\<close> and \<open>get_size\<close> recurse over
  their argument lists; here a list of fields is a right-nested pair ending in the unit value.
\<close>

definition deserialize_nil :: "unit deser" where
  "deserialize_nil ctx = Inr ((), ctx)"

definition deserialize_cons :: "'a deser \<Rightarrow> 'b deser \<Rightarrow> ('a \<times> 'b) deser" where
  "deserialize_cons d tail ctx =
     (case d ctx of
        Inl err \<Rightarrow> Inl err
      | Inr (x, ctx1) \<Rightarrow>
          (case tail ctx1 of
             Inl err \<Rightarrow> Inl err
           | Inr (xs, ctx2) \<Rightarrow> Inr ((x, xs), ctx2)))"

definition serialize_nil :: "unit ser" where
  "serialize_nil ctx u = Some ctx"

definition serialize_cons :: "'a ser \<Rightarrow> 'b ser \<Rightarrow> ('a \<times> 'b) ser" where
  "serialize_cons s tail ctx p =
     (case s ctx (fst p) of None \<Rightarrow> None | Some ctx1 \<Rightarrow> tail ctx1 (snd p))"

definition get_size_nil :: "unit sizer" where
  "get_size_nil ctx u = 0"

definition get_size_cons :: "'a sizer \<Rightarrow> 'b sizer \<Rightarrow> ('a \<times> 'b) sizer" where
  "get_size_cons z tail ctx p = z ctx (fst p) + tail ctx (snd p)"

text \<open>Reference encodings and well-formedness of a sequence.\<close>

definition enc_nil :: "unit encoding" where
  "enc_nil caps u = []"

definition enc_cons :: "'a encoding \<Rightarrow> 'b encoding \<Rightarrow> ('a \<times> 'b) encoding" where
  "enc_cons e f caps p = e caps (fst p) @ f caps (snd p)"

definition wf_cons :: "('a \<Rightarrow> bool) \<Rightarrow> ('b \<Rightarrow> bool) \<Rightarrow> 'a \<times> 'b \<Rightarrow> bool" where
  "wf_cons v w p \<longleftrightarrow> v (fst p) \<and> w (snd p)"

section \<open>Whole messages\<close>

definition serialize_message :: "'a ser \<Rightarrow> 'a sizer \<Rightarrow> 'a \<Rightarrow> capabilities \<Rightarrow> bytes \<Rightarrow> bytes option" where
  "serialize_message ser get_sz input caps buffer =
     (let ctx = \<lparr>sctx_buffer = [], sctx_first = 0, sctx_caps = caps\<rparr>;
          n = get_sz ctx input;
          buf = resize n buffer
      in case ser (ctx\<lparr>sctx_buffer := buf\<rparr>) input of
           None \<Rightarrow> None
         | Some ctx1 \<Rightarrow>
             if sctx_first ctx1 = length (sctx_buffer ctx1) then Some (sctx_buffer ctx1) else None)"

definition deserialize_message :: "'a deser \<Rightarrow> deserialization_context \<Rightarrow> error_code + 'a" where
  "deserialize_message d ctx =
     (case d ctx of
        Inl err \<Rightarrow> Inl (make_error_code err)
      | Inr (x, ctx1) \<Rightarrow> if ctx_empty ctx1 then Inr x else Inl (make_error_code extra_bytes))"

section \<open>The contracts of the traits\<close>

text \<open>Writers: what is written refines a byte encoding, and \<open>get_size\<close> is its length.\<close>

locale guarded_serializer =
  fixes ser :: "'a ser" and sz :: "'a sizer" and enc :: "'a encoding" and asserted :: "'a \<Rightarrow> bool"
  assumes ser_asserted: "asserted x \<Longrightarrow> ser ctx x = sctx_write (enc (sctx_caps ctx) x) ctx"
    and ser_aborts: "\<not> asserted x \<Longrightarrow> ser ctx x = None"
    and size_enc: "sz ctx x = length (enc (sctx_caps ctx) x)"
begin

text \<open>
  Hence a message is serialized without writing outside the buffer sized by \<open>get_size\<close>, and
  fills it exactly (the assertion at the end of \<open>serialize_message\<close>), whatever the buffer
  held before, unless an assertion of the serializer fails.
\<close>

lemma serialize_message_guarded:
  "serialize_message ser sz x caps buffer = (if asserted x then Some (enc caps x) else None)"
  by (simp add: serialize_message_def ser_asserted ser_aborts size_enc sctx_write_fill Let_def)

end

text \<open>Most serializers assert nothing.\<close>

locale serializer =
  fixes ser :: "'a ser" and sz :: "'a sizer" and enc :: "'a encoding"
  assumes ser_enc: "ser ctx x = sctx_write (enc (sctx_caps ctx) x) ctx"
    and sz_enc: "sz ctx x = length (enc (sctx_caps ctx) x)"
begin

sublocale guarded: guarded_serializer ser sz enc "\<lambda>_. True"
  by unfold_locales (simp_all add: ser_enc sz_enc)

lemma serialize_message_exact: "serialize_message ser sz x caps buffer = Some (enc caps x)"
  by (simp add: guarded.serialize_message_guarded)

end

text \<open>Readers: a successful read moves the cursor forward inside the buffer.\<close>

locale reader =
  fixes deser :: "'a deser"
  assumes deser_step: "deser ctx = Inr (x, ctx1) \<Longrightarrow> ctx_step ctx ctx1"
begin

lemma deser_wf: "deser ctx = Inr (x, ctx1) \<Longrightarrow> ctx_wf ctx \<Longrightarrow> ctx_wf ctx1"
  by (rule ctx_step_wf [OF deser_step])

lemma deser_frame:
  "deser ctx = Inr (x, ctx1) \<Longrightarrow>
   ctx_buffer ctx1 = ctx_buffer ctx \<and> ctx_caps ctx1 = ctx_caps ctx \<and> ctx_first ctx \<le> ctx_first ctx1"
  by (rule ctx_step_frame [OF deser_step])

end

text \<open>
  Final decoders: reading an encoding that ends the buffer gives the value and consumes it.
  This is all that holds of a message whose last field takes whatever is left.
\<close>

locale final_decoder = reader deser
  for deser :: "'a deser" +
  fixes enc :: "'a encoding" and wf :: "'a \<Rightarrow> bool"
  assumes deser_enc_final:
      "wf x \<Longrightarrow> remaining ctx = enc (ctx_caps ctx) x \<Longrightarrow>
       deser ctx = Inr (x, ctx_advance (length (enc (ctx_caps ctx) x)) ctx)"
begin

lemma deserialize_message_enc:
  "wf x \<Longrightarrow> ctx_wf ctx \<Longrightarrow> remaining ctx = enc (ctx_caps ctx) x \<Longrightarrow> deserialize_message deser ctx = Inr x"
  by (simp add: deserialize_message_def deser_enc_final ctx_simps ctx_wf_advance)

end

text \<open>Decoders: reading an encoding followed by anything gives the value and consumes the encoding.\<close>

locale decoder = reader deser
  for deser :: "'a deser" +
  fixes enc :: "'a encoding" and wf :: "'a \<Rightarrow> bool"
  assumes deser_enc:
      "wf x \<Longrightarrow> remaining ctx = enc (ctx_caps ctx) x @ rest \<Longrightarrow>
       deser ctx = Inr (x, ctx_advance (length (enc (ctx_caps ctx) x)) ctx)"
begin

sublocale final_decoder deser enc wf
  by unfold_locales (rule deser_enc, assumption, simp)

lemma deserialize_message_extra:
  "wf x \<Longrightarrow> rest \<noteq> [] \<Longrightarrow> ctx_wf ctx \<Longrightarrow> remaining ctx = enc (ctx_caps ctx) x @ rest \<Longrightarrow>
   deserialize_message deser ctx = Inl (make_error_code extra_bytes)"
  by (simp add: deserialize_message_def deser_enc ctx_simps ctx_wf_advance)

text \<open>The encoding is uniquely decodable.\<close>

lemma enc_inject:
  assumes "wf x" and "wf y" and "enc caps x @ r = enc caps y @ s"
  shows "x = y \<and> r = s"
proof -
  let ?c = "make_ctx (enc caps x @ r) caps"
  have "deser ?c = Inr (x, ctx_advance (length (enc caps x)) ?c)"
    using assms(1) deser_enc [of x ?c r] by simp
  moreover have "deser ?c = Inr (y, ctx_advance (length (enc caps y)) ?c)"
    using assms(2,3) deser_enc [of y ?c s] by simp
  ultimately show ?thesis using assms(3) by simp
qed

end

text \<open>Prefix decoders report a message that ends too early as incomplete.\<close>

locale prefix_decoder = decoder deser enc wf
  for deser :: "'a deser" and enc :: "'a encoding" and wf :: "'a \<Rightarrow> bool" +
  assumes deser_truncated:
      "wf x \<Longrightarrow> k < length (enc (ctx_caps ctx) x) \<Longrightarrow> remaining ctx = take k (enc (ctx_caps ctx) x) \<Longrightarrow>
       deser ctx = Inl incomplete_message"
begin

lemma deserialize_message_truncated:
  "wf x \<Longrightarrow> k < length (enc (ctx_caps ctx) x) \<Longrightarrow> remaining ctx = take k (enc (ctx_caps ctx) x) \<Longrightarrow>
   deserialize_message deser ctx = Inl (make_error_code incomplete_message)"
  by (simp add: deserialize_message_def deser_truncated)

end

text \<open>Both directions of a field type.\<close>

locale codec = serializer ser sz enc + decoder deser enc wf
  for deser :: "'a deser" and ser :: "'a ser" and sz :: "'a sizer" and enc :: "'a encoding"
    and wf :: "'a \<Rightarrow> bool"
begin

lemma message_roundtrip:
  assumes "wf x" and "serialize_message ser sz x caps buffer = Some out"
  shows "deserialize_message deser (make_ctx out caps) = Inr x"
  using assms by (auto simp: serialize_message_exact deserialize_message_enc)

end

section \<open>Sequencing keeps the contracts\<close>

lemma serializer_nil: "serializer serialize_nil get_size_nil enc_nil"
  by unfold_locales (simp_all add: serialize_nil_def get_size_nil_def enc_nil_def)

lemma serializer_cons:
  assumes "serializer s z e" and "serializer t y f"
  shows "serializer (serialize_cons s t) (get_size_cons z y) (enc_cons e f)"
proof
  fix ctx :: serialization_context and p
  have "serialize_cons s t ctx p
      = Option.bind (sctx_write (e (sctx_caps ctx) (fst p)) ctx) (\<lambda>c. t c (snd p))"
    using assms(1) by (simp add: serialize_cons_def serializer.ser_enc split: option.split)
  also have "\<dots> = Option.bind (sctx_write (e (sctx_caps ctx) (fst p)) ctx)
      (sctx_write (f (sctx_caps ctx) (snd p)))"
    using assms(2) by (cases "sctx_write (e (sctx_caps ctx) (fst p)) ctx")
      (simp_all add: serializer.ser_enc sctx_write_caps)
  finally show "serialize_cons s t ctx p = sctx_write (enc_cons e f (sctx_caps ctx) p) ctx"
    by (simp add: ctx_simps enc_cons_def)
  show "get_size_cons z y ctx p = length (enc_cons e f (sctx_caps ctx) p)"
    using assms by (simp add: get_size_cons_def enc_cons_def serializer.sz_enc)
qed

lemma reader_nil: "reader deserialize_nil"
  by unfold_locales (simp add: deserialize_nil_def)

lemma reader_cons: "reader d \<Longrightarrow> reader e \<Longrightarrow> reader (deserialize_cons d e)"
  unfolding reader_def deserialize_cons_def
  by (fastforce split: sum.splits prod.splits intro: ctx_step_trans)

lemma prefix_decoder_nil: "prefix_decoder deserialize_nil enc_nil (\<lambda>_. True)"
  by unfold_locales (simp_all add: deserialize_nil_def enc_nil_def)

lemma decoder_cons:
  assumes "decoder d e v" and "decoder d' f w"
  shows "decoder (deserialize_cons d d') (enc_cons e f) (wf_cons v w)"
proof (rule decoder.intro [OF reader_cons decoder_axioms.intro])
  show "reader d" "reader d'" using assms by (auto intro: decoder.axioms(1))
next
  fix p :: "'a \<times> 'b" and ctx :: deserialization_context and rest
  let ?c = "ctx_caps ctx"
  assume wf: "wf_cons v w p" and rem: "remaining ctx = enc_cons e f ?c p @ rest"
  have 1: "d ctx = Inr (fst p, ctx_advance (length (e ?c (fst p))) ctx)"
    using wf rem decoder.deser_enc [OF assms(1), of "fst p" ctx "f ?c (snd p) @ rest"]
    by (simp add: wf_cons_def enc_cons_def)
  have 2: "d' (ctx_advance (length (e ?c (fst p))) ctx)
      = Inr (snd p, ctx_advance (length (f ?c (snd p))) (ctx_advance (length (e ?c (fst p))) ctx))"
    using wf rem decoder.deser_enc [OF assms(2), of "snd p" "ctx_advance (length (e ?c (fst p))) ctx" rest]
    by (simp add: wf_cons_def enc_cons_def)
  show "deserialize_cons d d' ctx = Inr (p, ctx_advance (length (enc_cons e f ?c p)) ctx)"
    using 1 2 by (simp add: deserialize_cons_def enc_cons_def)
qed

lemma decoder_nil: "decoder deserialize_nil enc_nil (\<lambda>_. True)"
  by (rule prefix_decoder.axioms(1) [OF prefix_decoder_nil])

lemma prefix_decoder_cons:
  assumes "prefix_decoder d e v" and "prefix_decoder d' f w"
  shows "prefix_decoder (deserialize_cons d d') (enc_cons e f) (wf_cons v w)"
proof (rule prefix_decoder.intro [OF decoder_cons prefix_decoder_axioms.intro])
  show "decoder d e v" "decoder d' f w" using assms by (auto intro: prefix_decoder.axioms(1))
next
  fix p :: "'a \<times> 'b" and k and ctx :: deserialization_context
  let ?c = "ctx_caps ctx" and ?x = "fst p" and ?y = "snd p"
  assume wf: "wf_cons v w p" and k: "k < length (enc_cons e f ?c p)"
    and rem: "remaining ctx = take k (enc_cons e f ?c p)"
  show "deserialize_cons d d' ctx = Inl incomplete_message"
  proof (cases "k < length (e ?c ?x)")
    case True
    then show ?thesis
      using wf rem prefix_decoder.deser_truncated [OF assms(1), of ?x k ctx]
      by (simp add: deserialize_cons_def wf_cons_def enc_cons_def)
  next
    case False
    let ?m = "k - length (e ?c ?x)" and ?n = "length (e ?c ?x)"
    have 1: "d ctx = Inr (?x, ctx_advance ?n ctx)"
      using False wf rem
        decoder.deser_enc [OF prefix_decoder.axioms(1) [OF assms(1)], of ?x ctx "take ?m (f ?c ?y)"]
      by (simp add: wf_cons_def enc_cons_def)
    have "d' (ctx_advance ?n ctx) = Inl incomplete_message"
      using False wf rem k prefix_decoder.deser_truncated [OF assms(2), of ?y ?m "ctx_advance ?n ctx"]
      by (simp add: wf_cons_def enc_cons_def less_diff_conv2)
    with 1 show ?thesis by (simp add: deserialize_cons_def)
  qed
qed

lemma final_decoder_cons:
  assumes "decoder d e v" and "final_decoder d' f w"
  shows "final_decoder (deserialize_cons d d') (enc_cons e f) (wf_cons v w)"
proof (rule final_decoder.intro [OF reader_cons final_decoder_axioms.intro])
  show "reader d" "reader d'" using assms by (auto intro: decoder.axioms(1) final_decoder.axioms(1))
next
  fix p :: "'a \<times> 'b" and ctx :: deserialization_context
  let ?c = "ctx_caps ctx"
  let ?ctx1 = "ctx_advance (length (e ?c (fst p))) ctx"
  assume wf: "wf_cons v w p" and rem: "remaining ctx = enc_cons e f ?c p"
  have 1: "d ctx = Inr (fst p, ?ctx1)"
    using wf rem decoder.deser_enc [OF assms(1), of "fst p" ctx "f ?c (snd p)"]
    by (simp add: wf_cons_def enc_cons_def)
  have 2: "d' ?ctx1 = Inr (snd p, ctx_advance (length (f ?c (snd p))) ?ctx1)"
    using wf rem final_decoder.deser_enc_final [OF assms(2), of "snd p" ?ctx1]
    by (simp add: wf_cons_def enc_cons_def)
  show "deserialize_cons d d' ctx = Inr (p, ctx_advance (length (enc_cons e f ?c p)) ctx)"
    using 1 2 by (simp add: deserialize_cons_def enc_cons_def)
qed

lemma final_decoder_last:
  assumes "final_decoder d e v"
  shows "final_decoder (deserialize_cons d deserialize_nil) (enc_cons e enc_nil) (wf_cons v (\<lambda>_. True))"
proof (rule final_decoder.intro [OF reader_cons final_decoder_axioms.intro])
  show "reader d" "reader deserialize_nil" using assms by (auto intro: final_decoder.axioms(1) reader_nil)
qed (use assms in \<open>auto simp: deserialize_cons_def deserialize_nil_def enc_cons_def enc_nil_def wf_cons_def
      final_decoder.deser_enc_final\<close>)

lemma decoder_final: "decoder d e v \<Longrightarrow> final_decoder d e v"
  by (rule final_decoder.intro [OF decoder.axioms(1) final_decoder_axioms.intro])
    (auto dest: decoder.deser_enc [where rest = "[]"])

section \<open>Structs and commands\<close>

text \<open>
  A struct with fields is (de)serialized as the tuple of its members in the order
  \<open>get_struct_fields\<close> lists them; a command writes its \<open>command_id\<close> byte first. The functions
  between the record and its tuple of members are the arguments.
\<close>

definition deserialize_struct :: "('f \<Rightarrow> 'a) \<Rightarrow> 'f deser \<Rightarrow> 'a deser" where
  "deserialize_struct mk d ctx =
     (case d ctx of Inl err \<Rightarrow> Inl err | Inr (flds, ctx1) \<Rightarrow> Inr (mk flds, ctx1))"

definition serialize_struct :: "('a \<Rightarrow> 'f) \<Rightarrow> 'f ser \<Rightarrow> 'a ser" where
  "serialize_struct flds s ctx input = s ctx (flds input)"

definition get_size_struct :: "('a \<Rightarrow> 'f) \<Rightarrow> 'f sizer \<Rightarrow> 'a sizer" where
  "get_size_struct flds z ctx input = z ctx (flds input)"

definition enc_struct :: "('a \<Rightarrow> 'f) \<Rightarrow> 'f encoding \<Rightarrow> 'a encoding" where
  "enc_struct flds e caps x = e caps (flds x)"

lemma serializer_struct:
  "serializer s z e \<Longrightarrow>
   serializer (serialize_struct flds s) (get_size_struct flds z) (enc_struct flds e)"
  by (simp add: serializer_def serialize_struct_def get_size_struct_def enc_struct_def)

lemma reader_struct: "reader d \<Longrightarrow> reader (deserialize_struct mk d)"
  by (fastforce simp: reader_def deserialize_struct_def split: sum.splits)

lemma decoder_struct:
  assumes "\<And>x. mk (flds x) = x" and "decoder d e v"
  shows "decoder (deserialize_struct mk d) (enc_struct flds e) (\<lambda>x. v (flds x))"
  using assms decoder.axioms(1) [OF assms(2)]
  by (intro decoder.intro reader_struct decoder_axioms.intro)
    (auto simp: deserialize_struct_def enc_struct_def decoder.deser_enc [OF assms(2)])

lemma final_decoder_struct:
  assumes "\<And>x. mk (flds x) = x" and "final_decoder d e v"
  shows "final_decoder (deserialize_struct mk d) (enc_struct flds e) (\<lambda>x. v (flds x))"
  using assms final_decoder.axioms(1) [OF assms(2)]
  by (intro final_decoder.intro reader_struct final_decoder_axioms.intro)
    (auto simp: deserialize_struct_def enc_struct_def final_decoder.deser_enc_final [OF assms(2)])

lemma prefix_decoder_struct:
  assumes "\<And>x. mk (flds x) = x" and "prefix_decoder d e v"
  shows "prefix_decoder (deserialize_struct mk d) (enc_struct flds e) (\<lambda>x. v (flds x))"
  using assms
  by (intro prefix_decoder.intro decoder_struct prefix_decoder_axioms.intro)
    (auto simp: deserialize_struct_def enc_struct_def prefix_decoder.deser_truncated [OF assms(2)]
      intro: prefix_decoder.axioms(1))

end
