(* ===== verification/Protocol_Types.thy ===== *)
theory Protocol_Types
  imports Serialization
begin

text \<open>
  The serialization traits of the protocol's field types (\<open>protocol_types.hpp\<close>,
  \<open>serialization.hpp\<close>, \<open>impl/serialization.hpp\<close> and \<open>impl/serialization.ipp\<close>), each with its
  reference encoding and the interpretation of the contracts of \<open>Serialization\<close> on it.
\<close>

section \<open>Fixed-size integers\<close>

datatype fixed_int =
  int1 | int2 | int3 | int4 | int6 | int8 | int1_signed | int2_signed | int4_signed | int8_signed

text \<open>\<open>sizeof\<close> of the integer a value holder contains.\<close>

fun sizeof_value :: "fixed_int \<Rightarrow> nat" where
  "sizeof_value int1 = 1"
| "sizeof_value int2 = 2"
| "sizeof_value int3 = 4"
| "sizeof_value int4 = 4"
| "sizeof_value int6 = 8"
| "sizeof_value int8 = 8"
| "sizeof_value int1_signed = 1"
| "sizeof_value int2_signed = 2"
| "sizeof_value int4_signed = 4"
| "sizeof_value int8_signed = 8"

definition get_int_size :: "fixed_int \<Rightarrow> nat" where
  "get_int_size t = (if t = int3 then 3 else if t = int6 then 6 else sizeof_value t)"

lemma get_int_size_simps [simp]:
  "get_int_size int1 = 1" "get_int_size int2 = 2" "get_int_size int3 = 3" "get_int_size int4 = 4"
  "get_int_size int6 = 6" "get_int_size int8 = 8" "get_int_size int1_signed = 1"
  "get_int_size int2_signed = 2" "get_int_size int4_signed = 4" "get_int_size int8_signed = 8"
  by (simp_all add: get_int_size_def)

definition deserialize_fixed_int :: "fixed_int \<Rightarrow> 'a::len word deser" where
  "deserialize_fixed_int t ctx =
     (let sz = get_int_size t
      in if \<not> enough_size ctx sz then Inl incomplete_message
         else Inr (le_word (take sz (remaining ctx)), ctx_advance sz ctx))"

definition serialize_fixed_int :: "fixed_int \<Rightarrow> 'a::len word ser" where
  "serialize_fixed_int t ctx input = sctx_write (le_bytes (get_int_size t) input) ctx"

definition get_size_fixed_int :: "fixed_int \<Rightarrow> 'a::len word sizer" where
  "get_size_fixed_int t ctx input = get_int_size t"

definition enc_fixed_int :: "fixed_int \<Rightarrow> 'a::len word encoding" where
  "enc_fixed_int t caps w = le_bytes (get_int_size t) w"

text \<open>A value fits the field when no bit beyond the field's bytes is set.\<close>

definition fits_int :: "fixed_int \<Rightarrow> 'a::len word \<Rightarrow> bool" where
  "fits_int t w \<longleftrightarrow> take_bit (8 * get_int_size t) w = w"

lemma fits_int_full [simp]: "LENGTH('a::len) \<le> 8 * get_int_size t \<Longrightarrow> fits_int t (w :: 'a word)"
  by (simp add: fits_int_def take_bit_word_eq_self)

lemma fits_int3: "fits_int int3 (w :: u32) \<longleftrightarrow> unat w < 0x1000000"
  by (simp add: fits_int_def take_bit_eq_self_unat)

interpretation fixed_int: codec "deserialize_fixed_int t" "serialize_fixed_int t"
    "get_size_fixed_int t" "enc_fixed_int t" "fits_int t" for t
  by unfold_locales
    (auto simp: deserialize_fixed_int_def serialize_fixed_int_def get_size_fixed_int_def
      enc_fixed_int_def fits_int_def le_word_le_bytes ctx_simps Let_def split: if_splits)

interpretation fixed_int: prefix_decoder "deserialize_fixed_int t" "enc_fixed_int t" "fits_int t" for t
  by unfold_locales (simp add: deserialize_fixed_int_def enc_fixed_int_def ctx_simps Let_def)

text \<open>Conversely the value read determines the bytes, so nothing of a field is lost.\<close>

lemma deserialize_fixed_int_bytes:
  assumes "deserialize_fixed_int t ctx = Inr (w :: 'a::len word, ctx1)"
    and "8 * get_int_size t \<le> LENGTH('a)"
  shows "remaining ctx = enc_fixed_int t caps w @ remaining ctx1"
proof -
  have *: "get_int_size t \<le> length (remaining ctx)"
    "w = le_word (take (get_int_size t) (remaining ctx))" "ctx1 = ctx_advance (get_int_size t) ctx"
    using assms(1) by (auto simp: deserialize_fixed_int_def ctx_simps Let_def split: if_splits)
  have "length (take (get_int_size t) (remaining ctx)) = get_int_size t"
    using * by simp
  then have "le_bytes (get_int_size t) w = take (get_int_size t) (remaining ctx)"
    using le_bytes_le_word [of "take (get_int_size t) (remaining ctx)", where 'a = 'a] * assms(2)
    by metis
  then show ?thesis using * by (simp add: enc_fixed_int_def)
qed

section \<open>Length-encoded integers\<close>

definition deserialize_int_lenenc :: "u64 deser" where
  "deserialize_int_lenenc ctx =
     (case deserialize_fixed_int int1 ctx of
        Inl err \<Rightarrow> Inl err
      | Inr (first_byte :: u8, ctx1) \<Rightarrow>
          if first_byte = 0xFC then
            (case deserialize_fixed_int int2 ctx1 of
               Inl err \<Rightarrow> Inl err | Inr (v :: u16, ctx2) \<Rightarrow> Inr (ucast v, ctx2))
          else if first_byte = 0xFD then
            (case deserialize_fixed_int int3 ctx1 of
               Inl err \<Rightarrow> Inl err | Inr (v :: u32, ctx2) \<Rightarrow> Inr (ucast v, ctx2))
          else if first_byte = 0xFE then
            (case deserialize_fixed_int int8 ctx1 of
               Inl err \<Rightarrow> Inl err | Inr (v :: u64, ctx2) \<Rightarrow> Inr (v, ctx2))
          else Inr (ucast first_byte, ctx1))"

definition serialize_int_lenenc :: "u64 ser" where
  "serialize_int_lenenc ctx input =
     (if input < 251 then serialize_fixed_int int1 ctx (ucast input :: u8)
      else if input < 0x10000 then
        Option.bind (sctx_write [0xfc] ctx) (\<lambda>c. serialize_fixed_int int2 c (ucast input :: u16))
      else if input < 0x1000000 then
        Option.bind (sctx_write [0xfd] ctx) (\<lambda>c. serialize_fixed_int int3 c (ucast input :: u32))
      else
        Option.bind (sctx_write [0xfe] ctx) (\<lambda>c. serialize_fixed_int int8 c input))"

definition get_size_int_lenenc :: "u64 sizer" where
  "get_size_int_lenenc ctx input =
     (if input < 251 then 1 else if input < 0x10000 then 3 else if input < 0x1000000 then 4 else 9)"

definition enc_int_lenenc :: "u64 encoding" where
  "enc_int_lenenc caps v =
     (if v < 251 then le_bytes 1 v
      else if v < 0x10000 then 0xFC # le_bytes 2 v
      else if v < 0x1000000 then 0xFD # le_bytes 3 v
      else 0xFE # le_bytes 8 v)"

lemma deserialize_int1_Cons [deser_simps]:
  "remaining ctx = b # rest \<Longrightarrow> deserialize_fixed_int int1 ctx = Inr (b :: u8, ctx_advance 1 ctx)"
  by (simp add: deserialize_fixed_int_def ctx_simps)

lemma deserialize_fixed_int_short [deser_simps]:
  "length (remaining ctx) < get_int_size t \<Longrightarrow> deserialize_fixed_int t ctx = Inl incomplete_message"
  by (simp add: deserialize_fixed_int_def ctx_simps)

lemma deserialize_fixed_int_le_bytes:
  "remaining ctx = le_bytes (get_int_size t) v @ rest \<Longrightarrow> 8 * get_int_size t \<le> LENGTH('b) \<Longrightarrow>
   deserialize_fixed_int t ctx
     = Inr (ucast (take_bit (8 * get_int_size t) v) :: 'b::len word, ctx_advance (get_int_size t) ctx)"
  by (simp add: deserialize_fixed_int_def ctx_simps le_word_le_bytes_ucast Let_def)

lemma small_first_byte:
  assumes "(v :: u64) < 251"
  shows "ucast (ucast v :: u8) = v" and "(ucast v :: u8) < 251"
proof -
  show "ucast (ucast v :: u8) = v"
    using assms by (simp add: ucast_ucast_take_bit take_bit_eq_self_less)
  have "unat (ucast v :: u8) = unat v"
    using assms by (simp add: unsigned_ucast_eq take_bit_nat_eq_self_iff word_less_nat_alt)
  then show "(ucast v :: u8) < 251"
    using assms by (simp add: word_less_nat_alt)
qed

interpretation int_lenenc: serializer serialize_int_lenenc get_size_int_lenenc enc_int_lenenc
  by unfold_locales
    (auto simp: serialize_int_lenenc_def get_size_int_lenenc_def enc_int_lenenc_def
      serialize_fixed_int_def le_bytes_ucast sctx_write_append)

interpretation int_lenenc: reader deserialize_int_lenenc
  by unfold_locales
    (auto simp: deserialize_int_lenenc_def split: sum.splits if_splits
      dest!: fixed_int.deser_step intro: ctx_step_trans)

interpretation int_lenenc: decoder deserialize_int_lenenc enc_int_lenenc "\<lambda>_. True"
proof (unfold_locales, goal_cases)
  case (1 x ctx rest)
  let ?c = "ctx_advance (Suc 0) ctx"
  note d2 = deserialize_fixed_int_le_bytes [of ?c int2 x rest, where 'b = 16]
    and d3 = deserialize_fixed_int_le_bytes [of ?c int3 x rest, where 'b = 32]
    and d8 = deserialize_fixed_int_le_bytes [of ?c int8 x rest, where 'b = 64]
  show ?case
    using 1 small_first_byte [of x]
    by (auto simp: deserialize_int_lenenc_def deser_simps d2 d3 d8 enc_int_lenenc_def
        take_bit_eq_self_less ucast_ucast_take_bit split: if_splits)
qed

interpretation int_lenenc: prefix_decoder deserialize_int_lenenc enc_int_lenenc "\<lambda>_. True"
proof (unfold_locales, goal_cases)
  case (1 x k ctx)
  then show ?case
    by (cases k)
      (auto simp: deserialize_int_lenenc_def deser_simps enc_int_lenenc_def split: if_splits)
qed

interpretation int_lenenc: codec deserialize_int_lenenc serialize_int_lenenc get_size_int_lenenc
    enc_int_lenenc "\<lambda>_. True" ..

section \<open>Strings\<close>

text \<open>
  \<open>string_fixed<N>\<close>: an array of exactly \<open>N\<close> characters. A value of the wrong length is not a
  value of the type; the writer brings it to that length.
\<close>

definition deserialize_string_fixed :: "nat \<Rightarrow> bytes deser" where
  "deserialize_string_fixed n ctx =
     (if \<not> enough_size ctx n then Inl incomplete_message
      else Inr (take n (remaining ctx), ctx_advance n ctx))"

definition serialize_string_fixed :: "nat \<Rightarrow> bytes ser" where
  "serialize_string_fixed n ctx input = sctx_write (resize n input) ctx"

definition get_size_string_fixed :: "nat \<Rightarrow> bytes sizer" where
  "get_size_string_fixed n ctx input = n"

definition enc_string_fixed :: "nat \<Rightarrow> bytes encoding" where
  "enc_string_fixed n caps s = resize n s"

interpretation string_fixed: codec "deserialize_string_fixed n" "serialize_string_fixed n"
    "get_size_string_fixed n" "enc_string_fixed n" "\<lambda>s. length s = n" for n
  by unfold_locales
    (auto simp: deserialize_string_fixed_def serialize_string_fixed_def get_size_string_fixed_def
      enc_string_fixed_def resize_def ctx_simps split: if_splits)

interpretation string_fixed: prefix_decoder "deserialize_string_fixed n" "enc_string_fixed n"
    "\<lambda>s. length s = n" for n
  by unfold_locales
    (auto simp: deserialize_string_fixed_def enc_string_fixed_def resize_def ctx_simps)

text \<open>\<open>string_null\<close>: the bytes up to the first zero byte, which is consumed too.\<close>

definition deserialize_string_null :: "bytes deser" where
  "deserialize_string_null ctx =
     (let s = takeWhile (\<lambda>b. b \<noteq> 0) (remaining ctx)
      in if length s = ctx_size ctx then Inl incomplete_message
         else Inr (s, ctx_advance (length s + 1) ctx))"

definition serialize_string_null :: "bytes ser" where
  "serialize_string_null ctx input = Option.bind (sctx_write input ctx) (sctx_write [0])"

definition get_size_string_null :: "bytes sizer" where
  "get_size_string_null ctx input = length input + 1"

definition enc_string_null :: "bytes encoding" where
  "enc_string_null caps s = s @ [0]"

text \<open>No zero byte may occur in the string itself.\<close>

definition no_nul :: "bytes \<Rightarrow> bool" where
  "no_nul s \<longleftrightarrow> 0 \<notin> set s"

lemma takeWhile_no_nul: "no_nul s \<Longrightarrow> takeWhile (\<lambda>b. b \<noteq> 0) (s @ 0 # rest) = s"
  by (induction s) (auto simp: no_nul_def)

lemma takeWhile_no_nul_take: "no_nul s \<Longrightarrow> takeWhile (\<lambda>b. b \<noteq> 0) (take k s) = take k s"
  by (auto simp: no_nul_def takeWhile_eq_all_conv dest: in_set_takeD)

interpretation string_null: serializer serialize_string_null get_size_string_null enc_string_null
  by unfold_locales
    (simp_all add: serialize_string_null_def get_size_string_null_def enc_string_null_def
      sctx_write_append)

interpretation string_null: reader deserialize_string_null
proof (unfold_locales, goal_cases)
  case (1 ctx x ctx1)
  have "length (takeWhile (\<lambda>b. b \<noteq> 0) (remaining ctx)) \<le> length (remaining ctx)"
    by (rule length_takeWhile_le)
  with 1 show ?case
    by (auto simp: deserialize_string_null_def ctx_simps Let_def Suc_le_eq split: if_splits)
qed

interpretation string_null: prefix_decoder deserialize_string_null enc_string_null no_nul
  by unfold_locales
    (simp_all add: deserialize_string_null_def enc_string_null_def ctx_simps takeWhile_no_nul
      takeWhile_no_nul_take Let_def)

interpretation string_null: codec deserialize_string_null serialize_string_null get_size_string_null
    enc_string_null no_nul ..

text \<open>\<open>string_eof\<close>: everything that is left.\<close>

definition deserialize_string_eof :: "bytes deser" where
  "deserialize_string_eof ctx = Inr (remaining ctx, ctx_advance (ctx_size ctx) ctx)"

definition serialize_string_eof :: "bytes ser" where
  "serialize_string_eof ctx input = sctx_write input ctx"

definition get_size_string_eof :: "bytes sizer" where
  "get_size_string_eof ctx input = length input"

definition enc_string_eof :: "bytes encoding" where
  "enc_string_eof caps s = s"

interpretation string_eof: serializer serialize_string_eof get_size_string_eof enc_string_eof
  by unfold_locales
    (simp_all add: serialize_string_eof_def get_size_string_eof_def enc_string_eof_def)

interpretation string_eof: reader deserialize_string_eof
  by unfold_locales (auto simp: deserialize_string_eof_def ctx_simps)

interpretation string_eof: final_decoder deserialize_string_eof enc_string_eof "\<lambda>_. True"
  by unfold_locales (simp add: deserialize_string_eof_def enc_string_eof_def ctx_simps)

text \<open>\<open>string_lenenc\<close>: a length-encoded length, then that many bytes.\<close>

text \<open>\<open>std::numeric_limits<std::size_t>::max()\<close> on the 64-bit targets modelled.\<close>

definition size_t_max :: nat where
  "size_t_max = 2 ^ 64 - 1"

definition deserialize_string_lenenc :: "bytes deser" where
  "deserialize_string_lenenc ctx =
     (case deserialize_int_lenenc ctx of
        Inl err \<Rightarrow> Inl err
      | Inr (length_, ctx1) \<Rightarrow>
          if unat length_ > size_t_max then Inl protocol_value_error
          else
            let len = unat length_
            in if \<not> enough_size ctx1 len then Inl incomplete_message
               else Inr (take len (remaining ctx1), ctx_advance len ctx1))"

definition serialize_string_lenenc :: "bytes ser" where
  "serialize_string_lenenc ctx input =
     Option.bind (serialize_int_lenenc ctx (of_nat (length input))) (sctx_write input)"

definition get_size_string_lenenc :: "bytes sizer" where
  "get_size_string_lenenc ctx input = get_size_int_lenenc ctx (of_nat (length input)) + length input"

definition enc_string_lenenc :: "bytes encoding" where
  "enc_string_lenenc caps s = enc_int_lenenc caps (of_nat (length s)) @ s"

text \<open>A string held in memory is shorter than the address space.\<close>

definition in_memory :: "bytes \<Rightarrow> bool" where
  "in_memory s \<longleftrightarrow> length s \<le> size_t_max"

lemma unat_length_in_memory [simp]: "in_memory s \<Longrightarrow> unat (of_nat (length s) :: u64) = length s"
  by (simp add: in_memory_def size_t_max_def unsigned_of_nat take_bit_nat_eq_self_iff)

lemma unat_u64_size_t [simp]: "unat (w :: u64) \<le> size_t_max"
proof -
  have "unat w < 2 ^ 64" using unsigned_less [of w] by simp
  then show ?thesis unfolding size_t_max_def by linarith
qed

interpretation string_lenenc: serializer serialize_string_lenenc get_size_string_lenenc enc_string_lenenc
  by unfold_locales
    (simp_all add: serialize_string_lenenc_def get_size_string_lenenc_def enc_string_lenenc_def
      int_lenenc.ser_enc int_lenenc.sz_enc sctx_write_append)

interpretation string_lenenc: reader deserialize_string_lenenc
  by unfold_locales
    (auto simp: deserialize_string_lenenc_def ctx_simps Let_def split: sum.splits if_splits
      dest!: int_lenenc.deser_step intro: ctx_step_trans ctx_step_advance)

lemma deserialize_string_lenenc_enc:
  assumes "in_memory s" and "remaining ctx = enc_int_lenenc (ctx_caps ctx) (of_nat (length s)) @ tail"
  shows "deserialize_string_lenenc ctx =
     (let n = length (enc_int_lenenc (ctx_caps ctx) (of_nat (length s)))
      in if length tail < length s then Inl incomplete_message
         else Inr (take (length s) tail, ctx_advance (n + length s) ctx))"
  using assms int_lenenc.deser_enc [OF TrueI assms(2)] unat_u64_size_t [of "of_nat (length s)"]
  by (auto simp: deserialize_string_lenenc_def ctx_simps Let_def simp del: unat_u64_size_t)

interpretation string_lenenc: decoder deserialize_string_lenenc enc_string_lenenc in_memory
  by unfold_locales
    (simp add: enc_string_lenenc_def deserialize_string_lenenc_enc Let_def)

interpretation string_lenenc: prefix_decoder deserialize_string_lenenc enc_string_lenenc in_memory
proof (unfold_locales, goal_cases)
  case (1 s k ctx)
  let ?e = "enc_int_lenenc (ctx_caps ctx) (of_nat (length s))"
  show ?case
  proof (cases "k < length ?e")
    case True
    then have "deserialize_int_lenenc ctx = Inl incomplete_message"
      using 1 int_lenenc.deser_truncated [of k ctx "of_nat (length s)"]
      by (simp add: enc_string_lenenc_def)
    then show ?thesis by (simp add: deserialize_string_lenenc_def)
  next
    case False
    then have "remaining ctx = ?e @ take (k - length ?e) s"
      using 1 by (simp add: enc_string_lenenc_def)
    moreover have "length (take (k - length ?e) s) < length s"
      using 1 False by (simp add: enc_string_lenenc_def)
    ultimately show ?thesis
      using 1 by (simp add: deserialize_string_lenenc_enc)
  qed
qed

interpretation string_lenenc: codec deserialize_string_lenenc serialize_string_lenenc
    get_size_string_lenenc enc_string_lenenc in_memory ..

section \<open>Enumerations\<close>

text \<open>
  An enumeration is (de)serialized as its underlying integer, with a \<open>static_cast\<close> that checks
  nothing; the casts are the arguments.
\<close>

definition deserialize_enum :: "('w::len word \<Rightarrow> 'e) \<Rightarrow> fixed_int \<Rightarrow> 'e deser" where
  "deserialize_enum cast t ctx =
     (case deserialize_fixed_int t ctx of Inl err \<Rightarrow> Inl err | Inr (v, ctx1) \<Rightarrow> Inr (cast v, ctx1))"

definition serialize_enum :: "('e \<Rightarrow> 'w::len word) \<Rightarrow> fixed_int \<Rightarrow> 'e ser" where
  "serialize_enum cast t ctx input = serialize_fixed_int t ctx (cast input)"

definition get_size_enum :: "fixed_int \<Rightarrow> 'e sizer" where
  "get_size_enum t ctx input = get_int_size t"

definition enc_enum :: "('e \<Rightarrow> 'w::len word) \<Rightarrow> fixed_int \<Rightarrow> 'e encoding" where
  "enc_enum cast t caps x = enc_fixed_int t caps (cast x)"

lemma serializer_enum: "serializer (serialize_enum cast t) (get_size_enum t) (enc_enum cast t)"
  by unfold_locales
    (simp_all add: serialize_enum_def get_size_enum_def enc_enum_def fixed_int.ser_enc enc_fixed_int_def)

lemma reader_enum: "reader (deserialize_enum cast t)"
  by unfold_locales
    (auto simp: deserialize_enum_def split: sum.splits dest: fixed_int.deser_step)

lemma prefix_decoder_enum:
  assumes "LENGTH('w::len) \<le> 8 * get_int_size t"
  shows "prefix_decoder (deserialize_enum cast t) (enc_enum (back :: _ \<Rightarrow> 'w word) t)
           (\<lambda>x. cast (back x) = x)"
  using assms reader_enum [of cast t]
  by (intro prefix_decoder.intro decoder.intro decoder_axioms.intro prefix_decoder_axioms.intro)
    (auto simp: deserialize_enum_def enc_enum_def fixed_int.deser_enc fixed_int.deser_truncated)

section \<open>The message type byte\<close>

definition deserialize_message_type :: "deserialization_context \<Rightarrow> error_code + (u8 \<times> deserialization_context)" where
  "deserialize_message_type ctx =
     (case deserialize_fixed_int int1 ctx of
        Inl err \<Rightarrow> Inl (make_error_code err)
      | Inr (msg_type, ctx1) \<Rightarrow> Inr (msg_type, ctx1))"

lemma deserialize_message_type_Cons [deser_simps]:
  "remaining ctx = b # rest \<Longrightarrow> deserialize_message_type ctx = Inr (b, ctx_advance 1 ctx)"
  by (simp add: deserialize_message_type_def deser_simps)

lemma deserialize_message_type_Nil [deser_simps]:
  "remaining ctx = [] \<Longrightarrow> deserialize_message_type ctx = Inl (make_error_code incomplete_message)"
  by (simp add: deserialize_message_type_def deser_simps)

section \<open>Bundles\<close>

lemmas serializer_intros =
  serializer_nil serializer_cons fixed_int.serializer_axioms int_lenenc.serializer_axioms
  string_fixed.serializer_axioms string_null.serializer_axioms string_eof.serializer_axioms
  string_lenenc.serializer_axioms serializer_enum

lemmas reader_intros =
  reader_nil reader_cons fixed_int.reader_axioms int_lenenc.reader_axioms
  string_fixed.reader_axioms string_null.reader_axioms string_eof.reader_axioms
  string_lenenc.reader_axioms reader_enum

lemmas prefix_decoder_intros =
  prefix_decoder_nil prefix_decoder_cons fixed_int.prefix_decoder_axioms
  int_lenenc.prefix_decoder_axioms string_fixed.prefix_decoder_axioms
  string_null.prefix_decoder_axioms string_lenenc.prefix_decoder_axioms prefix_decoder_enum

lemmas decoder_intros = prefix_decoder_intros [THEN prefix_decoder.axioms(1)]

section \<open>Properties\<close>

text \<open>
  C39: a length-encoded integer is serialized without leaving the buffer \<open>get_size\<close> asks for, the
  bytes read back to the same number, and every proper prefix of them is reported as incomplete.
\<close>
theorem int_lenenc_roundtrip:
  "\<exists>out. serialize_message serialize_int_lenenc get_size_int_lenenc v caps buffer = Some out \<and>
         deserialize_message deserialize_int_lenenc (make_ctx out caps) = Inr v \<and>
         (\<forall>k < length out. deserialize_message deserialize_int_lenenc (make_ctx (take k out) caps)
            = Inl (make_error_code incomplete_message))"
  by (rule exI [of _ "enc_int_lenenc caps v"])
    (simp del: incomplete_message_def add: int_lenenc.serialize_message_exact int_lenenc.deserialize_message_enc
      int_lenenc.deserialize_message_truncated)

lemma int_lenenc_roundtrip_witness:
  "\<exists>out. serialize_message serialize_int_lenenc get_size_int_lenenc 0x10000 (caps_of 0) [] = Some out \<and>
         deserialize_message deserialize_int_lenenc (make_ctx out (caps_of 0)) = Inr 0x10000"
  using int_lenenc_roundtrip [where v = "0x10000" and caps = "caps_of 0" and buffer = "[]"] by blast

text \<open>
  Strings that carry their length: whatever bytes they hold, zero bytes included, the
  serialized message reads back to the same string, and fed with any proper prefix the reader
  reports an incomplete message.
\<close>
theorem string_lenenc_roundtrip:
  assumes "in_memory s"
  shows "\<exists>out. serialize_message serialize_string_lenenc get_size_string_lenenc s caps buffer = Some out \<and>
         deserialize_message deserialize_string_lenenc (make_ctx out caps) = Inr s \<and>
         (\<forall>k < length out. deserialize_message deserialize_string_lenenc (make_ctx (take k out) caps)
            = Inl (make_error_code incomplete_message))"
  using assms
  by (intro exI [of _ "enc_string_lenenc caps s"])
    (simp del: incomplete_message_def add: string_lenenc.serialize_message_exact
      string_lenenc.deserialize_message_enc string_lenenc.deserialize_message_truncated)

lemma string_lenenc_roundtrip_witness:
  "\<exists>out. serialize_message serialize_string_lenenc get_size_string_lenenc [1, 0, 2] (caps_of 0) [] = Some out \<and>
         deserialize_message deserialize_string_lenenc (make_ctx out (caps_of 0)) = Inr [1, 0, 2]"
  using string_lenenc_roundtrip [of "[1, 0, 2]" "caps_of 0" "[]"] by (auto simp: in_memory_def size_t_max_def)

text \<open>
  No reader of a protocol type leaves the received buffer: whatever bytes the server sent,
  a successful read moves the cursor forward inside the buffer and changes nothing else of the
  context. The length a length-encoded string announces is covered.
\<close>
theorem string_lenenc_in_bounds:
  assumes "ctx_wf ctx" and "deserialize_string_lenenc ctx = Inr (s, ctx1)"
  shows "ctx_wf ctx1 \<and> ctx_buffer ctx1 = ctx_buffer ctx \<and> ctx_first ctx + length s < ctx_first ctx1 \<and>
         s = take (length s) (drop (ctx_first ctx1 - length s) (ctx_buffer ctx))"
proof -
  have wf: "ctx_wf ctx1" "ctx_buffer ctx1 = ctx_buffer ctx"
    using string_lenenc.deser_wf [OF assms(2,1)] string_lenenc.deser_frame [OF assms(2)] by auto
  obtain n c1 where 1: "deserialize_int_lenenc ctx = Inr (n, c1)"
      and len: "unat n \<le> length (remaining c1)" and s: "s = take (unat n) (remaining c1)"
      and c: "ctx1 = ctx_advance (unat n) c1"
    using assms(2) by (auto simp: deserialize_string_lenenc_def ctx_simps Let_def split: sum.splits if_splits)
  have lt: "ctx_first ctx < ctx_first c1"
    using 1 by (auto simp: deserialize_int_lenenc_def deserialize_fixed_int_def Let_def
        split: sum.splits if_splits)
  have "ctx_buffer c1 = ctx_buffer ctx" using int_lenenc.deser_frame [OF 1] by simp
  then show ?thesis using wf lt len s c by (simp add: remaining_def)
qed

lemma string_lenenc_in_bounds_witness:
  "ctx_wf (ctx_advance 3 (make_ctx [2, 7, 8, 9] (caps_of 0)))"
  using string_lenenc_in_bounds [of "make_ctx [2, 7, 8, 9] (caps_of 0)" "[7, 8]"
      "ctx_advance 3 (make_ctx [2, 7, 8, 9] (caps_of 0))"]
  by (simp add: deserialize_string_lenenc_def deserialize_int_lenenc_def deserialize_fixed_int_def ctx_simps
      size_t_max_def Let_def)

end
