(* ===== verification/Protocol_Constants.thy ===== *)
theory Protocol_Constants
  imports Protocol_Types
begin

text \<open>
  The constants of \<open>constants.hpp\<close>: field types on the wire, packet headers, column flags, and
  the sizes and ranges used by the text and binary value codecs.
\<close>

section \<open>Field types on the wire\<close>

text \<open>
  \<open>enum class protocol_field_type : std::uint8_t\<close>. The underlying type is fixed, so a byte
  received from the server that names no enumerator is still a value of the type:
  \<open>pft_other\<close>.
\<close>

datatype protocol_field_type =
  pft_decimal
  | pft_tiny
  | pft_short
  | pft_long
  | pft_float
  | pft_double
  | pft_null
  | pft_timestamp
  | pft_longlong
  | pft_int24
  | pft_date
  | pft_time
  | pft_datetime
  | pft_year
  | pft_varchar
  | pft_bit
  | pft_newdecimal
  | pft_enum
  | pft_set
  | pft_tiny_blob
  | pft_medium_blob
  | pft_long_blob
  | pft_blob
  | pft_var_string
  | pft_string
  | pft_geometry
  | pft_other u8

text \<open>\<open>static_cast\<close> from and to the underlying byte.\<close>

fun protocol_field_type_byte :: "protocol_field_type \<Rightarrow> u8" where
  "protocol_field_type_byte pft_decimal = 0x0"
| "protocol_field_type_byte pft_tiny = 0x1"
| "protocol_field_type_byte pft_short = 0x2"
| "protocol_field_type_byte pft_long = 0x3"
| "protocol_field_type_byte pft_float = 0x4"
| "protocol_field_type_byte pft_double = 0x5"
| "protocol_field_type_byte pft_null = 0x6"
| "protocol_field_type_byte pft_timestamp = 0x7"
| "protocol_field_type_byte pft_longlong = 0x8"
| "protocol_field_type_byte pft_int24 = 0x9"
| "protocol_field_type_byte pft_date = 0xa"
| "protocol_field_type_byte pft_time = 0xb"
| "protocol_field_type_byte pft_datetime = 0xc"
| "protocol_field_type_byte pft_year = 0xd"
| "protocol_field_type_byte pft_varchar = 0xf"
| "protocol_field_type_byte pft_bit = 0x10"
| "protocol_field_type_byte pft_newdecimal = 0xf6"
| "protocol_field_type_byte pft_enum = 0xf7"
| "protocol_field_type_byte pft_set = 0xf8"
| "protocol_field_type_byte pft_tiny_blob = 0xf9"
| "protocol_field_type_byte pft_medium_blob = 0xfa"
| "protocol_field_type_byte pft_long_blob = 0xfb"
| "protocol_field_type_byte pft_blob = 0xfc"
| "protocol_field_type_byte pft_var_string = 0xfd"
| "protocol_field_type_byte pft_string = 0xfe"
| "protocol_field_type_byte pft_geometry = 0xff"
| "protocol_field_type_byte (pft_other b) = b"

definition protocol_field_types :: "protocol_field_type list" where
  "protocol_field_types =
    [pft_decimal, pft_tiny, pft_short, pft_long, pft_float, pft_double,
     pft_null, pft_timestamp, pft_longlong, pft_int24, pft_date, pft_time,
     pft_datetime, pft_year, pft_varchar, pft_bit, pft_newdecimal, pft_enum,
     pft_set, pft_tiny_blob, pft_medium_blob, pft_long_blob, pft_blob, pft_var_string,
     pft_string, pft_geometry]"

definition protocol_field_type_of :: "u8 \<Rightarrow> protocol_field_type" where
  "protocol_field_type_of b =
     (case find (\<lambda>t. protocol_field_type_byte t = b) protocol_field_types of
        Some t \<Rightarrow> t | None \<Rightarrow> pft_other b)"

lemma protocol_field_type_byte_of [simp]: "protocol_field_type_byte (protocol_field_type_of b) = b"
  by (auto simp: protocol_field_type_of_def find_Some_iff split: option.split)

lemma distinct_protocol_field_types: "distinct (map protocol_field_type_byte protocol_field_types)"
  by code_simp

lemma protocol_field_type_of_byte:
  "t \<in> set protocol_field_types \<Longrightarrow> protocol_field_type_of (protocol_field_type_byte t) = t"
  by (simp add: protocol_field_type_of_def find_key [OF distinct_protocol_field_types])

section \<open>Packets\<close>

definition MAX_PACKET_SIZE :: nat where
  "MAX_PACKET_SIZE = 0xffffff"

definition handshake_protocol_version_9 :: u8 where
  [simp]: "handshake_protocol_version_9 = 9"
definition handshake_protocol_version_10 :: u8 where
  [simp]: "handshake_protocol_version_10 = 10"
definition error_packet_header :: u8 where
  [simp]: "error_packet_header = 0xff"
definition ok_packet_header :: u8 where
  [simp]: "ok_packet_header = 0"
definition eof_packet_header :: u8 where
  [simp]: "eof_packet_header = 0xfe"
definition auth_switch_request_header :: u8 where
  [simp]: "auth_switch_request_header = 0xfe"
definition auth_more_data_header :: u8 where
  [simp]: "auth_more_data_header = 1"
definition fast_auth_complete_challenge :: bytes where
  "fast_auth_complete_challenge = [3]"

section \<open>Column flags\<close>

definition flag_not_null :: u16 where
  "flag_not_null = 1"
definition flag_pri_key :: u16 where
  "flag_pri_key = 2"
definition flag_unique_key :: u16 where
  "flag_unique_key = 4"
definition flag_multiple_key :: u16 where
  "flag_multiple_key = 8"
definition flag_unsigned :: u16 where
  "flag_unsigned = 32"
definition flag_zerofill :: u16 where
  "flag_zerofill = 64"
definition flag_binary :: u16 where
  "flag_binary = 128"
definition flag_enum :: u16 where
  "flag_enum = 256"
definition flag_auto_increment :: u16 where
  "flag_auto_increment = 512"
definition flag_set :: u16 where
  "flag_set = 2048"
definition flag_no_default_value :: u16 where
  "flag_no_default_value = 4096"
definition flag_on_update_now :: u16 where
  "flag_on_update_now = 8192"

lemmas column_flag_defs =
  flag_not_null_def flag_pri_key_def flag_unique_key_def flag_multiple_key_def
  flag_unsigned_def flag_zerofill_def flag_binary_def flag_enum_def
  flag_auto_increment_def flag_set_def flag_no_default_value_def flag_on_update_now_def

section \<open>Sizes and ranges of the value codecs\<close>

text \<open>\<open>textc\<close>: the text protocol. \<open>binc\<close>: the binary protocol. Ranges common to both.\<close>

definition textc_max_decimals :: nat where
  [simp]: "textc_max_decimals = 6"
definition textc_date_sz :: nat where
  [simp]: "textc_date_sz = 4 + 2 + 2 + 2"
definition textc_time_min_sz :: nat where
  [simp]: "textc_time_min_sz = 2 + 2 + 2 + 2"
definition textc_time_max_sz :: nat where
  [simp]: "textc_time_max_sz = textc_time_min_sz + textc_max_decimals + 3"
definition textc_datetime_min_sz :: nat where
  [simp]: "textc_datetime_min_sz = textc_date_sz + textc_time_min_sz + 1"
definition textc_datetime_max_sz :: nat where
  [simp]: "textc_datetime_max_sz = textc_datetime_min_sz + textc_max_decimals + 1"
definition textc_time_max_hour :: nat where
  [simp]: "textc_time_max_hour = 838"

definition binc_length_sz :: nat where
  [simp]: "binc_length_sz = 1"
definition binc_date_sz :: nat where
  [simp]: "binc_date_sz = 2 + 1 + 1"
definition binc_datetime_d_sz :: nat where
  [simp]: "binc_datetime_d_sz = binc_date_sz"
definition binc_datetime_dhms_sz :: nat where
  [simp]: "binc_datetime_dhms_sz = binc_datetime_d_sz + 1 + 1 + 1"
definition binc_datetime_dhmsu_sz :: nat where
  [simp]: "binc_datetime_dhmsu_sz = binc_datetime_dhms_sz + 4"
definition binc_time_dhms_sz :: nat where
  [simp]: "binc_time_dhms_sz = 1 + 4 + 1 + 1 + 1"
definition binc_time_dhmsu_sz :: nat where
  [simp]: "binc_time_dhmsu_sz = binc_time_dhms_sz + 4"
definition binc_time_max_days :: nat where
  [simp]: "binc_time_max_days = 34"

definition max_year :: nat where
  [simp]: "max_year = 9999"
definition max_month :: nat where
  [simp]: "max_month = 12"
definition max_day :: nat where
  [simp]: "max_day = 31"
definition max_hour :: nat where
  [simp]: "max_hour = 23"
definition max_min :: nat where
  [simp]: "max_min = 59"
definition max_sec :: nat where
  [simp]: "max_sec = 59"
definition max_micro :: nat where
  [simp]: "max_micro = 999999"

end
