(* ===== verification/Common_Messages.thy ===== *)
theory Common_Messages
  imports Protocol_Constants
begin

text \<open>
  The messages of \<open>common_messages.hpp\<close>: packet header, OK packet, error packet, column
  definition and the quit command, with \<open>process_error_packet\<close>. Messages the client only
  receives have no serializer in the code; the encodings given for them here are the layouts
  of the protocol, against which the parsers are proved.
\<close>

section \<open>Packet header\<close>

record packet_header =
  packet_size :: u32
  sequence_number :: u8

definition packet_header_fields :: "packet_header \<Rightarrow> u32 \<times> u8 \<times> unit" where
  "packet_header_fields h = (packet_size h, sequence_number h, ())"

definition packet_header_of :: "u32 \<times> u8 \<times> unit \<Rightarrow> packet_header" where
  "packet_header_of = (\<lambda>(sz, seq, _). \<lparr>packet_size = sz, sequence_number = seq\<rparr>)"

definition deserialize_packet_header :: "packet_header deser" where
  "deserialize_packet_header =
     deserialize_struct packet_header_of
       (deserialize_cons (deserialize_fixed_int int3) (deserialize_cons (deserialize_fixed_int int1) deserialize_nil))"

definition serialize_packet_header :: "packet_header ser" where
  "serialize_packet_header =
     serialize_struct packet_header_fields
       (serialize_cons (serialize_fixed_int int3) (serialize_cons (serialize_fixed_int int1) serialize_nil))"

definition get_size_packet_header :: "packet_header sizer" where
  "get_size_packet_header =
     get_size_struct packet_header_fields
       (get_size_cons (get_size_fixed_int int3) (get_size_cons (get_size_fixed_int int1) get_size_nil))"

definition enc_packet_header :: "packet_header encoding" where
  "enc_packet_header caps h = le_bytes 3 (packet_size h) @ [sequence_number h]"

definition packet_header_wf :: "packet_header \<Rightarrow> bool" where
  "packet_header_wf h \<longleftrightarrow> unat (packet_size h) \<le> MAX_PACKET_SIZE"

lemma enc_packet_header_eq:
  "enc_packet_header = enc_struct packet_header_fields
     (enc_cons (enc_fixed_int int3) (enc_cons (enc_fixed_int int1) enc_nil))"
  by (rule ext)+ (simp add: enc_packet_header_def enc_struct_def enc_cons_def enc_nil_def
    enc_fixed_int_def packet_header_fields_def)

lemma packet_header_wf_eq:
  "packet_header_wf = (\<lambda>h. wf_cons (fits_int int3) (wf_cons (fits_int int1) (\<lambda>_. True)) (packet_header_fields h))"
  by (rule ext) (auto simp: packet_header_wf_def wf_cons_def packet_header_fields_def fits_int3
    MAX_PACKET_SIZE_def)

interpretation packet_header: serializer serialize_packet_header get_size_packet_header enc_packet_header
  unfolding serialize_packet_header_def get_size_packet_header_def enc_packet_header_eq
  by (intro serializer_struct serializer_intros)

interpretation packet_header: prefix_decoder deserialize_packet_header enc_packet_header packet_header_wf
  unfolding deserialize_packet_header_def enc_packet_header_eq packet_header_wf_eq
  by (intro prefix_decoder_struct prefix_decoder_intros)
    (simp add: packet_header_of_def packet_header_fields_def)

interpretation packet_header: codec deserialize_packet_header serialize_packet_header
    get_size_packet_header enc_packet_header packet_header_wf ..

section \<open>OK packet\<close>

record ok_packet =
  ok_affected_rows :: u64
  ok_last_insert_id :: u64
  ok_status_flags :: u16
  ok_warnings :: u16
  ok_info :: bytes

definition default_ok_packet :: ok_packet where
  "default_ok_packet =
     \<lparr>ok_affected_rows = 0, ok_last_insert_id = 0, ok_status_flags = 0, ok_warnings = 0, ok_info = []\<rparr>"

text \<open>
  The trailing message may be omitted; then the \<open>info\<close> member of the output keeps the value it
  had, which is why the output packet is an argument.
\<close>

definition deserialize_ok_fixed :: "(u64 \<times> u64 \<times> u16 \<times> u16 \<times> unit) deser" where
  "deserialize_ok_fixed =
     deserialize_cons deserialize_int_lenenc (deserialize_cons deserialize_int_lenenc
       (deserialize_cons (deserialize_fixed_int int2) (deserialize_cons (deserialize_fixed_int int2)
         deserialize_nil)))"

definition deserialize_ok_packet :: "ok_packet \<Rightarrow> ok_packet deser" where
  "deserialize_ok_packet output ctx =
     (case deserialize_ok_fixed ctx of
        Inl err \<Rightarrow> Inl err
      | Inr ((rows, ins, flags, warns, _), ctx1) \<Rightarrow>
          let output1 = output\<lparr>ok_affected_rows := rows, ok_last_insert_id := ins,
                               ok_status_flags := flags, ok_warnings := warns\<rparr>
          in if enough_size ctx1 1 then
               (case deserialize_string_lenenc ctx1 of
                  Inl err \<Rightarrow> Inl err
                | Inr (info, ctx2) \<Rightarrow> Inr (output1\<lparr>ok_info := info\<rparr>, ctx2))
             else Inr (output1, ctx1))"

definition enc_ok_fixed :: "ok_packet \<Rightarrow> bytes" where
  "enc_ok_fixed p =
     enc_int_lenenc (caps_of 0) (ok_affected_rows p) @ enc_int_lenenc (caps_of 0) (ok_last_insert_id p) @
     le_bytes 2 (ok_status_flags p) @ le_bytes 2 (ok_warnings p)"

definition enc_ok_packet :: "ok_packet \<Rightarrow> bytes" where
  "enc_ok_packet p = enc_ok_fixed p @ enc_string_lenenc (caps_of 0) (ok_info p)"

lemma ok_fixed_decoder:
  "decoder deserialize_ok_fixed
     (enc_cons enc_int_lenenc (enc_cons enc_int_lenenc
       (enc_cons (enc_fixed_int int2) (enc_cons (enc_fixed_int int2) enc_nil))))
     (wf_cons (\<lambda>_. True) (wf_cons (\<lambda>_. True) (wf_cons (fits_int int2) (wf_cons (fits_int int2) (\<lambda>_. True)))))"
  unfolding deserialize_ok_fixed_def by (intro decoder_intros decoder_cons decoder_nil)

lemma enc_int_lenenc_caps: "enc_int_lenenc caps v = enc_int_lenenc caps' v"
  by (simp add: enc_int_lenenc_def)

lemma enc_string_lenenc_caps: "enc_string_lenenc caps v = enc_string_lenenc caps' v"
  by (simp add: enc_string_lenenc_def enc_int_lenenc_caps [of caps _ caps'])

lemma deserialize_ok_fixed_enc:
  assumes "remaining ctx = enc_ok_fixed p @ rest"
  shows "deserialize_ok_fixed ctx =
     Inr ((ok_affected_rows p, ok_last_insert_id p, ok_status_flags p, ok_warnings p, ()),
          ctx_advance (length (enc_ok_fixed p)) ctx)"
  using decoder.deser_enc [OF ok_fixed_decoder, of
      "(ok_affected_rows p, ok_last_insert_id p, ok_status_flags p, ok_warnings p, ())" ctx rest] assms
  by (simp add: enc_ok_fixed_def enc_cons_def enc_nil_def wf_cons_def enc_fixed_int_def
      enc_int_lenenc_caps [of "ctx_caps ctx" _ "caps_of 0"])

text \<open>
  Every OK packet of the protocol is understood, with or without its trailing message, whatever
  capabilities are in force.
\<close>

lemma deserialize_ok_packet_enc:
  assumes "in_memory (ok_info p)" and "remaining ctx = enc_ok_packet p @ rest"
  shows "deserialize_ok_packet out ctx = Inr (p, ctx_advance (length (enc_ok_packet p)) ctx)"
proof -
  let ?c = "ctx_advance (length (enc_ok_fixed p)) ctx"
  have fx: "deserialize_ok_fixed ctx =
     Inr ((ok_affected_rows p, ok_last_insert_id p, ok_status_flags p, ok_warnings p, ()), ?c)"
    using assms(2) by (intro deserialize_ok_fixed_enc) (simp add: enc_ok_packet_def)
  have "enc_string_lenenc (caps_of 0) (ok_info p) \<noteq> []"
    by (simp add: enc_string_lenenc_def enc_int_lenenc_def)
  then have "Suc 0 \<le> length (enc_string_lenenc (caps_of 0) (ok_info p) @ rest)"
    by (cases "enc_string_lenenc (caps_of 0) (ok_info p)") simp_all
  moreover have "remaining ?c = enc_string_lenenc (ctx_caps ?c) (ok_info p) @ rest"
    using assms(2) by (simp add: enc_ok_packet_def enc_string_lenenc_caps [of "ctx_caps ctx" _ "caps_of 0"])
  ultimately show ?thesis
    using string_lenenc.deser_enc [OF assms(1), of ?c rest] fx
    by (simp add: deserialize_ok_packet_def ctx_simps enc_ok_packet_def
        enc_string_lenenc_caps [of "ctx_caps ctx" _ "caps_of 0"])
qed

lemma deserialize_ok_packet_no_info:
  assumes "remaining ctx = enc_ok_fixed p"
  shows "deserialize_ok_packet out ctx =
     Inr (p\<lparr>ok_info := ok_info out\<rparr>, ctx_advance (length (enc_ok_fixed p)) ctx)"
  using deserialize_ok_fixed_enc [of ctx p "[]"] assms
  by (simp add: deserialize_ok_packet_def ctx_simps)

interpretation ok_packet: reader "deserialize_ok_packet out" for out
proof (unfold_locales, goal_cases)
  case (1 ctx x ctx1)
  have "reader deserialize_ok_fixed"
    by (rule decoder.axioms(1) [OF ok_fixed_decoder])
  with 1 show ?case
    by (auto simp: deserialize_ok_packet_def Let_def split: sum.splits if_splits
        dest!: reader.deser_step string_lenenc.deser_step intro: ctx_step_trans)
qed

section \<open>Error packet\<close>

record err_packet =
  err_error_code :: u16
  err_sql_state_marker :: bytes
  err_sql_state :: bytes
  err_error_message :: bytes

definition err_packet_fields :: "err_packet \<Rightarrow> u16 \<times> bytes \<times> bytes \<times> bytes \<times> unit" where
  "err_packet_fields p =
     (err_error_code p, err_sql_state_marker p, err_sql_state p, err_error_message p, ())"

definition err_packet_of :: "u16 \<times> bytes \<times> bytes \<times> bytes \<times> unit \<Rightarrow> err_packet" where
  "err_packet_of = (\<lambda>(code, marker, state, msg, _).
     \<lparr>err_error_code = code, err_sql_state_marker = marker, err_sql_state = state, err_error_message = msg\<rparr>)"

definition deserialize_err_packet :: "err_packet deser" where
  "deserialize_err_packet =
     deserialize_struct err_packet_of
       (deserialize_cons (deserialize_fixed_int int2) (deserialize_cons (deserialize_string_fixed 1)
         (deserialize_cons (deserialize_string_fixed 5) (deserialize_cons deserialize_string_eof
           deserialize_nil))))"

definition enc_err_packet :: "err_packet encoding" where
  "enc_err_packet caps p =
     le_bytes 2 (err_error_code p) @ err_sql_state_marker p @ err_sql_state p @ err_error_message p"

definition process_error_packet :: "deserialization_context \<Rightarrow> error_info \<Rightarrow> error_code \<times> error_info" where
  "process_error_packet ctx info =
     (case deserialize_message deserialize_err_packet ctx of
        Inl code \<Rightarrow> (code, info)
      | Inr p \<Rightarrow> (make_error_code (Errc (uint (err_error_code p))), set_message (err_error_message p) info))"

definition err_packet_wf :: "err_packet \<Rightarrow> bool" where
  "err_packet_wf p \<longleftrightarrow> length (err_sql_state_marker p) = 1 \<and> length (err_sql_state p) = 5"

interpretation err_packet: final_decoder deserialize_err_packet enc_err_packet err_packet_wf
proof -
  have d: "final_decoder deserialize_err_packet
     (enc_struct err_packet_fields (enc_cons (enc_fixed_int int2) (enc_cons (enc_string_fixed 1)
       (enc_cons (enc_string_fixed 5) (enc_cons enc_string_eof enc_nil)))))
     (\<lambda>p. wf_cons (fits_int int2) (wf_cons (\<lambda>s. length s = 1) (wf_cons (\<lambda>s. length s = 5)
       (wf_cons (\<lambda>_. True) (\<lambda>_. True)))) (err_packet_fields p))"
    unfolding deserialize_err_packet_def
    by (intro final_decoder_struct final_decoder_cons final_decoder_last decoder_intros
        string_eof.final_decoder_axioms)
      (simp add: err_packet_of_def err_packet_fields_def)
  show "final_decoder deserialize_err_packet enc_err_packet err_packet_wf"
    using d
    by (simp add: final_decoder_def final_decoder_axioms_def enc_struct_def enc_cons_def enc_nil_def
        enc_fixed_int_def enc_string_fixed_def enc_string_eof_def wf_cons_def err_packet_fields_def
        err_packet_wf_def enc_err_packet_def resize_def)
qed

text \<open>What an error packet of the protocol turns into.\<close>

lemma process_error_packet_enc:
  "err_packet_wf p \<Longrightarrow> ctx_wf ctx \<Longrightarrow> remaining ctx = enc_err_packet (ctx_caps ctx) p \<Longrightarrow>
   process_error_packet ctx info
     = (make_error_code (Errc (uint (err_error_code p))), \<lparr>ei_msg = err_error_message p\<rparr>)"
  by (simp add: process_error_packet_def err_packet.deserialize_message_enc set_message_def)

text \<open>
  The code is an error for every packet but one: the number 0, which no MySQL server is meant
  to send, gives a code that is not a failure.
\<close>

lemma process_error_packet_failed:
  assumes "process_error_packet ctx info = (code, info1)"
  shows "failed code \<longleftrightarrow>
    (\<forall>p. deserialize_message deserialize_err_packet ctx = Inr p \<longrightarrow> err_error_code p \<noteq> 0)"
proof (cases "deserialize_message deserialize_err_packet ctx")
  case (Inl c)
  then have "failed c"
    by (auto simp: deserialize_message_def deserialize_err_packet_def deserialize_struct_def
        deserialize_cons_def deserialize_nil_def deserialize_fixed_int_def deserialize_string_fixed_def
        deserialize_string_eof_def Let_def split: sum.splits if_splits)
  then show ?thesis using assms Inl by (simp add: process_error_packet_def)
next
  case (Inr p)
  then show ?thesis using assms by (auto simp: process_error_packet_def uint_0_iff)
qed

section \<open>Column definition\<close>

text \<open>\<open>enum class collation : std::uint16_t\<close>, by its number.\<close>

type_synonym collation = u16

record column_definition_packet =
  cd_catalog :: bytes
  cd_schema :: bytes
  cd_table :: bytes
  cd_org_table :: bytes
  cd_name :: bytes
  cd_org_name :: bytes
  cd_character_set :: collation
  cd_column_length :: u32
  cd_type :: protocol_field_type
  cd_flags :: u16
  cd_decimals :: u8

text \<open>
  The length of the fixed fields and the final padding are read into locals and not looked at.
\<close>

definition column_definition_of ::
    "bytes \<times> bytes \<times> bytes \<times> bytes \<times> bytes \<times> bytes \<times> u64 \<times> u16 \<times> u32 \<times> protocol_field_type \<times> u16 \<times> u8 \<times> u16 \<times> unit
     \<Rightarrow> column_definition_packet" where
  "column_definition_of =
     (\<lambda>(catalog, schema, tbl, org_tbl, nam, org_nam, _, charset, len, typ, flags, decimals, _, _).
        \<lparr>cd_catalog = catalog, cd_schema = schema, cd_table = tbl, cd_org_table = org_tbl,
         cd_name = nam, cd_org_name = org_nam, cd_character_set = charset, cd_column_length = len,
         cd_type = typ, cd_flags = flags, cd_decimals = decimals\<rparr>)"

definition deserialize_column_definition :: "column_definition_packet deser" where
  "deserialize_column_definition =
     deserialize_struct column_definition_of
       (deserialize_cons deserialize_string_lenenc
       (deserialize_cons deserialize_string_lenenc
       (deserialize_cons deserialize_string_lenenc
       (deserialize_cons deserialize_string_lenenc
       (deserialize_cons deserialize_string_lenenc
       (deserialize_cons deserialize_string_lenenc
       (deserialize_cons deserialize_int_lenenc
       (deserialize_cons (deserialize_enum (\<lambda>w. w) int2)
       (deserialize_cons (deserialize_fixed_int int4)
       (deserialize_cons (deserialize_enum protocol_field_type_of int1)
       (deserialize_cons (deserialize_fixed_int int2)
       (deserialize_cons (deserialize_fixed_int int1)
       (deserialize_cons (deserialize_fixed_int int2) deserialize_nil)))))))))))))"

text \<open>The layout of a column definition: 12 bytes of fixed fields and two bytes of padding.\<close>

definition enc_column_definition :: "column_definition_packet encoding" where
  "enc_column_definition caps p =
     enc_string_lenenc caps (cd_catalog p) @ enc_string_lenenc caps (cd_schema p) @
     enc_string_lenenc caps (cd_table p) @ enc_string_lenenc caps (cd_org_table p) @
     enc_string_lenenc caps (cd_name p) @ enc_string_lenenc caps (cd_org_name p) @
     enc_int_lenenc caps 0x0c @ le_bytes 2 (cd_character_set p) @ le_bytes 4 (cd_column_length p) @
     [protocol_field_type_byte (cd_type p)] @ le_bytes 2 (cd_flags p) @ [cd_decimals p] @ [0, 0]"

text \<open>
  A field type that was read from a byte is an enumerator wherever one has that byte; strings
  fit in memory.
\<close>

definition column_definition_wf :: "column_definition_packet \<Rightarrow> bool" where
  "column_definition_wf p \<longleftrightarrow>
     in_memory (cd_catalog p) \<and> in_memory (cd_schema p) \<and> in_memory (cd_table p) \<and>
     in_memory (cd_org_table p) \<and> in_memory (cd_name p) \<and> in_memory (cd_org_name p) \<and>
     protocol_field_type_of (protocol_field_type_byte (cd_type p)) = cd_type p"

definition column_definition_fields where
  "column_definition_fields p =
     (cd_catalog p, cd_schema p, cd_table p, cd_org_table p, cd_name p, cd_org_name p, 0x0c :: u64,
      cd_character_set p, cd_column_length p, cd_type p, cd_flags p, cd_decimals p, 0 :: u16, ())"

interpretation column_definition: prefix_decoder deserialize_column_definition
    enc_column_definition column_definition_wf
proof -
  have d: "prefix_decoder deserialize_column_definition
     (enc_struct column_definition_fields
       (enc_cons enc_string_lenenc (enc_cons enc_string_lenenc (enc_cons enc_string_lenenc
       (enc_cons enc_string_lenenc (enc_cons enc_string_lenenc (enc_cons enc_string_lenenc
       (enc_cons enc_int_lenenc (enc_cons (enc_enum (\<lambda>w. w) int2) (enc_cons (enc_fixed_int int4)
       (enc_cons (enc_enum protocol_field_type_byte int1) (enc_cons (enc_fixed_int int2)
       (enc_cons (enc_fixed_int int1) (enc_cons (enc_fixed_int int2) enc_nil))))))))))))))
     (\<lambda>p. wf_cons in_memory (wf_cons in_memory (wf_cons in_memory (wf_cons in_memory
       (wf_cons in_memory (wf_cons in_memory (wf_cons (\<lambda>_. True) (wf_cons (\<lambda>x. x = x)
       (wf_cons (fits_int int4)
       (wf_cons (\<lambda>t. protocol_field_type_of (protocol_field_type_byte t) = t)
       (wf_cons (fits_int int2) (wf_cons (fits_int int1) (wf_cons (fits_int int2) (\<lambda>_. True)))))))))))))
       (column_definition_fields p))"
    unfolding deserialize_column_definition_def
    by (intro prefix_decoder_struct prefix_decoder_intros)
      (simp_all add: column_definition_of_def column_definition_fields_def)
  have e: "enc_struct column_definition_fields
       (enc_cons enc_string_lenenc (enc_cons enc_string_lenenc (enc_cons enc_string_lenenc
       (enc_cons enc_string_lenenc (enc_cons enc_string_lenenc (enc_cons enc_string_lenenc
       (enc_cons enc_int_lenenc (enc_cons (enc_enum (\<lambda>w. w) int2) (enc_cons (enc_fixed_int int4)
       (enc_cons (enc_enum protocol_field_type_byte int1) (enc_cons (enc_fixed_int int2)
       (enc_cons (enc_fixed_int int1) (enc_cons (enc_fixed_int int2) enc_nil)))))))))))))
     = enc_column_definition"
    by (rule ext)+ (simp add: enc_column_definition_def enc_struct_def enc_cons_def enc_nil_def
      enc_fixed_int_def enc_enum_def column_definition_fields_def le_bytes_numeral)
  show "prefix_decoder deserialize_column_definition enc_column_definition column_definition_wf"
    using d unfolding e by (simp add: wf_cons_def column_definition_fields_def column_definition_wf_def [abs_def] conj_assoc)
qed

section \<open>Quit\<close>

text \<open>
  \<open>quit_packet\<close> has no fields. A command is its \<open>command_id\<close> byte followed by its struct.
\<close>

definition serialize_command :: "u8 \<Rightarrow> 'a ser \<Rightarrow> 'a ser" where
  "serialize_command command_id s ctx input =
     Option.bind (serialize_fixed_int int1 ctx command_id) (\<lambda>ctx1. s ctx1 input)"

definition get_size_command :: "'a sizer \<Rightarrow> 'a sizer" where
  "get_size_command z ctx input = 1 + z ctx input"

definition enc_command :: "u8 \<Rightarrow> 'a encoding \<Rightarrow> 'a encoding" where
  "enc_command command_id e caps x = command_id # e caps x"

lemma serializer_command:
  assumes "serializer s z e"
  shows "serializer (serialize_command cmd s) (get_size_command z) (enc_command cmd e)"
proof
  fix ctx :: serialization_context and x
  have "serialize_command cmd s ctx x
      = Option.bind (sctx_write [cmd] ctx) (sctx_write (e (sctx_caps ctx) x))"
    using assms
    by (cases "sctx_write [cmd] ctx")
      (simp_all add: serialize_command_def serialize_fixed_int_def serializer.ser_enc sctx_write_caps)
  then show "serialize_command cmd s ctx x = sctx_write (enc_command cmd e (sctx_caps ctx) x) ctx"
    by (simp add: sctx_write_append enc_command_def)
  show "get_size_command z ctx x = length (enc_command cmd e (sctx_caps ctx) x)"
    using assms by (simp add: get_size_command_def enc_command_def serializer.sz_enc)
qed

definition quit_command_id :: u8 where
  "quit_command_id = 1"

definition serialize_quit_packet :: "unit ser" where
  "serialize_quit_packet = serialize_command quit_command_id serialize_nil"

definition get_size_quit_packet :: "unit sizer" where
  "get_size_quit_packet = get_size_command get_size_nil"

interpretation quit_packet: serializer serialize_quit_packet get_size_quit_packet
    "enc_command quit_command_id enc_nil"
  unfolding serialize_quit_packet_def get_size_quit_packet_def
  by (intro serializer_command serializer_intros)

section \<open>Properties\<close>

text \<open>
  The OK packet of the protocol is understood in both its forms: with its trailing message,
  and without it, when the message of the output packet keeps the value it had. Reading stops
  at the end of the packet and anything after it is reported.
\<close>
theorem ok_packet_understood:
  assumes "in_memory (ok_info p)"
  shows "deserialize_message (deserialize_ok_packet old) (make_ctx (enc_ok_fixed p) caps)
      = Inr (p\<lparr>ok_info := ok_info old\<rparr>) \<and>
    deserialize_message (deserialize_ok_packet old) (make_ctx (enc_ok_packet p @ rest) caps)
      = (if rest = [] then Inr p else Inl (make_error_code extra_bytes))"
  using assms
  by (simp_all del: extra_bytes_def add: deserialize_message_def deserialize_ok_packet_no_info
      deserialize_ok_packet_enc [where rest = rest] ctx_simps ctx_wf_advance)

lemma ok_packet_understood_witness:
  "deserialize_message (deserialize_ok_packet default_ok_packet) (make_ctx (enc_ok_fixed default_ok_packet) (caps_of 0))
     = Inr default_ok_packet"
  using ok_packet_understood [of default_ok_packet default_ok_packet]
  by (simp add: default_ok_packet_def in_memory_def)

text \<open>
  C30: an error packet becomes the error code it carries, with its message as extended
  information; whatever the packet, the result is a failure exactly when it cannot be parsed or
  its code is not 0. A packet that carries code 0 is reported as success.
\<close>
theorem error_packet_result:
  assumes "ctx_wf ctx" and "process_error_packet ctx info = (code, info1)"
  shows "(err_packet_wf p \<and> remaining ctx = enc_err_packet (ctx_caps ctx) p \<longrightarrow>
          code = make_error_code (Errc (uint (err_error_code p))) \<and> ei_msg info1 = err_error_message p) \<and>
    (failed code \<longleftrightarrow>
       (\<forall>p. deserialize_message deserialize_err_packet ctx = Inr p \<longrightarrow> err_error_code p \<noteq> 0))"
  using process_error_packet_enc [OF _ assms(1)] assms(2) process_error_packet_failed [OF assms(2)]
  by auto

lemma error_packet_result_witness:
  "\<not> failed (fst (process_error_packet
       (make_ctx (enc_err_packet (caps_of 0) (err_packet_of (0, [0x23], [0x48, 0x59, 0x30, 0x30, 0x30], [0x78], ()))) (caps_of 0))
       empty_info))"
  using error_packet_result [of "make_ctx (enc_err_packet (caps_of 0) (err_packet_of (0, [0x23], [0x48, 0x59, 0x30, 0x30, 0x30], [0x78], ()))) (caps_of 0)"
      empty_info _ _ "err_packet_of (0, [0x23], [0x48, 0x59, 0x30, 0x30, 0x30], [0x78], ())"]
  by (cases "process_error_packet
       (make_ctx (enc_err_packet (caps_of 0) (err_packet_of (0, [0x23], [0x48, 0x59, 0x30, 0x30, 0x30], [0x78], ()))) (caps_of 0))
       empty_info") (simp add: err_packet_wf_def err_packet_of_def)

text \<open>
  C31: column definitions as the server lays them out are read back field by field, are refused
  as incomplete when the packet ends early, and as having extra bytes when it does not end where
  the definition does.
\<close>
theorem column_definition_understood:
  assumes "column_definition_wf p"
  shows "deserialize_message deserialize_column_definition (make_ctx (enc_column_definition caps p @ rest) caps)
      = (if rest = [] then Inr p else Inl (make_error_code extra_bytes)) \<and>
    (\<forall>k < length (enc_column_definition caps p).
      deserialize_message deserialize_column_definition (make_ctx (take k (enc_column_definition caps p)) caps)
      = Inl (make_error_code incomplete_message))"
  using assms
  by (simp del: incomplete_message_def extra_bytes_def
      add: column_definition.deserialize_message_enc column_definition.deserialize_message_truncated
        column_definition.deserialize_message_extra)

definition sample_column :: column_definition_packet where
  "sample_column = \<lparr>cd_catalog = [0x64, 0x65, 0x66], cd_schema = [0x61], cd_table = [0x74],
     cd_org_table = [0x74], cd_name = [0x66], cd_org_name = [0x66], cd_character_set = 33,
     cd_column_length = 255, cd_type = pft_var_string, cd_flags = 0, cd_decimals = 0\<rparr>"

lemma column_definition_understood_witness:
  "deserialize_message deserialize_column_definition
     (make_ctx (enc_column_definition (caps_of 0) sample_column) (caps_of 0)) = Inr sample_column"
  using column_definition_understood [of sample_column "caps_of 0" "[]"]
  by (simp add: column_definition_wf_def sample_column_def in_memory_def size_t_max_def
      protocol_field_type_of_def protocol_field_types_def)

end
