(* ===== verification/Streams.thy ===== *)
theory Streams
  imports Contexts
begin

text \<open>
  The stream under a connection. The stream template argument and the TLS engine of the network
  library are not part of the program: they are a record of operations, and what the client
  relies on is stated as a predicate on that record.
\<close>

section \<open>The operations used\<close>

text \<open>
  \<open>boost::asio::read\<close> and \<open>boost::asio::write\<close> over the plain or the TLS stream (the flag), with
  the bytes transferred and the error code they report; the asynchronous versions deliver the
  same results to their handler. The TLS handshake, and, for sockets, \<open>shutdown\<close>, \<open>close\<close> and
  \<open>is_open\<close>.
\<close>

record 's stream_ops =
  so_read :: "bool \<Rightarrow> nat \<Rightarrow> 's \<Rightarrow> bytes \<times> error_code \<times> 's"
  so_write :: "bool \<Rightarrow> bytes \<Rightarrow> 's \<Rightarrow> nat \<times> error_code \<times> 's"
  so_ssl_handshake :: "'s \<Rightarrow> error_code \<times> 's"
  so_shutdown :: "'s \<Rightarrow> error_code \<times> 's"
  so_close :: "'s \<Rightarrow> error_code \<times> 's"
  so_is_open :: "'s \<Rightarrow> bool"

text \<open>
  What the documentation of the composed operations promises, over two observations: the bytes
  the peer has yet to deliver, and what was written, a write at a time, with the flag telling
  whether it went through TLS. Either the whole buffer was transferred or the code is an error.
\<close>

definition byte_stream :: "'s stream_ops \<Rightarrow> ('s \<Rightarrow> bytes) \<Rightarrow> ('s \<Rightarrow> (bool \<times> bytes) list) \<Rightarrow> bool" where
  "byte_stream S inp out \<longleftrightarrow>
     (\<forall>ssl n s. case so_read S ssl n s of (bs, code, s') \<Rightarrow>
        length bs \<le> n \<and> inp s = bs @ inp s' \<and> out s' = out s \<and> (failed code \<or> length bs = n)) \<and>
     (\<forall>ssl bs s. case so_write S ssl bs s of (k, code, s') \<Rightarrow>
        k \<le> length bs \<and> inp s' = inp s \<and> out s' = out s @ [(ssl, take k bs)] \<and> (failed code \<or> k = length bs)) \<and>
     (\<forall>s. case so_ssl_handshake S s of (code, s') \<Rightarrow> inp s' = inp s \<and> out s' = out s) \<and>
     (\<forall>s. case so_shutdown S s of (code, s') \<Rightarrow> inp s' = inp s \<and> out s' = out s) \<and>
     (\<forall>s. case so_close S s of (code, s') \<Rightarrow> inp s' = inp s \<and> out s' = out s)"

text \<open>A stream that moreover never fails as long as the peer has bytes left.\<close>

definition reliable_stream :: "'s stream_ops \<Rightarrow> ('s \<Rightarrow> bytes) \<Rightarrow> ('s \<Rightarrow> (bool \<times> bytes) list) \<Rightarrow> bool" where
  "reliable_stream S inp out \<longleftrightarrow>
     byte_stream S inp out \<and>
     (\<forall>ssl n s. n \<le> length (inp s) \<longrightarrow> \<not> failed (fst (snd (so_read S ssl n s)))) \<and>
     (\<forall>ssl bs s. \<not> failed (fst (snd (so_write S ssl bs s)))) \<and>
     (\<forall>s. \<not> failed (fst (so_ssl_handshake S s)))"

lemma byte_stream_read:
  assumes "byte_stream S inp out" and "so_read S ssl n s = (bs, code, s')"
  shows "length bs \<le> n" "inp s = bs @ inp s'" "out s' = out s" "\<not> failed code \<Longrightarrow> length bs = n"
proof -
  have "case so_read S ssl n s of (bs, code, s') \<Rightarrow>
        length bs \<le> n \<and> inp s = bs @ inp s' \<and> out s' = out s \<and> (failed code \<or> length bs = n)"
    using assms(1) by (simp add: byte_stream_def)
  then show "length bs \<le> n" "inp s = bs @ inp s'" "out s' = out s" "\<not> failed code \<Longrightarrow> length bs = n"
    using assms(2) by auto
qed

lemma byte_stream_write:
  assumes "byte_stream S inp out" and "so_write S ssl bs s = (k, code, s')"
  shows "k \<le> length bs" "inp s' = inp s" "out s' = out s @ [(ssl, take k bs)]"
    "\<not> failed code \<Longrightarrow> k = length bs"
proof -
  have "case so_write S ssl bs s of (k, code, s') \<Rightarrow>
        k \<le> length bs \<and> inp s' = inp s \<and> out s' = out s @ [(ssl, take k bs)] \<and> (failed code \<or> k = length bs)"
    using assms(1) by (simp add: byte_stream_def)
  then show "k \<le> length bs" "inp s' = inp s" "out s' = out s @ [(ssl, take k bs)]"
    "\<not> failed code \<Longrightarrow> k = length bs" using assms(2) by auto
qed

lemma byte_stream_frame:
  assumes "byte_stream S inp out"
  shows "so_ssl_handshake S s = (code, s') \<Longrightarrow> inp s' = inp s \<and> out s' = out s"
    and "so_shutdown S s = (code, s') \<Longrightarrow> inp s' = inp s \<and> out s' = out s"
    and "so_close S s = (code, s') \<Longrightarrow> inp s' = inp s \<and> out s' = out s"
  using assms by (auto simp: byte_stream_def split: prod.splits)

lemma reliable_byte_stream: "reliable_stream S inp out \<Longrightarrow> byte_stream S inp out"
  by (simp add: reliable_stream_def)

lemma reliable_stream_read:
  assumes "reliable_stream S inp out" and "so_read S ssl n s = (bs, code, s')" and "n \<le> length (inp s)"
  shows "\<not> failed code" "bs = take n (inp s)" "inp s' = drop n (inp s)" "out s' = out s"
proof -
  have "\<not> failed (fst (snd (so_read S ssl n s)))" using assms(1,3) by (simp add: reliable_stream_def)
  then show "\<not> failed code" using assms(2) by simp
  with byte_stream_read [OF reliable_byte_stream [OF assms(1)] assms(2)]
  show "bs = take n (inp s)" "inp s' = drop n (inp s)" "out s' = out s" by auto
qed

lemma reliable_stream_write:
  assumes "reliable_stream S inp out" and "so_write S ssl bs s = (k, code, s')"
  shows "\<not> failed code" "k = length bs" "inp s' = inp s" "out s' = out s @ [(ssl, bs)]"
proof -
  have "\<not> failed (fst (snd (so_write S ssl bs s)))" using assms(1) by (simp add: reliable_stream_def)
  then show "\<not> failed code" using assms(2) by simp
  with byte_stream_write [OF reliable_byte_stream [OF assms(1)] assms(2)]
  show "k = length bs" "inp s' = inp s" "out s' = out s @ [(ssl, bs)]" by auto
qed

section \<open>A scripted peer\<close>

text \<open>
  The stream of a session whose server bytes are known beforehand: reading past them is the
  end-of-file error of the network library. It is executable, so that whole sessions can be
  evaluated, and it satisfies the laws.
\<close>

record scripted =
  scr_in :: bytes
  scr_out :: "(bool \<times> bytes) list"
  scr_open :: bool

definition eof_error :: error_code where
  "eof_error = \<lparr>ec_value = 2, ec_category = Foreign_category 1\<rparr>"

definition scripted_stream :: "scripted stream_ops" where
  "scripted_stream = \<lparr>
     so_read = (\<lambda>ssl n s. (take n (scr_in s), if n \<le> length (scr_in s) then no_error else eof_error,
                           s\<lparr>scr_in := drop n (scr_in s)\<rparr>)),
     so_write = (\<lambda>ssl bs s. (length bs, no_error, s\<lparr>scr_out := scr_out s @ [(ssl, bs)]\<rparr>)),
     so_ssl_handshake = (\<lambda>s. (no_error, s)),
     so_shutdown = (\<lambda>s. (no_error, s)),
     so_close = (\<lambda>s. (no_error, s\<lparr>scr_open := False\<rparr>)),
     so_is_open = scr_open\<rparr>"

lemma scripted_reliable: "reliable_stream scripted_stream scr_in scr_out"
  by (auto simp: reliable_stream_def byte_stream_def scripted_stream_def failed_def eof_error_def no_error_def)

end
