(* ===== verification/Channel.thy ===== *)
theory Channel
  imports Common_Messages Streams "HOL-Library.Sublist"
begin

text \<open>
  The message layer (\<open>channel.hpp\<close>): packets with a header holding their size and a sequence
  number, messages split in packets of at most \<open>MAX_PACKET_SIZE\<close> bytes, and the synchronous
  operations. The coroutines of the asynchronous ones are in \<open>Async_Channel\<close>.

  A result \<open>None\<close> means that the operation does not return or leaves the buffer it writes to.
\<close>

section \<open>State\<close>

text \<open>
  \<open>ch_ssl\<close> tells whether the TLS block exists. The header buffer is the array member of four
  bytes; \<open>channel_wf\<close> is its length.
\<close>

record 's channel =
  ch_stream :: 's
  ch_ssl :: bool
  ch_sequence_number :: u8
  ch_header :: bytes
  ch_shared_buff :: bytes
  ch_current_caps :: capabilities

definition make_channel :: "'s \<Rightarrow> 's channel" where
  "make_channel s = \<lparr>ch_stream = s, ch_ssl = False, ch_sequence_number = 0, ch_header = replicate 4 0,
                     ch_shared_buff = [], ch_current_caps = caps_of 0\<rparr>"

definition channel_wf :: "'s channel \<Rightarrow> bool" where
  "channel_wf ch \<longleftrightarrow> length (ch_header ch) = 4"

definition next_sequence_number :: "'s channel \<Rightarrow> u8 \<times> 's channel" where
  "next_sequence_number ch =
     (ch_sequence_number ch, ch\<lparr>ch_sequence_number := ch_sequence_number ch + 1\<rparr>)"

definition reset_sequence_number :: "u8 \<Rightarrow> 's channel \<Rightarrow> 's channel" where
  "reset_sequence_number v ch = ch\<lparr>ch_sequence_number := v\<rparr>"

definition set_current_capabilities :: "capabilities \<Rightarrow> 's channel \<Rightarrow> 's channel" where
  "set_current_capabilities c ch = ch\<lparr>ch_current_caps := c\<rparr>"

section \<open>Headers\<close>

definition compute_size_to_write :: "nat \<Rightarrow> nat \<Rightarrow> u32" where
  "compute_size_to_write buffer_size transferred_size =
     word_of_nat (min MAX_PACKET_SIZE (buffer_size - transferred_size))"

definition process_sequence_number :: "u8 \<Rightarrow> 's channel \<Rightarrow> bool \<times> 's channel" where
  "process_sequence_number got ch =
     (if got = ch_sequence_number ch
      then (True, ch\<lparr>ch_sequence_number := ch_sequence_number ch + 1\<rparr>)
      else (False, ch))"

text \<open>
  Deserializing the header cannot fail; the code asserts it and would go on with the zeroes the
  header was constructed with.
\<close>

definition process_header_read :: "'s channel \<Rightarrow> (error_code + u32) \<times> 's channel" where
  "process_header_read ch =
     (let header = (case deserialize_packet_header (make_ctx (ch_header ch) (caps_of 0)) of
                      Inl _ \<Rightarrow> \<lparr>packet_size = 0, sequence_number = 0\<rparr>
                    | Inr (h, _) \<Rightarrow> h)
      in case process_sequence_number (sequence_number header) ch of
           (True, ch1) \<Rightarrow> (Inr (packet_size header), ch1)
         | (False, ch1) \<Rightarrow> (Inl (make_error_code sequence_number_mismatch), ch1))"

definition process_header_write :: "u32 \<Rightarrow> 's channel \<Rightarrow> 's channel option" where
  "process_header_write size_to_write ch =
     (case next_sequence_number ch of (seq, ch1) \<Rightarrow>
       (case serialize_packet_header \<lparr>sctx_buffer = ch_header ch1, sctx_first = 0, sctx_caps = caps_of 0\<rparr>
               \<lparr>packet_size = size_to_write, sequence_number = seq\<rparr> of
          None \<Rightarrow> None
        | Some sc \<Rightarrow> Some (ch1\<lparr>ch_header := sctx_buffer sc\<rparr>)))"

section \<open>Reading and writing\<close>

definition read_impl :: "'s stream_ops \<Rightarrow> nat \<Rightarrow> 's channel \<Rightarrow> bytes \<times> error_code \<times> 's channel" where
  "read_impl S n ch =
     (case so_read S (ch_ssl ch) n (ch_stream ch) of (bs, code, s) \<Rightarrow> (bs, code, ch\<lparr>ch_stream := s\<rparr>))"

definition write_impl :: "'s stream_ops \<Rightarrow> bytes \<Rightarrow> 's channel \<Rightarrow> nat \<times> error_code \<times> 's channel" where
  "write_impl S bs ch =
     (case so_write S (ch_ssl ch) bs (ch_stream ch) of (k, code, s) \<Rightarrow> (k, code, ch\<lparr>ch_stream := s\<rparr>))"

text \<open>Bytes received into a buffer at an offset; the rest of the buffer stays.\<close>

definition put_bytes :: "nat \<Rightarrow> bytes \<Rightarrow> bytes \<Rightarrow> bytes" where
  "put_bytes pos bs buf = take pos buf @ bs @ drop (pos + length bs) buf"

definition read_header :: "'s stream_ops \<Rightarrow> 's channel \<Rightarrow> error_code \<times> 's channel" where
  "read_header S ch =
     (case read_impl S (length (ch_header ch)) ch of (bs, code, ch1) \<Rightarrow>
       (code, ch1\<lparr>ch_header := put_bytes 0 bs (ch_header ch1)\<rparr>))"

text \<open>
  The loop of \<open>read\<close>: a header, a packet, and again while the packet has the maximum size. The
  buffer is the one the caller passed; it is the channel's own one in most calls, and the loop
  touches no other member of the channel than the stream, the header and the sequence number.
\<close>

partial_function (option) channel_read_loop ::
    "'s stream_ops \<Rightarrow> nat \<Rightarrow> bytes \<Rightarrow> 's channel \<Rightarrow> (bytes \<times> error_code \<times> 's channel) option" where
  "channel_read_loop S transferred_size buffer ch =
     (case read_header S ch of (code, ch1) \<Rightarrow>
        if failed code then Some (buffer, code, ch1)
        else (case process_header_read ch1 of
            (Inl err, ch2) \<Rightarrow> Some (buffer, err, ch2)
          | (Inr size_to_read, ch2) \<Rightarrow>
              (case read_impl S (unat size_to_read) ch2 of (bs, code2, ch3) \<Rightarrow>
                let buffer1 = put_bytes transferred_size bs (resize (length buffer + unat size_to_read) buffer)
                in if failed code2 then Some (buffer1, code2, ch3)
                   else if unat size_to_read = MAX_PACKET_SIZE
                   then channel_read_loop S (transferred_size + unat size_to_read) buffer1 ch3
                   else Some (buffer1, code2, ch3))))"

definition channel_read :: "'s stream_ops \<Rightarrow> 's channel \<Rightarrow> (bytes \<times> error_code \<times> 's channel) option" where
  "channel_read S ch = channel_read_loop S 0 [] ch"

function channel_write_loop ::
    "'s stream_ops \<Rightarrow> bytes \<Rightarrow> nat \<Rightarrow> 's channel \<Rightarrow> (error_code \<times> 's channel) option" where
  "channel_write_loop S buffer transferred_size ch =
     (let bufsize = length buffer;
          size_to_write = compute_size_to_write bufsize transferred_size
      in case process_header_write size_to_write ch of
           None \<Rightarrow> None
         | Some ch1 \<Rightarrow>
             (case write_impl S (ch_header ch1 @ take (unat size_to_write) (drop transferred_size buffer)) ch1 of
                (k, code, ch2) \<Rightarrow>
                  if failed code then Some (code, ch2)
                  else if transferred_size + unat size_to_write < bufsize
                  then channel_write_loop S buffer (transferred_size + unat size_to_write) ch2
                  else Some (code, ch2)))"
  by pat_completeness auto

lemma unat_compute_size_to_write:
  "unat (compute_size_to_write n t) = min MAX_PACKET_SIZE (n - t)"
proof -
  have "min MAX_PACKET_SIZE (n - t) < 2 ^ 32" by (simp add: MAX_PACKET_SIZE_def min_def)
  then show ?thesis by (simp add: compute_size_to_write_def unat_of_nat)
qed

termination channel_write_loop
  by (relation "measure (\<lambda>(S, buffer, t, ch). length buffer - t)")
    (auto simp: unat_compute_size_to_write MAX_PACKET_SIZE_def)

declare channel_write_loop.simps [simp del]

definition channel_write :: "'s stream_ops \<Rightarrow> bytes \<Rightarrow> 's channel \<Rightarrow> (error_code \<times> 's channel) option" where
  "channel_write S buffer ch = channel_write_loop S buffer 0 ch"

section \<open>TLS and closing\<close>

definition channel_ssl_handshake :: "'s stream_ops \<Rightarrow> 's channel \<Rightarrow> error_code \<times> 's channel" where
  "channel_ssl_handshake S ch =
     (case so_ssl_handshake S (ch_stream ch) of (code, s) \<Rightarrow> (code, ch\<lparr>ch_ssl := True, ch_stream := s\<rparr>))"

text \<open>Both calls report to the same code, so that only the second one's outcome is returned.\<close>

definition channel_close :: "'s stream_ops \<Rightarrow> 's channel \<Rightarrow> error_code \<times> 's channel" where
  "channel_close S ch =
     (case so_shutdown S (ch_stream ch) of (_, s1) \<Rightarrow>
       (case so_close S s1 of (code, s2) \<Rightarrow> (code, ch\<lparr>ch_stream := s2\<rparr>)))"

section \<open>Frames\<close>

text \<open>
  The bytes of a message as the protocol defines them: packets with consecutive sequence
  numbers, all but the last of the maximum size. A message whose size is a multiple of the
  maximum ends with an empty packet.
\<close>

definition frame_header :: "nat \<Rightarrow> u8 \<Rightarrow> bytes" where
  "frame_header sz seq = le_bytes 3 (word_of_nat sz :: u32) @ [seq]"

function frames :: "u8 \<Rightarrow> bytes \<Rightarrow> bytes" where
  "frames seq m =
     frame_header (min MAX_PACKET_SIZE (length m)) seq @ take MAX_PACKET_SIZE m @
     (if MAX_PACKET_SIZE \<le> length m then frames (seq + 1) (drop MAX_PACKET_SIZE m) else [])"
  by pat_completeness auto

termination frames
  by (relation "measure (\<lambda>(seq, m). length m)") (auto simp: MAX_PACKET_SIZE_def)

declare frames.simps [simp del]

definition frames_seq :: "u8 \<Rightarrow> bytes \<Rightarrow> u8" where
  "frames_seq seq m = seq + word_of_nat (length m div MAX_PACKET_SIZE + 1)"

lemma MAX_PACKET_SIZE_pos [simp]: "0 < MAX_PACKET_SIZE" "MAX_PACKET_SIZE \<noteq> 0"
  by (simp_all add: MAX_PACKET_SIZE_def)

lemma length_frame_header [simp]: "length (frame_header n seq) = 4"
  by (simp add: frame_header_def)

lemma frame_header_not_Nil [simp]: "frame_header n seq \<noteq> []"
  by (simp add: frame_header_def)

lemma frames_seq_step:
  assumes "MAX_PACKET_SIZE \<le> length m"
  shows "frames_seq (seq + 1) (drop MAX_PACKET_SIZE m) = frames_seq seq m"
proof -
  have "length m div MAX_PACKET_SIZE = Suc ((length m - MAX_PACKET_SIZE) div MAX_PACKET_SIZE)"
    using assms by (simp add: le_div_geq)
  then show ?thesis by (simp add: frames_seq_def)
qed

lemma frames_seq_last: "length m < MAX_PACKET_SIZE \<Longrightarrow> frames_seq seq m = seq + 1"
  by (simp add: frames_seq_def)

text \<open>What an operation on messages leaves alone, whatever its outcome.\<close>

definition same_session :: "'s channel \<Rightarrow> 's channel \<Rightarrow> bool" where
  "same_session ch ch' \<longleftrightarrow>
     ch_ssl ch' = ch_ssl ch \<and> ch_shared_buff ch' = ch_shared_buff ch \<and>
     ch_current_caps ch' = ch_current_caps ch \<and> (channel_wf ch \<longrightarrow> channel_wf ch')"

lemma same_session_refl [simp]: "same_session ch ch"
  by (simp add: same_session_def)

lemma same_session_trans [trans]: "same_session a b \<Longrightarrow> same_session b c \<Longrightarrow> same_session a c"
  by (auto simp: same_session_def)

section \<open>One packet\<close>

lemma word_of_nat_unat_size: "(word_of_nat (unat w) :: u32) = w"
  by simp

lemma length_put_bytes: "pos + length bs \<le> length buf \<Longrightarrow> length (put_bytes pos bs buf) = length buf"
  by (simp add: put_bytes_def)

lemma put_bytes_all: "length bs = length buf \<Longrightarrow> put_bytes 0 bs buf = bs"
  by (simp add: put_bytes_def)

lemma put_bytes_resize:
  "length bs = n \<Longrightarrow> put_bytes (length buf) bs (resize (length buf + n) buf) = buf @ bs"
  by (simp add: put_bytes_def resize_def)

lemma read_header_result:
  assumes "byte_stream S inp out" and "channel_wf ch" and "read_header S ch = (code, ch1)"
  shows "same_session ch ch1" "ch_sequence_number ch1 = ch_sequence_number ch"
    "out (ch_stream ch1) = out (ch_stream ch)"
    "\<exists>bs. inp (ch_stream ch) = bs @ inp (ch_stream ch1) \<and> (\<not> failed code \<longrightarrow> length bs = 4 \<and> ch_header ch1 = bs)"
proof -
  obtain bs s where r: "so_read S (ch_ssl ch) 4 (ch_stream ch) = (bs, code, s)"
    and ch1: "ch1 = ch\<lparr>ch_stream := s, ch_header := put_bytes 0 bs (ch_header ch)\<rparr>"
    using assms(2,3) by (auto simp: read_header_def read_impl_def channel_wf_def split: prod.splits)
  note * = byte_stream_read [OF assms(1) r]
  have "length (put_bytes 0 bs (ch_header ch)) = 4"
    using *(1) assms(2) by (simp add: length_put_bytes channel_wf_def)
  then show "same_session ch ch1" "ch_sequence_number ch1 = ch_sequence_number ch"
    "out (ch_stream ch1) = out (ch_stream ch)"
    using *(3) by (simp_all add: ch1 same_session_def channel_wf_def)
  show "\<exists>bs. inp (ch_stream ch) = bs @ inp (ch_stream ch1) \<and> (\<not> failed code \<longrightarrow> length bs = 4 \<and> ch_header ch1 = bs)"
    using * assms(2) by (intro exI [of _ bs]) (auto simp: ch1 channel_wf_def put_bytes_all)
qed

lemma header_bytes_cases:
  assumes "length bs = 4"
  obtains w :: u32 and seq where "bs = frame_header (unat w) seq" "unat w \<le> MAX_PACKET_SIZE"
proof -
  obtain b0 b1 b2 seq where bs: "bs = [b0, b1, b2] @ [seq]"
    using assms by (auto simp: numeral_eq_Suc length_Suc_conv)
  let ?w = "le_word [b0, b1, b2] :: u32"
  have w: "le_bytes 3 ?w = [b0, b1, b2]"
    using le_bytes_le_word [of "[b0, b1, b2]", where 'a = 32]
    by (simp del: le_word.simps le_bytes.simps add: numeral_3_eq_3)
  have "take_bit 24 ?w = ?w"
    by (rule bit_word_eqI) (auto simp: bit_simps dest: bit_imp_le_length)
  then have "unat ?w < 2 ^ 24" unfolding take_bit_eq_self_unat .
  then have "unat ?w \<le> MAX_PACKET_SIZE" by (simp add: MAX_PACKET_SIZE_def)
  moreover have "bs = frame_header (unat ?w) seq"
    unfolding frame_header_def word_of_nat_unat_size w bs ..
  ultimately show ?thesis using that by blast
qed

lemma process_header_read_frame:
  assumes "ch_header ch = frame_header (unat w) seq" and "unat w \<le> MAX_PACKET_SIZE"
  shows "process_header_read ch =
    (if seq = ch_sequence_number ch
     then (Inr w, ch\<lparr>ch_sequence_number := ch_sequence_number ch + 1\<rparr>)
     else (Inl (make_error_code sequence_number_mismatch), ch))"
proof -
  let ?h = "\<lparr>packet_size = w, sequence_number = seq\<rparr>"
  have "deserialize_packet_header (make_ctx (ch_header ch) (caps_of 0))
      = Inr (?h, ctx_advance (length (enc_packet_header (caps_of 0) ?h)) (make_ctx (ch_header ch) (caps_of 0)))"
    using packet_header.deser_enc [of ?h "make_ctx (ch_header ch) (caps_of 0)" "[]"] assms
    by (simp add: packet_header_wf_def enc_packet_header_def frame_header_def)
  then show ?thesis
    by (simp add: process_header_read_def process_sequence_number_def)
qed

section \<open>Reading messages\<close>

lemma read_impl_result:
  assumes "byte_stream S inp out" and "read_impl S n ch = (bs, code, ch1)"
  shows "length bs \<le> n" "inp (ch_stream ch) = bs @ inp (ch_stream ch1)" "out (ch_stream ch1) = out (ch_stream ch)"
    "same_session ch ch1" "ch_sequence_number ch1 = ch_sequence_number ch" "\<not> failed code \<Longrightarrow> length bs = n"
    "ch_header ch1 = ch_header ch"
proof -
  obtain s where r: "so_read S (ch_ssl ch) n (ch_stream ch) = (bs, code, s)" and ch1: "ch1 = ch\<lparr>ch_stream := s\<rparr>"
    using assms(2) by (auto simp: read_impl_def split: prod.splits)
  show "length bs \<le> n" "inp (ch_stream ch) = bs @ inp (ch_stream ch1)" "out (ch_stream ch1) = out (ch_stream ch)"
    "same_session ch ch1" "ch_sequence_number ch1 = ch_sequence_number ch" "\<not> failed code \<Longrightarrow> length bs = n"
    "ch_header ch1 = ch_header ch"
    using byte_stream_read [OF assms(1) r] by (simp_all add: ch1 same_session_def channel_wf_def)
qed

text \<open>The outcome of a read: what it consumed, and, when it succeeded, the message that was.\<close>

definition read_outcome ::
    "('s \<Rightarrow> bytes) \<Rightarrow> ('s \<Rightarrow> (bool \<times> bytes) list) \<Rightarrow> 's channel \<Rightarrow> bytes \<Rightarrow> (bytes \<times> error_code \<times> 's channel) option \<Rightarrow> bool" where
  "read_outcome inp out ch buffer r \<longleftrightarrow>
     (\<exists>buf code ch' p. r = Some (buf, code, ch') \<and> same_session ch ch' \<and>
        out (ch_stream ch') = out (ch_stream ch) \<and> inp (ch_stream ch) = p @ inp (ch_stream ch') \<and>
        (\<not> failed code \<longrightarrow> (\<exists>m. buf = buffer @ m \<and> p = frames (ch_sequence_number ch) m \<and>
                            ch_sequence_number ch' = frames_seq (ch_sequence_number ch) m)))"

lemma read_outcome_failed:
  "failed code \<Longrightarrow> same_session ch ch' \<Longrightarrow> out (ch_stream ch') = out (ch_stream ch) \<Longrightarrow>
   inp (ch_stream ch) = p @ inp (ch_stream ch') \<Longrightarrow> read_outcome inp out ch buffer (Some (buf, code, ch'))"
  by (auto simp: read_outcome_def)

lemma read_outcome_packet:
  assumes "length bs = MAX_PACKET_SIZE" and "same_session ch ch1"
    and "out (ch_stream ch1) = out (ch_stream ch)"
    and "inp (ch_stream ch) = (frame_header MAX_PACKET_SIZE (ch_sequence_number ch) @ bs) @ inp (ch_stream ch1)"
    and "ch_sequence_number ch1 = ch_sequence_number ch + 1"
    and "read_outcome inp out ch1 (buffer @ bs) r"
  shows "read_outcome inp out ch buffer r"
proof -
  obtain buf code ch' p where r: "r = Some (buf, code, ch')" "same_session ch1 ch'"
      "out (ch_stream ch') = out (ch_stream ch1)" "inp (ch_stream ch1) = p @ inp (ch_stream ch')"
    and m: "\<not> failed code \<longrightarrow> (\<exists>m. buf = (buffer @ bs) @ m \<and> p = frames (ch_sequence_number ch1) m \<and>
              ch_sequence_number ch' = frames_seq (ch_sequence_number ch1) m)"
    using assms(6) by (auto simp: read_outcome_def)
  have "\<exists>m. buf = buffer @ m \<and>
      (frame_header MAX_PACKET_SIZE (ch_sequence_number ch) @ bs) @ p = frames (ch_sequence_number ch) m \<and>
      ch_sequence_number ch' = frames_seq (ch_sequence_number ch) m" if nf: "\<not> failed code"
  proof -
    obtain m where "buf = (buffer @ bs) @ m" "p = frames (ch_sequence_number ch1) m"
        "ch_sequence_number ch' = frames_seq (ch_sequence_number ch1) m" using m nf by blast
    then show ?thesis
      using assms(1,5) frames_seq_step [of "bs @ m" "ch_sequence_number ch"]
      by (intro exI [of _ "bs @ m"]) (simp add: frames.simps [of _ "bs @ m"])
  qed
  then show ?thesis
    using r assms(2-4) unfolding read_outcome_def
    by (intro exI [of _ buf] exI [of _ code] exI [of _ ch']
        exI [of _ "(frame_header MAX_PACKET_SIZE (ch_sequence_number ch) @ bs) @ p"])
      (auto intro: same_session_trans)
qed

lemma same_session_seq [simp]:
  "same_session ch (ch1\<lparr>ch_sequence_number := n\<rparr>) = same_session ch ch1"
  "same_session (ch\<lparr>ch_sequence_number := n\<rparr>) ch1 = same_session ch ch1"
  by (simp_all add: same_session_def channel_wf_def)

text \<open>
  One pass of the loop: it stops with an error, or it consumes the packet that is due and goes on
  with the next one when that packet is full.
\<close>

lemma channel_read_loop_packet:
  assumes "byte_stream S inp out" and "channel_wf ch"
  obtains
    (stop) buf code ch1 p where "channel_read_loop S (length buffer) buffer ch = Some (buf, code, ch1)" "failed code"
      "same_session ch ch1" "out (ch_stream ch1) = out (ch_stream ch)" "inp (ch_stream ch) = p @ inp (ch_stream ch1)"
  | (packet) bs code ch1 where "length bs \<le> MAX_PACKET_SIZE" "\<not> failed code"
      "channel_read_loop S (length buffer) buffer ch =
         (if length bs = MAX_PACKET_SIZE then channel_read_loop S (length (buffer @ bs)) (buffer @ bs) ch1
          else Some (buffer @ bs, code, ch1))"
      "same_session ch ch1" "out (ch_stream ch1) = out (ch_stream ch)"
      "inp (ch_stream ch) = (frame_header (length bs) (ch_sequence_number ch) @ bs) @ inp (ch_stream ch1)"
      "ch_sequence_number ch1 = ch_sequence_number ch + 1"
proof -
  obtain code ch1 where h: "read_header S ch = (code, ch1)" by fastforce
  note h1 = read_header_result [OF assms h] and loop = channel_read_loop.simps [of S _ buffer ch]
  then obtain hdr where hdr: "inp (ch_stream ch) = hdr @ inp (ch_stream ch1)"
      "\<not> failed code \<longrightarrow> length hdr = 4 \<and> ch_header ch1 = hdr" by blast
  show thesis
  proof (cases "failed code")
    case True
    then show thesis using stop [OF _ True] h1(1,3) hdr(1) by (simp add: loop h)
  next
    case False
    then obtain w :: u32 and seq where w: "hdr = frame_header (unat w) seq" "unat w \<le> MAX_PACKET_SIZE"
      using hdr(2) header_bytes_cases by blast
    with hdr(2) False have "ch_header ch1 = frame_header (unat w) seq" by simp
    note p = process_header_read_frame [OF this w(2)]
    show thesis
    proof (cases "seq = ch_sequence_number ch1")
      case ne: False
      have "failed (make_error_code sequence_number_mismatch)" by simp
      then show thesis
        using stop [of buffer "make_error_code sequence_number_mismatch" ch1] ne False h1(1,3) hdr(1)
        by (simp del: sequence_number_mismatch_def add: loop h p)
    next
      case True
      let ?ch2 = "ch1\<lparr>ch_sequence_number := ch_sequence_number ch1 + 1\<rparr>"
      obtain bs code2 ch3 where b: "read_impl S (unat w) ?ch2 = (bs, code2, ch3)" by (metis prod_cases3)
      note b1 = read_impl_result [OF assms(1) b]
      have sess: "same_session ch ch3" "out (ch_stream ch3) = out (ch_stream ch)"
        using h1(1,3) b1(3,4) same_session_trans [of ch ch1 ch3] by simp_all
      have inp: "inp (ch_stream ch) = (hdr @ bs) @ inp (ch_stream ch3)" using hdr(1) b1(2) by simp
      note run = loop h False p True b Let_def
      show thesis
      proof (cases "failed code2")
        case f: True
        then show thesis using stop [OF _ f sess inp] by (simp add: run)
      next
        case nf: False
        then have len: "length bs = unat w" using b1(6) by simp
        show thesis
        proof (rule packet [OF _ nf _ sess])
          show "channel_read_loop S (length buffer) buffer ch =
              (if length bs = MAX_PACKET_SIZE then channel_read_loop S (length (buffer @ bs)) (buffer @ bs) ch3
               else Some (buffer @ bs, code2, ch3))"
            by (simp add: run nf len put_bytes_resize)
        qed (use inp w True h1(2) b1(5) len in simp_all)
      qed
    qed
  qed
qed

text \<open>
  Whatever the peer sends, reading a message returns; it consumes bytes and leaves the rest of
  the session alone; and when it succeeds, what it consumed is a message in frames numbered as
  expected, and the buffer holds that message.
\<close>

lemma channel_read_loop_outcome:
  assumes "byte_stream S inp out" and "channel_wf ch"
  shows "read_outcome inp out ch buffer (channel_read_loop S (length buffer) buffer ch)"
  using assms(2)
proof (induction "length (inp (ch_stream ch))" arbitrary: ch buffer rule: less_induct)
  case less
  show ?case
  proof (rule channel_read_loop_packet [OF assms(1) less.prems, of buffer])
    fix bs code ch1
    assume len: "length bs \<le> MAX_PACKET_SIZE" and code: "\<not> failed code"
      and loop: "channel_read_loop S (length buffer) buffer ch =
        (if length bs = MAX_PACKET_SIZE then channel_read_loop S (length (buffer @ bs)) (buffer @ bs) ch1
         else Some (buffer @ bs, code, ch1))"
      and sess: "same_session ch ch1" "out (ch_stream ch1) = out (ch_stream ch)"
      and inp: "inp (ch_stream ch) = (frame_header (length bs) (ch_sequence_number ch) @ bs) @ inp (ch_stream ch1)"
      and seq: "ch_sequence_number ch1 = ch_sequence_number ch + 1"
    show ?thesis
    proof (cases "length bs = MAX_PACKET_SIZE")
      case True
      have "channel_wf ch1" using sess(1) less.prems by (simp add: same_session_def)
      moreover have "length (inp (ch_stream ch1)) < length (inp (ch_stream ch))"
        using inp True MAX_PACKET_SIZE_pos by simp
      ultimately have "read_outcome inp out ch1 (buffer @ bs) (channel_read_loop S (length (buffer @ bs)) (buffer @ bs) ch1)"
        using less.hyps by blast
      then show ?thesis using read_outcome_packet [OF True sess _ seq] inp True loop by simp
    next
      case False
      then show ?thesis
        using len sess inp seq by (auto simp: loop read_outcome_def frames.simps [of _ bs] frames_seq_last)
    qed
  qed (auto intro: read_outcome_failed)
qed

lemma read_header_reliable:
  assumes "reliable_stream S inp out" and "channel_wf ch" and "inp (ch_stream ch) = frame_header sz seq @ rest"
    and "read_header S ch = (code, ch1)"
  shows "\<not> failed code" "ch_header ch1 = frame_header sz seq" "inp (ch_stream ch1) = rest"
proof -
  have "4 \<le> length (inp (ch_stream ch))" using assms(3) by simp
  then show nf: "\<not> failed code"
    using assms(1,2,4) reliable_stream_read(1) [OF assms(1)]
    by (auto simp: read_header_def read_impl_def channel_wf_def split: prod.splits)
  obtain bs where "inp (ch_stream ch) = bs @ inp (ch_stream ch1)" "length bs = 4" "ch_header ch1 = bs"
    using read_header_result(4) [OF reliable_byte_stream [OF assms(1)] assms(2,4)] nf by blast
  then show "ch_header ch1 = frame_header sz seq" "inp (ch_stream ch1) = rest"
    using assms(3) by simp_all
qed

lemma read_impl_reliable:
  assumes "reliable_stream S inp out" and "n \<le> length (inp (ch_stream ch))" and "read_impl S n ch = (bs, code, ch1)"
  shows "\<not> failed code" "bs = take n (inp (ch_stream ch))" "inp (ch_stream ch1) = drop n (inp (ch_stream ch))"
  using reliable_stream_read [OF assms(1)] assms(2,3) by (auto simp: read_impl_def split: prod.splits)

text \<open>A message in frames is read, and nothing else is consumed.\<close>

definition reads_message :: "('s \<Rightarrow> bytes) \<Rightarrow> 's channel \<Rightarrow> bytes \<Rightarrow> bytes \<Rightarrow> bytes \<Rightarrow> (bytes \<times> error_code \<times> 's channel) option \<Rightarrow> bool" where
  "reads_message inp ch buffer m rest r \<longleftrightarrow>
     (\<exists>code ch'. r = Some (buffer @ m, code, ch') \<and> \<not> failed code \<and> inp (ch_stream ch') = rest \<and>
        ch_sequence_number ch' = frames_seq (ch_sequence_number ch) m)"

lemma channel_read_loop_frames:
  assumes "reliable_stream S inp out" and "channel_wf ch"
    and "inp (ch_stream ch) = frames (ch_sequence_number ch) m @ rest"
  shows "reads_message inp ch buffer m rest (channel_read_loop S (length buffer) buffer ch)"
proof -
  have "channel_wf ch \<Longrightarrow> ch_sequence_number ch = seq \<Longrightarrow> inp (ch_stream ch) = frames seq m @ rest \<Longrightarrow>
    reads_message inp ch buffer m rest (channel_read_loop S (length buffer) buffer ch)" for seq
  proof (induction seq m arbitrary: ch buffer rule: frames.induct)
    case (1 seq m)
    note B = reliable_byte_stream [OF assms(1)]
    let ?sz = "min MAX_PACKET_SIZE (length m)" and ?seq = "ch_sequence_number ch"
    let ?rest = "(if MAX_PACKET_SIZE \<le> length m then frames (?seq + 1) (drop MAX_PACKET_SIZE m) else []) @ rest"
    have inp0: "inp (ch_stream ch) = frame_header ?sz ?seq @ (take MAX_PACKET_SIZE m @ ?rest)"
      using 1(3,4) by (simp add: frames.simps [of seq m])
    obtain code ch1 where h: "read_header S ch = (code, ch1)" by fastforce
    note h1 = read_header_reliable [OF assms(1) 1(2) inp0 h]
    note h2 = read_header_result(1-3) [OF B 1(2) h]
    have "?sz < 2 ^ 32" by (simp add: MAX_PACKET_SIZE_def min_def)
    then have "unat (word_of_nat ?sz :: u32) = ?sz" by (simp add: unat_of_nat)
    then obtain w :: u32 where w: "unat w = ?sz" ..
    have p: "process_header_read ch1 = (Inr w, ch1\<lparr>ch_sequence_number := ?seq + 1\<rparr>)"
      using process_header_read_frame [of ch1 w ?seq] h1(2) h2(2) w by simp
    let ?ch2 = "ch1\<lparr>ch_sequence_number := ?seq + 1\<rparr>"
    obtain bs code2 ch3 where b: "read_impl S ?sz ?ch2 = (bs, code2, ch3)" by (metis prod_cases3)
    have "?sz \<le> length (inp (ch_stream ?ch2))" by (simp add: h1(3))
    note b1 = read_impl_reliable [OF assms(1) this b]
    note b2 = read_impl_result(3-5) [OF B b]
    have bs: "bs = take MAX_PACKET_SIZE m" "inp (ch_stream ch3) = ?rest"
      using b1(2,3) h1(3) by (simp_all add: min_def)
    then have len: "length bs = ?sz" by (simp add: min.commute)
    then have loop: "channel_read_loop S (length buffer) buffer ch =
        (if ?sz = MAX_PACKET_SIZE then channel_read_loop S (length (buffer @ bs)) (buffer @ bs) ch3
         else Some (buffer @ bs, code2, ch3))"
      using b1(1) by (simp add: channel_read_loop.simps [of S _ buffer ch] h h1(1) p w b put_bytes_resize Let_def)
    have wf: "channel_wf ch3" and seq: "ch_sequence_number ch3 = ?seq + 1"
      using same_session_trans [of ch ch1 ch3] h2(1) b2 1(2) by (auto simp: same_session_def [of ch ch3])
    show ?case
    proof (cases "MAX_PACKET_SIZE \<le> length m")
      case True
      have "reads_message inp ch3 (buffer @ bs) (drop MAX_PACKET_SIZE m) rest
          (channel_read_loop S (length (buffer @ bs)) (buffer @ bs) ch3)"
        using 1(1) [OF True wf, of "buffer @ bs"] seq 1(3) bs(2) True by simp
      then show ?thesis
        using True seq bs(1) frames_seq_step [OF True, of ?seq]
        by (auto simp: reads_message_def loop)
    next
      case False
      then show ?thesis using loop bs b1(1) seq by (simp add: reads_message_def frames_seq_last)
    qed
  qed
  then show ?thesis using assms(2,3) by blast
qed

text \<open>A frame with another sequence number than the expected one is refused.\<close>

lemma channel_read_loop_mismatch:
  assumes "reliable_stream S inp out" and "channel_wf ch"
    and "inp (ch_stream ch) = frame_header sz seq @ rest" and "sz \<le> MAX_PACKET_SIZE"
    and "seq \<noteq> ch_sequence_number ch"
  shows "\<exists>ch'. channel_read_loop S t buffer ch = Some (buffer, make_error_code sequence_number_mismatch, ch') \<and>
    inp (ch_stream ch') = rest \<and> ch_sequence_number ch' = ch_sequence_number ch"
proof -
  obtain code ch1 where h: "read_header S ch = (code, ch1)" by fastforce
  note h1 = read_header_reliable [OF assms(1-3) h]
  note h2 = read_header_result(1-3) [OF reliable_byte_stream [OF assms(1)] assms(2) h]
  have "sz < 2 ^ 32" using assms(4) by (simp add: MAX_PACKET_SIZE_def)
  then have w: "unat (word_of_nat sz :: u32) = sz" by (simp add: unat_of_nat)
  then have "process_header_read ch1 = (Inl (make_error_code sequence_number_mismatch), ch1)"
    using process_header_read_frame [of ch1 "word_of_nat sz" seq] h1(2) h2(2) assms(4,5) by auto
  then show ?thesis
    using h h1 h2(2)
    by (simp del: sequence_number_mismatch_def add: channel_read_loop.simps [of S t buffer ch])
qed

text \<open>Hence messages in frames are told apart, and from what follows them.\<close>

lemma frames_inject:
  assumes "frames seq m @ r = frames seq m' @ r'"
  shows "m = m' \<and> r = r'"
proof -
  let ?ch = "(make_channel \<lparr>scr_in = frames seq m @ r, scr_out = [], scr_open = True\<rparr>)\<lparr>ch_sequence_number := seq\<rparr>"
  have "reads_message scr_in ?ch [] n t (channel_read_loop scripted_stream 0 [] ?ch)"
    if "frames seq m @ r = frames seq n @ t" for n t
    using channel_read_loop_frames [OF scripted_reliable, of ?ch n t "[]"] that
    by (simp add: channel_wf_def make_channel_def)
  from this [OF refl] this [OF assms] show ?thesis by (auto simp: reads_message_def)
qed

section \<open>Writing messages\<close>

text \<open>What is written, one element per write: as long as there are bytes left, or once.\<close>

function packets :: "u8 \<Rightarrow> bytes \<Rightarrow> bytes list" where
  "packets seq m =
     (frame_header (min MAX_PACKET_SIZE (length m)) seq @ take MAX_PACKET_SIZE m) #
     (if MAX_PACKET_SIZE < length m then packets (seq + 1) (drop MAX_PACKET_SIZE m) else [])"
  by pat_completeness auto

termination packets
  by (relation "measure (\<lambda>(seq, m). length m)") (auto simp: MAX_PACKET_SIZE_def)

declare packets.simps [simp del]

text \<open>
  These are the frames of the message, except that no empty packet follows a message whose size
  is a positive multiple of the maximum.
\<close>

definition full_packets :: "bytes \<Rightarrow> bool" where
  "full_packets m \<longleftrightarrow> m \<noteq> [] \<and> MAX_PACKET_SIZE dvd length m"

lemma full_packets_step:
  "MAX_PACKET_SIZE < length m \<Longrightarrow> full_packets (drop MAX_PACKET_SIZE m) = full_packets m"
  by (auto simp: full_packets_def dvd_minus_self)

lemma frames_packets:
  "frames seq m = concat (packets seq m) @
     (if full_packets m then frame_header 0 (seq + word_of_nat (length m div MAX_PACKET_SIZE)) else [])"
proof (induction seq m rule: packets.induct)
  case (1 seq m)
  consider "length m < MAX_PACKET_SIZE" | "length m = MAX_PACKET_SIZE" | "MAX_PACKET_SIZE < length m" by linarith
  then show ?case
  proof cases
    case 1
    then have "\<not> full_packets m" by (auto simp: full_packets_def dvd_imp_le)
    then show ?thesis using 1 by (simp add: frames.simps [of seq m] packets.simps [of seq m])
  next
    case 2
    then have "full_packets m" by (auto simp: full_packets_def MAX_PACKET_SIZE_def)
    then show ?thesis
      using 2 by (simp add: frames.simps [of seq m] frames.simps [of _ "[]"] packets.simps [of seq m])
  next
    case 3
    then have "length m div MAX_PACKET_SIZE = Suc ((length m - MAX_PACKET_SIZE) div MAX_PACKET_SIZE)"
      by (simp add: le_div_geq)
    then show ?thesis
      using 1 3 full_packets_step [OF 3]
      by (simp add: frames.simps [of seq m] packets.simps [of seq m] add.assoc)
  qed
qed

lemma length_packets:
  "length (packets seq m) = length m div MAX_PACKET_SIZE + (if full_packets m then 0 else 1)"
proof (induction seq m rule: packets.induct)
  case (1 seq m)
  consider "length m < MAX_PACKET_SIZE" | "length m = MAX_PACKET_SIZE" | "MAX_PACKET_SIZE < length m" by linarith
  then show ?case
  proof cases
    case 1
    then have "\<not> full_packets m" by (auto simp: full_packets_def dvd_imp_le)
    then show ?thesis using 1 by (simp add: packets.simps [of seq m])
  next
    case 2
    then have "full_packets m" by (auto simp: full_packets_def MAX_PACKET_SIZE_def)
    then show ?thesis using 2 by (simp add: packets.simps [of seq m])
  next
    case 3
    then show ?thesis
      using 1 full_packets_step [OF 3] by (simp add: packets.simps [of seq m] le_div_geq)
  qed
qed

text \<open>Writing the header: its four bytes, whatever was there.\<close>

lemma process_header_write_frame:
  assumes "channel_wf ch"
  shows "process_header_write w ch =
    Some (ch\<lparr>ch_header := frame_header (unat w) (ch_sequence_number ch), ch_sequence_number := ch_sequence_number ch + 1\<rparr>)"
proof -
  have "length (enc_packet_header c h) = 4" for c h by (simp add: enc_packet_header_def)
  then show ?thesis
    using assms
    by (simp add: process_header_write_def next_sequence_number_def packet_header.ser_enc ctx_simps
        channel_wf_def frame_header_def enc_packet_header_def)
qed

text \<open>
  The outcome of a write: nothing is read, the rest of the session is left alone, what was written
  went through TLS or not as the channel says, and is the message in packets when it succeeded
  and the beginning of that otherwise.
\<close>

definition write_outcome ::
    "('s \<Rightarrow> bytes) \<Rightarrow> ('s \<Rightarrow> (bool \<times> bytes) list) \<Rightarrow> 's channel \<Rightarrow> bytes \<Rightarrow> (error_code \<times> 's channel) option \<Rightarrow> bool" where
  "write_outcome inp out ch m r \<longleftrightarrow>
     (\<exists>code ch' ws. r = Some (code, ch') \<and> same_session ch ch' \<and> inp (ch_stream ch') = inp (ch_stream ch) \<and>
        out (ch_stream ch') = out (ch_stream ch) @ map (Pair (ch_ssl ch)) ws \<and>
        prefix (concat ws) (concat (packets (ch_sequence_number ch) m)) \<and>
        (\<not> failed code \<longrightarrow> ws = packets (ch_sequence_number ch) m \<and>
            ch_sequence_number ch' = ch_sequence_number ch + word_of_nat (length ws)))"

lemma write_impl_result:
  assumes "byte_stream S inp out" and "write_impl S bs ch = (k, code, ch1)"
  shows "inp (ch_stream ch1) = inp (ch_stream ch)" "out (ch_stream ch1) = out (ch_stream ch) @ [(ch_ssl ch, take k bs)]"
    "\<not> failed code \<Longrightarrow> k = length bs" "same_session ch ch1" "ch_sequence_number ch1 = ch_sequence_number ch"
proof -
  obtain s where r: "so_write S (ch_ssl ch) bs (ch_stream ch) = (k, code, s)" and ch1: "ch1 = ch\<lparr>ch_stream := s\<rparr>"
    using assms(2) by (auto simp: write_impl_def split: prod.splits)
  show "inp (ch_stream ch1) = inp (ch_stream ch)" "out (ch_stream ch1) = out (ch_stream ch) @ [(ch_ssl ch, take k bs)]"
    "\<not> failed code \<Longrightarrow> k = length bs" "same_session ch ch1" "ch_sequence_number ch1 = ch_sequence_number ch"
    using byte_stream_write [OF assms(1) r] by (simp_all add: ch1 same_session_def channel_wf_def)
qed

lemma write_outcome_packet:
  assumes "same_session ch ch1" and "inp (ch_stream ch1) = inp (ch_stream ch)"
    and "out (ch_stream ch1) = out (ch_stream ch) @ [(ch_ssl ch, bs)]"
    and "ch_sequence_number ch1 = ch_sequence_number ch + 1"
    and "packets (ch_sequence_number ch) m = bs # packets (ch_sequence_number ch + 1) m1"
    and "write_outcome inp out ch1 m1 r"
  shows "write_outcome inp out ch m r"
proof -
  obtain code ch' ws where r: "r = Some (code, ch')" "same_session ch1 ch'" "inp (ch_stream ch') = inp (ch_stream ch1)"
      "out (ch_stream ch') = out (ch_stream ch1) @ map (Pair (ch_ssl ch1)) ws"
      "prefix (concat ws) (concat (packets (ch_sequence_number ch1) m1))"
      "\<not> failed code \<longrightarrow> ws = packets (ch_sequence_number ch1) m1 \<and>
            ch_sequence_number ch' = ch_sequence_number ch1 + word_of_nat (length ws)"
    using assms(6) by (auto simp: write_outcome_def)
  have "ch_ssl ch1 = ch_ssl ch" using assms(1) by (simp add: same_session_def)
  then show ?thesis
    using r assms(2-5) same_session_trans [OF assms(1) r(2)] unfolding write_outcome_def
    by (intro exI [of _ code] exI [of _ ch'] exI [of _ "bs # ws"]) (simp add: add.assoc)
qed

lemma channel_write_loop_outcome:
  assumes "byte_stream S inp out" and "channel_wf ch"
  shows "write_outcome inp out ch (drop t buffer) (channel_write_loop S buffer t ch)"
  using assms
proof (induction S buffer t ch rule: channel_write_loop.induct)
  case (1 S buffer t ch)
  let ?m = "drop t buffer" and ?seq = "ch_sequence_number ch"
  define w where "w = compute_size_to_write (length buffer) t"
  have w: "unat w = min MAX_PACKET_SIZE (length ?m)" by (simp add: w_def unat_compute_size_to_write)
  let ?ch1 = "ch\<lparr>ch_header := frame_header (unat w) ?seq, ch_sequence_number := ?seq + 1\<rparr>"
  have h: "process_header_write w ch = Some ?ch1" by (rule process_header_write_frame [OF 1(3)])
  let ?bs = "frame_header (unat w) ?seq @ take (unat w) ?m"
  have bs: "?bs = hd (packets ?seq ?m)" by (simp add: packets.simps [of ?seq ?m] w min_def)
  obtain k code ch2 where wr: "write_impl S ?bs ?ch1 = (k, code, ch2)" by (metis prod_cases3)
  note r = write_impl_result [OF 1(2) wr]
  have sess: "same_session ch ch2" using r(4) 1(3) by (auto simp: same_session_def channel_wf_def)
  have loop: "channel_write_loop S buffer t ch =
      (if failed code then Some (code, ch2)
       else if t + unat w < length buffer then channel_write_loop S buffer (t + unat w) ch2
       else Some (code, ch2))"
    by (simp add: channel_write_loop.simps [of S buffer t ch] h wr flip: w_def)
  consider (fail) "failed code" | (last) "\<not> failed code" "\<not> MAX_PACKET_SIZE < length ?m"
    | (more) "\<not> failed code" "MAX_PACKET_SIZE < length ?m" by blast
  then show ?case
  proof cases
    case fail
    have "prefix (take k ?bs) (concat (packets ?seq ?m))"
      using take_is_prefix [of k ?bs] by (simp add: packets.simps [of ?seq ?m] bs prefix_order.trans)
    then show ?thesis
      using fail sess r(1,2) by (auto simp: write_outcome_def loop intro!: exI [of _ "[take k ?bs]"])
  next
    case last
    then have "\<not> t + unat w < length buffer" by (simp add: w)
    moreover have "packets ?seq ?m = [?bs]" using last(2) bs by (simp add: packets.simps [of ?seq ?m])
    ultimately show ?thesis
      using last(1) sess r by (auto simp: write_outcome_def loop intro!: exI [of _ "[?bs]"])
  next
    case more
    then have w': "unat w = MAX_PACKET_SIZE" and cont: "t + unat w < length buffer" using w by simp_all
    have "write_outcome inp out ch2 (drop (t + unat w) buffer) (channel_write_loop S buffer (t + unat w) ch2)"
      by (rule 1(1) [OF refl refl, folded w_def, OF h _ refl more(1) cont 1(2)])
        (use wr sess 1(3) in \<open>simp_all add: same_session_def\<close>)
    moreover have "packets ?seq ?m = ?bs # packets (?seq + 1) (drop (t + unat w) buffer)"
      using more(2) bs by (simp add: packets.simps [of ?seq ?m] w' add.commute)
    ultimately show ?thesis
      using more(1) cont r by (simp add: loop write_outcome_packet [OF sess, of inp out ?bs ?m "drop (t + unat w) buffer"])
  qed
qed

lemma channel_write_loop_reliable:
  assumes "reliable_stream S inp out" and "channel_wf ch" and "channel_write_loop S buffer t ch = Some (code, ch')"
  shows "\<not> failed code"
  using assms
proof (induction S buffer t ch rule: channel_write_loop.induct)
  case (1 S buffer t ch)
  define w where "w = compute_size_to_write (length buffer) t"
  let ?ch1 = "ch\<lparr>ch_header := frame_header (unat w) (ch_sequence_number ch), ch_sequence_number := ch_sequence_number ch + 1\<rparr>"
  have h: "process_header_write w ch = Some ?ch1" by (rule process_header_write_frame [OF 1(3)])
  let ?bs = "frame_header (unat w) (ch_sequence_number ch) @ take (unat w) (drop t buffer)"
  obtain k code2 ch2 where wr: "write_impl S ?bs ?ch1 = (k, code2, ch2)" by (metis prod_cases3)
  have nf: "\<not> failed code2"
    using wr reliable_stream_write(1) [OF 1(2)] by (auto simp: write_impl_def split: prod.splits)
  have wf2: "channel_wf ch2"
    using write_impl_result(4) [OF reliable_byte_stream [OF 1(2)] wr] 1(3) by (simp add: same_session_def channel_wf_def)
  have loop: "(if t + unat w < length buffer then channel_write_loop S buffer (t + unat w) ch2 else Some (code2, ch2))
      = Some (code, ch')"
    using 1(4) nf by (simp add: channel_write_loop.simps [of S buffer t ch] h wr flip: w_def)
  show ?case
  proof (cases "t + unat w < length buffer")
    case True
    show ?thesis
      by (rule 1(1) [OF refl refl, folded w_def, OF h _ refl nf True 1(2) wf2]) (use wr loop True in simp_all)
  next
    case False
    then show ?thesis using loop nf by auto
  qed
qed

section \<open>The contract of the message layer\<close>

text \<open>The laws the network algorithms rest on, for whole messages.\<close>

lemma channel_read_any:
  assumes "byte_stream S inp out" and "channel_wf ch"
  shows "\<exists>buf code ch' p. channel_read S ch = Some (buf, code, ch') \<and> same_session ch ch' \<and>
    out (ch_stream ch') = out (ch_stream ch) \<and> inp (ch_stream ch) = p @ inp (ch_stream ch') \<and>
    (\<not> failed code \<longrightarrow> p = frames (ch_sequence_number ch) buf \<and>
       ch_sequence_number ch' = frames_seq (ch_sequence_number ch) buf)"
  using channel_read_loop_outcome [OF assms, of "[]"] by (auto simp: channel_read_def read_outcome_def)

lemma channel_read_ok:
  assumes "reliable_stream S inp out" and "channel_wf ch"
    and "inp (ch_stream ch) = frames (ch_sequence_number ch) m @ rest"
  shows "\<exists>code ch'. channel_read S ch = Some (m, code, ch') \<and> \<not> failed code \<and> same_session ch ch' \<and>
    out (ch_stream ch') = out (ch_stream ch) \<and> inp (ch_stream ch') = rest \<and>
    ch_sequence_number ch' = frames_seq (ch_sequence_number ch) m"
proof -
  obtain code ch' where r: "channel_read S ch = Some (m, code, ch')" "\<not> failed code" "inp (ch_stream ch') = rest"
      "ch_sequence_number ch' = frames_seq (ch_sequence_number ch) m"
    using channel_read_loop_frames [OF assms, of "[]"] by (auto simp: reads_message_def channel_read_def)
  moreover have "same_session ch ch' \<and> out (ch_stream ch') = out (ch_stream ch)"
    using channel_read_any [OF reliable_byte_stream [OF assms(1)] assms(2)] r(1) by auto
  ultimately show ?thesis by blast
qed

lemma channel_write_any:
  assumes "byte_stream S inp out" and "channel_wf ch"
  shows "\<exists>code ch' ws. channel_write S m ch = Some (code, ch') \<and> same_session ch ch' \<and>
    inp (ch_stream ch') = inp (ch_stream ch) \<and>
    out (ch_stream ch') = out (ch_stream ch) @ map (Pair (ch_ssl ch)) ws \<and>
    prefix (concat ws) (concat (packets (ch_sequence_number ch) m)) \<and>
    (\<not> failed code \<longrightarrow> ws = packets (ch_sequence_number ch) m \<and>
       ch_sequence_number ch' = ch_sequence_number ch + word_of_nat (length ws))"
  using channel_write_loop_outcome [OF assms, of 0 m] by (simp add: channel_write_def write_outcome_def)

lemma channel_write_ok:
  assumes "reliable_stream S inp out" and "channel_wf ch"
  shows "\<exists>code ch'. channel_write S m ch = Some (code, ch') \<and> \<not> failed code \<and> same_session ch ch' \<and>
    inp (ch_stream ch') = inp (ch_stream ch) \<and>
    out (ch_stream ch') = out (ch_stream ch) @ map (Pair (ch_ssl ch)) (packets (ch_sequence_number ch) m) \<and>
    ch_sequence_number ch' = ch_sequence_number ch + word_of_nat (length (packets (ch_sequence_number ch) m))"
  using channel_write_any [OF reliable_byte_stream [OF assms(1)] assms(2), of m]
    channel_write_loop_reliable [OF assms]
  by (auto simp: channel_write_def)

text \<open>Messages shorter than a full packet are one frame, written at once.\<close>

lemma packets_short: "length m < MAX_PACKET_SIZE \<Longrightarrow> packets seq m = [frame_header (length m) seq @ m]"
  by (simp add: packets.simps)

lemma frames_short: "length m < MAX_PACKET_SIZE \<Longrightarrow> frames seq m = frame_header (length m) seq @ m"
  by (simp add: frames.simps)

section \<open>Properties\<close>

text \<open>
  C8: whatever the peer sends, reading a message returns, writes nothing, and consumes a prefix of
  what was sent; when it succeeds the prefix is a message in frames whose sequence numbers follow
  on from the one expected, and the buffer holds exactly that message.
\<close>
theorem channel_read_sound:
  assumes "byte_stream S inp out" and "channel_wf ch"
  shows "\<exists>buf code ch' p. channel_read S ch = Some (buf, code, ch') \<and>
    out (ch_stream ch') = out (ch_stream ch) \<and> inp (ch_stream ch) = p @ inp (ch_stream ch') \<and>
    (\<not> failed code \<longrightarrow> p = frames (ch_sequence_number ch) buf \<and>
       ch_sequence_number ch' = frames_seq (ch_sequence_number ch) buf)"
  using channel_read_any [OF assms] by blast

definition sample_peer :: "bytes \<Rightarrow> scripted channel" where
  "sample_peer bs = make_channel \<lparr>scr_in = bs, scr_out = [], scr_open = True\<rparr>"

lemma sample_peer_wf [simp]: "channel_wf (sample_peer bs)"
  by (simp add: sample_peer_def channel_wf_def make_channel_def)

lemma scripted_byte_stream: "byte_stream scripted_stream scr_in scr_out"
  by (rule reliable_byte_stream [OF scripted_reliable])

lemma channel_read_sound_witness:
  "\<exists>buf code ch'. channel_read scripted_stream (sample_peer [3, 0, 0, 1, 1, 2, 3]) = Some (buf, code, ch')"
  using channel_read_sound [OF scripted_byte_stream sample_peer_wf, of "[3, 0, 0, 1, 1, 2, 3]"] by blast

text \<open>
  A message in frames is read whatever its size, split messages and full last packets
  included, and nothing after it is consumed.
\<close>
theorem channel_read_frames:
  assumes "reliable_stream S inp out" and "channel_wf ch"
    and "inp (ch_stream ch) = frames (ch_sequence_number ch) m @ rest"
  shows "\<exists>code ch'. channel_read S ch = Some (m, code, ch') \<and> \<not> failed code \<and>
    inp (ch_stream ch') = rest \<and> ch_sequence_number ch' = frames_seq (ch_sequence_number ch) m"
  using channel_read_ok [OF assms] by blast

lemma channel_read_frames_witness:
  "\<exists>code ch'. channel_read scripted_stream (sample_peer [3, 0, 0, 0, 1, 2, 3, 9]) = Some ([1, 2, 3], code, ch') \<and> \<not> failed code"
  using channel_read_frames [OF scripted_reliable sample_peer_wf,
      of "[3, 0, 0, 0, 1, 2, 3, 9]" "[1, 2, 3]" "[9]"]
  by (auto simp: sample_peer_def make_channel_def frames_short MAX_PACKET_SIZE_def frame_header_def le_bytes_numeral)

text \<open>
  A packet with another sequence number than the expected one is refused with
  \<open>sequence_number_mismatch\<close>; only its header was consumed, and the number expected stays.
\<close>
theorem channel_sequence_mismatch:
  assumes "reliable_stream S inp out" and "channel_wf ch" and "sz \<le> MAX_PACKET_SIZE"
    and "inp (ch_stream ch) = frame_header sz seq @ rest" and "seq \<noteq> ch_sequence_number ch"
  shows "\<exists>ch'. channel_read S ch = Some ([], make_error_code sequence_number_mismatch, ch') \<and>
    inp (ch_stream ch') = rest \<and> ch_sequence_number ch' = ch_sequence_number ch"
  unfolding channel_read_def by (rule channel_read_loop_mismatch [OF assms(1,2,4,3,5)])

lemma channel_sequence_mismatch_witness:
  "\<exists>ch'. channel_read scripted_stream (sample_peer [3, 0, 0, 1, 1, 2, 3])
     = Some ([], make_error_code sequence_number_mismatch, ch')"
  using channel_sequence_mismatch [OF scripted_reliable sample_peer_wf, of 3 "[3, 0, 0, 1, 1, 2, 3]" 1 "[1, 2, 3]"]
  by (auto simp: sample_peer_def make_channel_def MAX_PACKET_SIZE_def frame_header_def le_bytes_numeral)

text \<open>
  C9: messages survive the message layer: what one side writes, the other side reads back, whatever
  the size of the message as long as it is not a positive multiple of the packet size, and the
  sequence numbers of the two sides stay in step.
\<close>
theorem channel_roundtrip:
  assumes "reliable_stream S inp out" and "channel_wf w" and "reliable_stream S' inp' out'" and "channel_wf r"
    and "ch_sequence_number r = ch_sequence_number w" and "\<not> full_packets m"
    and "inp' (ch_stream r) = concat (packets (ch_sequence_number w) m) @ rest"
  shows "\<exists>c w' c' r'. channel_write S m w = Some (c, w') \<and> \<not> failed c \<and>
    out (ch_stream w') = out (ch_stream w) @ map (Pair (ch_ssl w)) (packets (ch_sequence_number w) m) \<and>
    channel_read S' r = Some (m, c', r') \<and> \<not> failed c' \<and> inp' (ch_stream r') = rest \<and>
    ch_sequence_number r' = ch_sequence_number w'"
proof -
  have "inp' (ch_stream r) = frames (ch_sequence_number r) m @ rest"
    using assms(5-7) by (simp add: frames_packets)
  then obtain c' r' where "channel_read S' r = Some (m, c', r')" "\<not> failed c'" "inp' (ch_stream r') = rest"
      "ch_sequence_number r' = frames_seq (ch_sequence_number r) m"
    using channel_read_ok [OF assms(3,4)] by blast
  moreover obtain c w' where "channel_write S m w = Some (c, w')" "\<not> failed c"
      "out (ch_stream w') = out (ch_stream w) @ map (Pair (ch_ssl w)) (packets (ch_sequence_number w) m)"
      "ch_sequence_number w' = ch_sequence_number w + word_of_nat (length (packets (ch_sequence_number w) m))"
    using channel_write_ok [OF assms(1,2)] by blast
  ultimately show ?thesis using assms(5,6) by (simp add: length_packets frames_seq_def)
qed

lemma channel_roundtrip_witness:
  "\<exists>c w' c' r'. channel_write scripted_stream [1, 2, 3] (sample_peer []) = Some (c, w') \<and>
     channel_read scripted_stream (sample_peer [3, 0, 0, 0, 1, 2, 3]) = Some ([1, 2, 3], c', r') \<and>
     ch_sequence_number r' = ch_sequence_number w'"
proof -
  have "\<not> full_packets [1, 2, 3]" by (auto simp: full_packets_def MAX_PACKET_SIZE_def dest: dvd_imp_le)
  then show ?thesis
    using channel_roundtrip [OF scripted_reliable sample_peer_wf scripted_reliable sample_peer_wf,
        of "[3, 0, 0, 0, 1, 2, 3]" "[]" "[1, 2, 3]" "[]"]
    by (auto simp: packets_short frame_header_def le_bytes_numeral MAX_PACKET_SIZE_def sample_peer_def make_channel_def)
qed

text \<open>
  C26: a message whose size is a positive multiple of the packet size is not delivered: the reader
  goes on after a packet of the maximum size, and the writer does not send the empty packet that
  ends such a message. When nothing else follows, reading fails.
\<close>
theorem channel_full_packets_lost:
  assumes "reliable_stream S inp out" and "channel_wf w" and "byte_stream S' inp' out'" and "channel_wf r"
    and "ch_sequence_number r = ch_sequence_number w" and "full_packets m"
    and "inp' (ch_stream r) = concat (packets (ch_sequence_number w) m)"
  shows "\<exists>c w' buf c' r'. channel_write S m w = Some (c, w') \<and> \<not> failed c \<and>
    out (ch_stream w') = out (ch_stream w) @ map (Pair (ch_ssl w)) (packets (ch_sequence_number w) m) \<and>
    channel_read S' r = Some (buf, c', r') \<and> failed c'"
proof -
  obtain buf c' r' p where rd: "channel_read S' r = Some (buf, c', r')" "inp' (ch_stream r) = p @ inp' (ch_stream r')"
      "\<not> failed c' \<longrightarrow> p = frames (ch_sequence_number r) buf"
    using channel_read_any [OF assms(3,4)] by blast
  have "failed c'"
  proof (rule ccontr)
    assume "\<not> failed c'"
    then have "concat (packets (ch_sequence_number w) m) = frames (ch_sequence_number w) buf @ inp' (ch_stream r')"
      using rd assms(5,7) by simp
    moreover obtain h where "h \<noteq> []" "frames (ch_sequence_number w) m = concat (packets (ch_sequence_number w) m) @ h"
      using assms(6) frames_packets [of "ch_sequence_number w" m]
      by (simp add: that [OF frame_header_not_Nil])
    ultimately have "frames (ch_sequence_number w) m @ [] = frames (ch_sequence_number w) buf @ inp' (ch_stream r') @ h"
      by simp
    from frames_inject [OF this] \<open>h \<noteq> []\<close> show False by simp
  qed
  then show ?thesis using rd(1) channel_write_ok [OF assms(1,2), of m] by blast
qed

lemma channel_full_packets_lost_witness:
  "\<exists>buf c' r'. channel_read scripted_stream (sample_peer (concat (packets 0 (replicate MAX_PACKET_SIZE 0))))
     = Some (buf, c', r') \<and> failed c'"
proof -
  have "full_packets (replicate MAX_PACKET_SIZE 0)" by (simp add: full_packets_def)
  then show ?thesis
    using channel_full_packets_lost [OF scripted_reliable sample_peer_wf scripted_byte_stream sample_peer_wf,
        of "concat (packets 0 (replicate MAX_PACKET_SIZE 0))" "[]" "replicate MAX_PACKET_SIZE 0"]
    by (auto simp: sample_peer_def make_channel_def)
qed

end
