(* ===== verification/Session.thy ===== *)
theory Session
  imports Channel
begin

text \<open>
  What the network algorithms share: reading into and writing from the buffer the channel owns,
  chains of messages waiting to be read, and what every operation of a session preserves.
\<close>

section \<open>The shared buffer\<close>

text \<open>Most algorithms read into, and write from, the buffer the channel owns.\<close>

definition read_shared :: "'s stream_ops \<Rightarrow> 's channel \<Rightarrow> (error_code \<times> 's channel) option" where
  "read_shared S ch =
     map_option (\<lambda>(buf, code, ch1). (code, ch1\<lparr>ch_shared_buff := buf\<rparr>)) (channel_read S ch)"

definition write_shared :: "'s stream_ops \<Rightarrow> 's channel \<Rightarrow> (error_code \<times> 's channel) option" where
  "write_shared S ch = channel_write S (ch_shared_buff ch) ch"

section \<open>Progress of a session\<close>

text \<open>
  What operations that stay inside one session do: they consume a prefix of what the peer sent and
  append writes, all through TLS or all outside it, and change neither the capabilities nor TLS.
\<close>

definition progress ::
    "('s \<Rightarrow> bytes) \<Rightarrow> ('s \<Rightarrow> (bool \<times> bytes) list) \<Rightarrow> 's channel \<Rightarrow> 's channel \<Rightarrow> bool" where
  "progress inp out ch ch' \<longleftrightarrow>
     channel_wf ch' \<and> ch_ssl ch' = ch_ssl ch \<and> ch_current_caps ch' = ch_current_caps ch \<and>
     (\<exists>p. inp (ch_stream ch) = p @ inp (ch_stream ch')) \<and>
     (\<exists>ws. out (ch_stream ch') = out (ch_stream ch) @ map (Pair (ch_ssl ch)) ws)"

lemma progress_refl: "channel_wf ch \<Longrightarrow> progress inp out ch ch"
  unfolding progress_def by (auto intro: exI [of _ "[]"])

lemma progress_trans [trans]:
  assumes "progress inp out a b" and "progress inp out b c"
  shows "progress inp out a c"
proof -
  obtain p q ws vs where "inp (ch_stream a) = p @ inp (ch_stream b)" "inp (ch_stream b) = q @ inp (ch_stream c)"
      "out (ch_stream b) = out (ch_stream a) @ map (Pair (ch_ssl a)) ws"
      "out (ch_stream c) = out (ch_stream b) @ map (Pair (ch_ssl b)) vs" "ch_ssl b = ch_ssl a"
    using assms by (auto simp: progress_def)
  then have "inp (ch_stream a) = (p @ q) @ inp (ch_stream c)"
    "out (ch_stream c) = out (ch_stream a) @ map (Pair (ch_ssl a)) (ws @ vs)" by simp_all
  then show ?thesis using assms unfolding progress_def by metis
qed

lemma progress_length: "progress inp out a b \<Longrightarrow> length (inp (ch_stream b)) \<le> length (inp (ch_stream a))"
  by (auto simp: progress_def)

lemma progress_shared [simp]:
  "progress inp out a (b\<lparr>ch_shared_buff := x\<rparr>) = progress inp out a b"
  "progress inp out (a\<lparr>ch_shared_buff := x\<rparr>) b = progress inp out a b"
  by (simp_all add: progress_def channel_wf_def)

lemma progress_seq [simp]:
  "progress inp out a (reset_sequence_number n b) = progress inp out a b"
  "progress inp out (reset_sequence_number n a) b = progress inp out a b"
  by (simp_all add: progress_def channel_wf_def reset_sequence_number_def)

lemma channel_wf_updates [simp]:
  "channel_wf (ch\<lparr>ch_shared_buff := b\<rparr>) = channel_wf ch"
  "channel_wf (reset_sequence_number n ch) = channel_wf ch"
  "channel_wf (set_current_capabilities c ch) = channel_wf ch"
  by (simp_all add: channel_wf_def reset_sequence_number_def set_current_capabilities_def)

lemma length_frames: "4 \<le> length (frames seq m)"
  by (subst frames.simps) simp

lemma channel_read_progress:
  assumes "byte_stream S inp out" and "channel_wf ch"
  shows "\<exists>buf code ch'. channel_read S ch = Some (buf, code, ch') \<and> progress inp out ch ch' \<and>
    ch_shared_buff ch' = ch_shared_buff ch \<and>
    (\<not> failed code \<longrightarrow> length (inp (ch_stream ch')) < length (inp (ch_stream ch)))"
proof -
  obtain buf code ch' p where r: "channel_read S ch = Some (buf, code, ch')" "same_session ch ch'"
      "out (ch_stream ch') = out (ch_stream ch)" "inp (ch_stream ch) = p @ inp (ch_stream ch')"
      "\<not> failed code \<longrightarrow> p = frames (ch_sequence_number ch) buf"
    using channel_read_any [OF assms] by blast
  have "length (inp (ch_stream ch')) < length (inp (ch_stream ch))" if "\<not> failed code"
    using r(4,5) that length_frames [of "ch_sequence_number ch" buf] by auto
  then show ?thesis
    using r assms(2) by (auto simp: progress_def same_session_def intro!: exI [of _ "[]"])
qed

lemma read_shared_progress:
  assumes "byte_stream S inp out" and "channel_wf ch"
  shows "\<exists>code ch'. read_shared S ch = Some (code, ch') \<and> progress inp out ch ch' \<and>
    (\<not> failed code \<longrightarrow> length (inp (ch_stream ch')) < length (inp (ch_stream ch)))"
  using channel_read_progress [OF assms] by (auto simp: read_shared_def)

lemma channel_write_progress:
  assumes "byte_stream S inp out" and "channel_wf ch"
  shows "\<exists>code ch'. channel_write S m ch = Some (code, ch') \<and> progress inp out ch ch'"
  using channel_write_any [OF assms, of m] assms(2)
  by (auto simp: progress_def same_session_def intro: exI [of _ "[]"])

lemma write_shared_progress:
  assumes "byte_stream S inp out" and "channel_wf ch"
  shows "\<exists>code ch'. write_shared S ch = Some (code, ch') \<and> progress inp out ch ch'"
  unfolding write_shared_def by (rule channel_write_progress [OF assms])

lemma read_shared_ok:
  assumes "reliable_stream S inp out" and "channel_wf ch"
    and "inp (ch_stream ch) = frames (ch_sequence_number ch) m @ rest"
  shows "\<exists>code ch'. read_shared S ch = Some (code, ch') \<and> \<not> failed code \<and> ch_shared_buff ch' = m \<and>
    inp (ch_stream ch') = rest \<and> out (ch_stream ch') = out (ch_stream ch) \<and> ch_ssl ch' = ch_ssl ch \<and>
    ch_current_caps ch' = ch_current_caps ch \<and> channel_wf ch' \<and>
    ch_sequence_number ch' = frames_seq (ch_sequence_number ch) m"
  using channel_read_ok [OF assms] assms(2) by (auto simp: read_shared_def same_session_def)

lemma channel_write_short:
  assumes "reliable_stream S inp out" and "channel_wf ch" and "length m < MAX_PACKET_SIZE"
  shows "\<exists>code ch'. channel_write S m ch = Some (code, ch') \<and> \<not> failed code \<and> ch_shared_buff ch' = ch_shared_buff ch \<and>
    inp (ch_stream ch') = inp (ch_stream ch) \<and>
    out (ch_stream ch') = out (ch_stream ch) @ [(ch_ssl ch, frame_header (length m) (ch_sequence_number ch) @ m)] \<and>
    ch_ssl ch' = ch_ssl ch \<and> ch_current_caps ch' = ch_current_caps ch \<and> channel_wf ch' \<and>
    ch_sequence_number ch' = ch_sequence_number ch + 1"
  using channel_write_ok [OF assms(1,2), of m] assms(2,3) by (auto simp: same_session_def packets_short)

section \<open>Chains of messages\<close>

text \<open>
  Messages waiting to be read, each numbered after the last packet of the one before:
  \<open>pending inp ch ms rest\<close> says that the peer has sent \<open>ms\<close> and then \<open>rest\<close>.
\<close>

fun frames_list :: "u8 \<Rightarrow> bytes list \<Rightarrow> bytes" where
  "frames_list seq [] = []"
| "frames_list seq (m # ms) = frames seq m @ frames_list (frames_seq seq m) ms"

definition pending :: "('s \<Rightarrow> bytes) \<Rightarrow> 's channel \<Rightarrow> bytes list \<Rightarrow> bytes \<Rightarrow> bool" where
  "pending inp ch ms rest \<longleftrightarrow>
     channel_wf ch \<and> inp (ch_stream ch) = frames_list (ch_sequence_number ch) ms @ rest"

lemma pending_wf: "pending inp ch ms rest \<Longrightarrow> channel_wf ch"
  by (simp add: pending_def)

lemma pending_Nil: "pending inp ch [] rest \<Longrightarrow> inp (ch_stream ch) = rest"
  by (simp add: pending_def)

lemma channel_read_pending:
  assumes "reliable_stream S inp out" and "pending inp ch (m # ms) rest"
  obtains code ch' where "channel_read S ch = Some (m, code, ch')" "\<not> failed code" "same_session ch ch'"
    "out (ch_stream ch') = out (ch_stream ch)" "pending inp ch' ms rest"
proof -
  have "inp (ch_stream ch) = frames (ch_sequence_number ch) m @ frames_list (frames_seq (ch_sequence_number ch) m) ms @ rest"
    and wf: "channel_wf ch"
    using assms(2) by (simp_all add: pending_def)
  from channel_read_ok [OF assms(1) wf this(1)] obtain code ch' where
    r: "channel_read S ch = Some (m, code, ch')" "\<not> failed code" "same_session ch ch'"
    "out (ch_stream ch') = out (ch_stream ch)"
    "inp (ch_stream ch') = frames_list (frames_seq (ch_sequence_number ch) m) ms @ rest"
    "ch_sequence_number ch' = frames_seq (ch_sequence_number ch) m" by blast
  moreover have "pending inp ch' ms rest"
    using r wf by (simp add: pending_def same_session_def)
  ultimately show ?thesis using that by blast
qed

end
