(* ===== verification/Auth.thy ===== *)
theory Auth
  imports Errors
begin

text \<open>
  The authentication plugins (\<open>mysql_native_password\<close>, \<open>caching_sha2_password\<close>) and the
  \<open>auth_calculator\<close> that selects one by name. The digests of the crypto library are parameters.
\<close>

section \<open>The crypto library\<close>

record crypto_lib =
  cl_sha1 :: "bytes \<Rightarrow> bytes"
  cl_sha256 :: "bytes \<Rightarrow> bytes"

text \<open>What is documented of them and used here: the sizes of the digests.\<close>

definition crypto_library :: "crypto_lib \<Rightarrow> bool" where
  "crypto_library H \<longleftrightarrow> (\<forall>x. length (cl_sha1 H x) = 20) \<and> (\<forall>x. length (cl_sha256 H x) = 32)"

definition xor_bytes :: "bytes \<Rightarrow> bytes \<Rightarrow> bytes" where
  "xor_bytes xs ys = map2 (XOR) xs ys"

section \<open>mysql_native_password\<close>

definition native_challenge_length :: nat where
  "native_challenge_length = 20"

definition native_compute_auth_string :: "crypto_lib \<Rightarrow> bytes \<Rightarrow> bytes \<Rightarrow> bytes" where
  "native_compute_auth_string H password challenge =
     (let password_sha1 = cl_sha1 H password;
          salted_buffer = take native_challenge_length challenge @ cl_sha1 H password_sha1;
          salted_sha1 = cl_sha1 H salted_buffer
      in xor_bytes password_sha1 salted_sha1)"

text \<open>
  A calculator gets the password, the challenge, whether TLS is in use and the previous contents
  of the output string, which it leaves alone when it fails.
\<close>

type_synonym calculator = "bytes \<Rightarrow> bytes \<Rightarrow> bool \<Rightarrow> bytes \<Rightarrow> error_code \<times> bytes"

definition native_compute_response :: "crypto_lib \<Rightarrow> calculator" where
  "native_compute_response H password challenge use_ssl output =
     (if length challenge \<noteq> native_challenge_length then (make_error_code protocol_value_error, output)
      else (no_error, native_compute_auth_string H password challenge))"

section \<open>caching_sha2_password\<close>

definition sha2_challenge_length :: nat where
  "sha2_challenge_length = 20"

definition perform_full_auth :: bytes where
  "perform_full_auth = [4]"

definition sha2_compute_auth_string :: "crypto_lib \<Rightarrow> bytes \<Rightarrow> bytes \<Rightarrow> bytes" where
  "sha2_compute_auth_string H password challenge =
     (let password_sha = cl_sha256 H password;
          buffer = cl_sha256 H password_sha @ take sha2_challenge_length challenge;
          salted_password = cl_sha256 H buffer
      in xor_bytes salted_password password_sha)"

definition sha2_compute_response :: "crypto_lib \<Rightarrow> calculator" where
  "sha2_compute_response H password challenge use_ssl output =
     (if challenge = perform_full_auth then
        (if \<not> use_ssl then (make_error_code auth_plugin_requires_ssl, output)
         else (no_error, password @ [0]))
      else if length challenge \<noteq> sha2_challenge_length then (make_error_code protocol_value_error, output)
      else (no_error, sha2_compute_auth_string H password challenge))"

section \<open>The contract of a plugin\<close>

text \<open>
  Two laws every plugin obeys: a failure leaves the output alone, and without TLS the password
  reaches the response only through a digest.
\<close>

locale auth_plugin =
  fixes calc :: calculator and digest :: "bytes \<Rightarrow> bytes"
  assumes failed_output: "calc p c ssl out = (code, out') \<Longrightarrow> failed code \<Longrightarrow> out' = out"
    and digest_only: "digest p = digest p' \<Longrightarrow> calc p c False out = calc p' c False out"

interpretation native: auth_plugin "native_compute_response H" "cl_sha1 H" for H
  by unfold_locales
    (auto simp: native_compute_response_def native_compute_auth_string_def split: if_splits)

interpretation sha2: auth_plugin "sha2_compute_response H" "cl_sha256 H" for H
  by unfold_locales
    (auto simp: sha2_compute_response_def sha2_compute_auth_string_def split: if_splits)

section \<open>auth_calculator\<close>

record authentication_plugin =
  ap_name :: bytes
  ap_calculator :: calculator

definition mysql_native_password_name :: bytes where
  "mysql_native_password_name = ascii ''mysql_native_password''"

definition caching_sha2_password_name :: bytes where
  "caching_sha2_password_name = ascii ''caching_sha2_password''"

definition mysql_native_password_plugin :: "crypto_lib \<Rightarrow> authentication_plugin" where
  "mysql_native_password_plugin H =
     \<lparr>ap_name = mysql_native_password_name, ap_calculator = native_compute_response H\<rparr>"

definition caching_sha2_password_plugin :: "crypto_lib \<Rightarrow> authentication_plugin" where
  "caching_sha2_password_plugin H =
     \<lparr>ap_name = caching_sha2_password_name, ap_calculator = sha2_compute_response H\<rparr>"

definition all_authentication_plugins :: "crypto_lib \<Rightarrow> authentication_plugin list" where
  "all_authentication_plugins H = [mysql_native_password_plugin H, caching_sha2_password_plugin H]"

definition find_plugin :: "crypto_lib \<Rightarrow> bytes \<Rightarrow> authentication_plugin option" where
  "find_plugin H name = find (\<lambda>p. ap_name p = name) (all_authentication_plugins H)"

record auth_calculator =
  ac_plugin :: "authentication_plugin option"
  ac_response :: bytes

definition new_calculator :: auth_calculator where
  "new_calculator = \<lparr>ac_plugin = None, ac_response = []\<rparr>"

text \<open>Asking for the name without a plugin dereferences a null pointer: \<open>None\<close>.\<close>

definition plugin_name :: "auth_calculator \<Rightarrow> bytes option" where
  "plugin_name calc = map_option ap_name (ac_plugin calc)"

definition calculate ::
    "crypto_lib \<Rightarrow> bytes \<Rightarrow> bytes \<Rightarrow> bytes \<Rightarrow> bool \<Rightarrow> auth_calculator \<Rightarrow> error_code \<times> auth_calculator" where
  "calculate H name password challenge use_ssl calc =
     (let calc1 = calc\<lparr>ac_plugin := find_plugin H name\<rparr>
      in case ac_plugin calc1 of
           None \<Rightarrow> (make_error_code unknown_auth_plugin, calc1)
         | Some p \<Rightarrow>
             if password = [] then (no_error, calc1\<lparr>ac_response := []\<rparr>)
             else (case ap_calculator p password challenge use_ssl (ac_response calc1) of
                     (code, out) \<Rightarrow> (code, calc1\<lparr>ac_response := out\<rparr>)))"

lemma plugin_names_distinct: "mysql_native_password_name \<noteq> caching_sha2_password_name"
  by (simp add: mysql_native_password_name_def caching_sha2_password_name_def ascii_def)

lemma find_plugin_simps [simp]:
  "find_plugin H mysql_native_password_name = Some (mysql_native_password_plugin H)"
  "find_plugin H caching_sha2_password_name = Some (caching_sha2_password_plugin H)"
  using plugin_names_distinct
  by (auto simp: find_plugin_def all_authentication_plugins_def mysql_native_password_plugin_def
      caching_sha2_password_plugin_def)

lemma find_plugin_cases:
  assumes "find_plugin H name = Some p"
  obtains "name = mysql_native_password_name" "p = mysql_native_password_plugin H"
    | "name = caching_sha2_password_name" "p = caching_sha2_password_plugin H"
  using assms
  by (auto simp: find_plugin_def all_authentication_plugins_def mysql_native_password_plugin_def
      caching_sha2_password_plugin_def split: if_splits)

lemma find_plugin_known:
  "find_plugin H name \<noteq> None \<longleftrightarrow> name \<in> {mysql_native_password_name, caching_sha2_password_name}"
  by (auto simp: find_plugin_def all_authentication_plugins_def mysql_native_password_plugin_def
      caching_sha2_password_plugin_def)

text \<open>A calculation that succeeds leaves a plugin set, so that its name can be asked for.\<close>

lemma calculate_plugin:
  "calculate H name password challenge ssl calc = (code, calc') \<Longrightarrow> \<not> failed code \<Longrightarrow>
   ac_plugin calc' = find_plugin H name \<and> plugin_name calc' = Some name"
  by (auto simp: calculate_def plugin_name_def Let_def split: option.splits if_splits prod.splits
      elim!: find_plugin_cases)
    (simp_all add: mysql_native_password_plugin_def caching_sha2_password_plugin_def)

text \<open>Two passwords are told apart by nothing but their digests, and by being blank.\<close>

definition same_digests :: "crypto_lib \<Rightarrow> bytes \<Rightarrow> bytes \<Rightarrow> bool" where
  "same_digests H p p' \<longleftrightarrow>
     cl_sha1 H p = cl_sha1 H p' \<and> cl_sha256 H p = cl_sha256 H p' \<and> (p = [] \<longleftrightarrow> p' = [])"

lemma calculate_digests:
  assumes "same_digests H p p'"
  shows "calculate H name p challenge False calc = calculate H name p' challenge False calc"
proof (cases "find_plugin H name")
  case (Some pl)
  then have "ap_calculator pl p challenge False out = ap_calculator pl p' challenge False out" for out
    by (rule find_plugin_cases)
      (use assms in \<open>auto simp: same_digests_def mysql_native_password_plugin_def
        caching_sha2_password_plugin_def intro: native.digest_only sha2.digest_only\<close>)
  then show ?thesis using Some assms by (simp add: calculate_def same_digests_def Let_def)
qed (simp add: calculate_def)

lemma length_responses:
  assumes "crypto_library H"
  shows "length (native_compute_auth_string H p c) = 20" "length (sha2_compute_auth_string H p c) = 32"
  using assms
  by (simp_all add: crypto_library_def native_compute_auth_string_def sha2_compute_auth_string_def
      xor_bytes_def Let_def)

section \<open>Properties\<close>

lemma calculate_cases:
  assumes "crypto_library H" and "calculate H name password challenge use_ssl calc = (code, calc')"
  shows "if name \<notin> {mysql_native_password_name, caching_sha2_password_name}
    then code = make_error_code unknown_auth_plugin
    else if password = [] then code = no_error \<and> ac_response calc' = []
    else if name = caching_sha2_password_name \<and> challenge = perform_full_auth
    then (if use_ssl then code = no_error \<and> ac_response calc' = password @ [0]
          else code = make_error_code auth_plugin_requires_ssl \<and> ac_response calc' = ac_response calc)
    else if length challenge \<noteq> 20
    then code = make_error_code protocol_value_error \<and> ac_response calc' = ac_response calc
    else code = no_error \<and> length (ac_response calc') = (if name = mysql_native_password_name then 20 else 32)"
proof (cases "find_plugin H name")
  case None
  then show ?thesis
    using assms(2) find_plugin_known [of H name] by (simp add: calculate_def)
next
  case (Some p)
  then show ?thesis
  proof (rule find_plugin_cases, goal_cases)
    case 1
    then show ?thesis
      using assms(2) plugin_names_distinct length_responses [OF assms(1)]
      by (auto simp: calculate_def mysql_native_password_plugin_def native_compute_response_def
          native_challenge_length_def split: if_splits)
  next
    case 2
    then show ?thesis
      using assms(2) plugin_names_distinct length_responses [OF assms(1)]
      by (auto simp: calculate_def caching_sha2_password_plugin_def sha2_compute_response_def
          sha2_challenge_length_def perform_full_auth_def split: if_splits)
  qed
qed

text \<open>
  The response to a challenge, for every plugin name, password and challenge: an unknown
  plugin is refused; a blank password gives an empty response; a challenge of 20 bytes gives the
  plugin's scrambled digest, of the digest's size; the request for full authentication gives the
  password itself with its terminator, and only over TLS; any other challenge is refused.
\<close>
theorem auth_response_cases:
  assumes "crypto_library H" and "calculate H name password challenge use_ssl calc = (code, calc')"
  shows "if name \<notin> {mysql_native_password_name, caching_sha2_password_name}
    then code = make_error_code unknown_auth_plugin
    else if password = [] then code = no_error \<and> ac_response calc' = []
    else if name = caching_sha2_password_name \<and> challenge = perform_full_auth
    then (if use_ssl then code = no_error \<and> ac_response calc' = password @ [0]
          else code = make_error_code auth_plugin_requires_ssl \<and> ac_response calc' = ac_response calc)
    else if length challenge \<noteq> 20
    then code = make_error_code protocol_value_error \<and> ac_response calc' = ac_response calc
    else code = no_error \<and> length (ac_response calc') = (if name = mysql_native_password_name then 20 else 32)"
  by (rule calculate_cases [OF assms])

text \<open>Digests for the examples: sizes as documented, contents not those of the real digests.\<close>

definition sample_crypto :: crypto_lib where
  "sample_crypto = \<lparr>cl_sha1 = resize 20, cl_sha256 = resize 32\<rparr>"

lemma sample_crypto_library: "crypto_library sample_crypto"
  by (simp add: crypto_library_def sample_crypto_def)

lemma auth_response_cases_witness:
  "fst (calculate sample_crypto caching_sha2_password_name [0x70] perform_full_auth False new_calculator)
     = make_error_code auth_plugin_requires_ssl"
  using auth_response_cases [OF sample_crypto_library surjective_pairing,
      of caching_sha2_password_name "[0x70]" perform_full_auth False new_calculator]
  by (simp del: auth_plugin_requires_ssl_def)

end
