(* ===== verification/Handshake_Messages.thy ===== *)
theory Handshake_Messages
  imports Common_Messages
begin

text \<open>
  The messages of the connection phase (\<open>handshake_messages.hpp\<close>): the server greeting, the SSL
  request, the handshake response, and the authentication switch and more-data messages, with
  the bounded string \<open>static_string\<close> that collects the two halves of the challenge.
\<close>

section \<open>Bounded strings\<close>

text \<open>
  \<open>static_string<max_size>\<close>: an array of \<open>max_size\<close> characters and the number in use. The copies
  are \<open>memcpy\<close>s guarded only by the assertion \<open>size_check\<close>; a copy past the array would make the
  modelled buffer longer than \<open>max_size\<close>, which \<open>static_string_wf\<close> excludes.
\<close>

record static_string =
  ss_buffer :: bytes
  ss_size :: nat

definition size_check :: "nat \<Rightarrow> nat \<Rightarrow> bool" where
  "size_check max_size sz \<longleftrightarrow> sz \<le> max_size"

definition static_string_empty :: "nat \<Rightarrow> static_string" where
  "static_string_empty max_size = \<lparr>ss_buffer = replicate max_size 0, ss_size = 0\<rparr>"

definition static_string_of :: "nat \<Rightarrow> bytes \<Rightarrow> static_string" where
  "static_string_of max_size v =
     \<lparr>ss_buffer = v @ drop (length v) (replicate max_size 0), ss_size = length v\<rparr>"

definition static_string_value :: "static_string \<Rightarrow> bytes" where
  "static_string_value s = take (ss_size s) (ss_buffer s)"

definition static_string_append :: "bytes \<Rightarrow> static_string \<Rightarrow> static_string" where
  "static_string_append arr s =
     (let new_size = ss_size s + length arr
      in s\<lparr>ss_buffer := take (ss_size s) (ss_buffer s) @ arr @ drop new_size (ss_buffer s),
           ss_size := new_size\<rparr>)"

definition static_string_clear :: "static_string \<Rightarrow> static_string" where
  "static_string_clear s = s\<lparr>ss_size := 0\<rparr>"

definition static_string_eq :: "static_string \<Rightarrow> static_string \<Rightarrow> bool" where
  "static_string_eq a b \<longleftrightarrow> static_string_value a = static_string_value b"

definition static_string_wf :: "nat \<Rightarrow> static_string \<Rightarrow> bool" where
  "static_string_wf max_size s \<longleftrightarrow> length (ss_buffer s) = max_size \<and> size_check max_size (ss_size s)"

lemma static_string_append_wf:
  "static_string_wf n s \<Longrightarrow>
   static_string_wf n (static_string_append arr s) \<longleftrightarrow> size_check n (ss_size s + length arr)"
  by (auto simp: static_string_wf_def static_string_append_def size_check_def Let_def)

lemma static_string_append_value:
  "static_string_wf n s \<Longrightarrow>
   static_string_value (static_string_append arr s) = static_string_value s @ arr"
  by (simp add: static_string_wf_def static_string_append_def static_string_value_def size_check_def Let_def)

lemma static_string_append_size [simp]:
  "ss_size (static_string_append arr s) = ss_size s + length arr"
  by (simp add: static_string_append_def Let_def)

lemma static_string_clear_simps [simp]:
  "static_string_wf n s \<Longrightarrow> static_string_wf n (static_string_clear s)"
  "static_string_value (static_string_clear s) = []" "ss_size (static_string_clear s) = 0"
  by (simp_all add: static_string_wf_def static_string_clear_def static_string_value_def size_check_def)

lemma static_string_empty_simps [simp]:
  "static_string_wf n (static_string_empty n)" "static_string_value (static_string_empty n) = []"
  by (simp_all add: static_string_wf_def static_string_empty_def static_string_value_def size_check_def)

lemma static_string_of_simps:
  "static_string_value (static_string_of n v) = v"
  "static_string_wf n (static_string_of n v) \<longleftrightarrow> size_check n (length v)"
  by (auto simp: static_string_wf_def static_string_of_def static_string_value_def size_check_def)

section \<open>Server greeting\<close>

record handshake_packet =
  hs_server_version :: bytes
  hs_connection_id :: u32
  hs_auth_plugin_data :: static_string
  hs_capability_falgs :: u32
  hs_character_set :: u8
  hs_status_flags :: u16
  hs_auth_plugin_name :: bytes

definition auth_buffer_max :: nat where
  "auth_buffer_max = 8 + 0xff"

definition auth1_length :: nat where
  [simp]: "auth1_length = 8"

definition deserialize_handshake_head ::
    "(bytes \<times> u32 \<times> bytes \<times> u8 \<times> bytes \<times> u8 \<times> u16 \<times> bytes \<times> unit) deser" where
  "deserialize_handshake_head =
     deserialize_cons deserialize_string_null
     (deserialize_cons (deserialize_fixed_int int4)
     (deserialize_cons (deserialize_string_fixed auth1_length)
     (deserialize_cons (deserialize_fixed_int int1)
     (deserialize_cons (deserialize_string_fixed 2)
     (deserialize_cons (deserialize_fixed_int int1)
     (deserialize_cons (deserialize_fixed_int int2)
     (deserialize_cons (deserialize_string_fixed 2) deserialize_nil)))))))"

text \<open>
  The length of the second half of the challenge: computed in \<open>int\<close>, where the subtraction can
  be negative, and narrowed to a byte.
\<close>

definition auth2_length :: "u8 \<Rightarrow> u8" where
  "auth2_length auth_plugin_data_len = word_of_int (max 13 (uint auth_plugin_data_len - int auth1_length))"

definition deserialize_handshake_packet :: "handshake_packet deser" where
  "deserialize_handshake_packet ctx =
     (case deserialize_handshake_head ctx of
        Inl err \<Rightarrow> Inl err
      | Inr ((server_version, connection_id, auth_plugin_data_part_1, _, capability_flags_low,
              character_set, status_flags, capability_flags_high, _), ctx1) \<Rightarrow>
          let capability_falgs = le_word (capability_flags_low @ capability_flags_high) :: u32
          in if \<not> caps_has (caps_of capability_falgs) CLIENT_PLUGIN_AUTH then Inl server_unsupported
             else
               (case deserialize_cons (deserialize_fixed_int int1)
                       (deserialize_cons (deserialize_string_fixed 10) deserialize_nil) ctx1 of
                  Inl err \<Rightarrow> Inl err
                | Inr ((auth_plugin_data_len, _, _), ctx2) \<Rightarrow>
                    let len2 = unat (auth2_length auth_plugin_data_len)
                    in if \<not> enough_size ctx2 len2 then Inl incomplete_message
                       else
                         let auth2_data = take len2 (remaining ctx2);
                             ctx3 = ctx_advance len2 ctx2
                         in (case deserialize_string_null ctx3 of
                               Inl err \<Rightarrow> Inl err
                             | Inr (auth_plugin_name, ctx4) \<Rightarrow>
                                 let data0 = static_string_clear (static_string_empty auth_buffer_max);
                                     data1 = static_string_append auth_plugin_data_part_1 data0;
                                     data2 = static_string_append (take (len2 - 1) auth2_data) data1
                                 in Inr (\<lparr>hs_server_version = server_version,
                                          hs_connection_id = connection_id,
                                          hs_auth_plugin_data = data2,
                                          hs_capability_falgs = capability_falgs,
                                          hs_character_set = character_set,
                                          hs_status_flags = status_flags,
                                          hs_auth_plugin_name = auth_plugin_name\<rparr>, ctx4))))"

text \<open>The second half never wraps around the byte, and always has its trailing null byte.\<close>

lemma unat_auth2_length: "unat (auth2_length n) = max 13 (unat n - 8)"
proof -
  have u: "uint n < 256" using unsigned_less [of n, where 'a = int] by simp
  have "uint (auth2_length n) = max 13 (uint n - 8)"
    using u by (auto simp: auth2_length_def unsigned_of_int take_bit_int_eq_self_iff)
  then have "int (unat (auth2_length n)) = max 13 (int (unat n) - 8)" by simp
  then show ?thesis by linarith
qed

lemma auth2_length_bounds: "13 \<le> unat (auth2_length n)" "unat (auth2_length n) \<le> 247"
proof -
  have "unat n < 256" using unsigned_less [of n, where 'a = nat] by simp
  then show "13 \<le> unat (auth2_length n)" "unat (auth2_length n) \<le> 247"
    unfolding unat_auth2_length by linarith+
qed

lemma reader_handshake_head: "reader deserialize_handshake_head"
  unfolding deserialize_handshake_head_def by (intro reader_intros)

lemma reader_handshake_len:
  "reader (deserialize_cons (deserialize_fixed_int int1 :: u8 deser)
     (deserialize_cons (deserialize_string_fixed 10) deserialize_nil))"
  by (intro reader_intros)

interpretation handshake_packet: reader deserialize_handshake_packet
proof (unfold_locales, goal_cases)
  case (1 ctx x ctx1)
  then show ?case
    unfolding deserialize_handshake_packet_def Let_def
    by (auto simp: ctx_simps split: sum.splits if_splits
        dest!: reader.deser_step [OF reader_handshake_head] reader.deser_step [OF reader_handshake_len]
          string_null.deser_step)
      (meson ctx_step_trans ctx_step_advance)
qed

lemma auth_data_part1_wf:
  "length p = 8 \<Longrightarrow>
   static_string_wf auth_buffer_max
     (static_string_append p (static_string_clear (static_string_empty auth_buffer_max)))"
  by (simp add: static_string_append_wf [of auth_buffer_max] size_check_def) (simp add: auth_buffer_max_def)

lemma handshake_head_part1:
  "deserialize_handshake_head ctx = Inr ((v, i, part1, f, low, cs, st, high, u), ctx1) \<Longrightarrow> length part1 = 8"
  by (auto simp: deserialize_handshake_head_def deserialize_cons_def deserialize_string_fixed_def
      ctx_simps split: sum.splits if_splits)

text \<open>
  The challenge always fits its buffer: neither \<open>append\<close> can fail its size check, whatever
  lengths the server announces. It is between 20 and 254 bytes long.
\<close>

lemma handshake_auth_data:
  assumes "deserialize_handshake_packet ctx = Inr (hs, ctx1)"
  shows "static_string_wf auth_buffer_max (hs_auth_plugin_data hs)"
    and "20 \<le> ss_size (hs_auth_plugin_data hs)" and "ss_size (hs_auth_plugin_data hs) \<le> 254"
proof -
  obtain part1 n8 tail where p1: "length part1 = 8" and l2: "unat (auth2_length n8) \<le> length tail"
    and hs: "hs_auth_plugin_data hs = static_string_append (take (unat (auth2_length n8) - Suc 0) tail)
        (static_string_append part1 (static_string_clear (static_string_empty auth_buffer_max)))"
    using assms
    by (auto simp: deserialize_handshake_packet_def Let_def ctx_simps
        dest!: handshake_head_part1 split: sum.splits if_splits intro: that)
  note * = p1 l2 auth2_length_bounds [of n8]
  show "static_string_wf auth_buffer_max (hs_auth_plugin_data hs)"
    unfolding hs static_string_append_wf [OF auth_data_part1_wf [OF p1]]
    using * by (simp add: size_check_def auth_buffer_max_def)
  show "20 \<le> ss_size (hs_auth_plugin_data hs)" "ss_size (hs_auth_plugin_data hs) \<le> 254"
    using * by (simp_all add: hs)
qed

text \<open>
  The greeting of a server (protocol 10, after the version byte) with challenge \<open>a\<close>: the
  challenge in two parts with a null byte at the end, its length plus one, and the two halves
  of the capabilities.
\<close>

definition enc_handshake_packet ::
    "bytes \<Rightarrow> u32 \<Rightarrow> bytes \<Rightarrow> u32 \<Rightarrow> u8 \<Rightarrow> u16 \<Rightarrow> bytes \<Rightarrow> bytes" where
  "enc_handshake_packet version conn_id a caps charset status plugin =
     version @ [0] @ le_bytes 4 conn_id @ take 8 a @ [0] @ take 2 (le_bytes 4 caps) @ [charset] @
     le_bytes 2 status @ drop 2 (le_bytes 4 caps) @ [of_nat (length a + 1)] @ replicate 10 0 @
     drop 8 a @ [0] @ plugin @ [0]"

lemma handshake_head_decoder:
  "decoder deserialize_handshake_head
     (enc_cons enc_string_null (enc_cons (enc_fixed_int int4) (enc_cons (enc_string_fixed 8)
       (enc_cons (enc_fixed_int int1) (enc_cons (enc_string_fixed 2) (enc_cons (enc_fixed_int int1)
       (enc_cons (enc_fixed_int int2) (enc_cons (enc_string_fixed 2) enc_nil))))))))
     (wf_cons no_nul (wf_cons (fits_int int4) (wf_cons (\<lambda>s. length s = 8) (wf_cons (fits_int int1)
       (wf_cons (\<lambda>s. length s = 2) (wf_cons (fits_int int1) (wf_cons (fits_int int2)
       (wf_cons (\<lambda>s. length s = 2) (\<lambda>_. True)))))))))"
  unfolding deserialize_handshake_head_def auth1_length_def
  by (intro decoder_intros decoder_cons decoder_nil)

lemma deserialize_handshake_head_enc:
  assumes "no_nul version" and "8 \<le> length a"
    and "remaining ctx = version @ [0] @ le_bytes 4 conn_id @ take 8 a @ [0] @
      take 2 (le_bytes 4 caps) @ [charset] @ le_bytes 2 status @ drop 2 (le_bytes 4 caps) @ rest"
  shows "\<exists>n. deserialize_handshake_head ctx =
      Inr ((version, conn_id, take 8 a, 0, take 2 (le_bytes 4 caps), charset, status,
            drop 2 (le_bytes 4 caps), ()), ctx_advance n ctx) \<and>
    drop n (remaining ctx) = rest"
proof -
  let ?x = "(version, conn_id, take 8 a, 0 :: u8, take 2 (le_bytes 4 caps), charset, status,
    drop 2 (le_bytes 4 caps), ())"
  let ?e = "enc_cons enc_string_null (enc_cons (enc_fixed_int int4) (enc_cons (enc_string_fixed 8)
       (enc_cons (enc_fixed_int int1) (enc_cons (enc_string_fixed 2) (enc_cons (enc_fixed_int int1)
       (enc_cons (enc_fixed_int int2) (enc_cons (enc_string_fixed 2) enc_nil)))))))
     (ctx_caps ctx) ?x"
  have e: "remaining ctx = ?e @ rest"
    using assms by (simp add: enc_cons_def enc_nil_def enc_string_null_def enc_fixed_int_def
        enc_string_fixed_def resize_def)
  have "deserialize_handshake_head ctx = Inr (?x, ctx_advance (length ?e) ctx)"
    by (rule decoder.deser_enc [OF handshake_head_decoder _ e])
      (use assms(1,2) in \<open>simp add: wf_cons_def\<close>)
  then show ?thesis using e by (intro exI [of _ "length ?e"]) simp
qed

text \<open>The two halves of a challenge put together.\<close>

lemma auth_data_of_halves:
  assumes "20 \<le> length a" and "tail = drop 8 a @ [0] @ rest" and "k = length a - 7"
  shows "static_string_value (static_string_append (take (k - 1) (take k tail))
      (static_string_append (take 8 a) (static_string_clear (static_string_empty auth_buffer_max)))) = a"
proof -
  have "static_string_wf auth_buffer_max
      (static_string_append (take 8 a) (static_string_clear (static_string_empty auth_buffer_max)))"
    using assms(1) by (intro auth_data_part1_wf) simp
  moreover have "take (k - 1) (take k tail) = drop 8 a" using assms by simp
  ultimately show ?thesis
    by (simp only: static_string_append_value) (simp add: static_string_append_value [of auth_buffer_max])
qed

text \<open>The second half of a greeting: the length of the challenge, its second part and the plugin.\<close>

lemma deserialize_handshake_rest_enc:
  assumes "no_nul plugin" and "20 \<le> length a" and "length a \<le> 254"
    and "remaining ctx = [of_nat (length a + 1)] @ replicate 10 0 @ drop 8 a @ [0] @ plugin @ [0] @ rest"
    and "k = length a - 7"
  shows "deserialize_cons (deserialize_fixed_int int1)
      (deserialize_cons (deserialize_string_fixed 10) deserialize_nil) ctx
     = Inr ((of_nat (length a + 1) :: u8, replicate 10 0, ()), ctx_advance 11 ctx)"
    and "unat (auth2_length (of_nat (length a + 1))) = k"
    and "remaining (ctx_advance 11 ctx) = drop 8 a @ [0] @ plugin @ [0] @ rest"
    and "deserialize_string_null (ctx_advance k (ctx_advance 11 ctx))
     = Inr (plugin, ctx_advance (length plugin + 1) (ctx_advance k (ctx_advance 11 ctx)))"
    and "drop (length plugin + 1) (remaining (ctx_advance k (ctx_advance 11 ctx))) = rest"
proof -
  have rem1: "drop (Suc 0) (remaining ctx) = replicate 10 0 @ drop 8 a @ [0] @ plugin @ [0] @ rest"
    by (simp add: assms(4))
  show "deserialize_cons (deserialize_fixed_int int1)
      (deserialize_cons (deserialize_string_fixed 10) deserialize_nil) ctx
     = Inr ((of_nat (length a + 1) :: u8, replicate 10 0, ()), ctx_advance 11 ctx)"
    using assms(4) rem1 by (simp add: deserialize_cons_def deserialize_nil_def deser_simps
        deserialize_string_fixed_def ctx_simps del: length_drop)
  have "unat (of_nat (length a + 1) :: u8) = length a + 1"
    using assms(3) by (simp only: unsigned_of_nat) (simp add: take_bit_nat_eq_self)
  then show "unat (auth2_length (of_nat (length a + 1))) = k"
    using assms(2,5) by (simp only: unat_auth2_length)
  show rem2: "remaining (ctx_advance 11 ctx) = drop 8 a @ [0] @ plugin @ [0] @ rest"
    using assms(4) by simp
  have rem3: "remaining (ctx_advance k (ctx_advance 11 ctx)) = plugin @ [0] @ rest"
    unfolding remaining_advance [of k "ctx_advance 11 ctx"] rem2 using assms(2,5) by simp
  then show "deserialize_string_null (ctx_advance k (ctx_advance 11 ctx))
     = Inr (plugin, ctx_advance (length plugin + 1) (ctx_advance k (ctx_advance 11 ctx)))"
    using string_null.deser_enc [OF assms(1), of "ctx_advance k (ctx_advance 11 ctx)" rest]
    by (simp add: enc_string_null_def del: remaining_advance ctx_advance_add)
  show "drop (length plugin + 1) (remaining (ctx_advance k (ctx_advance 11 ctx))) = rest"
    by (simp only: rem3) simp
qed

lemma deserialize_handshake_packet_enc:
  assumes "no_nul version" and "no_nul plugin" and "20 \<le> length a" and "length a \<le> 254"
    and "caps_has (caps_of caps) CLIENT_PLUGIN_AUTH"
    and "remaining ctx = enc_handshake_packet version conn_id a caps charset status plugin @ rest"
  shows "\<exists>n data. deserialize_handshake_packet ctx =
      Inr (\<lparr>hs_server_version = version, hs_connection_id = conn_id, hs_auth_plugin_data = data,
            hs_capability_falgs = caps, hs_character_set = charset, hs_status_flags = status,
            hs_auth_plugin_name = plugin\<rparr>, ctx_advance n ctx) \<and>
    drop n (remaining ctx) = rest \<and> static_string_value data = a"
proof -
  have "8 \<le> length a" using assms(3) by simp
  then obtain n where head: "deserialize_handshake_head ctx =
      Inr ((version, conn_id, take 8 a, 0, take 2 (le_bytes 4 caps), charset, status,
            drop 2 (le_bytes 4 caps), ()), ctx_advance n ctx)"
    and rem1: "drop n (remaining ctx) = [of_nat (length a + 1)] @ replicate 10 0 @ drop 8 a @ [0] @ plugin @ [0] @ rest"
    using deserialize_handshake_head_enc [OF assms(1), of a ctx conn_id caps charset status
      "[of_nat (length a + 1)] @ replicate 10 0 @ drop 8 a @ [0] @ plugin @ [0] @ rest"] assms(6)
    by (auto simp: enc_handshake_packet_def)
  let ?ctx2 = "ctx_advance 11 (ctx_advance n ctx)" and ?len2 = "length a - 7"
  have "remaining (ctx_advance n ctx) = [of_nat (length a + 1)] @ replicate 10 0 @ drop 8 a @ [0] @ plugin @ [0] @ rest"
    using rem1 by simp
  note tail = deserialize_handshake_rest_enc [OF assms(2-4) this refl]
  let ?data = "static_string_append (take (?len2 - 1) (take ?len2 (remaining ?ctx2)))
    (static_string_append (take 8 a) (static_string_clear (static_string_empty auth_buffer_max)))"
  have caps: "le_word (take 2 (le_bytes 4 caps) @ drop 2 (le_bytes 4 caps)) = caps" by simp
  have "?len2 \<le> length (remaining ?ctx2)" using assms(3) by (simp only: tail(3)) simp
  then have "deserialize_handshake_packet ctx =
      Inr (\<lparr>hs_server_version = version, hs_connection_id = conn_id, hs_auth_plugin_data = ?data,
            hs_capability_falgs = caps, hs_character_set = charset, hs_status_flags = status,
            hs_auth_plugin_name = plugin\<rparr>, ctx_advance (length plugin + 1) (ctx_advance ?len2 ?ctx2))"
    unfolding deserialize_handshake_packet_def head sum.case prod.case caps Let_def
    by (simp only: assms(5) not_True_eq_False if_False tail(1,2,4) sum.case prod.case enough_size_remaining)
  then show ?thesis
    using tail(5) auth_data_of_halves [OF assms(3) tail(3) refl]
    by (intro exI [of _ "n + 11 + ?len2 + (length plugin + 1)"] exI [of _ ?data]) (simp add: ac_simps)
qed

text \<open>A greeting without \<open>CLIENT_PLUGIN_AUTH\<close> is refused before its second half is looked at.\<close>

lemma deserialize_handshake_packet_unsupported:
  fixes conn_id :: u32 and status :: u16
  assumes "no_nul version" and "8 \<le> length a"
    and "\<not> caps_has (caps_of caps) CLIENT_PLUGIN_AUTH"
    and "remaining ctx = version @ [0] @ le_bytes 4 conn_id @ take 8 a @ [0] @
      take 2 (le_bytes 4 caps) @ [charset] @ le_bytes 2 status @ drop 2 (le_bytes 4 caps) @ rest"
  shows "deserialize_handshake_packet ctx = Inl server_unsupported"
proof -
  obtain n where head: "deserialize_handshake_head ctx =
      Inr ((version, conn_id, take 8 a, 0, take 2 (le_bytes 4 caps), charset, status,
            drop 2 (le_bytes 4 caps), ()), ctx_advance n ctx)"
    using deserialize_handshake_head_enc [OF assms(1,2,4)] by auto
  have "le_word (take 2 (le_bytes 4 caps) @ drop 2 (le_bytes 4 caps)) = caps" by simp
  then show ?thesis
    using assms(3) by (simp only: deserialize_handshake_packet_def head sum.case prod.case Let_def) simp
qed

section \<open>Handshake response\<close>

record handshake_response_packet =
  hr_client_flag :: u32
  hr_max_packet_size :: u32
  hr_character_set :: u8
  hr_username :: bytes
  hr_auth_response :: bytes
  hr_database :: bytes
  hr_client_plugin_name :: bytes

text \<open>The database is only part of the message when it was negotiated.\<close>

definition get_size_handshake_response :: "handshake_response_packet sizer" where
  "get_size_handshake_response ctx v =
     (let res = get_size_cons (get_size_fixed_int int4) (get_size_cons (get_size_fixed_int int4)
                  (get_size_cons (get_size_fixed_int int1) (get_size_cons get_size_string_null
                    (get_size_cons get_size_string_lenenc get_size_nil)))) ctx
                  (hr_client_flag v, hr_max_packet_size v, hr_character_set v, hr_username v,
                   hr_auth_response v, ()) + 23;
          res1 = (if caps_has (sctx_caps ctx) CLIENT_CONNECT_WITH_DB
                  then res + get_size_string_null ctx (hr_database v) else res)
      in res1 + get_size_string_null ctx (hr_client_plugin_name v))"

definition serialize_handshake_response :: "handshake_response_packet ser" where
  "serialize_handshake_response ctx v =
     Option.bind
       (serialize_cons (serialize_fixed_int int4) (serialize_cons (serialize_fixed_int int4)
         (serialize_cons (serialize_fixed_int int1) (serialize_cons (serialize_string_fixed 23)
           (serialize_cons serialize_string_null (serialize_cons serialize_string_lenenc serialize_nil))))) ctx
         (hr_client_flag v, hr_max_packet_size v, hr_character_set v, [], hr_username v, hr_auth_response v, ()))
       (\<lambda>ctx1. Option.bind
         (if caps_has (sctx_caps ctx1) CLIENT_CONNECT_WITH_DB
          then serialize_string_null ctx1 (hr_database v) else Some ctx1)
         (\<lambda>ctx2. serialize_string_null ctx2 (hr_client_plugin_name v)))"

definition enc_handshake_response :: "handshake_response_packet encoding" where
  "enc_handshake_response caps v =
     le_bytes 4 (hr_client_flag v) @ le_bytes 4 (hr_max_packet_size v) @ [hr_character_set v] @
     replicate 23 0 @ hr_username v @ [0] @ enc_string_lenenc caps (hr_auth_response v) @
     (if caps_has caps CLIENT_CONNECT_WITH_DB then hr_database v @ [0] else []) @
     hr_client_plugin_name v @ [0]"

interpretation handshake_response: serializer serialize_handshake_response
    get_size_handshake_response enc_handshake_response
proof
  fix ctx :: serialization_context and v :: handshake_response_packet
  let ?x = "(hr_client_flag v, hr_max_packet_size v, hr_character_set v, [], hr_username v, hr_auth_response v, ())"
  let ?e = "enc_cons (enc_fixed_int int4) (enc_cons (enc_fixed_int int4) (enc_cons (enc_fixed_int int1)
      (enc_cons (enc_string_fixed 23) (enc_cons enc_string_null (enc_cons enc_string_lenenc enc_nil)))))"
  have "serializer
     (serialize_cons (serialize_fixed_int int4) (serialize_cons (serialize_fixed_int int4)
         (serialize_cons (serialize_fixed_int int1) (serialize_cons (serialize_string_fixed 23)
           (serialize_cons serialize_string_null (serialize_cons serialize_string_lenenc serialize_nil))))))
     (get_size_cons (get_size_fixed_int int4) (get_size_cons (get_size_fixed_int int4)
         (get_size_cons (get_size_fixed_int int1) (get_size_cons (get_size_string_fixed 23)
           (get_size_cons get_size_string_null (get_size_cons get_size_string_lenenc get_size_nil)))))) ?e"
    by (intro serializer_intros)
  note w = serializer.ser_enc [OF this]
  show "serialize_handshake_response ctx v = sctx_write (enc_handshake_response (sctx_caps ctx) v) ctx"
    unfolding serialize_handshake_response_def w enc_handshake_response_def
    by (subst bind_sctx_write [where ys = "(if caps_has (sctx_caps ctx) CLIENT_CONNECT_WITH_DB then hr_database v @ [0] else []) @
          hr_client_plugin_name v @ [0]"])
      (auto simp: string_null.ser_enc enc_string_null_def bind_sctx_write [where ys = "hr_client_plugin_name v @ [0]"]
        enc_cons_def enc_nil_def enc_fixed_int_def enc_string_fixed_def resize_def)
  show "get_size_handshake_response ctx v = length (enc_handshake_response (sctx_caps ctx) v)"
    by (simp add: get_size_handshake_response_def enc_handshake_response_def get_size_cons_def
        get_size_nil_def get_size_fixed_int_def get_size_string_null_def string_lenenc.sz_enc)
qed

section \<open>SSL request\<close>

record ssl_request =
  sr_client_flag :: u32
  sr_max_packet_size :: u32
  sr_character_set :: u8
  sr_filler :: bytes

definition ssl_request_fields :: "ssl_request \<Rightarrow> u32 \<times> u32 \<times> u8 \<times> bytes \<times> unit" where
  "ssl_request_fields r = (sr_client_flag r, sr_max_packet_size r, sr_character_set r, sr_filler r, ())"

definition serialize_ssl_request :: "ssl_request ser" where
  "serialize_ssl_request =
     serialize_struct ssl_request_fields
       (serialize_cons (serialize_fixed_int int4) (serialize_cons (serialize_fixed_int int4)
         (serialize_cons (serialize_fixed_int int1) (serialize_cons (serialize_string_fixed 23) serialize_nil))))"

definition get_size_ssl_request :: "ssl_request sizer" where
  "get_size_ssl_request =
     get_size_struct ssl_request_fields
       (get_size_cons (get_size_fixed_int int4) (get_size_cons (get_size_fixed_int int4)
         (get_size_cons (get_size_fixed_int int1) (get_size_cons (get_size_string_fixed 23) get_size_nil))))"

definition enc_ssl_request :: "ssl_request encoding" where
  "enc_ssl_request caps r =
     le_bytes 4 (sr_client_flag r) @ le_bytes 4 (sr_max_packet_size r) @ [sr_character_set r] @
     resize 23 (sr_filler r)"

interpretation ssl_request: serializer serialize_ssl_request get_size_ssl_request enc_ssl_request
proof -
  have "serializer serialize_ssl_request get_size_ssl_request
     (enc_struct ssl_request_fields (enc_cons (enc_fixed_int int4) (enc_cons (enc_fixed_int int4)
       (enc_cons (enc_fixed_int int1) (enc_cons (enc_string_fixed 23) enc_nil)))))"
    unfolding serialize_ssl_request_def get_size_ssl_request_def
    by (intro serializer_struct serializer_intros)
  then show "serializer serialize_ssl_request get_size_ssl_request enc_ssl_request"
    by (simp add: serializer_def enc_struct_def enc_cons_def enc_nil_def enc_fixed_int_def
        enc_string_fixed_def ssl_request_fields_def enc_ssl_request_def)
qed

section \<open>Authentication switch and more data\<close>

record auth_switch_request_packet =
  as_plugin_name :: bytes
  as_auth_plugin_data :: bytes

text \<open>
  The last byte of the data is dropped, and asserted to be a null byte: \<open>None\<close> when it is not. The
  data is looked at before the error of the fields is returned, but it is still empty then: the plugin
  name is the only field that can fail, and it comes first.
\<close>

definition deserialize_auth_switch_request ::
    "deserialization_context \<Rightarrow> (errc + (auth_switch_request_packet \<times> deserialization_context)) option" where
  "deserialize_auth_switch_request ctx =
     (case deserialize_cons deserialize_string_null
             (deserialize_cons deserialize_string_eof deserialize_nil) ctx of
        Inl err \<Rightarrow> Some (Inl err)
      | Inr ((plugin_name, auth_data, _), ctx1) \<Rightarrow>
          if auth_data = [] then Some (Inr (\<lparr>as_plugin_name = plugin_name, as_auth_plugin_data = auth_data\<rparr>, ctx1))
          else if last auth_data \<noteq> 0 then None
          else Some (Inr (\<lparr>as_plugin_name = plugin_name,
                           as_auth_plugin_data = take (length auth_data - 1) auth_data\<rparr>, ctx1)))"

text \<open>\<open>deserialize_message\<close> for a message whose deserialization may fail an assertion.\<close>

definition deserialize_asserted_message ::
    "(deserialization_context \<Rightarrow> (errc + ('a \<times> deserialization_context)) option) \<Rightarrow> deserialization_context \<Rightarrow>
     (error_code + 'a) option" where
  "deserialize_asserted_message d ctx = map_option (\<lambda>r. deserialize_message (\<lambda>_. r) ctx) (d ctx)"

text \<open>The messages that fail the assertion: a switch request whose data does not end in a null byte.\<close>

definition auth_switch_aborts :: "bytes \<Rightarrow> bool" where
  "auth_switch_aborts buffer \<longleftrightarrow>
     (case buffer of
        [] \<Rightarrow> False
      | msg_type # message \<Rightarrow>
          let auth_data = drop 1 (dropWhile (\<lambda>b. b \<noteq> 0) message)
          in msg_type = 0xfe \<and> auth_data \<noteq> [] \<and> last auth_data \<noteq> 0)"

definition deserialize_auth_more_data :: "bytes deser" where
  "deserialize_auth_more_data = deserialize_string_eof"

definition serialize_auth_switch_response :: "bytes ser" where
  "serialize_auth_switch_response = serialize_string_eof"

definition get_size_auth_switch_response :: "bytes sizer" where
  "get_size_auth_switch_response = get_size_string_eof"

interpretation auth_switch_response: serializer serialize_auth_switch_response
    get_size_auth_switch_response enc_string_eof
  unfolding serialize_auth_switch_response_def get_size_auth_switch_response_def
  by (rule string_eof.serializer_axioms)

text \<open>The assertion fails on exactly those messages.\<close>

lemma deserialize_auth_switch_request_aborts:
  assumes "remaining ctx = message"
  shows "deserialize_asserted_message deserialize_auth_switch_request ctx = None \<longleftrightarrow>
     auth_switch_aborts (0xfe # message)"
proof -
  let ?s = "takeWhile (\<lambda>b. b \<noteq> 0) message"
  have d: "drop (Suc (length ?s)) message = drop 1 (dropWhile (\<lambda>b. b \<noteq> 0) message)"
    by (simp add: dropWhile_eq_drop)
  have sz: "ctx_size ctx = length message" using assms by (simp add: ctx_size_remaining)
  show ?thesis
  proof (cases "length ?s = length message")
    case True
    then have "dropWhile (\<lambda>b. b \<noteq> 0) message = []" by (simp add: dropWhile_eq_drop)
    then show ?thesis
      using True assms sz
      by (simp add: deserialize_asserted_message_def deserialize_auth_switch_request_def deserialize_cons_def
          deserialize_string_null_def auth_switch_aborts_def del: dropWhile_eq_Nil_conv)
  next
    case False
    then show ?thesis
      using assms sz
      by (auto simp: deserialize_asserted_message_def deserialize_auth_switch_request_def deserialize_cons_def
          deserialize_nil_def deserialize_string_null_def deserialize_string_eof_def auth_switch_aborts_def d ctx_simps Let_def)
  qed
qed

text \<open>The request of a server: plugin name, challenge, null byte.\<close>

lemma deserialize_auth_switch_request_enc:
  assumes "no_nul plugin" and "ctx_wf ctx" and "remaining ctx = plugin @ [0] @ challenge @ [0]"
  shows "deserialize_asserted_message deserialize_auth_switch_request ctx
     = Some (Inr \<lparr>as_plugin_name = plugin, as_auth_plugin_data = challenge\<rparr>)"
proof -
  have "deserialize_string_null ctx = Inr (plugin, ctx_advance (length plugin + 1) ctx)"
    using string_null.deser_enc [OF assms(1), of ctx "challenge @ [0]"] assms(3)
    by (simp add: enc_string_null_def)
  then show ?thesis
    using assms(2,3)
    by (simp add: deserialize_asserted_message_def deserialize_message_def deserialize_auth_switch_request_def
        deserialize_cons_def deserialize_nil_def deserialize_string_eof_def ctx_simps ctx_wf_advance)
qed

section \<open>Properties\<close>

text \<open>
  C27: the greeting of a server is understood for every challenge of 20 to 254 bytes: the two
  halves of the challenge are put together again without the null byte that ends it, and the
  two halves of the capabilities too. A server without \<open>CLIENT_PLUGIN_AUTH\<close> is reported as
  unsupported.
\<close>
theorem handshake_packet_understood:
  assumes "no_nul version" and "no_nul plugin" and "20 \<le> length a" and "length a \<le> 254"
  shows "case deserialize_message deserialize_handshake_packet
       (make_ctx (enc_handshake_packet version conn_id a scaps charset status plugin) caps) of
       Inl err \<Rightarrow> \<not> caps_has (caps_of scaps) CLIENT_PLUGIN_AUTH \<and> err = make_error_code server_unsupported
     | Inr hs \<Rightarrow> caps_has (caps_of scaps) CLIENT_PLUGIN_AUTH \<and> static_string_value (hs_auth_plugin_data hs) = a \<and>
         hs_capability_falgs hs = scaps \<and> hs_server_version hs = version \<and>
         hs_auth_plugin_name hs = plugin \<and> hs_connection_id hs = conn_id \<and>
         hs_character_set hs = charset \<and> hs_status_flags hs = status"
proof (cases "caps_has (caps_of scaps) CLIENT_PLUGIN_AUTH")
  let ?ctx = "make_ctx (enc_handshake_packet version conn_id a scaps charset status plugin) caps"
  case True
  then obtain n data where d: "deserialize_handshake_packet ?ctx =
      Inr (\<lparr>hs_server_version = version, hs_connection_id = conn_id, hs_auth_plugin_data = data,
            hs_capability_falgs = scaps, hs_character_set = charset, hs_status_flags = status,
            hs_auth_plugin_name = plugin\<rparr>, ctx_advance n ?ctx)"
    and r: "drop n (remaining ?ctx) = []" and a: "static_string_value data = a"
    using deserialize_handshake_packet_enc [OF assms, of scaps ?ctx conn_id charset status "[]"] by auto
  have "ctx_wf (ctx_advance n ?ctx)" using handshake_packet.deser_wf [OF d] by simp
  then show ?thesis using True d r a by (simp add: deserialize_message_def ctx_simps)
next
  let ?ctx = "make_ctx (enc_handshake_packet version conn_id a scaps charset status plugin) caps"
  case False
  then have "deserialize_handshake_packet ?ctx = Inl server_unsupported"
    using assms
    by (intro deserialize_handshake_packet_unsupported [of version a scaps ?ctx conn_id charset status
          "[of_nat (length a + 1)] @ replicate 10 0 @ drop 8 a @ [0] @ plugin @ [0]"])
      (simp_all add: enc_handshake_packet_def)
  then show ?thesis using False by (simp add: deserialize_message_def)
qed

lemma handshake_packet_understood_witness:
  "\<exists>hs. deserialize_message deserialize_handshake_packet
     (make_ctx (enc_handshake_packet [0x38] 7 (replicate 20 0x41) CLIENT_PLUGIN_AUTH 33 2 [0x6d]) (caps_of 0)) = Inr hs
     \<and> static_string_value (hs_auth_plugin_data hs) = replicate 20 0x41"
  using handshake_packet_understood [of "[0x38]" "[0x6d]" "replicate 20 0x41" CLIENT_PLUGIN_AUTH 7 33 2 "caps_of 0"]
  by (auto simp: no_nul_def caps_has_def caps_of_def CLIENT_PLUGIN_AUTH_def split: sum.splits)

text \<open>
  C28: the challenge the client takes from a greeting always fits the fixed buffer it is copied
  to, whatever length byte the server sends: between 20 and 254 of its 263 bytes are used.
\<close>
theorem handshake_challenge_in_buffer:
  assumes "deserialize_handshake_packet ctx = Inr (hs, ctx1)"
  shows "static_string_wf auth_buffer_max (hs_auth_plugin_data hs) \<and>
         20 \<le> ss_size (hs_auth_plugin_data hs) \<and> ss_size (hs_auth_plugin_data hs) \<le> 254"
  using handshake_auth_data [OF assms] by blast

lemma handshake_challenge_in_buffer_witness:
  "\<exists>hs ctx1. deserialize_handshake_packet
     (make_ctx (enc_handshake_packet [0x38] 7 (replicate 20 0x41) CLIENT_PLUGIN_AUTH 33 2 [0x6d]) (caps_of 0)) = Inr (hs, ctx1)
     \<and> ss_size (hs_auth_plugin_data hs) \<le> 254"
proof -
  obtain n data where "deserialize_handshake_packet
     (make_ctx (enc_handshake_packet [0x38] 7 (replicate 20 0x41) CLIENT_PLUGIN_AUTH 33 2 [0x6d]) (caps_of 0))
     = Inr (\<lparr>hs_server_version = [0x38], hs_connection_id = 7, hs_auth_plugin_data = data,
            hs_capability_falgs = CLIENT_PLUGIN_AUTH, hs_character_set = 33, hs_status_flags = 2,
            hs_auth_plugin_name = [0x6d]\<rparr>, ctx_advance n
        (make_ctx (enc_handshake_packet [0x38] 7 (replicate 20 0x41) CLIENT_PLUGIN_AUTH 33 2 [0x6d]) (caps_of 0)))"
    using deserialize_handshake_packet_enc [of "[0x38]" "[0x6d]" "replicate 20 0x41" CLIENT_PLUGIN_AUTH
      "make_ctx (enc_handshake_packet [0x38] 7 (replicate 20 0x41) CLIENT_PLUGIN_AUTH 33 2 [0x6d]) (caps_of 0)" 7 33 2 "[]"]
    by (auto simp: no_nul_def caps_has_def caps_of_def CLIENT_PLUGIN_AUTH_def)
  then show ?thesis using handshake_challenge_in_buffer by blast
qed

text \<open>
  C29: the handshake response fills exactly the buffer sized for it, whatever the credentials, and
  holds the database only when \<open>CLIENT_CONNECT_WITH_DB\<close> was negotiated.
\<close>
theorem handshake_response_bytes:
  "serialize_message serialize_handshake_response get_size_handshake_response v caps buffer
     = Some (le_bytes 4 (hr_client_flag v) @ le_bytes 4 (hr_max_packet_size v) @ [hr_character_set v] @
         replicate 23 0 @ hr_username v @ [0] @ enc_string_lenenc caps (hr_auth_response v) @
         (if caps_has caps CLIENT_CONNECT_WITH_DB then hr_database v @ [0] else []) @
         hr_client_plugin_name v @ [0])"
  using handshake_response.serialize_message_exact by (simp add: enc_handshake_response_def)

end
