(* ===== verification/Handshake.thy ===== *)
theory Handshake
  imports Session Auth Handshake_Messages
begin

text \<open>
  The connection phase (\<open>network_algorithms/impl/handshake.hpp\<close>): negotiation of capabilities,
  authentication, the optional TLS handshake, and the loop over the server's responses.
\<close>

section \<open>Connection parameters\<close>

datatype ssl_mode = Ssl_disable | Ssl_enable | Ssl_require

record connection_params =
  cp_username :: bytes
  cp_password :: bytes
  cp_database :: bytes
  cp_collation :: collation
  cp_ssl :: ssl_mode

text \<open>
  The mode is the only TLS option. The constructor of the parameters has defaults for all but the
  name and the password; the setters replace one parameter each.
\<close>

definition default_ssl_options :: ssl_mode where
  "default_ssl_options = Ssl_enable"

definition utf8_general_ci :: collation where
  "utf8_general_ci = 33"

definition make_connection_params :: "bytes \<Rightarrow> bytes \<Rightarrow> connection_params" where
  "make_connection_params username password =
     \<lparr>cp_username = username, cp_password = password, cp_database = [], cp_collation = utf8_general_ci,
      cp_ssl = default_ssl_options\<rparr>"

definition set_username :: "bytes \<Rightarrow> connection_params \<Rightarrow> connection_params" where
  "set_username v params = params\<lparr>cp_username := v\<rparr>"

definition set_password :: "bytes \<Rightarrow> connection_params \<Rightarrow> connection_params" where
  "set_password v params = params\<lparr>cp_password := v\<rparr>"

definition set_database :: "bytes \<Rightarrow> connection_params \<Rightarrow> connection_params" where
  "set_database v params = params\<lparr>cp_database := v\<rparr>"

definition set_connection_collation :: "collation \<Rightarrow> connection_params \<Rightarrow> connection_params" where
  "set_connection_collation v params = params\<lparr>cp_collation := v\<rparr>"

definition set_ssl :: "ssl_mode \<Rightarrow> connection_params \<Rightarrow> connection_params" where
  "set_ssl v params = params\<lparr>cp_ssl := v\<rparr>"

definition get_collation_first_byte :: "collation \<Rightarrow> u8" where
  "get_collation_first_byte c = ucast (c mod 0xff)"

definition conditional_capability :: "bool \<Rightarrow> u32 \<Rightarrow> capabilities" where
  "conditional_capability condition cap = caps_of (if condition then cap else 0)"

section \<open>The greeting\<close>

definition default_handshake_packet :: handshake_packet where
  "default_handshake_packet =
     \<lparr>hs_server_version = [], hs_connection_id = 0, hs_auth_plugin_data = static_string_empty auth_buffer_max,
      hs_capability_falgs = 0, hs_character_set = 0, hs_status_flags = 0, hs_auth_plugin_name = []\<rparr>"

text \<open>
  The greeting is parsed with no capabilities; its first byte tells the protocol version. An error
  packet leaves the output as it was.
\<close>

definition deserialize_handshake ::
    "bytes \<Rightarrow> handshake_packet \<Rightarrow> error_info \<Rightarrow> error_code \<times> handshake_packet \<times> error_info" where
  "deserialize_handshake buffer output info =
     (case deserialize_message_type (make_ctx buffer (caps_of 0)) of
        Inl err \<Rightarrow> (err, output, info)
      | Inr (msg_type, ctx) \<Rightarrow>
          if msg_type = handshake_protocol_version_9 then (make_error_code server_unsupported, output, info)
          else if msg_type = error_packet_header then
            (case process_error_packet ctx info of (err, info1) \<Rightarrow> (err, output, info1))
          else if msg_type \<noteq> handshake_protocol_version_10 then (make_error_code protocol_value_error, output, info)
          else (case deserialize_message deserialize_handshake_packet ctx of
                  Inl err \<Rightarrow> (err, output, info)
                | Inr hs \<Rightarrow> (no_error, hs, info)))"

datatype auth_result = Auth_complete | Auth_send_more_data | Auth_wait_for_ok | Auth_invalid

record handshake_processor =
  hp_params :: connection_params
  hp_negotiated_caps :: capabilities
  hp_auth_calc :: auth_calculator

definition make_processor :: "connection_params \<Rightarrow> handshake_processor" where
  "make_processor params =
     \<lparr>hp_params = params, hp_negotiated_caps = caps_of 0, hp_auth_calc = new_calculator\<rparr>"

definition use_ssl :: "handshake_processor \<Rightarrow> bool" where
  "use_ssl p = caps_has (hp_negotiated_caps p) CLIENT_SSL"

definition required_capabilities :: "connection_params \<Rightarrow> capabilities" where
  "required_capabilities params =
     caps_or (caps_or mandatory_capabilities
       (conditional_capability (cp_database params \<noteq> []) CLIENT_CONNECT_WITH_DB))
       (conditional_capability (cp_ssl params = Ssl_require) CLIENT_SSL)"

definition process_capabilities ::
    "handshake_packet \<Rightarrow> handshake_processor \<Rightarrow> error_code \<times> handshake_processor" where
  "process_capabilities handshake p =
     (let server_caps = caps_of (hs_capability_falgs handshake);
          required_caps = required_capabilities (hp_params p)
      in if \<not> caps_has_all server_caps required_caps then (make_error_code server_unsupported, p)
         else (no_error, p\<lparr>hp_negotiated_caps :=
           caps_and server_caps (caps_or (caps_or required_caps optional_capabilities)
             (conditional_capability (cp_ssl (hp_params p) = Ssl_enable) CLIENT_SSL))\<rparr>))"

definition processor_calculate ::
    "crypto_lib \<Rightarrow> bytes \<Rightarrow> bytes \<Rightarrow> handshake_processor \<Rightarrow> error_code \<times> handshake_processor" where
  "processor_calculate H name challenge p =
     (case calculate H name (cp_password (hp_params p)) challenge (use_ssl p) (hp_auth_calc p) of
        (err, calc) \<Rightarrow> (err, p\<lparr>hp_auth_calc := calc\<rparr>))"

definition process_handshake ::
    "crypto_lib \<Rightarrow> bytes \<Rightarrow> error_info \<Rightarrow> handshake_processor \<Rightarrow> error_code \<times> error_info \<times> handshake_processor" where
  "process_handshake H buffer info p =
     (case deserialize_handshake buffer default_handshake_packet info of
        (err, handshake, info1) \<Rightarrow>
          if failed err then (err, info1, p)
          else (case process_capabilities handshake p of
            (err2, p1) \<Rightarrow>
              if failed err2 then (err2, info1, p1)
              else (case processor_calculate H (hs_auth_plugin_name handshake)
                           (static_string_value (hs_auth_plugin_data handshake)) p1 of
                      (err3, p2) \<Rightarrow> (err3, info1, p2))))"

section \<open>The client's messages\<close>

definition compose_ssl_request :: "bytes \<Rightarrow> handshake_processor \<Rightarrow> bytes option" where
  "compose_ssl_request buffer p =
     serialize_message serialize_ssl_request get_size_ssl_request
       \<lparr>sr_client_flag = cap_value (hp_negotiated_caps p), sr_max_packet_size = word_of_nat MAX_PACKET_SIZE,
        sr_character_set = get_collation_first_byte (cp_collation (hp_params p)), sr_filler = replicate 23 0\<rparr>
       (hp_negotiated_caps p) buffer"

definition compose_handshake_response :: "bytes \<Rightarrow> handshake_processor \<Rightarrow> bytes option" where
  "compose_handshake_response buffer p =
     (case plugin_name (hp_auth_calc p) of
        None \<Rightarrow> None
      | Some name \<Rightarrow>
          serialize_message serialize_handshake_response get_size_handshake_response
            \<lparr>hr_client_flag = cap_value (hp_negotiated_caps p), hr_max_packet_size = word_of_nat MAX_PACKET_SIZE,
             hr_character_set = get_collation_first_byte (cp_collation (hp_params p)),
             hr_username = cp_username (hp_params p), hr_auth_response = ac_response (hp_auth_calc p),
             hr_database = cp_database (hp_params p), hr_client_plugin_name = name\<rparr>
            (hp_negotiated_caps p) buffer)"

text \<open>The answer to a request for more data is serialized over the message that asked for it.\<close>

definition send_auth_data ::
    "bytes \<Rightarrow> error_info \<Rightarrow> handshake_processor \<Rightarrow>
     (error_code \<times> bytes \<times> auth_result \<times> error_info \<times> handshake_processor) option" where
  "send_auth_data buffer info p =
     map_option (\<lambda>buffer1. (no_error, buffer1, Auth_send_more_data, info, p))
       (serialize_message serialize_auth_switch_response get_size_auth_switch_response
          (ac_response (hp_auth_calc p)) (hp_negotiated_caps p) buffer)"

section \<open>The server's responses\<close>

definition process_auth_switch ::
    "crypto_lib \<Rightarrow> deserialization_context \<Rightarrow> bytes \<Rightarrow> auth_result \<Rightarrow> error_info \<Rightarrow> handshake_processor \<Rightarrow>
     (error_code \<times> bytes \<times> auth_result \<times> error_info \<times> handshake_processor) option" where
  "process_auth_switch H ctx buffer result info p =
     (case deserialize_asserted_message deserialize_auth_switch_request ctx of
        None \<Rightarrow> None
      | Some (Inl err) \<Rightarrow> Some (err, buffer, result, info, p)
      | Some (Inr auth_sw) \<Rightarrow>
          (case processor_calculate H (as_plugin_name auth_sw) (as_auth_plugin_data auth_sw) p of
             (err, p1) \<Rightarrow>
               if failed err then Some (err, buffer, result, info, p1) else send_auth_data buffer info p1))"

definition process_auth_more_data ::
    "crypto_lib \<Rightarrow> deserialization_context \<Rightarrow> bytes \<Rightarrow> auth_result \<Rightarrow> error_info \<Rightarrow> handshake_processor \<Rightarrow>
     (error_code \<times> bytes \<times> auth_result \<times> error_info \<times> handshake_processor) option" where
  "process_auth_more_data H ctx buffer result info p =
     (case deserialize_message deserialize_auth_more_data ctx of
        Inl err \<Rightarrow> Some (err, buffer, result, info, p)
      | Inr challenge \<Rightarrow>
          if challenge = fast_auth_complete_challenge
          then Some (no_error, buffer, Auth_wait_for_ok, info, p)
          else (case plugin_name (hp_auth_calc p) of
                  None \<Rightarrow> None
                | Some name \<Rightarrow>
                    (case processor_calculate H name challenge p of
                       (err, p1) \<Rightarrow>
                         if failed err then Some (err, buffer, result, info, p1)
                         else send_auth_data buffer info p1)))"

definition process_handshake_server_response ::
    "crypto_lib \<Rightarrow> bytes \<Rightarrow> auth_result \<Rightarrow> error_info \<Rightarrow> handshake_processor \<Rightarrow>
     (error_code \<times> bytes \<times> auth_result \<times> error_info \<times> handshake_processor) option" where
  "process_handshake_server_response H buffer result info p =
     (case deserialize_message_type (make_ctx buffer (hp_negotiated_caps p)) of
        Inl err \<Rightarrow> Some (err, buffer, result, info, p)
      | Inr (msg_type, ctx) \<Rightarrow>
          if msg_type = ok_packet_header then Some (no_error, buffer, Auth_complete, info, p)
          else if msg_type = error_packet_header then
            (case process_error_packet ctx info of (err, info1) \<Rightarrow> Some (err, buffer, result, info1, p))
          else if msg_type = auth_switch_request_header then process_auth_switch H ctx buffer result info p
          else if msg_type = auth_more_data_header then process_auth_more_data H ctx buffer result info p
          else Some (make_error_code protocol_value_error, buffer, result, info, p))"

section \<open>The exchange\<close>

partial_function (option) auth_loop ::
    "'s stream_ops \<Rightarrow> crypto_lib \<Rightarrow> auth_result \<Rightarrow> handshake_processor \<Rightarrow> error_info \<Rightarrow> 's channel \<Rightarrow>
     (error_code \<times> error_info \<times> handshake_processor \<times> 's channel) option" where
  "auth_loop S H outcome p info ch =
     (if outcome = Auth_complete then Some (no_error, info, p, ch)
      else Option.bind (read_shared S ch) (\<lambda>(code, ch1).
        if failed code then Some (code, info, p, ch1)
        else Option.bind (process_handshake_server_response H (ch_shared_buff ch1) outcome info p)
          (\<lambda>(err, buffer, outcome1, info1, p1).
            if failed err then Some (err, info1, p1, ch1\<lparr>ch_shared_buff := buffer\<rparr>)
            else if outcome1 = Auth_send_more_data then
              Option.bind (write_shared S (ch1\<lparr>ch_shared_buff := buffer\<rparr>)) (\<lambda>(code2, ch2).
                if failed code2 then Some (code2, info1, p1, ch2)
                else auth_loop S H outcome1 p1 info1 ch2)
            else auth_loop S H outcome1 p1 info1 (ch1\<lparr>ch_shared_buff := buffer\<rparr>))))"

definition setup_ssl :: "'s stream_ops \<Rightarrow> handshake_processor \<Rightarrow> 's channel \<Rightarrow> (error_code \<times> 's channel) option" where
  "setup_ssl S p ch =
     (if \<not> use_ssl p then Some (no_error, ch)
      else Option.bind (compose_ssl_request (ch_shared_buff ch) p) (\<lambda>buffer.
        Option.bind (write_shared S (ch\<lparr>ch_shared_buff := buffer\<rparr>)) (\<lambda>(code, ch1).
          if failed code then Some (code, ch1) else Some (channel_ssl_handshake S ch1))))"

definition send_handshake_response :: "'s stream_ops \<Rightarrow> handshake_processor \<Rightarrow> 's channel \<Rightarrow> (error_code \<times> 's channel) option" where
  "send_handshake_response S p ch =
     Option.bind (compose_handshake_response (ch_shared_buff ch) p) (\<lambda>buffer.
       write_shared S (ch\<lparr>ch_shared_buff := buffer\<rparr>))"

definition handshake ::
    "'s stream_ops \<Rightarrow> crypto_lib \<Rightarrow> connection_params \<Rightarrow> error_info \<Rightarrow> 's channel \<Rightarrow>
     (error_code \<times> error_info \<times> 's channel) option" where
  "handshake S H params info ch =
     Option.bind (read_shared S ch) (\<lambda>(code, ch1).
       if failed code then Some (code, info, ch1)
       else (case process_handshake H (ch_shared_buff ch1) info (make_processor params) of
         (err, info1, p) \<Rightarrow>
           if failed err then Some (err, info1, ch1)
           else Option.bind (setup_ssl S p ch1) (\<lambda>(code2, ch2).
             if failed code2 then Some (code2, info1, ch2)
             else Option.bind (send_handshake_response S p ch2) (\<lambda>(code3, ch3).
               if failed code3 then Some (code3, info1, ch3)
               else Option.bind (auth_loop S H Auth_invalid p info1 ch3) (\<lambda>(code4, info2, p1, ch4).
                 if failed code4 then Some (code4, info2, ch4)
                 else Some (code4, info2, set_current_capabilities (hp_negotiated_caps p1) ch4))))))"

section \<open>Negotiated capabilities\<close>

lemma caps_has_flag:
  "caps_has c CLIENT_CONNECT_WITH_DB = bit (cap_value c) 3"
  "caps_has c CLIENT_SSL = bit (cap_value c) 11"
proof -
  have "caps_has c (2 ^ k) = bit (cap_value c) k" for k
    by (simp add: caps_has_def and_exp_eq_0_iff_not_bit)
  from this [of 3] this [of 11]
  show "caps_has c CLIENT_CONNECT_WITH_DB = bit (cap_value c) 3" "caps_has c CLIENT_SSL = bit (cap_value c) 11"
    by (simp_all add: client_flag_defs)
qed

lemma required_capabilities_bits:
  "bit (cap_value (required_capabilities params)) 3 = (cp_database params \<noteq> [])"
  "bit (cap_value (required_capabilities params)) 11 = (cp_ssl params = Ssl_require)"
  by (simp_all add: required_capabilities_def caps_or_def caps_of_def conditional_capability_def
      mandatory_capabilities_def client_flag_defs bit_simps)

text \<open>The capabilities the client needs and those it wants, as positions of the flags.\<close>

definition required_bits :: "connection_params \<Rightarrow> nat set" where
  "required_bits params =
     {9, 15, 19, 21, 24} \<union> (if cp_database params \<noteq> [] then {3} else {}) \<union>
     (if cp_ssl params = Ssl_require then {11} else {})"

definition wanted_bits :: "connection_params \<Rightarrow> nat set" where
  "wanted_bits params = required_bits params \<union> (if cp_ssl params \<noteq> Ssl_disable then {11} else {})"

lemma flag_bit: "bit (2 ^ n :: u32) k \<longleftrightarrow> k = n \<and> n < 32"
  by (auto simp: bit_simps)

lemma mandatory_bits: "bit (cap_value mandatory_capabilities) k \<longleftrightarrow> k \<in> {9, 15, 19, 21, 24}"
proof -
  have "cap_value mandatory_capabilities = 2 ^ 9 OR (2 ^ 15 OR (2 ^ 19 OR (2 ^ 21 OR 2 ^ 24)))"
    by (simp add: mandatory_capabilities_def client_flag_defs caps_of_def)
  then show ?thesis by (simp only: bit_or_iff flag_bit) auto
qed

lemma conditional_bits:
  "bit (cap_value (conditional_capability c CLIENT_CONNECT_WITH_DB)) k \<longleftrightarrow> c \<and> k = 3"
  "bit (cap_value (conditional_capability c CLIENT_SSL)) k \<longleftrightarrow> c \<and> k = 11"
  using flag_bit [of 3 k] flag_bit [of 11 k]
  by (simp_all add: conditional_capability_def client_flag_defs caps_of_def)

lemma required_capabilities_bit: "bit (cap_value (required_capabilities params)) k \<longleftrightarrow> k \<in> required_bits params"
  using mandatory_bits [of k] conditional_bits [of _ k]
  by (auto simp: required_capabilities_def required_bits_def caps_or_def caps_of_def bit_or_iff)

lemma has_required_capabilities:
  "caps_has_all (caps_of server) (required_capabilities params) \<longleftrightarrow> (\<forall>k \<in> required_bits params. bit server k)"
proof
  assume "caps_has_all (caps_of server) (required_capabilities params)"
  then show "\<forall>k \<in> required_bits params. bit server k"
    by (metis bit_and_iff caps_has_all_def caps_of_def capabilities.select_convs(1) required_capabilities_bit)
next
  assume "\<forall>k \<in> required_bits params. bit server k"
  then show "caps_has_all (caps_of server) (required_capabilities params)"
    unfolding caps_has_all_def by (intro bit_word_eqI) (auto simp: bit_and_iff caps_of_def required_capabilities_bit)
qed

lemma process_capabilities_bits:
  assumes "process_capabilities hs p = (err, p')" and "\<not> failed err"
  shows "bit (cap_value (hp_negotiated_caps p')) k \<longleftrightarrow>
     bit (hs_capability_falgs hs) k \<and> k \<in> wanted_bits (hp_params p)"
proof -
  have "cap_value (hp_negotiated_caps p') = hs_capability_falgs hs AND
      (cap_value (required_capabilities (hp_params p)) OR
       cap_value (conditional_capability (cp_ssl (hp_params p) = Ssl_enable) CLIENT_SSL))"
    using assms by (auto simp: process_capabilities_def Let_def caps_and_def caps_or_def caps_of_def
        optional_capabilities_def split: if_splits)
  then show ?thesis
    by (cases "cp_ssl (hp_params p)")
      (auto simp: bit_and_iff bit_or_iff required_capabilities_bit conditional_bits wanted_bits_def required_bits_def)
qed

text \<open>What was negotiated: nothing the server lacks, all that is required, TLS as asked for.\<close>

lemma process_capabilities_ok:
  assumes "process_capabilities hs p = (err, p')" and "\<not> failed err"
  shows "caps_has_all (hp_negotiated_caps p') (required_capabilities (hp_params p))"
    and "caps_has_all (caps_of (hs_capability_falgs hs)) (hp_negotiated_caps p')"
    and "use_ssl p' \<longleftrightarrow> cp_ssl (hp_params p) = Ssl_require \<or>
           cp_ssl (hp_params p) = Ssl_enable \<and> caps_has (caps_of (hs_capability_falgs hs)) CLIENT_SSL"
    and "caps_has (hp_negotiated_caps p') CLIENT_CONNECT_WITH_DB \<longleftrightarrow> cp_database (hp_params p) \<noteq> []"
    and "p' = p\<lparr>hp_negotiated_caps := hp_negotiated_caps p'\<rparr>"
proof -
  let ?s = "hs_capability_falgs hs" and ?r = "cap_value (required_capabilities (hp_params p))"
  let ?c = "cap_value (conditional_capability (cp_ssl (hp_params p) = Ssl_enable) CLIENT_SSL)"
  have r: "?s AND ?r = ?r" and p': "p' = p\<lparr>hp_negotiated_caps := hp_negotiated_caps p'\<rparr>"
    and n: "cap_value (hp_negotiated_caps p') = ?s AND (?r OR ?c)"
    using assms by (auto simp: process_capabilities_def Let_def caps_has_all_def caps_and_def caps_or_def caps_of_def
        optional_capabilities_def split: if_splits)
  then show "p' = p\<lparr>hp_negotiated_caps := hp_negotiated_caps p'\<rparr>" by blast
  have rb: "bit ?r k \<Longrightarrow> bit ?s k" for k using r by (metis bit_and_iff)
  show "caps_has_all (hp_negotiated_caps p') (required_capabilities (hp_params p))"
    unfolding caps_has_all_def n by (rule bit_word_eqI) (auto simp: bit_simps dest: rb)
  show "caps_has_all (caps_of ?s) (hp_negotiated_caps p')"
    unfolding caps_has_all_def n by (rule bit_word_eqI) (auto simp: bit_simps caps_of_def)
  have c: "bit ?c 11 \<longleftrightarrow> cp_ssl (hp_params p) = Ssl_enable" "\<not> bit ?c 3"
    by (simp_all add: conditional_capability_def caps_of_def client_flag_defs)
  show "use_ssl p' \<longleftrightarrow> cp_ssl (hp_params p) = Ssl_require \<or>
           cp_ssl (hp_params p) = Ssl_enable \<and> caps_has (caps_of ?s) CLIENT_SSL"
    using rb [of 11] c
    by (auto simp: use_ssl_def caps_has_flag n bit_and_iff bit_or_iff required_capabilities_bits caps_of_def)
  show "caps_has (hp_negotiated_caps p') CLIENT_CONNECT_WITH_DB \<longleftrightarrow> cp_database (hp_params p) \<noteq> []"
    using rb [of 3] c
    by (auto simp: caps_has_flag n bit_and_iff bit_or_iff required_capabilities_bits)
qed

section \<open>The loop over the responses\<close>

text \<open>Once a plugin is set, processing a response is defined, and a plugin stays set.\<close>

definition processor_ready :: "handshake_processor \<Rightarrow> bool" where
  "processor_ready p \<longleftrightarrow> ac_plugin (hp_auth_calc p) \<noteq> None"

definition same_negotiation :: "handshake_processor \<Rightarrow> handshake_processor \<Rightarrow> bool" where
  "same_negotiation p p' \<longleftrightarrow> hp_params p' = hp_params p \<and> hp_negotiated_caps p' = hp_negotiated_caps p"

lemma processor_calculate_ok:
  assumes "processor_calculate H name challenge p = (err, p')"
  shows "same_negotiation p p'" "\<not> failed err \<Longrightarrow> processor_ready p'"
  using assms calculate_plugin [of H name "cp_password (hp_params p)" challenge "use_ssl p" "hp_auth_calc p"]
  by (auto simp: processor_calculate_def same_negotiation_def processor_ready_def plugin_name_def
      dest!: sym [of "Some _"] split: prod.splits)

lemma serialize_auth_response_ok:
  "\<exists>buffer'. send_auth_data buffer info p = Some (no_error, buffer', Auth_send_more_data, info, p)"
  by (simp add: send_auth_data_def auth_switch_response.serialize_message_exact)

text \<open>
  Processing a response returns, unless the response is a switch request that fails the assertion
  about its data.
\<close>

lemma server_response_total:
  assumes "processor_ready p"
  shows "(if auth_switch_aborts buffer then process_handshake_server_response H buffer result info p = None
    else \<exists>err buffer' result' info' p'.
      process_handshake_server_response H buffer result info p = Some (err, buffer', result', info', p') \<and>
      same_negotiation p p' \<and> (\<not> failed err \<longrightarrow> processor_ready p'))"
proof -
  obtain name where name: "plugin_name (hp_auth_calc p) = Some name"
    using assms by (auto simp: processor_ready_def plugin_name_def)
  have calc: "\<exists>err buffer' result' info' p''.
      (if failed e then Some (e, buffer, result, info, p') else send_auth_data buffer info p') = Some (err, buffer', result', info', p'') \<and>
      same_negotiation p p'' \<and> (\<not> failed err \<longrightarrow> processor_ready p'')"
    if "processor_calculate H n c p = (e, p')" for n c e p'
    using processor_calculate_ok [OF that] serialize_auth_response_ok [of buffer info p'] by auto
  have refl: "same_negotiation p p" by (simp add: same_negotiation_def)
  show ?thesis
  proof (cases buffer)
    case Nil
    then show ?thesis
      using assms refl deserialize_message_type_Nil [of "make_ctx buffer (hp_negotiated_caps p)"]
      by (simp add: process_handshake_server_response_def auth_switch_aborts_def)
  next
    case (Cons msg_type message)
    let ?ctx = "ctx_advance 1 (make_ctx buffer (hp_negotiated_caps p))"
    have type: "deserialize_message_type (make_ctx buffer (hp_negotiated_caps p)) = Inr (msg_type, ?ctx)"
      by (rule deserialize_message_type_Cons) (simp add: Cons)
    have aborts: "auth_switch_aborts buffer \<longleftrightarrow>
        msg_type = auth_switch_request_header \<and> deserialize_asserted_message deserialize_auth_switch_request ?ctx = None"
      using deserialize_auth_switch_request_aborts [of ?ctx message] Cons
      by (auto simp: auth_switch_request_header_def auth_switch_aborts_def)
    have "\<exists>err buffer' result' info' p'. process_auth_switch H ?ctx buffer result info p = Some (err, buffer', result', info', p') \<and>
        same_negotiation p p' \<and> (\<not> failed err \<longrightarrow> processor_ready p')"
      if "deserialize_asserted_message deserialize_auth_switch_request ?ctx \<noteq> None"
      using that assms refl calc by (auto simp: process_auth_switch_def split: sum.split prod.split)
    moreover have "\<exists>err buffer' result' info' p'. process_auth_more_data H ?ctx buffer result info p = Some (err, buffer', result', info', p') \<and>
        same_negotiation p p' \<and> (\<not> failed err \<longrightarrow> processor_ready p')"
      using assms refl calc name by (auto simp: process_auth_more_data_def split: sum.split prod.split)
    moreover have "process_auth_switch H ?ctx buffer result info p = None"
      if "deserialize_asserted_message deserialize_auth_switch_request ?ctx = None"
      using that by (simp add: process_auth_switch_def)
    ultimately show ?thesis
      using assms refl type aborts
      by (auto simp: process_handshake_server_response_def auth_switch_request_header_def ok_packet_header_def
          error_packet_header_def split: prod.split)
  qed
qed

lemma server_response_returns:
  assumes "processor_ready p" and "\<not> auth_switch_aborts buffer"
  obtains err buffer' result' info' p'
  where "process_handshake_server_response H buffer result info p = Some (err, buffer', result', info', p')"
    and "same_negotiation p p'" and "\<not> failed err \<Longrightarrow> processor_ready p'"
  using server_response_total [OF assms(1), of buffer H result info] assms(2) that by auto

lemma server_response_aborts:
  "processor_ready p \<Longrightarrow>
   process_handshake_server_response H buffer result info p = None \<longleftrightarrow> auth_switch_aborts buffer"
  using server_response_total [of p buffer H result info] by (auto split: if_splits)

lemma server_response_some:
  assumes "processor_ready p"
    and "process_handshake_server_response H buffer result info p = Some (err, buffer', result', info', p')"
  shows "same_negotiation p p'" "\<not> failed err \<Longrightarrow> processor_ready p'"
  using server_response_total [OF assms(1), of buffer H result info] assms(2) by (auto split: if_splits)

text \<open>
  A handshake that fails the assertion ends the program in the middle of the loop: \<open>chx\<close> is the
  channel then, with the message in its buffer and all that was written before.
\<close>

inductive auth_aborts ::
    "'s stream_ops \<Rightarrow> crypto_lib \<Rightarrow> auth_result \<Rightarrow> handshake_processor \<Rightarrow> error_info \<Rightarrow> 's channel \<Rightarrow> 's channel \<Rightarrow> bool"
  for S :: "'s stream_ops" and H :: crypto_lib where
  here: "outcome \<noteq> Auth_complete \<Longrightarrow> read_shared S ch = Some (code, chx) \<Longrightarrow> \<not> failed code \<Longrightarrow>
    process_handshake_server_response H (ch_shared_buff chx) outcome info p = None \<Longrightarrow>
    auth_aborts S H outcome p info ch chx"
| after_answer: "outcome \<noteq> Auth_complete \<Longrightarrow> read_shared S ch = Some (code, ch1) \<Longrightarrow> \<not> failed code \<Longrightarrow>
    process_handshake_server_response H (ch_shared_buff ch1) outcome info p = Some (err, buffer, Auth_send_more_data, info1, p1) \<Longrightarrow>
    \<not> failed err \<Longrightarrow> write_shared S (ch1\<lparr>ch_shared_buff := buffer\<rparr>) = Some (code2, ch2) \<Longrightarrow> \<not> failed code2 \<Longrightarrow>
    auth_aborts S H Auth_send_more_data p1 info1 ch2 chx \<Longrightarrow> auth_aborts S H outcome p info ch chx"
| after_wait: "outcome \<noteq> Auth_complete \<Longrightarrow> read_shared S ch = Some (code, ch1) \<Longrightarrow> \<not> failed code \<Longrightarrow>
    process_handshake_server_response H (ch_shared_buff ch1) outcome info p = Some (err, buffer, outcome1, info1, p1) \<Longrightarrow>
    \<not> failed err \<Longrightarrow> outcome1 \<noteq> Auth_send_more_data \<Longrightarrow>
    auth_aborts S H outcome1 p1 info1 (ch1\<lparr>ch_shared_buff := buffer\<rparr>) chx \<Longrightarrow> auth_aborts S H outcome p info ch chx"

lemma auth_aborts_none: "auth_aborts S H outcome p info ch chx \<Longrightarrow> auth_loop S H outcome p info ch = None"
  by (induction rule: auth_aborts.induct) (simp_all add: auth_loop.simps [of S H outcome for outcome])

lemma shared_steps:
  assumes "byte_stream S inp out" and "channel_wf ch"
  shows "read_shared S ch = Some (code, ch1) \<Longrightarrow> progress inp out ch ch1"
    and "write_shared S ch = Some (code, ch1) \<Longrightarrow> progress inp out ch ch1"
  using read_shared_progress [OF assms] write_shared_progress [OF assms] by auto

lemma auth_aborts_at:
  assumes "auth_aborts S H outcome p info ch chx" and "byte_stream S inp out"
    and "processor_ready p" and "channel_wf ch"
  shows "progress inp out ch chx \<and> auth_switch_aborts (ch_shared_buff chx)"
  using assms(1,3,4)
proof induction
  case (here outcome ch code chx info p)
  then show ?case using shared_steps(1) [OF assms(2)] server_response_aborts by blast
next
  case (after_answer outcome ch code ch1 info p err buffer info1 p1 code2 ch2 chx)
  have 1: "progress inp out ch ch1" by (rule shared_steps(1) [OF assms(2) after_answer.prems(2) after_answer.hyps(2)])
  then have "channel_wf (ch1\<lparr>ch_shared_buff := buffer\<rparr>)" by (simp add: progress_def)
  from shared_steps(2) [OF assms(2) this after_answer.hyps(6)]
  have 2: "progress inp out ch1 ch2" by simp
  then have "progress inp out ch2 chx \<and> auth_switch_aborts (ch_shared_buff chx)"
    using after_answer.IH server_response_some(2) [OF after_answer.prems(1) after_answer.hyps(4,5)]
    by (simp add: progress_def)
  then show ?case using progress_trans [OF progress_trans [OF 1 2]] by blast
next
  case (after_wait outcome ch code ch1 info p err buffer outcome1 info1 p1 chx)
  have 1: "progress inp out ch ch1" by (rule shared_steps(1) [OF assms(2) after_wait.prems(2) after_wait.hyps(2)])
  then have "progress inp out ch1 chx \<and> auth_switch_aborts (ch_shared_buff chx)"
    using after_wait.IH server_response_some(2) [OF after_wait.prems(1) after_wait.hyps(4,5)]
    by (simp add: progress_def)
  then show ?case using progress_trans [OF 1] by blast
qed

lemma auth_loop_total:
  assumes "byte_stream S inp out" and "processor_ready p" and "channel_wf ch"
  shows "(\<exists>err info' p' ch'. auth_loop S H outcome p info ch = Some (err, info', p', ch') \<and>
      progress inp out ch ch' \<and> same_negotiation p p') \<or>
    (\<exists>chx. auth_aborts S H outcome p info ch chx)"
  using assms(2,3)
proof (induction "length (inp (ch_stream ch))" arbitrary: outcome p info ch rule: less_induct)
  case less
  show ?case
  proof (cases "outcome = Auth_complete")
    case True
    then show ?thesis
      using less.prems by (simp add: auth_loop.simps progress_refl same_negotiation_def)
  next
    case False
    obtain code ch1 where rd: "read_shared S ch = Some (code, ch1)" and pr: "progress inp out ch ch1"
      and less1: "\<not> failed code \<Longrightarrow> length (inp (ch_stream ch1)) < length (inp (ch_stream ch))"
      using read_shared_progress [OF assms(1) less.prems(2)] by blast
    have later: "(\<exists>err info' p' ch'. auth_loop S H outcome1 p1 info1 ch2 = Some (err, info', p', ch') \<and>
        progress inp out ch ch' \<and> same_negotiation p p') \<or> (\<exists>chx. auth_aborts S H outcome1 p1 info1 ch2 chx)"
      if t: "progress inp out ch1 ch2" "processor_ready p1" "same_negotiation p p1" "\<not> failed code" for outcome1 p1 info1 ch2
    proof -
      have "channel_wf ch2" "length (inp (ch_stream ch2)) < length (inp (ch_stream ch))"
        using t(1,4) less1 progress_length [OF t(1)] by (simp_all add: progress_def)
      from less.hyps [OF this(2) t(2) this(1), of outcome1 info1] progress_trans [OF progress_trans [OF pr t(1)]] t(3)
      show ?thesis by (auto simp: same_negotiation_def)
    qed
    show ?thesis
    proof (cases "failed code")
      case True
      then show ?thesis using pr False by (auto simp: auth_loop.simps [of S H outcome] rd same_negotiation_def)
    next
      case ok: False
      show ?thesis
      proof (cases "process_handshake_server_response H (ch_shared_buff ch1) outcome info p")
        case None
        then show ?thesis using auth_aborts.here [OF False rd ok] by blast
      next
        case (Some r)
        then obtain err buffer outcome1 info1 p1 where
          resp: "process_handshake_server_response H (ch_shared_buff ch1) outcome info p = Some (err, buffer, outcome1, info1, p1)"
          by (metis prod_cases5)
        note p1 = server_response_some [OF less.prems(1) resp]
        let ?ch2 = "ch1\<lparr>ch_shared_buff := buffer\<rparr>"
        have wf2: "channel_wf ?ch2" using pr by (simp add: progress_def)
        then have pr2: "progress inp out ch1 ?ch2" by (simp add: progress_refl)
        obtain code2 ch3 where wr: "write_shared S ?ch2 = Some (code2, ch3)" and pr3: "progress inp out ch1 ch3"
          using write_shared_progress [OF assms(1) wf2] by auto
        have eq: "auth_loop S H outcome p info ch =
            (if failed err then Some (err, info1, p1, ?ch2)
             else if outcome1 = Auth_send_more_data then
               (if failed code2 then Some (code2, info1, p1, ch3) else auth_loop S H outcome1 p1 info1 ch3)
             else auth_loop S H outcome1 p1 info1 ?ch2)"
          using False ok by (simp add: auth_loop.simps [of S H outcome] rd resp wr)
        consider (err) "failed err" | (stop) "\<not> failed err" "outcome1 = Auth_send_more_data" "failed code2"
          | (answer) "\<not> failed err" "outcome1 = Auth_send_more_data" "\<not> failed code2"
          | (wait) "\<not> failed err" "outcome1 \<noteq> Auth_send_more_data" by blast
        then show ?thesis
        proof cases
          case err
          then show ?thesis using p1(1) pr by (simp add: eq)
        next
          case stop
          then show ?thesis using p1(1) progress_trans [OF pr pr3] by (simp add: eq)
        next
          case answer
          then have "auth_aborts S H outcome p info ch chx" if "auth_aborts S H outcome1 p1 info1 ch3 chx" for chx
            using auth_aborts.after_answer [OF False rd ok _ _ wr] resp that by blast
          then show ?thesis using answer later [OF pr3 p1(2) p1(1) ok, of outcome1 info1] by (simp add: eq) blast
        next
          case wait
          then show ?thesis
            using later [OF pr2 p1(2) p1(1) ok, of outcome1 info1] auth_aborts.after_wait [OF False rd ok resp]
            by (simp add: eq) blast
        qed
      qed
    qed
  qed
qed

section \<open>Requests and responses on the wire\<close>

definition ssl_request_of :: "connection_params \<Rightarrow> capabilities \<Rightarrow> ssl_request" where
  "ssl_request_of params caps =
     \<lparr>sr_client_flag = cap_value caps, sr_max_packet_size = word_of_nat MAX_PACKET_SIZE,
      sr_character_set = get_collation_first_byte (cp_collation params), sr_filler = replicate 23 0\<rparr>"

definition handshake_response_of :: "connection_params \<Rightarrow> capabilities \<Rightarrow> bytes \<Rightarrow> bytes \<Rightarrow> handshake_response_packet" where
  "handshake_response_of params caps response name =
     \<lparr>hr_client_flag = cap_value caps, hr_max_packet_size = word_of_nat MAX_PACKET_SIZE,
      hr_character_set = get_collation_first_byte (cp_collation params), hr_username = cp_username params,
      hr_auth_response = response, hr_database = cp_database params, hr_client_plugin_name = name\<rparr>"

lemma compose_ssl_request_eq:
  "compose_ssl_request buffer p =
     Some (enc_ssl_request (hp_negotiated_caps p) (ssl_request_of (hp_params p) (hp_negotiated_caps p)))"
  by (simp add: compose_ssl_request_def ssl_request.serialize_message_exact ssl_request_of_def)

lemma compose_handshake_response_eq:
  "plugin_name (hp_auth_calc p) = Some name \<Longrightarrow> compose_handshake_response buffer p =
     Some (enc_handshake_response (hp_negotiated_caps p)
       (handshake_response_of (hp_params p) (hp_negotiated_caps p) (ac_response (hp_auth_calc p)) name))"
  by (simp add: compose_handshake_response_def handshake_response.serialize_message_exact handshake_response_of_def)

lemma length_enc_ssl_request: "length (enc_ssl_request caps r) = 32"
  by (simp add: enc_ssl_request_def)

text \<open>
  The writes of the TLS phase: the request, outside TLS, and then TLS is on, unless the request
  could not be sent.
\<close>

lemma setup_ssl_outcome:
  assumes "byte_stream S inp out" and "channel_wf ch" and "use_ssl p"
  shows "\<exists>code ch' ps. setup_ssl S p ch = Some (code, ch') \<and> channel_wf ch' \<and>
    inp (ch_stream ch') = inp (ch_stream ch) \<and> (ch_ssl ch \<or> \<not> failed code \<longrightarrow> ch_ssl ch') \<and>
    out (ch_stream ch') = out (ch_stream ch) @ map (Pair (ch_ssl ch)) ps \<and>
    prefix (concat ps) (frame_header 32 (ch_sequence_number ch) @
      enc_ssl_request (hp_negotiated_caps p) (ssl_request_of (hp_params p) (hp_negotiated_caps p)))"
proof -
  let ?req = "enc_ssl_request (hp_negotiated_caps p) (ssl_request_of (hp_params p) (hp_negotiated_caps p))"
  let ?ch1 = "ch\<lparr>ch_shared_buff := ?req\<rparr>"
  have "channel_wf ?ch1" using assms(2) by simp
  then obtain code ch1 ps where w: "channel_write S ?req ?ch1 = Some (code, ch1)" "same_session ?ch1 ch1"
      "inp (ch_stream ch1) = inp (ch_stream ch)" "out (ch_stream ch1) = out (ch_stream ch) @ map (Pair (ch_ssl ch)) ps"
      "prefix (concat ps) (concat (packets (ch_sequence_number ch) ?req))"
    using channel_write_any [OF assms(1), of ?ch1 ?req] by auto
  moreover have "packets (ch_sequence_number ch) ?req = [frame_header 32 (ch_sequence_number ch) @ ?req]"
    by (simp add: packets_short length_enc_ssl_request MAX_PACKET_SIZE_def)
  moreover obtain code2 s where hs: "so_ssl_handshake S (ch_stream ch1) = (code2, s)" by fastforce
  ultimately show ?thesis
    using assms(2,3) byte_stream_frame(1) [OF assms(1) hs]
    by (auto simp: setup_ssl_def compose_ssl_request_eq write_shared_def channel_ssl_handshake_def
        same_session_def channel_wf_def)
qed

lemma send_handshake_response_progress:
  assumes "byte_stream S inp out" and "channel_wf ch" and "processor_ready p"
  shows "\<exists>code ch'. send_handshake_response S p ch = Some (code, ch') \<and> progress inp out ch ch'"
proof -
  obtain name where "plugin_name (hp_auth_calc p) = Some name"
    using assms(3) by (auto simp: processor_ready_def plugin_name_def)
  then show ?thesis
    using write_shared_progress [OF assms(1), of "ch\<lparr>ch_shared_buff := b\<rparr>" for b] assms(2)
    by (auto simp: send_handshake_response_def compose_handshake_response_eq)
qed

lemma process_handshake_ok:
  assumes "process_handshake H buffer info (make_processor params) = (err, info1, p)" and "\<not> failed err"
  shows "processor_ready p" "hp_params p = params"
    "cp_ssl params = Ssl_require \<Longrightarrow> use_ssl p" "cp_ssl params = Ssl_disable \<Longrightarrow> \<not> use_ssl p"
proof -
  obtain e hs info2 e2 p1 e3 where d: "process_capabilities hs (make_processor params) = (e2, p1)" "\<not> failed e2"
      and c: "processor_calculate H (hs_auth_plugin_name hs) (static_string_value (hs_auth_plugin_data hs)) p1 = (e3, p)"
      "\<not> failed e3"
    using assms by (auto simp: process_handshake_def split: prod.splits if_splits)
  note n = process_capabilities_ok [OF d] and m = processor_calculate_ok [OF c(1)]
  show "processor_ready p" using m(2) c(2) by simp
  have p1: "hp_params p1 = params" by (subst n(5)) (simp add: make_processor_def)
  then show "hp_params p = params" using m(1) by (simp add: same_negotiation_def)
  have "use_ssl p = use_ssl p1" using m(1) by (simp add: same_negotiation_def use_ssl_def)
  then show "cp_ssl params = Ssl_require \<Longrightarrow> use_ssl p" "cp_ssl params = Ssl_disable \<Longrightarrow> \<not> use_ssl p"
    using n(3) by (simp_all add: make_processor_def)
qed

text \<open>
  The outcome of a handshake: it returns; the writes outside TLS come first, and they are the TLS
  request alone when TLS is negotiated.
\<close>

definition handshake_outcome ::
    "('s \<Rightarrow> bytes) \<Rightarrow> ('s \<Rightarrow> (bool \<times> bytes) list) \<Rightarrow> connection_params \<Rightarrow> 's channel \<Rightarrow> 's channel \<Rightarrow> bool" where
  "handshake_outcome inp out params ch ch' \<longleftrightarrow>
     channel_wf ch' \<and> (\<exists>p. inp (ch_stream ch) = p @ inp (ch_stream ch')) \<and> (ch_ssl ch \<longrightarrow> ch_ssl ch') \<and>
     (\<exists>ps qs. out (ch_stream ch') = out (ch_stream ch) @ map (Pair (ch_ssl ch)) ps @ map (Pair True) qs \<and>
        (qs \<noteq> [] \<longrightarrow> ch_ssl ch') \<and>
        (cp_ssl params = Ssl_require \<longrightarrow> (\<exists>seq caps. prefix (concat ps)
           (frame_header 32 seq @ enc_ssl_request caps (ssl_request_of params caps)))))"

lemma handshake_outcomeI:
  assumes "channel_wf ch'" and "inp (ch_stream ch) = p @ inp (ch_stream ch')"
    and "ch_ssl ch \<or> qs \<noteq> [] \<longrightarrow> ch_ssl ch'"
    and "out (ch_stream ch') = out (ch_stream ch) @ map (Pair (ch_ssl ch)) ps @ map (Pair True) qs"
    and "cp_ssl params = Ssl_require \<Longrightarrow>
       prefix (concat ps) (frame_header 32 seq @ enc_ssl_request caps (ssl_request_of params caps))"
  shows "handshake_outcome inp out params ch ch'"
  using assms unfolding handshake_outcome_def by metis

lemma handshake_outcome_plain:
  assumes "progress inp out ch ch'" and "out (ch_stream ch') = out (ch_stream ch) \<or> cp_ssl params \<noteq> Ssl_require"
  shows "handshake_outcome inp out params ch ch'"
proof -
  obtain ws p where "out (ch_stream ch') = out (ch_stream ch) @ map (Pair (ch_ssl ch)) ws"
      "inp (ch_stream ch) = p @ inp (ch_stream ch')" "channel_wf ch'" "ch_ssl ch' = ch_ssl ch"
    using assms(1) by (auto simp: progress_def)
  then show ?thesis using assms(2) handshake_outcomeI [of ch' inp ch p "[]" out ws params 0 "caps_of 0"] by auto
qed

lemma handshake_outcome_tls:
  assumes "progress inp out ch ch1" "out (ch_stream ch1) = out (ch_stream ch)"
    and "inp (ch_stream ch2) = inp (ch_stream ch1)"
    and "out (ch_stream ch2) = out (ch_stream ch1) @ map (Pair (ch_ssl ch)) ps"
    and "prefix (concat ps) (frame_header 32 seq @ enc_ssl_request caps (ssl_request_of params caps))"
    and "ch_ssl ch \<longrightarrow> ch_ssl ch2"
    and "ch' = ch2 \<and> channel_wf ch2 \<or> ch_ssl ch2 \<and> progress inp out ch2 ch'"
  shows "handshake_outcome inp out params ch ch'"
proof -
  obtain ws q where "out (ch_stream ch') = out (ch_stream ch2) @ map (Pair True) ws"
      "inp (ch_stream ch2) = q @ inp (ch_stream ch')" "channel_wf ch'" "ch_ssl ch \<or> ws \<noteq> [] \<longrightarrow> ch_ssl ch'"
  proof (cases "ch' = ch2 \<and> channel_wf ch2")
    case True
    then show ?thesis using that [of "[]" "[]"] assms(6) by simp
  next
    case False
    then show ?thesis using assms(7) that by (auto simp: progress_def)
  qed
  moreover obtain r where "inp (ch_stream ch) = r @ inp (ch_stream ch1)" using assms(1) by (auto simp: progress_def)
  ultimately show ?thesis
    using assms(2-5) handshake_outcomeI [of ch' inp ch "r @ q" ws out ps params seq caps] by simp
qed

lemma handshake_outcome_caps:
  "handshake_outcome inp out params ch (set_current_capabilities c ch') = handshake_outcome inp out params ch ch'"
  by (simp add: handshake_outcome_def set_current_capabilities_def channel_wf_def)

text \<open>The rest of the handshake, once TLS is set up or not.\<close>

definition handshake_tail ::
    "'s stream_ops \<Rightarrow> crypto_lib \<Rightarrow> handshake_processor \<Rightarrow> error_info \<Rightarrow> 's channel \<Rightarrow> (error_code \<times> error_info \<times> 's channel) option" where
  "handshake_tail S H p info ch =
     Option.bind (send_handshake_response S p ch) (\<lambda>(code3, ch3).
       if failed code3 then Some (code3, info, ch3)
       else Option.bind (auth_loop S H Auth_invalid p info ch3) (\<lambda>(code4, info2, p1, ch4).
         if failed code4 then Some (code4, info2, ch4)
         else Some (code4, info2, set_current_capabilities (hp_negotiated_caps p1) ch4)))"

lemma handshake_eq_tail:
  assumes "read_shared S ch = Some (code, ch1)" and "process_handshake H (ch_shared_buff ch1) info (make_processor params) = (err, info1, p)"
    and "\<not> failed code" and "\<not> failed err"
  shows "handshake S H params info ch =
    Option.bind (setup_ssl S p ch1) (\<lambda>(code2, ch2). if failed code2 then Some (code2, info1, ch2) else handshake_tail S H p info1 ch2)"
  unfolding handshake_tail_def using assms by (simp add: handshake_def)

text \<open>A handshake that ends the program: the assertion fails in its loop, with \<open>chx\<close> the channel then.\<close>

definition tail_aborts ::
    "'s stream_ops \<Rightarrow> crypto_lib \<Rightarrow> handshake_processor \<Rightarrow> error_info \<Rightarrow> 's channel \<Rightarrow> 's channel \<Rightarrow> bool" where
  "tail_aborts S H p info ch chx \<longleftrightarrow>
     (\<exists>code3 ch3. send_handshake_response S p ch = Some (code3, ch3) \<and> \<not> failed code3 \<and>
        auth_aborts S H Auth_invalid p info ch3 chx)"

definition handshake_aborts ::
    "'s stream_ops \<Rightarrow> crypto_lib \<Rightarrow> connection_params \<Rightarrow> error_info \<Rightarrow> 's channel \<Rightarrow> 's channel \<Rightarrow> bool" where
  "handshake_aborts S H params info ch chx \<longleftrightarrow>
     (\<exists>code ch1 err info1 p code2 ch2. read_shared S ch = Some (code, ch1) \<and> \<not> failed code \<and>
        process_handshake H (ch_shared_buff ch1) info (make_processor params) = (err, info1, p) \<and> \<not> failed err \<and>
        setup_ssl S p ch1 = Some (code2, ch2) \<and> \<not> failed code2 \<and> tail_aborts S H p info1 ch2 chx)"

lemma handshake_finish:
  assumes "byte_stream S inp out" and "channel_wf ch" and "processor_ready p"
  shows "(\<exists>err info' ch' caps. handshake_tail S H p info ch = Some (err, info', set_current_capabilities caps ch') \<and>
      progress inp out ch ch') \<or>
    (\<exists>chx. tail_aborts S H p info ch chx)"
proof -
  have id: "set_current_capabilities (ch_current_caps c) c = c" for c :: "'a channel"
    by (simp add: set_current_capabilities_def)
  obtain code3 ch3 where sr: "send_handshake_response S p ch = Some (code3, ch3)" "progress inp out ch ch3"
    using send_handshake_response_progress [OF assms] by blast
  then have "channel_wf ch3" by (simp add: progress_def)
  from auth_loop_total [OF assms(1,3) this, of H Auth_invalid info]
  consider (stop) "failed code3"
    | (returns) code4 info2 p1 ch4 where "\<not> failed code3" "auth_loop S H Auth_invalid p info ch3 = Some (code4, info2, p1, ch4)"
        "progress inp out ch3 ch4"
    | (aborts) chx where "\<not> failed code3" "auth_aborts S H Auth_invalid p info ch3 chx"
    by blast
  then show ?thesis
  proof cases
    case stop
    then have "handshake_tail S H p info ch = Some (code3, info, set_current_capabilities (ch_current_caps ch3) ch3)"
      by (simp add: handshake_tail_def sr(1) id)
    then show ?thesis using sr(2) by blast
  next
    case returns
    then have "handshake_tail S H p info ch = Some (code4, info2,
        set_current_capabilities (if failed code4 then ch_current_caps ch4 else hp_negotiated_caps p1) ch4)"
      by (simp add: handshake_tail_def sr(1) id)
    then show ?thesis using progress_trans [OF sr(2) returns(3)] by blast
  next
    case aborts
    then show ?thesis using sr(1) by (auto simp: tail_aborts_def)
  qed
qed

lemma tail_aborts_at:
  assumes "tail_aborts S H p info ch chx" and "byte_stream S inp out" and "channel_wf ch" and "processor_ready p"
  shows "progress inp out ch chx" "auth_switch_aborts (ch_shared_buff chx)" "handshake_tail S H p info ch = None"
proof -
  obtain code3 ch3 where sr: "send_handshake_response S p ch = Some (code3, ch3)" "\<not> failed code3"
      and aborts: "auth_aborts S H Auth_invalid p info ch3 chx"
    using assms(1) by (auto simp: tail_aborts_def)
  then have pr3: "progress inp out ch ch3" using send_handshake_response_progress [OF assms(2-4)] by auto
  then have "channel_wf ch3" by (simp add: progress_def)
  note at = auth_aborts_at [OF aborts assms(2,4) this]
  show "progress inp out ch chx" "auth_switch_aborts (ch_shared_buff chx)"
    using at progress_trans [OF pr3] by blast+
  show "handshake_tail S H p info ch = None"
    using sr auth_aborts_none [OF aborts] by (simp add: handshake_tail_def)
qed

text \<open>The TLS phase, and whatever follows it.\<close>

lemma setup_ssl_then:
  assumes "byte_stream S inp out" and "channel_wf ch1" and "progress inp out ch ch1"
    and "out (ch_stream ch1) = out (ch_stream ch)" and "hp_params p = params"
    and "cp_ssl params = Ssl_require \<Longrightarrow> use_ssl p"
  obtains code2 ch2 where "setup_ssl S p ch1 = Some (code2, ch2)" and "channel_wf ch2"
    and "handshake_outcome inp out params ch ch2"
    and "\<And>ch'. \<not> failed code2 \<Longrightarrow> progress inp out ch2 ch' \<Longrightarrow> handshake_outcome inp out params ch ch'"
proof (cases "use_ssl p")
  case no_tls: False
  then have "cp_ssl params \<noteq> Ssl_require" using assms(6) by blast
  then show thesis
    using that [of no_error ch1] no_tls assms(2) handshake_outcome_plain [OF progress_trans [OF assms(3)], of _ params]
      handshake_outcome_plain [OF assms(3), of params]
    by (simp add: setup_ssl_def)
next
  case tls: True
  obtain code2 ch2 ps where s: "setup_ssl S p ch1 = Some (code2, ch2)" "channel_wf ch2"
      "inp (ch_stream ch2) = inp (ch_stream ch1)" "ch_ssl ch1 \<or> \<not> failed code2 \<longrightarrow> ch_ssl ch2"
      "out (ch_stream ch2) = out (ch_stream ch1) @ map (Pair (ch_ssl ch1)) ps"
      "prefix (concat ps) (frame_header 32 (ch_sequence_number ch1) @
         enc_ssl_request (hp_negotiated_caps p) (ssl_request_of (hp_params p) (hp_negotiated_caps p)))"
    using setup_ssl_outcome [OF assms(1,2) tls] by blast
  have ssl1: "ch_ssl ch1 = ch_ssl ch" using assms(3) by (simp add: progress_def)
  then have "ch_ssl ch \<longrightarrow> ch_ssl ch2" using s(4) by simp
  note out = handshake_outcome_tls [OF assms(3,4) s(3) s(5) [unfolded ssl1] s(6) [unfolded assms(5)] this]
  show thesis using that [OF s(1,2)] out [of ch2] out s(2,4) by blast
qed

lemma handshake_cases:
  assumes "byte_stream S inp out" and "channel_wf ch"
  obtains (greeting) err info' ch' where "handshake S H params info ch = Some (err, info', ch')"
      "handshake_outcome inp out params ch ch'" "\<And>chx. \<not> handshake_aborts S H params info ch chx"
  | (rest) code ch1 err info1 p code2 ch2
    where "read_shared S ch = Some (code, ch1)" "\<not> failed code"
      "process_handshake H (ch_shared_buff ch1) info (make_processor params) = (err, info1, p)" "\<not> failed err"
      "setup_ssl S p ch1 = Some (code2, ch2)" "\<not> failed code2" "channel_wf ch2" "processor_ready p"
      "handshake S H params info ch = handshake_tail S H p info1 ch2"
      "\<And>ch'. progress inp out ch2 ch' \<Longrightarrow> handshake_outcome inp out params ch ch'"
      "\<And>chx. handshake_aborts S H params info ch chx \<longleftrightarrow> tail_aborts S H p info1 ch2 chx"
proof -
  obtain code ch1 where rd: "read_shared S ch = Some (code, ch1)" and pr: "progress inp out ch ch1"
      and out1: "out (ch_stream ch1) = out (ch_stream ch)"
    using channel_read_any [OF assms] read_shared_progress [OF assms] by (auto simp: read_shared_def)
  obtain err info1 p where ph: "process_handshake H (ch_shared_buff ch1) info (make_processor params) = (err, info1, p)"
    by (metis prod_cases3)
  show thesis
  proof (cases "failed code \<or> failed err")
    case True
    then have "\<not> handshake_aborts S H params info ch chx" for chx using rd ph by (auto simp: handshake_aborts_def)
    then show thesis
      using True handshake_outcome_plain [OF pr] out1 greeting [of "if failed code then code else err"
          "if failed code then info else info1" ch1]
      by (auto simp: handshake_def rd ph)
  next
    case False
    then have nf: "\<not> failed code" "\<not> failed err" by simp_all
    have "channel_wf ch1" using pr by (simp add: progress_def)
    from setup_ssl_then [OF assms(1) this pr out1 process_handshake_ok(2,3) [OF ph nf(2)]]
    obtain code2 ch2 where s: "setup_ssl S p ch1 = Some (code2, ch2)" "channel_wf ch2"
      "handshake_outcome inp out params ch ch2"
      "\<And>ch'. \<not> failed code2 \<Longrightarrow> progress inp out ch2 ch' \<Longrightarrow> handshake_outcome inp out params ch ch'"
      by blast
    note eq = handshake_eq_tail [OF rd ph nf]
    have ab: "handshake_aborts S H params info ch chx \<longleftrightarrow> \<not> failed code2 \<and> tail_aborts S H p info1 ch2 chx" for chx
      using rd ph nf s(1) by (simp add: handshake_aborts_def)
    show thesis
    proof (cases "failed code2")
      case True
      then show thesis using greeting [of code2 info1 ch2] s(1,3) ab by (simp add: eq)
    next
      case False
      then show thesis
        using rest [OF rd nf(1) ph nf(2) s(1) False s(2) process_handshake_ok(1) [OF ph nf(2)]] s(1,4) ab by (simp add: eq)
    qed
  qed
qed

lemma handshake_total:
  assumes "byte_stream S inp out" and "channel_wf ch"
  obtains (returns) err info' ch' where "handshake S H params info ch = Some (err, info', ch')"
      "handshake_outcome inp out params ch ch'"
  | (aborts) chx where "handshake_aborts S H params info ch chx"
proof (rule handshake_cases [OF assms, of H params info])
  fix err info' ch'
  assume "handshake S H params info ch = Some (err, info', ch')" "handshake_outcome inp out params ch ch'"
  then show thesis by (rule returns)
next
  fix code ch1 err info1 p code2 ch2
  assume c: "handshake S H params info ch = handshake_tail S H p info1 ch2" "channel_wf ch2" "processor_ready p"
    "\<And>ch'. progress inp out ch2 ch' \<Longrightarrow> handshake_outcome inp out params ch ch'"
    "\<And>chx. handshake_aborts S H params info ch chx \<longleftrightarrow> tail_aborts S H p info1 ch2 chx"
  from handshake_finish [OF assms(1) c(2,3), of H info1] show thesis
    using returns aborts c by (metis handshake_outcome_caps)
qed

lemma handshake_returned:
  assumes "byte_stream S inp out" and "channel_wf ch" and "handshake S H params info ch = Some (err, info', ch')"
  shows "handshake_outcome inp out params ch ch'"
proof (rule handshake_cases [OF assms(1,2), of H params info])
  fix code ch1 e info1 p code2 ch2
  assume c: "handshake S H params info ch = handshake_tail S H p info1 ch2" "channel_wf ch2" "processor_ready p"
    "\<And>ch'. progress inp out ch2 ch' \<Longrightarrow> handshake_outcome inp out params ch ch'"
  from handshake_finish [OF assms(1) c(2,3), of H info1] show ?thesis
    using assms(3) c(1,4) tail_aborts_at(3) [OF _ assms(1) c(2,3)] by (auto simp: handshake_outcome_caps)
qed (use assms(3) in auto)

lemma handshake_aborts_at:
  assumes "byte_stream S inp out" and "channel_wf ch" and "handshake_aborts S H params info ch chx"
  shows "handshake S H params info ch = None" "handshake_outcome inp out params ch chx"
    "auth_switch_aborts (ch_shared_buff chx)"
proof -
  have "handshake S H params info ch = None \<and> handshake_outcome inp out params ch chx \<and> auth_switch_aborts (ch_shared_buff chx)"
  proof (rule handshake_cases [OF assms(1,2), of H params info])
    fix code ch1 e info1 p code2 ch2
    assume c: "handshake S H params info ch = handshake_tail S H p info1 ch2" "channel_wf ch2" "processor_ready p"
      "\<And>ch'. progress inp out ch2 ch' \<Longrightarrow> handshake_outcome inp out params ch ch'"
      "\<And>chx. handshake_aborts S H params info ch chx \<longleftrightarrow> tail_aborts S H p info1 ch2 chx"
    then have "tail_aborts S H p info1 ch2 chx" using assms(3) by simp
    from tail_aborts_at [OF this assms(1) c(2,3)] show ?thesis using c(1,4) by simp
  qed (use assms(3) in blast)
  then show "handshake S H params info ch = None" "handshake_outcome inp out params ch chx"
    "auth_switch_aborts (ch_shared_buff chx)" by simp_all
qed

section \<open>What the bytes sent reveal of the password\<close>

text \<open>
  Two processors that differ in the password only behave alike as long as TLS is not used and the
  passwords have the same digests.
\<close>

definition change_password :: "bytes \<Rightarrow> handshake_processor \<Rightarrow> handshake_processor" where
  "change_password pw p = p\<lparr>hp_params := (hp_params p)\<lparr>cp_password := pw\<rparr>\<rparr>"

lemma change_password_simps [simp]:
  "hp_negotiated_caps (change_password pw p) = hp_negotiated_caps p"
  "hp_auth_calc (change_password pw p) = hp_auth_calc p"
  "use_ssl (change_password pw p) = use_ssl p"
  "cp_collation (hp_params (change_password pw p)) = cp_collation (hp_params p)"
  "cp_username (hp_params (change_password pw p)) = cp_username (hp_params p)"
  "cp_database (hp_params (change_password pw p)) = cp_database (hp_params p)"
  "cp_password (hp_params (change_password pw p)) = pw"
  "cp_ssl (hp_params (change_password pw p)) = cp_ssl (hp_params p)"
  "(change_password pw p)\<lparr>hp_auth_calc := c\<rparr> = change_password pw (p\<lparr>hp_auth_calc := c\<rparr>)"
  "(change_password pw p)\<lparr>hp_negotiated_caps := n\<rparr> = change_password pw (p\<lparr>hp_negotiated_caps := n\<rparr>)"
  by (simp_all add: change_password_def use_ssl_def)

definition tls_free :: "crypto_lib \<Rightarrow> bytes \<Rightarrow> handshake_processor \<Rightarrow> bool" where
  "tls_free H pw p \<longleftrightarrow> \<not> use_ssl p \<and> same_digests H (cp_password (hp_params p)) pw"

lemma tls_free_calc [simp]: "tls_free H pw (p\<lparr>hp_auth_calc := c\<rparr>) = tls_free H pw p"
  by (simp add: tls_free_def use_ssl_def)

lemma processor_calculate_password:
  assumes "tls_free H pw p"
  shows "processor_calculate H name challenge (change_password pw p) =
    map_prod id (change_password pw) (processor_calculate H name challenge p)"
  using assms calculate_digests [of H "cp_password (hp_params p)" pw name challenge "hp_auth_calc p"]
  by (simp add: processor_calculate_def tls_free_def split: prod.split)

lemma send_auth_data_password:
  "send_auth_data buffer info (change_password pw p) =
     map_option (\<lambda>(e, b, r, i, p1). (e, b, r, i, change_password pw p1)) (send_auth_data buffer info p)"
  by (simp add: send_auth_data_def option.map_comp comp_def)

lemma server_response_password:
  assumes "tls_free H pw p"
  shows "process_handshake_server_response H buffer result info (change_password pw p) =
    map_option (\<lambda>(e, b, r, i, p1). (e, b, r, i, change_password pw p1))
      (process_handshake_server_response H buffer result info p)"
  using processor_calculate_password [OF assms]
  by (auto simp: process_handshake_server_response_def process_auth_switch_def process_auth_more_data_def
      send_auth_data_password split: sum.split prod.split option.split)

lemma server_response_tls_free:
  assumes "tls_free H pw p" and "processor_ready p"
    and "process_handshake_server_response H buffer result info p = Some (err, buffer', result', info', p')"
  shows "tls_free H pw p'"
  using assms(1) server_response_some(1) [OF assms(2,3)] by (simp add: tls_free_def same_negotiation_def use_ssl_def)

lemma auth_loop_password:
  assumes "byte_stream S inp out" and "processor_ready p" and "channel_wf ch" and "tls_free H pw p"
  shows "auth_loop S H outcome (change_password pw p) info ch =
    map_option (\<lambda>(e, i, p1, c). (e, i, change_password pw p1, c)) (auth_loop S H outcome p info ch)"
  using assms(2-4)
proof (induction "length (inp (ch_stream ch))" arbitrary: outcome p info ch rule: less_induct)
  case less
  show ?case
  proof (cases "outcome = Auth_complete")
    case True
    then show ?thesis by (simp add: auth_loop.simps)
  next
    case False
    obtain code ch1 where rd: "read_shared S ch = Some (code, ch1)" and pr: "progress inp out ch ch1"
      and less1: "\<not> failed code \<Longrightarrow> length (inp (ch_stream ch1)) < length (inp (ch_stream ch))"
      using read_shared_progress [OF assms(1) less.prems(2)] by blast
    show ?thesis
    proof (cases "process_handshake_server_response H (ch_shared_buff ch1) outcome info p")
      case None
      then show ?thesis
        using False by (simp add: auth_loop.simps [of S H outcome] rd server_response_password [OF less.prems(3)])
    next
      case (Some r)
      then obtain err buffer outcome1 info1 p1 where
        resp: "process_handshake_server_response H (ch_shared_buff ch1) outcome info p = Some (err, buffer, outcome1, info1, p1)"
        by (metis prod_cases5)
      note p1 = server_response_some(2) [OF less.prems(1) resp]
      have free1: "tls_free H pw p1" by (rule server_response_tls_free [OF less.prems(3,1) resp])
      let ?ch2 = "ch1\<lparr>ch_shared_buff := buffer\<rparr>"
      have wf2: "channel_wf ?ch2" using pr by (simp add: progress_def)
      obtain code2 ch3 where wr: "write_shared S ?ch2 = Some (code2, ch3)" and pr3: "progress inp out ?ch2 ch3"
        using write_shared_progress [OF assms(1) wf2] by blast
      have IH: "auth_loop S H o' (change_password pw p1) info1 c =
          map_option (\<lambda>(e, i, p1, c). (e, i, change_password pw p1, c)) (auth_loop S H o' p1 info1 c)"
        if "\<not> failed code" "\<not> failed err" "channel_wf c" "length (inp (ch_stream c)) \<le> length (inp (ch_stream ch1))" for o' c
        using less.hyps [of c p1] less1 p1 free1 that by simp
      have "channel_wf ch3" using pr3 by (simp add: progress_def)
      then show ?thesis
        using False IH [of ch3] IH [of ?ch2] wf2 progress_length [OF pr3]
        by (simp add: auth_loop.simps [of S H outcome] rd resp wr server_response_password [OF less.prems(3)])
    qed
  qed
qed

lemma auth_aborts_password:
  assumes "auth_aborts S H outcome p info ch chx" and "processor_ready p" and "tls_free H pw p"
  shows "auth_aborts S H outcome (change_password pw p) info ch chx"
  using assms
proof induction
  case (here outcome ch code chx info p)
  then show ?case by (intro auth_aborts.here) (simp_all add: server_response_password)
next
  case (after_answer outcome ch code ch1 info p err buffer info1 p1 code2 ch2 chx)
  have "auth_aborts S H Auth_send_more_data (change_password pw p1) info1 ch2 chx"
    by (intro after_answer.IH server_response_some(2) [OF after_answer.prems(1) after_answer.hyps(4,5)]
        server_response_tls_free [OF after_answer.prems(2,1) after_answer.hyps(4)])
  moreover have "process_handshake_server_response H (ch_shared_buff ch1) outcome info (change_password pw p)
      = Some (err, buffer, Auth_send_more_data, info1, change_password pw p1)"
    using after_answer.hyps(4) server_response_password [OF after_answer.prems(2)] by simp
  ultimately show ?case using after_answer.hyps by (blast intro: auth_aborts.after_answer)
next
  case (after_wait outcome ch code ch1 info p err buffer outcome1 info1 p1 chx)
  have "auth_aborts S H outcome1 (change_password pw p1) info1 (ch1\<lparr>ch_shared_buff := buffer\<rparr>) chx"
    by (intro after_wait.IH server_response_some(2) [OF after_wait.prems(1) after_wait.hyps(4,5)]
        server_response_tls_free [OF after_wait.prems(2,1) after_wait.hyps(4)])
  moreover have "process_handshake_server_response H (ch_shared_buff ch1) outcome info (change_password pw p)
      = Some (err, buffer, outcome1, info1, change_password pw p1)"
    using after_wait.hyps(4) server_response_password [OF after_wait.prems(2)] by simp
  ultimately show ?case using after_wait.hyps by (blast intro: auth_aborts.after_wait)
qed

lemma auth_aborts_change_password:
  assumes "processor_ready p" and "tls_free H pw p"
  shows "auth_aborts S H outcome (change_password pw p) info ch chx = auth_aborts S H outcome p info ch chx"
proof
  assume "auth_aborts S H outcome (change_password pw p) info ch chx"
  moreover have "processor_ready (change_password pw p)" using assms(1) by (simp add: processor_ready_def)
  moreover have "tls_free H (cp_password (hp_params p)) (change_password pw p)"
    using assms(2) by (simp add: tls_free_def same_digests_def)
  ultimately have "auth_aborts S H outcome (change_password (cp_password (hp_params p)) (change_password pw p)) info ch chx"
    by (rule auth_aborts_password)
  moreover have "change_password (cp_password (hp_params p)) (change_password pw p) = p"
    by (simp add: change_password_def)
  ultimately show "auth_aborts S H outcome p info ch chx" by simp
qed (rule auth_aborts_password [OF _ assms])

lemma process_capabilities_password:
  "process_capabilities hs (change_password pw p) =
     map_prod id (change_password pw) (process_capabilities hs p)"
  by (simp add: process_capabilities_def required_capabilities_def Let_def)

text \<open>
  Whether TLS is negotiated: the greeting is read and understood, its capabilities are accepted, and
  TLS is among them. With \<open>ssl_mode::disable\<close> it never is; with \<open>ssl_mode::enable\<close> it is when the server
  has it.
\<close>

definition greeting_uses_tls :: "connection_params \<Rightarrow> bytes \<Rightarrow> error_info \<Rightarrow> bool" where
  "greeting_uses_tls params buffer info =
     (case deserialize_handshake buffer default_handshake_packet info of (err, hs, _) \<Rightarrow>
        \<not> failed err \<and> (case process_capabilities hs (make_processor params) of (err2, p) \<Rightarrow> \<not> failed err2 \<and> use_ssl p))"

definition tls_negotiated :: "'s stream_ops \<Rightarrow> connection_params \<Rightarrow> error_info \<Rightarrow> 's channel \<Rightarrow> bool" where
  "tls_negotiated S params info ch =
     (case read_shared S ch of
        None \<Rightarrow> False
      | Some (code, ch1) \<Rightarrow> \<not> failed code \<and> greeting_uses_tls params (ch_shared_buff ch1) info)"

lemma tls_disabled: "cp_ssl params = Ssl_disable \<Longrightarrow> \<not> tls_negotiated S params info ch"
  by (auto simp: tls_negotiated_def greeting_uses_tls_def make_processor_def dest: process_capabilities_ok(3)
      split: option.splits prod.splits)

lemma process_handshake_no_tls:
  assumes "process_handshake H buffer info (make_processor params) = (err, info1, p)" and "\<not> failed err"
    and "\<not> greeting_uses_tls params buffer info"
  shows "\<not> use_ssl p"
  using assms
  by (auto simp: process_handshake_def greeting_uses_tls_def same_negotiation_def use_ssl_def
      dest!: processor_calculate_ok(1) split: prod.splits if_splits)

lemma process_handshake_password:
  assumes "\<not> greeting_uses_tls params buffer info" and "same_digests H (cp_password params) pw"
  shows "process_handshake H buffer info (change_password pw (make_processor params)) =
    (case process_handshake H buffer info (make_processor params) of (e, i, p) \<Rightarrow> (e, i, change_password pw p))"
proof -
  obtain err hs info1 where dh: "deserialize_handshake buffer default_handshake_packet info = (err, hs, info1)"
    by (metis prod_cases3)
  have "tls_free H pw p1"
    if pc: "process_capabilities hs (make_processor params) = (e, p1)" "\<not> failed e" and ok: "\<not> failed err" for e p1
  proof -
    have "\<not> use_ssl p1" using assms(1) dh that by (simp add: greeting_uses_tls_def)
    moreover have "hp_params p1 = params"
      by (subst process_capabilities_ok(5) [OF pc]) (simp add: make_processor_def)
    ultimately show ?thesis using assms(2) by (simp add: tls_free_def)
  qed
  then show ?thesis
    by (simp add: process_handshake_def dh process_capabilities_password processor_calculate_password split: prod.split)
qed

lemma compose_password:
  "compose_ssl_request buffer (change_password pw p) = compose_ssl_request buffer p"
  "compose_handshake_response buffer (change_password pw p) = compose_handshake_response buffer p"
  by (simp_all add: compose_ssl_request_def compose_handshake_response_def split: option.split)

lemma send_response_password:
  "send_handshake_response S (change_password pw p) ch = send_handshake_response S p ch"
  by (simp add: send_handshake_response_def compose_password)

lemma handshake_password:
  assumes "byte_stream S inp out" and "channel_wf ch"
    and "\<not> tls_negotiated S params info ch" and "same_digests H (cp_password params) pw"
  shows "handshake S H (params\<lparr>cp_password := pw\<rparr>) info ch = handshake S H params info ch \<and>
    handshake_aborts S H (params\<lparr>cp_password := pw\<rparr>) info ch chx = handshake_aborts S H params info ch chx"
proof -
  have mk: "make_processor (params\<lparr>cp_password := pw\<rparr>) = change_password pw (make_processor params)"
    by (simp add: make_processor_def change_password_def)
  obtain code ch1 where rd: "read_shared S ch = Some (code, ch1)" and pr: "progress inp out ch ch1"
    using read_shared_progress [OF assms(1,2)] by blast
  obtain err info1 p where ph: "process_handshake H (ch_shared_buff ch1) info (make_processor params) = (err, info1, p)"
    by (metis prod_cases3)
  show ?thesis
  proof (cases "failed code")
    case True
    then show ?thesis by (simp add: handshake_def handshake_aborts_def rd)
  next
    case read_ok: False
    have tls: "\<not> greeting_uses_tls params (ch_shared_buff ch1) info"
      using assms(3) rd read_ok by (simp add: tls_negotiated_def)
    note ph' = process_handshake_password [OF tls assms(4)]
    show ?thesis
    proof (cases "failed err")
      case True
      then show ?thesis by (simp add: handshake_def handshake_aborts_def rd mk ph' ph)
    next
      case False
      note ok = process_handshake_ok [OF ph False] and no_tls = process_handshake_no_tls [OF ph False tls]
      have free: "tls_free H pw p" using ok(2) no_tls assms(4) by (simp add: tls_free_def)
      have ssl: "setup_ssl S q ch1 = Some (no_error, ch1)" if "use_ssl q = use_ssl p" for q
        using that no_tls by (simp add: setup_ssl_def)
      have wf1: "channel_wf ch1" using pr by (simp add: progress_def)
      obtain code3 ch3 where sr: "send_handshake_response S p ch1 = Some (code3, ch3)" "progress inp out ch1 ch3"
        using send_handshake_response_progress [OF assms(1) wf1 ok(1)] by blast
      have wf3: "channel_wf ch3" using sr(2) by (simp add: progress_def)
      have "handshake S H (params\<lparr>cp_password := pw\<rparr>) info ch = handshake S H params info ch"
        using auth_loop_password [OF assms(1) ok(1) wf3 free, of Auth_invalid info1]
        by (cases "auth_loop S H Auth_invalid p info1 ch3")
          (simp_all add: handshake_def rd mk ph' ph False ssl sr(1) send_response_password split: prod.split)
      moreover have "handshake_aborts S H (params\<lparr>cp_password := pw\<rparr>) info ch chx = handshake_aborts S H params info ch chx"
        by (simp add: handshake_aborts_def tail_aborts_def rd mk ph' ph ssl sr(1) send_response_password
            auth_aborts_change_password [OF ok(1) free])
      ultimately show ?thesis by blast
    qed
  qed
qed

section \<open>A successful handshake\<close>

definition negotiated :: "connection_params \<Rightarrow> u32 \<Rightarrow> capabilities" where
  "negotiated params server =
     caps_and (caps_of server) (caps_or (caps_or (required_capabilities params) optional_capabilities)
       (conditional_capability (cp_ssl params = Ssl_enable) CLIENT_SSL))"

definition tls_wanted :: "connection_params \<Rightarrow> u32 \<Rightarrow> bool" where
  "tls_wanted params server \<longleftrightarrow>
     cp_ssl params = Ssl_require \<or> cp_ssl params = Ssl_enable \<and> caps_has (caps_of server) CLIENT_SSL"

lemma process_capabilities_negotiated:
  assumes "caps_has_all (caps_of (hs_capability_falgs hs)) (required_capabilities (hp_params p))"
  shows "process_capabilities hs p = (no_error, p\<lparr>hp_negotiated_caps := negotiated (hp_params p) (hs_capability_falgs hs)\<rparr>)"
    and "caps_has (negotiated (hp_params p) (hs_capability_falgs hs)) CLIENT_SSL = tls_wanted (hp_params p) (hs_capability_falgs hs)"
proof -
  show pc: "process_capabilities hs p = (no_error, p\<lparr>hp_negotiated_caps := negotiated (hp_params p) (hs_capability_falgs hs)\<rparr>)"
    using assms by (simp add: process_capabilities_def negotiated_def)
  show "caps_has (negotiated (hp_params p) (hs_capability_falgs hs)) CLIENT_SSL = tls_wanted (hp_params p) (hs_capability_falgs hs)"
    using process_capabilities_ok(3) [OF pc] by (simp add: use_ssl_def tls_wanted_def)
qed

text \<open>The greeting as the server sends it, with its version byte.\<close>

lemma deserialize_handshake_greeting:
  assumes "no_nul version" and "no_nul plugin" and "20 \<le> length a" and "length a \<le> 254"
    and "caps_has (caps_of scaps) CLIENT_PLUGIN_AUTH"
  shows "\<exists>hs. deserialize_handshake (10 # enc_handshake_packet version conn_id a scaps charset status plugin) out info
      = (no_error, hs, info) \<and> static_string_value (hs_auth_plugin_data hs) = a \<and>
    hs_capability_falgs hs = scaps \<and> hs_auth_plugin_name hs = plugin"
proof -
  let ?m = "enc_handshake_packet version conn_id a scaps charset status plugin"
  let ?ctx = "ctx_advance 1 (make_ctx (10 # ?m) (caps_of 0))"
  have wf: "ctx_wf ?ctx" by (simp add: ctx_wf_def)
  have rem: "remaining ?ctx = ?m @ []" by simp
  obtain n data where d: "deserialize_handshake_packet ?ctx =
      Inr (\<lparr>hs_server_version = version, hs_connection_id = conn_id, hs_auth_plugin_data = data,
            hs_capability_falgs = scaps, hs_character_set = charset, hs_status_flags = status,
            hs_auth_plugin_name = plugin\<rparr>, ctx_advance n ?ctx)" "drop n (remaining ?ctx) = []"
      "static_string_value data = a"
    using deserialize_handshake_packet_enc [OF assms rem] by blast
  have "ctx_wf (ctx_advance n ?ctx)"
    using ctx_step_wf [OF handshake_packet.deser_step [OF d(1)] wf] .
  then have "ctx_empty (ctx_advance n ?ctx)" using d(2) by (subst ctx_empty_remaining) simp_all
  then have "deserialize_message deserialize_handshake_packet ?ctx = Inr
      \<lparr>hs_server_version = version, hs_connection_id = conn_id, hs_auth_plugin_data = data,
            hs_capability_falgs = scaps, hs_character_set = charset, hs_status_flags = status,
            hs_auth_plugin_name = plugin\<rparr>"
    unfolding deserialize_message_def d(1) by simp
  moreover have "deserialize_message_type (make_ctx (10 # ?m) (caps_of 0)) = Inr (10, ?ctx)"
    by (rule deserialize_message_type_Cons) simp
  ultimately show ?thesis
    using d(3) by (simp add: deserialize_handshake_def handshake_protocol_version_9_def
        handshake_protocol_version_10_def error_packet_header_def)
qed

lemma required_plugin_auth:
  "caps_has_all c (required_capabilities params) \<Longrightarrow> caps_has c CLIENT_PLUGIN_AUTH"
proof -
  assume a: "caps_has_all c (required_capabilities params)"
  have "bit (cap_value (required_capabilities params)) 19"
    by (simp add: required_capabilities_def caps_or_def caps_of_def conditional_capability_def
      mandatory_capabilities_def client_flag_defs bit_simps)
  then have b: "bit (cap_value c) 19" using a by (metis bit_and_iff caps_has_all_def)
  have e: "CLIENT_PLUGIN_AUTH = 2 ^ 19" by (simp add: CLIENT_PLUGIN_AUTH_def)
  show ?thesis unfolding caps_has_def e and_exp_eq_0_iff_not_bit using b by simp
qed

lemma process_handshake_greeting:
  assumes "no_nul version" and "no_nul plugin" and "20 \<le> length a" and "length a \<le> 254"
    and "caps_has_all (caps_of scaps) (required_capabilities params)"
    and "calculate H plugin (cp_password params) a (tls_wanted params scaps) new_calculator = (code, calc)"
  shows "process_handshake H (10 # enc_handshake_packet version conn_id a scaps charset status plugin) info (make_processor params)
    = (code, info, \<lparr>hp_params = params, hp_negotiated_caps = negotiated params scaps, hp_auth_calc = calc\<rparr>)"
proof -
  obtain hs where hs: "deserialize_handshake (10 # enc_handshake_packet version conn_id a scaps charset status plugin)
        default_handshake_packet info = (no_error, hs, info)" "static_string_value (hs_auth_plugin_data hs) = a"
      "hs_capability_falgs hs = scaps" "hs_auth_plugin_name hs = plugin"
    using deserialize_handshake_greeting [OF assms(1-4) required_plugin_auth [OF assms(5)]] by blast
  have "caps_has_all (caps_of (hs_capability_falgs hs)) (required_capabilities (hp_params (make_processor params)))"
    using assms(5) hs(3) by (simp add: make_processor_def)
  from process_capabilities_negotiated [OF this] show ?thesis
    using assms(6) by (simp add: process_handshake_def hs processor_calculate_def make_processor_def use_ssl_def)
qed

text \<open>The last message of the loop: an OK packet, whatever is in it.\<close>

lemma auth_loop_ok:
  assumes "reliable_stream S inp out" and "channel_wf ch" and "outcome \<noteq> Auth_complete"
    and "inp (ch_stream ch) = frames (ch_sequence_number ch) (0 # ok) @ rest"
  shows "\<exists>ch'. auth_loop S H outcome p info ch = Some (no_error, info, p, ch') \<and> inp (ch_stream ch') = rest \<and>
    out (ch_stream ch') = out (ch_stream ch) \<and> ch_ssl ch' = ch_ssl ch \<and> channel_wf ch'"
proof -
  obtain code ch1 where r: "read_shared S ch = Some (code, ch1)" "\<not> failed code" "ch_shared_buff ch1 = 0 # ok"
      "inp (ch_stream ch1) = rest" "out (ch_stream ch1) = out (ch_stream ch)" "ch_ssl ch1 = ch_ssl ch" "channel_wf ch1"
    using read_shared_ok [OF assms(1,2,4)] by blast
  have "process_handshake_server_response H (0 # ok) outcome info p = Some (no_error, 0 # ok, Auth_complete, info, p)"
    by (simp add: process_handshake_server_response_def deserialize_message_type_Cons [of _ 0 ok] ok_packet_header_def)
  then show ?thesis
    using r assms(3) by (simp add: auth_loop.simps [of S H outcome] auth_loop.simps [of S H Auth_complete])
qed

text \<open>The messages the client sends after a greeting: the TLS request, if any, and its response.\<close>

definition client_messages ::
    "connection_params \<Rightarrow> u32 \<Rightarrow> bytes \<Rightarrow> bytes \<Rightarrow> bool \<Rightarrow> (bool \<times> bytes) list" where
  "client_messages params server response name ssl =
     (let caps = negotiated params server;
          req = enc_ssl_request caps (ssl_request_of params caps);
          resp = enc_handshake_response caps (handshake_response_of params caps response name)
      in if tls_wanted params server
         then [(ssl, frame_header 32 1 @ req), (True, frame_header (length resp) 2 @ resp)]
         else [(ssl, frame_header (length resp) 1 @ resp)])"

lemma setup_ssl_ok:
  assumes "reliable_stream S inp out" and "channel_wf ch"
    and "p = \<lparr>hp_params = params, hp_negotiated_caps = negotiated params server, hp_auth_calc = calc\<rparr>"
    and "use_ssl p = tls_wanted params server" and "ch_sequence_number ch = 1"
  shows "\<exists>code ch'. setup_ssl S p ch = Some (code, ch') \<and> \<not> failed code \<and> channel_wf ch' \<and>
    inp (ch_stream ch') = inp (ch_stream ch) \<and> ch_ssl ch' = (ch_ssl ch \<or> tls_wanted params server) \<and>
    ch_sequence_number ch' = (if tls_wanted params server then 2 else 1) \<and>
    out (ch_stream ch') = out (ch_stream ch) @ (if tls_wanted params server
      then [(ch_ssl ch, frame_header 32 1 @ enc_ssl_request (negotiated params server) (ssl_request_of params (negotiated params server)))]
      else [])"
proof (cases "tls_wanted params server")
  case False
  then show ?thesis using assms by (simp add: setup_ssl_def)
next
  case True
  let ?req = "enc_ssl_request (negotiated params server) (ssl_request_of params (negotiated params server))"
  let ?ch1 = "ch\<lparr>ch_shared_buff := ?req\<rparr>"
  have "channel_wf ?ch1" "length ?req < MAX_PACKET_SIZE"
    using assms(2) by (simp_all add: length_enc_ssl_request MAX_PACKET_SIZE_def)
  then obtain code ch2 where w: "channel_write S ?req ?ch1 = Some (code, ch2)" "\<not> failed code" "channel_wf ch2"
      "inp (ch_stream ch2) = inp (ch_stream ch)" "ch_sequence_number ch2 = ch_sequence_number ch + 1"
      "out (ch_stream ch2) = out (ch_stream ch) @ [(ch_ssl ch, frame_header 32 (ch_sequence_number ch) @ ?req)]"
    using channel_write_short [OF assms(1), of ?ch1 ?req] by (auto simp: length_enc_ssl_request)
  obtain code2 s where hs: "so_ssl_handshake S (ch_stream ch2) = (code2, s)" by fastforce
  then have "\<not> failed code2" using assms(1) by (metis fst_conv reliable_stream_def)
  then show ?thesis
    using w hs byte_stream_frame(1) [OF reliable_byte_stream [OF assms(1)] hs] True assms(3-5)
    by (auto simp: setup_ssl_def compose_ssl_request_eq write_shared_def channel_ssl_handshake_def channel_wf_def)
qed

lemma handshake_tail_ok:
  assumes "reliable_stream S inp out" and "channel_wf ch" and "hp_negotiated_caps p = caps"
    and "plugin_name (hp_auth_calc p) = Some plugin"
    and "resp = enc_handshake_response caps (handshake_response_of (hp_params p) caps (ac_response (hp_auth_calc p)) plugin)"
    and "length resp < MAX_PACKET_SIZE"
    and "inp (ch_stream ch) = frames (ch_sequence_number ch + 1) (0 # ok) @ rest"
  shows "\<exists>ch'. handshake_tail S H p info ch = Some (no_error, info, ch') \<and> inp (ch_stream ch') = rest \<and>
    out (ch_stream ch') = out (ch_stream ch) @ [(ch_ssl ch, frame_header (length resp) (ch_sequence_number ch) @ resp)] \<and>
    ch_ssl ch' = ch_ssl ch \<and> ch_current_caps ch' = caps"
proof -
  have comp: "compose_handshake_response (ch_shared_buff ch) p = Some resp"
    using assms(3-5) by (simp add: compose_handshake_response_eq)
  have wf: "channel_wf (ch\<lparr>ch_shared_buff := resp\<rparr>)" using assms(2) by simp
  obtain c3 ch3 where wr: "channel_write S resp (ch\<lparr>ch_shared_buff := resp\<rparr>) = Some (c3, ch3)" "\<not> failed c3"
      "inp (ch_stream ch3) = inp (ch_stream ch)" "channel_wf ch3" "ch_ssl ch3 = ch_ssl ch"
      "out (ch_stream ch3) = out (ch_stream ch) @ [(ch_ssl ch, frame_header (length resp) (ch_sequence_number ch) @ resp)]"
      "ch_sequence_number ch3 = ch_sequence_number ch + 1"
    using channel_write_short [OF assms(1) wf assms(6)] by auto
  have "inp (ch_stream ch3) = frames (ch_sequence_number ch3) (0 # ok) @ rest" using wr(3,7) assms(7) by simp
  then obtain ch4 where al: "auth_loop S H Auth_invalid p info ch3 = Some (no_error, info, p, ch4)"
      "inp (ch_stream ch4) = rest" "out (ch_stream ch4) = out (ch_stream ch3)" "ch_ssl ch4 = ch_ssl ch3"
    using auth_loop_ok [OF assms(1) wr(4)] by blast
  have "handshake_tail S H p info ch = Some (no_error, info, set_current_capabilities caps ch4)"
    using wr(1,2) al(1) assms(3) by (simp add: handshake_tail_def send_handshake_response_def comp write_shared_def)
  then show ?thesis using al(2-4) wr(5,6) by (simp add: set_current_capabilities_def)
qed

lemma handshake_ok:
  assumes "reliable_stream S inp out" and "channel_wf ch" and "ch_sequence_number ch = 0"
    and "no_nul version" and "no_nul plugin" and "20 \<le> length a" and "length a \<le> 254"
    and "caps_has_all (caps_of scaps) (required_capabilities params)"
    and "calculate H plugin (cp_password params) a (tls_wanted params scaps) new_calculator = (code, calc)"
    and "\<not> failed code"
    and "greeting = 10 # enc_handshake_packet version conn_id a scaps charset status plugin"
    and "length greeting < MAX_PACKET_SIZE"
    and "length (enc_handshake_response (negotiated params scaps)
           (handshake_response_of params (negotiated params scaps) (ac_response calc) plugin)) < MAX_PACKET_SIZE"
    and "inp (ch_stream ch) = frames 0 greeting @ frames (if tls_wanted params scaps then 3 else 2) (0 # ok) @ rest"
  shows "\<exists>ch'. handshake S H params info ch = Some (no_error, info, ch') \<and> inp (ch_stream ch') = rest \<and>
    out (ch_stream ch') = out (ch_stream ch) @ client_messages params scaps (ac_response calc) plugin (ch_ssl ch) \<and>
    ch_ssl ch' = (ch_ssl ch \<or> tls_wanted params scaps) \<and> ch_current_caps ch' = negotiated params scaps"
proof -
  obtain c1 ch1 where rd: "read_shared S ch = Some (c1, ch1)" "\<not> failed c1" "ch_shared_buff ch1 = greeting"
      "inp (ch_stream ch1) = frames (if tls_wanted params scaps then 3 else 2) (0 # ok) @ rest"
      "out (ch_stream ch1) = out (ch_stream ch)" "ch_ssl ch1 = ch_ssl ch" "channel_wf ch1" "ch_sequence_number ch1 = 1"
    using read_shared_ok [OF assms(1,2), of greeting] assms(3,12,14) by (auto simp: frames_seq_last)
  define p where p: "p = \<lparr>hp_params = params, hp_negotiated_caps = negotiated params scaps, hp_auth_calc = calc\<rparr>"
  have ph: "process_handshake H (ch_shared_buff ch1) info (make_processor params) = (code, info, p)"
    unfolding assms(11) p rd(3) by (rule process_handshake_greeting [OF assms(4-9)])
  have ssl: "use_ssl p = tls_wanted params scaps"
    using process_capabilities_negotiated(2) [of "default_handshake_packet\<lparr>hs_capability_falgs := scaps\<rparr>" p] assms(8)
    by (simp add: use_ssl_def p)
  obtain c2 ch2 where st: "setup_ssl S p ch1 = Some (c2, ch2)" "\<not> failed c2" "channel_wf ch2"
      "inp (ch_stream ch2) = inp (ch_stream ch1)" "ch_ssl ch2 = (ch_ssl ch \<or> tls_wanted params scaps)"
      "ch_sequence_number ch2 = (if tls_wanted params scaps then 2 else 1)"
      "out (ch_stream ch2) = out (ch_stream ch1) @ (if tls_wanted params scaps
        then [(ch_ssl ch, frame_header 32 1 @ enc_ssl_request (negotiated params scaps) (ssl_request_of params (negotiated params scaps)))]
        else [])"
    using setup_ssl_ok [OF assms(1) rd(7) p ssl rd(8)] rd(6) by auto
  have n: "hp_negotiated_caps p = negotiated params scaps" and f: "hp_params p = params" "hp_auth_calc p = calc"
    by (simp_all add: p)
  let ?resp = "enc_handshake_response (negotiated params scaps)
    (handshake_response_of params (negotiated params scaps) (ac_response calc) plugin)"
  have "plugin_name calc = Some plugin" using calculate_plugin [OF assms(9,10)] by blast
  moreover have "inp (ch_stream ch2) = frames (ch_sequence_number ch2 + 1) (0 # ok) @ rest"
    using st(4,6) rd(4) by simp
  ultimately obtain ch3 where tail: "handshake_tail S H p info ch2 = Some (no_error, info, ch3)" "inp (ch_stream ch3) = rest"
      "out (ch_stream ch3) = out (ch_stream ch2) @ [(ch_ssl ch2, frame_header (length ?resp) (ch_sequence_number ch2) @ ?resp)]"
      "ch_ssl ch3 = ch_ssl ch2" "ch_current_caps ch3 = negotiated params scaps"
    using handshake_tail_ok [OF assms(1) st(3) n, unfolded f, OF _ refl assms(13)] by blast
  have "out (ch_stream ch3) = out (ch_stream ch) @ client_messages params scaps (ac_response calc) plugin (ch_ssl ch)"
    using rd(5) st(5-7) tail(3) by (simp add: client_messages_def Let_def)
  then show ?thesis
    unfolding handshake_eq_tail [OF rd(1) ph rd(2) assms(10)] using st(1,2,5) tail by simp
qed

text \<open>The same server, with a bad switch request for an answer: the assertion fails.\<close>

lemma handshake_bad_switch:
  assumes "reliable_stream S inp out" and "channel_wf ch" and "ch_sequence_number ch = 0"
    and "no_nul version" and "no_nul plugin" and "20 \<le> length a" and "length a \<le> 254"
    and "caps_has_all (caps_of scaps) (required_capabilities params)"
    and "calculate H plugin (cp_password params) a (tls_wanted params scaps) new_calculator = (code, calc)"
    and "\<not> failed code"
    and "greeting = 10 # enc_handshake_packet version conn_id a scaps charset status plugin"
    and "length greeting < MAX_PACKET_SIZE"
    and "length (enc_handshake_response (negotiated params scaps)
           (handshake_response_of params (negotiated params scaps) (ac_response calc) plugin)) < MAX_PACKET_SIZE"
    and "inp (ch_stream ch) = frames 0 greeting @ frames (if tls_wanted params scaps then 3 else 2) m @ rest"
    and "auth_switch_aborts m"
  shows "handshake S H params info ch = None \<and> (\<exists>chx. handshake_aborts S H params info ch chx)"
proof -
  obtain c1 ch1 where rd: "read_shared S ch = Some (c1, ch1)" "\<not> failed c1" "ch_shared_buff ch1 = greeting"
      "inp (ch_stream ch1) = frames (if tls_wanted params scaps then 3 else 2) m @ rest" "channel_wf ch1"
      "ch_sequence_number ch1 = 1"
    using read_shared_ok [OF assms(1,2), of greeting] assms(3,12,14) by (auto simp: frames_seq_last)
  define p where p: "p = \<lparr>hp_params = params, hp_negotiated_caps = negotiated params scaps, hp_auth_calc = calc\<rparr>"
  have ph: "process_handshake H (ch_shared_buff ch1) info (make_processor params) = (code, info, p)"
    unfolding assms(11) p rd(3) by (rule process_handshake_greeting [OF assms(4-9)])
  have ssl: "use_ssl p = tls_wanted params scaps"
    using process_capabilities_negotiated(2) [of "default_handshake_packet\<lparr>hs_capability_falgs := scaps\<rparr>" p] assms(8)
    by (simp add: use_ssl_def p)
  obtain c2 ch2 where st: "setup_ssl S p ch1 = Some (c2, ch2)" "\<not> failed c2" "channel_wf ch2"
      "inp (ch_stream ch2) = inp (ch_stream ch1)" "ch_sequence_number ch2 = (if tls_wanted params scaps then 2 else 1)"
    using setup_ssl_ok [OF assms(1) rd(5) p ssl rd(6)] by auto
  let ?resp = "enc_handshake_response (negotiated params scaps)
    (handshake_response_of params (negotiated params scaps) (ac_response calc) plugin)"
  have "plugin_name (hp_auth_calc p) = Some plugin" using calculate_plugin [OF assms(9,10)] by (simp add: p)
  then have ready: "processor_ready p" and comp: "compose_handshake_response (ch_shared_buff ch2) p = Some ?resp"
    by (auto simp: processor_ready_def plugin_name_def compose_handshake_response_eq p)
  have wf2: "channel_wf (ch2\<lparr>ch_shared_buff := ?resp\<rparr>)" using st(3) by simp
  obtain c3 ch3 where wr: "channel_write S ?resp (ch2\<lparr>ch_shared_buff := ?resp\<rparr>) = Some (c3, ch3)" "\<not> failed c3"
      "inp (ch_stream ch3) = inp (ch_stream ch2)" "channel_wf ch3" "ch_sequence_number ch3 = ch_sequence_number ch2 + 1"
    using channel_write_short [OF assms(1) wf2 assms(13)] by auto
  have "inp (ch_stream ch3) = frames (ch_sequence_number ch3) m @ rest" using wr(3,5) st(4,5) rd(4) by simp
  then obtain c4 chx where "read_shared S ch3 = Some (c4, chx)" "\<not> failed c4" "ch_shared_buff chx = m"
    using read_shared_ok [OF assms(1) wr(4)] by blast
  then have "auth_aborts S H Auth_invalid p info ch3 chx"
    using server_response_aborts [OF ready] assms(15) by (intro auth_aborts.here) simp_all
  then have "tail_aborts S H p info ch2 chx"
    using wr(1,2) by (auto simp: tail_aborts_def send_handshake_response_def comp write_shared_def)
  then have "handshake_aborts S H params info ch chx"
    using rd(1,2) ph assms(10) st(1,2) unfolding handshake_aborts_def by blast
  then show ?thesis using handshake_aborts_at(1) [OF reliable_byte_stream [OF assms(1)] assms(2)] by blast
qed

section \<open>The authentication conversation, abstractly\<close>

text \<open>
  The messages a server may send in the loop, and what the client makes of each: it is done, fails
  with the server's error, answers a challenge for a plugin, or waits.
\<close>

datatype auth_message =
  Msg_ok bytes | Msg_error err_packet | Msg_switch bytes bytes | Msg_more_data bytes | Msg_other u8 bytes

fun auth_message_wf :: "auth_message \<Rightarrow> bool" where
  "auth_message_wf (Msg_error e) = err_packet_wf e"
| "auth_message_wf (Msg_switch name challenge) = no_nul name"
| "auth_message_wf (Msg_other b rest) = (b \<notin> {0, 1, 0xfe, 0xff})"
| "auth_message_wf _ = True"

fun enc_auth_message :: "capabilities \<Rightarrow> auth_message \<Rightarrow> bytes" where
  "enc_auth_message caps (Msg_ok ok) = 0 # ok"
| "enc_auth_message caps (Msg_error e) = 0xff # enc_err_packet caps e"
| "enc_auth_message caps (Msg_switch name challenge) = 0xfe # name @ [0] @ challenge @ [0]"
| "enc_auth_message caps (Msg_more_data challenge) = 1 # challenge"
| "enc_auth_message caps (Msg_other b rest) = b # rest"

definition auth_answer ::
    "crypto_lib \<Rightarrow> bytes \<Rightarrow> bytes \<Rightarrow> bytes \<Rightarrow> auth_result \<Rightarrow> error_info \<Rightarrow> handshake_processor \<Rightarrow>
     error_code \<times> bytes \<times> auth_result \<times> error_info \<times> handshake_processor" where
  "auth_answer H name challenge buffer result info p =
     (case processor_calculate H name challenge p of (err, p1) \<Rightarrow>
        if failed err then (err, buffer, result, info, p1)
        else (no_error, ac_response (hp_auth_calc p1), Auth_send_more_data, info, p1))"

fun auth_spec ::
    "crypto_lib \<Rightarrow> bytes \<Rightarrow> auth_result \<Rightarrow> error_info \<Rightarrow> handshake_processor \<Rightarrow> bytes \<Rightarrow> auth_message \<Rightarrow>
     error_code \<times> bytes \<times> auth_result \<times> error_info \<times> handshake_processor" where
  "auth_spec H current result info p buffer (Msg_ok ok) = (no_error, buffer, Auth_complete, info, p)"
| "auth_spec H current result info p buffer (Msg_error e) =
     (make_error_code (Errc (uint (err_error_code e))), buffer, result, \<lparr>ei_msg = err_error_message e\<rparr>, p)"
| "auth_spec H current result info p buffer (Msg_switch name challenge) =
     auth_answer H name challenge buffer result info p"
| "auth_spec H current result info p buffer (Msg_more_data challenge) =
     (if challenge = fast_auth_complete_challenge then (no_error, buffer, Auth_wait_for_ok, info, p)
      else auth_answer H current challenge buffer result info p)"
| "auth_spec H current result info p buffer (Msg_other b rest) =
     (make_error_code protocol_value_error, buffer, result, info, p)"

lemma send_auth_data_eq:
  "send_auth_data buffer info p = Some (no_error, ac_response (hp_auth_calc p), Auth_send_more_data, info, p)"
  by (simp add: send_auth_data_def auth_switch_response.serialize_message_exact enc_string_eof_def)

lemma server_response_spec:
  assumes "auth_message_wf m" and "plugin_name (hp_auth_calc p) = Some current"
    and "buffer = enc_auth_message (hp_negotiated_caps p) m"
  shows "process_handshake_server_response H buffer result info p = Some (auth_spec H current result info p buffer m)"
proof -
  note hdr = ok_packet_header_def error_packet_header_def auth_switch_request_header_def auth_more_data_header_def
  note type = deserialize_message_type_Cons [of "make_ctx buffer (hp_negotiated_caps p)"]
  let ?ctx = "ctx_advance 1 (make_ctx buffer (hp_negotiated_caps p))"
  have wf: "ctx_wf ?ctx" using assms(3) by (cases m) (simp_all add: ctx_wf_def)
  show ?thesis
  proof (cases m)
    case (Msg_ok ok)
    then show ?thesis using type assms(3) by (simp add: process_handshake_server_response_def hdr)
  next
    case (Msg_error e)
    then have "process_error_packet ?ctx info = (make_error_code (Errc (uint (err_error_code e))), \<lparr>ei_msg = err_error_message e\<rparr>)"
      using process_error_packet_enc [of e ?ctx info] wf assms(1,3) by simp
    then show ?thesis using Msg_error type assms(3) by (simp add: process_handshake_server_response_def hdr)
  next
    case (Msg_switch name challenge)
    then have "deserialize_asserted_message deserialize_auth_switch_request ?ctx
        = Some (Inr \<lparr>as_plugin_name = name, as_auth_plugin_data = challenge\<rparr>)"
      using deserialize_auth_switch_request_enc [of name ?ctx challenge] wf assms(1,3) by simp
    then show ?thesis
      using Msg_switch type assms(3)
      by (auto simp: process_handshake_server_response_def hdr process_auth_switch_def send_auth_data_eq auth_answer_def
          split: prod.split)
  next
    case (Msg_more_data challenge)
    then have "deserialize_message deserialize_auth_more_data ?ctx = Inr challenge"
      using wf assms(3)
      by (simp add: deserialize_message_def deserialize_auth_more_data_def deserialize_string_eof_def ctx_simps ctx_wf_advance)
    then show ?thesis
      using Msg_more_data type assms(2,3)
      by (auto simp: process_handshake_server_response_def hdr process_auth_more_data_def send_auth_data_eq auth_answer_def
          split: prod.split)
  next
    case (Msg_other b rest)
    then show ?thesis using type assms(1,3) by (simp add: process_handshake_server_response_def hdr)
  qed
qed

section \<open>Properties\<close>

text \<open>
  C24: negotiation of capabilities: the server is refused exactly when it lacks one that is required:
  the five mandatory ones, the database flag when a database is given, and TLS when it is required. And
  otherwise exactly the required capabilities and TLS, when it is not disabled, are negotiated, as far as
  the server has them: no other flag of the server is. So TLS is used exactly when it is required or
  both sides can, and the database flag exactly when a database is given; nothing else of the processor changes.
\<close>
theorem capability_negotiation:
  assumes "process_capabilities hs p = (err, p')"
  shows "if \<forall>k \<in> required_bits (hp_params p). bit (hs_capability_falgs hs) k
    then err = no_error \<and> p' = p\<lparr>hp_negotiated_caps := hp_negotiated_caps p'\<rparr> \<and>
      (\<forall>k. bit (cap_value (hp_negotiated_caps p')) k \<longleftrightarrow>
        bit (hs_capability_falgs hs) k \<and> k \<in> wanted_bits (hp_params p)) \<and>
      (use_ssl p' \<longleftrightarrow> tls_wanted (hp_params p) (hs_capability_falgs hs)) \<and>
      (caps_has (hp_negotiated_caps p') CLIENT_CONNECT_WITH_DB \<longleftrightarrow> cp_database (hp_params p) \<noteq> [])
    else err = make_error_code server_unsupported \<and> p' = p"
proof (cases "caps_has_all (caps_of (hs_capability_falgs hs)) (required_capabilities (hp_params p))")
  case True
  then have "\<forall>k \<in> required_bits (hp_params p). bit (hs_capability_falgs hs) k"
    by (simp add: has_required_capabilities)
  moreover have e: "err = no_error" using assms process_capabilities_negotiated(1) [OF True] by simp
  ultimately show ?thesis
    using process_capabilities_ok(3-5) [OF assms] process_capabilities_bits [OF assms] by (simp add: tls_wanted_def)
next
  case False
  then have "\<not> (\<forall>k \<in> required_bits (hp_params p). bit (hs_capability_falgs hs) k)"
    by (simp add: has_required_capabilities)
  then show ?thesis using False assms by (auto simp: process_capabilities_def Let_def)
qed

definition sample_params :: "ssl_mode \<Rightarrow> connection_params" where
  "sample_params mode = \<lparr>cp_username = [0x75], cp_password = [0x70], cp_database = [], cp_collation = 33, cp_ssl = mode\<rparr>"

lemma sample_server_capable: "caps_has_all (caps_of 0xffffffff) c"
proof -
  have "(0xffffffff :: u32) = - 1" by simp
  then show ?thesis unfolding caps_has_all_def caps_of_def by (simp only: capabilities.select_convs and.left_neutral)
qed

lemma capability_negotiation_witness:
  "fst (process_capabilities default_handshake_packet (make_processor (sample_params Ssl_enable)))
     = make_error_code server_unsupported \<and>
   (\<exists>p'. process_capabilities (default_handshake_packet\<lparr>hs_capability_falgs := 0xffffffff\<rparr>) (make_processor (sample_params Ssl_enable))
     = (no_error, p') \<and> (\<forall>k. bit (cap_value (hp_negotiated_caps p')) k \<longleftrightarrow> k \<in> {9, 11, 15, 19, 21, 24}))"
proof (intro conjI)
  have "\<not> (\<forall>k \<in> required_bits (hp_params (make_processor (sample_params Ssl_enable))).
      bit (hs_capability_falgs default_handshake_packet) k)"
    by (auto simp: default_handshake_packet_def required_bits_def)
  from capability_negotiation [OF surjective_pairing, of "make_processor (sample_params Ssl_enable)" default_handshake_packet,
      unfolded if_not_P [OF this]]
  show "fst (process_capabilities default_handshake_packet (make_processor (sample_params Ssl_enable)))
     = make_error_code server_unsupported"
    by (rule conjunct1)
next
  let ?hs = "default_handshake_packet\<lparr>hs_capability_falgs := 0xffffffff\<rparr>" and ?p = "make_processor (sample_params Ssl_enable)"
  obtain err p' where pc: "process_capabilities ?hs ?p = (err, p')" by fastforce
  have "\<forall>k \<in> required_bits (hp_params ?p). bit (hs_capability_falgs ?hs) k"
    using sample_server_capable [of "required_capabilities (hp_params ?p)"] by (simp add: has_required_capabilities)
  then have n: "err = no_error" "\<forall>k. bit (cap_value (hp_negotiated_caps p')) k \<longleftrightarrow>
      bit (hs_capability_falgs ?hs) k \<and> k \<in> wanted_bits (hp_params ?p)"
    using capability_negotiation [OF pc] by simp_all
  have w: "k \<in> wanted_bits (hp_params ?p) \<longleftrightarrow> k \<in> {9, 11, 15, 19, 21, 24}" for k
    by (auto simp: wanted_bits_def required_bits_def make_processor_def sample_params_def)
  have "bit (hs_capability_falgs ?hs) k" if "k \<in> {9, 11, 15, 19, 21, 24}" for k using that by auto
  then have "\<forall>k. bit (cap_value (hp_negotiated_caps p')) k \<longleftrightarrow> k \<in> {9, 11, 15, 19, 21, 24}"
    using n(2) w by blast
  then show "\<exists>p'. process_capabilities ?hs ?p = (no_error, p') \<and>
      (\<forall>k. bit (cap_value (hp_negotiated_caps p')) k \<longleftrightarrow> k \<in> {9, 11, 15, 19, 21, 24})"
    using pc n(1) by blast
qed

text \<open>
  C10: each message of the authentication conversation, as the server encodes it, is handled as
  specified: success, the server's error, the response to a challenge serialized in place of the
  message, waiting after a fast authentication, and an error for any other message.
\<close>
theorem auth_messages_refine:
  assumes "auth_message_wf m" and "plugin_name (hp_auth_calc p) = Some current"
  shows "process_handshake_server_response H (enc_auth_message (hp_negotiated_caps p) m) result info p
    = Some (auth_spec H current result info p (enc_auth_message (hp_negotiated_caps p) m) m)"
  by (rule server_response_spec [OF assms refl])

definition sample_processor :: handshake_processor where
  "sample_processor = (make_processor (sample_params Ssl_disable))
     \<lparr>hp_auth_calc := \<lparr>ac_plugin = Some (caching_sha2_password_plugin sample_crypto), ac_response = []\<rparr>\<rparr>"

lemma auth_messages_refine_witness:
  "process_handshake_server_response sample_crypto [1, 3] Auth_invalid empty_info sample_processor
     = Some (no_error, [1, 3], Auth_wait_for_ok, empty_info, sample_processor)"
  using auth_messages_refine [of "Msg_more_data [3]" sample_processor caching_sha2_password_name sample_crypto Auth_invalid empty_info]
  by (simp add: sample_processor_def plugin_name_def caching_sha2_password_plugin_def fast_auth_complete_challenge_def)

text \<open>
  The handshake returns, whatever the peer sends, as long as what it sends is finite: with a
  result, and having consumed a prefix of it. The loop cannot be kept going with empty messages. The
  one exception is the assertion about the data of a switch request, which a server can fail.
\<close>
theorem handshake_returns:
  assumes "byte_stream S inp out" and "channel_wf ch"
  shows "(\<exists>err info' ch' p. handshake S H params info ch = Some (err, info', ch') \<and>
      inp (ch_stream ch) = p @ inp (ch_stream ch')) \<or>
    (\<exists>chx. handshake_aborts S H params info ch chx \<and> auth_switch_aborts (ch_shared_buff chx))"
proof (rule handshake_total [OF assms, of H params info])
  fix chx
  assume "handshake_aborts S H params info ch chx"
  then show ?thesis using handshake_aborts_at [OF assms] by blast
qed (auto simp: handshake_outcome_def)

text \<open>
  C11: with TLS required, nothing but the TLS request is ever written outside TLS during the
  handshake, however it ends, be it with a failed assertion, and whatever the server sends: neither
  user name nor password leave the client unprotected.
\<close>
theorem handshake_require_tls:
  assumes "byte_stream S inp out" and "channel_wf ch" and "cp_ssl params = Ssl_require"
    and "handshake S H params info ch = Some (err, info', ch') \<or> handshake_aborts S H params info ch ch'"
  shows "\<exists>ps qs seq caps. out (ch_stream ch') = out (ch_stream ch) @ map (Pair (ch_ssl ch)) ps @ map (Pair True) qs \<and>
    prefix (concat ps) (frame_header 32 seq @ enc_ssl_request caps (ssl_request_of params caps))"
proof -
  have "handshake_outcome inp out params ch ch'"
    using assms(4) handshake_returned [OF assms(1,2)] handshake_aborts_at(2) [OF assms(1,2)] by blast
  then show ?thesis using assms(3) by (auto simp: handshake_outcome_def)
qed

lemma handshake_require_tls_witness:
  "\<exists>err info' ch' ps qs seq caps.
     (handshake scripted_stream sample_crypto (sample_params Ssl_require) empty_info (sample_peer []) = Some (err, info', ch') \<or>
      handshake_aborts scripted_stream sample_crypto (sample_params Ssl_require) empty_info (sample_peer []) ch') \<and>
     scr_out (ch_stream ch') = map (Pair False) ps @ map (Pair True) qs \<and>
     prefix (concat ps) (frame_header 32 seq @ enc_ssl_request caps (ssl_request_of (sample_params Ssl_require) caps))"
proof -
  obtain err info' ch' where h: "handshake scripted_stream sample_crypto (sample_params Ssl_require) empty_info (sample_peer [])
      = Some (err, info', ch') \<or>
      handshake_aborts scripted_stream sample_crypto (sample_params Ssl_require) empty_info (sample_peer []) ch'"
    by (rule handshake_total [OF scripted_byte_stream sample_peer_wf]) blast+
  have "cp_ssl (sample_params Ssl_require) = Ssl_require" by (simp add: sample_params_def)
  moreover have "scr_out (ch_stream (sample_peer [])) = []" "ch_ssl (sample_peer []) = False"
    by (simp_all add: sample_peer_def make_channel_def)
  ultimately show ?thesis
    using handshake_require_tls [OF scripted_byte_stream sample_peer_wf _ h] h by (metis append_Nil)
qed

text \<open>
  C7: a handshake with a server that accepts the response to its greeting succeeds, with or without
  TLS: the client sends the messages of the protocol with consecutive sequence numbers, the TLS
  request first when TLS is negotiated and everything after it through TLS, and the channel ends
  up with the negotiated capabilities.
\<close>
theorem handshake_succeeds:
  assumes "reliable_stream S inp out" and "channel_wf ch" and "ch_sequence_number ch = 0"
    and "no_nul version" and "no_nul plugin" and "20 \<le> length a" and "length a \<le> 254"
    and "caps_has_all (caps_of scaps) (required_capabilities params)"
    and "calculate H plugin (cp_password params) a (tls_wanted params scaps) new_calculator = (code, calc)"
    and "\<not> failed code"
    and "greeting = 10 # enc_handshake_packet version conn_id a scaps charset status plugin"
    and "length greeting < MAX_PACKET_SIZE"
    and "length (enc_handshake_response (negotiated params scaps)
           (handshake_response_of params (negotiated params scaps) (ac_response calc) plugin)) < MAX_PACKET_SIZE"
    and "inp (ch_stream ch) = frames 0 greeting @ frames (if tls_wanted params scaps then 3 else 2) (0 # ok) @ rest"
  shows "\<exists>ch'. handshake S H params info ch = Some (no_error, info, ch') \<and> inp (ch_stream ch') = rest \<and>
    out (ch_stream ch') = out (ch_stream ch) @ client_messages params scaps (ac_response calc) plugin (ch_ssl ch) \<and>
    ch_ssl ch' = (ch_ssl ch \<or> tls_wanted params scaps) \<and> ch_current_caps ch' = negotiated params scaps"
  by (rule handshake_ok [OF assms])

definition sample_greeting :: bytes where
  "sample_greeting = 10 # enc_handshake_packet [0x38] 7 (replicate 20 1) 0xffffffff 33 2 mysql_native_password_name"

lemma sample_names:
  "no_nul mysql_native_password_name" "length mysql_native_password_name = 21" "no_nul [0x38]"
  by (simp_all add: no_nul_def mysql_native_password_name_def ascii_def)

lemma sample_login_any:
  obtains calc where "calculate sample_crypto mysql_native_password_name (cp_password (sample_params mode)) (replicate 20 1)
      (tls_wanted (sample_params mode) server) new_calculator = (no_error, calc)" "length (ac_response calc) = 20"
    "length (enc_handshake_response (negotiated (sample_params mode) server)
       (handshake_response_of (sample_params mode) (negotiated (sample_params mode) server) (ac_response calc)
         mysql_native_password_name)) < MAX_PACKET_SIZE"
proof -
  let ?p = "sample_params mode"
  obtain calc where calc: "calculate sample_crypto mysql_native_password_name (cp_password ?p) (replicate 20 1)
      (tls_wanted ?p server) new_calculator = (no_error, calc)" "length (ac_response calc) = 20"
    using calculate_cases [OF sample_crypto_library surjective_pairing, of mysql_native_password_name
        "cp_password ?p" "replicate 20 1" "tls_wanted ?p server" new_calculator] plugin_names_distinct
    by (metis (no_types, lifting) insertCI length_replicate list.discI prod.collapse sample_params_def
        connection_params.select_convs(2))
  moreover have "length (enc_handshake_response (negotiated ?p server)
       (handshake_response_of ?p (negotiated ?p server) (ac_response calc) mysql_native_password_name)) < MAX_PACKET_SIZE"
    using calc(2) sample_names(2)
    by (auto simp: MAX_PACKET_SIZE_def enc_handshake_response_def
        handshake_response_of_def sample_params_def enc_string_lenenc_def enc_int_lenenc_def)
  ultimately show ?thesis using that by blast
qed

lemmas sample_login = sample_login_any [where server = "0xffffffff"]

lemma length_sample_greeting: "length sample_greeting < MAX_PACKET_SIZE"
  using sample_names(2) by (simp add: sample_greeting_def enc_handshake_packet_def MAX_PACKET_SIZE_def)

lemma handshake_succeeds_witness:
  "\<exists>ch'. handshake scripted_stream sample_crypto (sample_params Ssl_require) empty_info
      (sample_peer (frames 0 sample_greeting @ frames 3 [0])) = Some (no_error, empty_info, ch') \<and>
    scr_in (ch_stream ch') = [] \<and> ch_ssl ch'"
proof -
  let ?p = "sample_params Ssl_require"
  have tls: "tls_wanted ?p 0xffffffff" by (simp add: tls_wanted_def sample_params_def)
  show ?thesis
  proof (rule sample_login [of Ssl_require], goal_cases)
    case (1 calc)
    show ?case
      using handshake_succeeds [OF scripted_reliable sample_peer_wf _ sample_names(3,1) _ _ sample_server_capable 1(1)
          failed_no_error sample_greeting_def length_sample_greeting 1(3),
          of "frames 0 sample_greeting @ frames 3 [0]" "[]" "[]" empty_info] tls
      by (auto simp: sample_peer_def make_channel_def)
  qed
qed

text \<open>
  C12: as long as TLS is not negotiated, be it that the client disables it or that the server does not
  have it, the handshake depends on the password only through its digests: with another password that
  has the same digests (and is blank when it is), every byte written, every result and the final
  state are the same, whatever the server sends, and so is the state if an assertion ends the program.
\<close>
theorem handshake_hides_password:
  assumes "byte_stream S inp out" and "channel_wf ch"
    and "\<not> tls_negotiated S params info ch" and "same_digests H (cp_password params) pw"
  shows "handshake S H (params\<lparr>cp_password := pw\<rparr>) info ch = handshake S H params info ch \<and>
    handshake_aborts S H (params\<lparr>cp_password := pw\<rparr>) info ch chx = handshake_aborts S H params info ch chx"
  by (rule handshake_password [OF assms])

text \<open>A server without TLS, and a client that asks for it: the handshake goes on without.\<close>

lemma no_tls_greeting:
  assumes "reliable_stream S inp out" and "channel_wf ch" and "ch_sequence_number ch = 0"
    and "no_nul version" and "no_nul plugin" and "20 \<le> length a" and "length a \<le> 254"
    and "caps_has (caps_of scaps) CLIENT_PLUGIN_AUTH" and "\<not> tls_wanted params scaps"
    and "greeting = 10 # enc_handshake_packet version conn_id a scaps charset status plugin"
    and "inp (ch_stream ch) = frames 0 greeting @ rest"
  shows "\<not> tls_negotiated S params info ch"
proof -
  obtain code ch1 where rd: "read_shared S ch = Some (code, ch1)"
      "ch_shared_buff ch1 = greeting"
    using read_shared_ok [OF assms(1,2), of greeting rest] assms(3,11) by auto
  obtain hs where hs: "deserialize_handshake (ch_shared_buff ch1) default_handshake_packet info = (no_error, hs, info)"
      "hs_capability_falgs hs = scaps"
    using deserialize_handshake_greeting [OF assms(4-8)] assms(10) rd(2) by metis
  have "\<not> use_ssl p" if "process_capabilities hs (make_processor params) = (e, p)" "\<not> failed e" for e p
    using process_capabilities_ok(3) [OF that] assms(9) hs(2) by (simp add: tls_wanted_def make_processor_def)
  then show ?thesis using rd(1) hs(1) by (auto simp: tls_negotiated_def greeting_uses_tls_def split: prod.splits)
qed

definition plain_greeting :: bytes where
  "plain_greeting = 10 # enc_handshake_packet [0x38] 7 (replicate 20 1) 0xfffff7ff 33 2 mysql_native_password_name"

lemma plain_server:
  "caps_has_all (caps_of 0xfffff7ff) (required_capabilities (sample_params Ssl_enable))"
  "caps_has (caps_of 0xfffff7ff) CLIENT_PLUGIN_AUTH" "\<not> tls_wanted (sample_params Ssl_enable) 0xfffff7ff"
  "length plain_greeting < MAX_PACKET_SIZE"
proof -
  show "caps_has_all (caps_of 0xfffff7ff) (required_capabilities (sample_params Ssl_enable))"
    unfolding has_required_capabilities by (simp add: required_bits_def sample_params_def)
qed (use sample_names(2) in \<open>simp_all add: sample_params_def tls_wanted_def caps_has_def caps_of_def client_flag_defs
      plain_greeting_def enc_handshake_packet_def MAX_PACKET_SIZE_def\<close>)

lemma handshake_hides_password_witness:
  "\<exists>ch' response.
     handshake scripted_stream sample_crypto (sample_params Ssl_enable) empty_info
       (sample_peer (frames 0 plain_greeting @ frames 2 [0])) = Some (no_error, empty_info, ch') \<and>
     handshake scripted_stream sample_crypto ((sample_params Ssl_enable)\<lparr>cp_password := [0x70, 0]\<rparr>) empty_info
       (sample_peer (frames 0 plain_greeting @ frames 2 [0])) = Some (no_error, empty_info, ch') \<and>
     scr_out (ch_stream ch') = client_messages (sample_params Ssl_enable) 0xfffff7ff response mysql_native_password_name False \<and>
     length response = 20"
proof -
  let ?p = "sample_params Ssl_enable" and ?ch = "sample_peer (frames 0 plain_greeting @ frames 2 [0])"
  have ch: "ch_sequence_number ?ch = 0" "scr_out (ch_stream ?ch) = []" "\<not> ch_ssl ?ch"
      "scr_in (ch_stream ?ch) = frames 0 plain_greeting @ frames 2 [0]"
    by (simp_all add: sample_peer_def make_channel_def)
  have a: "20 \<le> length (replicate 20 (1 :: u8))" "length (replicate 20 (1 :: u8)) \<le> 254" by simp_all
  have "\<not> tls_negotiated scripted_stream ?p empty_info ?ch"
    by (rule no_tls_greeting [OF scripted_reliable sample_peer_wf ch(1) sample_names(3,1) a plain_server(2,3)
          plain_greeting_def ch(4)])
  moreover have "same_digests sample_crypto (cp_password ?p) [0x70, 0]"
    by (simp add: sample_params_def same_digests_def sample_crypto_def resize_def numeral_eq_Suc)
  ultimately have same: "handshake scripted_stream sample_crypto (?p\<lparr>cp_password := [0x70, 0]\<rparr>) empty_info ?ch
      = handshake scripted_stream sample_crypto ?p empty_info ?ch"
    using handshake_hides_password [OF scripted_byte_stream sample_peer_wf] by blast
  obtain calc where calc: "calculate sample_crypto mysql_native_password_name (cp_password ?p) (replicate 20 1)
      (tls_wanted ?p 0xfffff7ff) new_calculator = (no_error, calc)" "length (ac_response calc) = 20"
    "length (enc_handshake_response (negotiated ?p 0xfffff7ff)
       (handshake_response_of ?p (negotiated ?p 0xfffff7ff) (ac_response calc) mysql_native_password_name)) < MAX_PACKET_SIZE"
    by (rule sample_login_any)
  have "scr_in (ch_stream ?ch) = frames 0 plain_greeting @ frames (if tls_wanted ?p 0xfffff7ff then 3 else 2) (0 # []) @ []"
    using plain_server(3) ch(4) by simp
  from handshake_ok [OF scripted_reliable sample_peer_wf ch(1) sample_names(3,1) a plain_server(1) calc(1) failed_no_error
      plain_greeting_def plain_server(4) calc(3) this, of empty_info]
  show ?thesis using same ch(2,3) calc(2) by auto
qed

text \<open>
  The collation goes in one byte of the response. The remainder by 255 is not the first byte of the
  collation, from 255 on.
\<close>

lemma collation_first_byte_wrong:
  "get_collation_first_byte 254 = 254" "get_collation_first_byte 255 = 0" "get_collation_first_byte 256 = 1"
  by (simp_all add: get_collation_first_byte_def)

end
