(* ===== verification/Error_Tables.thy ===== *)
theory Error_Tables
  imports Errors
begin

text \<open>
  The tables of error codes: the enumerators of \<open>errc\<close> (\<open>errc.hpp\<close>) with their numbers, the
  descriptions (\<open>impl/error_descriptions.hpp\<close>) and the function that looks one up
  (\<open>impl/error.hpp\<close>). Both tables are given in parts, in the order of the code.
\<close>

section \<open>The enumerators\<close>

definition errc_enumerators_1 :: "(string \<times> errc) list" where
  "errc_enumerators_1 = [
    (''ok'', Errc 0), (''no'', Errc 1002), (''yes'', Errc 1003), (''cant_create_file'', Errc 1004),
    (''cant_create_table'', Errc 1005), (''cant_create_db'', Errc 1006), (''db_create_exists'', Errc 1007),
    (''db_drop_exists'', Errc 1008), (''db_drop_rmdir'', Errc 1010), (''cant_find_system_rec'', Errc 1012),
    (''cant_get_stat'', Errc 1013), (''cant_lock'', Errc 1015), (''cant_open_file'', Errc 1016),
    (''file_not_found'', Errc 1017), (''cant_read_dir'', Errc 1018), (''checkread'', Errc 1020),
    (''dup_key'', Errc 1022), (''error_on_read'', Errc 1024), (''error_on_rename'', Errc 1025),
    (''error_on_write'', Errc 1026), (''file_used'', Errc 1027), (''filsort_abort'', Errc 1028),
    (''get_errno'', Errc 1030), (''illegal_ha'', Errc 1031), (''key_not_found'', Errc 1032),
    (''not_form_file'', Errc 1033), (''not_keyfile'', Errc 1034), (''old_keyfile'', Errc 1035),
    (''open_as_readonly'', Errc 1036), (''outofmemory'', Errc 1037), (''out_of_sortmemory'', Errc 1038),
    (''con_count_error'', Errc 1040), (''out_of_resources'', Errc 1041), (''bad_host_error'', Errc 1042),
    (''handshake_error'', Errc 1043), (''dbaccess_denied_error'', Errc 1044),
    (''access_denied_error'', Errc 1045), (''no_db_error'', Errc 1046), (''unknown_com_error'', Errc 1047),
    (''bad_null_error'', Errc 1048), (''bad_db_error'', Errc 1049), (''table_exists_error'', Errc 1050),
    (''bad_table_error'', Errc 1051), (''non_uniq_error'', Errc 1052), (''server_shutdown'', Errc 1053),
    (''bad_field_error'', Errc 1054), (''wrong_field_with_group'', Errc 1055),
    (''wrong_group_field'', Errc 1056), (''wrong_sum_select'', Errc 1057), (''wrong_value_count'', Errc 1058),
    (''too_long_ident'', Errc 1059), (''dup_fieldname'', Errc 1060), (''dup_keyname'', Errc 1061),
    (''dup_entry'', Errc 1062), (''wrong_field_spec'', Errc 1063), (''parse_error'', Errc 1064),
    (''empty_query'', Errc 1065), (''nonuniq_table'', Errc 1066), (''invalid_default'', Errc 1067),
    (''multiple_pri_key'', Errc 1068), (''too_many_keys'', Errc 1069), (''too_many_key_parts'', Errc 1070),
    (''too_long_key'', Errc 1071), (''key_column_does_not_exits'', Errc 1072),
    (''blob_used_as_key'', Errc 1073), (''too_big_fieldlength'', Errc 1074), (''wrong_auto_key'', Errc 1075),
    (''ready'', Errc 1076), (''shutdown_complete'', Errc 1079), (''forcing_close'', Errc 1080),
    (''ipsock_error'', Errc 1081), (''no_such_index'', Errc 1082), (''wrong_field_terminators'', Errc 1083),
    (''blobs_and_no_terminated'', Errc 1084), (''textfile_not_readable'', Errc 1085),
    (''file_exists_error'', Errc 1086), (''load_info'', Errc 1087), (''alter_info'', Errc 1088),
    (''wrong_sub_key'', Errc 1089), (''cant_remove_all_fields'', Errc 1090),
    (''cant_drop_field_or_key'', Errc 1091), (''insert_info'', Errc 1092), (''update_table_used'', Errc 1093),
    (''no_such_thread'', Errc 1094), (''kill_denied_error'', Errc 1095), (''no_tables_used'', Errc 1096),
    (''too_big_set'', Errc 1097), (''no_unique_logfile'', Errc 1098),
    (''table_not_locked_for_write'', Errc 1099), (''table_not_locked'', Errc 1100),
    (''blob_cant_have_default'', Errc 1101), (''wrong_db_name'', Errc 1102),
    (''wrong_table_name'', Errc 1103), (''too_big_select'', Errc 1104), (''unknown_error'', Errc 1105),
    (''unknown_procedure'', Errc 1106), (''wrong_paramcount_to_procedure'', Errc 1107),
    (''wrong_parameters_to_procedure'', Errc 1108), (''unknown_table'', Errc 1109),
    (''field_specified_twice'', Errc 1110), (''invalid_group_func_use'', Errc 1111),
    (''unsupported_extension'', Errc 1112), (''table_must_have_columns'', Errc 1113),
    (''record_file_full'', Errc 1114), (''unknown_character_set'', Errc 1115),
    (''too_many_tables'', Errc 1116), (''too_many_fields'', Errc 1117), (''too_big_rowsize'', Errc 1118),
    (''stack_overrun'', Errc 1119), (''wrong_outer_join_unused'', Errc 1120),
    (''null_column_in_index'', Errc 1121), (''cant_find_udf'', Errc 1122),
    (''cant_initialize_udf'', Errc 1123), (''udf_no_paths'', Errc 1124), (''udf_exists'', Errc 1125),
    (''cant_open_library'', Errc 1126), (''cant_find_dl_entry'', Errc 1127),
    (''function_not_defined'', Errc 1128), (''host_is_blocked'', Errc 1129),
    (''host_not_privileged'', Errc 1130), (''password_anonymous_user'', Errc 1131),
    (''password_not_allowed'', Errc 1132), (''password_no_match'', Errc 1133), (''update_info'', Errc 1134),
    (''cant_create_thread'', Errc 1135), (''wrong_value_count_on_row'', Errc 1136),
    (''cant_reopen_table'', Errc 1137), (''invalid_use_of_null'', Errc 1138), (''regexp_error'', Errc 1139),
    (''mix_of_group_func_and_fields'', Errc 1140), (''nonexisting_grant'', Errc 1141),
    (''tableaccess_denied_error'', Errc 1142), (''columnaccess_denied_error'', Errc 1143),
    (''illegal_grant_for_table'', Errc 1144), (''grant_wrong_host_or_user'', Errc 1145),
    (''no_such_table'', Errc 1146), (''nonexisting_table_grant'', Errc 1147),
    (''not_allowed_command'', Errc 1148), (''syntax_error'', Errc 1149),
    (''aborting_connection'', Errc 1152)]"

definition errc_enumerators_2 :: "(string \<times> errc) list" where
  "errc_enumerators_2 = [
    (''net_packet_too_large'', Errc 1153), (''net_read_error_from_pipe'', Errc 1154),
    (''net_fcntl_error'', Errc 1155), (''net_packets_out_of_order'', Errc 1156),
    (''net_uncompress_error'', Errc 1157), (''net_read_error'', Errc 1158),
    (''net_read_interrupted'', Errc 1159), (''net_error_on_write'', Errc 1160),
    (''net_write_interrupted'', Errc 1161), (''too_long_string'', Errc 1162),
    (''table_cant_handle_blob'', Errc 1163), (''table_cant_handle_auto_increment'', Errc 1164),
    (''wrong_column_name'', Errc 1166), (''wrong_key_column'', Errc 1167), (''wrong_mrg_table'', Errc 1168),
    (''dup_unique'', Errc 1169), (''blob_key_without_length'', Errc 1170),
    (''primary_cant_have_null'', Errc 1171), (''too_many_rows'', Errc 1172),
    (''requires_primary_key'', Errc 1173), (''update_without_key_in_safe_mode'', Errc 1175),
    (''key_does_not_exits'', Errc 1176), (''check_no_such_table'', Errc 1177),
    (''check_not_implemented'', Errc 1178), (''cant_do_this_during_an_transaction'', Errc 1179),
    (''error_during_commit'', Errc 1180), (''error_during_rollback'', Errc 1181),
    (''error_during_flush_logs'', Errc 1182), (''new_aborting_connection'', Errc 1184),
    (''master'', Errc 1188), (''master_net_read'', Errc 1189), (''master_net_write'', Errc 1190),
    (''ft_matching_key_not_found'', Errc 1191), (''lock_or_active_transaction'', Errc 1192),
    (''unknown_system_variable'', Errc 1193), (''crashed_on_usage'', Errc 1194),
    (''crashed_on_repair'', Errc 1195), (''warning_not_complete_rollback'', Errc 1196),
    (''trans_cache_full'', Errc 1197), (''slave_not_running'', Errc 1199), (''bad_slave'', Errc 1200),
    (''master_info'', Errc 1201), (''slave_thread'', Errc 1202), (''too_many_user_connections'', Errc 1203),
    (''set_constants_only'', Errc 1204), (''lock_wait_timeout'', Errc 1205), (''lock_table_full'', Errc 1206),
    (''read_only_transaction'', Errc 1207), (''wrong_arguments'', Errc 1210),
    (''no_permission_to_create_user'', Errc 1211), (''lock_deadlock'', Errc 1213),
    (''table_cant_handle_ft'', Errc 1214), (''cannot_add_foreign'', Errc 1215),
    (''no_referenced_row'', Errc 1216), (''row_is_referenced'', Errc 1217),
    (''connect_to_master'', Errc 1218), (''error_when_executing_command'', Errc 1220),
    (''wrong_usage'', Errc 1221), (''wrong_number_of_columns_in_select'', Errc 1222),
    (''cant_update_with_readlock'', Errc 1223), (''mixing_not_allowed'', Errc 1224),
    (''dup_argument'', Errc 1225), (''user_limit_reached'', Errc 1226),
    (''specific_access_denied_error'', Errc 1227), (''local_variable'', Errc 1228),
    (''global_variable'', Errc 1229), (''no_default'', Errc 1230), (''wrong_value_for_var'', Errc 1231),
    (''wrong_type_for_var'', Errc 1232), (''var_cant_be_read'', Errc 1233),
    (''cant_use_option_here'', Errc 1234), (''not_supported_yet'', Errc 1235),
    (''master_fatal_error_reading_binlog'', Errc 1236), (''slave_ignored_table'', Errc 1237),
    (''incorrect_global_local_var'', Errc 1238), (''wrong_fk_def'', Errc 1239),
    (''key_ref_do_not_match_table_ref'', Errc 1240), (''operand_columns'', Errc 1241),
    (''subquery_no_1_row'', Errc 1242), (''unknown_stmt_handler'', Errc 1243),
    (''corrupt_help_db'', Errc 1244), (''auto_convert'', Errc 1246), (''illegal_reference'', Errc 1247),
    (''derived_must_have_alias'', Errc 1248), (''select_reduced'', Errc 1249),
    (''tablename_not_allowed_here'', Errc 1250), (''not_supported_auth_mode'', Errc 1251),
    (''spatial_cant_have_null'', Errc 1252), (''collation_charset_mismatch'', Errc 1253),
    (''too_big_for_uncompress'', Errc 1256), (''zlib_z_mem_error'', Errc 1257),
    (''zlib_z_buf_error'', Errc 1258), (''zlib_z_data_error'', Errc 1259),
    (''cut_value_group_concat'', Errc 1260), (''warn_too_few_records'', Errc 1261),
    (''warn_too_many_records'', Errc 1262), (''warn_null_to_notnull'', Errc 1263),
    (''warn_data_out_of_range'', Errc 1264), (''warn_using_other_handler'', Errc 1266),
    (''cant_aggregate_2collations'', Errc 1267), (''revoke_grants'', Errc 1269),
    (''cant_aggregate_3collations'', Errc 1270), (''cant_aggregate_ncollations'', Errc 1271),
    (''variable_is_not_struct'', Errc 1272), (''unknown_collation'', Errc 1273),
    (''slave_ignored_ssl_params'', Errc 1274), (''warn_field_resolved'', Errc 1276),
    (''bad_slave_until_cond'', Errc 1277), (''missing_skip_slave'', Errc 1278),
    (''until_cond_ignored'', Errc 1279), (''wrong_name_for_index'', Errc 1280),
    (''wrong_name_for_catalog'', Errc 1281), (''bad_ft_column'', Errc 1283),
    (''unknown_key_cache'', Errc 1284), (''warn_hostname_wont_work'', Errc 1285),
    (''unknown_storage_engine'', Errc 1286), (''warn_deprecated_syntax'', Errc 1287),
    (''non_updatable_table'', Errc 1288), (''feature_disabled'', Errc 1289),
    (''option_prevents_statement'', Errc 1290), (''duplicated_value_in_type'', Errc 1291),
    (''truncated_wrong_value'', Errc 1292), (''invalid_on_update'', Errc 1294),
    (''unsupported_ps'', Errc 1295), (''get_errmsg'', Errc 1296), (''get_temporary_errmsg'', Errc 1297),
    (''unknown_time_zone'', Errc 1298), (''warn_invalid_timestamp'', Errc 1299),
    (''invalid_character_string'', Errc 1300), (''warn_allowed_packet_overflowed'', Errc 1301),
    (''conflicting_declarations'', Errc 1302), (''sp_no_recursive_create'', Errc 1303),
    (''sp_already_exists'', Errc 1304), (''sp_does_not_exist'', Errc 1305), (''sp_drop_failed'', Errc 1306),
    (''sp_store_failed'', Errc 1307), (''sp_lilabel_mismatch'', Errc 1308),
    (''sp_label_redefine'', Errc 1309), (''sp_label_mismatch'', Errc 1310), (''sp_uninit_var'', Errc 1311)]"

definition errc_enumerators_3 :: "(string \<times> errc) list" where
  "errc_enumerators_3 = [
    (''sp_badselect'', Errc 1312), (''sp_badreturn'', Errc 1313), (''sp_badstatement'', Errc 1314),
    (''update_log_deprecated_ignored'', Errc 1315), (''update_log_deprecated_translated'', Errc 1316),
    (''query_interrupted'', Errc 1317), (''sp_wrong_no_of_args'', Errc 1318),
    (''sp_cond_mismatch'', Errc 1319), (''sp_noreturn'', Errc 1320), (''sp_noreturnend'', Errc 1321),
    (''sp_bad_cursor_query'', Errc 1322), (''sp_bad_cursor_select'', Errc 1323),
    (''sp_cursor_mismatch'', Errc 1324), (''sp_cursor_already_open'', Errc 1325),
    (''sp_cursor_not_open'', Errc 1326), (''sp_undeclared_var'', Errc 1327),
    (''sp_wrong_no_of_fetch_args'', Errc 1328), (''sp_fetch_no_data'', Errc 1329),
    (''sp_dup_param'', Errc 1330), (''sp_dup_var'', Errc 1331), (''sp_dup_cond'', Errc 1332),
    (''sp_dup_curs'', Errc 1333), (''sp_cant_alter'', Errc 1334), (''sp_subselect_nyi'', Errc 1335),
    (''stmt_not_allowed_in_sf_or_trg'', Errc 1336), (''sp_varcond_after_curshndlr'', Errc 1337),
    (''sp_cursor_after_handler'', Errc 1338), (''sp_case_not_found'', Errc 1339),
    (''fparser_too_big_file'', Errc 1340), (''fparser_bad_header'', Errc 1341),
    (''fparser_eof_in_comment'', Errc 1342), (''fparser_error_in_parameter'', Errc 1343),
    (''fparser_eof_in_unknown_parameter'', Errc 1344), (''view_no_explain'', Errc 1345),
    (''wrong_object'', Errc 1347), (''nonupdateable_column'', Errc 1348), (''view_select_clause'', Errc 1350),
    (''view_select_variable'', Errc 1351), (''view_select_tmptable'', Errc 1352),
    (''view_wrong_list'', Errc 1353), (''warn_view_merge'', Errc 1354),
    (''warn_view_without_key'', Errc 1355), (''view_invalid'', Errc 1356), (''sp_no_drop_sp'', Errc 1357),
    (''trg_already_exists'', Errc 1359), (''trg_does_not_exist'', Errc 1360),
    (''trg_on_view_or_temp_table'', Errc 1361), (''trg_cant_change_row'', Errc 1362),
    (''trg_no_such_row_in_trg'', Errc 1363), (''no_default_for_field'', Errc 1364),
    (''division_by_zero'', Errc 1365), (''truncated_wrong_value_for_field'', Errc 1366),
    (''illegal_value_for_type'', Errc 1367), (''view_nonupd_check'', Errc 1368),
    (''view_check_failed'', Errc 1369), (''procaccess_denied_error'', Errc 1370),
    (''relay_log_fail'', Errc 1371), (''unknown_target_binlog'', Errc 1373),
    (''io_err_log_index_read'', Errc 1374), (''binlog_purge_prohibited'', Errc 1375),
    (''fseek_fail'', Errc 1376), (''binlog_purge_fatal_err'', Errc 1377), (''log_in_use'', Errc 1378),
    (''log_purge_unknown_err'', Errc 1379), (''relay_log_init'', Errc 1380),
    (''no_binary_logging'', Errc 1381), (''reserved_syntax'', Errc 1382), (''ps_many_param'', Errc 1390),
    (''key_part_0'', Errc 1391), (''view_checksum'', Errc 1392), (''view_multiupdate'', Errc 1393),
    (''view_no_insert_field_list'', Errc 1394), (''view_delete_merge_view'', Errc 1395),
    (''cannot_user'', Errc 1396), (''xaer_nota'', Errc 1397), (''xaer_inval'', Errc 1398),
    (''xaer_rmfail'', Errc 1399), (''xaer_outside'', Errc 1400), (''xaer_rmerr'', Errc 1401),
    (''xa_rbrollback'', Errc 1402), (''nonexisting_proc_grant'', Errc 1403),
    (''proc_auto_grant_fail'', Errc 1404), (''proc_auto_revoke_fail'', Errc 1405),
    (''data_too_long'', Errc 1406), (''sp_bad_sqlstate'', Errc 1407), (''startup'', Errc 1408),
    (''load_from_fixed_size_rows_to_var'', Errc 1409), (''cant_create_user_with_grant'', Errc 1410),
    (''wrong_value_for_type'', Errc 1411), (''table_def_changed'', Errc 1412),
    (''sp_dup_handler'', Errc 1413), (''sp_not_var_arg'', Errc 1414), (''sp_no_retset'', Errc 1415),
    (''cant_create_geometry_object'', Errc 1416), (''binlog_unsafe_routine'', Errc 1418),
    (''binlog_create_routine_need_super'', Errc 1419), (''stmt_has_no_open_cursor'', Errc 1421),
    (''commit_not_allowed_in_sf_or_trg'', Errc 1422), (''no_default_for_view_field'', Errc 1423),
    (''sp_no_recursion'', Errc 1424), (''too_big_scale'', Errc 1425), (''too_big_precision'', Errc 1426),
    (''m_bigger_than_d'', Errc 1427), (''wrong_lock_of_system_table'', Errc 1428),
    (''connect_to_foreign_data_source'', Errc 1429), (''query_on_foreign_data_source'', Errc 1430),
    (''foreign_data_source_doesnt_exist'', Errc 1431),
    (''foreign_data_string_invalid_cant_create'', Errc 1432), (''foreign_data_string_invalid'', Errc 1433),
    (''trg_in_wrong_schema'', Errc 1435), (''stack_overrun_need_more'', Errc 1436),
    (''too_long_body'', Errc 1437), (''warn_cant_drop_default_keycache'', Errc 1438),
    (''too_big_displaywidth'', Errc 1439), (''xaer_dupid'', Errc 1440),
    (''datetime_function_overflow'', Errc 1441), (''cant_update_used_table_in_sf_or_trg'', Errc 1442),
    (''view_prevent_update'', Errc 1443), (''ps_no_recursion'', Errc 1444),
    (''sp_cant_set_autocommit'', Errc 1445), (''view_frm_no_user'', Errc 1447),
    (''view_other_user'', Errc 1448), (''no_such_user'', Errc 1449), (''forbid_schema_change'', Errc 1450),
    (''row_is_referenced_2'', Errc 1451), (''no_referenced_row_2'', Errc 1452),
    (''sp_bad_var_shadow'', Errc 1453), (''trg_no_definer'', Errc 1454), (''old_file_format'', Errc 1455),
    (''sp_recursion_limit'', Errc 1456), (''sp_wrong_name'', Errc 1458), (''table_needs_upgrade'', Errc 1459),
    (''sp_no_aggregate'', Errc 1460), (''max_prepared_stmt_count_reached'', Errc 1461),
    (''view_recursive'', Errc 1462), (''non_grouping_field_used'', Errc 1463),
    (''table_cant_handle_spkeys'', Errc 1464), (''no_triggers_on_system_schema'', Errc 1465),
    (''removed_spaces'', Errc 1466), (''autoinc_read_failed'', Errc 1467)]"

definition errc_enumerators_4 :: "(string \<times> errc) list" where
  "errc_enumerators_4 = [
    (''username'', Errc 1468), (''hostname'', Errc 1469), (''wrong_string_length'', Errc 1470),
    (''non_insertable_table'', Errc 1471), (''admin_wrong_mrg_table'', Errc 1472),
    (''too_high_level_of_nesting_for_select'', Errc 1473), (''name_becomes_empty'', Errc 1474),
    (''ambiguous_field_term'', Errc 1475), (''foreign_server_exists'', Errc 1476),
    (''foreign_server_doesnt_exist'', Errc 1477), (''illegal_ha_create_option'', Errc 1478),
    (''partition_requires_values_error'', Errc 1479), (''partition_wrong_values_error'', Errc 1480),
    (''partition_maxvalue_error'', Errc 1481), (''partition_wrong_no_part_error'', Errc 1484),
    (''partition_wrong_no_subpart_error'', Errc 1485), (''wrong_expr_in_partition_func_error'', Errc 1486),
    (''field_not_found_part_error'', Errc 1488), (''inconsistent_partition_info_error'', Errc 1490),
    (''partition_func_not_allowed_error'', Errc 1491), (''partitions_must_be_defined_error'', Errc 1492),
    (''range_not_increasing_error'', Errc 1493), (''inconsistent_type_of_functions_error'', Errc 1494),
    (''multiple_def_const_in_list_part_error'', Errc 1495), (''partition_entry_error'', Errc 1496),
    (''mix_handler_error'', Errc 1497), (''partition_not_defined_error'', Errc 1498),
    (''too_many_partitions_error'', Errc 1499), (''subpartition_error'', Errc 1500),
    (''cant_create_handler_file'', Errc 1501), (''blob_field_in_part_func_error'', Errc 1502),
    (''unique_key_need_all_fields_in_pf'', Errc 1503), (''no_parts_error'', Errc 1504),
    (''partition_mgmt_on_nonpartitioned'', Errc 1505), (''foreign_key_on_partitioned'', Errc 1506),
    (''drop_partition_non_existent'', Errc 1507), (''drop_last_partition'', Errc 1508),
    (''coalesce_only_on_hash_partition'', Errc 1509), (''reorg_hash_only_on_same_no'', Errc 1510),
    (''reorg_no_param_error'', Errc 1511), (''only_on_range_list_partition'', Errc 1512),
    (''add_partition_subpart_error'', Errc 1513), (''add_partition_no_new_partition'', Errc 1514),
    (''coalesce_partition_no_partition'', Errc 1515), (''reorg_partition_not_exist'', Errc 1516),
    (''same_name_partition'', Errc 1517), (''no_binlog_error'', Errc 1518),
    (''consecutive_reorg_partitions'', Errc 1519), (''reorg_outside_range'', Errc 1520),
    (''partition_function_failure'', Errc 1521), (''limited_part_range'', Errc 1523),
    (''plugin_is_not_loaded'', Errc 1524), (''wrong_value'', Errc 1525),
    (''no_partition_for_given_value'', Errc 1526), (''filegroup_option_only_once'', Errc 1527),
    (''create_filegroup_failed'', Errc 1528), (''drop_filegroup_failed'', Errc 1529),
    (''tablespace_auto_extend_error'', Errc 1530), (''wrong_size_number'', Errc 1531),
    (''size_overflow_error'', Errc 1532), (''alter_filegroup_failed'', Errc 1533),
    (''binlog_row_logging_failed'', Errc 1534), (''event_already_exists'', Errc 1537),
    (''event_does_not_exist'', Errc 1539), (''event_interval_not_positive_or_too_big'', Errc 1542),
    (''event_ends_before_starts'', Errc 1543), (''event_exec_time_in_the_past'', Errc 1544),
    (''event_same_name'', Errc 1551), (''drop_index_fk'', Errc 1553),
    (''warn_deprecated_syntax_with_ver'', Errc 1554), (''cant_lock_log_table'', Errc 1556),
    (''foreign_duplicate_key_old_unused'', Errc 1557), (''col_count_doesnt_match_please_update'', Errc 1558),
    (''stored_function_prevents_switch_binlog_format'', Errc 1560), (''partition_no_temporary'', Errc 1562),
    (''partition_const_domain_error'', Errc 1563), (''partition_function_is_not_allowed'', Errc 1564),
    (''null_in_values_less_than'', Errc 1566), (''wrong_partition_name'', Errc 1567),
    (''cant_change_tx_characteristics'', Errc 1568), (''dup_entry_autoincrement_case'', Errc 1569),
    (''event_set_var_error'', Errc 1571), (''partition_merge_error'', Errc 1572),
    (''base64_decode_error'', Errc 1575), (''event_recursion_forbidden'', Errc 1576),
    (''only_integers_allowed'', Errc 1578), (''unsuported_log_engine'', Errc 1579),
    (''bad_log_statement'', Errc 1580), (''cant_rename_log_table'', Errc 1581),
    (''wrong_paramcount_to_native_fct'', Errc 1582), (''wrong_parameters_to_native_fct'', Errc 1583),
    (''wrong_parameters_to_stored_fct'', Errc 1584), (''native_fct_name_collision'', Errc 1585),
    (''dup_entry_with_key_name'', Errc 1586), (''binlog_purge_emfile'', Errc 1587),
    (''event_cannot_create_in_the_past'', Errc 1588), (''event_cannot_alter_in_the_past'', Errc 1589),
    (''no_partition_for_given_value_silent'', Errc 1591), (''binlog_unsafe_statement'', Errc 1592),
    (''binlog_fatal_error'', Errc 1593), (''binlog_logging_impossible'', Errc 1598),
    (''view_no_creation_ctx'', Errc 1599), (''view_invalid_creation_ctx'', Errc 1600),
    (''trg_corrupted_file'', Errc 1602), (''trg_no_creation_ctx'', Errc 1603),
    (''trg_invalid_creation_ctx'', Errc 1604), (''event_invalid_creation_ctx'', Errc 1605),
    (''trg_cant_open_table'', Errc 1606),
    (''no_format_description_event_before_binlog_statement'', Errc 1609),
    (''slave_corrupt_event'', Errc 1610), (''log_purge_no_file'', Errc 1612), (''xa_rbtimeout'', Errc 1613),
    (''xa_rbdeadlock'', Errc 1614), (''need_reprepare'', Errc 1615), (''plugin_delete_builtin'', Errc 1619),
    (''variable_is_readonly'', Errc 1621), (''warn_engine_transaction_rollback'', Errc 1622),
    (''slave_heartbeat_value_out_of_range'', Errc 1624), (''ndb_replication_schema_error'', Errc 1625),
    (''conflict_fn_parse_error'', Errc 1626), (''exceptions_write_error'', Errc 1627),
    (''too_long_table_comment'', Errc 1628), (''too_long_field_comment'', Errc 1629),
    (''func_inexistent_name_collision'', Errc 1630), (''database_name'', Errc 1631),
    (''table_name'', Errc 1632), (''partition_name'', Errc 1633), (''subpartition_name'', Errc 1634),
    (''temporary_name'', Errc 1635), (''renamed_name'', Errc 1636), (''too_many_concurrent_trxs'', Errc 1637),
    (''debug_sync_timeout'', Errc 1639), (''debug_sync_hit_limit'', Errc 1640),
    (''dup_signal_set'', Errc 1641), (''signal_warn'', Errc 1642), (''signal_not_found'', Errc 1643),
    (''signal_exception'', Errc 1644), (''resignal_without_active_handler'', Errc 1645),
    (''signal_bad_condition_type'', Errc 1646), (''cond_item_too_long'', Errc 1648)]"

definition errc_enumerators_5 :: "(string \<times> errc) list" where
  "errc_enumerators_5 = [
    (''unknown_locale'', Errc 1649), (''slave_ignore_server_ids'', Errc 1650),
    (''same_name_partition_field'', Errc 1652), (''partition_column_list_error'', Errc 1653),
    (''wrong_type_column_value_error'', Errc 1654), (''too_many_partition_func_fields_error'', Errc 1655),
    (''maxvalue_in_values_in'', Errc 1656), (''too_many_values_error'', Errc 1657),
    (''row_single_partition_field_error'', Errc 1658),
    (''field_type_not_allowed_as_partition_field'', Errc 1659), (''partition_fields_too_long'', Errc 1660),
    (''binlog_row_engine_and_stmt_engine'', Errc 1661), (''binlog_row_mode_and_stmt_engine'', Errc 1662),
    (''binlog_unsafe_and_stmt_engine'', Errc 1663), (''binlog_row_injection_and_stmt_engine'', Errc 1664),
    (''binlog_stmt_mode_and_row_engine'', Errc 1665), (''binlog_row_injection_and_stmt_mode'', Errc 1666),
    (''binlog_multiple_engines_and_self_logging_engine'', Errc 1667), (''binlog_unsafe_limit'', Errc 1668),
    (''binlog_unsafe_system_table'', Errc 1670), (''binlog_unsafe_autoinc_columns'', Errc 1671),
    (''binlog_unsafe_udf'', Errc 1672), (''binlog_unsafe_system_variable'', Errc 1673),
    (''binlog_unsafe_system_function'', Errc 1674), (''binlog_unsafe_nontrans_after_trans'', Errc 1675),
    (''message_and_statement'', Errc 1676), (''slave_cant_create_conversion'', Errc 1678),
    (''inside_transaction_prevents_switch_binlog_format'', Errc 1679), (''path_length'', Errc 1680),
    (''warn_deprecated_syntax_no_replacement'', Errc 1681), (''wrong_native_table_structure'', Errc 1682),
    (''wrong_perfschema_usage'', Errc 1683), (''warn_i_s_skipped_table'', Errc 1684),
    (''inside_transaction_prevents_switch_binlog_direct'', Errc 1685),
    (''stored_function_prevents_switch_binlog_direct'', Errc 1686),
    (''spatial_must_have_geom_col'', Errc 1687), (''too_long_index_comment'', Errc 1688),
    (''lock_aborted'', Errc 1689), (''data_out_of_range'', Errc 1690),
    (''wrong_spvar_type_in_limit'', Errc 1691),
    (''binlog_unsafe_multiple_engines_and_self_logging_engine'', Errc 1692),
    (''binlog_unsafe_mixed_statement'', Errc 1693),
    (''inside_transaction_prevents_switch_sql_log_bin'', Errc 1694),
    (''stored_function_prevents_switch_sql_log_bin'', Errc 1695), (''failed_read_from_par_file'', Errc 1696),
    (''values_is_not_int_type_error'', Errc 1697), (''access_denied_no_password_error'', Errc 1698),
    (''set_password_auth_plugin'', Errc 1699), (''truncate_illegal_fk'', Errc 1701),
    (''plugin_is_permanent'', Errc 1702), (''slave_heartbeat_value_out_of_range_min'', Errc 1703),
    (''slave_heartbeat_value_out_of_range_max'', Errc 1704), (''stmt_cache_full'', Errc 1705),
    (''multi_update_key_conflict'', Errc 1706), (''table_needs_rebuild'', Errc 1707),
    (''index_column_too_long'', Errc 1709), (''error_in_trigger_body'', Errc 1710),
    (''error_in_unknown_trigger_body'', Errc 1711), (''index_corrupt'', Errc 1712),
    (''undo_record_too_big'', Errc 1713), (''binlog_unsafe_insert_ignore_select'', Errc 1714),
    (''binlog_unsafe_insert_select_update'', Errc 1715), (''binlog_unsafe_replace_select'', Errc 1716),
    (''binlog_unsafe_create_ignore_select'', Errc 1717), (''binlog_unsafe_create_replace_select'', Errc 1718),
    (''binlog_unsafe_update_ignore'', Errc 1719), (''plugin_no_uninstall'', Errc 1720),
    (''plugin_no_install'', Errc 1721), (''binlog_unsafe_write_autoinc_select'', Errc 1722),
    (''binlog_unsafe_create_select_autoinc'', Errc 1723), (''binlog_unsafe_insert_two_keys'', Errc 1724),
    (''table_in_fk_check'', Errc 1725), (''unsupported_engine'', Errc 1726),
    (''binlog_unsafe_autoinc_not_first'', Errc 1727), (''cannot_load_from_table_v2'', Errc 1728),
    (''master_delay_value_out_of_range'', Errc 1729),
    (''only_fd_and_rbr_events_allowed_in_binlog_statement'', Errc 1730),
    (''partition_exchange_different_option'', Errc 1731), (''partition_exchange_part_table'', Errc 1732),
    (''partition_exchange_temp_table'', Errc 1733), (''partition_instead_of_subpartition'', Errc 1734),
    (''unknown_partition'', Errc 1735), (''tables_different_metadata'', Errc 1736),
    (''row_does_not_match_partition'', Errc 1737), (''binlog_cache_size_greater_than_max'', Errc 1738),
    (''warn_index_not_applicable'', Errc 1739), (''partition_exchange_foreign_key'', Errc 1740),
    (''rpl_info_data_too_long'', Errc 1742), (''binlog_stmt_cache_size_greater_than_max'', Errc 1745),
    (''cant_update_table_in_create_table_select'', Errc 1746),
    (''partition_clause_on_nonpartitioned'', Errc 1747),
    (''row_does_not_match_given_partition_set'', Errc 1748),
    (''change_rpl_info_repository_failure'', Errc 1750),
    (''warning_not_complete_rollback_with_created_temp_table'', Errc 1751),
    (''warning_not_complete_rollback_with_dropped_temp_table'', Errc 1752),
    (''mts_feature_is_not_supported'', Errc 1753), (''mts_updated_dbs_greater_max'', Errc 1754),
    (''mts_cant_parallel'', Errc 1755), (''mts_inconsistent_data'', Errc 1756),
    (''fulltext_not_supported_with_partitioning'', Errc 1757), (''da_invalid_condition_number'', Errc 1758),
    (''insecure_plain_text'', Errc 1759), (''insecure_change_master'', Errc 1760),
    (''foreign_duplicate_key_with_child_info'', Errc 1761),
    (''foreign_duplicate_key_without_child_info'', Errc 1762), (''sqlthread_with_secure_slave'', Errc 1763),
    (''table_has_no_ft'', Errc 1764), (''variable_not_settable_in_sf_or_trigger'', Errc 1765),
    (''variable_not_settable_in_transaction'', Errc 1766),
    (''set_statement_cannot_invoke_function'', Errc 1769),
    (''gtid_next_cant_be_automatic_if_gtid_next_list_is_non_null'', Errc 1770),
    (''malformed_gtid_set_specification'', Errc 1772), (''malformed_gtid_set_encoding'', Errc 1773),
    (''malformed_gtid_specification'', Errc 1774), (''gno_exhausted'', Errc 1775),
    (''bad_slave_auto_position'', Errc 1776), (''auto_position_requires_gtid_mode_not_off'', Errc 1777),
    (''cant_do_implicit_commit_in_trx_when_gtid_next_is_set'', Errc 1778),
    (''gtid_mode_on_requires_enforce_gtid_consistency_on'', Errc 1779),
    (''cant_set_gtid_next_to_gtid_when_gtid_mode_is_off'', Errc 1781),
    (''cant_set_gtid_next_to_anonymous_when_gtid_mode_is_on'', Errc 1782),
    (''cant_set_gtid_next_list_to_non_null_when_gtid_mode_is_off'', Errc 1783),
    (''gtid_unsafe_non_transactional_table'', Errc 1785), (''gtid_unsafe_create_select'', Errc 1786),
    (''gtid_mode_can_only_change_one_step_at_a_time'', Errc 1788),
    (''master_has_purged_required_gtids'', Errc 1789), (''cant_set_gtid_next_when_owning_gtid'', Errc 1790),
    (''unknown_explain_format'', Errc 1791), (''cant_execute_in_read_only_transaction'', Errc 1792),
    (''too_long_table_partition_comment'', Errc 1793), (''slave_configuration'', Errc 1794),
    (''innodb_ft_limit'', Errc 1795), (''innodb_no_ft_temp_table'', Errc 1796),
    (''innodb_ft_wrong_docid_column'', Errc 1797), (''innodb_ft_wrong_docid_index'', Errc 1798),
    (''innodb_online_log_too_big'', Errc 1799), (''unknown_alter_algorithm'', Errc 1800),
    (''unknown_alter_lock'', Errc 1801), (''mts_change_master_cant_run_with_gaps'', Errc 1802),
    (''mts_recovery_failure'', Errc 1803)]"

definition errc_enumerators_6 :: "(string \<times> errc) list" where
  "errc_enumerators_6 = [
    (''mts_reset_workers'', Errc 1804), (''col_count_doesnt_match_corrupted_v2'', Errc 1805),
    (''slave_silent_retry_transaction'', Errc 1806), (''discard_fk_checks_running'', Errc 1807),
    (''table_schema_mismatch'', Errc 1808), (''table_in_system_tablespace'', Errc 1809),
    (''io_read_error'', Errc 1810), (''io_write_error'', Errc 1811), (''tablespace_missing'', Errc 1812),
    (''tablespace_exists'', Errc 1813), (''tablespace_discarded'', Errc 1814),
    (''internal_error'', Errc 1815), (''innodb_import_error'', Errc 1816),
    (''innodb_index_corrupt'', Errc 1817), (''invalid_year_column_length'', Errc 1818),
    (''not_valid_password'', Errc 1819), (''must_change_password'', Errc 1820),
    (''fk_no_index_child'', Errc 1821), (''fk_no_index_parent'', Errc 1822),
    (''fk_fail_add_system'', Errc 1823), (''fk_cannot_open_parent'', Errc 1824),
    (''fk_incorrect_option'', Errc 1825), (''fk_dup_name'', Errc 1826), (''password_format'', Errc 1827),
    (''fk_column_cannot_drop'', Errc 1828), (''fk_column_cannot_drop_child'', Errc 1829),
    (''fk_column_not_null'', Errc 1830), (''dup_index'', Errc 1831), (''fk_column_cannot_change'', Errc 1832),
    (''fk_column_cannot_change_child'', Errc 1833), (''malformed_packet'', Errc 1835),
    (''read_only_mode'', Errc 1836), (''gtid_next_type_undefined_gtid'', Errc 1837),
    (''variable_not_settable_in_sp'', Errc 1838),
    (''cant_set_gtid_purged_when_gtid_executed_is_not_empty'', Errc 1840),
    (''cant_set_gtid_purged_when_owned_gtids_is_not_empty'', Errc 1841),
    (''gtid_purged_was_changed'', Errc 1842), (''gtid_executed_was_changed'', Errc 1843),
    (''binlog_stmt_mode_and_no_repl_tables'', Errc 1844), (''alter_operation_not_supported'', Errc 1845),
    (''alter_operation_not_supported_reason'', Errc 1846),
    (''alter_operation_not_supported_reason_copy'', Errc 1847),
    (''alter_operation_not_supported_reason_partition'', Errc 1848),
    (''alter_operation_not_supported_reason_fk_rename'', Errc 1849),
    (''alter_operation_not_supported_reason_column_type'', Errc 1850),
    (''alter_operation_not_supported_reason_fk_check'', Errc 1851),
    (''alter_operation_not_supported_reason_nopk'', Errc 1853),
    (''alter_operation_not_supported_reason_autoinc'', Errc 1854),
    (''alter_operation_not_supported_reason_hidden_fts'', Errc 1855),
    (''alter_operation_not_supported_reason_change_fts'', Errc 1856),
    (''alter_operation_not_supported_reason_fts'', Errc 1857),
    (''sql_slave_skip_counter_not_settable_in_gtid_mode'', Errc 1858), (''dup_unknown_in_index'', Errc 1859),
    (''ident_causes_too_long_path'', Errc 1860),
    (''alter_operation_not_supported_reason_not_null'', Errc 1861),
    (''must_change_password_login'', Errc 1862), (''row_in_wrong_partition'', Errc 1863),
    (''mts_event_bigger_pending_jobs_size_max'', Errc 1864), (''binlog_logical_corruption'', Errc 1866),
    (''warn_purge_log_in_use'', Errc 1867), (''warn_purge_log_is_active'', Errc 1868),
    (''auto_increment_conflict'', Errc 1869), (''slave_mi_init_repository'', Errc 1871),
    (''slave_rli_init_repository'', Errc 1872), (''access_denied_change_user_error'', Errc 1873),
    (''innodb_read_only'', Errc 1874), (''stop_slave_sql_thread_timeout'', Errc 1875),
    (''stop_slave_io_thread_timeout'', Errc 1876), (''table_corrupt'', Errc 1877),
    (''temp_file_write_failure'', Errc 1878), (''innodb_ft_aux_not_hex_id'', Errc 1879),
    (''old_temporals_upgraded'', Errc 1880), (''innodb_forced_recovery'', Errc 1881),
    (''aes_invalid_iv'', Errc 1882), (''plugin_cannot_be_uninstalled'', Errc 1883),
    (''gtid_unsafe_binlog_splittable_statement_and_assigned_gtid'', Errc 1884),
    (''slave_has_more_gtids_than_master'', Errc 1885), (''missing_key'', Errc 1886),
    (''file_corrupt'', Errc 3000), (''error_on_master'', Errc 3001),
    (''storage_engine_not_loaded'', Errc 3003), (''get_stacked_da_without_active_handler'', Errc 3004),
    (''warn_legacy_syntax_converted'', Errc 3005), (''binlog_unsafe_fulltext_plugin'', Errc 3006),
    (''cannot_discard_temporary_table'', Errc 3007), (''fk_depth_exceeded'', Errc 3008),
    (''col_count_doesnt_match_please_update_v2'', Errc 3009),
    (''warn_trigger_doesnt_have_created'', Errc 3010), (''referenced_trg_does_not_exist'', Errc 3011),
    (''explain_not_supported'', Errc 3012), (''invalid_field_size'', Errc 3013),
    (''missing_ha_create_option'', Errc 3014), (''engine_out_of_memory'', Errc 3015),
    (''password_expire_anonymous_user'', Errc 3016), (''slave_sql_thread_must_stop'', Errc 3017),
    (''no_ft_materialized_subquery'', Errc 3018), (''innodb_undo_log_full'', Errc 3019),
    (''invalid_argument_for_logarithm'', Errc 3020), (''slave_channel_io_thread_must_stop'', Errc 3021),
    (''warn_open_temp_tables_must_be_zero'', Errc 3022), (''warn_only_master_log_file_no_pos'', Errc 3023),
    (''query_timeout'', Errc 3024), (''non_ro_select_disable_timer'', Errc 3025),
    (''dup_list_entry'', Errc 3026), (''aggregate_order_for_union'', Errc 3028),
    (''aggregate_order_non_agg_query'', Errc 3029), (''slave_worker_stopped_previous_thd_error'', Errc 3030),
    (''dont_support_slave_preserve_commit_order'', Errc 3031), (''server_offline_mode'', Errc 3032),
    (''gis_different_srids'', Errc 3033), (''gis_unsupported_argument'', Errc 3034),
    (''gis_unknown_error'', Errc 3035), (''gis_unknown_exception'', Errc 3036),
    (''gis_invalid_data'', Errc 3037), (''boost_geometry_empty_input_exception'', Errc 3038),
    (''boost_geometry_centroid_exception'', Errc 3039),
    (''boost_geometry_overlay_invalid_input_exception'', Errc 3040),
    (''boost_geometry_turn_info_exception'', Errc 3041),
    (''boost_geometry_self_intersection_point_exception'', Errc 3042),
    (''boost_geometry_unknown_exception'', Errc 3043), (''std_bad_alloc_error'', Errc 3044),
    (''std_domain_error'', Errc 3045), (''std_length_error'', Errc 3046),
    (''std_invalid_argument'', Errc 3047), (''std_out_of_range_error'', Errc 3048),
    (''std_overflow_error'', Errc 3049), (''std_range_error'', Errc 3050),
    (''std_underflow_error'', Errc 3051), (''std_logic_error'', Errc 3052),
    (''std_runtime_error'', Errc 3053), (''std_unknown_exception'', Errc 3054),
    (''gis_data_wrong_endianess'', Errc 3055), (''change_master_password_length'', Errc 3056),
    (''user_lock_wrong_name'', Errc 3057), (''user_lock_deadlock'', Errc 3058),
    (''replace_inaccessible_rows'', Errc 3059), (''alter_operation_not_supported_reason_gis'', Errc 3060),
    (''illegal_user_var'', Errc 3061), (''gtid_mode_off'', Errc 3062), (''incorrect_type'', Errc 3064)]"

definition errc_enumerators_7 :: "(string \<times> errc) list" where
  "errc_enumerators_7 = [
    (''field_in_order_not_select'', Errc 3065), (''aggregate_in_order_not_select'', Errc 3066),
    (''invalid_rpl_wild_table_filter_pattern'', Errc 3067), (''net_ok_packet_too_large'', Errc 3068),
    (''invalid_json_data'', Errc 3069), (''invalid_geojson_missing_member'', Errc 3070),
    (''invalid_geojson_wrong_type'', Errc 3071), (''invalid_geojson_unspecified'', Errc 3072),
    (''dimension_unsupported'', Errc 3073), (''slave_channel_does_not_exist'', Errc 3074),
    (''slave_channel_name_invalid_or_too_long'', Errc 3076),
    (''slave_new_channel_wrong_repository'', Errc 3077), (''slave_multiple_channels_cmd'', Errc 3079),
    (''slave_max_channels_exceeded'', Errc 3080), (''slave_channel_must_stop'', Errc 3081),
    (''slave_channel_not_running'', Errc 3082), (''slave_channel_was_running'', Errc 3083),
    (''slave_channel_was_not_running'', Errc 3084), (''slave_channel_sql_thread_must_stop'', Errc 3085),
    (''slave_channel_sql_skip_counter'', Errc 3086), (''wrong_field_with_group_v2'', Errc 3087),
    (''mix_of_group_func_and_fields_v2'', Errc 3088), (''warn_deprecated_sysvar_update'', Errc 3089),
    (''warn_deprecated_sqlmode'', Errc 3090), (''cannot_log_partial_drop_database_with_gtid'', Errc 3091),
    (''group_replication_configuration'', Errc 3092), (''group_replication_running'', Errc 3093),
    (''group_replication_applier_init_error'', Errc 3094),
    (''group_replication_stop_applier_thread_timeout'', Errc 3095),
    (''group_replication_communication_layer_session_error'', Errc 3096),
    (''group_replication_communication_layer_join_error'', Errc 3097),
    (''before_dml_validation_error'', Errc 3098), (''prevents_variable_without_rbr'', Errc 3099),
    (''run_hook_error'', Errc 3100), (''transaction_rollback_during_commit'', Errc 3101),
    (''generated_column_function_is_not_allowed'', Errc 3102),
    (''unsupported_alter_inplace_on_virtual_column'', Errc 3103),
    (''wrong_fk_option_for_generated_column'', Errc 3104),
    (''non_default_value_for_generated_column'', Errc 3105),
    (''unsupported_action_on_generated_column'', Errc 3106), (''generated_column_non_prior'', Errc 3107),
    (''dependent_by_generated_column'', Errc 3108), (''generated_column_ref_auto_inc'', Errc 3109),
    (''feature_not_available'', Errc 3110), (''cant_set_gtid_mode'', Errc 3111),
    (''cant_use_auto_position_with_gtid_mode_off'', Errc 3112),
    (''cant_enforce_gtid_consistency_with_ongoing_gtid_violating_tx'', Errc 3116),
    (''enforce_gtid_consistency_warn_with_ongoing_gtid_violating_tx'', Errc 3117),
    (''account_has_been_locked'', Errc 3118), (''wrong_tablespace_name'', Errc 3119),
    (''tablespace_is_not_empty'', Errc 3120), (''wrong_file_name'', Errc 3121),
    (''boost_geometry_inconsistent_turns_exception'', Errc 3122),
    (''warn_optimizer_hint_syntax_error'', Errc 3123), (''warn_bad_max_execution_time'', Errc 3124),
    (''warn_unsupported_max_execution_time'', Errc 3125), (''warn_conflicting_hint'', Errc 3126),
    (''warn_unknown_qb_name'', Errc 3127), (''unresolved_hint_name'', Errc 3128),
    (''warn_on_modifying_gtid_executed_table'', Errc 3129),
    (''pluggable_protocol_command_not_supported'', Errc 3130), (''locking_service_wrong_name'', Errc 3131),
    (''locking_service_deadlock'', Errc 3132), (''locking_service_timeout'', Errc 3133),
    (''gis_max_points_in_geometry_overflowed'', Errc 3134), (''sql_mode_merged'', Errc 3135),
    (''vtoken_plugin_token_mismatch'', Errc 3136), (''vtoken_plugin_token_not_found'', Errc 3137),
    (''cant_set_variable_when_owning_gtid'', Errc 3138), (''slave_channel_operation_not_allowed'', Errc 3139),
    (''invalid_json_text'', Errc 3140), (''invalid_json_text_in_param'', Errc 3141),
    (''invalid_json_binary_data'', Errc 3142), (''invalid_json_path'', Errc 3143),
    (''invalid_json_charset'', Errc 3144), (''invalid_json_charset_in_function'', Errc 3145),
    (''invalid_type_for_json'', Errc 3146), (''invalid_cast_to_json'', Errc 3147),
    (''invalid_json_path_charset'', Errc 3148), (''invalid_json_path_wildcard'', Errc 3149),
    (''json_value_too_big'', Errc 3150), (''json_key_too_big'', Errc 3151), (''json_used_as_key'', Errc 3152),
    (''json_vacuous_path'', Errc 3153), (''json_bad_one_or_all_arg'', Errc 3154),
    (''numeric_json_value_out_of_range'', Errc 3155), (''invalid_json_value_for_cast'', Errc 3156),
    (''json_document_too_deep'', Errc 3157), (''json_document_null_key'', Errc 3158),
    (''secure_transport_required'', Errc 3159), (''no_secure_transports_configured'', Errc 3160),
    (''disabled_storage_engine'', Errc 3161), (''user_does_not_exist'', Errc 3162),
    (''user_already_exists'', Errc 3163), (''audit_api_abort'', Errc 3164),
    (''invalid_json_path_array_cell'', Errc 3165), (''bufpool_resize_inprogress'', Errc 3166),
    (''feature_disabled_see_doc'', Errc 3167), (''server_isnt_available'', Errc 3168),
    (''session_was_killed'', Errc 3169), (''capacity_exceeded'', Errc 3170),
    (''capacity_exceeded_in_range_optimizer'', Errc 3171),
    (''cant_wait_for_executed_gtid_set_while_owning_a_gtid'', Errc 3173),
    (''cannot_add_foreign_base_col_virtual'', Errc 3174),
    (''cannot_create_virtual_index_constraint'', Errc 3175),
    (''error_on_modifying_gtid_executed_table'', Errc 3176), (''lock_refused_by_engine'', Errc 3177),
    (''unsupported_alter_online_on_virtual_column'', Errc 3178),
    (''master_key_rotation_not_supported_by_se'', Errc 3179),
    (''master_key_rotation_binlog_failed'', Errc 3181), (''master_key_rotation_se_unavailable'', Errc 3182),
    (''tablespace_cannot_encrypt'', Errc 3183), (''invalid_encryption_option'', Errc 3184),
    (''cannot_find_key_in_keyring'', Errc 3185), (''capacity_exceeded_in_parser'', Errc 3186),
    (''unsupported_alter_encryption_inplace'', Errc 3187), (''keyring_udf_keyring_service_error'', Errc 3188),
    (''user_column_old_length'', Errc 3189), (''cant_reset_master'', Errc 3190),
    (''group_replication_max_group_size'', Errc 3191), (''cannot_add_foreign_base_col_stored'', Errc 3192),
    (''table_referenced'', Errc 3193), (''xa_retry'', Errc 3197),
    (''keyring_aws_udf_aws_kms_error'', Errc 3198), (''binlog_unsafe_xa'', Errc 3199),
    (''udf_error'', Errc 3200), (''keyring_migration_failure'', Errc 3201),
    (''keyring_access_denied_error'', Errc 3202), (''keyring_migration_status'', Errc 3203),
    (''audit_log_udf_read_invalid_max_array_length_arg_value'', Errc 3218),
    (''unsupport_compressed_temporary_table'', Errc 3500), (''acl_operation_failed'', Errc 3501),
    (''unsupported_index_algorithm'', Errc 3502), (''no_such_db'', Errc 3503), (''too_big_enum'', Errc 3504),
    (''too_long_set_enum_value'', Errc 3505), (''invalid_dd_object'', Errc 3506),
    (''updating_dd_table'', Errc 3507), (''invalid_dd_object_id'', Errc 3508),
    (''invalid_dd_object_name'', Errc 3509)]"

definition errc_enumerators_8 :: "(string \<times> errc) list" where
  "errc_enumerators_8 = [
    (''tablespace_missing_with_name'', Errc 3510), (''too_long_routine_comment'', Errc 3511),
    (''sp_load_failed'', Errc 3512), (''invalid_bitwise_operands_size'', Errc 3513),
    (''invalid_bitwise_aggregate_operands_size'', Errc 3514), (''warn_unsupported_hint'', Errc 3515),
    (''unexpected_geometry_type'', Errc 3516), (''srs_parse_error'', Errc 3517),
    (''srs_proj_parameter_missing'', Errc 3518), (''warn_srs_not_found'', Errc 3519),
    (''srs_not_cartesian'', Errc 3520), (''srs_not_cartesian_undefined'', Errc 3521),
    (''pk_index_cant_be_invisible'', Errc 3522), (''unknown_authid'', Errc 3523),
    (''failed_role_grant'', Errc 3524), (''open_role_tables'', Errc 3525),
    (''failed_default_roles'', Errc 3526), (''components_no_scheme'', Errc 3527),
    (''components_no_scheme_service'', Errc 3528), (''components_cant_load'', Errc 3529),
    (''role_not_granted'', Errc 3530), (''failed_revoke_role'', Errc 3531), (''rename_role'', Errc 3532),
    (''components_cant_acquire_service_implementation'', Errc 3533),
    (''components_cant_satisfy_dependency'', Errc 3534),
    (''components_load_cant_register_service_implementation'', Errc 3535),
    (''components_load_cant_initialize'', Errc 3536), (''components_unload_not_loaded'', Errc 3537),
    (''components_unload_cant_deinitialize'', Errc 3538), (''components_cant_release_service'', Errc 3539),
    (''components_unload_cant_unregister_service'', Errc 3540), (''components_cant_unload'', Errc 3541),
    (''warn_unload_the_not_persisted'', Errc 3542), (''component_table_incorrect'', Errc 3543),
    (''component_manipulate_row_failed'', Errc 3544), (''components_unload_duplicate_in_group'', Errc 3545),
    (''cant_set_gtid_purged_due_sets_constraints'', Errc 3546),
    (''cannot_lock_user_management_caches'', Errc 3547), (''srs_not_found'', Errc 3548),
    (''variable_not_persisted'', Errc 3549), (''is_query_invalid_clause'', Errc 3550),
    (''unable_to_store_statistics'', Errc 3551), (''no_system_schema_access'', Errc 3552),
    (''no_system_tablespace_access'', Errc 3553), (''no_system_table_access'', Errc 3554),
    (''no_system_table_access_for_dictionary_table'', Errc 3555),
    (''no_system_table_access_for_system_table'', Errc 3556),
    (''no_system_table_access_for_table'', Errc 3557), (''invalid_option_key'', Errc 3558),
    (''invalid_option_value'', Errc 3559), (''invalid_option_key_value_pair'', Errc 3560),
    (''invalid_option_start_character'', Errc 3561), (''invalid_option_end_character'', Errc 3562),
    (''invalid_option_characters'', Errc 3563), (''duplicate_option_key'', Errc 3564),
    (''warn_srs_not_found_axis_order'', Errc 3565), (''no_access_to_native_fct'', Errc 3566),
    (''reset_master_to_value_out_of_range'', Errc 3567), (''unresolved_table_lock'', Errc 3568),
    (''duplicate_table_lock'', Errc 3569), (''binlog_unsafe_skip_locked'', Errc 3570),
    (''binlog_unsafe_nowait'', Errc 3571), (''lock_nowait'', Errc 3572),
    (''cte_recursive_requires_union'', Errc 3573), (''cte_recursive_requires_nonrecursive_first'', Errc 3574),
    (''cte_recursive_forbids_aggregation'', Errc 3575), (''cte_recursive_forbidden_join_order'', Errc 3576),
    (''cte_recursive_requires_single_reference'', Errc 3577), (''switch_tmp_engine'', Errc 3578),
    (''window_no_such_window'', Errc 3579), (''window_circularity_in_window_graph'', Errc 3580),
    (''window_no_child_partitioning'', Errc 3581), (''window_no_inherit_frame'', Errc 3582),
    (''window_no_redefine_order_by'', Errc 3583), (''window_frame_start_illegal'', Errc 3584),
    (''window_frame_end_illegal'', Errc 3585), (''window_frame_illegal'', Errc 3586),
    (''window_range_frame_order_type'', Errc 3587), (''window_range_frame_temporal_type'', Errc 3588),
    (''window_range_frame_numeric_type'', Errc 3589), (''window_range_bound_not_constant'', Errc 3590),
    (''window_duplicate_name'', Errc 3591), (''window_illegal_order_by'', Errc 3592),
    (''window_invalid_window_func_use'', Errc 3593), (''window_invalid_window_func_alias_use'', Errc 3594),
    (''window_nested_window_func_use_in_window_spec'', Errc 3595), (''window_rows_interval_use'', Errc 3596),
    (''window_no_group_order_unused'', Errc 3597), (''window_explain_json'', Errc 3598),
    (''window_function_ignores_frame'', Errc 3599), (''wl9236_now_unused'', Errc 3600),
    (''invalid_no_of_args'', Errc 3601), (''field_in_grouping_not_group_by'', Errc 3602),
    (''too_long_tablespace_comment'', Errc 3603), (''engine_cant_drop_table'', Errc 3604),
    (''engine_cant_drop_missing_table'', Errc 3605), (''tablespace_dup_filename'', Errc 3606),
    (''db_drop_rmdir2'', Errc 3607), (''imp_no_files_matched'', Errc 3608),
    (''imp_schema_does_not_exist'', Errc 3609), (''imp_table_already_exists'', Errc 3610),
    (''imp_incompatible_mysqld_version'', Errc 3611), (''imp_incompatible_dd_version'', Errc 3612),
    (''imp_incompatible_sdi_version'', Errc 3613), (''warn_invalid_hint'', Errc 3614),
    (''var_does_not_exist'', Errc 3615), (''longitude_out_of_range'', Errc 3616),
    (''latitude_out_of_range'', Errc 3617), (''not_implemented_for_geographic_srs'', Errc 3618),
    (''illegal_privilege_level'', Errc 3619), (''no_system_view_access'', Errc 3620),
    (''component_filter_flabbergasted'', Errc 3621), (''part_expr_too_long'', Errc 3622),
    (''udf_drop_dynamically_registered'', Errc 3623), (''unable_to_store_column_statistics'', Errc 3624),
    (''unable_to_update_column_statistics'', Errc 3625), (''unable_to_drop_column_statistics'', Errc 3626),
    (''unable_to_build_histogram'', Errc 3627), (''mandatory_role'', Errc 3628),
    (''missing_tablespace_file'', Errc 3629), (''persist_only_access_denied_error'', Errc 3630),
    (''cmd_need_super'', Errc 3631), (''path_in_datadir'', Errc 3632), (''clone_ddl_in_progress'', Errc 3633),
    (''clone_too_many_concurrent_clones'', Errc 3634), (''applier_log_event_validation_error'', Errc 3635),
    (''cte_max_recursion_depth'', Errc 3636), (''not_hint_updatable_variable'', Errc 3637),
    (''credentials_contradict_to_history'', Errc 3638),
    (''warning_password_history_clauses_void'', Errc 3639), (''client_does_not_support'', Errc 3640),
    (''i_s_skipped_tablespace'', Errc 3641), (''tablespace_engine_mismatch'', Errc 3642),
    (''wrong_srid_for_column'', Errc 3643), (''cannot_alter_srid_due_to_index'', Errc 3644),
    (''warn_binlog_partial_updates_disabled'', Errc 3645),
    (''warn_binlog_v1_row_events_disabled'', Errc 3646),
    (''warn_binlog_partial_updates_suggests_partial_images'', Errc 3647),
    (''could_not_apply_json_diff'', Errc 3648), (''corrupted_json_diff'', Errc 3649)]"

definition errc_enumerators_9 :: "(string \<times> errc) list" where
  "errc_enumerators_9 = [
    (''resource_group_exists'', Errc 3650), (''resource_group_not_exists'', Errc 3651),
    (''invalid_vcpu_id'', Errc 3652), (''invalid_vcpu_range'', Errc 3653),
    (''invalid_thread_priority'', Errc 3654), (''disallowed_operation'', Errc 3655),
    (''resource_group_busy'', Errc 3656), (''resource_group_disabled'', Errc 3657),
    (''feature_unsupported'', Errc 3658), (''attribute_ignored'', Errc 3659),
    (''invalid_thread_id'', Errc 3660), (''resource_group_bind_failed'', Errc 3661),
    (''invalid_use_of_force_option'', Errc 3662), (''group_replication_command_failure'', Errc 3663),
    (''sdi_operation_failed'', Errc 3664), (''missing_json_table_value'', Errc 3665),
    (''wrong_json_table_value'', Errc 3666), (''tf_must_have_alias'', Errc 3667),
    (''tf_forbidden_join_type'', Errc 3668), (''jt_value_out_of_range'', Errc 3669),
    (''jt_max_nested_path'', Errc 3670), (''password_expiration_not_supported_by_auth_method'', Errc 3671),
    (''invalid_geojson_crs_not_top_level'', Errc 3672), (''bad_null_error_not_ignored'', Errc 3673),
    (''disk_full_nowait'', Errc 3675), (''parse_error_in_digest_fn'', Errc 3676),
    (''undisclosed_parse_error_in_digest_fn'', Errc 3677), (''schema_dir_exists'', Errc 3678),
    (''schema_dir_missing'', Errc 3679), (''schema_dir_create_failed'', Errc 3680),
    (''schema_dir_unknown'', Errc 3681), (''only_implemented_for_srid_0_and_4326'', Errc 3682),
    (''binlog_expire_log_days_and_secs_used_together'', Errc 3683), (''regexp_buffer_overflow'', Errc 3684),
    (''regexp_illegal_argument'', Errc 3685), (''regexp_index_outofbounds_error'', Errc 3686),
    (''regexp_internal_error'', Errc 3687), (''regexp_rule_syntax'', Errc 3688),
    (''regexp_bad_escape_sequence'', Errc 3689), (''regexp_unimplemented'', Errc 3690),
    (''regexp_mismatched_paren'', Errc 3691), (''regexp_bad_interval'', Errc 3692),
    (''regexp_max_lt_min'', Errc 3693), (''regexp_invalid_back_ref'', Errc 3694),
    (''regexp_look_behind_limit'', Errc 3695), (''regexp_missing_close_bracket'', Errc 3696),
    (''regexp_invalid_range'', Errc 3697), (''regexp_stack_overflow'', Errc 3698),
    (''regexp_time_out'', Errc 3699), (''regexp_pattern_too_big'', Errc 3700),
    (''cant_set_error_log_service'', Errc 3701), (''empty_pipeline_for_error_log_service'', Errc 3702),
    (''component_filter_diagnostics'', Errc 3703), (''not_implemented_for_cartesian_srs'', Errc 3704),
    (''not_implemented_for_projected_srs'', Errc 3705), (''nonpositive_radius'', Errc 3706),
    (''restart_server_failed'', Errc 3707), (''srs_missing_mandatory_attribute'', Errc 3708),
    (''srs_multiple_attribute_definitions'', Errc 3709),
    (''srs_name_cant_be_empty_or_whitespace'', Errc 3710),
    (''srs_organization_cant_be_empty_or_whitespace'', Errc 3711), (''srs_id_already_exists'', Errc 3712),
    (''warn_srs_id_already_exists'', Errc 3713), (''cant_modify_srid_0'', Errc 3714),
    (''warn_reserved_srid_range'', Errc 3715), (''cant_modify_srs_used_by_column'', Errc 3716),
    (''srs_invalid_character_in_attribute'', Errc 3717), (''srs_attribute_string_too_long'', Errc 3718),
    (''deprecated_utf8_alias'', Errc 3719), (''deprecated_national'', Errc 3720),
    (''invalid_default_utf8mb4_collation'', Errc 3721), (''unable_to_collect_log_status'', Errc 3722),
    (''reserved_tablespace_name'', Errc 3723), (''unable_to_set_option'', Errc 3724),
    (''slave_possibly_diverged_after_ddl'', Errc 3725), (''srs_not_geographic'', Errc 3726),
    (''polygon_too_large'', Errc 3727), (''spatial_unique_index'', Errc 3728),
    (''index_type_not_supported_for_spatial_index'', Errc 3729), (''fk_cannot_drop_parent'', Errc 3730),
    (''geometry_param_longitude_out_of_range'', Errc 3731),
    (''geometry_param_latitude_out_of_range'', Errc 3732), (''fk_cannot_use_virtual_column'', Errc 3733),
    (''fk_no_column_parent'', Errc 3734), (''cant_set_error_suppression_list'', Errc 3735),
    (''srs_geogcs_invalid_axes'', Errc 3736), (''srs_invalid_semi_major_axis'', Errc 3737),
    (''srs_invalid_inverse_flattening'', Errc 3738), (''srs_invalid_angular_unit'', Errc 3739),
    (''srs_invalid_prime_meridian'', Errc 3740), (''transform_source_srs_not_supported'', Errc 3741),
    (''transform_target_srs_not_supported'', Errc 3742),
    (''transform_source_srs_missing_towgs84'', Errc 3743),
    (''transform_target_srs_missing_towgs84'', Errc 3744),
    (''temp_table_prevents_switch_session_binlog_format'', Errc 3745),
    (''temp_table_prevents_switch_global_binlog_format'', Errc 3746),
    (''running_applier_prevents_switch_global_binlog_format'', Errc 3747),
    (''client_gtid_unsafe_create_drop_temp_table_in_trx_in_sbr'', Errc 3748),
    (''table_without_pk'', Errc 3750), (''warn_data_truncated_functional_index'', Errc 3751),
    (''warn_data_out_of_range_functional_index'', Errc 3752),
    (''functional_index_on_json_or_geometry_function'', Errc 3753),
    (''functional_index_ref_auto_increment'', Errc 3754),
    (''cannot_drop_column_functional_index'', Errc 3755), (''functional_index_primary_key'', Errc 3756),
    (''functional_index_on_lob'', Errc 3757), (''functional_index_function_is_not_allowed'', Errc 3758),
    (''fulltext_functional_index'', Errc 3759), (''spatial_functional_index'', Errc 3760),
    (''wrong_key_column_functional_index'', Errc 3761), (''functional_index_on_field'', Errc 3762),
    (''generated_column_named_function_is_not_allowed'', Errc 3763),
    (''generated_column_row_value'', Errc 3764), (''generated_column_variables'', Errc 3765),
    (''dependent_by_default_generated_value'', Errc 3766), (''default_val_generated_non_prior'', Errc 3767),
    (''default_val_generated_ref_auto_inc'', Errc 3768),
    (''default_val_generated_function_is_not_allowed'', Errc 3769),
    (''default_val_generated_named_function_is_not_allowed'', Errc 3770),
    (''default_val_generated_row_value'', Errc 3771), (''default_val_generated_variables'', Errc 3772),
    (''default_as_val_generated'', Errc 3773), (''unsupported_action_on_default_val_generated'', Errc 3774),
    (''gtid_unsafe_alter_add_col_with_default_expression'', Errc 3775),
    (''fk_cannot_change_engine'', Errc 3776), (''warn_deprecated_user_set_expr'', Errc 3777),
    (''warn_deprecated_utf8mb3_collation'', Errc 3778),
    (''warn_deprecated_nested_comment_syntax'', Errc 3779), (''fk_incompatible_columns'', Errc 3780),
    (''gr_hold_wait_timeout'', Errc 3781), (''gr_hold_killed'', Errc 3782),
    (''gr_hold_member_status_error'', Errc 3783), (''rpl_encryption_failed_to_fetch_key'', Errc 3784),
    (''rpl_encryption_key_not_found'', Errc 3785), (''rpl_encryption_keyring_invalid_key'', Errc 3786),
    (''rpl_encryption_header_error'', Errc 3787), (''rpl_encryption_failed_to_rotate_logs'', Errc 3788),
    (''rpl_encryption_key_exists_unexpected'', Errc 3789),
    (''rpl_encryption_failed_to_generate_key'', Errc 3790),
    (''rpl_encryption_failed_to_store_key'', Errc 3791)]"

definition errc_enumerators_10 :: "(string \<times> errc) list" where
  "errc_enumerators_10 = [
    (''rpl_encryption_failed_to_remove_key'', Errc 3792),
    (''rpl_encryption_unable_to_change_option'', Errc 3793),
    (''rpl_encryption_master_key_recovery_failed'', Errc 3794),
    (''slow_log_mode_ignored_when_not_logging_to_file'', Errc 3795),
    (''grp_trx_consistency_not_allowed'', Errc 3796), (''grp_trx_consistency_before'', Errc 3797),
    (''grp_trx_consistency_after_on_trx_begin'', Errc 3798),
    (''grp_trx_consistency_begin_not_allowed'', Errc 3799),
    (''functional_index_row_value_is_not_allowed'', Errc 3800),
    (''rpl_encryption_failed_to_encrypt'', Errc 3801), (''page_tracking_not_started'', Errc 3802),
    (''page_tracking_range_not_tracked'', Errc 3803), (''page_tracking_cannot_purge'', Errc 3804),
    (''rpl_encryption_cannot_rotate_binlog_master_key'', Errc 3805),
    (''binlog_master_key_recovery_out_of_combination'', Errc 3806),
    (''binlog_master_key_rotation_fail_to_operate_key'', Errc 3807),
    (''binlog_master_key_rotation_fail_to_rotate_logs'', Errc 3808),
    (''binlog_master_key_rotation_fail_to_reencrypt_log'', Errc 3809),
    (''binlog_master_key_rotation_fail_to_cleanup_unused_keys'', Errc 3810),
    (''binlog_master_key_rotation_fail_to_cleanup_aux_key'', Errc 3811),
    (''non_boolean_expr_for_check_constraint'', Errc 3812),
    (''column_check_constraint_references_other_column'', Errc 3813),
    (''check_constraint_named_function_is_not_allowed'', Errc 3814),
    (''check_constraint_function_is_not_allowed'', Errc 3815), (''check_constraint_variables'', Errc 3816),
    (''check_constraint_row_value'', Errc 3817),
    (''check_constraint_refers_auto_increment_column'', Errc 3818),
    (''check_constraint_violated'', Errc 3819), (''check_constraint_refers_unknown_column'', Errc 3820),
    (''check_constraint_not_found'', Errc 3821), (''check_constraint_dup_name'', Errc 3822),
    (''check_constraint_clause_using_fk_refer_action_column'', Errc 3823),
    (''invalid_encryption_request'', Errc 3825), (''cannot_set_table_encryption'', Errc 3826),
    (''cannot_set_database_encryption'', Errc 3827), (''cannot_set_tablespace_encryption'', Errc 3828),
    (''tablespace_cannot_be_encrypted'', Errc 3829), (''tablespace_cannot_be_decrypted'', Errc 3830),
    (''tablespace_type_unknown'', Errc 3831), (''target_tablespace_unencrypted'', Errc 3832),
    (''cannot_use_encryption_clause'', Errc 3833), (''invalid_multiple_clauses'', Errc 3834),
    (''unsupported_use_of_grant_as'', Errc 3835),
    (''uknown_auth_id_or_access_denied_for_grant_as'', Errc 3836),
    (''dependent_by_functional_index'', Errc 3837), (''plugin_not_early'', Errc 3838),
    (''innodb_redo_log_archive_start_subdir_path'', Errc 3839),
    (''innodb_redo_log_archive_start_timeout'', Errc 3840),
    (''innodb_redo_log_archive_dirs_invalid'', Errc 3841),
    (''innodb_redo_log_archive_label_not_found'', Errc 3842),
    (''innodb_redo_log_archive_dir_empty'', Errc 3843), (''innodb_redo_log_archive_no_such_dir'', Errc 3844),
    (''innodb_redo_log_archive_dir_clash'', Errc 3845),
    (''innodb_redo_log_archive_dir_permissions'', Errc 3846),
    (''innodb_redo_log_archive_file_create'', Errc 3847), (''innodb_redo_log_archive_active'', Errc 3848),
    (''innodb_redo_log_archive_inactive'', Errc 3849), (''innodb_redo_log_archive_failed'', Errc 3850),
    (''innodb_redo_log_archive_session'', Errc 3851), (''std_regex_error'', Errc 3852),
    (''invalid_json_type'', Errc 3853), (''cannot_convert_string'', Errc 3854),
    (''dependent_by_partition_func'', Errc 3855), (''warn_deprecated_float_auto_increment'', Errc 3856),
    (''rpl_cant_stop_slave_while_locked_backup'', Errc 3857), (''warn_deprecated_float_digits'', Errc 3858),
    (''warn_deprecated_float_unsigned'', Errc 3859), (''warn_deprecated_integer_display_width'', Errc 3860),
    (''warn_deprecated_zerofill'', Errc 3861), (''clone_donor'', Errc 3862), (''clone_protocol'', Errc 3863),
    (''clone_donor_version'', Errc 3864), (''clone_os'', Errc 3865), (''clone_platform'', Errc 3866),
    (''clone_charset'', Errc 3867), (''clone_config'', Errc 3868), (''clone_sys_config'', Errc 3869),
    (''clone_plugin_match'', Errc 3870), (''clone_loopback'', Errc 3871), (''clone_encryption'', Errc 3872),
    (''clone_disk_space'', Errc 3873), (''clone_in_progress'', Errc 3874), (''clone_disallowed'', Errc 3875),
    (''cannot_grant_roles_to_anonymous_user'', Errc 3876), (''secondary_engine_plugin'', Errc 3877),
    (''second_password_cannot_be_empty'', Errc 3878), (''db_access_denied'', Errc 3879),
    (''da_auth_id_with_system_user_priv_in_mandatory_roles'', Errc 3880),
    (''da_rpl_gtid_table_cannot_open'', Errc 3881), (''geometry_in_unknown_length_unit'', Errc 3882),
    (''da_plugin_install_error'', Errc 3883), (''no_session_temp'', Errc 3884),
    (''da_unknown_error_number'', Errc 3885), (''column_change_size'', Errc 3886),
    (''regexp_invalid_capture_group_name'', Errc 3887), (''da_ssl_library_error'', Errc 3888),
    (''secondary_engine'', Errc 3889), (''secondary_engine_ddl'', Errc 3890),
    (''incorrect_current_password'', Errc 3891), (''missing_current_password'', Errc 3892),
    (''current_password_not_required'', Errc 3893),
    (''password_cannot_be_retained_on_plugin_change'', Errc 3894),
    (''current_password_cannot_be_retained'', Errc 3895), (''partial_revokes_exist'', Errc 3896),
    (''cannot_grant_system_priv_to_mandatory_role'', Errc 3897), (''xa_replication_filters'', Errc 3898),
    (''unsupported_sql_mode'', Errc 3899), (''regexp_invalid_flag'', Errc 3900),
    (''partial_revoke_and_db_grant_both_exists'', Errc 3901), (''unit_not_found'', Errc 3902),
    (''invalid_json_value_for_func_index'', Errc 3903),
    (''json_value_out_of_range_for_func_index'', Errc 3904), (''exceeded_mv_keys_num'', Errc 3905),
    (''exceeded_mv_keys_space'', Errc 3906), (''functional_index_data_is_too_long'', Errc 3907),
    (''wrong_mvi_value'', Errc 3908), (''warn_func_index_not_applicable'', Errc 3909),
    (''grp_rpl_udf_error'', Errc 3910), (''update_gtid_purged_with_gr'', Errc 3911),
    (''grouping_on_timestamp_in_dst'', Errc 3912), (''table_name_causes_too_long_path'', Errc 3913),
    (''audit_log_insufficient_privilege'', Errc 3914), (''da_grp_rpl_started_auto_rejoin'', Errc 3916),
    (''incomplete_message'', Errc 65536), (''extra_bytes'', Errc 65537),
    (''sequence_number_mismatch'', Errc 65538), (''server_unsupported'', Errc 65539),
    (''protocol_value_error'', Errc 65540), (''unknown_auth_plugin'', Errc 65541),
    (''auth_plugin_requires_ssl'', Errc 65542), (''wrong_num_params'', Errc 65543)]"

definition errc_enumerators :: "(string \<times> errc) list" where
  "errc_enumerators = concat [errc_enumerators_1, errc_enumerators_2, errc_enumerators_3, errc_enumerators_4,
     errc_enumerators_5, errc_enumerators_6, errc_enumerators_7, errc_enumerators_8, errc_enumerators_9,
     errc_enumerators_10]"

section \<open>The descriptions\<close>

text \<open>An entry names an enumerator; here it is the enumerator's value.\<close>

definition all_errors_1 :: "(errc \<times> string) list" where
  "all_errors_1 = [
    (Errc 0, ''No error''), (Errc 1002, ''no''), (Errc 1003, ''yes''), (Errc 1004, ''cant_create_file''),
    (Errc 1005, ''cant_create_table''), (Errc 1006, ''cant_create_db''), (Errc 1007, ''db_create_exists''),
    (Errc 1008, ''db_drop_exists''), (Errc 1010, ''db_drop_rmdir''), (Errc 1012, ''cant_find_system_rec''),
    (Errc 1013, ''cant_get_stat''), (Errc 1015, ''cant_lock''), (Errc 1016, ''cant_open_file''),
    (Errc 1017, ''file_not_found''), (Errc 1018, ''cant_read_dir''), (Errc 1020, ''checkread''),
    (Errc 1022, ''dup_key''), (Errc 1024, ''error_on_read''), (Errc 1025, ''error_on_rename''),
    (Errc 1026, ''error_on_write''), (Errc 1027, ''file_used''), (Errc 1028, ''filsort_abort''),
    (Errc 1030, ''get_errno''), (Errc 1031, ''illegal_ha''), (Errc 1032, ''key_not_found''),
    (Errc 1033, ''not_form_file''), (Errc 1034, ''not_keyfile''), (Errc 1035, ''old_keyfile''),
    (Errc 1036, ''open_as_readonly''), (Errc 1037, ''outofmemory''), (Errc 1038, ''out_of_sortmemory''),
    (Errc 1040, ''con_count_error''), (Errc 1041, ''out_of_resources''), (Errc 1042, ''bad_host_error''),
    (Errc 1043, ''handshake_error''), (Errc 1044, ''dbaccess_denied_error''),
    (Errc 1045, ''access_denied_error''), (Errc 1046, ''no_db_error''), (Errc 1047, ''unknown_com_error''),
    (Errc 1048, ''bad_null_error''), (Errc 1049, ''bad_db_error''), (Errc 1050, ''table_exists_error''),
    (Errc 1051, ''bad_table_error''), (Errc 1052, ''non_uniq_error''), (Errc 1053, ''server_shutdown''),
    (Errc 1054, ''bad_field_error''), (Errc 1055, ''wrong_field_with_group''),
    (Errc 1056, ''wrong_group_field''), (Errc 1057, ''wrong_sum_select''), (Errc 1058, ''wrong_value_count''),
    (Errc 1059, ''too_long_ident''), (Errc 1060, ''dup_fieldname''), (Errc 1061, ''dup_keyname''),
    (Errc 1062, ''dup_entry''), (Errc 1063, ''wrong_field_spec''), (Errc 1064, ''parse_error''),
    (Errc 1065, ''empty_query''), (Errc 1066, ''nonuniq_table''), (Errc 1067, ''invalid_default''),
    (Errc 1068, ''multiple_pri_key''), (Errc 1069, ''too_many_keys''), (Errc 1070, ''too_many_key_parts''),
    (Errc 1071, ''too_long_key''), (Errc 1072, ''key_column_does_not_exits''),
    (Errc 1073, ''blob_used_as_key''), (Errc 1074, ''too_big_fieldlength''), (Errc 1075, ''wrong_auto_key''),
    (Errc 1076, ''ready''), (Errc 1079, ''shutdown_complete''), (Errc 1080, ''forcing_close''),
    (Errc 1081, ''ipsock_error''), (Errc 1082, ''no_such_index''), (Errc 1083, ''wrong_field_terminators''),
    (Errc 1084, ''blobs_and_no_terminated''), (Errc 1085, ''textfile_not_readable''),
    (Errc 1086, ''file_exists_error''), (Errc 1087, ''load_info''), (Errc 1088, ''alter_info''),
    (Errc 1089, ''wrong_sub_key''), (Errc 1090, ''cant_remove_all_fields''),
    (Errc 1091, ''cant_drop_field_or_key''), (Errc 1092, ''insert_info''), (Errc 1093, ''update_table_used''),
    (Errc 1094, ''no_such_thread''), (Errc 1095, ''kill_denied_error''), (Errc 1096, ''no_tables_used''),
    (Errc 1097, ''too_big_set''), (Errc 1098, ''no_unique_logfile''),
    (Errc 1099, ''table_not_locked_for_write''), (Errc 1100, ''table_not_locked''),
    (Errc 1101, ''blob_cant_have_default''), (Errc 1102, ''wrong_db_name''),
    (Errc 1103, ''wrong_table_name''), (Errc 1104, ''too_big_select''), (Errc 1105, ''unknown_error''),
    (Errc 1106, ''unknown_procedure''), (Errc 1107, ''wrong_paramcount_to_procedure''),
    (Errc 1108, ''wrong_parameters_to_procedure''), (Errc 1109, ''unknown_table''),
    (Errc 1110, ''field_specified_twice''), (Errc 1111, ''invalid_group_func_use''),
    (Errc 1112, ''unsupported_extension''), (Errc 1113, ''table_must_have_columns''),
    (Errc 1114, ''record_file_full''), (Errc 1115, ''unknown_character_set''),
    (Errc 1116, ''too_many_tables''), (Errc 1117, ''too_many_fields''), (Errc 1118, ''too_big_rowsize''),
    (Errc 1119, ''stack_overrun''), (Errc 1120, ''wrong_outer_join_unused''),
    (Errc 1121, ''null_column_in_index''), (Errc 1122, ''cant_find_udf''),
    (Errc 1123, ''cant_initialize_udf''), (Errc 1124, ''udf_no_paths''), (Errc 1125, ''udf_exists''),
    (Errc 1126, ''cant_open_library''), (Errc 1127, ''cant_find_dl_entry''),
    (Errc 1128, ''function_not_defined''), (Errc 1129, ''host_is_blocked''),
    (Errc 1130, ''host_not_privileged''), (Errc 1131, ''password_anonymous_user''),
    (Errc 1132, ''password_not_allowed''), (Errc 1133, ''password_no_match''), (Errc 1134, ''update_info''),
    (Errc 1135, ''cant_create_thread''), (Errc 1136, ''wrong_value_count_on_row''),
    (Errc 1137, ''cant_reopen_table''), (Errc 1138, ''invalid_use_of_null''), (Errc 1139, ''regexp_error''),
    (Errc 1140, ''mix_of_group_func_and_fields''), (Errc 1141, ''nonexisting_grant''),
    (Errc 1142, ''tableaccess_denied_error''), (Errc 1143, ''columnaccess_denied_error''),
    (Errc 1144, ''illegal_grant_for_table''), (Errc 1145, ''grant_wrong_host_or_user''),
    (Errc 1146, ''no_such_table''), (Errc 1147, ''nonexisting_table_grant''),
    (Errc 1148, ''not_allowed_command''), (Errc 1149, ''syntax_error''),
    (Errc 1152, ''aborting_connection'')]"

definition all_errors_2 :: "(errc \<times> string) list" where
  "all_errors_2 = [
    (Errc 1153, ''net_packet_too_large''), (Errc 1154, ''net_read_error_from_pipe''),
    (Errc 1155, ''net_fcntl_error''), (Errc 1156, ''net_packets_out_of_order''),
    (Errc 1157, ''net_uncompress_error''), (Errc 1158, ''net_read_error''),
    (Errc 1159, ''net_read_interrupted''), (Errc 1160, ''net_error_on_write''),
    (Errc 1161, ''net_write_interrupted''), (Errc 1162, ''too_long_string''),
    (Errc 1163, ''table_cant_handle_blob''), (Errc 1164, ''table_cant_handle_auto_increment''),
    (Errc 1166, ''wrong_column_name''), (Errc 1167, ''wrong_key_column''), (Errc 1168, ''wrong_mrg_table''),
    (Errc 1169, ''dup_unique''), (Errc 1170, ''blob_key_without_length''),
    (Errc 1171, ''primary_cant_have_null''), (Errc 1172, ''too_many_rows''),
    (Errc 1173, ''requires_primary_key''), (Errc 1175, ''update_without_key_in_safe_mode''),
    (Errc 1176, ''key_does_not_exits''), (Errc 1177, ''check_no_such_table''),
    (Errc 1178, ''check_not_implemented''), (Errc 1179, ''cant_do_this_during_an_transaction''),
    (Errc 1180, ''error_during_commit''), (Errc 1181, ''error_during_rollback''),
    (Errc 1182, ''error_during_flush_logs''), (Errc 1184, ''new_aborting_connection''),
    (Errc 1188, ''master''), (Errc 1189, ''master_net_read''), (Errc 1190, ''master_net_write''),
    (Errc 1191, ''ft_matching_key_not_found''), (Errc 1192, ''lock_or_active_transaction''),
    (Errc 1193, ''unknown_system_variable''), (Errc 1194, ''crashed_on_usage''),
    (Errc 1195, ''crashed_on_repair''), (Errc 1196, ''warning_not_complete_rollback''),
    (Errc 1197, ''trans_cache_full''), (Errc 1199, ''slave_not_running''), (Errc 1200, ''bad_slave''),
    (Errc 1201, ''master_info''), (Errc 1202, ''slave_thread''), (Errc 1203, ''too_many_user_connections''),
    (Errc 1204, ''set_constants_only''), (Errc 1205, ''lock_wait_timeout''), (Errc 1206, ''lock_table_full''),
    (Errc 1207, ''read_only_transaction''), (Errc 1210, ''wrong_arguments''),
    (Errc 1211, ''no_permission_to_create_user''), (Errc 1213, ''lock_deadlock''),
    (Errc 1214, ''table_cant_handle_ft''), (Errc 1215, ''cannot_add_foreign''),
    (Errc 1216, ''no_referenced_row''), (Errc 1217, ''row_is_referenced''),
    (Errc 1218, ''connect_to_master''), (Errc 1220, ''error_when_executing_command''),
    (Errc 1221, ''wrong_usage''), (Errc 1222, ''wrong_number_of_columns_in_select''),
    (Errc 1223, ''cant_update_with_readlock''), (Errc 1224, ''mixing_not_allowed''),
    (Errc 1225, ''dup_argument''), (Errc 1226, ''user_limit_reached''),
    (Errc 1227, ''specific_access_denied_error''), (Errc 1228, ''local_variable''),
    (Errc 1229, ''global_variable''), (Errc 1230, ''no_default''), (Errc 1231, ''wrong_value_for_var''),
    (Errc 1232, ''wrong_type_for_var''), (Errc 1233, ''var_cant_be_read''),
    (Errc 1234, ''cant_use_option_here''), (Errc 1235, ''not_supported_yet''),
    (Errc 1236, ''master_fatal_error_reading_binlog''), (Errc 1237, ''slave_ignored_table''),
    (Errc 1238, ''incorrect_global_local_var''), (Errc 1239, ''wrong_fk_def''),
    (Errc 1240, ''key_ref_do_not_match_table_ref''), (Errc 1241, ''operand_columns''),
    (Errc 1242, ''subquery_no_1_row''), (Errc 1243, ''unknown_stmt_handler''),
    (Errc 1244, ''corrupt_help_db''), (Errc 1246, ''auto_convert''), (Errc 1247, ''illegal_reference''),
    (Errc 1248, ''derived_must_have_alias''), (Errc 1249, ''select_reduced''),
    (Errc 1250, ''tablename_not_allowed_here''), (Errc 1251, ''not_supported_auth_mode''),
    (Errc 1252, ''spatial_cant_have_null''), (Errc 1253, ''collation_charset_mismatch''),
    (Errc 1256, ''too_big_for_uncompress''), (Errc 1257, ''zlib_z_mem_error''),
    (Errc 1258, ''zlib_z_buf_error''), (Errc 1259, ''zlib_z_data_error''),
    (Errc 1260, ''cut_value_group_concat''), (Errc 1261, ''warn_too_few_records''),
    (Errc 1262, ''warn_too_many_records''), (Errc 1263, ''warn_null_to_notnull''),
    (Errc 1264, ''warn_data_out_of_range''), (Errc 1266, ''warn_using_other_handler''),
    (Errc 1267, ''cant_aggregate_2collations''), (Errc 1269, ''revoke_grants''),
    (Errc 1270, ''cant_aggregate_3collations''), (Errc 1271, ''cant_aggregate_ncollations''),
    (Errc 1272, ''variable_is_not_struct''), (Errc 1273, ''unknown_collation''),
    (Errc 1274, ''slave_ignored_ssl_params''), (Errc 1276, ''warn_field_resolved''),
    (Errc 1277, ''bad_slave_until_cond''), (Errc 1278, ''missing_skip_slave''),
    (Errc 1279, ''until_cond_ignored''), (Errc 1280, ''wrong_name_for_index''),
    (Errc 1281, ''wrong_name_for_catalog''), (Errc 1283, ''bad_ft_column''),
    (Errc 1284, ''unknown_key_cache''), (Errc 1285, ''warn_hostname_wont_work''),
    (Errc 1286, ''unknown_storage_engine''), (Errc 1287, ''warn_deprecated_syntax''),
    (Errc 1288, ''non_updatable_table''), (Errc 1289, ''feature_disabled''),
    (Errc 1290, ''option_prevents_statement''), (Errc 1291, ''duplicated_value_in_type''),
    (Errc 1292, ''truncated_wrong_value''), (Errc 1294, ''invalid_on_update''),
    (Errc 1295, ''unsupported_ps''), (Errc 1296, ''get_errmsg''), (Errc 1297, ''get_temporary_errmsg''),
    (Errc 1298, ''unknown_time_zone''), (Errc 1299, ''warn_invalid_timestamp''),
    (Errc 1300, ''invalid_character_string''), (Errc 1301, ''warn_allowed_packet_overflowed''),
    (Errc 1302, ''conflicting_declarations''), (Errc 1303, ''sp_no_recursive_create''),
    (Errc 1304, ''sp_already_exists''), (Errc 1305, ''sp_does_not_exist''), (Errc 1306, ''sp_drop_failed''),
    (Errc 1307, ''sp_store_failed''), (Errc 1308, ''sp_lilabel_mismatch''),
    (Errc 1309, ''sp_label_redefine''), (Errc 1310, ''sp_label_mismatch''), (Errc 1311, ''sp_uninit_var'')]"

definition all_errors_3 :: "(errc \<times> string) list" where
  "all_errors_3 = [
    (Errc 1312, ''sp_badselect''), (Errc 1313, ''sp_badreturn''), (Errc 1314, ''sp_badstatement''),
    (Errc 1315, ''update_log_deprecated_ignored''), (Errc 1316, ''update_log_deprecated_translated''),
    (Errc 1317, ''query_interrupted''), (Errc 1318, ''sp_wrong_no_of_args''),
    (Errc 1319, ''sp_cond_mismatch''), (Errc 1320, ''sp_noreturn''), (Errc 1321, ''sp_noreturnend''),
    (Errc 1322, ''sp_bad_cursor_query''), (Errc 1323, ''sp_bad_cursor_select''),
    (Errc 1324, ''sp_cursor_mismatch''), (Errc 1325, ''sp_cursor_already_open''),
    (Errc 1326, ''sp_cursor_not_open''), (Errc 1327, ''sp_undeclared_var''),
    (Errc 1328, ''sp_wrong_no_of_fetch_args''), (Errc 1329, ''sp_fetch_no_data''),
    (Errc 1330, ''sp_dup_param''), (Errc 1331, ''sp_dup_var''), (Errc 1332, ''sp_dup_cond''),
    (Errc 1333, ''sp_dup_curs''), (Errc 1334, ''sp_cant_alter''), (Errc 1335, ''sp_subselect_nyi''),
    (Errc 1336, ''stmt_not_allowed_in_sf_or_trg''), (Errc 1337, ''sp_varcond_after_curshndlr''),
    (Errc 1338, ''sp_cursor_after_handler''), (Errc 1339, ''sp_case_not_found''),
    (Errc 1340, ''fparser_too_big_file''), (Errc 1341, ''fparser_bad_header''),
    (Errc 1342, ''fparser_eof_in_comment''), (Errc 1343, ''fparser_error_in_parameter''),
    (Errc 1344, ''fparser_eof_in_unknown_parameter''), (Errc 1345, ''view_no_explain''),
    (Errc 1347, ''wrong_object''), (Errc 1348, ''nonupdateable_column''), (Errc 1350, ''view_select_clause''),
    (Errc 1351, ''view_select_variable''), (Errc 1352, ''view_select_tmptable''),
    (Errc 1353, ''view_wrong_list''), (Errc 1354, ''warn_view_merge''),
    (Errc 1355, ''warn_view_without_key''), (Errc 1356, ''view_invalid''), (Errc 1357, ''sp_no_drop_sp''),
    (Errc 1359, ''trg_already_exists''), (Errc 1360, ''trg_does_not_exist''),
    (Errc 1361, ''trg_on_view_or_temp_table''), (Errc 1362, ''trg_cant_change_row''),
    (Errc 1363, ''trg_no_such_row_in_trg''), (Errc 1364, ''no_default_for_field''),
    (Errc 1365, ''division_by_zero''), (Errc 1366, ''truncated_wrong_value_for_field''),
    (Errc 1367, ''illegal_value_for_type''), (Errc 1368, ''view_nonupd_check''),
    (Errc 1369, ''view_check_failed''), (Errc 1370, ''procaccess_denied_error''),
    (Errc 1371, ''relay_log_fail''), (Errc 1373, ''unknown_target_binlog''),
    (Errc 1374, ''io_err_log_index_read''), (Errc 1375, ''binlog_purge_prohibited''),
    (Errc 1376, ''fseek_fail''), (Errc 1377, ''binlog_purge_fatal_err''), (Errc 1378, ''log_in_use''),
    (Errc 1379, ''log_purge_unknown_err''), (Errc 1380, ''relay_log_init''),
    (Errc 1381, ''no_binary_logging''), (Errc 1382, ''reserved_syntax''), (Errc 1390, ''ps_many_param''),
    (Errc 1391, ''key_part_0''), (Errc 1392, ''view_checksum''), (Errc 1393, ''view_multiupdate''),
    (Errc 1394, ''view_no_insert_field_list''), (Errc 1395, ''view_delete_merge_view''),
    (Errc 1396, ''cannot_user''), (Errc 1397, ''xaer_nota''), (Errc 1398, ''xaer_inval''),
    (Errc 1399, ''xaer_rmfail''), (Errc 1400, ''xaer_outside''), (Errc 1401, ''xaer_rmerr''),
    (Errc 1402, ''xa_rbrollback''), (Errc 1403, ''nonexisting_proc_grant''),
    (Errc 1404, ''proc_auto_grant_fail''), (Errc 1405, ''proc_auto_revoke_fail''),
    (Errc 1406, ''data_too_long''), (Errc 1407, ''sp_bad_sqlstate''), (Errc 1408, ''startup''),
    (Errc 1409, ''load_from_fixed_size_rows_to_var''), (Errc 1410, ''cant_create_user_with_grant''),
    (Errc 1411, ''wrong_value_for_type''), (Errc 1412, ''table_def_changed''),
    (Errc 1413, ''sp_dup_handler''), (Errc 1414, ''sp_not_var_arg''), (Errc 1415, ''sp_no_retset''),
    (Errc 1416, ''cant_create_geometry_object''), (Errc 1418, ''binlog_unsafe_routine''),
    (Errc 1419, ''binlog_create_routine_need_super''), (Errc 1421, ''stmt_has_no_open_cursor''),
    (Errc 1422, ''commit_not_allowed_in_sf_or_trg''), (Errc 1423, ''no_default_for_view_field''),
    (Errc 1424, ''sp_no_recursion''), (Errc 1425, ''too_big_scale''), (Errc 1426, ''too_big_precision''),
    (Errc 1427, ''m_bigger_than_d''), (Errc 1428, ''wrong_lock_of_system_table''),
    (Errc 1429, ''connect_to_foreign_data_source''), (Errc 1430, ''query_on_foreign_data_source''),
    (Errc 1431, ''foreign_data_source_doesnt_exist''),
    (Errc 1432, ''foreign_data_string_invalid_cant_create''), (Errc 1433, ''foreign_data_string_invalid''),
    (Errc 1435, ''trg_in_wrong_schema''), (Errc 1436, ''stack_overrun_need_more''),
    (Errc 1437, ''too_long_body''), (Errc 1438, ''warn_cant_drop_default_keycache''),
    (Errc 1439, ''too_big_displaywidth''), (Errc 1440, ''xaer_dupid''),
    (Errc 1441, ''datetime_function_overflow''), (Errc 1442, ''cant_update_used_table_in_sf_or_trg''),
    (Errc 1443, ''view_prevent_update''), (Errc 1444, ''ps_no_recursion''),
    (Errc 1445, ''sp_cant_set_autocommit''), (Errc 1447, ''view_frm_no_user''),
    (Errc 1448, ''view_other_user''), (Errc 1449, ''no_such_user''), (Errc 1450, ''forbid_schema_change''),
    (Errc 1451, ''row_is_referenced_2''), (Errc 1452, ''no_referenced_row_2''),
    (Errc 1453, ''sp_bad_var_shadow''), (Errc 1454, ''trg_no_definer''), (Errc 1455, ''old_file_format''),
    (Errc 1456, ''sp_recursion_limit''), (Errc 1458, ''sp_wrong_name''), (Errc 1459, ''table_needs_upgrade''),
    (Errc 1460, ''sp_no_aggregate''), (Errc 1461, ''max_prepared_stmt_count_reached''),
    (Errc 1462, ''view_recursive''), (Errc 1463, ''non_grouping_field_used''),
    (Errc 1464, ''table_cant_handle_spkeys''), (Errc 1465, ''no_triggers_on_system_schema''),
    (Errc 1466, ''removed_spaces''), (Errc 1467, ''autoinc_read_failed'')]"

definition all_errors_4 :: "(errc \<times> string) list" where
  "all_errors_4 = [
    (Errc 1468, ''username''), (Errc 1469, ''hostname''), (Errc 1470, ''wrong_string_length''),
    (Errc 1471, ''non_insertable_table''), (Errc 1472, ''admin_wrong_mrg_table''),
    (Errc 1473, ''too_high_level_of_nesting_for_select''), (Errc 1474, ''name_becomes_empty''),
    (Errc 1475, ''ambiguous_field_term''), (Errc 1476, ''foreign_server_exists''),
    (Errc 1477, ''foreign_server_doesnt_exist''), (Errc 1478, ''illegal_ha_create_option''),
    (Errc 1479, ''partition_requires_values_error''), (Errc 1480, ''partition_wrong_values_error''),
    (Errc 1481, ''partition_maxvalue_error''), (Errc 1484, ''partition_wrong_no_part_error''),
    (Errc 1485, ''partition_wrong_no_subpart_error''), (Errc 1486, ''wrong_expr_in_partition_func_error''),
    (Errc 1488, ''field_not_found_part_error''), (Errc 1490, ''inconsistent_partition_info_error''),
    (Errc 1491, ''partition_func_not_allowed_error''), (Errc 1492, ''partitions_must_be_defined_error''),
    (Errc 1493, ''range_not_increasing_error''), (Errc 1494, ''inconsistent_type_of_functions_error''),
    (Errc 1495, ''multiple_def_const_in_list_part_error''), (Errc 1496, ''partition_entry_error''),
    (Errc 1497, ''mix_handler_error''), (Errc 1498, ''partition_not_defined_error''),
    (Errc 1499, ''too_many_partitions_error''), (Errc 1500, ''subpartition_error''),
    (Errc 1501, ''cant_create_handler_file''), (Errc 1502, ''blob_field_in_part_func_error''),
    (Errc 1503, ''unique_key_need_all_fields_in_pf''), (Errc 1504, ''no_parts_error''),
    (Errc 1505, ''partition_mgmt_on_nonpartitioned''), (Errc 1506, ''foreign_key_on_partitioned''),
    (Errc 1507, ''drop_partition_non_existent''), (Errc 1508, ''drop_last_partition''),
    (Errc 1509, ''coalesce_only_on_hash_partition''), (Errc 1510, ''reorg_hash_only_on_same_no''),
    (Errc 1511, ''reorg_no_param_error''), (Errc 1512, ''only_on_range_list_partition''),
    (Errc 1513, ''add_partition_subpart_error''), (Errc 1514, ''add_partition_no_new_partition''),
    (Errc 1515, ''coalesce_partition_no_partition''), (Errc 1516, ''reorg_partition_not_exist''),
    (Errc 1517, ''same_name_partition''), (Errc 1518, ''no_binlog_error''),
    (Errc 1519, ''consecutive_reorg_partitions''), (Errc 1520, ''reorg_outside_range''),
    (Errc 1521, ''partition_function_failure''), (Errc 1523, ''limited_part_range''),
    (Errc 1524, ''plugin_is_not_loaded''), (Errc 1525, ''wrong_value''),
    (Errc 1526, ''no_partition_for_given_value''), (Errc 1527, ''filegroup_option_only_once''),
    (Errc 1528, ''create_filegroup_failed''), (Errc 1529, ''drop_filegroup_failed''),
    (Errc 1530, ''tablespace_auto_extend_error''), (Errc 1531, ''wrong_size_number''),
    (Errc 1532, ''size_overflow_error''), (Errc 1533, ''alter_filegroup_failed''),
    (Errc 1534, ''binlog_row_logging_failed''), (Errc 1537, ''event_already_exists''),
    (Errc 1539, ''event_does_not_exist''), (Errc 1542, ''event_interval_not_positive_or_too_big''),
    (Errc 1543, ''event_ends_before_starts''), (Errc 1544, ''event_exec_time_in_the_past''),
    (Errc 1551, ''event_same_name''), (Errc 1553, ''drop_index_fk''),
    (Errc 1554, ''warn_deprecated_syntax_with_ver''), (Errc 1556, ''cant_lock_log_table''),
    (Errc 1557, ''foreign_duplicate_key_old_unused''), (Errc 1558, ''col_count_doesnt_match_please_update''),
    (Errc 1560, ''stored_function_prevents_switch_binlog_format''), (Errc 1562, ''partition_no_temporary''),
    (Errc 1563, ''partition_const_domain_error''), (Errc 1564, ''partition_function_is_not_allowed''),
    (Errc 1566, ''null_in_values_less_than''), (Errc 1567, ''wrong_partition_name''),
    (Errc 1568, ''cant_change_tx_characteristics''), (Errc 1569, ''dup_entry_autoincrement_case''),
    (Errc 1571, ''event_set_var_error''), (Errc 1572, ''partition_merge_error''),
    (Errc 1575, ''base64_decode_error''), (Errc 1576, ''event_recursion_forbidden''),
    (Errc 1578, ''only_integers_allowed''), (Errc 1579, ''unsuported_log_engine''),
    (Errc 1580, ''bad_log_statement''), (Errc 1581, ''cant_rename_log_table''),
    (Errc 1582, ''wrong_paramcount_to_native_fct''), (Errc 1583, ''wrong_parameters_to_native_fct''),
    (Errc 1584, ''wrong_parameters_to_stored_fct''), (Errc 1585, ''native_fct_name_collision''),
    (Errc 1586, ''dup_entry_with_key_name''), (Errc 1587, ''binlog_purge_emfile''),
    (Errc 1588, ''event_cannot_create_in_the_past''), (Errc 1589, ''event_cannot_alter_in_the_past''),
    (Errc 1591, ''no_partition_for_given_value_silent''), (Errc 1592, ''binlog_unsafe_statement''),
    (Errc 1593, ''binlog_fatal_error''), (Errc 1598, ''binlog_logging_impossible''),
    (Errc 1599, ''view_no_creation_ctx''), (Errc 1600, ''view_invalid_creation_ctx''),
    (Errc 1602, ''trg_corrupted_file''), (Errc 1603, ''trg_no_creation_ctx''),
    (Errc 1604, ''trg_invalid_creation_ctx''), (Errc 1605, ''event_invalid_creation_ctx''),
    (Errc 1606, ''trg_cant_open_table''),
    (Errc 1609, ''no_format_description_event_before_binlog_statement''),
    (Errc 1610, ''slave_corrupt_event''), (Errc 1612, ''log_purge_no_file''), (Errc 1613, ''xa_rbtimeout''),
    (Errc 1614, ''xa_rbdeadlock''), (Errc 1615, ''need_reprepare''), (Errc 1619, ''plugin_delete_builtin''),
    (Errc 1621, ''variable_is_readonly''), (Errc 1622, ''warn_engine_transaction_rollback''),
    (Errc 1624, ''slave_heartbeat_value_out_of_range''), (Errc 1625, ''ndb_replication_schema_error''),
    (Errc 1626, ''conflict_fn_parse_error''), (Errc 1627, ''exceptions_write_error''),
    (Errc 1628, ''too_long_table_comment''), (Errc 1629, ''too_long_field_comment''),
    (Errc 1630, ''func_inexistent_name_collision''), (Errc 1631, ''database_name''),
    (Errc 1632, ''table_name''), (Errc 1633, ''partition_name''), (Errc 1634, ''subpartition_name''),
    (Errc 1635, ''temporary_name''), (Errc 1636, ''renamed_name''), (Errc 1637, ''too_many_concurrent_trxs''),
    (Errc 1639, ''debug_sync_timeout''), (Errc 1640, ''debug_sync_hit_limit''),
    (Errc 1641, ''dup_signal_set''), (Errc 1642, ''signal_warn''), (Errc 1643, ''signal_not_found''),
    (Errc 1644, ''signal_exception''), (Errc 1645, ''resignal_without_active_handler''),
    (Errc 1646, ''signal_bad_condition_type''), (Errc 1648, ''cond_item_too_long'')]"

definition all_errors_5 :: "(errc \<times> string) list" where
  "all_errors_5 = [
    (Errc 1649, ''unknown_locale''), (Errc 1650, ''slave_ignore_server_ids''),
    (Errc 1652, ''same_name_partition_field''), (Errc 1653, ''partition_column_list_error''),
    (Errc 1654, ''wrong_type_column_value_error''), (Errc 1655, ''too_many_partition_func_fields_error''),
    (Errc 1656, ''maxvalue_in_values_in''), (Errc 1657, ''too_many_values_error''),
    (Errc 1658, ''row_single_partition_field_error''),
    (Errc 1659, ''field_type_not_allowed_as_partition_field''), (Errc 1660, ''partition_fields_too_long''),
    (Errc 1661, ''binlog_row_engine_and_stmt_engine''), (Errc 1662, ''binlog_row_mode_and_stmt_engine''),
    (Errc 1663, ''binlog_unsafe_and_stmt_engine''), (Errc 1664, ''binlog_row_injection_and_stmt_engine''),
    (Errc 1665, ''binlog_stmt_mode_and_row_engine''), (Errc 1666, ''binlog_row_injection_and_stmt_mode''),
    (Errc 1667, ''binlog_multiple_engines_and_self_logging_engine''), (Errc 1668, ''binlog_unsafe_limit''),
    (Errc 1670, ''binlog_unsafe_system_table''), (Errc 1671, ''binlog_unsafe_autoinc_columns''),
    (Errc 1672, ''binlog_unsafe_udf''), (Errc 1673, ''binlog_unsafe_system_variable''),
    (Errc 1674, ''binlog_unsafe_system_function''), (Errc 1675, ''binlog_unsafe_nontrans_after_trans''),
    (Errc 1676, ''message_and_statement''), (Errc 1678, ''slave_cant_create_conversion''),
    (Errc 1679, ''inside_transaction_prevents_switch_binlog_format''), (Errc 1680, ''path_length''),
    (Errc 1681, ''warn_deprecated_syntax_no_replacement''), (Errc 1682, ''wrong_native_table_structure''),
    (Errc 1683, ''wrong_perfschema_usage''), (Errc 1684, ''warn_i_s_skipped_table''),
    (Errc 1685, ''inside_transaction_prevents_switch_binlog_direct''),
    (Errc 1686, ''stored_function_prevents_switch_binlog_direct''),
    (Errc 1687, ''spatial_must_have_geom_col''), (Errc 1688, ''too_long_index_comment''),
    (Errc 1689, ''lock_aborted''), (Errc 1690, ''data_out_of_range''),
    (Errc 1691, ''wrong_spvar_type_in_limit''),
    (Errc 1692, ''binlog_unsafe_multiple_engines_and_self_logging_engine''),
    (Errc 1693, ''binlog_unsafe_mixed_statement''),
    (Errc 1694, ''inside_transaction_prevents_switch_sql_log_bin''),
    (Errc 1695, ''stored_function_prevents_switch_sql_log_bin''), (Errc 1696, ''failed_read_from_par_file''),
    (Errc 1697, ''values_is_not_int_type_error''), (Errc 1698, ''access_denied_no_password_error''),
    (Errc 1699, ''set_password_auth_plugin''), (Errc 1701, ''truncate_illegal_fk''),
    (Errc 1702, ''plugin_is_permanent''), (Errc 1703, ''slave_heartbeat_value_out_of_range_min''),
    (Errc 1704, ''slave_heartbeat_value_out_of_range_max''), (Errc 1705, ''stmt_cache_full''),
    (Errc 1706, ''multi_update_key_conflict''), (Errc 1707, ''table_needs_rebuild''),
    (Errc 1709, ''index_column_too_long''), (Errc 1710, ''error_in_trigger_body''),
    (Errc 1711, ''error_in_unknown_trigger_body''), (Errc 1712, ''index_corrupt''),
    (Errc 1713, ''undo_record_too_big''), (Errc 1714, ''binlog_unsafe_insert_ignore_select''),
    (Errc 1715, ''binlog_unsafe_insert_select_update''), (Errc 1716, ''binlog_unsafe_replace_select''),
    (Errc 1717, ''binlog_unsafe_create_ignore_select''), (Errc 1718, ''binlog_unsafe_create_replace_select''),
    (Errc 1719, ''binlog_unsafe_update_ignore''), (Errc 1720, ''plugin_no_uninstall''),
    (Errc 1721, ''plugin_no_install''), (Errc 1722, ''binlog_unsafe_write_autoinc_select''),
    (Errc 1723, ''binlog_unsafe_create_select_autoinc''), (Errc 1724, ''binlog_unsafe_insert_two_keys''),
    (Errc 1725, ''table_in_fk_check''), (Errc 1726, ''unsupported_engine''),
    (Errc 1727, ''binlog_unsafe_autoinc_not_first''), (Errc 1728, ''cannot_load_from_table_v2''),
    (Errc 1729, ''master_delay_value_out_of_range''),
    (Errc 1730, ''only_fd_and_rbr_events_allowed_in_binlog_statement''),
    (Errc 1731, ''partition_exchange_different_option''), (Errc 1732, ''partition_exchange_part_table''),
    (Errc 1733, ''partition_exchange_temp_table''), (Errc 1734, ''partition_instead_of_subpartition''),
    (Errc 1735, ''unknown_partition''), (Errc 1736, ''tables_different_metadata''),
    (Errc 1737, ''row_does_not_match_partition''), (Errc 1738, ''binlog_cache_size_greater_than_max''),
    (Errc 1739, ''warn_index_not_applicable''), (Errc 1740, ''partition_exchange_foreign_key''),
    (Errc 1742, ''rpl_info_data_too_long''), (Errc 1745, ''binlog_stmt_cache_size_greater_than_max''),
    (Errc 1746, ''cant_update_table_in_create_table_select''),
    (Errc 1747, ''partition_clause_on_nonpartitioned''),
    (Errc 1748, ''row_does_not_match_given_partition_set''),
    (Errc 1750, ''change_rpl_info_repository_failure''),
    (Errc 1751, ''warning_not_complete_rollback_with_created_temp_table''),
    (Errc 1752, ''warning_not_complete_rollback_with_dropped_temp_table''),
    (Errc 1753, ''mts_feature_is_not_supported''), (Errc 1754, ''mts_updated_dbs_greater_max''),
    (Errc 1755, ''mts_cant_parallel''), (Errc 1756, ''mts_inconsistent_data''),
    (Errc 1757, ''fulltext_not_supported_with_partitioning''), (Errc 1758, ''da_invalid_condition_number''),
    (Errc 1759, ''insecure_plain_text''), (Errc 1760, ''insecure_change_master''),
    (Errc 1761, ''foreign_duplicate_key_with_child_info''),
    (Errc 1762, ''foreign_duplicate_key_without_child_info''), (Errc 1763, ''sqlthread_with_secure_slave''),
    (Errc 1764, ''table_has_no_ft''), (Errc 1765, ''variable_not_settable_in_sf_or_trigger''),
    (Errc 1766, ''variable_not_settable_in_transaction''),
    (Errc 1769, ''set_statement_cannot_invoke_function''),
    (Errc 1770, ''gtid_next_cant_be_automatic_if_gtid_next_list_is_non_null''),
    (Errc 1772, ''malformed_gtid_set_specification''), (Errc 1773, ''malformed_gtid_set_encoding''),
    (Errc 1774, ''malformed_gtid_specification''), (Errc 1775, ''gno_exhausted''),
    (Errc 1776, ''bad_slave_auto_position''), (Errc 1777, ''auto_position_requires_gtid_mode_not_off''),
    (Errc 1778, ''cant_do_implicit_commit_in_trx_when_gtid_next_is_set''),
    (Errc 1779, ''gtid_mode_on_requires_enforce_gtid_consistency_on''),
    (Errc 1781, ''cant_set_gtid_next_to_gtid_when_gtid_mode_is_off''),
    (Errc 1782, ''cant_set_gtid_next_to_anonymous_when_gtid_mode_is_on''),
    (Errc 1783, ''cant_set_gtid_next_list_to_non_null_when_gtid_mode_is_off''),
    (Errc 1785, ''gtid_unsafe_non_transactional_table''), (Errc 1786, ''gtid_unsafe_create_select''),
    (Errc 1788, ''gtid_mode_can_only_change_one_step_at_a_time''),
    (Errc 1789, ''master_has_purged_required_gtids''), (Errc 1790, ''cant_set_gtid_next_when_owning_gtid''),
    (Errc 1791, ''unknown_explain_format''), (Errc 1792, ''cant_execute_in_read_only_transaction''),
    (Errc 1793, ''too_long_table_partition_comment''), (Errc 1794, ''slave_configuration''),
    (Errc 1795, ''innodb_ft_limit''), (Errc 1796, ''innodb_no_ft_temp_table''),
    (Errc 1797, ''innodb_ft_wrong_docid_column''), (Errc 1798, ''innodb_ft_wrong_docid_index''),
    (Errc 1799, ''innodb_online_log_too_big''), (Errc 1800, ''unknown_alter_algorithm''),
    (Errc 1801, ''unknown_alter_lock''), (Errc 1802, ''mts_change_master_cant_run_with_gaps''),
    (Errc 1803, ''mts_recovery_failure'')]"

definition all_errors_6 :: "(errc \<times> string) list" where
  "all_errors_6 = [
    (Errc 1804, ''mts_reset_workers''), (Errc 1805, ''col_count_doesnt_match_corrupted_v2''),
    (Errc 1806, ''slave_silent_retry_transaction''), (Errc 1807, ''discard_fk_checks_running''),
    (Errc 1808, ''table_schema_mismatch''), (Errc 1809, ''table_in_system_tablespace''),
    (Errc 1810, ''io_read_error''), (Errc 1811, ''io_write_error''), (Errc 1812, ''tablespace_missing''),
    (Errc 1813, ''tablespace_exists''), (Errc 1814, ''tablespace_discarded''),
    (Errc 1815, ''internal_error''), (Errc 1816, ''innodb_import_error''),
    (Errc 1817, ''innodb_index_corrupt''), (Errc 1818, ''invalid_year_column_length''),
    (Errc 1819, ''not_valid_password''), (Errc 1820, ''must_change_password''),
    (Errc 1821, ''fk_no_index_child''), (Errc 1822, ''fk_no_index_parent''),
    (Errc 1823, ''fk_fail_add_system''), (Errc 1824, ''fk_cannot_open_parent''),
    (Errc 1825, ''fk_incorrect_option''), (Errc 1826, ''fk_dup_name''), (Errc 1827, ''password_format''),
    (Errc 1828, ''fk_column_cannot_drop''), (Errc 1829, ''fk_column_cannot_drop_child''),
    (Errc 1830, ''fk_column_not_null''), (Errc 1831, ''dup_index''), (Errc 1832, ''fk_column_cannot_change''),
    (Errc 1833, ''fk_column_cannot_change_child''), (Errc 1835, ''malformed_packet''),
    (Errc 1836, ''read_only_mode''), (Errc 1837, ''gtid_next_type_undefined_gtid''),
    (Errc 1838, ''variable_not_settable_in_sp''),
    (Errc 1840, ''cant_set_gtid_purged_when_gtid_executed_is_not_empty''),
    (Errc 1841, ''cant_set_gtid_purged_when_owned_gtids_is_not_empty''),
    (Errc 1842, ''gtid_purged_was_changed''), (Errc 1843, ''gtid_executed_was_changed''),
    (Errc 1844, ''binlog_stmt_mode_and_no_repl_tables''), (Errc 1845, ''alter_operation_not_supported''),
    (Errc 1846, ''alter_operation_not_supported_reason''),
    (Errc 1847, ''alter_operation_not_supported_reason_copy''),
    (Errc 1848, ''alter_operation_not_supported_reason_partition''),
    (Errc 1849, ''alter_operation_not_supported_reason_fk_rename''),
    (Errc 1850, ''alter_operation_not_supported_reason_column_type''),
    (Errc 1851, ''alter_operation_not_supported_reason_fk_check''),
    (Errc 1853, ''alter_operation_not_supported_reason_nopk''),
    (Errc 1854, ''alter_operation_not_supported_reason_autoinc''),
    (Errc 1855, ''alter_operation_not_supported_reason_hidden_fts''),
    (Errc 1856, ''alter_operation_not_supported_reason_change_fts''),
    (Errc 1857, ''alter_operation_not_supported_reason_fts''),
    (Errc 1858, ''sql_slave_skip_counter_not_settable_in_gtid_mode''), (Errc 1859, ''dup_unknown_in_index''),
    (Errc 1860, ''ident_causes_too_long_path''),
    (Errc 1861, ''alter_operation_not_supported_reason_not_null''),
    (Errc 1862, ''must_change_password_login''), (Errc 1863, ''row_in_wrong_partition''),
    (Errc 1864, ''mts_event_bigger_pending_jobs_size_max''), (Errc 1866, ''binlog_logical_corruption''),
    (Errc 1867, ''warn_purge_log_in_use''), (Errc 1868, ''warn_purge_log_is_active''),
    (Errc 1869, ''auto_increment_conflict''), (Errc 1871, ''slave_mi_init_repository''),
    (Errc 1872, ''slave_rli_init_repository''), (Errc 1873, ''access_denied_change_user_error''),
    (Errc 1874, ''innodb_read_only''), (Errc 1875, ''stop_slave_sql_thread_timeout''),
    (Errc 1876, ''stop_slave_io_thread_timeout''), (Errc 1877, ''table_corrupt''),
    (Errc 1878, ''temp_file_write_failure''), (Errc 1879, ''innodb_ft_aux_not_hex_id''),
    (Errc 1880, ''old_temporals_upgraded''), (Errc 1881, ''innodb_forced_recovery''),
    (Errc 1882, ''aes_invalid_iv''), (Errc 1883, ''plugin_cannot_be_uninstalled''),
    (Errc 1884, ''gtid_unsafe_binlog_splittable_statement_and_assigned_gtid''),
    (Errc 1885, ''slave_has_more_gtids_than_master''), (Errc 1886, ''missing_key''),
    (Errc 3000, ''file_corrupt''), (Errc 3001, ''error_on_master''),
    (Errc 3003, ''storage_engine_not_loaded''), (Errc 3004, ''get_stacked_da_without_active_handler''),
    (Errc 3005, ''warn_legacy_syntax_converted''), (Errc 3006, ''binlog_unsafe_fulltext_plugin''),
    (Errc 3007, ''cannot_discard_temporary_table''), (Errc 3008, ''fk_depth_exceeded''),
    (Errc 3009, ''col_count_doesnt_match_please_update_v2''),
    (Errc 3010, ''warn_trigger_doesnt_have_created''), (Errc 3011, ''referenced_trg_does_not_exist''),
    (Errc 3012, ''explain_not_supported''), (Errc 3013, ''invalid_field_size''),
    (Errc 3014, ''missing_ha_create_option''), (Errc 3015, ''engine_out_of_memory''),
    (Errc 3016, ''password_expire_anonymous_user''), (Errc 3017, ''slave_sql_thread_must_stop''),
    (Errc 3018, ''no_ft_materialized_subquery''), (Errc 3019, ''innodb_undo_log_full''),
    (Errc 3020, ''invalid_argument_for_logarithm''), (Errc 3021, ''slave_channel_io_thread_must_stop''),
    (Errc 3022, ''warn_open_temp_tables_must_be_zero''), (Errc 3023, ''warn_only_master_log_file_no_pos''),
    (Errc 3024, ''query_timeout''), (Errc 3025, ''non_ro_select_disable_timer''),
    (Errc 3026, ''dup_list_entry''), (Errc 3028, ''aggregate_order_for_union''),
    (Errc 3029, ''aggregate_order_non_agg_query''), (Errc 3030, ''slave_worker_stopped_previous_thd_error''),
    (Errc 3031, ''dont_support_slave_preserve_commit_order''), (Errc 3032, ''server_offline_mode''),
    (Errc 3033, ''gis_different_srids''), (Errc 3034, ''gis_unsupported_argument''),
    (Errc 3035, ''gis_unknown_error''), (Errc 3036, ''gis_unknown_exception''),
    (Errc 3037, ''gis_invalid_data''), (Errc 3038, ''boost_geometry_empty_input_exception''),
    (Errc 3039, ''boost_geometry_centroid_exception''),
    (Errc 3040, ''boost_geometry_overlay_invalid_input_exception''),
    (Errc 3041, ''boost_geometry_turn_info_exception''),
    (Errc 3042, ''boost_geometry_self_intersection_point_exception''),
    (Errc 3043, ''boost_geometry_unknown_exception''), (Errc 3044, ''std_bad_alloc_error''),
    (Errc 3045, ''std_domain_error''), (Errc 3046, ''std_length_error''),
    (Errc 3047, ''std_invalid_argument''), (Errc 3048, ''std_out_of_range_error''),
    (Errc 3049, ''std_overflow_error''), (Errc 3050, ''std_range_error''),
    (Errc 3051, ''std_underflow_error''), (Errc 3052, ''std_logic_error''),
    (Errc 3053, ''std_runtime_error''), (Errc 3054, ''std_unknown_exception''),
    (Errc 3055, ''gis_data_wrong_endianess''), (Errc 3056, ''change_master_password_length''),
    (Errc 3057, ''user_lock_wrong_name''), (Errc 3058, ''user_lock_deadlock''),
    (Errc 3059, ''replace_inaccessible_rows''), (Errc 3060, ''alter_operation_not_supported_reason_gis''),
    (Errc 3061, ''illegal_user_var''), (Errc 3062, ''gtid_mode_off''), (Errc 3064, ''incorrect_type'')]"

definition all_errors_7 :: "(errc \<times> string) list" where
  "all_errors_7 = [
    (Errc 3065, ''field_in_order_not_select''), (Errc 3066, ''aggregate_in_order_not_select''),
    (Errc 3067, ''invalid_rpl_wild_table_filter_pattern''), (Errc 3068, ''net_ok_packet_too_large''),
    (Errc 3069, ''invalid_json_data''), (Errc 3070, ''invalid_geojson_missing_member''),
    (Errc 3071, ''invalid_geojson_wrong_type''), (Errc 3072, ''invalid_geojson_unspecified''),
    (Errc 3073, ''dimension_unsupported''), (Errc 3074, ''slave_channel_does_not_exist''),
    (Errc 3076, ''slave_channel_name_invalid_or_too_long''),
    (Errc 3077, ''slave_new_channel_wrong_repository''), (Errc 3079, ''slave_multiple_channels_cmd''),
    (Errc 3080, ''slave_max_channels_exceeded''), (Errc 3081, ''slave_channel_must_stop''),
    (Errc 3082, ''slave_channel_not_running''), (Errc 3083, ''slave_channel_was_running''),
    (Errc 3084, ''slave_channel_was_not_running''), (Errc 3085, ''slave_channel_sql_thread_must_stop''),
    (Errc 3086, ''slave_channel_sql_skip_counter''), (Errc 3087, ''wrong_field_with_group_v2''),
    (Errc 3088, ''mix_of_group_func_and_fields_v2''), (Errc 3089, ''warn_deprecated_sysvar_update''),
    (Errc 3090, ''warn_deprecated_sqlmode''), (Errc 3091, ''cannot_log_partial_drop_database_with_gtid''),
    (Errc 3092, ''group_replication_configuration''), (Errc 3093, ''group_replication_running''),
    (Errc 3094, ''group_replication_applier_init_error''),
    (Errc 3095, ''group_replication_stop_applier_thread_timeout''),
    (Errc 3096, ''group_replication_communication_layer_session_error''),
    (Errc 3097, ''group_replication_communication_layer_join_error''),
    (Errc 3098, ''before_dml_validation_error''), (Errc 3099, ''prevents_variable_without_rbr''),
    (Errc 3100, ''run_hook_error''), (Errc 3101, ''transaction_rollback_during_commit''),
    (Errc 3102, ''generated_column_function_is_not_allowed''),
    (Errc 3103, ''unsupported_alter_inplace_on_virtual_column''),
    (Errc 3104, ''wrong_fk_option_for_generated_column''),
    (Errc 3105, ''non_default_value_for_generated_column''),
    (Errc 3106, ''unsupported_action_on_generated_column''), (Errc 3107, ''generated_column_non_prior''),
    (Errc 3108, ''dependent_by_generated_column''), (Errc 3109, ''generated_column_ref_auto_inc''),
    (Errc 3110, ''feature_not_available''), (Errc 3111, ''cant_set_gtid_mode''),
    (Errc 3112, ''cant_use_auto_position_with_gtid_mode_off''),
    (Errc 3116, ''cant_enforce_gtid_consistency_with_ongoing_gtid_violating_tx''),
    (Errc 3117, ''enforce_gtid_consistency_warn_with_ongoing_gtid_violating_tx''),
    (Errc 3118, ''account_has_been_locked''), (Errc 3119, ''wrong_tablespace_name''),
    (Errc 3120, ''tablespace_is_not_empty''), (Errc 3121, ''wrong_file_name''),
    (Errc 3122, ''boost_geometry_inconsistent_turns_exception''),
    (Errc 3123, ''warn_optimizer_hint_syntax_error''), (Errc 3124, ''warn_bad_max_execution_time''),
    (Errc 3125, ''warn_unsupported_max_execution_time''), (Errc 3126, ''warn_conflicting_hint''),
    (Errc 3127, ''warn_unknown_qb_name''), (Errc 3128, ''unresolved_hint_name''),
    (Errc 3129, ''warn_on_modifying_gtid_executed_table''),
    (Errc 3130, ''pluggable_protocol_command_not_supported''), (Errc 3131, ''locking_service_wrong_name''),
    (Errc 3132, ''locking_service_deadlock''), (Errc 3133, ''locking_service_timeout''),
    (Errc 3134, ''gis_max_points_in_geometry_overflowed''), (Errc 3135, ''sql_mode_merged''),
    (Errc 3136, ''vtoken_plugin_token_mismatch''), (Errc 3137, ''vtoken_plugin_token_not_found''),
    (Errc 3138, ''cant_set_variable_when_owning_gtid''), (Errc 3139, ''slave_channel_operation_not_allowed''),
    (Errc 3140, ''invalid_json_text''), (Errc 3141, ''invalid_json_text_in_param''),
    (Errc 3142, ''invalid_json_binary_data''), (Errc 3143, ''invalid_json_path''),
    (Errc 3144, ''invalid_json_charset''), (Errc 3145, ''invalid_json_charset_in_function''),
    (Errc 3146, ''invalid_type_for_json''), (Errc 3147, ''invalid_cast_to_json''),
    (Errc 3148, ''invalid_json_path_charset''), (Errc 3149, ''invalid_json_path_wildcard''),
    (Errc 3150, ''json_value_too_big''), (Errc 3151, ''json_key_too_big''), (Errc 3152, ''json_used_as_key''),
    (Errc 3153, ''json_vacuous_path''), (Errc 3154, ''json_bad_one_or_all_arg''),
    (Errc 3155, ''numeric_json_value_out_of_range''), (Errc 3156, ''invalid_json_value_for_cast''),
    (Errc 3157, ''json_document_too_deep''), (Errc 3158, ''json_document_null_key''),
    (Errc 3159, ''secure_transport_required''), (Errc 3160, ''no_secure_transports_configured''),
    (Errc 3161, ''disabled_storage_engine''), (Errc 3162, ''user_does_not_exist''),
    (Errc 3163, ''user_already_exists''), (Errc 3164, ''audit_api_abort''),
    (Errc 3165, ''invalid_json_path_array_cell''), (Errc 3166, ''bufpool_resize_inprogress''),
    (Errc 3167, ''feature_disabled_see_doc''), (Errc 3168, ''server_isnt_available''),
    (Errc 3169, ''session_was_killed''), (Errc 3170, ''capacity_exceeded''),
    (Errc 3171, ''capacity_exceeded_in_range_optimizer''),
    (Errc 3173, ''cant_wait_for_executed_gtid_set_while_owning_a_gtid''),
    (Errc 3174, ''cannot_add_foreign_base_col_virtual''),
    (Errc 3175, ''cannot_create_virtual_index_constraint''),
    (Errc 3176, ''error_on_modifying_gtid_executed_table''), (Errc 3177, ''lock_refused_by_engine''),
    (Errc 3178, ''unsupported_alter_online_on_virtual_column''),
    (Errc 3179, ''master_key_rotation_not_supported_by_se''),
    (Errc 3181, ''master_key_rotation_binlog_failed''), (Errc 3182, ''master_key_rotation_se_unavailable''),
    (Errc 3183, ''tablespace_cannot_encrypt''), (Errc 3184, ''invalid_encryption_option''),
    (Errc 3185, ''cannot_find_key_in_keyring''), (Errc 3186, ''capacity_exceeded_in_parser''),
    (Errc 3187, ''unsupported_alter_encryption_inplace''), (Errc 3188, ''keyring_udf_keyring_service_error''),
    (Errc 3189, ''user_column_old_length''), (Errc 3190, ''cant_reset_master''),
    (Errc 3191, ''group_replication_max_group_size''), (Errc 3192, ''cannot_add_foreign_base_col_stored''),
    (Errc 3193, ''table_referenced''), (Errc 3197, ''xa_retry''),
    (Errc 3198, ''keyring_aws_udf_aws_kms_error''), (Errc 3199, ''binlog_unsafe_xa''),
    (Errc 3200, ''udf_error''), (Errc 3201, ''keyring_migration_failure''),
    (Errc 3202, ''keyring_access_denied_error''), (Errc 3203, ''keyring_migration_status''),
    (Errc 3218, ''audit_log_udf_read_invalid_max_array_length_arg_value''),
    (Errc 3500, ''unsupport_compressed_temporary_table''), (Errc 3501, ''acl_operation_failed''),
    (Errc 3502, ''unsupported_index_algorithm''), (Errc 3503, ''no_such_db''), (Errc 3504, ''too_big_enum''),
    (Errc 3505, ''too_long_set_enum_value''), (Errc 3506, ''invalid_dd_object''),
    (Errc 3507, ''updating_dd_table''), (Errc 3508, ''invalid_dd_object_id''),
    (Errc 3509, ''invalid_dd_object_name'')]"

definition all_errors_8 :: "(errc \<times> string) list" where
  "all_errors_8 = [
    (Errc 3510, ''tablespace_missing_with_name''), (Errc 3511, ''too_long_routine_comment''),
    (Errc 3512, ''sp_load_failed''), (Errc 3513, ''invalid_bitwise_operands_size''),
    (Errc 3514, ''invalid_bitwise_aggregate_operands_size''), (Errc 3515, ''warn_unsupported_hint''),
    (Errc 3516, ''unexpected_geometry_type''), (Errc 3517, ''srs_parse_error''),
    (Errc 3518, ''srs_proj_parameter_missing''), (Errc 3519, ''warn_srs_not_found''),
    (Errc 3520, ''srs_not_cartesian''), (Errc 3521, ''srs_not_cartesian_undefined''),
    (Errc 3522, ''pk_index_cant_be_invisible''), (Errc 3523, ''unknown_authid''),
    (Errc 3524, ''failed_role_grant''), (Errc 3525, ''open_role_tables''),
    (Errc 3526, ''failed_default_roles''), (Errc 3527, ''components_no_scheme''),
    (Errc 3528, ''components_no_scheme_service''), (Errc 3529, ''components_cant_load''),
    (Errc 3530, ''role_not_granted''), (Errc 3531, ''failed_revoke_role''), (Errc 3532, ''rename_role''),
    (Errc 3533, ''components_cant_acquire_service_implementation''),
    (Errc 3534, ''components_cant_satisfy_dependency''),
    (Errc 3535, ''components_load_cant_register_service_implementation''),
    (Errc 3536, ''components_load_cant_initialize''), (Errc 3537, ''components_unload_not_loaded''),
    (Errc 3538, ''components_unload_cant_deinitialize''), (Errc 3539, ''components_cant_release_service''),
    (Errc 3540, ''components_unload_cant_unregister_service''), (Errc 3541, ''components_cant_unload''),
    (Errc 3542, ''warn_unload_the_not_persisted''), (Errc 3543, ''component_table_incorrect''),
    (Errc 3544, ''component_manipulate_row_failed''), (Errc 3545, ''components_unload_duplicate_in_group''),
    (Errc 3546, ''cant_set_gtid_purged_due_sets_constraints''),
    (Errc 3547, ''cannot_lock_user_management_caches''), (Errc 3548, ''srs_not_found''),
    (Errc 3549, ''variable_not_persisted''), (Errc 3550, ''is_query_invalid_clause''),
    (Errc 3551, ''unable_to_store_statistics''), (Errc 3552, ''no_system_schema_access''),
    (Errc 3553, ''no_system_tablespace_access''), (Errc 3554, ''no_system_table_access''),
    (Errc 3555, ''no_system_table_access_for_dictionary_table''),
    (Errc 3556, ''no_system_table_access_for_system_table''),
    (Errc 3557, ''no_system_table_access_for_table''), (Errc 3558, ''invalid_option_key''),
    (Errc 3559, ''invalid_option_value''), (Errc 3560, ''invalid_option_key_value_pair''),
    (Errc 3561, ''invalid_option_start_character''), (Errc 3562, ''invalid_option_end_character''),
    (Errc 3563, ''invalid_option_characters''), (Errc 3564, ''duplicate_option_key''),
    (Errc 3565, ''warn_srs_not_found_axis_order''), (Errc 3566, ''no_access_to_native_fct''),
    (Errc 3567, ''reset_master_to_value_out_of_range''), (Errc 3568, ''unresolved_table_lock''),
    (Errc 3569, ''duplicate_table_lock''), (Errc 3570, ''binlog_unsafe_skip_locked''),
    (Errc 3571, ''binlog_unsafe_nowait''), (Errc 3572, ''lock_nowait''),
    (Errc 3573, ''cte_recursive_requires_union''), (Errc 3574, ''cte_recursive_requires_nonrecursive_first''),
    (Errc 3575, ''cte_recursive_forbids_aggregation''), (Errc 3576, ''cte_recursive_forbidden_join_order''),
    (Errc 3577, ''cte_recursive_requires_single_reference''), (Errc 3578, ''switch_tmp_engine''),
    (Errc 3579, ''window_no_such_window''), (Errc 3580, ''window_circularity_in_window_graph''),
    (Errc 3581, ''window_no_child_partitioning''), (Errc 3582, ''window_no_inherit_frame''),
    (Errc 3583, ''window_no_redefine_order_by''), (Errc 3584, ''window_frame_start_illegal''),
    (Errc 3585, ''window_frame_end_illegal''), (Errc 3586, ''window_frame_illegal''),
    (Errc 3587, ''window_range_frame_order_type''), (Errc 3588, ''window_range_frame_temporal_type''),
    (Errc 3589, ''window_range_frame_numeric_type''), (Errc 3590, ''window_range_bound_not_constant''),
    (Errc 3591, ''window_duplicate_name''), (Errc 3592, ''window_illegal_order_by''),
    (Errc 3593, ''window_invalid_window_func_use''), (Errc 3594, ''window_invalid_window_func_alias_use''),
    (Errc 3595, ''window_nested_window_func_use_in_window_spec''), (Errc 3596, ''window_rows_interval_use''),
    (Errc 3597, ''window_no_group_order_unused''), (Errc 3598, ''window_explain_json''),
    (Errc 3599, ''window_function_ignores_frame''), (Errc 3600, ''wl9236_now_unused''),
    (Errc 3601, ''invalid_no_of_args''), (Errc 3602, ''field_in_grouping_not_group_by''),
    (Errc 3603, ''too_long_tablespace_comment''), (Errc 3604, ''engine_cant_drop_table''),
    (Errc 3605, ''engine_cant_drop_missing_table''), (Errc 3606, ''tablespace_dup_filename''),
    (Errc 3607, ''db_drop_rmdir2''), (Errc 3608, ''imp_no_files_matched''),
    (Errc 3609, ''imp_schema_does_not_exist''), (Errc 3610, ''imp_table_already_exists''),
    (Errc 3611, ''imp_incompatible_mysqld_version''), (Errc 3612, ''imp_incompatible_dd_version''),
    (Errc 3613, ''imp_incompatible_sdi_version''), (Errc 3614, ''warn_invalid_hint''),
    (Errc 3615, ''var_does_not_exist''), (Errc 3616, ''longitude_out_of_range''),
    (Errc 3617, ''latitude_out_of_range''), (Errc 3618, ''not_implemented_for_geographic_srs''),
    (Errc 3619, ''illegal_privilege_level''), (Errc 3620, ''no_system_view_access''),
    (Errc 3621, ''component_filter_flabbergasted''), (Errc 3622, ''part_expr_too_long''),
    (Errc 3623, ''udf_drop_dynamically_registered''), (Errc 3624, ''unable_to_store_column_statistics''),
    (Errc 3625, ''unable_to_update_column_statistics''), (Errc 3626, ''unable_to_drop_column_statistics''),
    (Errc 3627, ''unable_to_build_histogram''), (Errc 3628, ''mandatory_role''),
    (Errc 3629, ''missing_tablespace_file''), (Errc 3630, ''persist_only_access_denied_error''),
    (Errc 3631, ''cmd_need_super''), (Errc 3632, ''path_in_datadir''), (Errc 3633, ''clone_ddl_in_progress''),
    (Errc 3634, ''clone_too_many_concurrent_clones''), (Errc 3635, ''applier_log_event_validation_error''),
    (Errc 3636, ''cte_max_recursion_depth''), (Errc 3637, ''not_hint_updatable_variable''),
    (Errc 3638, ''credentials_contradict_to_history''),
    (Errc 3639, ''warning_password_history_clauses_void''), (Errc 3640, ''client_does_not_support''),
    (Errc 3641, ''i_s_skipped_tablespace''), (Errc 3642, ''tablespace_engine_mismatch''),
    (Errc 3643, ''wrong_srid_for_column''), (Errc 3644, ''cannot_alter_srid_due_to_index''),
    (Errc 3645, ''warn_binlog_partial_updates_disabled''),
    (Errc 3646, ''warn_binlog_v1_row_events_disabled''),
    (Errc 3647, ''warn_binlog_partial_updates_suggests_partial_images''),
    (Errc 3648, ''could_not_apply_json_diff''), (Errc 3649, ''corrupted_json_diff'')]"

definition all_errors_9 :: "(errc \<times> string) list" where
  "all_errors_9 = [
    (Errc 3650, ''resource_group_exists''), (Errc 3651, ''resource_group_not_exists''),
    (Errc 3652, ''invalid_vcpu_id''), (Errc 3653, ''invalid_vcpu_range''),
    (Errc 3654, ''invalid_thread_priority''), (Errc 3655, ''disallowed_operation''),
    (Errc 3656, ''resource_group_busy''), (Errc 3657, ''resource_group_disabled''),
    (Errc 3658, ''feature_unsupported''), (Errc 3659, ''attribute_ignored''),
    (Errc 3660, ''invalid_thread_id''), (Errc 3661, ''resource_group_bind_failed''),
    (Errc 3662, ''invalid_use_of_force_option''), (Errc 3663, ''group_replication_command_failure''),
    (Errc 3664, ''sdi_operation_failed''), (Errc 3665, ''missing_json_table_value''),
    (Errc 3666, ''wrong_json_table_value''), (Errc 3667, ''tf_must_have_alias''),
    (Errc 3668, ''tf_forbidden_join_type''), (Errc 3669, ''jt_value_out_of_range''),
    (Errc 3670, ''jt_max_nested_path''), (Errc 3671, ''password_expiration_not_supported_by_auth_method''),
    (Errc 3672, ''invalid_geojson_crs_not_top_level''), (Errc 3673, ''bad_null_error_not_ignored''),
    (Errc 3675, ''disk_full_nowait''), (Errc 3676, ''parse_error_in_digest_fn''),
    (Errc 3677, ''undisclosed_parse_error_in_digest_fn''), (Errc 3678, ''schema_dir_exists''),
    (Errc 3679, ''schema_dir_missing''), (Errc 3680, ''schema_dir_create_failed''),
    (Errc 3681, ''schema_dir_unknown''), (Errc 3682, ''only_implemented_for_srid_0_and_4326''),
    (Errc 3683, ''binlog_expire_log_days_and_secs_used_together''), (Errc 3684, ''regexp_buffer_overflow''),
    (Errc 3685, ''regexp_illegal_argument''), (Errc 3686, ''regexp_index_outofbounds_error''),
    (Errc 3687, ''regexp_internal_error''), (Errc 3688, ''regexp_rule_syntax''),
    (Errc 3689, ''regexp_bad_escape_sequence''), (Errc 3690, ''regexp_unimplemented''),
    (Errc 3691, ''regexp_mismatched_paren''), (Errc 3692, ''regexp_bad_interval''),
    (Errc 3693, ''regexp_max_lt_min''), (Errc 3694, ''regexp_invalid_back_ref''),
    (Errc 3695, ''regexp_look_behind_limit''), (Errc 3696, ''regexp_missing_close_bracket''),
    (Errc 3697, ''regexp_invalid_range''), (Errc 3698, ''regexp_stack_overflow''),
    (Errc 3699, ''regexp_time_out''), (Errc 3700, ''regexp_pattern_too_big''),
    (Errc 3701, ''cant_set_error_log_service''), (Errc 3702, ''empty_pipeline_for_error_log_service''),
    (Errc 3703, ''component_filter_diagnostics''), (Errc 3704, ''not_implemented_for_cartesian_srs''),
    (Errc 3705, ''not_implemented_for_projected_srs''), (Errc 3706, ''nonpositive_radius''),
    (Errc 3707, ''restart_server_failed''), (Errc 3708, ''srs_missing_mandatory_attribute''),
    (Errc 3709, ''srs_multiple_attribute_definitions''),
    (Errc 3710, ''srs_name_cant_be_empty_or_whitespace''),
    (Errc 3711, ''srs_organization_cant_be_empty_or_whitespace''), (Errc 3712, ''srs_id_already_exists''),
    (Errc 3713, ''warn_srs_id_already_exists''), (Errc 3714, ''cant_modify_srid_0''),
    (Errc 3715, ''warn_reserved_srid_range''), (Errc 3716, ''cant_modify_srs_used_by_column''),
    (Errc 3717, ''srs_invalid_character_in_attribute''), (Errc 3718, ''srs_attribute_string_too_long''),
    (Errc 3719, ''deprecated_utf8_alias''), (Errc 3720, ''deprecated_national''),
    (Errc 3721, ''invalid_default_utf8mb4_collation''), (Errc 3722, ''unable_to_collect_log_status''),
    (Errc 3723, ''reserved_tablespace_name''), (Errc 3724, ''unable_to_set_option''),
    (Errc 3725, ''slave_possibly_diverged_after_ddl''), (Errc 3726, ''srs_not_geographic''),
    (Errc 3727, ''polygon_too_large''), (Errc 3728, ''spatial_unique_index''),
    (Errc 3729, ''index_type_not_supported_for_spatial_index''), (Errc 3730, ''fk_cannot_drop_parent''),
    (Errc 3731, ''geometry_param_longitude_out_of_range''),
    (Errc 3732, ''geometry_param_latitude_out_of_range''), (Errc 3733, ''fk_cannot_use_virtual_column''),
    (Errc 3734, ''fk_no_column_parent''), (Errc 3735, ''cant_set_error_suppression_list''),
    (Errc 3736, ''srs_geogcs_invalid_axes''), (Errc 3737, ''srs_invalid_semi_major_axis''),
    (Errc 3738, ''srs_invalid_inverse_flattening''), (Errc 3739, ''srs_invalid_angular_unit''),
    (Errc 3740, ''srs_invalid_prime_meridian''), (Errc 3741, ''transform_source_srs_not_supported''),
    (Errc 3742, ''transform_target_srs_not_supported''),
    (Errc 3743, ''transform_source_srs_missing_towgs84''),
    (Errc 3744, ''transform_target_srs_missing_towgs84''),
    (Errc 3745, ''temp_table_prevents_switch_session_binlog_format''),
    (Errc 3746, ''temp_table_prevents_switch_global_binlog_format''),
    (Errc 3747, ''running_applier_prevents_switch_global_binlog_format''),
    (Errc 3748, ''client_gtid_unsafe_create_drop_temp_table_in_trx_in_sbr''),
    (Errc 3750, ''table_without_pk''), (Errc 3751, ''warn_data_truncated_functional_index''),
    (Errc 3752, ''warn_data_out_of_range_functional_index''),
    (Errc 3753, ''functional_index_on_json_or_geometry_function''),
    (Errc 3754, ''functional_index_ref_auto_increment''),
    (Errc 3755, ''cannot_drop_column_functional_index''), (Errc 3756, ''functional_index_primary_key''),
    (Errc 3757, ''functional_index_on_lob''), (Errc 3758, ''functional_index_function_is_not_allowed''),
    (Errc 3759, ''fulltext_functional_index''), (Errc 3760, ''spatial_functional_index''),
    (Errc 3761, ''wrong_key_column_functional_index''), (Errc 3762, ''functional_index_on_field''),
    (Errc 3763, ''generated_column_named_function_is_not_allowed''),
    (Errc 3764, ''generated_column_row_value''), (Errc 3765, ''generated_column_variables''),
    (Errc 3766, ''dependent_by_default_generated_value''), (Errc 3767, ''default_val_generated_non_prior''),
    (Errc 3768, ''default_val_generated_ref_auto_inc''),
    (Errc 3769, ''default_val_generated_function_is_not_allowed''),
    (Errc 3770, ''default_val_generated_named_function_is_not_allowed''),
    (Errc 3771, ''default_val_generated_row_value''), (Errc 3772, ''default_val_generated_variables''),
    (Errc 3773, ''default_as_val_generated''), (Errc 3774, ''unsupported_action_on_default_val_generated''),
    (Errc 3775, ''gtid_unsafe_alter_add_col_with_default_expression''),
    (Errc 3776, ''fk_cannot_change_engine''), (Errc 3777, ''warn_deprecated_user_set_expr''),
    (Errc 3778, ''warn_deprecated_utf8mb3_collation''),
    (Errc 3779, ''warn_deprecated_nested_comment_syntax''), (Errc 3780, ''fk_incompatible_columns''),
    (Errc 3781, ''gr_hold_wait_timeout''), (Errc 3782, ''gr_hold_killed''),
    (Errc 3783, ''gr_hold_member_status_error''), (Errc 3784, ''rpl_encryption_failed_to_fetch_key''),
    (Errc 3785, ''rpl_encryption_key_not_found''), (Errc 3786, ''rpl_encryption_keyring_invalid_key''),
    (Errc 3787, ''rpl_encryption_header_error''), (Errc 3788, ''rpl_encryption_failed_to_rotate_logs''),
    (Errc 3789, ''rpl_encryption_key_exists_unexpected''),
    (Errc 3790, ''rpl_encryption_failed_to_generate_key''),
    (Errc 3791, ''rpl_encryption_failed_to_store_key'')]"

definition all_errors_10 :: "(errc \<times> string) list" where
  "all_errors_10 = [
    (Errc 3792, ''rpl_encryption_failed_to_remove_key''),
    (Errc 3793, ''rpl_encryption_unable_to_change_option''),
    (Errc 3794, ''rpl_encryption_master_key_recovery_failed''),
    (Errc 3795, ''slow_log_mode_ignored_when_not_logging_to_file''),
    (Errc 3796, ''grp_trx_consistency_not_allowed''), (Errc 3797, ''grp_trx_consistency_before''),
    (Errc 3798, ''grp_trx_consistency_after_on_trx_begin''),
    (Errc 3799, ''grp_trx_consistency_begin_not_allowed''),
    (Errc 3800, ''functional_index_row_value_is_not_allowed''),
    (Errc 3801, ''rpl_encryption_failed_to_encrypt''), (Errc 3802, ''page_tracking_not_started''),
    (Errc 3803, ''page_tracking_range_not_tracked''), (Errc 3804, ''page_tracking_cannot_purge''),
    (Errc 3805, ''rpl_encryption_cannot_rotate_binlog_master_key''),
    (Errc 3806, ''binlog_master_key_recovery_out_of_combination''),
    (Errc 3807, ''binlog_master_key_rotation_fail_to_operate_key''),
    (Errc 3808, ''binlog_master_key_rotation_fail_to_rotate_logs''),
    (Errc 3809, ''binlog_master_key_rotation_fail_to_reencrypt_log''),
    (Errc 3810, ''binlog_master_key_rotation_fail_to_cleanup_unused_keys''),
    (Errc 3811, ''binlog_master_key_rotation_fail_to_cleanup_aux_key''),
    (Errc 3812, ''non_boolean_expr_for_check_constraint''),
    (Errc 3813, ''column_check_constraint_references_other_column''),
    (Errc 3814, ''check_constraint_named_function_is_not_allowed''),
    (Errc 3815, ''check_constraint_function_is_not_allowed''), (Errc 3816, ''check_constraint_variables''),
    (Errc 3817, ''check_constraint_row_value''),
    (Errc 3818, ''check_constraint_refers_auto_increment_column''),
    (Errc 3819, ''check_constraint_violated''), (Errc 3820, ''check_constraint_refers_unknown_column''),
    (Errc 3821, ''check_constraint_not_found''), (Errc 3822, ''check_constraint_dup_name''),
    (Errc 3823, ''check_constraint_clause_using_fk_refer_action_column''),
    (Errc 3825, ''invalid_encryption_request''), (Errc 3826, ''cannot_set_table_encryption''),
    (Errc 3827, ''cannot_set_database_encryption''), (Errc 3828, ''cannot_set_tablespace_encryption''),
    (Errc 3829, ''tablespace_cannot_be_encrypted''), (Errc 3830, ''tablespace_cannot_be_decrypted''),
    (Errc 3831, ''tablespace_type_unknown''), (Errc 3832, ''target_tablespace_unencrypted''),
    (Errc 3833, ''cannot_use_encryption_clause''), (Errc 3834, ''invalid_multiple_clauses''),
    (Errc 3835, ''unsupported_use_of_grant_as''),
    (Errc 3836, ''uknown_auth_id_or_access_denied_for_grant_as''),
    (Errc 3837, ''dependent_by_functional_index''), (Errc 3838, ''plugin_not_early''),
    (Errc 3839, ''innodb_redo_log_archive_start_subdir_path''),
    (Errc 3840, ''innodb_redo_log_archive_start_timeout''),
    (Errc 3841, ''innodb_redo_log_archive_dirs_invalid''),
    (Errc 3842, ''innodb_redo_log_archive_label_not_found''),
    (Errc 3843, ''innodb_redo_log_archive_dir_empty''), (Errc 3844, ''innodb_redo_log_archive_no_such_dir''),
    (Errc 3845, ''innodb_redo_log_archive_dir_clash''),
    (Errc 3846, ''innodb_redo_log_archive_dir_permissions''),
    (Errc 3847, ''innodb_redo_log_archive_file_create''), (Errc 3848, ''innodb_redo_log_archive_active''),
    (Errc 3849, ''innodb_redo_log_archive_inactive''), (Errc 3850, ''innodb_redo_log_archive_failed''),
    (Errc 3851, ''innodb_redo_log_archive_session''), (Errc 3852, ''std_regex_error''),
    (Errc 3853, ''invalid_json_type''), (Errc 3854, ''cannot_convert_string''),
    (Errc 3855, ''dependent_by_partition_func''), (Errc 3856, ''warn_deprecated_float_auto_increment''),
    (Errc 3857, ''rpl_cant_stop_slave_while_locked_backup''), (Errc 3858, ''warn_deprecated_float_digits''),
    (Errc 3859, ''warn_deprecated_float_unsigned''), (Errc 3860, ''warn_deprecated_integer_display_width''),
    (Errc 3861, ''warn_deprecated_zerofill''), (Errc 3862, ''clone_donor''), (Errc 3863, ''clone_protocol''),
    (Errc 3864, ''clone_donor_version''), (Errc 3865, ''clone_os''), (Errc 3866, ''clone_platform''),
    (Errc 3867, ''clone_charset''), (Errc 3868, ''clone_config''), (Errc 3869, ''clone_sys_config''),
    (Errc 3870, ''clone_plugin_match''), (Errc 3871, ''clone_loopback''), (Errc 3872, ''clone_encryption''),
    (Errc 3873, ''clone_disk_space''), (Errc 3874, ''clone_in_progress''), (Errc 3875, ''clone_disallowed''),
    (Errc 3876, ''cannot_grant_roles_to_anonymous_user''), (Errc 3877, ''secondary_engine_plugin''),
    (Errc 3878, ''second_password_cannot_be_empty''), (Errc 3879, ''db_access_denied''),
    (Errc 3880, ''da_auth_id_with_system_user_priv_in_mandatory_roles''),
    (Errc 3881, ''da_rpl_gtid_table_cannot_open''), (Errc 3882, ''geometry_in_unknown_length_unit''),
    (Errc 3883, ''da_plugin_install_error''), (Errc 3884, ''no_session_temp''),
    (Errc 3885, ''da_unknown_error_number''), (Errc 3886, ''column_change_size''),
    (Errc 3887, ''regexp_invalid_capture_group_name''), (Errc 3888, ''da_ssl_library_error''),
    (Errc 3889, ''secondary_engine''), (Errc 3890, ''secondary_engine_ddl''),
    (Errc 3891, ''incorrect_current_password''), (Errc 3892, ''missing_current_password''),
    (Errc 3893, ''current_password_not_required''),
    (Errc 3894, ''password_cannot_be_retained_on_plugin_change''),
    (Errc 3895, ''current_password_cannot_be_retained''), (Errc 3896, ''partial_revokes_exist''),
    (Errc 3897, ''cannot_grant_system_priv_to_mandatory_role''), (Errc 3898, ''xa_replication_filters''),
    (Errc 3899, ''unsupported_sql_mode''), (Errc 3900, ''regexp_invalid_flag''),
    (Errc 3901, ''partial_revoke_and_db_grant_both_exists''), (Errc 3902, ''unit_not_found''),
    (Errc 3903, ''invalid_json_value_for_func_index''),
    (Errc 3904, ''json_value_out_of_range_for_func_index''), (Errc 3905, ''exceeded_mv_keys_num''),
    (Errc 3906, ''exceeded_mv_keys_space''), (Errc 3907, ''functional_index_data_is_too_long''),
    (Errc 3908, ''wrong_mvi_value''), (Errc 3909, ''warn_func_index_not_applicable''),
    (Errc 3910, ''grp_rpl_udf_error''), (Errc 3911, ''update_gtid_purged_with_gr''),
    (Errc 3912, ''grouping_on_timestamp_in_dst''), (Errc 3913, ''table_name_causes_too_long_path''),
    (Errc 3914, ''audit_log_insufficient_privilege''), (Errc 3916, ''da_grp_rpl_started_auto_rejoin''),
    (Errc 65536, ''An incomplete message was received from the server''),
    (Errc 65537, ''Unexpected extra bytes at the end of a message were received''),
    (Errc 65538, ''Mismatched sequence numbers''),
    (Errc 65539, ''The server does not support the minimum required capabilities to establish the connection''),
    (Errc 65540, ''An unexpected value was found in a server-received message''),
    (Errc 65541, ''The user employs an authentication plugin not known to this library''),
    (Errc 65542, ''The authentication plugin requires the connection to use SSL''),
    (Errc 65543, ''The number of parameters passed to the prepared statement does not match the number of actual parameters'')]"

definition all_errors :: "(errc \<times> string) list" where
  "all_errors = concat [all_errors_1, all_errors_2, all_errors_3, all_errors_4, all_errors_5, all_errors_6,
     all_errors_7, all_errors_8, all_errors_9, all_errors_10]"

definition error_to_string :: "errc \<Rightarrow> string" where
  "error_to_string error =
     (case find (\<lambda>ent. error = fst ent) all_errors of
        None \<Rightarrow> ''<unknown error>''
      | Some ent \<Rightarrow> snd ent)"

text \<open>The category: its name, and the message of a number.\<close>

definition mysql_category_name :: string where
  "mysql_category_name = ''mysql''"

definition mysql_category_message :: "int \<Rightarrow> string" where
  "mysql_category_message ev = error_to_string (Errc ev)"

section \<open>Looking descriptions up\<close>

text \<open>
  Both tables have the same codes in the same, strictly increasing, order, and a code of the server
  is described by the name of its enumerator.
\<close>

definition describes :: "string \<times> errc \<Rightarrow> errc \<times> string \<Rightarrow> bool" where
  "describes = (\<lambda>(name, e) (e', message). e' = e \<and> (0 < errc_value e \<and> errc_value e < 65536 \<longrightarrow> message = name))"

definition code_less :: "errc \<times> string \<Rightarrow> errc \<times> string \<Rightarrow> bool" where
  "code_less = (\<lambda>(e, _) (e', _). e < e')"

lemma describes_intros:
  "list_all2 describes [] []"
  "list_all2 describes ns es \<Longrightarrow> list_all2 describes ((name, Errc v) # ns) ((Errc v, name) # es)"
  by (simp_all add: describes_def)

lemma describes_client:
  "v \<le> 0 \<or> 65536 \<le> v \<Longrightarrow> list_all2 describes ns es \<Longrightarrow>
   list_all2 describes ((name, Errc v) # ns) ((Errc v, message) # es)"
  by (auto simp: describes_def)

lemma increasing_intros:
  "successively code_less []"
  "successively code_less [x]"
  "v < v' \<Longrightarrow> successively code_less ((Errc v', m') # es) \<Longrightarrow> successively code_less ((Errc v, m) # (Errc v', m') # es)"
  by (simp_all add: code_less_def less_errc_def)

lemma code_less_pair: "code_less (e, m) (e', m') \<longleftrightarrow> errc_value e < errc_value e'"
  by (simp add: code_less_def less_errc_def)

lemma increasing_sorted: "successively code_less es \<Longrightarrow> sorted_wrt (<) (map fst es)"
  by (simp add: successively_conv_sorted_wrt [symmetric] successively_map code_less_def case_prod_unfold)

lemma described_1: "list_all2 describes errc_enumerators_1 all_errors_1"
  unfolding errc_enumerators_1_def all_errors_1_def by (intro describes_intros describes_client) simp_all

lemma described_2: "list_all2 describes errc_enumerators_2 all_errors_2"
  unfolding errc_enumerators_2_def all_errors_2_def by (intro describes_intros)

lemma described_3: "list_all2 describes errc_enumerators_3 all_errors_3"
  unfolding errc_enumerators_3_def all_errors_3_def by (intro describes_intros)

lemma described_4: "list_all2 describes errc_enumerators_4 all_errors_4"
  unfolding errc_enumerators_4_def all_errors_4_def by (intro describes_intros)

lemma described_5: "list_all2 describes errc_enumerators_5 all_errors_5"
  unfolding errc_enumerators_5_def all_errors_5_def by (intro describes_intros)

lemma described_6: "list_all2 describes errc_enumerators_6 all_errors_6"
  unfolding errc_enumerators_6_def all_errors_6_def by (intro describes_intros)

lemma described_7: "list_all2 describes errc_enumerators_7 all_errors_7"
  unfolding errc_enumerators_7_def all_errors_7_def by (intro describes_intros)

lemma described_8: "list_all2 describes errc_enumerators_8 all_errors_8"
  unfolding errc_enumerators_8_def all_errors_8_def by (intro describes_intros)

lemma described_9: "list_all2 describes errc_enumerators_9 all_errors_9"
  unfolding errc_enumerators_9_def all_errors_9_def by (intro describes_intros)

lemma described_10: "list_all2 describes errc_enumerators_10 all_errors_10"
  unfolding errc_enumerators_10_def all_errors_10_def by (intro describes_intros describes_client) simp_all

lemma increasing_1: "successively code_less all_errors_1"
  unfolding all_errors_1_def by (intro increasing_intros) simp_all

lemma increasing_2: "successively code_less all_errors_2"
  unfolding all_errors_2_def by (intro increasing_intros) simp_all

lemma increasing_3: "successively code_less all_errors_3"
  unfolding all_errors_3_def by (intro increasing_intros) simp_all

lemma increasing_4: "successively code_less all_errors_4"
  unfolding all_errors_4_def by (intro increasing_intros) simp_all

lemma increasing_5: "successively code_less all_errors_5"
  unfolding all_errors_5_def by (intro increasing_intros) simp_all

lemma increasing_6: "successively code_less all_errors_6"
  unfolding all_errors_6_def by (intro increasing_intros) simp_all

lemma increasing_7: "successively code_less all_errors_7"
  unfolding all_errors_7_def by (intro increasing_intros) simp_all

lemma increasing_8: "successively code_less all_errors_8"
  unfolding all_errors_8_def by (intro increasing_intros) simp_all

lemma increasing_9: "successively code_less all_errors_9"
  unfolding all_errors_9_def by (intro increasing_intros) simp_all

lemma increasing_10: "successively code_less all_errors_10"
  unfolding all_errors_10_def by (intro increasing_intros) simp_all

lemma last_intros:
  "last [x] = x"
  "last (y # xs) = z \<Longrightarrow> last (x # y # xs) = z"
  by simp_all

lemma ends_1:
  "all_errors_1 \<noteq> []"
  "hd all_errors_1 = (Errc 0, ''No error'')"
  "last all_errors_1 =
     (Errc 1152, ''aborting_connection'')"
  unfolding all_errors_1_def by (rule list.distinct list.sel)+ (intro last_intros)

lemma ends_2:
  "all_errors_2 \<noteq> []"
  "hd all_errors_2 = (Errc 1153, ''net_packet_too_large'')"
  "last all_errors_2 =
     (Errc 1311, ''sp_uninit_var'')"
  unfolding all_errors_2_def by (rule list.distinct list.sel)+ (intro last_intros)

lemma ends_3:
  "all_errors_3 \<noteq> []"
  "hd all_errors_3 = (Errc 1312, ''sp_badselect'')"
  "last all_errors_3 =
     (Errc 1467, ''autoinc_read_failed'')"
  unfolding all_errors_3_def by (rule list.distinct list.sel)+ (intro last_intros)

lemma ends_4:
  "all_errors_4 \<noteq> []"
  "hd all_errors_4 = (Errc 1468, ''username'')"
  "last all_errors_4 =
     (Errc 1648, ''cond_item_too_long'')"
  unfolding all_errors_4_def by (rule list.distinct list.sel)+ (intro last_intros)

lemma ends_5:
  "all_errors_5 \<noteq> []"
  "hd all_errors_5 = (Errc 1649, ''unknown_locale'')"
  "last all_errors_5 =
     (Errc 1803, ''mts_recovery_failure'')"
  unfolding all_errors_5_def by (rule list.distinct list.sel)+ (intro last_intros)

lemma ends_6:
  "all_errors_6 \<noteq> []"
  "hd all_errors_6 = (Errc 1804, ''mts_reset_workers'')"
  "last all_errors_6 =
     (Errc 3064, ''incorrect_type'')"
  unfolding all_errors_6_def by (rule list.distinct list.sel)+ (intro last_intros)

lemma ends_7:
  "all_errors_7 \<noteq> []"
  "hd all_errors_7 = (Errc 3065, ''field_in_order_not_select'')"
  "last all_errors_7 =
     (Errc 3509, ''invalid_dd_object_name'')"
  unfolding all_errors_7_def by (rule list.distinct list.sel)+ (intro last_intros)

lemma ends_8:
  "all_errors_8 \<noteq> []"
  "hd all_errors_8 = (Errc 3510, ''tablespace_missing_with_name'')"
  "last all_errors_8 =
     (Errc 3649, ''corrupted_json_diff'')"
  unfolding all_errors_8_def by (rule list.distinct list.sel)+ (intro last_intros)

lemma ends_9:
  "all_errors_9 \<noteq> []"
  "hd all_errors_9 = (Errc 3650, ''resource_group_exists'')"
  "last all_errors_9 =
     (Errc 3791, ''rpl_encryption_failed_to_store_key'')"
  unfolding all_errors_9_def by (rule list.distinct list.sel)+ (intro last_intros)

lemma ends_10:
  "all_errors_10 \<noteq> []"
  "hd all_errors_10 = (Errc 3792, ''rpl_encryption_failed_to_remove_key'')"
  "last all_errors_10 =
     (Errc 65543, ''The number of parameters passed to the prepared statement does not match the number of actual parameters'')"
  unfolding all_errors_10_def by (rule list.distinct list.sel)+ (intro last_intros)

lemmas ends = ends_1 ends_2 ends_3 ends_4 ends_5 ends_6 ends_7 ends_8 ends_9 ends_10

lemma described: "list_all2 describes errc_enumerators all_errors"
  by (simp add: errc_enumerators_def all_errors_def list_all2_appendI described_1 described_2 described_3 described_4
      described_5 described_6 described_7 described_8 described_9 described_10)

lemma increasing: "successively code_less all_errors"
  by (simp add: all_errors_def successively_append_iff ends code_less_pair increasing_1 increasing_2 increasing_3
      increasing_4 increasing_5 increasing_6 increasing_7 increasing_8 increasing_9 increasing_10)

lemma distinct_codes: "distinct (map fst all_errors)"
  using increasing_sorted [OF increasing] by (simp add: strict_sorted_iff)

lemma find_map_of: "(case find (\<lambda>ent. k = fst ent) xs of None \<Rightarrow> d | Some ent \<Rightarrow> snd ent)
    = (case map_of xs k of None \<Rightarrow> d | Some v \<Rightarrow> v)"
  by (induction xs) auto

lemma error_to_string_map_of:
  "error_to_string e = (case map_of all_errors e of None \<Rightarrow> ''<unknown error>'' | Some m \<Rightarrow> m)"
  by (simp add: error_to_string_def find_map_of)

lemma errc_enumerators_described:
  assumes "(name, e) \<in> set errc_enumerators"
  shows "\<exists>message. map_of all_errors e = Some message \<and> (0 < errc_value e \<and> errc_value e < 65536 \<longrightarrow> message = name)"
proof -
  obtain i where i: "i < length errc_enumerators" "errc_enumerators ! i = (name, e)"
    using assms by (auto simp: in_set_conv_nth)
  then have "i < length all_errors" "describes (name, e) (all_errors ! i)"
    using described by (auto simp: list_all2_conv_all_nth)
  then obtain message where "(e, message) \<in> set all_errors"
      "0 < errc_value e \<and> errc_value e < 65536 \<longrightarrow> message = name"
    by (auto simp: describes_def in_set_conv_nth split: prod.splits)
  then show ?thesis using distinct_codes by auto
qed

lemma errc_enumerators_codes: "fst ` set all_errors = snd ` set errc_enumerators"
proof -
  have "map fst all_errors = map snd errc_enumerators"
    using described by (induction rule: list_all2_induct) (auto simp: describes_def)
  then show ?thesis by (metis list.set_map)
qed

section \<open>Properties\<close>

text \<open>
  C40: the message of an error code is the name of its enumerator for every code the server can
  send that the enumeration lists, and the message for unknown errors for every code it does not list.
\<close>
theorem error_to_string_names:
  "(\<forall>(name, e) \<in> set errc_enumerators. 0 < errc_value e \<and> errc_value e < 65536 \<longrightarrow> error_to_string e = name) \<and>
   (\<forall>e. e \<notin> snd ` set errc_enumerators \<longrightarrow> error_to_string e = ''<unknown error>'')"
proof -
  have "map_of all_errors e = None" if "e \<notin> snd ` set errc_enumerators" for e
    using that by (simp add: map_of_eq_None_iff errc_enumerators_codes)
  then show ?thesis using errc_enumerators_described by (fastforce simp: error_to_string_map_of)
qed

lemma error_to_string_names_witness: "error_to_string (Errc 1022) = ''dup_key''"
proof -
  have "(''dup_key'', Errc 1022) \<in> set errc_enumerators_1"
    unfolding errc_enumerators_1_def by (intro list.set_intros)
  then have "(''dup_key'', Errc 1022) \<in> set errc_enumerators" by (simp add: errc_enumerators_def)
  then show ?thesis using error_to_string_names by fastforce
qed

end
