(* ===== verification/Async_Channel.thy ===== *)
theory Async_Channel
  imports Session
begin

text \<open>
  The asynchronous operations of the channel (\<open>read_op\<close> and \<open>write_op\<close> of \<open>impl/channel.hpp\<close>).

  They are stackless coroutines: an object holding the point to resume at and the members of the
  operation, called again, with the results of what it waited for, each time that is done. The model
  of one is its object as a record, its resume points as a datatype, and its call operator as a
  function of the results and the state, which says what to wait for next or what to complete with.
\<close>

section \<open>Coroutines\<close>

text \<open>
  What a call of the operator ends with: it has initiated an operation, whose effect on the state
  and results are the function, or it has called the completion handler. \<open>run_co\<close> is the event loop
  for one operation; the handler of a post is called with the arguments bound to it.
\<close>

datatype ('st, 'a, 'r) co_action = Co_await "'st \<Rightarrow> ('a \<times> 'st) option" | Co_complete 'r

type_synonym ('st, 'a, 'r) co_resume = "'a \<Rightarrow> 'st \<Rightarrow> (('st, 'a, 'r) co_action \<times> 'st) option"

partial_function (option) run_co :: "('st, 'a, 'r) co_resume \<Rightarrow> 'a \<Rightarrow> 'st \<Rightarrow> ('r \<times> 'st) option" where
  "run_co resume args st =
     Option.bind (resume args st) (\<lambda>(act, st1).
       case act of
         Co_complete r \<Rightarrow> Some (r, st1)
       | Co_await initiated \<Rightarrow>
           Option.bind (initiated st1) (\<lambda>(args1, st2). run_co resume args1 st2))"

text \<open>One call, and what happens after it.\<close>

definition co_continue ::
    "('st, 'a, 'r) co_resume \<Rightarrow> ('st, 'a, 'r) co_action \<times> 'st \<Rightarrow> ('r \<times> 'st) option" where
  "co_continue resume = (\<lambda>(act, st).
     case act of
       Co_complete r \<Rightarrow> Some (r, st)
     | Co_await initiated \<Rightarrow> Option.bind (initiated st) (\<lambda>(args, st1). run_co resume args st1))"

lemma co_continue_simps [simp]:
  "co_continue resume (Co_complete r, st) = Some (r, st)"
  "co_continue resume (Co_await f, st) = Option.bind (f st) (\<lambda>(args, st1). run_co resume args st1)"
  by (simp_all add: co_continue_def)

lemma run_co_step: "run_co resume args st = Option.bind (resume args st) (co_continue resume)"
  by (simp add: run_co.simps [of resume args st] co_continue_def)

lemma run_co_complete: "resume args st = Some (Co_complete r, st1) \<Longrightarrow> run_co resume args st = Some (r, st1)"
  by (simp add: run_co_step)

lemma run_co_await:
  "resume args st = Some (Co_await f, st1) \<Longrightarrow>
   run_co resume args st = Option.bind (f st1) (\<lambda>(args1, st2). run_co resume args1 st2)"
  by (simp add: run_co_step)

section \<open>Reading\<close>

datatype read_point = Read_entry | Read_header_received | Read_body_received

record read_op =
  rop_point :: read_point
  rop_buffer :: bytes
  rop_total_transferred_size :: nat

type_synonym io_result = "error_code \<times> nat"

definition await_header :: "'s stream_ops \<Rightarrow> read_op \<times> 's channel \<Rightarrow> (io_result \<times> read_op \<times> 's channel) option" where
  "await_header S = (\<lambda>(op, ch).
     case read_impl S (length (ch_header ch)) ch of
       (bs, code, ch1) \<Rightarrow> Some ((code, length bs), op, ch1\<lparr>ch_header := put_bytes 0 bs (ch_header ch1)\<rparr>))"

definition await_body :: "'s stream_ops \<Rightarrow> u32 \<Rightarrow> read_op \<times> 's channel \<Rightarrow> (io_result \<times> read_op \<times> 's channel) option" where
  "await_body S size_to_read = (\<lambda>(op, ch).
     case read_impl S (unat size_to_read) ch of
       (bs, code, ch1) \<Rightarrow>
         Some ((code, length bs),
           op\<lparr>rop_buffer := put_bytes (rop_total_transferred_size op) bs (rop_buffer op)\<rparr>, ch1))"

definition read_op_resume :: "'s stream_ops \<Rightarrow> (read_op \<times> 's channel, io_result, error_code) co_resume" where
  "read_op_resume S = (\<lambda>(code, bytes_transferred) (op, ch).
     if failed code then Some (Co_complete code, op, ch)
     else case rop_point op of
       Read_entry \<Rightarrow> Some (Co_await (await_header S), op\<lparr>rop_point := Read_header_received\<rparr>, ch)
     | Read_header_received \<Rightarrow>
         (case process_header_read ch of
            (Inl err, ch1) \<Rightarrow> Some (Co_complete err, op, ch1)
          | (Inr size_to_read, ch1) \<Rightarrow>
              Some (Co_await (await_body S size_to_read),
                op\<lparr>rop_point := Read_body_received,
                   rop_buffer := resize (length (rop_buffer op) + unat size_to_read) (rop_buffer op)\<rparr>, ch1))
     | Read_body_received \<Rightarrow>
         (let op1 = op\<lparr>rop_total_transferred_size := rop_total_transferred_size op + bytes_transferred\<rparr>
          in if bytes_transferred = MAX_PACKET_SIZE
             then Some (Co_await (await_header S), op1\<lparr>rop_point := Read_header_received\<rparr>, ch)
             else Some (Co_complete no_error, op1, ch)))"

definition make_read_op :: read_op where
  "make_read_op = \<lparr>rop_point = Read_entry, rop_buffer = [], rop_total_transferred_size = 0\<rparr>"

definition async_read :: "'s stream_ops \<Rightarrow> 's channel \<Rightarrow> (bytes \<times> error_code \<times> 's channel) option" where
  "async_read S ch =
     map_option (\<lambda>(code, op, ch1). (rop_buffer op, code, ch1))
       (run_co (read_op_resume S) (no_error, 0) (make_read_op, ch))"

section \<open>Writing\<close>

datatype write_point = Write_entry | Write_packet_sent

record write_op =
  wop_point :: write_point
  wop_buffer :: bytes
  wop_total_transferred_size :: nat

definition await_write :: "'s stream_ops \<Rightarrow> bytes \<Rightarrow> write_op \<times> 's channel \<Rightarrow> (io_result \<times> write_op \<times> 's channel) option" where
  "await_write S bs = (\<lambda>(op, ch).
     case write_impl S bs ch of (k, code, ch1) \<Rightarrow> Some ((code, k), op, ch1))"

text \<open>A packet: the body of the loop up to where it waits.\<close>

definition write_op_packet ::
    "'s stream_ops \<Rightarrow> write_op \<Rightarrow> 's channel \<Rightarrow>
     ((write_op \<times> 's channel, io_result, error_code) co_action \<times> write_op \<times> 's channel) option" where
  "write_op_packet S op ch =
     (let size_to_write = compute_size_to_write (length (wop_buffer op)) (wop_total_transferred_size op)
      in map_option (\<lambda>ch1.
           (Co_await (await_write S
              (ch_header ch1 @ take (unat size_to_write) (drop (wop_total_transferred_size op) (wop_buffer op)))),
            op\<lparr>wop_point := Write_packet_sent\<rparr>, ch1))
         (process_header_write size_to_write ch))"

text \<open>A write without error has transferred the header at least.\<close>

definition write_op_resume :: "'s stream_ops \<Rightarrow> (write_op \<times> 's channel, io_result, error_code) co_resume" where
  "write_op_resume S = (\<lambda>(code, bytes_transferred) (op, ch).
     if failed code then Some (Co_complete code, op, ch)
     else case wop_point op of
       Write_entry \<Rightarrow> write_op_packet S op ch
     | Write_packet_sent \<Rightarrow>
         (let op1 = op\<lparr>wop_total_transferred_size := wop_total_transferred_size op + (bytes_transferred - 4)\<rparr>
          in if wop_total_transferred_size op1 < length (wop_buffer op1) then write_op_packet S op1 ch
             else Some (Co_complete no_error, op1, ch)))"

definition make_write_op :: "bytes \<Rightarrow> write_op" where
  "make_write_op buffer = \<lparr>wop_point = Write_entry, wop_buffer = buffer, wop_total_transferred_size = 0\<rparr>"

definition async_write :: "'s stream_ops \<Rightarrow> bytes \<Rightarrow> 's channel \<Rightarrow> (error_code \<times> 's channel) option" where
  "async_write S buffer ch =
     map_option (\<lambda>(code, op, ch1). (code, ch1))
       (run_co (write_op_resume S) (no_error, 0) (make_write_op buffer, ch))"

definition async_ssl_handshake :: "'s stream_ops \<Rightarrow> 's channel \<Rightarrow> error_code \<times> 's channel" where
  "async_ssl_handshake S ch =
     (case so_ssl_handshake S (ch_stream ch) of (code, s) \<Rightarrow> (code, ch\<lparr>ch_ssl := True, ch_stream := s\<rparr>))"

section \<open>The same as the synchronous operations\<close>

text \<open>
  A code that is no failure may be another than the default constructed one the coroutines complete
  with; no caller can tell by testing it.
\<close>

definition normal_code :: "error_code \<Rightarrow> error_code" where
  "normal_code code = (if failed code then code else no_error)"

lemma normal_code_simps [simp]:
  "failed code \<Longrightarrow> normal_code code = code"
  "\<not> failed code \<Longrightarrow> normal_code code = no_error"
  "failed (normal_code code) = failed code"
  "normal_code (normal_code code) = normal_code code"
  by (simp_all add: normal_code_def)

lemma normal_code_no_error [simp]: "normal_code no_error = no_error"
  by (simp add: normal_code_def)

definition normal_read :: "(bytes \<times> error_code \<times> 's channel) option \<Rightarrow> (bytes \<times> error_code \<times> 's channel) option" where
  "normal_read = map_option (\<lambda>(buf, code, ch). (buf, normal_code code, ch))"

definition normal_write :: "(error_code \<times> 's channel) option \<Rightarrow> (error_code \<times> 's channel) option" where
  "normal_write = map_option (\<lambda>(code, ch). (normal_code code, ch))"

lemma await_header_read: "await_header S (op, ch) = (case read_header S ch of (code, ch1) \<Rightarrow>
    Some ((code, length (fst (read_impl S (length (ch_header ch)) ch))), op, ch1))"
  by (simp add: await_header_def read_header_def split: prod.split)

lemma process_header_read_result:
  assumes "process_header_read ch = (r, ch1)"
  shows "ch_stream ch1 = ch_stream ch" "channel_wf ch1 = channel_wf ch" "r = Inl err \<Longrightarrow> failed err"
  using assms
  by (auto simp: process_header_read_def process_sequence_number_def Let_def failed_def make_error_code_def
      channel_wf_def split: if_splits)

text \<open>A read from the point where the loop waits for a header.\<close>

definition read_op_run :: "'s stream_ops \<Rightarrow> read_op \<Rightarrow> 's channel \<Rightarrow> (bytes \<times> error_code \<times> 's channel) option" where
  "read_op_run S op ch =
     map_option (\<lambda>(code, op, ch1). (rop_buffer op, code, ch1))
       (Option.bind (await_header S (op\<lparr>rop_point := Read_header_received\<rparr>, ch))
         (\<lambda>(args, st). run_co (read_op_resume S) args st))"

lemma read_op_run_body:
  assumes "byte_stream S inp out" and "read_header S ch = (code, ch1)" and "\<not> failed code"
    and "process_header_read ch1 = (Inr w, ch2)" and "read_impl S (unat w) ch2 = (bs, code2, ch3)"
    and "t = rop_total_transferred_size op" and "b = rop_buffer op"
    and "b1 = put_bytes t bs (resize (length b + unat w) b)"
  shows "read_op_run S op ch =
    (if failed code2 then Some (b1, code2, ch3)
     else if unat w = MAX_PACKET_SIZE
     then read_op_run S \<lparr>rop_point = Read_header_received, rop_buffer = b1, rop_total_transferred_size = t + unat w\<rparr> ch3
     else Some (b1, no_error, ch3))"
proof -
  let ?op = "op\<lparr>rop_point := Read_header_received\<rparr>"
  let ?op2 = "op\<lparr>rop_point := Read_body_received, rop_buffer := resize (length b + unat w) b\<rparr>"
  let ?op3 = "op\<lparr>rop_point := Read_body_received, rop_buffer := b1\<rparr>"
  let ?op4 = "\<lparr>rop_point = Read_header_received, rop_buffer = b1, rop_total_transferred_size = t + unat w\<rparr>"
  obtain n where aw: "await_header S (?op, ch) = Some ((code, n), ?op, ch1)"
    by (simp add: await_header_read assms(2))
  have run1: "run_co (read_op_resume S) (code, n) (?op, ch1) =
      Option.bind (await_body S w (?op2, ch2)) (\<lambda>(args, st). run_co (read_op_resume S) args st)"
    by (intro run_co_await) (simp add: read_op_resume_def assms(3,4,7))
  have aw2: "await_body S w (?op2, ch2) = Some ((code2, length bs), ?op3, ch3)"
    by (simp add: await_body_def assms(5,6,8))
  have run: "read_op_run S op ch =
      map_option (\<lambda>(code, op, ch1). (rop_buffer op, code, ch1)) (run_co (read_op_resume S) (code2, length bs) (?op3, ch3))"
    by (simp add: read_op_run_def aw run1 aw2)
  show ?thesis
  proof (cases "failed code2")
    case True
    then have "run_co (read_op_resume S) (code2, length bs) (?op3, ch3) = Some (code2, ?op3, ch3)"
      by (intro run_co_complete) (simp add: read_op_resume_def)
    then show ?thesis using True by (simp add: run)
  next
    case False
    then have len: "length bs = unat w" using read_impl_result(6) [OF assms(1,5)] by simp
    have "run_co (read_op_resume S) (code2, length bs) (?op3, ch3) =
        (if unat w = MAX_PACKET_SIZE
         then Option.bind (await_header S (?op4, ch3)) (\<lambda>(args, st). run_co (read_op_resume S) args st)
         else Some (no_error, ?op3\<lparr>rop_total_transferred_size := t + unat w\<rparr>, ch3))"
    proof (cases "unat w = MAX_PACKET_SIZE")
      case True
      then show ?thesis
        by (subst run_co_await) (simp_all add: read_op_resume_def False len assms(6))
    next
      case no: False
      then show ?thesis
        by (subst run_co_complete) (simp_all add: read_op_resume_def False len assms(6))
    qed
    then show ?thesis unfolding run using False by (simp add: read_op_run_def)
  qed
qed

text \<open>The two early ends of the loop: the header cannot be read, or it is not the expected one.\<close>

lemma read_op_run_stop:
  assumes "read_header S ch = (code, ch1)" and "process_header_read ch1 = (r, ch2)"
  shows "failed code \<Longrightarrow> read_op_run S op ch = Some (rop_buffer op, code, ch1)"
    and "\<not> failed code \<Longrightarrow> r = Inl err \<Longrightarrow> read_op_run S op ch = Some (rop_buffer op, err, ch2)"
proof -
  let ?op = "op\<lparr>rop_point := Read_header_received\<rparr>"
  obtain n where aw: "await_header S (?op, ch) = Some ((code, n), ?op, ch1)"
    by (simp add: await_header_read assms(1))
  show "read_op_run S op ch = Some (rop_buffer op, code, ch1)" if "failed code"
  proof -
    have "run_co (read_op_resume S) (code, n) (?op, ch1) = Some (code, ?op, ch1)"
      using that by (intro run_co_complete) (simp add: read_op_resume_def)
    then show ?thesis by (simp add: read_op_run_def aw)
  qed
  show "read_op_run S op ch = Some (rop_buffer op, err, ch2)" if "\<not> failed code" "r = Inl err"
  proof -
    have "run_co (read_op_resume S) (code, n) (?op, ch1) = Some (err, ?op, ch2)"
      using that by (intro run_co_complete) (simp add: read_op_resume_def assms(2))
    then show ?thesis by (simp add: read_op_run_def aw)
  qed
qed

text \<open>A packet that is read leaves less input, and the session as it was.\<close>

lemma read_packet_progress:
  assumes "byte_stream S inp out" and "channel_wf ch" and "read_header S ch = (code, ch1)" and "\<not> failed code"
    and "process_header_read ch1 = (r, ch2)" and "read_impl S n ch2 = (bs, code2, ch3)"
  shows "length (inp (ch_stream ch3)) < length (inp (ch_stream ch))" and "channel_wf ch3"
proof -
  note h = read_header_result [OF assms(1,2,3)] and p = process_header_read_result [OF assms(5)]
    and b = read_impl_result [OF assms(1,6)]
  obtain hdr where "inp (ch_stream ch) = hdr @ inp (ch_stream ch1)" "length hdr = 4" using h(4) assms(4) by blast
  then show "length (inp (ch_stream ch3)) < length (inp (ch_stream ch))" using b(2) p(1) by simp
  show "channel_wf ch3" using h(1) assms(2) p(2) b(4) by (simp add: same_session_def)
qed

lemma read_op_run_eq:
  assumes "byte_stream S inp out" and "channel_wf ch"
  shows "read_op_run S op ch = normal_read (channel_read_loop S (rop_total_transferred_size op) (rop_buffer op) ch)"
  using assms(2)
proof (induction "length (inp (ch_stream ch))" arbitrary: ch op rule: less_induct)
  case less
  let ?t = "rop_total_transferred_size op" and ?b = "rop_buffer op"
  obtain code ch1 where h: "read_header S ch = (code, ch1)" by fastforce
  obtain r ch2 where p: "process_header_read ch1 = (r, ch2)" by fastforce
  note sync = channel_read_loop.simps [of S ?t ?b ch]
  consider (header) "failed code" | (mismatch) err where "\<not> failed code" "r = Inl err" | (body) w where "\<not> failed code" "r = Inr w"
    by (cases r) auto
  then show ?case
  proof cases
    case header
    then show ?thesis by (simp add: read_op_run_stop(1) [OF h p] sync h normal_read_def)
  next
    case mismatch
    then show ?thesis
      using p process_header_read_result(3) [OF p]
      by (simp add: read_op_run_stop(2) [OF h p] sync h normal_read_def)
  next
    case body
    then have pw: "process_header_read ch1 = (Inr w, ch2)" using p by simp
    obtain bs code2 ch3 where b: "read_impl S (unat w) ch2 = (bs, code2, ch3)" by (metis prod_cases3)
    define buf where "buf = put_bytes ?t bs (resize (length ?b + unat w) ?b)"
    let ?op4 = "\<lparr>rop_point = Read_header_received, rop_buffer = buf, rop_total_transferred_size = ?t + unat w\<rparr>"
    have sync': "channel_read_loop S ?t ?b ch =
        (if failed code2 then Some (buf, code2, ch3)
         else if unat w = MAX_PACKET_SIZE then channel_read_loop S (?t + unat w) buf ch3
         else Some (buf, code2, ch3))"
      unfolding buf_def by (simp add: sync h body(1) pw b Let_def)
    have rec: "read_op_run S ?op4 ch3 = normal_read (channel_read_loop S (?t + unat w) buf ch3)"
      using less.hyps [OF read_packet_progress [OF assms(1) less.prems h body(1) pw b], of ?op4] by simp
    show ?thesis
      unfolding read_op_run_body [OF assms(1) h body(1) pw b refl refl buf_def] sync' rec
      by (auto simp: normal_read_def)
  qed
qed

text \<open>The operations seen by their callers.\<close>

lemma async_read_eq:
  assumes "byte_stream S inp out" and "channel_wf ch"
  shows "async_read S ch = normal_read (channel_read S ch)"
proof -
  have "run_co (read_op_resume S) (no_error, 0) (make_read_op, ch) =
      Option.bind (await_header S (make_read_op\<lparr>rop_point := Read_header_received\<rparr>, ch))
        (\<lambda>(args, st). run_co (read_op_resume S) args st)"
    by (intro run_co_await) (simp add: read_op_resume_def make_read_op_def)
  then have "async_read S ch = read_op_run S make_read_op ch" by (simp add: async_read_def read_op_run_def)
  then show ?thesis
    using read_op_run_eq [OF assms, of make_read_op] by (simp add: make_read_op_def channel_read_def)
qed

lemma write_op_run:
  assumes "byte_stream S inp out" and "channel_wf ch" and "wop_buffer op = buffer" and "wop_total_transferred_size op = t"
  shows "map_option (\<lambda>(code, op, ch1). (code, ch1))
      (Option.bind (write_op_packet S op ch) (co_continue (write_op_resume S))) =
    normal_write (channel_write_loop S buffer t ch)"
  using assms
proof (induction S buffer t ch arbitrary: op rule: channel_write_loop.induct)
  case (1 S buffer t ch)
  define w where "w = compute_size_to_write (length buffer) t"
  let ?ch1 = "ch\<lparr>ch_header := frame_header (unat w) (ch_sequence_number ch), ch_sequence_number := ch_sequence_number ch + 1\<rparr>"
  have h: "process_header_write w ch = Some ?ch1" by (rule process_header_write_frame [OF 1(3)])
  let ?bs = "ch_header ?ch1 @ take (unat w) (drop t buffer)"
  obtain k code ch2 where wr: "write_impl S ?bs ?ch1 = (k, code, ch2)" by (metis prod_cases3)
  note r = write_impl_result [OF 1(2) wr]
  have wf2: "channel_wf ch2" using r(4) by (simp add: same_session_def channel_wf_def)
  let ?op1 = "op\<lparr>wop_point := Write_packet_sent\<rparr>"
  have loop: "channel_write_loop S buffer t ch =
      (if failed code then Some (code, ch2)
       else if t + unat w < length buffer then channel_write_loop S buffer (t + unat w) ch2
       else Some (code, ch2))"
    using wr by (simp add: channel_write_loop.simps [of S buffer t ch] h flip: w_def)
  have packet: "Option.bind (write_op_packet S op ch) (co_continue (write_op_resume S)) =
      run_co (write_op_resume S) (code, k) (?op1, ch2)"
    using wr by (simp add: write_op_packet_def 1(4,5) h await_write_def Let_def flip: w_def)
  show ?case
  proof (cases "failed code")
    case True
    then have "run_co (write_op_resume S) (code, k) (?op1, ch2) = Some (code, ?op1, ch2)"
      by (intro run_co_complete) (simp add: write_op_resume_def)
    then show ?thesis using True unfolding packet loop by (simp add: normal_write_def)
  next
    case False
    have "unat w \<le> length (drop t buffer)" by (simp add: w_def unat_compute_size_to_write)
    then have k: "k - 4 = unat w" using r(3) [OF False] by simp
    let ?op2 = "?op1\<lparr>wop_total_transferred_size := t + unat w\<rparr>"
    show ?thesis
    proof (cases "t + unat w < length buffer")
      case True
      have "run_co (write_op_resume S) (code, k) (?op1, ch2) =
          Option.bind (write_op_packet S ?op2 ch2) (co_continue (write_op_resume S))"
        using True by (subst run_co_step) (simp add: write_op_resume_def False k 1(4,5))
      moreover have "map_option (\<lambda>(code, op, ch1). (code, ch1))
          (Option.bind (write_op_packet S ?op2 ch2) (co_continue (write_op_resume S))) =
          normal_write (channel_write_loop S buffer (t + unat w) ch2)"
        by (rule 1(1) [OF refl refl, folded w_def, OF h _ refl False True 1(2) wf2]) (use wr 1(4,5) in simp_all)
      ultimately show ?thesis using False True unfolding packet loop by simp
    next
      case last: False
      then have "run_co (write_op_resume S) (code, k) (?op1, ch2) = Some (no_error, ?op2, ch2)"
        by (intro run_co_complete) (simp add: write_op_resume_def False k 1(4,5) Let_def)
      then show ?thesis using False last unfolding packet loop by (simp add: normal_write_def)
    qed
  qed
qed

lemma async_write_eq:
  assumes "byte_stream S inp out" and "channel_wf ch"
  shows "async_write S buffer ch = normal_write (channel_write S buffer ch)"
proof -
  have "run_co (write_op_resume S) (no_error, 0) (make_write_op buffer, ch) =
      Option.bind (write_op_packet S (make_write_op buffer) ch) (co_continue (write_op_resume S))"
    by (subst run_co_step) (simp add: write_op_resume_def make_write_op_def)
  then show ?thesis
    using write_op_run [OF assms, of "make_write_op buffer" buffer 0]
    by (simp add: async_write_def channel_write_def make_write_op_def)
qed

lemma async_ssl_handshake_eq: "async_ssl_handshake S ch = channel_ssl_handshake S ch"
  by (simp add: async_ssl_handshake_def channel_ssl_handshake_def)

section \<open>Properties\<close>

text \<open>
  C15: the coroutines of the channel do what its synchronous operations do: whatever the stream
  delivers, the same bytes are read and written, in the same order, with the same error and the
  same state of the channel, and they complete whenever those return.
\<close>
theorem async_channel_same:
  assumes "byte_stream S inp out" and "channel_wf ch"
  shows "async_read S ch = normal_read (channel_read S ch) \<and>
    async_write S buffer ch = normal_write (channel_write S buffer ch)"
  using async_read_eq [OF assms] async_write_eq [OF assms] by simp

lemma async_channel_same_witness:
  "async_read scripted_stream (sample_peer [1, 0, 0, 0, 9]) = normal_read (channel_read scripted_stream (sample_peer [1, 0, 0, 0, 9])) \<and>
   async_write scripted_stream [7] (sample_peer []) = normal_write (channel_write scripted_stream [7] (sample_peer []))"
  using async_channel_same [OF scripted_byte_stream sample_peer_wf, of "[1, 0, 0, 0, 9]" "[]"]
    async_channel_same [OF scripted_byte_stream sample_peer_wf, of "[]" "[7]"]
  by simp

end
