(* ===== verification/Metadata.thy ===== *)
theory Metadata
  imports Common_Messages
begin

text \<open>
  Column metadata: \<open>field_metadata\<close> (\<open>metadata.hpp\<close>, \<open>impl/metadata.ipp\<close>) with the type it
  computes once and keeps, and \<open>resultset_metadata\<close>.
\<close>

datatype field_type =
  ft_tinyint | ft_smallint | ft_mediumint | ft_int | ft_bigint | ft_float | ft_double | ft_decimal
  | ft_bit | ft_year | ft_time | ft_date | ft_datetime | ft_timestamp | ft_char | ft_varchar
  | ft_binary | ft_varbinary | ft_text | ft_blob | ft_enum | ft_set | ft_geometry | ft_unknown
  | ft_not_computed

text \<open>The flags are widened to 32 bits; a test is true when the masked value is not zero.\<close>

definition compute_field_type_string :: "u16 \<Rightarrow> field_type" where
  "compute_field_type_string flags =
     (if flags AND flag_set \<noteq> 0 then ft_set
      else if flags AND flag_enum \<noteq> 0 then ft_enum
      else if flags AND flag_binary \<noteq> 0 then ft_binary
      else ft_char)"

definition compute_field_type_var_string :: "u16 \<Rightarrow> field_type" where
  "compute_field_type_var_string flags = (if flags AND flag_binary \<noteq> 0 then ft_varbinary else ft_varchar)"

definition compute_field_type_blob :: "u16 \<Rightarrow> field_type" where
  "compute_field_type_blob flags = (if flags AND flag_binary \<noteq> 0 then ft_blob else ft_text)"

fun compute_field_type :: "protocol_field_type \<Rightarrow> u16 \<Rightarrow> field_type" where
  "compute_field_type pft_decimal flags = ft_decimal"
| "compute_field_type pft_newdecimal flags = ft_decimal"
| "compute_field_type pft_geometry flags = ft_geometry"
| "compute_field_type pft_tiny flags = ft_tinyint"
| "compute_field_type pft_short flags = ft_smallint"
| "compute_field_type pft_int24 flags = ft_mediumint"
| "compute_field_type pft_long flags = ft_int"
| "compute_field_type pft_longlong flags = ft_bigint"
| "compute_field_type pft_float flags = ft_float"
| "compute_field_type pft_double flags = ft_double"
| "compute_field_type pft_bit flags = ft_bit"
| "compute_field_type pft_date flags = ft_date"
| "compute_field_type pft_datetime flags = ft_datetime"
| "compute_field_type pft_timestamp flags = ft_timestamp"
| "compute_field_type pft_time flags = ft_time"
| "compute_field_type pft_year flags = ft_year"
| "compute_field_type pft_string flags = compute_field_type_string flags"
| "compute_field_type pft_var_string flags = compute_field_type_var_string flags"
| "compute_field_type pft_blob flags = compute_field_type_blob flags"
| "compute_field_type _ flags = ft_unknown"

text \<open>\<open>field_type_\<close> is mutable: computed on the first call of \<open>type\<close>.\<close>

record field_metadata =
  fm_msg :: column_definition_packet
  fm_field_type :: field_type

definition field_metadata_of :: "column_definition_packet \<Rightarrow> field_metadata" where
  "field_metadata_of msg = \<lparr>fm_msg = msg, fm_field_type = ft_not_computed\<rparr>"

definition field_metadata_type :: "field_metadata \<Rightarrow> field_type \<times> field_metadata" where
  "field_metadata_type fm =
     (let fm1 = (if fm_field_type fm = ft_not_computed
                 then fm\<lparr>fm_field_type := compute_field_type (cd_type (fm_msg fm)) (cd_flags (fm_msg fm))\<rparr>
                 else fm)
      in (fm_field_type fm1, fm1))"

definition fm_flag_set :: "field_metadata \<Rightarrow> u16 \<Rightarrow> bool" where
  "fm_flag_set fm flag \<longleftrightarrow> cd_flags (fm_msg fm) AND flag \<noteq> 0"

definition fm_protocol_type :: "field_metadata \<Rightarrow> protocol_field_type" where
  "fm_protocol_type fm = cd_type (fm_msg fm)"

definition fm_decimals :: "field_metadata \<Rightarrow> nat" where
  "fm_decimals fm = unat (cd_decimals (fm_msg fm))"

definition fm_is_not_null :: "field_metadata \<Rightarrow> bool" where
  "fm_is_not_null fm = fm_flag_set fm flag_not_null"
definition fm_is_primary_key :: "field_metadata \<Rightarrow> bool" where
  "fm_is_primary_key fm = fm_flag_set fm flag_pri_key"
definition fm_is_unique_key :: "field_metadata \<Rightarrow> bool" where
  "fm_is_unique_key fm = fm_flag_set fm flag_unique_key"
definition fm_is_multiple_key :: "field_metadata \<Rightarrow> bool" where
  "fm_is_multiple_key fm = fm_flag_set fm flag_multiple_key"
definition fm_is_unsigned :: "field_metadata \<Rightarrow> bool" where
  "fm_is_unsigned fm = fm_flag_set fm flag_unsigned"
definition fm_is_zerofill :: "field_metadata \<Rightarrow> bool" where
  "fm_is_zerofill fm = fm_flag_set fm flag_zerofill"
definition fm_is_auto_increment :: "field_metadata \<Rightarrow> bool" where
  "fm_is_auto_increment fm = fm_flag_set fm flag_auto_increment"
definition fm_has_no_default_value :: "field_metadata \<Rightarrow> bool" where
  "fm_has_no_default_value fm = fm_flag_set fm flag_no_default_value"
definition fm_is_set_to_now_on_update :: "field_metadata \<Rightarrow> bool" where
  "fm_is_set_to_now_on_update fm = fm_flag_set fm flag_on_update_now"

text \<open>
  The buffers own the bytes the metadata's strings point into; the strings are values here, so
  the buffers are only kept.
\<close>

record resultset_metadata =
  rm_buffers :: "bytes list"
  rm_fields :: "field_metadata list"

definition empty_metadata :: resultset_metadata where
  "empty_metadata = \<lparr>rm_buffers = [], rm_fields = []\<rparr>"

lemma compute_field_type_computed: "compute_field_type t flags \<noteq> ft_not_computed"
  by (cases t) (simp_all add: compute_field_type_string_def compute_field_type_var_string_def compute_field_type_blob_def)

text \<open>
  The kept type is never stale: whatever mix of calls was made before, \<open>type\<close> answers what it
  computes from the definition packet, and asking again changes nothing.
\<close>

definition fm_wf :: "field_metadata \<Rightarrow> bool" where
  "fm_wf fm \<longleftrightarrow>
     fm_field_type fm \<in> {ft_not_computed, compute_field_type (cd_type (fm_msg fm)) (cd_flags (fm_msg fm))}"

lemma fm_wf_of [simp]: "fm_wf (field_metadata_of msg)"
  by (simp add: fm_wf_def field_metadata_of_def)

lemma field_metadata_type_wf:
  assumes "fm_wf fm" and "field_metadata_type fm = (t, fm1)"
  shows "t = compute_field_type (cd_type (fm_msg fm)) (cd_flags (fm_msg fm))"
    and "fm_wf fm1" and "fm_msg fm1 = fm_msg fm" and "field_metadata_type fm1 = (t, fm1)"
  using assms compute_field_type_computed
  by (auto simp: fm_wf_def field_metadata_type_def Let_def)

end
