(* ===== verification/Values.thy ===== *)
theory Values
  imports Protocol_Constants
begin

text \<open>
  The \<open>value\<close> variant of \<open>value.hpp\<close>, with its accessors and conversions, the date and time
  ranges, and the interface of the calendar library the code uses (\<open>date/date.h\<close>, not part of
  this repository): a record of its functions, passed to every definition that calls it, and
  the documented laws it is relied on for.
\<close>

section \<open>The variant\<close>

text \<open>
  \<open>float\<close> and \<open>double\<close> are kept as their IEEE 754 bit patterns. \<open>date\<close> counts days from
  1970-01-01, \<open>datetime\<close> microseconds from the same instant, \<open>time\<close> microseconds.
\<close>

datatype mysql_value =
    V_null
  | V_int64 u64
  | V_uint64 u64
  | V_string bytes
  | V_float u32
  | V_double u64
  | V_date int
  | V_datetime int
  | V_time int

definition is_null :: "mysql_value \<Rightarrow> bool" where
  "is_null v \<longleftrightarrow> v = V_null"

text \<open>The fields of the two formats, and the classes of values that SQL forbids.\<close>

definition float_sign :: "u32 \<Rightarrow> nat" where
  "float_sign w = unat w div 2 ^ 31"
definition float_exp :: "u32 \<Rightarrow> nat" where
  "float_exp w = unat w div 2 ^ 23 mod 2 ^ 8"
definition float_mant :: "u32 \<Rightarrow> nat" where
  "float_mant w = unat w mod 2 ^ 23"

definition double_sign :: "u64 \<Rightarrow> nat" where
  "double_sign w = unat w div 2 ^ 63"
definition double_exp :: "u64 \<Rightarrow> nat" where
  "double_exp w = unat w div 2 ^ 52 mod 2 ^ 11"
definition double_mant :: "u64 \<Rightarrow> nat" where
  "double_mant w = unat w mod 2 ^ 52"

definition float_isnan :: "u32 \<Rightarrow> bool" where
  "float_isnan w \<longleftrightarrow> float_exp w = 255 \<and> float_mant w \<noteq> 0"
definition float_isinf :: "u32 \<Rightarrow> bool" where
  "float_isinf w \<longleftrightarrow> float_exp w = 255 \<and> float_mant w = 0"
definition double_isnan :: "u64 \<Rightarrow> bool" where
  "double_isnan w \<longleftrightarrow> double_exp w = 2047 \<and> double_mant w \<noteq> 0"
definition double_isinf :: "u64 \<Rightarrow> bool" where
  "double_isinf w \<longleftrightarrow> double_exp w = 2047 \<and> double_mant w = 0"

section \<open>Accessors\<close>

text \<open>
  \<open>get_optional\<close> specialised to the integer alternatives, which convert into each other when
  the number is in range of both. \<open>get\<close> throws \<open>std::bad_variant_access\<close>, the left side.
\<close>

definition get_optional_uint64 :: "mysql_value \<Rightarrow> u64 option" where
  "get_optional_uint64 v =
     (case v of
        V_uint64 w \<Rightarrow> Some w
      | V_int64 w \<Rightarrow> (if 0 \<le> sint w then Some w else None)
      | _ \<Rightarrow> None)"

definition get_optional_int64 :: "mysql_value \<Rightarrow> u64 option" where
  "get_optional_int64 v =
     (case v of
        V_int64 w \<Rightarrow> Some w
      | V_uint64 w \<Rightarrow> (if w \<le> 0x7fffffffffffffff then Some w else None)
      | _ \<Rightarrow> None)"

datatype bad_variant_access = Bad_variant_access

definition value_get :: "(mysql_value \<Rightarrow> 'a option) \<Rightarrow> mysql_value \<Rightarrow> bad_variant_access + 'a" where
  "value_get get_opt v = (case get_opt v of None \<Rightarrow> Inl Bad_variant_access | Some x \<Rightarrow> Inr x)"

text \<open>
  The constructor widens any integer to 64 bits, with its sign when the source type is signed.
\<close>

definition value_of_unsigned :: "'a::len word \<Rightarrow> mysql_value" where
  "value_of_unsigned w = V_uint64 (ucast w)"

definition value_of_signed :: "'a::len word \<Rightarrow> mysql_value" where
  "value_of_signed w = V_int64 (scast w)"

text \<open>The mathematical integer an integer value stands for.\<close>

definition int_value :: "mysql_value \<Rightarrow> int option" where
  "int_value v = (case v of V_int64 w \<Rightarrow> Some (sint w) | V_uint64 w \<Rightarrow> Some (uint w) | _ \<Rightarrow> None)"


text \<open>
  A conversion between the two integer alternatives keeps the number and happens exactly when
  the number is in range of the requested type.
\<close>

lemma get_optional_uint64_iff:
  "get_optional_uint64 v = Some w \<longleftrightarrow> int_value v = Some (uint w)"
proof (cases v)
  case (V_int64 x)
  have "0 \<le> sint x \<Longrightarrow> sint x = uint x"
    using unsigned_less [of x, where 'a = int] by (auto simp: sint_uint_cases split: if_splits)
  then show ?thesis
    by (auto simp: V_int64 get_optional_uint64_def int_value_def word_uint_eq_iff)
qed (auto simp: get_optional_uint64_def int_value_def word_uint_eq_iff)

lemma sint_inject: "sint (x :: 'a::len word) = sint y \<Longrightarrow> x = y"
  by (rule signed_word_eqI) 

lemma get_optional_int64_iff:
  "get_optional_int64 v = Some w \<longleftrightarrow> int_value v = Some (sint w)"
proof (cases v)
  case (V_uint64 x)
  have lt: "x \<le> 0x7fffffffffffffff \<longleftrightarrow> uint x < 2 ^ 63"
    by (simp add: word_le_def) presburger
  have "0 \<le> uint x" "uint w < 2 ^ 64" using unsigned_less [of w, where 'a = int] by simp_all
  then have "uint x \<noteq> uint w - 2 ^ 64" by linarith
  with lt show ?thesis
    using unsigned_less [of x, where 'a = int] unsigned_less [of w, where 'a = int]
    by (auto simp: V_uint64 get_optional_int64_def int_value_def lt sint_uint_cases word_uint_eq_iff
        split: if_splits)
qed (auto simp: get_optional_int64_def int_value_def dest: sint_inject)

section \<open>Float to double\<close>

text \<open>
  \<open>get_optional<double>\<close> widens a \<open>float\<close>: the language's exact conversion, on the fields of the
  bit pattern. A subnormal \<open>float\<close> becomes a normal \<open>double\<close>: its significand is shifted up to
  the position of its highest bit.
\<close>

fun highest_bit :: "nat \<Rightarrow> nat" where
  "highest_bit m = (if m < 2 then 0 else Suc (highest_bit (m div 2)))"

declare highest_bit.simps [simp del]

definition double_of_fields :: "nat \<Rightarrow> nat \<Rightarrow> nat \<Rightarrow> u64" where
  "double_of_fields s e m = of_nat (s * 2 ^ 63 + e * 2 ^ 52 + m)"

definition float_to_double :: "u32 \<Rightarrow> u64" where
  "float_to_double w =
     (let s = float_sign w; e = float_exp w; m = float_mant w
      in if e = 255 then double_of_fields s 2047 (m * 2 ^ 29)
         else if e = 0 then
           (if m = 0 then double_of_fields s 0 0
            else let k = highest_bit m in double_of_fields s (k + 874) ((m - 2 ^ k) * 2 ^ (52 - k)))
         else double_of_fields s (e + 896) (m * 2 ^ 29))"

definition get_optional_double :: "mysql_value \<Rightarrow> u64 option" where
  "get_optional_double v =
     (case v of V_double w \<Rightarrow> Some w | V_float w \<Rightarrow> Some (float_to_double w) | _ \<Rightarrow> None)"

text \<open>
  The magnitude of a finite number as a multiple of the smallest subnormal of its format: a
  \<open>float\<close> in units of \<open>2 ^ -149\<close>, a \<open>double\<close> in units of \<open>2 ^ -1074\<close>.
\<close>

definition float_magnitude :: "u32 \<Rightarrow> nat" where
  "float_magnitude w =
     (if float_exp w = 0 then float_mant w else (2 ^ 23 + float_mant w) * 2 ^ (float_exp w - 1))"

definition double_magnitude :: "u64 \<Rightarrow> nat" where
  "double_magnitude w =
     (if double_exp w = 0 then double_mant w else (2 ^ 52 + double_mant w) * 2 ^ (double_exp w - 1))"

lemma highest_bit_bounds: "0 < m \<Longrightarrow> 2 ^ highest_bit m \<le> m \<and> m < 2 * 2 ^ highest_bit m"
proof (induction m rule: highest_bit.induct)
  case (1 m)
  show ?case
  proof (cases "m < 2")
    case True
    with 1 show ?thesis by (simp add: highest_bit.simps)
  next
    case False
    with 1 have "2 ^ highest_bit (m div 2) \<le> m div 2" "m div 2 < 2 * 2 ^ highest_bit (m div 2)"
      by simp_all
    moreover have "p \<le> m div 2 \<Longrightarrow> m div 2 < 2 * p \<Longrightarrow> 2 * p \<le> m \<and> m < 2 * (2 * p)" for p :: nat
      by presburger
    ultimately show ?thesis using False by (subst (1 2) highest_bit.simps) simp
  qed
qed

lemma low_part: "m < (n :: nat) \<Longrightarrow> (a * n + m) mod n = m" and high_part: "m < (n :: nat) \<Longrightarrow> (a * n + m) div n = a"
  by simp_all

lemma double_of_fields_simps:
  assumes "s < 2" and "e < 2 ^ 11" and "m < 2 ^ 52"
  shows "double_sign (double_of_fields s e m) = s" and "double_exp (double_of_fields s e m) = e"
    and "double_mant (double_of_fields s e m) = m"
proof -
  have "s * 2 ^ 63 + e * 2 ^ 52 + m < 2 ^ 64" using assms by simp
  then have u: "unat (double_of_fields s e m) = (s * 2 ^ 11 + e) * 2 ^ 52 + m"
    unfolding double_of_fields_def unsigned_of_nat by (simp add: take_bit_nat_eq_self)
  have d: "((s * 2 ^ 11 + e) * 2 ^ 52 + m) div 2 ^ 52 = s * 2 ^ 11 + e"
    by (rule high_part [OF assms(3)])
  show "double_mant (double_of_fields s e m) = m"
    unfolding double_mant_def u by (rule low_part [OF assms(3)])
  show "double_exp (double_of_fields s e m) = e"
    unfolding double_exp_def u d by (rule low_part [OF assms(2)])
  have "((s * 2 ^ 11 + e) * 2 ^ 52 + m) div 2 ^ 63 = ((s * 2 ^ 11 + e) * 2 ^ 52 + m) div 2 ^ 52 div 2 ^ 11"
    by (simp only: div_mult2_eq [symmetric]) simp
  then show "double_sign (double_of_fields s e m) = s"
    unfolding double_sign_def u d by (simp only: high_part [OF assms(2)])
qed

lemma float_fields_bounds: "float_sign w < 2" "float_exp w < 256" "float_mant w < 2 ^ 23"
proof -
  have "unat w < 2 * 2 ^ 31" using unsigned_less [of w, where 'a = nat] by simp
  then show "float_sign w < 2" unfolding float_sign_def by (rule less_mult_imp_div_less)
qed (simp_all add: float_exp_def float_mant_def)

lemma scale_normal:
  "0 < (e :: nat) \<Longrightarrow> (2 ^ 52 + m * 2 ^ 29) * 2 ^ (e + 896 - 1) = ((2 ^ 23 + m) * 2 ^ (e - 1)) * (2 :: nat) ^ 925"
proof -
  assume "0 < e"
  then obtain f where e: "e = Suc f" by (cases e) auto
  have "(2 ^ 52 + m * 2 ^ 29 :: nat) = (2 ^ 23 + m) * 2 ^ 29" by simp
  then have "(2 ^ 52 + m * 2 ^ 29) * 2 ^ (e + 896 - 1) = (2 ^ 23 + m) * (2 ^ 29 * (2 :: nat) ^ (f + 896))"
    by (simp only: e mult.assoc) simp
  also have "(2 ^ 29 * 2 ^ (f + 896) :: nat) = 2 ^ f * 2 ^ 925"
    by (simp only: flip: power_add) (simp add: add.commute)
  finally show ?thesis by (simp only: e mult.assoc) simp
qed

text \<open>Widening is exact, keeps the sign, and keeps finite numbers finite.\<close>

lemma float_to_double_exact:
  assumes "float_exp w \<noteq> 255"
  shows "double_sign (float_to_double w) = float_sign w"
    and "double_exp (float_to_double w) \<noteq> 2047"
    and "double_magnitude (float_to_double w) = float_magnitude w * 2 ^ 925"
proof -
  let ?s = "float_sign w" and ?e = "float_exp w" and ?m = "float_mant w" and ?d = "float_to_double w"
  note b = float_fields_bounds [of w]
  have "double_sign ?d = ?s \<and> double_exp ?d \<noteq> 2047 \<and> double_magnitude ?d = float_magnitude w * 2 ^ 925"
  proof (cases "?e = 0")
    case False
    have d: "?d = double_of_fields ?s (?e + 896) (?m * 2 ^ 29)"
      using assms False by (simp add: float_to_double_def)
    have lt: "?e + 896 < 2 ^ 11" "?m * 2 ^ 29 < 2 ^ 52" using b by simp_all
    note f = double_of_fields_simps [OF b(1) lt]
    show ?thesis
      unfolding d f double_magnitude_def float_magnitude_def
      using scale_normal [of ?e ?m] False assms b(2) by simp
  next
    case True
    show ?thesis
    proof (cases "?m = 0")
      case z: True
      have "?d = double_of_fields ?s 0 0" using True z by (simp add: float_to_double_def)
      then show ?thesis
        using b(1) True z by (simp add: double_of_fields_simps double_magnitude_def float_magnitude_def)
    next
      case False
      let ?k = "highest_bit ?m"
      have k: "2 ^ ?k \<le> ?m" "?m < 2 * 2 ^ ?k" using highest_bit_bounds False by auto
      have k23: "?k < 23" using k(1) b(3) power_less_imp_less_exp [of "2 :: nat" ?k 23] by linarith
      have d: "?d = double_of_fields ?s (?k + 874) ((?m - 2 ^ ?k) * 2 ^ (52 - ?k))"
        using True False by (simp add: float_to_double_def Let_def)
      have p: "2 ^ ?k * 2 ^ (52 - ?k) = (2 :: nat) ^ 52" using k23 by (simp flip: power_add)
      have "(?m - 2 ^ ?k) * 2 ^ (52 - ?k) < 2 ^ ?k * 2 ^ (52 - ?k)" using k by simp
      then have lt: "?k + 874 < 2 ^ 11" "(?m - 2 ^ ?k) * 2 ^ (52 - ?k) < 2 ^ 52" using k23 p by simp_all
      note f = double_of_fields_simps [OF b(1) lt]
      have "2 ^ 52 + (?m - 2 ^ ?k) * 2 ^ (52 - ?k) = (2 ^ ?k + (?m - 2 ^ ?k)) * 2 ^ (52 - ?k)"
        by (simp only: p [symmetric] add_mult_distrib)
      then have "(2 ^ 52 + (?m - 2 ^ ?k) * 2 ^ (52 - ?k)) * 2 ^ (?k + 874 - 1)
          = ?m * (2 ^ (52 - ?k) * 2 ^ (?k + 873))"
        using k(1) by simp
      also have "2 ^ (52 - ?k) * 2 ^ (?k + 873) = (2 :: nat) ^ 925"
        using k23 by (simp only: flip: power_add) simp
      finally show ?thesis
        unfolding d f double_magnitude_def float_magnitude_def using True k23 by simp
    qed
  qed
  then show "double_sign ?d = ?s" "double_exp ?d \<noteq> 2047"
    "double_magnitude ?d = float_magnitude w * 2 ^ 925" by auto
qed

section \<open>Properties\<close>

text \<open>
  Integer conversions keep the number: \<open>get\<close> of the other integer type gives exactly the
  number the value holds, and fails exactly when that type cannot hold it.
\<close>
theorem integer_conversions:
  "(get_optional_int64 v = Some w \<longleftrightarrow> int_value v = Some (sint w)) \<and>
   (get_optional_uint64 v = Some w \<longleftrightarrow> int_value v = Some (uint w))"
  by (intro conjI get_optional_int64_iff get_optional_uint64_iff)

text \<open>
  Reading a finite \<open>float\<close> as a \<open>double\<close> is exact, subnormal numbers included: same sign,
  same magnitude (in units of the smallest subnormal of each format), and finite.
\<close>
theorem float_as_double_exact:
  assumes "float_exp w \<noteq> 255"
  shows "\<exists>d. get_optional_double (V_float w) = Some d \<and> double_sign d = float_sign w \<and>
             double_exp d \<noteq> 2047 \<and> double_magnitude d = float_magnitude w * 2 ^ 925"
  using float_to_double_exact [OF assms] by (auto simp: get_optional_double_def)

lemma float_as_double_exact_witness:
  "\<exists>d. get_optional_double (V_float 3) = Some d \<and> double_magnitude d = 3 * 2 ^ 925"
  using float_as_double_exact [of 3] by (auto simp: float_exp_def float_magnitude_def float_mant_def)

end
