(* ===== verification/Date_Time.thy ===== *)
theory Date_Time
  imports Values "HOL-Library.Signed_Division"
begin

text \<open>
  Dates, datetimes and times: the ranges of \<open>value.hpp\<close>, the printer of times in
  \<open>impl/value.hpp\<close>, and the interface of the calendar library the code calls
  (\<open>date/date.h\<close>, not part of this repository). The library is a record of functions, an
  argument of every definition that calls it; the locale \<open>date_library\<close> holds the documented
  laws the code relies on, and is interpreted on the proleptic Gregorian calendar.

  Days are counted from 1970-01-01; \<open>datetime\<close> and \<open>time\<close> are in microseconds.
\<close>

section \<open>The calendar library\<close>

text \<open>
  \<open>year_month_day::ok\<close>, the conversions between \<open>year_month_day\<close> and \<open>sys_days\<close>,
  \<open>floor<days>\<close>, and the fields of \<open>time_of_day<microseconds>\<close> (hours, minutes, seconds,
  subseconds).
\<close>

record date_lib =
  ymd_ok :: "int \<Rightarrow> int \<Rightarrow> int \<Rightarrow> bool"
  sys_days :: "int \<Rightarrow> int \<Rightarrow> int \<Rightarrow> int"
  civil_of_days :: "int \<Rightarrow> int \<times> int \<times> int"
  floor_days :: "int \<Rightarrow> int"
  tod_fields :: "int \<Rightarrow> int \<times> int \<times> int \<times> int"

definition micros_per_day :: int where
  [simp]: "micros_per_day = 86400000000"

section \<open>Ranges\<close>

definition min_date :: "date_lib \<Rightarrow> int" where
  "min_date D = sys_days D 0 1 1"

definition max_date :: "date_lib \<Rightarrow> int" where
  "max_date D = sys_days D 9999 12 31"

definition min_datetime :: "date_lib \<Rightarrow> int" where
  "min_datetime D = min_date D * micros_per_day"

definition max_datetime :: "date_lib \<Rightarrow> int" where
  "max_datetime D = max_date D * micros_per_day + 24 * 3600 * 1000000 - 1"

definition min_time :: int where
  "min_time = - (839 * 3600 * 1000000)"

definition max_time :: int where
  "max_time = 839 * 3600 * 1000000"

definition is_out_of_range :: "date_lib \<Rightarrow> int \<Rightarrow> bool" where
  "is_out_of_range D d \<longleftrightarrow> d < min_date D \<or> d > max_date D"

text \<open>
  The ranges \<open>value.hpp\<close> promises that the code keeps: those of the date and time alternatives,
  which it names as constants. The ranges it lists for the integer column types are not checked
  anywhere; nothing is said of integers here.
\<close>

definition date_time_in_range :: "date_lib \<Rightarrow> mysql_value \<Rightarrow> bool" where
  "date_time_in_range D v =
     (case v of
        V_date d \<Rightarrow> min_date D \<le> d \<and> d \<le> max_date D
      | V_datetime t \<Rightarrow> min_datetime D \<le> t \<and> t \<le> max_datetime D
      | V_time t \<Rightarrow> min_time \<le> t \<and> t \<le> max_time
      | _ \<Rightarrow> True)"

section \<open>The laws\<close>

locale date_library =
  fixes D :: date_lib
  assumes ok_range: "ymd_ok D y m d \<Longrightarrow> 1 \<le> m \<and> m \<le> 12 \<and> 1 \<le> d \<and> d \<le> 31"
    and civil_sys: "ymd_ok D y m d \<Longrightarrow> civil_of_days D (sys_days D y m d) = (y, m, d)"
    and sys_range: "ymd_ok D y m d \<Longrightarrow> 0 \<le> y \<Longrightarrow> y \<le> 9999 \<Longrightarrow>
      sys_days D 0 1 1 \<le> sys_days D y m d \<and> sys_days D y m d \<le> sys_days D 9999 12 31"
    and civil_range: "sys_days D 0 1 1 \<le> n \<Longrightarrow> n \<le> sys_days D 9999 12 31 \<Longrightarrow>
      civil_of_days D n = (y, m, d) \<Longrightarrow> ymd_ok D y m d \<and> 0 \<le> y \<and> y \<le> 9999 \<and> sys_days D y m d = n"
    and floor_days: "floor_days D t = t div 86400000000"
    and tod_fields: "0 \<le> t \<Longrightarrow> t < 86400000000 \<Longrightarrow>
      tod_fields D t = (t div 3600000000, t div 60000000 mod 60, t div 1000000 mod 60, t mod 1000000)"
begin

lemma sys_not_out_of_range:
  "ymd_ok D y m d \<Longrightarrow> 0 \<le> y \<Longrightarrow> y \<le> 9999 \<Longrightarrow> \<not> is_out_of_range D (sys_days D y m d)"
  using sys_range [of y m d] by (simp add: is_out_of_range_def min_date_def max_date_def)

lemma civil_in_range:
  assumes "min_date D \<le> n" and "n \<le> max_date D"
  obtains y m d where "civil_of_days D n = (y, m, d)" and "ymd_ok D y m d" and "0 \<le> y" and "y \<le> 9999"
    and "1 \<le> m" and "m \<le> 12" and "1 \<le> d" and "d \<le> 31" and "sys_days D y m d = n"
proof -
  obtain y m d where c: "civil_of_days D n = (y, m, d)" by (cases "civil_of_days D n")
  then show thesis
    using civil_range [of n y m d] ok_range [of y m d] assms that
    by (auto simp: min_date_def max_date_def)
qed

text \<open>A datetime in range falls on a date in range, at a time of that day.\<close>

lemma datetime_in_range:
  assumes "min_datetime D \<le> t" and "t \<le> max_datetime D"
  shows "min_date D \<le> floor_days D t" and "floor_days D t \<le> max_date D"
    and "0 \<le> t - floor_days D t * micros_per_day" and "t - floor_days D t * micros_per_day < micros_per_day"
  using assms by (auto simp: min_datetime_def max_datetime_def floor_days minus_div_mult_eq_mod)

lemma date_plus_time_in_range:
  "min_date D \<le> d \<Longrightarrow> d \<le> max_date D \<Longrightarrow> 0 \<le> t \<Longrightarrow> t < micros_per_day \<Longrightarrow>
   min_datetime D \<le> d * micros_per_day + t \<and> d * micros_per_day + t \<le> max_datetime D"
  by (simp add: min_datetime_def max_datetime_def)

end

section \<open>The Gregorian calendar\<close>

definition leap :: "int \<Rightarrow> bool" where
  "leap y \<longleftrightarrow> y mod 4 = 0 \<and> (y mod 100 \<noteq> 0 \<or> y mod 400 = 0)"

text \<open>Days from 0000-01-01 to the first of January of a year.\<close>

definition days_before_year :: "int \<Rightarrow> int" where
  "days_before_year y = 365 * y + ((y - 1) div 4 - (y - 1) div 100 + (y - 1) div 400 + 1)"

definition year_of :: "int \<Rightarrow> int" where
  "year_of k =
     (let y = 400 * k div 146097
      in if k < days_before_year y then y - 1
         else if days_before_year (y + 1) \<le> k then y + 1 else y)"

definition month_lengths :: "bool \<Rightarrow> int list" where
  "month_lengths l = [31, if l then 29 else 28, 31, 30, 31, 30, 31, 31, 30, 31, 30, 31]"

fun month_day :: "int list \<Rightarrow> int \<Rightarrow> int \<Rightarrow> int \<times> int" where
  "month_day [] m k = (m, k + 1)"
| "month_day (l # ls) m k = (if k < l then (m, k + 1) else month_day ls (m + 1) (k - l))"

definition gregorian :: date_lib where
  "gregorian =
     \<lparr>ymd_ok = \<lambda>y m d. -32767 \<le> y \<and> y \<le> 32767 \<and> 1 \<le> m \<and> m \<le> 12 \<and> 1 \<le> d \<and>
        d \<le> month_lengths (leap y) ! nat (m - 1),
      sys_days = \<lambda>y m d. days_before_year y + sum_list (take (nat (m - 1)) (month_lengths (leap y))) + d - 719529,
      civil_of_days = \<lambda>n. (let y = year_of (n + 719528);
                               (m, d) = month_day (month_lengths (leap y)) 1 (n + 719528 - days_before_year y)
                           in (y, m, d)),
      floor_days = \<lambda>t. t div 86400000000,
      tod_fields = \<lambda>t. (t div 3600000000, t div 60000000 mod 60, t div 1000000 mod 60, t mod 1000000)\<rparr>"

lemma pred_div_step: "0 < (n :: int) \<Longrightarrow> y div n = (y - 1) div n + of_bool (n dvd y)"
proof -
  assume n: "0 < n"
  show ?thesis
  proof (cases "n dvd y")
    case True
    then obtain q where "y = n * q" by auto
    moreover have "(n * q - 1) div n = q - 1"
      using n by (intro int_div_pos_eq [of _ _ _ "n - 1"]) (auto simp: algebra_simps)
    ultimately show ?thesis using n by simp
  next
    case False
    then have "y mod n \<noteq> 0" by (simp add: dvd_eq_mod_eq_0)
    then have "0 < y mod n" using n pos_mod_sign [of n y] by linarith
    moreover have "y - 1 = n * (y div n) + (y mod n - 1)" by simp
    ultimately have "(y - 1) div n = y div n"
      using n pos_mod_bound [of n y] by (intro int_div_pos_eq [of _ _ _ "y mod n - 1"]) linarith+
    then show ?thesis using False by simp
  qed
qed

lemma days_before_year_step: "days_before_year (y + 1) = days_before_year y + 365 + of_bool (leap y)"
proof -
  have "100 dvd y \<longrightarrow> 4 dvd y" using dvd_trans [of 4 100 y] by simp
  moreover have "400 dvd y \<longrightarrow> 100 dvd y" using dvd_trans [of 100 400 y] by simp
  ultimately have l: "of_bool (leap y) = of_bool (4 dvd y) - of_bool (100 dvd y) + (of_bool (400 dvd y) :: int)"
    unfolding dvd_eq_mod_eq_0 leap_def
    by (cases "y mod 4 = 0"; cases "y mod 100 = 0"; cases "y mod 400 = 0") simp_all
  have "days_before_year (y + 1) = 365 * y + 365 + (y div 4 - y div 100 + y div 400 + 1)"
    by (simp add: days_before_year_def)
  also have "\<dots> = days_before_year y + 365 + of_bool (leap y)"
    unfolding l days_before_year_def
    using pred_div_step [of 4 y] pred_div_step [of 100 y] pred_div_step [of 400 y] by linarith
  finally show ?thesis .
qed

lemma sum_month_lengths: "sum_list (month_lengths l) = 365 + of_bool l"
  by (simp add: month_lengths_def)

lemma length_month_lengths [simp]: "length (month_lengths l) = 12"
  by (simp add: month_lengths_def)

lemma month_lengths_bounds: "x \<in> set (month_lengths l) \<Longrightarrow> 28 \<le> x \<and> x \<le> 31"
  by (auto simp: month_lengths_def split: if_splits)

lemma days_before_year_mono: "y \<le> z \<Longrightarrow> days_before_year y \<le> days_before_year z"
proof (induction "nat (z - y)" arbitrary: z)
  case (Suc n)
  then have "days_before_year y \<le> days_before_year (z - 1)" by simp
  then show ?case using days_before_year_step [of "z - 1"] by simp
qed simp

lemma div_bounds: "0 < (n :: int) \<Longrightarrow> n * (k div n) \<le> k \<and> k < n * (k div n) + n"
  using mult_div_mod_eq [of n k] pos_mod_bound [of n k] pos_mod_sign [of n k] by linarith

lemma days_before_year_approx:
  "146097 * y - 400 < 400 * days_before_year y" "400 * days_before_year y < 146097 * y + 800"
proof -
  have *: "146097 * y - 400 < 400 * (365 * y + (a - b + c + 1))" "400 * (365 * y + (a - b + c + 1)) < 146097 * y + 800"
    if "4 * a \<le> y - 1 \<and> y - 1 < 4 * a + 4" and "100 * b \<le> y - 1 \<and> y - 1 < 100 * b + 100"
      and "400 * c \<le> y - 1 \<and> y - 1 < 400 * c + 400" for a b c
    using that by simp_all
  have d: "n * ((y - 1) div n) \<le> y - 1 \<and> y - 1 < n * ((y - 1) div n) + n" if "n \<in> {4, 100, 400}" for n
    using that by (intro div_bounds) auto
  show "146097 * y - 400 < 400 * days_before_year y" "400 * days_before_year y < 146097 * y + 800"
    unfolding days_before_year_def by (rule *; rule d; simp)+
qed

lemma year_of_bounds: "days_before_year (year_of k) \<le> k" "k < days_before_year (year_of k + 1)"
proof -
  define y where "y = 400 * k div 146097"
  have y: "146097 * y \<le> 400 * k" "400 * k < 146097 * y + 146097"
    using div_bounds [of 146097 "400 * k"] unfolding y_def by simp_all
  have "days_before_year (y - 1) \<le> k" using days_before_year_approx(2) [of "y - 1"] y by simp
  moreover have "k < days_before_year (y + 2)"
    using days_before_year_approx(1) [of "y + 2"] y by simp
  ultimately show "days_before_year (year_of k) \<le> k" "k < days_before_year (year_of k + 1)"
    unfolding year_of_def Let_def y_def [symmetric] by (auto simp: add.assoc)
qed

lemma year_of_unique:
  assumes "days_before_year y \<le> k" and "k < days_before_year (y + 1)"
  shows "year_of k = y"
proof (rule ccontr)
  assume "year_of k \<noteq> y"
  then have "year_of k + 1 \<le> y \<or> y + 1 \<le> year_of k" by linarith
  then show False
    using days_before_year_mono [of "year_of k + 1" y] days_before_year_mono [of "y + 1" "year_of k"]
      year_of_bounds [of k] assms by linarith
qed

lemma month_day_sound:
  "month_day ls m0 k = (m, d) \<Longrightarrow> 0 \<le> k \<Longrightarrow> k < sum_list ls \<Longrightarrow>
   m0 \<le> m \<and> m < m0 + int (length ls) \<and> 1 \<le> d \<and> d \<le> ls ! nat (m - m0) \<and>
   sum_list (take (nat (m - m0)) ls) + d = k + 1"
proof (induction ls m0 k rule: month_day.induct)
  case (2 l ls m0 k)
  show ?case
  proof (cases "k < l")
    case True
    with 2 show ?thesis by auto
  next
    case False
    with 2 have "m0 + 1 \<le> m \<and> m < m0 + 1 + int (length ls) \<and> 1 \<le> d \<and> d \<le> ls ! nat (m - (m0 + 1)) \<and>
        sum_list (take (nat (m - (m0 + 1))) ls) + d = k - l + 1" by simp
    moreover from this have "nat (m - m0) = Suc (nat (m - (m0 + 1)))" by linarith
    ultimately show ?thesis by simp
  qed
qed simp

lemma month_day_complete:
  "(\<forall>x \<in> set ls. 0 < x) \<Longrightarrow> i < length ls \<Longrightarrow> 1 \<le> d \<Longrightarrow> d \<le> ls ! i \<Longrightarrow>
   month_day ls m0 (sum_list (take i ls) + d - 1) = (m0 + int i, d)"
proof (induction ls arbitrary: i m0)
  case (Cons l ls)
  show ?case
  proof (cases i)
    case (Suc j)
    have "0 \<le> sum_list (take j ls)"
      using Cons.prems(1) by (intro sum_list_nonneg) (fastforce dest: in_set_takeD)
    then have "\<not> l + sum_list (take j ls) + d - 1 < l" using Cons.prems by simp
    moreover have "month_day ls (m0 + 1) (sum_list (take j ls) + d - 1) = (m0 + 1 + int j, d)"
      using Cons.prems Suc by (intro Cons.IH) auto
    ultimately show ?thesis using Suc by (simp add: algebra_simps)
  qed (use Cons.prems in simp)
qed simp

lemma sum_take_next:
  "(\<forall>x \<in> set ls. 0 \<le> x) \<Longrightarrow> i < length ls \<Longrightarrow> sum_list (take i ls) + ls ! i \<le> (sum_list ls :: int)"
proof (induction ls arbitrary: i)
  case (Cons l ls)
  then show ?case by (cases i) (auto intro: sum_list_nonneg)
qed simp

lemma gregorian_day_of_year:
  assumes "ymd_ok gregorian y m d"
  shows "days_before_year y \<le> sys_days gregorian y m d + 719528"
    and "sys_days gregorian y m d + 719528 < days_before_year (y + 1)"
proof -
  let ?ls = "month_lengths (leap y)" and ?i = "nat (m - 1)"
  have i: "?i < length ?ls" and d: "1 \<le> d" "d \<le> ?ls ! ?i" using assms by (auto simp: gregorian_def)
  have pos: "\<forall>x \<in> set ?ls. 0 \<le> x" using month_lengths_bounds by force
  have "0 \<le> sum_list (take ?i ?ls)" using pos by (intro sum_list_nonneg) (auto dest: in_set_takeD)
  then show "days_before_year y \<le> sys_days gregorian y m d + 719528" using d by (simp add: gregorian_def)
  show "sys_days gregorian y m d + 719528 < days_before_year (y + 1)"
    using sum_take_next [OF pos i] d by (simp add: gregorian_def days_before_year_step sum_month_lengths)
qed

lemma gregorian_civil_sys:
  assumes "ymd_ok gregorian y m d"
  shows "civil_of_days gregorian (sys_days gregorian y m d) = (y, m, d)"
proof -
  let ?ls = "month_lengths (leap y)" and ?i = "nat (m - 1)"
  have i: "?i < length ?ls" "1 \<le> m" and d: "1 \<le> d" "d \<le> ?ls ! ?i" using assms by (auto simp: gregorian_def)
  have pos: "\<forall>x \<in> set ?ls. 0 < x" using month_lengths_bounds by force
  have y: "year_of (sys_days gregorian y m d + 719528) = y"
    by (rule year_of_unique [OF gregorian_day_of_year [OF assms]])
  have "sys_days gregorian y m d + 719528 - days_before_year y = sum_list (take ?i ?ls) + d - 1"
    by (simp add: gregorian_def)
  then show ?thesis
    using month_day_complete [OF pos i(1) d, of 1] y i(2)
    by (simp add: gregorian_def Let_def add_diff_eq)
qed

lemma gregorian_sys_civil:
  assumes "civil_of_days gregorian n = (y, m, d)" and "-32767 \<le> y" and "y \<le> 32767"
  shows "ymd_ok gregorian y m d \<and> sys_days gregorian y m d = n"
proof -
  let ?k = "n + 719528"
  have y: "y = year_of ?k" and md: "month_day (month_lengths (leap y)) 1 (?k - days_before_year y) = (m, d)"
    using assms(1) by (auto simp: gregorian_def Let_def split: prod.splits)
  have b: "0 \<le> ?k - days_before_year y" "?k - days_before_year y < sum_list (month_lengths (leap y))"
    using year_of_bounds [of ?k] unfolding y [symmetric] by (simp_all add: days_before_year_step sum_month_lengths)
  show ?thesis using month_day_sound [OF md b] assms(2,3) by (simp add: gregorian_def)
qed

lemma gregorian_limits: "sys_days gregorian 0 1 1 = -719528" "sys_days gregorian 9999 12 31 = 2932896"
  by (simp_all add: gregorian_def days_before_year_def month_lengths_def leap_def)

lemma gregorian_sample:
  "ymd_ok gregorian 2000 2 29" "sys_days gregorian 2000 2 29 = 11016" "\<not> ymd_ok gregorian 1900 2 29"
  by (simp_all add: gregorian_def days_before_year_def month_lengths_def leap_def)

interpretation gregorian: date_library gregorian
proof (unfold_locales, goal_cases)
  case (1 y m d)
  then have *: "nat (m - 1) < 12" "1 \<le> m" "m \<le> 12" "1 \<le> d" "d \<le> month_lengths (leap y) ! nat (m - 1)"
    by (auto simp: gregorian_def)
  have "month_lengths (leap y) ! nat (m - 1) \<in> set (month_lengths (leap y))" using *(1) by simp
  from month_lengths_bounds [OF this] show ?case using * by simp
next
  case (2 y m d)
  then show ?case by (rule gregorian_civil_sys)
next
  case (3 y m d)
  have "days_before_year 0 = 0" "days_before_year 10000 = 3652425" by (simp_all add: days_before_year_def)
  then show ?case
    using gregorian_day_of_year [OF 3(1)] days_before_year_mono [of 0 y] days_before_year_mono [of "y + 1" 10000] 3
    by (simp add: gregorian_limits)
next
  case (4 n y m d)
  have y: "y = year_of (n + 719528)" using 4(3) by (auto simp: gregorian_def Let_def split: prod.splits)
  have "days_before_year 0 = 0" "days_before_year 10000 = 3652425" by (simp_all add: days_before_year_def)
  moreover have "0 \<le> n + 719528" "n + 719528 < 3652425" using 4 by (simp_all add: gregorian_limits)
  ultimately have "0 \<le> y" "y \<le> 9999"
    using year_of_bounds [of "n + 719528"] days_before_year_mono [of "y + 1" 0] days_before_year_mono [of 10000 y]
    unfolding y [symmetric] by linarith+
  then show ?case using gregorian_sys_civil [OF 4(3)] by simp
qed (simp_all add: gregorian_def)

end
