(* ===== verification/Column_Values.thy ===== *)
theory Column_Values
  imports Metadata Date_Time
begin

text \<open>
  What the text and the binary deserializers share: composing hours, minutes, seconds and
  microseconds, and what a value of a column has to satisfy, whichever protocol it came by.
\<close>

section \<open>Times of day\<close>

definition hms_micros :: "int \<Rightarrow> int \<Rightarrow> int \<Rightarrow> int \<Rightarrow> int" where
  "hms_micros hours minutes seconds micros =
     hours * 3600 * 1000000 + minutes * 60 * 1000000 + seconds * 1000000 + micros"

lemma hms_micros_bounds:
  assumes "0 \<le> h" and "0 \<le> m" "m \<le> 59" and "0 \<le> s" "s \<le> 59" and "0 \<le> u" "u \<le> 999999"
  shows "0 \<le> hms_micros h m s u" and "hms_micros h m s u < (h + 1) * 3600000000"
proof -
  have "0 \<le> h * 3600 * 1000000" "0 \<le> m * 60 * 1000000" "0 \<le> s * 1000000" using assms by simp_all
  then show "0 \<le> hms_micros h m s u" using assms by (simp add: hms_micros_def)
  have sum: "x + a + b + u < x + 3600000000" if "a \<le> 3540000000" "b \<le> 59000000" for x a b :: int
    using that assms(7) by simp
  have "hms_micros h m s u < h * 3600 * 1000000 + 3600000000"
    unfolding hms_micros_def using assms by (intro sum) simp_all
  then show "hms_micros h m s u < (h + 1) * 3600000000" by (simp add: distrib_right)
qed

lemma uint_le_nat: "unat (w :: 'a::len word) \<le> n \<Longrightarrow> uint w \<le> int n"
  by (simp only: uint_nat of_nat_le_iff)

lemma hms_words_bounds:
  assumes "unat (h :: 'h::len word) \<le> hmax" and "unat (m :: 'm::len word) \<le> 59"
    and "unat (s :: 's::len word) \<le> 59" and "unat (u :: 'u::len word) \<le> 999999"
  shows "0 \<le> hms_micros (uint h) (uint m) (uint s) (uint u)"
    and "hms_micros (uint h) (uint m) (uint s) (uint u) < (int hmax + 1) * 3600000000"
proof -
  have *: "uint h \<le> int hmax" "uint m \<le> 59" "uint s \<le> 59" "uint u \<le> 999999"
    using assms uint_le_nat by fastforce+
  note b = hms_micros_bounds [OF unsigned_greater_eq unsigned_greater_eq *(2) unsigned_greater_eq *(3)
      unsigned_greater_eq *(4)]
  show "0 \<le> hms_micros (uint h) (uint m) (uint s) (uint u)" by (rule b(1))
  have "(uint h + 1) * 3600000000 \<le> (int hmax + 1) * 3600000000" using *(1) by simp
  with b(2) show "hms_micros (uint h) (uint m) (uint s) (uint u) < (int hmax + 1) * 3600000000"
    by (rule less_le_trans)
qed

lemma not_out_of_range: "\<not> is_out_of_range D d \<longleftrightarrow> min_date D \<le> d \<and> d \<le> max_date D"
  by (auto simp: is_out_of_range_def)

lemma datetime_in_range_intro:
  assumes "\<not> is_out_of_range D d" and "unat (h :: 'h::len word) \<le> 23" and "unat (m :: 'm::len word) \<le> 59"
    and "unat (s :: 's::len word) \<le> 59" and "unat (u :: 'u::len word) \<le> 999999"
  shows "date_time_in_range D (V_datetime (d * micros_per_day + hms_micros (uint h) (uint m) (uint s) (uint u)))"
proof -
  note b = hms_words_bounds [OF assms(2-)]
  have "min_date D * 86400000000 \<le> d * 86400000000" "d * 86400000000 \<le> max_date D * 86400000000"
    using assms(1) by (auto simp: not_out_of_range)
  then show ?thesis using b by (simp add: date_time_in_range_def min_datetime_def max_datetime_def)
qed

lemma time_in_range_intro:
  assumes "unat (h :: 'h::len word) \<le> 838" and "unat (m :: 'm::len word) \<le> 59"
    and "unat (s :: 's::len word) \<le> 59" and "unat (u :: 'u::len word) \<le> 999999"
  shows "date_time_in_range D (V_time (hms_micros (uint h) (uint m) (uint s) (uint u)))"
    and "date_time_in_range D (V_time (- hms_micros (uint h) (uint m) (uint s) (uint u)))"
  using hms_words_bounds [OF assms] by (simp_all add: date_time_in_range_def min_time_def max_time_def)

section \<open>Truncating division\<close>

text \<open>
  \<open>duration_cast\<close> truncates toward zero and \<open>%\<close> takes the sign of the dividend; the code takes
  absolute values of the results.
\<close>

lemma abs_sdiv: "0 < (n :: int) \<Longrightarrow> \<bar>t sdiv n\<bar> = \<bar>t\<bar> div n"
  by (auto simp: signed_divide_int_def abs_mult abs_sgn_eq pos_imp_zdiv_nonneg_iff)

lemma abs_smod: "0 < (n :: int) \<Longrightarrow> \<bar>t smod n\<bar> = \<bar>t\<bar> mod n"
proof (cases t "0 :: int" rule: linorder_cases)
  case less
  assume n: "0 < n"
  have "t smod n = - ((- t) mod n)"
    using less n minus_div_mult_eq_mod [of "- t" n] by (simp add: signed_modulo_int_def signed_divide_int_def)
  then show ?thesis using less n by simp
next
  case greater
  assume n: "0 < n"
  have "t smod n = t mod n"
    using greater n minus_div_mult_eq_mod [of t n] by (simp add: signed_modulo_int_def signed_divide_int_def)
  then show ?thesis using greater n by simp
qed (simp add: signed_modulo_int_def signed_divide_int_def)

lemma sdiv_smod:
  assumes "0 < (n :: int)" and "0 < k"
  shows "\<bar>(t smod n) sdiv k\<bar> = \<bar>t\<bar> mod n div k"
  using assms by (simp add: abs_sdiv abs_smod)

lemma mod_div_less: "0 < (n :: nat) \<Longrightarrow> m = k * n \<Longrightarrow> 0 < k \<Longrightarrow> a mod m div n < k"
  by (simp add: div_less_iff_less_mult)

text \<open>The parts of a number of microseconds.\<close>

lemma hms_micros_of_nat:
  "a = h * 3600 * 1000000 + m * 60 * 1000000 + s * 1000000 + u \<Longrightarrow>
   hms_micros (int h) (int m) (int s) (int u) = int a"
  by (simp add: hms_micros_def)

lemma hms_parts:
  fixes a :: nat
  shows "hms_micros (int (a div 3600000000)) (int (a mod 3600000000 div 60000000))
     (int (a mod 60000000 div 1000000)) (int (a mod 1000000)) = int a"
proof -
  have "a = 3600000000 * (a div 3600000000) + a mod 3600000000" by simp
  moreover have "a mod 3600000000 = 60000000 * (a mod 3600000000 div 60000000) + a mod 60000000"
    using mult_div_mod_eq [of 60000000 "a mod 3600000000"] by (simp add: mod_mod_cancel)
  moreover have "a mod 60000000 = 1000000 * (a mod 60000000 div 1000000) + a mod 1000000"
    using mult_div_mod_eq [of 1000000 "a mod 60000000"] by (simp add: mod_mod_cancel)
  ultimately have "a = a div 3600000000 * 3600 * 1000000 + a mod 3600000000 div 60000000 * 60 * 1000000
      + a mod 60000000 div 1000000 * 1000000 + a mod 1000000" by linarith
  then show ?thesis by (rule hms_micros_of_nat)
qed

lemma hms_parts_bounds:
  fixes a :: nat
  shows "a mod 3600000000 div 60000000 < 60" "a mod 60000000 div 1000000 < 60" "a mod 1000000 < 1000000"
  by (rule mod_div_less mod_less_divisor; simp)+

lemma mod_mult_div: "0 < (b :: nat) \<Longrightarrow> a mod (b * c) div b = a div b mod c"
  by (simp add: mod_mult2_eq)

lemma tod_parts:
  fixes a :: nat
  shows "int a div 3600000000 = int (a div 3600000000)"
    and "int a div 60000000 mod 60 = int (a mod 3600000000 div 60000000)"
    and "int a div 1000000 mod 60 = int (a mod 60000000 div 1000000)"
    and "int a mod 1000000 = int (a mod 1000000)"
  using mod_mult_div [of 60000000 a 60] mod_mult_div [of 1000000 a 60]
  by (simp_all add: zdiv_int zmod_int)

section \<open>Values of a column\<close>

definition integer_types :: "protocol_field_type set" where
  "integer_types = {pft_tiny, pft_short, pft_int24, pft_long, pft_year, pft_longlong}"

definition special_types :: "protocol_field_type set" where
  "special_types = integer_types \<union>
     {pft_float, pft_double, pft_timestamp, pft_datetime, pft_date, pft_time}"

text \<open>
  NULL, or the alternative for the type of the column (a 64-bit integer, signed as the column is,
  for every integer type); dates, datetimes and times in the documented ranges, floating point
  numbers finite. Nothing is said of the size of an integer: the ranges \<open>value.hpp\<close> lists for the
  integer types are not checked by the code.
\<close>

definition column_value_ok :: "date_lib \<Rightarrow> field_metadata \<Rightarrow> mysql_value \<Rightarrow> bool" where
  "column_value_ok D meta v \<longleftrightarrow>
     date_time_in_range D v \<and>
     (case v of
        V_null \<Rightarrow> True
      | V_int64 _ \<Rightarrow> fm_protocol_type meta \<in> integer_types \<and> \<not> fm_is_unsigned meta
      | V_uint64 _ \<Rightarrow> fm_protocol_type meta \<in> integer_types \<and> fm_is_unsigned meta
      | V_float w \<Rightarrow> fm_protocol_type meta = pft_float \<and> \<not> float_isnan w \<and> \<not> float_isinf w
      | V_double w \<Rightarrow> fm_protocol_type meta = pft_double \<and> \<not> double_isnan w \<and> \<not> double_isinf w
      | V_date _ \<Rightarrow> fm_protocol_type meta = pft_date
      | V_datetime _ \<Rightarrow> fm_protocol_type meta \<in> {pft_timestamp, pft_datetime}
      | V_time _ \<Rightarrow> fm_protocol_type meta = pft_time
      | V_string _ \<Rightarrow> fm_protocol_type meta \<notin> special_types)"

lemma column_value_ok_null [simp]: "column_value_ok D meta V_null"
  by (simp add: column_value_ok_def date_time_in_range_def)

end
