(* ===== verification/C_Stdio.thy ===== *)
theory C_Stdio
  imports Prelude
begin

text \<open>
  The part of \<open>sscanf\<close> and \<open>snprintf\<close> the client uses: unsigned decimal conversions with a
  maximum width, literal characters and single characters when scanning; unsigned decimals
  padded with zeroes when printing. The scanner follows the C standard: a numeric conversion
  skips white space and accepts a sign, and a negative number wraps around.
\<close>

section \<open>Characters\<close>

definition is_space :: "u8 \<Rightarrow> bool" where
  "is_space b \<longleftrightarrow> b = 32 \<or> (9 \<le> b \<and> b \<le> 13)"

definition is_digit :: "u8 \<Rightarrow> bool" where
  "is_digit b \<longleftrightarrow> 48 \<le> b \<and> b \<le> 57"

definition char_minus :: u8 where [simp]: "char_minus = 45"
definition char_plus :: u8 where [simp]: "char_plus = 43"
definition char_colon :: u8 where [simp]: "char_colon = 58"
definition char_dot :: u8 where [simp]: "char_dot = 46"
definition char_zero :: u8 where [simp]: "char_zero = 48"

text \<open>The characters of a C string: those before the first null character.\<close>

definition c_string :: "bytes \<Rightarrow> bytes" where
  "c_string buffer = takeWhile (\<lambda>b. b \<noteq> 0) buffer"

section \<open>Scanning\<close>

definition digits_value :: "bytes \<Rightarrow> nat" where
  "digits_value ds = foldl (\<lambda>acc d. 10 * acc + (unat d - 48)) 0 ds"

datatype scan_directive = Scan_unsigned nat | Scan_literal u8 | Scan_char

text \<open>The longest prefix of at most \<open>width\<close> characters that is a number, sign included.\<close>

definition scan_unsigned :: "nat \<Rightarrow> bytes \<Rightarrow> (u32 \<times> bytes) option" where
  "scan_unsigned width s =
     (let signed = (s \<noteq> [] \<and> hd s \<in> {char_minus, char_plus});
          w = (if signed then width - 1 else width);
          t = (if signed then tl s else s);
          ds = takeWhile is_digit (take w t)
      in if ds = [] then None
         else Some (if signed \<and> hd s = char_minus then - of_nat (digits_value ds) else of_nat (digits_value ds),
                    drop (length ds) t))"

text \<open>
  The values assigned, in order, until a directive fails. \<open>sscanf\<close> returns their number, or
  \<open>EOF\<close> instead of 0 when the input ended first; the callers only compare it with the number
  of conversions they need.
\<close>

fun scan :: "scan_directive list \<Rightarrow> bytes \<Rightarrow> u32 list" where
  "scan [] s = []"
| "scan (Scan_literal c # ds) s = (case s of [] \<Rightarrow> [] | b # t \<Rightarrow> if b = c then scan ds t else [])"
| "scan (Scan_char # ds) s = (case s of [] \<Rightarrow> [] | b # t \<Rightarrow> ucast b # scan ds t)"
| "scan (Scan_unsigned n # ds) s =
     (case scan_unsigned n (dropWhile is_space s) of None \<Rightarrow> [] | Some (v, t) \<Rightarrow> v # scan ds t)"

section \<open>Printing\<close>

fun dec_digits :: "nat \<Rightarrow> bytes" where
  "dec_digits n = (if n < 10 then [of_nat (48 + n)] else dec_digits (n div 10) @ [of_nat (48 + n mod 10)])"

declare dec_digits.simps [simp del]

text \<open>\<open>%0<width>u\<close>.\<close>

definition dec_padded :: "nat \<Rightarrow> nat \<Rightarrow> bytes" where
  "dec_padded width n = replicate (width - length (dec_digits n)) char_zero @ dec_digits n"

section \<open>Lemmas\<close>

text \<open>Numbers with a fixed count of digits: the common form of what is printed and scanned.\<close>

primrec dec_fixed :: "nat \<Rightarrow> nat \<Rightarrow> bytes" where
  "dec_fixed 0 n = []"
| "dec_fixed (Suc k) n = dec_fixed k (n div 10) @ [of_nat (48 + n mod 10)]"

lemma length_dec_fixed [simp]: "length (dec_fixed k n) = k"
  by (induction k arbitrary: n) auto

lemma unat_digit: "d < 10 \<Longrightarrow> unat (of_nat (48 + d) :: u8) = 48 + d"
  by (simp only: unsigned_of_nat) (simp add: take_bit_nat_eq_self)

lemma is_digit_of_nat: "d < 10 \<Longrightarrow> is_digit (of_nat (48 + d))"
  using unat_digit [of d] by (simp add: is_digit_def word_le_nat_alt)

lemma dec_fixed_digits: "b \<in> set (dec_fixed k n) \<Longrightarrow> is_digit b"
  by (induction k arbitrary: n) (auto intro: is_digit_of_nat simp del: of_nat_add)

lemma digits_value_append: "digits_value (xs @ [d]) = 10 * digits_value xs + (unat d - 48)"
  by (simp add: digits_value_def)

lemma digits_value_dec_fixed: "n < 10 ^ k \<Longrightarrow> digits_value (dec_fixed k n) = n"
proof (induction k arbitrary: n)
  case (Suc k)
  then have "digits_value (dec_fixed k (n div 10)) = n div 10" by simp
  then show ?case using unat_digit [of "n mod 10"] by (simp add: digits_value_append del: of_nat_add)
qed (simp add: digits_value_def)

lemma dec_fixed_zero: "dec_fixed k 0 = replicate k char_zero"
  by (induction k) (simp_all add: replicate_append_same)

lemma dec_padded_fixed: "0 < k \<Longrightarrow> n < 10 ^ k \<Longrightarrow> dec_padded k n = dec_fixed k n"
proof (induction k arbitrary: n)
  case (Suc k)
  show ?case
  proof (cases "n < 10")
    case True
    then have "dec_digits n = [of_nat (48 + n)]" by (simp add: dec_digits.simps)
    then show ?thesis using True by (simp add: dec_padded_def dec_fixed_zero)
  next
    case False
    then have k: "0 < k" using Suc.prems by (cases k) auto
    have "dec_padded k (n div 10) = dec_fixed k (n div 10)" using Suc.prems k by (intro Suc.IH) auto
    then show ?thesis using False by (subst dec_padded_def) (simp add: dec_digits.simps [of n] dec_padded_def)
  qed
qed simp

lemma length_dec_digits: "0 < k \<Longrightarrow> n < 10 ^ k \<Longrightarrow> 10 ^ (k - 1) \<le> n \<Longrightarrow> length (dec_digits n) = k"
proof (induction k arbitrary: n)
  case (Suc k)
  show ?case
  proof (cases k)
    case 0
    then show ?thesis using Suc.prems by (simp add: dec_digits.simps)
  next
    case (Suc j)
    then have "10 ^ Suc j \<le> n" "n < 10 * 10 ^ Suc j" using Suc.prems by simp_all
    then have "length (dec_digits (n div 10)) = k"
      using Suc by (intro Suc.IH) (simp_all add: less_eq_div_iff_mult_less_eq div_less_iff_less_mult mult.commute)
    moreover have "\<not> n < 10" using \<open>10 ^ Suc j \<le> n\<close> one_le_power [of "10 :: nat" j] unfolding power_Suc by linarith
    ultimately show ?thesis by (simp add: dec_digits.simps [of n])
  qed
qed simp

text \<open>Three digits or two: how hours are printed.\<close>

lemma dec_padded_2: "n < 1000 \<Longrightarrow> dec_padded 2 n = (if n < 100 then dec_fixed 2 n else dec_fixed 3 n)"
  using dec_padded_fixed [of 2 n] dec_padded_fixed [of 3 n] length_dec_digits [of 3 n]
  by (auto simp: dec_padded_def)

lemma digit_not_special:
  assumes "is_digit b" shows "b \<noteq> 45" "b \<noteq> 43" "\<not> is_space b" "b \<noteq> 0"
  using assms by (auto simp: is_digit_def is_space_def word_le_nat_alt)

text \<open>Scanning a number that ends where its digits or its width do.\<close>

lemma scan_unsigned_dec_fixed:
  assumes "0 < k" and "k \<le> w" and "n < 10 ^ k" and "k = w \<or> rest = [] \<or> \<not> is_digit (hd rest)"
  shows "scan_unsigned w (dec_fixed k n @ rest) = Some (of_nat n, rest)"
proof -
  let ?ds = "dec_fixed k n"
  have ne: "?ds \<noteq> []" using assms(1) by (auto simp flip: length_0_conv)
  then have "is_digit (hd ?ds)" using dec_fixed_digits [of "hd ?ds" k n] by simp
  then have sg: "hd (?ds @ rest) \<notin> {45, 43}" using digit_not_special ne by auto
  have "takeWhile is_digit (take w (?ds @ rest)) = ?ds"
  proof (cases "k = w")
    case False
    then have "takeWhile is_digit (take (w - k) rest) = []" using assms(2,4) by (cases rest; cases "w - k") auto
    then show ?thesis using assms(2) dec_fixed_digits by (subst take_append) (simp add: takeWhile_append2)
  qed (simp add: takeWhile_eq_all_conv dec_fixed_digits)
  then show ?thesis
    using sg ne by (simp add: scan_unsigned_def Let_def digits_value_dec_fixed [OF assms(3)])
qed

lemma scan_dec_fixed:
  assumes "0 < k" and "k \<le> w" and "n < 10 ^ k" and "k = w \<or> rest = [] \<or> \<not> is_digit (hd rest)"
  shows "scan (Scan_unsigned w # ds) (dec_fixed k n @ rest) = of_nat n # scan ds rest"
proof -
  have ne: "dec_fixed k n \<noteq> []" using assms(1) by (auto simp flip: length_0_conv)
  then have "is_digit (hd (dec_fixed k n))" using dec_fixed_digits [of "hd (dec_fixed k n)" k n] by simp
  then have "dropWhile is_space (dec_fixed k n @ rest) = dec_fixed k n @ rest"
    using ne digit_not_special by (cases "dec_fixed k n") auto
  then show ?thesis using scan_unsigned_dec_fixed [OF assms] by simp
qed

lemma c_string_append_zeros: "0 \<notin> set s \<Longrightarrow> c_string (s @ replicate n 0) = s"
  by (induction s) (cases n; auto simp: c_string_def)+

lemma dec_fixed_no_zero: "0 \<notin> set (dec_fixed k n)"
  using dec_fixed_digits digit_not_special(4) by blast

lemma scan_length: "length (scan ds s) \<le> length ds"
proof (induction ds s rule: scan.induct)
  case (4 n ds s)
  then show ?case by (auto split: option.split prod.split)
qed (auto split: list.split)

end
