(* ===== verification/Text_Deserialization.thy ===== *)
theory Text_Deserialization
  imports Column_Values C_Stdio
begin

text \<open>
  The text protocol (\<open>text_deserialization.ipp\<close>): one deserializer per kind of column, and the
  row made of them. Conversions of integers and floating point numbers are
  \<open>boost::conversion::try_lexical_convert\<close>, not part of this repository: a record of functions
  passed as an argument.
\<close>

record lexical_lib =
  lexical_uint64 :: "bytes \<Rightarrow> u64 option"
  lexical_int64 :: "bytes \<Rightarrow> u64 option"
  lexical_float :: "bytes \<Rightarrow> u32 option"
  lexical_double :: "bytes \<Rightarrow> u64 option"

section \<open>Numbers and strings\<close>

definition deserialize_text_value_int :: "lexical_lib \<Rightarrow> bytes \<Rightarrow> field_metadata \<Rightarrow> errc + mysql_value" where
  "deserialize_text_value_int L from meta =
     (if fm_is_unsigned meta then
        (case lexical_uint64 L from of None \<Rightarrow> Inl protocol_value_error | Some v \<Rightarrow> Inr (V_uint64 v))
      else
        (case lexical_int64 L from of None \<Rightarrow> Inl protocol_value_error | Some v \<Rightarrow> Inr (V_int64 v)))"

definition deserialize_text_value_float :: "lexical_lib \<Rightarrow> bytes \<Rightarrow> errc + mysql_value" where
  "deserialize_text_value_float L from =
     (case lexical_float L from of
        None \<Rightarrow> Inl protocol_value_error
      | Some v \<Rightarrow> if float_isnan v \<or> float_isinf v then Inl protocol_value_error else Inr (V_float v))"

definition deserialize_text_value_double :: "lexical_lib \<Rightarrow> bytes \<Rightarrow> errc + mysql_value" where
  "deserialize_text_value_double L from =
     (case lexical_double L from of
        None \<Rightarrow> Inl protocol_value_error
      | Some v \<Rightarrow> if double_isnan v \<or> double_isinf v then Inl protocol_value_error else Inr (V_double v))"

definition deserialize_text_value_string :: "bytes \<Rightarrow> errc + mysql_value" where
  "deserialize_text_value_string from = Inr (V_string from)"

section \<open>Dates and times\<close>

definition sanitize_decimals :: "nat \<Rightarrow> nat" where
  "sanitize_decimals decimals = min decimals textc_max_decimals"

text \<open>A 32-bit product: it wraps around.\<close>

definition compute_micros :: "u32 \<Rightarrow> nat \<Rightarrow> u32" where
  "compute_micros parsed_micros decimals = parsed_micros * of_nat (10 ^ (textc_max_decimals - decimals))"

text \<open>
  The characters are copied to a zeroed buffer one longer than the longest input, so that
  \<open>sscanf\<close> finds a null character.
\<close>

definition null_terminated :: "nat \<Rightarrow> bytes \<Rightarrow> bytes" where
  "null_terminated buffer_sz from = c_string (resize buffer_sz from)"

definition deserialize_text_ymd :: "bytes \<Rightarrow> errc + (int \<times> int \<times> int)" where
  "deserialize_text_ymd from =
     (if length from \<noteq> textc_date_sz then Inl protocol_value_error
      else
        (case scan [Scan_unsigned 4, Scan_literal char_minus, Scan_unsigned 2, Scan_literal char_minus,
                    Scan_unsigned 2, Scan_char] (null_terminated (textc_date_sz + 1) from) of
           [year, month, day] \<Rightarrow>
             (if unat year > max_year \<or> unat month > max_month \<or> unat day > max_day
              then Inl protocol_value_error
              else Inr (uint year, uint month, uint day))
         | _ \<Rightarrow> Inl protocol_value_error))"

definition deserialize_text_value_date :: "date_lib \<Rightarrow> bytes \<Rightarrow> errc + mysql_value" where
  "deserialize_text_value_date D from =
     (case deserialize_text_ymd from of
        Inl err \<Rightarrow> Inl err
      | Inr (y, m, d) \<Rightarrow>
          if \<not> ymd_ok D y m d then Inr V_null
          else if is_out_of_range D (sys_days D y m d) then Inl protocol_value_error
          else Inr (V_date (sys_days D y m d)))"

text \<open>
  The part both formats share: hours of at most \<open>hour_width\<close> digits, minutes, seconds and, with
  decimals, microseconds.
\<close>

definition parse_hms :: "nat \<Rightarrow> nat \<Rightarrow> bytes \<Rightarrow> errc + (u32 \<times> u32 \<times> u32 \<times> u32)" where
  "parse_hms hour_width decimals buffer =
     (if decimals \<noteq> 0 then
        (case scan [Scan_unsigned hour_width, Scan_literal char_colon, Scan_unsigned 2, Scan_literal char_colon,
                    Scan_unsigned 2, Scan_literal char_dot, Scan_unsigned 6, Scan_char] buffer of
           [hours, minutes, seconds, micros] \<Rightarrow> Inr (hours, minutes, seconds, compute_micros micros decimals)
         | _ \<Rightarrow> Inl protocol_value_error)
      else
        (case scan [Scan_unsigned hour_width, Scan_literal char_colon, Scan_unsigned 2, Scan_literal char_colon,
                    Scan_unsigned 2, Scan_char] buffer of
           [hours, minutes, seconds] \<Rightarrow> Inr (hours, minutes, seconds, 0)
         | _ \<Rightarrow> Inl protocol_value_error))"

definition deserialize_text_value_datetime :: "date_lib \<Rightarrow> bytes \<Rightarrow> field_metadata \<Rightarrow> errc + mysql_value" where
  "deserialize_text_value_datetime D from meta =
     (let decimals = sanitize_decimals (fm_decimals meta);
          expected_size = textc_datetime_min_sz + (if decimals \<noteq> 0 then decimals + 1 else 0);
          datetime_time_first = textc_date_sz + 1
      in if length from \<noteq> expected_size then Inl protocol_value_error
         else
           (case deserialize_text_ymd (take textc_date_sz from) of
              Inl err \<Rightarrow> Inl err
            | Inr (y, m, d) \<Rightarrow>
                (case parse_hms 2 decimals
                        (null_terminated (textc_datetime_max_sz - datetime_time_first + 1)
                          (drop datetime_time_first from)) of
                   Inl err \<Rightarrow> Inl err
                 | Inr (hours, minutes, seconds, micros) \<Rightarrow>
                     if unat hours > max_hour \<or> unat minutes > max_min \<or> unat seconds > max_sec \<or>
                        unat micros > max_micro
                     then Inl protocol_value_error
                     else if \<not> ymd_ok D y m d then Inr V_null
                     else if is_out_of_range D (sys_days D y m d) then Inl protocol_value_error
                     else Inr (V_datetime (sys_days D y m d * micros_per_day
                            + hms_micros (uint hours) (uint minutes) (uint seconds) (uint micros))))))"

definition deserialize_text_value_time :: "bytes \<Rightarrow> field_metadata \<Rightarrow> errc + mysql_value" where
  "deserialize_text_value_time from meta =
     (let decimals = sanitize_decimals (fm_decimals meta);
          actual_min_size = textc_time_min_sz + (if decimals \<noteq> 0 then decimals + 1 else 0);
          actual_max_size = actual_min_size + 1 + 1
      in if length from < actual_min_size \<or> length from > actual_max_size then Inl protocol_value_error
         else
           let buffer = null_terminated (textc_time_max_sz + 1) from;
               is_negative = (hd from = char_minus);
               first = (if is_negative then tl buffer else buffer)
           in (case parse_hms 3 decimals first of
                 Inl err \<Rightarrow> Inl err
               | Inr (hours, minutes, seconds, micros) \<Rightarrow>
                   if unat hours > textc_time_max_hour \<or> unat minutes > max_min \<or> unat seconds > max_sec \<or>
                      unat micros > max_micro
                   then Inl protocol_value_error
                   else
                     let res = hms_micros (uint hours) (uint minutes) (uint seconds) (uint micros)
                     in Inr (V_time (if is_negative then - res else res))))"

section \<open>Values and rows\<close>

fun deserialize_text_value :: "lexical_lib \<Rightarrow> date_lib \<Rightarrow> bytes \<Rightarrow> field_metadata \<Rightarrow> errc + mysql_value" where
  "deserialize_text_value L D from meta =
     (case fm_protocol_type meta of
        pft_tiny \<Rightarrow> deserialize_text_value_int L from meta
      | pft_short \<Rightarrow> deserialize_text_value_int L from meta
      | pft_int24 \<Rightarrow> deserialize_text_value_int L from meta
      | pft_long \<Rightarrow> deserialize_text_value_int L from meta
      | pft_year \<Rightarrow> deserialize_text_value_int L from meta
      | pft_longlong \<Rightarrow> deserialize_text_value_int L from meta
      | pft_float \<Rightarrow> deserialize_text_value_float L from
      | pft_double \<Rightarrow> deserialize_text_value_double L from
      | pft_timestamp \<Rightarrow> deserialize_text_value_datetime D from meta
      | pft_datetime \<Rightarrow> deserialize_text_value_datetime D from meta
      | pft_date \<Rightarrow> deserialize_text_value_date D from
      | pft_time \<Rightarrow> deserialize_text_value_time from meta
      | _ \<Rightarrow> deserialize_text_value_string from)"

declare deserialize_text_value.simps [simp del]

definition is_next_field_null :: "deserialization_context \<Rightarrow> bool" where
  "is_next_field_null ctx \<longleftrightarrow> enough_size ctx 1 \<and> hd (remaining ctx) = 0xfb"

fun deserialize_text_fields ::
    "lexical_lib \<Rightarrow> date_lib \<Rightarrow> field_metadata list \<Rightarrow> deserialization_context
     \<Rightarrow> errc + (mysql_value list \<times> deserialization_context)" where
  "deserialize_text_fields L D [] ctx = Inr ([], ctx)"
| "deserialize_text_fields L D (meta # metas) ctx =
     (if is_next_field_null ctx then
        (case deserialize_text_fields L D metas (ctx_advance 1 ctx) of
           Inl err \<Rightarrow> Inl err | Inr (vs, ctx1) \<Rightarrow> Inr (V_null # vs, ctx1))
      else
        (case deserialize_string_lenenc ctx of
           Inl err \<Rightarrow> Inl err
         | Inr (value_str, ctx1) \<Rightarrow>
             (case deserialize_text_value L D value_str meta of
                Inl err \<Rightarrow> Inl err
              | Inr v \<Rightarrow>
                  (case deserialize_text_fields L D metas ctx1 of
                     Inl err \<Rightarrow> Inl err | Inr (vs, ctx2) \<Rightarrow> Inr (v # vs, ctx2)))))"

definition deserialize_text_row ::
    "lexical_lib \<Rightarrow> date_lib \<Rightarrow> deserialization_context \<Rightarrow> field_metadata list \<Rightarrow> error_code + mysql_value list" where
  "deserialize_text_row L D ctx flds =
     (case deserialize_text_fields L D flds ctx of
        Inl err \<Rightarrow> Inl (make_error_code err)
      | Inr (vs, ctx1) \<Rightarrow> if ctx_empty ctx1 then Inr vs else Inl (make_error_code extra_bytes))"

section \<open>Values are values of their column\<close>

lemma text_date_in_range: "deserialize_text_value_date D from = Inr v \<Longrightarrow> date_time_in_range D v"
  by (auto simp: deserialize_text_value_date_def date_time_in_range_def not_out_of_range split: sum.splits if_splits)

lemma text_datetime_in_range: "deserialize_text_value_datetime D from meta = Inr v \<Longrightarrow> date_time_in_range D v"
  by (auto simp: deserialize_text_value_datetime_def Let_def not_less date_time_in_range_def [of D V_null]
      intro!: datetime_in_range_intro simp del: micros_per_day_def split: sum.splits if_splits)

lemma text_time_in_range: "deserialize_text_value_time from meta = Inr v \<Longrightarrow> date_time_in_range D v"
  by (auto simp: deserialize_text_value_time_def Let_def not_less intro!: time_in_range_intro
      split: sum.splits if_splits)

lemma text_date_kind:
  "deserialize_text_value_date D from = Inr v \<Longrightarrow> v = V_null \<or> (\<exists>d. v = V_date d)"
  by (auto simp: deserialize_text_value_date_def split: sum.splits if_splits)

lemma text_datetime_kind:
  "deserialize_text_value_datetime D from meta = Inr v \<Longrightarrow> v = V_null \<or> (\<exists>t. v = V_datetime t)"
  by (auto simp: deserialize_text_value_datetime_def Let_def split: sum.splits if_splits)

lemma text_time_kind: "deserialize_text_value_time from meta = Inr v \<Longrightarrow> \<exists>t. v = V_time t"
  by (auto simp: deserialize_text_value_time_def Let_def split: sum.splits if_splits)

lemmas text_number_defs =
  deserialize_text_value_int_def deserialize_text_value_float_def deserialize_text_value_double_def
  deserialize_text_value_string_def

lemma text_value_ok:
  assumes "deserialize_text_value L D from meta = Inr v"
  shows "column_value_ok D meta v"
proof (cases "fm_protocol_type meta \<in> {pft_date, pft_timestamp, pft_datetime, pft_time}")
  case True
  then show ?thesis
    using assms text_date_in_range [of D "from" v] text_datetime_in_range [of D "from" meta v]
      text_time_in_range [of "from" meta v D] text_date_kind [of D "from" v]
      text_datetime_kind [of D "from" meta v] text_time_kind [of "from" meta v]
    by (auto simp: deserialize_text_value.simps column_value_ok_def)
next
  case False
  then show ?thesis
    using assms
    by (cases "fm_protocol_type meta")
      (auto simp: deserialize_text_value.simps column_value_ok_def date_time_in_range_def integer_types_def
        special_types_def text_number_defs split: option.splits if_splits)
qed

section \<open>The formats of the protocol\<close>

text \<open>How a server writes a date, and a time of day with \<open>decimals\<close> decimals.\<close>

definition text_date :: "nat \<Rightarrow> nat \<Rightarrow> nat \<Rightarrow> bytes" where
  "text_date y m d = dec_fixed 4 y @ char_minus # dec_fixed 2 m @ char_minus # dec_fixed 2 d"

definition text_hms :: "nat \<Rightarrow> nat \<Rightarrow> nat \<Rightarrow> nat \<Rightarrow> nat \<Rightarrow> nat \<Rightarrow> bytes" where
  "text_hms hour_digits decimals h m s frac =
     dec_fixed hour_digits h @ char_colon # dec_fixed 2 m @ char_colon # dec_fixed 2 s @
     (if decimals = 0 then [] else char_dot # dec_fixed decimals frac)"

lemma null_terminated_id: "0 \<notin> set s \<Longrightarrow> length s < n \<Longrightarrow> null_terminated n s = s"
  by (simp add: null_terminated_def resize_def c_string_append_zeros)

lemma text_date_simps [simp]: "length (text_date y m d) = 10" "0 \<notin> set (text_date y m d)"
  by (simp_all add: text_date_def dec_fixed_no_zero)

lemma text_hms_simps [simp]:
  "length (text_hms k dec h m s f) = k + 6 + (if dec = 0 then 0 else dec + 1)"
  "0 \<notin> set (text_hms k dec h m s f)"
  by (simp_all add: text_hms_def dec_fixed_no_zero)

lemma special_not_digit [simp]: "\<not> is_digit 45" "\<not> is_digit 58" "\<not> is_digit 46"
  by (simp_all add: is_digit_def)

lemma unat_of_nat_small: "n < 2 ^ 32 \<Longrightarrow> unat (of_nat n :: u32) = n" "n < 2 ^ 32 \<Longrightarrow> uint (of_nat n :: u32) = int n"
  by (simp_all add: unsigned_of_nat take_bit_nat_eq_self take_bit_int_eq_self)

lemma deserialize_text_ymd_format:
  assumes "y \<le> 9999" and "m < 100" and "d < 100"
  shows "deserialize_text_ymd (text_date y m d) =
    (if m \<le> 12 \<and> d \<le> 31 then Inr (int y, int m, int d) else Inl protocol_value_error)"
proof -
  have "scan [Scan_unsigned 4, Scan_literal 45, Scan_unsigned 2, Scan_literal 45, Scan_unsigned 2, Scan_char]
      (text_date y m d) = [of_nat y, of_nat m, of_nat d]"
    using assms scan_dec_fixed [of 2 2 d "[]" "[Scan_char]"]
    by (simp add: text_date_def scan_dec_fixed del: scan.simps(4))
  then show ?thesis
    using assms by (auto simp: deserialize_text_ymd_def null_terminated_id unat_of_nat_small)
qed

lemma scan_hms:
  assumes "0 < k" "k \<le> w" "h < 10 ^ k" and "m < 100" and "s < 100"
  shows "scan (Scan_unsigned w # Scan_literal 58 # Scan_unsigned 2 # Scan_literal 58 # Scan_unsigned 2 # ds)
      (dec_fixed k h @ 58 # dec_fixed 2 m @ 58 # dec_fixed 2 s @ rest) = of_nat h # of_nat m # of_nat s # scan ds rest"
  using assms by (simp add: scan_dec_fixed del: scan.simps(4))

lemma parse_hms_format:
  assumes "0 < k" "k \<le> w" "h < 10 ^ k" and "m < 100" and "s < 100" and "dec \<le> 6" and "f < 10 ^ dec"
  shows "parse_hms w dec (text_hms k dec h m s f)
     = Inr (of_nat h, of_nat m, of_nat s, of_nat (f * 10 ^ (6 - dec)))"
proof (cases "dec = 0")
  case True
  then show ?thesis using assms scan_hms [OF assms(1-5), of "[Scan_char]" "[]"]
    by (simp add: parse_hms_def text_hms_def del: scan.simps(4))
next
  case False
  then have "scan [Scan_literal 46, Scan_unsigned 6, Scan_char] (46 # dec_fixed dec f) = [of_nat f]"
    using assms(6,7) scan_dec_fixed [of dec 6 f "[]" "[Scan_char]"] by (simp del: scan.simps(4))
  then show ?thesis using False assms scan_hms [OF assms(1-5), of "[Scan_literal 46, Scan_unsigned 6, Scan_char]" "46 # dec_fixed dec f"]
    by (simp add: parse_hms_def text_hms_def compute_micros_def del: scan.simps(4))
qed


section \<open>Rows\<close>

text \<open>A row on the wire: per column the byte \<open>0xfb\<close> for NULL, or a length-encoded string.\<close>

definition enc_text_cell :: "capabilities \<Rightarrow> bytes option \<Rightarrow> bytes" where
  "enc_text_cell caps c = (case c of None \<Rightarrow> [0xfb] | Some s \<Rightarrow> enc_string_lenenc caps s)"

definition enc_text_row :: "capabilities \<Rightarrow> bytes option list \<Rightarrow> bytes" where
  "enc_text_row caps cells = concat (map (enc_text_cell caps) cells)"

text \<open>The values of the cells, or the first error, column by column.\<close>

fun text_cells :: "lexical_lib \<Rightarrow> date_lib \<Rightarrow> field_metadata list \<Rightarrow> bytes option list \<Rightarrow> errc + mysql_value list" where
  "text_cells L D (meta # metas) (c # cells) =
     (case (case c of None \<Rightarrow> Inr V_null | Some s \<Rightarrow> deserialize_text_value L D s meta) of
        Inl err \<Rightarrow> Inl err
      | Inr v \<Rightarrow> (case text_cells L D metas cells of Inl err \<Rightarrow> Inl err | Inr vs \<Rightarrow> Inr (v # vs)))"
| "text_cells L D _ _ = Inr []"

lemma hd_enc_int_lenenc: "\<exists>b bs. enc_int_lenenc caps v = b # bs \<and> b \<noteq> 0xfb"
proof (cases "v < 251")
  case True
  have "(ucast v :: u8) \<noteq> 0xfb" using small_first_byte(2) [OF True] by auto
  then show ?thesis using True by (simp add: enc_int_lenenc_def le_bytes_numeral)
qed (auto simp: enc_int_lenenc_def)

lemma is_next_field_null_cell:
  assumes "remaining ctx = enc_text_cell caps c @ rest"
  shows "is_next_field_null ctx \<longleftrightarrow> c = None"
proof (cases c)
  case (Some s)
  then show ?thesis
    using assms hd_enc_int_lenenc [of caps "of_nat (length s)"]
    by (auto simp: is_next_field_null_def enc_text_cell_def enc_string_lenenc_def ctx_simps)
qed (use assms in \<open>simp add: is_next_field_null_def enc_text_cell_def ctx_simps\<close>)

lemma deserialize_text_fields_enc:
  assumes "length cells = length metas" and "\<forall>s. Some s \<in> set cells \<longrightarrow> in_memory s"
    and "remaining ctx = enc_text_row (ctx_caps ctx) cells @ rest"
  shows "deserialize_text_fields L D metas ctx =
    (case text_cells L D metas cells of
       Inl err \<Rightarrow> Inl err
     | Inr vs \<Rightarrow> Inr (vs, ctx_advance (length (enc_text_row (ctx_caps ctx) cells)) ctx))"
  using assms
proof (induction cells metas arbitrary: ctx rule: list_induct2)
  case Nil
  then show ?case by (simp add: enc_text_row_def)
next
  case (Cons c cells meta metas)
  let ?caps = "ctx_caps ctx"
  have r: "remaining ctx = enc_text_cell ?caps c @ enc_text_row ?caps cells @ rest"
    using Cons.prems(2) by (simp add: enc_text_row_def)
  let ?ctx = "ctx_advance (length (enc_text_cell ?caps c)) ctx"
  have IH: "deserialize_text_fields L D metas ?ctx =
    (case text_cells L D metas cells of
       Inl err \<Rightarrow> Inl err
     | Inr vs \<Rightarrow> Inr (vs, ctx_advance (length (enc_text_row ?caps cells)) ?ctx))"
    using Cons.IH [of ?ctx] Cons.prems(1) r by (simp split: sum.splits)
  show ?case
  proof (cases c)
    case None
    then show ?thesis
      using IH is_next_field_null_cell [OF r]
      by (simp add: enc_text_cell_def enc_text_row_def split: sum.split)
  next
    case (Some s)
    have "deserialize_string_lenenc ctx = Inr (s, ?ctx)"
      using string_lenenc.deser_enc [of s ctx "enc_text_row ?caps cells @ rest"] Cons.prems(1) r Some
      by (simp add: enc_text_cell_def)
    then show ?thesis
      using IH is_next_field_null_cell [OF r] Some
      by (simp add: enc_text_cell_def enc_text_row_def split: sum.split)
  qed
qed

lemma deserialize_text_fields_step:
  "deserialize_text_fields L D metas ctx = Inr (vs, ctx1) \<Longrightarrow>
   ctx_step ctx ctx1 \<and> list_all2 (column_value_ok D) metas vs"
proof (induction metas arbitrary: ctx vs)
  case (Cons meta metas)
  show ?case
  proof (cases "is_next_field_null ctx")
    case True
    then have "ctx_step ctx (ctx_advance 1 ctx)"
      by (intro ctx_step_advance) (simp add: is_next_field_null_def ctx_simps)
    then show ?thesis using Cons True by (auto split: sum.splits intro: ctx_step_trans)
  next
    case False
    then show ?thesis
      using Cons.prems
      by (auto split: sum.splits dest!: string_lenenc.deser_step text_value_ok Cons.IH intro: ctx_step_trans)
  qed
qed simp

section \<open>Formatted dates and times\<close>

lemma text_date_value:
  assumes "date_library D" and "y \<le> 9999" and "m < 100" and "d < 100"
  shows "deserialize_text_value_date D (text_date y m d) =
    (if 12 < m \<or> 31 < d then Inl protocol_value_error
     else Inr (if ymd_ok D (int y) (int m) (int d) then V_date (sys_days D (int y) (int m) (int d)) else V_null))"
  using assms(2-) date_library.sys_not_out_of_range [OF assms(1), of "int y" "int m" "int d"]
  by (auto simp: deserialize_text_value_date_def deserialize_text_ymd_format)

lemma power_decimals: "dec \<le> 6 \<Longrightarrow> f < 10 ^ dec \<Longrightarrow> f * 10 ^ (6 - dec) < (1000000 :: nat)"
proof -
  assume "dec \<le> 6" "f < 10 ^ dec"
  then have "f * 10 ^ (6 - dec) < 10 ^ dec * 10 ^ (6 - dec)" by simp
  also have "\<dots> = (10 :: nat) ^ 6" using \<open>dec \<le> 6\<close> by (simp flip: power_add)
  finally show ?thesis by simp
qed

lemma text_datetime_value:
  assumes "date_library D" and "y \<le> 9999" and "m < 100" and "d < 100" and "h < 100" "mi < 100" "s < 100"
    and "dec = sanitize_decimals (fm_decimals meta)" and "f < 10 ^ dec" and "sep \<noteq> 0"
  shows "deserialize_text_value_datetime D (text_date y m d @ sep # text_hms 2 dec h mi s f) meta =
    (if 12 < m \<or> 31 < d \<or> 23 < h \<or> 59 < mi \<or> 59 < s then Inl protocol_value_error
     else Inr (if ymd_ok D (int y) (int m) (int d)
       then V_datetime (sys_days D (int y) (int m) (int d) * micros_per_day
              + hms_micros (int h) (int mi) (int s) (int (f * 10 ^ (6 - dec))))
       else V_null))"
proof -
  have dec: "dec \<le> 6" using assms(8) by (simp add: sanitize_decimals_def)
  define us where "us = f * 10 ^ (6 - dec)"
  have us: "us < 1000000" unfolding us_def by (rule power_decimals [OF dec assms(9)])
  have hms: "parse_hms 2 dec (null_terminated 16 (text_hms 2 dec h mi s f))
      = Inr (of_nat h, of_nat mi, of_nat s, of_nat us)"
    using assms(5-7,9) dec unfolding us_def
    by (subst null_terminated_id) (auto simp: parse_hms_format simp del: of_nat_mult of_nat_power)
  have u: "unat (of_nat n :: u32) = n" "uint (of_nat n :: u32) = int n" if "n < 1000000" for n
    using that by (simp_all add: unat_of_nat_small)
  show ?thesis
    unfolding us_def [symmetric]
    using assms(2-7) us hms date_library.sys_not_out_of_range [OF assms(1), of "int y" "int m" "int d"]
    by (auto simp: deserialize_text_value_datetime_def Let_def assms(8) [symmetric] deserialize_text_ymd_format
        u)
qed

lemma text_time_value:
  assumes "k = 2 \<or> k = 3" and "h < 10 ^ k" "m < 100" "s < 100"
    and "dec = sanitize_decimals (fm_decimals meta)" and "f < 10 ^ dec"
  shows "deserialize_text_value_time ((if neg then [char_minus] else []) @ text_hms k dec h m s f) meta =
    (if 838 < h \<or> 59 < m \<or> 59 < s then Inl protocol_value_error
     else Inr (V_time ((if neg then -1 else 1) * hms_micros (int h) (int m) (int s) (int (f * 10 ^ (6 - dec))))))"
proof -
  have dec: "dec \<le> 6" using assms(5) by (simp add: sanitize_decimals_def)
  define us where "us = f * 10 ^ (6 - dec)"
  have us: "us < 1000000" unfolding us_def by (rule power_decimals [OF dec assms(6)])
  let ?t = "text_hms k dec h m s f"
  have nt: "null_terminated 18 ((if neg then [char_minus] else []) @ ?t) = (if neg then [char_minus] else []) @ ?t"
    using assms(1) dec by (intro null_terminated_id) auto
  have hd: "hd ?t \<noteq> 45"
  proof -
    have "dec_fixed k h \<noteq> []" using assms(1) by (auto simp flip: length_0_conv)
    then have "hd ?t \<in> set (dec_fixed k h)" by (simp add: text_hms_def)
    then show ?thesis using dec_fixed_digits digit_not_special(1) by blast
  qed
  have hms: "parse_hms 3 dec ?t = Inr (of_nat h, of_nat m, of_nat s, of_nat us)"
    using assms dec unfolding us_def by (intro parse_hms_format) auto
  have "h < 1000" using assms(1,2) by auto
  moreover have u: "unat (of_nat n :: u32) = n" "uint (of_nat n :: u32) = int n" if "n < 1000000" for n
    using that by (simp_all add: unat_of_nat_small)
  ultimately show ?thesis
    unfolding us_def [symmetric]
    using assms(1,3,4) us hms nt hd
    by (auto simp: deserialize_text_value_time_def Let_def assms(5) [symmetric] u)
qed

section \<open>Properties\<close>

lemma deserialize_text_row_enc:
  assumes "length cells = length metas" and "\<forall>s. Some s \<in> set cells \<longrightarrow> in_memory s"
  shows "deserialize_text_row L D (make_ctx (enc_text_row caps cells @ rest) caps) metas =
    (case text_cells L D metas cells of
       Inl err \<Rightarrow> Inl (make_error_code err)
     | Inr vs \<Rightarrow> if rest = [] then Inr vs else Inl (make_error_code extra_bytes))"
proof -
  let ?c = "make_ctx (enc_text_row caps cells @ rest) caps"
  have f: "deserialize_text_fields L D metas ?c =
    (case text_cells L D metas cells of
       Inl err \<Rightarrow> Inl err
     | Inr vs \<Rightarrow> Inr (vs, ctx_advance (length (enc_text_row caps cells)) ?c))"
    using deserialize_text_fields_enc [OF assms, of ?c rest L D] by (simp split: sum.splits)
  have "ctx_wf (ctx_advance (length (enc_text_row caps cells)) ?c)" by (intro ctx_wf_advance) simp_all
  then show ?thesis
    by (simp del: extra_bytes_def add: deserialize_text_row_def f ctx_empty_remaining split: sum.split)
qed

text \<open>
  C35: a text row is deserialized cell by cell: for every row as the server encodes it, the result
  is the values of its cells, or the error of the first cell that cannot be converted; bytes
  after the last cell are reported once all cells are understood.
\<close>
theorem text_row_cells:
  assumes "length cells = length metas" and "\<forall>s. Some s \<in> set cells \<longrightarrow> in_memory s"
  shows "deserialize_text_row L D (make_ctx (enc_text_row caps cells @ rest) caps) metas =
    (case text_cells L D metas cells of
       Inl err \<Rightarrow> Inl (make_error_code err)
     | Inr vs \<Rightarrow> if rest = [] then Inr vs else Inl (make_error_code extra_bytes))"
  by (rule deserialize_text_row_enc [OF assms])

definition varchar_column :: field_metadata where
  "varchar_column = field_metadata_of sample_column"

lemma text_row_cells_witness:
  "\<forall>L D. deserialize_text_row L D (make_ctx (enc_text_row (caps_of 0) [Some [0x61, 0x62], None]) (caps_of 0))
     [varchar_column, varchar_column] = Inr [V_string [0x61, 0x62], V_null]"
proof (intro allI)
  fix L D
  show "deserialize_text_row L D (make_ctx (enc_text_row (caps_of 0) [Some [0x61, 0x62], None]) (caps_of 0))
     [varchar_column, varchar_column] = Inr [V_string [0x61, 0x62], V_null]"
    using text_row_cells [of "[Some [0x61, 0x62], None]" "[varchar_column, varchar_column]" L D "caps_of 0" "[]"]
    by (auto simp: in_memory_def size_t_max_def deserialize_text_value.simps varchar_column_def
        fm_protocol_type_def field_metadata_of_def sample_column_def deserialize_text_value_string_def)
qed

lemma deserialize_text_row_ok:
  assumes "deserialize_text_row L D ctx metas = Inr vs"
  shows "list_all2 (column_value_ok D) metas vs"
  using assms deserialize_text_fields_step
  by (auto simp: deserialize_text_row_def split: sum.splits if_splits)

text \<open>
  C36: whatever bytes the server sends, a text row that is accepted has one value per column, each
  NULL or of the alternative of the column's type: 64-bit integers with the signedness of the
  column, finite floating point numbers, dates, datetimes and times between the limits
  \<open>value.hpp\<close> names. Integers are not held to the range documented for their type.
\<close>
theorem text_row_values_ok:
  assumes "deserialize_text_row L D ctx metas = Inr vs"
  shows "list_all2 (column_value_ok D) metas vs"
  by (rule deserialize_text_row_ok [OF assms])

lemma text_row_values_ok_witness:
  "list_all2 (column_value_ok gregorian) [varchar_column] [V_null]"
  using text_row_values_ok [of "\<lparr>lexical_uint64 = \<lambda>_. None, lexical_int64 = \<lambda>_. None,
      lexical_float = \<lambda>_. None, lexical_double = \<lambda>_. None\<rparr>" gregorian
      "make_ctx [0xfb] (caps_of 0)" "[varchar_column]" "[V_null]"]
  by (simp add: deserialize_text_row_def is_next_field_null_def ctx_simps ctx_wf_advance)

text \<open>
  The ranges documented for the integer types are not enforced: any integer the lexical cast
  reads from the text is accepted in a TINYINT column, -0x80 to 0x7f according to \<open>value.hpp\<close>.
\<close>
lemma text_integer_beyond_type:
  assumes "lexical_int64 L s = Some 300"
  shows "deserialize_text_value L D s (field_metadata_of (sample_column\<lparr>cd_type := pft_tiny\<rparr>)) = Inr (V_int64 300)"
  using assms
  by (simp add: deserialize_text_value.simps deserialize_text_value_int_def field_metadata_of_def fm_protocol_type_def
      fm_is_unsigned_def fm_flag_set_def sample_column_def)

text \<open>
  C37: a datetime column in the format of the protocol, \<open>YYYY-MM-DD hh:mm:ss[.f]\<close> with as many
  decimals as the column has: the time point it denotes, NULL when the date does not exist,
  and an error when a component is out of range, even in a date that does not exist.
\<close>
theorem text_datetime_understood:
  assumes "date_library D" and "y \<le> 9999" and "m < 100" and "d < 100" and "h < 100" "mi < 100" "s < 100"
    and "dec = sanitize_decimals (fm_decimals meta)" and "f < 10 ^ dec"
  shows "deserialize_text_value_datetime D (text_date y m d @ 32 # text_hms 2 dec h mi s f) meta =
    (if 12 < m \<or> 31 < d \<or> 23 < h \<or> 59 < mi \<or> 59 < s then Inl protocol_value_error
     else Inr (if ymd_ok D (int y) (int m) (int d)
       then V_datetime (sys_days D (int y) (int m) (int d) * micros_per_day
              + hms_micros (int h) (int mi) (int s) (int (f * 10 ^ (6 - dec))))
       else V_null))"
  using text_datetime_value [OF assms] by simp

definition decimals_column :: "u8 \<Rightarrow> field_metadata" where
  "decimals_column n = field_metadata_of (sample_column\<lparr>cd_type := pft_datetime, cd_decimals := n\<rparr>)"

lemma text_datetime_understood_witness:
  "deserialize_text_value_datetime gregorian (text_date 2000 2 29 @ 32 # text_hms 2 2 23 59 58 5) (decimals_column 2)
     = Inr (V_datetime (11016 * micros_per_day + hms_micros 23 59 58 50000))"
proof -
  have dec: "2 = sanitize_decimals (fm_decimals (decimals_column 2))"
    by (simp add: decimals_column_def field_metadata_of_def fm_decimals_def sanitize_decimals_def)
  show ?thesis
    using text_datetime_understood [OF gregorian.date_library_axioms _ _ _ _ _ _ dec, of 2000 2 29 23 59 58 5]
    by (simp add: gregorian_sample del: micros_per_day_def)
qed

text \<open>
  A time column in the format of the protocol, \<open>[-]hh[h]:mm:ss[.f]\<close>: the duration it denotes,
  or an error when a component is out of range.
\<close>
theorem text_time_understood:
  assumes "k = 2 \<or> k = 3" and "h < 10 ^ k" "m < 100" "s < 100"
    and "dec = sanitize_decimals (fm_decimals meta)" and "f < 10 ^ dec"
  shows "deserialize_text_value_time ((if neg then [char_minus] else []) @ text_hms k dec h m s f) meta =
    (if 838 < h \<or> 59 < m \<or> 59 < s then Inl protocol_value_error
     else Inr (V_time ((if neg then -1 else 1) * hms_micros (int h) (int m) (int s) (int (f * 10 ^ (6 - dec))))))"
  by (rule text_time_value [OF assms])

lemma text_time_understood_witness:
  "deserialize_text_value_time (char_minus # text_hms 3 0 838 59 59 0) (decimals_column 0)
     = Inr (V_time (- hms_micros 838 59 59 0))"
  using text_time_understood [of 3 838 59 59 0 "decimals_column 0" 0 True]
  by (simp add: decimals_column_def field_metadata_of_def fm_decimals_def sanitize_decimals_def)

text \<open>
  Outside that format the microseconds are scaled in 32 bits: with one decimal the fraction
  \<open>.042950\<close> is 4295 seconds, which wraps around to 32704 microseconds and is accepted.
\<close>
lemma text_time_micros_wrap:
  "deserialize_text_value_time (ascii ''1:2:3.042950'') (decimals_column 1) = Inr (V_time (hms_micros 1 2 3 32704))"
  by (simp add: deserialize_text_value_time_def decimals_column_def field_metadata_of_def fm_decimals_def
      sanitize_decimals_def ascii_def of_char_def null_terminated_def c_string_def resize_def parse_hms_def
      scan_unsigned_def is_digit_def is_space_def digits_value_def compute_micros_def Let_def)

end
