(* ===== verification/Binary_Serialization.thy ===== *)
theory Binary_Serialization
  imports Column_Values
begin

text \<open>
  Values in the binary protocol (\<open>binary_serialization.ipp\<close>): the size and the bytes of each
  alternative, as the parameters of a prepared statement are sent. Dates and datetimes assert that
  the calendar has the date; a failed assertion is \<open>None\<close>.
\<close>

section \<open>Serializers\<close>

text \<open>Floating point numbers are their bit pattern in little-endian order.\<close>

definition serialize_binary_float :: "'a::len word ser" where
  "serialize_binary_float ctx input = sctx_write (le_bytes (LENGTH('a) div 8) input) ctx"

definition serialize_binary_ymd :: "(int \<times> int \<times> int) ser" where
  "serialize_binary_ymd ctx = (\<lambda>(y, m, d).
     serialize_cons (serialize_fixed_int int2)
       (serialize_cons (serialize_fixed_int int1) (serialize_cons (serialize_fixed_int int1) serialize_nil))
       ctx (word_of_int y :: u16, word_of_int m :: u8, word_of_int d :: u8, ()))"

text \<open>The assertion of both: the calendar gave a date that exists.\<close>

definition ymd_asserted :: "date_lib \<Rightarrow> int \<times> int \<times> int \<Rightarrow> bool" where
  "ymd_asserted D ymd = (case ymd of (y, m, d) \<Rightarrow> ymd_ok D y m d)"

definition serialize_binary_date :: "date_lib \<Rightarrow> int ser" where
  "serialize_binary_date D ctx input =
     (let ymd = civil_of_days D input
      in if \<not> ymd_asserted D ymd then None
         else Option.bind (serialize_fixed_int int1 ctx (of_nat binc_date_sz :: u8))
                (\<lambda>c. serialize_binary_ymd c ymd))"

definition serialize_binary_datetime :: "date_lib \<Rightarrow> int ser" where
  "serialize_binary_datetime D ctx input =
     (let days = floor_days D input;
          ymd = civil_of_days D days;
          (h, m, s, us) = tod_fields D (input - days * micros_per_day)
      in if \<not> ymd_asserted D ymd then None
         else Option.bind (serialize_fixed_int int1 ctx (of_nat binc_datetime_dhmsu_sz :: u8))
           (\<lambda>c1. Option.bind (serialize_binary_ymd c1 ymd)
             (\<lambda>c2. serialize_cons (serialize_fixed_int int1) (serialize_cons (serialize_fixed_int int1)
                (serialize_cons (serialize_fixed_int int1) (serialize_cons (serialize_fixed_int int4) serialize_nil)))
                c2 (word_of_int h :: u8, word_of_int m :: u8, word_of_int s :: u8, word_of_int us :: u32, ()))))"

definition serialize_binary_time :: "int ser" where
  "serialize_binary_time ctx input =
     (let days = input sdiv 86400000000;
          hours = (input smod 86400000000) sdiv 3600000000;
          minutes = (input smod 3600000000) sdiv 60000000;
          seconds = (input smod 60000000) sdiv 1000000;
          microseconds = input smod 1000000;
          is_negative = (if input < 0 then 1 else 0) :: u8
      in serialize_cons (serialize_fixed_int int1) (serialize_cons (serialize_fixed_int int1)
           (serialize_cons (serialize_fixed_int int4) (serialize_cons (serialize_fixed_int int1)
           (serialize_cons (serialize_fixed_int int1) (serialize_cons (serialize_fixed_int int1)
           (serialize_cons (serialize_fixed_int int4) serialize_nil)))))) ctx
           (of_nat binc_time_dhmsu_sz :: u8, is_negative, word_of_int \<bar>days\<bar> :: u32, word_of_int \<bar>hours\<bar> :: u8,
            word_of_int \<bar>minutes\<bar> :: u8, word_of_int \<bar>seconds\<bar> :: u8, word_of_int \<bar>microseconds\<bar> :: u32, ()))"

definition get_binary_value_size :: "mysql_value sizer" where
  "get_binary_value_size ctx input =
     (case input of
        V_null \<Rightarrow> 0
      | V_int64 _ \<Rightarrow> 8
      | V_uint64 _ \<Rightarrow> 8
      | V_string s \<Rightarrow> get_size_string_lenenc ctx s
      | V_float _ \<Rightarrow> 4
      | V_double _ \<Rightarrow> 8
      | V_date _ \<Rightarrow> binc_date_sz + binc_length_sz
      | V_datetime _ \<Rightarrow> binc_datetime_dhmsu_sz + binc_length_sz
      | V_time _ \<Rightarrow> binc_time_dhmsu_sz + binc_length_sz)"

definition serialize_binary_value :: "date_lib \<Rightarrow> mysql_value ser" where
  "serialize_binary_value D ctx input =
     (case input of
        V_null \<Rightarrow> Some ctx
      | V_int64 v \<Rightarrow> serialize_fixed_int int8_signed ctx v
      | V_uint64 v \<Rightarrow> serialize_fixed_int int8 ctx v
      | V_string s \<Rightarrow> serialize_string_lenenc ctx s
      | V_float v \<Rightarrow> serialize_binary_float ctx v
      | V_double v \<Rightarrow> serialize_binary_float ctx v
      | V_date d \<Rightarrow> serialize_binary_date D ctx d
      | V_datetime t \<Rightarrow> serialize_binary_datetime D ctx t
      | V_time t \<Rightarrow> serialize_binary_time ctx t)"

text \<open>The assertions in the serialization of a value.\<close>

definition binary_value_asserted :: "date_lib \<Rightarrow> mysql_value \<Rightarrow> bool" where
  "binary_value_asserted D v =
     (case v of
        V_date d \<Rightarrow> ymd_asserted D (civil_of_days D d)
      | V_datetime t \<Rightarrow> ymd_asserted D (civil_of_days D (floor_days D t))
      | _ \<Rightarrow> True)"

text \<open>They hold of every date and datetime in the documented ranges.\<close>

lemma date_time_in_range_asserted:
  assumes "date_library D" and "date_time_in_range D v"
  shows "binary_value_asserted D v"
proof (cases v)
  case (V_date d)
  then have "min_date D \<le> d" "d \<le> max_date D" using assms(2) by (simp_all add: date_time_in_range_def)
  then obtain y m d' where "civil_of_days D d = (y, m, d')" "ymd_ok D y m d'"
    by (rule date_library.civil_in_range [OF assms(1)])
  then show ?thesis using V_date by (simp add: binary_value_asserted_def ymd_asserted_def)
next
  case (V_datetime t)
  then have "min_datetime D \<le> t" "t \<le> max_datetime D"
    using assms(2) by (simp_all add: date_time_in_range_def)
  note r = date_library.datetime_in_range(1,2) [OF assms(1) this]
  obtain y m d where "civil_of_days D (floor_days D t) = (y, m, d)" "ymd_ok D y m d"
    by (rule date_library.civil_in_range [OF assms(1) r])
  then show ?thesis using V_datetime by (simp add: binary_value_asserted_def ymd_asserted_def)
qed (simp_all add: binary_value_asserted_def)

section \<open>The bytes\<close>

definition enc_binary_ymd :: "int \<times> int \<times> int \<Rightarrow> bytes" where
  "enc_binary_ymd = (\<lambda>(y, m, d). le_bytes 2 (word_of_int y :: u16) @ [word_of_int m, word_of_int d])"

text \<open>A duration of \<open>a\<close> microseconds, whatever its sign.\<close>

definition enc_binary_time :: "bool \<Rightarrow> nat \<Rightarrow> bytes" where
  "enc_binary_time negative a =
     [12, if negative then 1 else 0] @ le_bytes 4 (of_nat (a div 86400000000) :: u32) @
     [of_nat (a mod 86400000000 div 3600000000), of_nat (a mod 3600000000 div 60000000),
      of_nat (a mod 60000000 div 1000000)] @ le_bytes 4 (of_nat (a mod 1000000) :: u32)"

definition enc_binary_value :: "date_lib \<Rightarrow> mysql_value encoding" where
  "enc_binary_value D caps v =
     (case v of
        V_null \<Rightarrow> []
      | V_int64 w \<Rightarrow> le_bytes 8 w
      | V_uint64 w \<Rightarrow> le_bytes 8 w
      | V_string s \<Rightarrow> enc_string_lenenc caps s
      | V_float w \<Rightarrow> le_bytes 4 w
      | V_double w \<Rightarrow> le_bytes 8 w
      | V_date d \<Rightarrow> 4 # enc_binary_ymd (civil_of_days D d)
      | V_datetime t \<Rightarrow>
          11 # enc_binary_ymd (civil_of_days D (floor_days D t)) @
          (case tod_fields D (t - floor_days D t * micros_per_day) of (h, m, s, us) \<Rightarrow>
             [word_of_int h, word_of_int m, word_of_int s] @ le_bytes 4 (word_of_int us :: u32))
      | V_time t \<Rightarrow> enc_binary_time (t < 0) (nat \<bar>t\<bar>))"

lemma serialize_cons_fixed_int [enc_simps]:
  "serialize_cons (serialize_fixed_int t) r ctx (x, y)
     = Option.bind (sctx_write (le_bytes (get_int_size t) x) ctx) (\<lambda>c. r c y)"
  by (simp add: serialize_cons_def serialize_fixed_int_def split: option.split)

lemma serialize_nil_Some [enc_simps]: "serialize_nil ctx u = Some ctx"
  by (simp add: serialize_nil_def)

lemma serialize_binary_ymd_write: "serialize_binary_ymd ctx ymd = sctx_write (enc_binary_ymd ymd) ctx"
  by (simp add: serialize_binary_ymd_def enc_binary_ymd_def enc_simps sctx_write_append split: prod.split)

lemma serialize_tod_write:
  "serialize_cons (serialize_fixed_int int1) (serialize_cons (serialize_fixed_int int1)
     (serialize_cons (serialize_fixed_int int1) (serialize_cons (serialize_fixed_int int4) serialize_nil)))
     ctx (h :: u8, m :: u8, s :: u8, us :: u32, ()) = sctx_write ([h, m, s] @ le_bytes 4 us) ctx"
  by (simp add: enc_simps sctx_write_append)

lemma abs_nat_parts:
  "word_of_int \<bar>t sdiv numeral k\<bar> = of_nat (nat \<bar>t\<bar> div numeral k)"
  "word_of_int \<bar>t smod numeral k\<bar> = of_nat (nat \<bar>t\<bar> mod numeral k)"
  "word_of_int \<bar>(t smod numeral k) sdiv numeral l\<bar> = of_nat (nat \<bar>t\<bar> mod numeral k div numeral l)"
proof -
  have i: "int (nat \<bar>t\<bar> div numeral k) = \<bar>t\<bar> div numeral k" "int (nat \<bar>t\<bar> mod numeral k) = \<bar>t\<bar> mod numeral k"
    "int (nat \<bar>t\<bar> mod numeral k div numeral l) = \<bar>t\<bar> mod numeral k div numeral l"
    by (simp_all add: zdiv_int zmod_int)
  show "word_of_int \<bar>t sdiv numeral k\<bar> = of_nat (nat \<bar>t\<bar> div numeral k)"
    unfolding abs_sdiv [OF zero_less_numeral] i(1) [symmetric] by (rule of_int_of_nat_eq)
  show "word_of_int \<bar>t smod numeral k\<bar> = of_nat (nat \<bar>t\<bar> mod numeral k)"
    unfolding abs_smod [OF zero_less_numeral] i(2) [symmetric] by (rule of_int_of_nat_eq)
  show "word_of_int \<bar>(t smod numeral k) sdiv numeral l\<bar> = of_nat (nat \<bar>t\<bar> mod numeral k div numeral l)"
    unfolding sdiv_smod [OF zero_less_numeral zero_less_numeral] i(3) [symmetric] by (rule of_int_of_nat_eq)
qed

lemma serialize_binary_time_write:
  "serialize_binary_time ctx t = sctx_write (enc_binary_time (t < 0) (nat \<bar>t\<bar>)) ctx"
  unfolding serialize_binary_time_def Let_def enc_binary_time_def abs_nat_parts(3)
  unfolding abs_nat_parts(1,2)
  by (simp add: enc_simps sctx_write_append)

interpretation binary_value: guarded_serializer "serialize_binary_value D" get_binary_value_size "enc_binary_value D"
    "binary_value_asserted D" for D
proof
  fix ctx :: serialization_context and v
  show "serialize_binary_value D ctx v = None" if "\<not> binary_value_asserted D v"
    using that by (cases v)
      (auto simp: binary_value_asserted_def serialize_binary_value_def serialize_binary_date_def
        serialize_binary_datetime_def Let_def split: prod.split)
  show "serialize_binary_value D ctx v = sctx_write (enc_binary_value D (sctx_caps ctx) v) ctx"
    if "binary_value_asserted D v"
    using that by (cases v)
      (auto simp: binary_value_asserted_def serialize_binary_value_def enc_binary_value_def serialize_fixed_int_def string_lenenc.ser_enc
        serialize_binary_float_def serialize_binary_date_def serialize_binary_datetime_def Let_def
        serialize_binary_ymd_write serialize_tod_write serialize_binary_time_write
        sctx_write_append split: prod.split)
  show "get_binary_value_size ctx v = length (enc_binary_value D (sctx_caps ctx) v)"
    by (cases v)
      (auto simp: get_binary_value_size_def enc_binary_value_def string_lenenc.sz_enc enc_binary_ymd_def
        enc_binary_time_def split: prod.split)
qed

end
