(* ===== verification/Null_Bitmap.thy ===== *)
theory Null_Bitmap
  imports Prelude
begin

text \<open>
  \<open>null_bitmap_traits\<close> (\<open>null_bitmap_traits.hpp\<close>): which fields of a binary row, or which
  parameters of a statement, are NULL. The class asserts the number of the field and reads and writes through a
  raw pointer; a failed assertion or an access outside the bytes it points to is \<open>None\<close>.
\<close>

record null_bitmap_traits =
  nb_offset :: nat
  nb_num_fields :: nat

definition null_bitmap_of :: "nat \<Rightarrow> nat \<Rightarrow> null_bitmap_traits" where
  "null_bitmap_of offset num_fields = \<lparr>nb_offset = offset, nb_num_fields = num_fields\<rparr>"

definition byte_pos :: "null_bitmap_traits \<Rightarrow> nat \<Rightarrow> nat" where
  "byte_pos t field_pos = (field_pos + nb_offset t) div 8"

definition bit_pos :: "null_bitmap_traits \<Rightarrow> nat \<Rightarrow> nat" where
  "bit_pos t field_pos = (field_pos + nb_offset t) mod 8"

definition byte_count :: "null_bitmap_traits \<Rightarrow> nat" where
  "byte_count t = (nb_num_fields t + 7 + nb_offset t) div 8"

definition bitmap_is_null :: "null_bitmap_traits \<Rightarrow> bytes \<Rightarrow> nat \<Rightarrow> bool option" where
  "bitmap_is_null t bm field_pos =
     (if field_pos < nb_num_fields t \<and> byte_pos t field_pos < length bm
      then Some (bm ! byte_pos t field_pos AND push_bit (bit_pos t field_pos) 1 \<noteq> 0)
      else None)"

definition bitmap_set_null :: "null_bitmap_traits \<Rightarrow> bytes \<Rightarrow> nat \<Rightarrow> bytes option" where
  "bitmap_set_null t bm field_pos =
     (if field_pos < nb_num_fields t \<and> byte_pos t field_pos < length bm
      then Some (bm[byte_pos t field_pos := bm ! byte_pos t field_pos OR push_bit (bit_pos t field_pos) 1])
      else None)"

definition stmt_execute_null_bitmap_offset :: nat where
  "stmt_execute_null_bitmap_offset = 0"

definition binary_row_null_bitmap_offset :: nat where
  "binary_row_null_bitmap_offset = 2"

section \<open>Lemmas\<close>

lemma null_bitmap_of_simps [simp]:
  "nb_offset (null_bitmap_of off n) = off" "nb_num_fields (null_bitmap_of off n) = n"
  by (simp_all add: null_bitmap_of_def)

text \<open>The bytes counted hold the bits of every field (and no byte is superfluous).\<close>

lemma byte_pos_lt: "field_pos < nb_num_fields t \<Longrightarrow> byte_pos t field_pos < byte_count t"
  by (simp add: byte_pos_def byte_count_def less_eq_div_iff_mult_less_eq div_less_iff_less_mult)

lemma byte_count_tight: "0 < nb_num_fields t \<Longrightarrow> byte_count t = Suc (byte_pos t (nb_num_fields t - 1))"
  by (simp add: byte_pos_def byte_count_def)

lemma bit_test: "n < 8 \<Longrightarrow> (b :: u8) AND push_bit n 1 \<noteq> 0 \<longleftrightarrow> bit b n"
proof -
  assume "n < 8"
  then have "bit (b AND push_bit n 1) k \<longleftrightarrow> k = n \<and> bit b n" for k
    by (auto simp: bit_simps)
  then show ?thesis by (metis bit_eqI bit_0_eq bot_apply bot_bool_def)
qed

lemma bitmap_is_null_bit:
  "i < nb_num_fields t \<Longrightarrow> byte_pos t i < length bm \<Longrightarrow>
   bitmap_is_null t bm i = Some (bit (bm ! byte_pos t i) (bit_pos t i))"
  unfolding bitmap_is_null_def by (subst bit_test) (simp_all add: bit_pos_def)

lemma bitmap_is_null_append:
  "byte_pos t i < length bm \<Longrightarrow> bitmap_is_null t (bm @ rest) i = bitmap_is_null t bm i"
  by (simp add: bitmap_is_null_def nth_append)

lemma pos_inject: "byte_pos t i = byte_pos t j \<Longrightarrow> bit_pos t i = bit_pos t j \<Longrightarrow> i = j"
  unfolding byte_pos_def bit_pos_def by (metis add_right_imp_eq div_mult_mod_eq)

text \<open>Setting a field's bit sets that bit and no other.\<close>

lemma bitmap_set_null_is_null:
  assumes "bitmap_set_null t bm i = Some bm'" and "byte_pos t j < length bm"
  shows "bitmap_is_null t bm' j = (if j = i then Some True else bitmap_is_null t bm j)"
proof -
  have bm': "bm' = bm[byte_pos t i := bm ! byte_pos t i OR push_bit (bit_pos t i) 1]" "byte_pos t i < length bm"
    "i < nb_num_fields t"
    using assms(1) by (auto simp: bitmap_set_null_def split: if_splits)
  have p: "bit_pos t i < 8" "bit_pos t j < 8" by (simp_all add: bit_pos_def)
  have "bit (bm' ! byte_pos t j) (bit_pos t j) \<longleftrightarrow> j = i \<or> bit (bm ! byte_pos t j) (bit_pos t j)"
  proof (cases "byte_pos t j = byte_pos t i")
    case True
    then have "bit_pos t j = bit_pos t i \<longleftrightarrow> j = i" using pos_inject [of t j i] by auto
    then show ?thesis using bm' p True by (auto simp: bit_simps)
  next
    case False
    then show ?thesis using bm' by auto
  qed
  then show ?thesis
    using assms(2) bm' by (cases "j < nb_num_fields t") (auto simp: bitmap_is_null_bit, auto simp: bitmap_is_null_def)
qed

lemma bitmap_set_null_length: "bitmap_set_null t bm i = Some bm' \<Longrightarrow> length bm' = length bm"
  by (auto simp: bitmap_set_null_def split: if_splits)

lemma bitmap_is_null_zeros:
  "i < nb_num_fields t \<Longrightarrow> byte_pos t i < n \<Longrightarrow> bitmap_is_null t (replicate n 0) i = Some False"
  by (simp add: bitmap_is_null_def)

section \<open>Setting the bits of a list of fields\<close>

text \<open>
  The loop that marks the NULL parameters of a statement: one bit per element, the first of them
  having index \<open>i\<close>.
\<close>

fun set_nulls :: "null_bitmap_traits \<Rightarrow> nat \<Rightarrow> bool list \<Rightarrow> bytes \<Rightarrow> bytes option" where
  "set_nulls t i [] bm = Some bm"
| "set_nulls t i (null # nulls) bm =
     (if null then
        (case bitmap_set_null t bm i of None \<Rightarrow> None | Some bm1 \<Rightarrow> set_nulls t (Suc i) nulls bm1)
      else set_nulls t (Suc i) nulls bm)"

lemma nth_Cons_shift: "i \<noteq> j \<Longrightarrow> i \<le> j \<Longrightarrow> (x # xs) ! (j - i) = xs ! (j - Suc i)"
  by (simp add: nth_Cons' diff_Suc)

lemma set_nulls_spec:
  assumes "i + length nulls \<le> nb_num_fields t" and "byte_count t \<le> length bm"
  shows "\<exists>bm'. set_nulls t i nulls bm = Some bm' \<and> length bm' = length bm \<and>
    (\<forall>j < nb_num_fields t. bitmap_is_null t bm' j =
       (if i \<le> j \<and> j < i + length nulls \<and> nulls ! (j - i) then Some True else bitmap_is_null t bm j))"
  using assms
proof (induction nulls arbitrary: i bm)
  case (Cons null nulls)
  have pos: "byte_pos t j < length bm" if "j < nb_num_fields t" for j
    using byte_pos_lt [OF that] Cons.prems(2) by simp
  show ?case
  proof (cases null)
    case False
    obtain bm' where bm': "set_nulls t (Suc i) nulls bm = Some bm'" "length bm' = length bm"
      and nl: "\<forall>j < nb_num_fields t. bitmap_is_null t bm' j =
       (if Suc i \<le> j \<and> j < Suc i + length nulls \<and> nulls ! (j - Suc i) then Some True else bitmap_is_null t bm j)"
      using Cons.IH [of "Suc i" bm] Cons.prems by auto
    have "bitmap_is_null t bm' j =
       (if i \<le> j \<and> j < i + length (null # nulls) \<and> (null # nulls) ! (j - i) then Some True else bitmap_is_null t bm j)"
      if j: "j < nb_num_fields t" for j
      using nl [rule_format, OF j] nth_Cons_shift [of i j null nulls] False by (cases "j = i") auto
    then show ?thesis using False bm' by auto
  next
    case True
    have i: "i < nb_num_fields t" using Cons.prems(1) by simp
    then obtain bm1 where bm1: "bitmap_set_null t bm i = Some bm1"
      using pos i by (simp add: bitmap_set_null_def)
    note len = bitmap_set_null_length [OF bm1]
    obtain bm' where bm': "set_nulls t (Suc i) nulls bm1 = Some bm'" "length bm' = length bm1"
      and nl: "\<forall>j < nb_num_fields t. bitmap_is_null t bm' j =
       (if Suc i \<le> j \<and> j < Suc i + length nulls \<and> nulls ! (j - Suc i) then Some True else bitmap_is_null t bm1 j)"
      using Cons.IH [of "Suc i" bm1] Cons.prems len by auto
    have "bitmap_is_null t bm' j =
       (if i \<le> j \<and> j < i + length (null # nulls) \<and> (null # nulls) ! (j - i) then Some True else bitmap_is_null t bm j)"
      if j: "j < nb_num_fields t" for j
      using nl [rule_format, OF j] bitmap_set_null_is_null [OF bm1 pos [OF j]] True
        nth_Cons_shift [of i j null nulls]
      by (cases "j = i") auto
    then show ?thesis using True bm1 bm' len by auto
  qed
qed auto

text \<open>Bytes after the bitmap are not touched.\<close>

lemma set_nulls_append:
  assumes "i + length nulls \<le> nb_num_fields t" and "byte_count t \<le> length bm"
  shows "set_nulls t i nulls (bm @ rest) = map_option (\<lambda>bm'. bm' @ rest) (set_nulls t i nulls bm)"
  using assms
proof (induction nulls arbitrary: i bm)
  case (Cons null nulls)
  have "i < nb_num_fields t" "byte_pos t i < length bm" using byte_pos_lt [of i t] Cons.prems by simp_all
  then have "bitmap_set_null t (bm @ rest) i = map_option (\<lambda>bm'. bm' @ rest) (bitmap_set_null t bm i)"
    by (simp add: bitmap_set_null_def nth_append list_update_append)
  then show ?case
    using Cons.IH [of "Suc i"] Cons.prems
    by (auto dest: bitmap_set_null_length split: option.split)
qed simp

definition null_bitmap_bytes :: "null_bitmap_traits \<Rightarrow> bool list \<Rightarrow> bytes" where
  "null_bitmap_bytes t nulls = the (set_nulls t 0 nulls (replicate (byte_count t) 0))"

lemma null_bitmap_bytes:
  assumes "length nulls = nb_num_fields t"
  shows "set_nulls t 0 nulls (replicate (byte_count t) 0) = Some (null_bitmap_bytes t nulls)"
    and "length (null_bitmap_bytes t nulls) = byte_count t"
    and "j < length nulls \<Longrightarrow> bitmap_is_null t (null_bitmap_bytes t nulls) j = Some (nulls ! j)"
proof -
  obtain bm where bm: "set_nulls t 0 nulls (replicate (byte_count t) 0) = Some bm" "length bm = byte_count t"
    and nl: "\<forall>j < nb_num_fields t. bitmap_is_null t bm j =
       (if j < length nulls \<and> nulls ! j then Some True else bitmap_is_null t (replicate (byte_count t) 0) j)"
    using set_nulls_spec [of 0 nulls t "replicate (byte_count t) 0"] assms by auto
  then show "set_nulls t 0 nulls (replicate (byte_count t) 0) = Some (null_bitmap_bytes t nulls)"
    "length (null_bitmap_bytes t nulls) = byte_count t" by (simp_all add: null_bitmap_bytes_def)
  show "bitmap_is_null t (null_bitmap_bytes t nulls) j = Some (nulls ! j)" if "j < length nulls"
    using bm nl that assms byte_pos_lt [of j t] bitmap_is_null_zeros [of j t "byte_count t"]
    by (cases "nulls ! j") (auto simp: null_bitmap_bytes_def)
qed

section \<open>Properties\<close>

text \<open>
  C38: marking the NULL fields of any list, at any bit offset, stays inside the bytes
  \<open>byte_count\<close> asks for, and reading the bitmap back gives exactly the fields marked.
\<close>
theorem null_bitmap_roundtrip:
  assumes "length nulls = nb_num_fields t"
  shows "\<exists>bm. set_nulls t 0 nulls (replicate (byte_count t) 0) = Some bm \<and>
    length bm = byte_count t \<and> (\<forall>j < length nulls. bitmap_is_null t bm j = Some (nulls ! j))"
  using null_bitmap_bytes [OF assms] by blast

lemma null_bitmap_roundtrip_witness:
  "\<exists>bm. set_nulls (null_bitmap_of 2 7) 0 [True, False, False, False, False, False, True] [0, 0] = Some bm \<and>
     bitmap_is_null (null_bitmap_of 2 7) bm 6 = Some True"
proof -
  have "replicate (byte_count (null_bitmap_of 2 7)) (0 :: u8) = [0, 0]" by (simp add: byte_count_def numeral_2_eq_2)
  then show ?thesis
    using null_bitmap_roundtrip [of "[True, False, False, False, False, False, True]" "null_bitmap_of 2 7"] by auto
qed

end
