(* ===== verification/Binary_Deserialization.thy ===== *)
theory Binary_Deserialization
  imports Binary_Serialization Null_Bitmap
begin

text \<open>
  The binary protocol (\<open>binary_deserialization.ipp\<close>): values of each kind of column, and rows:
  a header byte, the NULL bitmap, the values that are not NULL.
\<close>

section \<open>Integers and floating point numbers\<close>

text \<open>
  A column's bytes are read at its width, signed or unsigned, and widened to 64 bits.
\<close>

definition deserialize_binary_unsigned :: "fixed_int \<Rightarrow> 'a::len itself \<Rightarrow> mysql_value deser" where
  "deserialize_binary_unsigned t ty ctx =
     (case deserialize_fixed_int t ctx of
        Inl err \<Rightarrow> Inl err | Inr (v :: 'a word, ctx1) \<Rightarrow> Inr (V_uint64 (ucast v), ctx1))"

definition deserialize_binary_signed :: "fixed_int \<Rightarrow> 'a::len itself \<Rightarrow> mysql_value deser" where
  "deserialize_binary_signed t ty ctx =
     (case deserialize_fixed_int t ctx of
        Inl err \<Rightarrow> Inl err | Inr (v :: 'a word, ctx1) \<Rightarrow> Inr (V_int64 (scast v), ctx1))"

definition deserialize_binary_value_int ::
    "fixed_int \<Rightarrow> fixed_int \<Rightarrow> 'a::len itself \<Rightarrow> field_metadata \<Rightarrow> mysql_value deser" where
  "deserialize_binary_value_int tu ts ty meta ctx =
     (if fm_is_unsigned meta then deserialize_binary_unsigned tu ty ctx
      else deserialize_binary_signed ts ty ctx)"

definition deserialize_binary_value_string :: "mysql_value deser" where
  "deserialize_binary_value_string ctx =
     (case deserialize_string_lenenc ctx of Inl err \<Rightarrow> Inl err | Inr (s, ctx1) \<Rightarrow> Inr (V_string s, ctx1))"

definition deserialize_binary_value_float :: "mysql_value deser" where
  "deserialize_binary_value_float ctx =
     (if \<not> enough_size ctx 4 then Inl incomplete_message
      else let v = le_word (take 4 (remaining ctx))
           in if float_isnan v \<or> float_isinf v then Inl protocol_value_error
              else Inr (V_float v, ctx_advance 4 ctx))"

definition deserialize_binary_value_double :: "mysql_value deser" where
  "deserialize_binary_value_double ctx =
     (if \<not> enough_size ctx 8 then Inl incomplete_message
      else let v = le_word (take 8 (remaining ctx))
           in if double_isnan v \<or> double_isinf v then Inl protocol_value_error
              else Inr (V_double v, ctx_advance 8 ctx))"

section \<open>Dates and times\<close>

definition deserialize_binary_ymd :: "(int \<times> int \<times> int) deser" where
  "deserialize_binary_ymd ctx =
     (case deserialize_cons (deserialize_fixed_int int2) (deserialize_cons (deserialize_fixed_int int1)
             (deserialize_cons (deserialize_fixed_int int1) deserialize_nil)) ctx of
        Inl err \<Rightarrow> Inl err
      | Inr ((year :: u16, month :: u8, day :: u8, _), ctx1) \<Rightarrow>
          if unat year > max_year \<or> unat month > max_month \<or> unat day > max_day
          then Inl protocol_value_error
          else Inr ((uint year, uint month, uint day), ctx1))"

definition deserialize_binary_value_date :: "date_lib \<Rightarrow> mysql_value deser" where
  "deserialize_binary_value_date D ctx =
     (case deserialize_fixed_int int1 ctx of
        Inl err \<Rightarrow> Inl err
      | Inr (len :: u8, ctx1) \<Rightarrow>
          if unat len < binc_date_sz then Inr (V_null, ctx1)
          else
            (case deserialize_binary_ymd ctx1 of
               Inl err \<Rightarrow> Inl err
             | Inr ((y, m, d), ctx2) \<Rightarrow>
                 if \<not> ymd_ok D y m d then Inr (V_null, ctx2)
                 else if is_out_of_range D (sys_days D y m d) then Inl protocol_value_error
                 else Inr (V_date (sys_days D y m d), ctx2)))"

text \<open>Reading a part of the fields only when the length byte announces them; zero otherwise.\<close>

definition deserialize_if :: "bool \<Rightarrow> 'a \<Rightarrow> 'a deser \<Rightarrow> 'a deser" where
  "deserialize_if present dflt d ctx = (if present then d ctx else Inr (dflt, ctx))"

definition deserialize_hms :: "(u8 \<times> u8 \<times> u8 \<times> unit) deser" where
  "deserialize_hms = deserialize_cons (deserialize_fixed_int int1) (deserialize_cons (deserialize_fixed_int int1)
     (deserialize_cons (deserialize_fixed_int int1) deserialize_nil))"

definition deserialize_binary_value_datetime :: "date_lib \<Rightarrow> mysql_value deser" where
  "deserialize_binary_value_datetime D ctx =
     (case deserialize_fixed_int int1 ctx of
        Inl err \<Rightarrow> Inl err
      | Inr (len :: u8, ctx1) \<Rightarrow>
          (case deserialize_if (unat len \<ge> binc_datetime_d_sz) (0, 0, 0) deserialize_binary_ymd ctx1 of
             Inl err \<Rightarrow> Inl err
           | Inr ((y, m, d), ctx2) \<Rightarrow>
               (case deserialize_if (unat len \<ge> binc_datetime_dhms_sz) (0, 0, 0, ()) deserialize_hms ctx2 of
                  Inl err \<Rightarrow> Inl err
                | Inr ((hours, minutes, seconds, _), ctx3) \<Rightarrow>
                    (case deserialize_if (unat len \<ge> binc_datetime_dhmsu_sz) 0 (deserialize_fixed_int int4) ctx3 of
                       Inl err \<Rightarrow> Inl err
                     | Inr (micros :: u32, ctx4) \<Rightarrow>
                         if unat hours > max_hour \<or> unat minutes > max_min \<or> unat seconds > max_sec \<or>
                            unat micros > max_micro
                         then Inl protocol_value_error
                         else if \<not> ymd_ok D y m d then Inr (V_null, ctx4)
                         else if is_out_of_range D (sys_days D y m d) then Inl protocol_value_error
                         else Inr (V_datetime (sys_days D y m d * micros_per_day
                                + hms_micros (uint hours) (uint minutes) (uint seconds) (uint micros)), ctx4)))))"

definition deserialize_sign_days_hms :: "(u8 \<times> u32 \<times> u8 \<times> u8 \<times> u8 \<times> unit) deser" where
  "deserialize_sign_days_hms =
     deserialize_cons (deserialize_fixed_int int1) (deserialize_cons (deserialize_fixed_int int4) deserialize_hms)"

definition deserialize_binary_value_time :: "mysql_value deser" where
  "deserialize_binary_value_time ctx =
     (case deserialize_fixed_int int1 ctx of
        Inl err \<Rightarrow> Inl err
      | Inr (len :: u8, ctx1) \<Rightarrow>
          (case deserialize_if (unat len \<ge> binc_time_dhms_sz) (0, 0, 0, 0, 0, ()) deserialize_sign_days_hms ctx1 of
             Inl err \<Rightarrow> Inl err
           | Inr ((is_negative, days, hours, minutes, seconds, _), ctx2) \<Rightarrow>
               (case deserialize_if (unat len \<ge> binc_time_dhmsu_sz) 0 (deserialize_fixed_int int4) ctx2 of
                  Inl err \<Rightarrow> Inl err
                | Inr (microseconds :: u32, ctx3) \<Rightarrow>
                    if unat days > binc_time_max_days \<or> unat hours > max_hour \<or> unat minutes > max_min \<or>
                       unat seconds > max_sec \<or> unat microseconds > max_micro
                    then Inl protocol_value_error
                    else Inr (V_time ((if is_negative \<noteq> 0 then -1 else 1) *
                           (uint days * micros_per_day
                            + hms_micros (uint hours) (uint minutes) (uint seconds) (uint microseconds))), ctx3))))"

section \<open>Values and rows\<close>

definition deserialize_binary_value :: "date_lib \<Rightarrow> field_metadata \<Rightarrow> mysql_value deser" where
  "deserialize_binary_value D meta ctx =
     (case fm_protocol_type meta of
        pft_tiny \<Rightarrow> deserialize_binary_value_int int1 int1_signed TYPE(8) meta ctx
      | pft_short \<Rightarrow> deserialize_binary_value_int int2 int2_signed TYPE(16) meta ctx
      | pft_year \<Rightarrow> deserialize_binary_value_int int2 int2_signed TYPE(16) meta ctx
      | pft_int24 \<Rightarrow> deserialize_binary_value_int int4 int4_signed TYPE(32) meta ctx
      | pft_long \<Rightarrow> deserialize_binary_value_int int4 int4_signed TYPE(32) meta ctx
      | pft_longlong \<Rightarrow> deserialize_binary_value_int int8 int8_signed TYPE(64) meta ctx
      | pft_float \<Rightarrow> deserialize_binary_value_float ctx
      | pft_double \<Rightarrow> deserialize_binary_value_double ctx
      | pft_timestamp \<Rightarrow> deserialize_binary_value_datetime D ctx
      | pft_datetime \<Rightarrow> deserialize_binary_value_datetime D ctx
      | pft_date \<Rightarrow> deserialize_binary_value_date D ctx
      | pft_time \<Rightarrow> deserialize_binary_value_time ctx
      | _ \<Rightarrow> deserialize_binary_value_string ctx)"

text \<open>
  The loop over the columns; \<open>i\<close> is the index of the first of them. Reading a bit outside the
  bitmap, or of a field it does not have, is \<open>None\<close>.
\<close>

fun deserialize_binary_fields ::
    "date_lib \<Rightarrow> null_bitmap_traits \<Rightarrow> bytes \<Rightarrow> nat \<Rightarrow> field_metadata list \<Rightarrow> deserialization_context
     \<Rightarrow> (errc + (mysql_value list \<times> deserialization_context)) option" where
  "deserialize_binary_fields D nb bm i [] ctx = Some (Inr ([], ctx))"
| "deserialize_binary_fields D nb bm i (meta # metas) ctx =
     (case bitmap_is_null nb bm i of
        None \<Rightarrow> None
      | Some null \<Rightarrow>
          (case (if null then Inr (V_null, ctx) else deserialize_binary_value D meta ctx) of
             Inl err \<Rightarrow> Some (Inl err)
           | Inr (v, ctx1) \<Rightarrow>
               (case deserialize_binary_fields D nb bm (Suc i) metas ctx1 of
                  None \<Rightarrow> None
                | Some (Inl err) \<Rightarrow> Some (Inl err)
                | Some (Inr (vs, ctx2)) \<Rightarrow> Some (Inr (v # vs, ctx2)))))"

text \<open>
  The header byte is skipped without a check, which the code asserts; skipping past the end of
  the buffer is \<open>None\<close>.
\<close>

definition deserialize_binary_row ::
    "date_lib \<Rightarrow> deserialization_context \<Rightarrow> field_metadata list \<Rightarrow> (error_code + mysql_value list) option" where
  "deserialize_binary_row D ctx meta =
     (if \<not> enough_size ctx 1 then None
      else
        let ctx1 = ctx_advance 1 ctx;
            null_bitmap = null_bitmap_of binary_row_null_bitmap_offset (length meta);
            null_bitmap_begin = take (byte_count null_bitmap) (remaining ctx1)
        in if \<not> enough_size ctx1 (byte_count null_bitmap)
           then Some (Inl (make_error_code incomplete_message))
           else
             (case deserialize_binary_fields D null_bitmap null_bitmap_begin 0 meta
                     (ctx_advance (byte_count null_bitmap) ctx1) of
                None \<Rightarrow> None
              | Some (Inl err) \<Rightarrow> Some (Inl (make_error_code err))
              | Some (Inr (vs, ctx2)) \<Rightarrow>
                  Some (if ctx_empty ctx2 then Inr vs else Inl (make_error_code extra_bytes))))"

section \<open>Readers stay in the buffer\<close>

lemma reader_if: "reader d \<Longrightarrow> reader (deserialize_if p x d)"
  by unfold_locales (auto simp: deserialize_if_def reader_def split: if_splits)

lemma reader_hms: "reader deserialize_hms" "reader deserialize_sign_days_hms"
  unfolding deserialize_sign_days_hms_def deserialize_hms_def by (intro reader_intros)+

interpretation binary_ymd: reader deserialize_binary_ymd
proof
  fix ctx x ctx1
  assume *: "deserialize_binary_ymd ctx = Inr (x, ctx1)"
  have "reader (deserialize_cons (deserialize_fixed_int int2 :: u16 deser) (deserialize_cons (deserialize_fixed_int int1 :: u8 deser)
             (deserialize_cons (deserialize_fixed_int int1 :: u8 deser) deserialize_nil)))"
    by (intro reader_intros)
  with * show "ctx_step ctx ctx1"
    by (auto simp: deserialize_binary_ymd_def split: sum.splits if_splits dest!: reader.deser_step)
qed

lemmas binary_steps =
  fixed_int.deser_step string_lenenc.deser_step binary_ymd.deser_step
  reader.deser_step [OF reader_if [OF binary_ymd.reader_axioms]]
  reader.deser_step [OF reader_if [OF reader_hms(1)]] reader.deser_step [OF reader_if [OF reader_hms(2)]]
  reader.deser_step [OF reader_if [OF fixed_int.reader_axioms]]

lemma binary_date_step: "deserialize_binary_value_date D ctx = Inr (v, ctx1) \<Longrightarrow> ctx_step ctx ctx1"
  by (auto simp: deserialize_binary_value_date_def split: sum.splits if_splits dest!: binary_steps)
    (blast intro: ctx_step_trans)+

lemma binary_datetime_step: "deserialize_binary_value_datetime D ctx = Inr (v, ctx1) \<Longrightarrow> ctx_step ctx ctx1"
  by (auto simp: deserialize_binary_value_datetime_def split: sum.splits if_splits dest!: binary_steps)
    (blast intro: ctx_step_trans)+

lemma binary_time_step: "deserialize_binary_value_time ctx = Inr (v, ctx1) \<Longrightarrow> ctx_step ctx ctx1"
  by (auto simp: deserialize_binary_value_time_def split: sum.splits if_splits dest!: binary_steps)
    (blast intro: ctx_step_trans)+

lemmas binary_number_defs =
  deserialize_binary_value_int_def deserialize_binary_unsigned_def deserialize_binary_signed_def
  deserialize_binary_value_string_def deserialize_binary_value_float_def deserialize_binary_value_double_def

interpretation binary_value: reader "deserialize_binary_value D meta" for D meta
proof (unfold_locales, goal_cases)
  case (1 ctx x ctx1)
  then show ?case
    by (cases "fm_protocol_type meta")
      (auto simp: deserialize_binary_value_def binary_number_defs ctx_simps Let_def split: sum.splits if_splits
        dest!: fixed_int.deser_step string_lenenc.deser_step binary_date_step binary_datetime_step binary_time_step)
qed

text \<open>The bitmap has a bit for every column, so the loop never reads outside it.\<close>

lemma deserialize_binary_fields_total:
  assumes "length bm = byte_count nb" and "i + length metas \<le> nb_num_fields nb"
  shows "deserialize_binary_fields D nb bm i metas ctx \<noteq> None"
  using assms(2)
proof (induction metas arbitrary: i ctx)
  case (Cons meta metas)
  then have "i < nb_num_fields nb" "byte_pos nb i < length bm" using byte_pos_lt [of i nb] assms(1) by simp_all
  moreover have "\<forall>c. \<exists>r. deserialize_binary_fields D nb bm (Suc i) metas c = Some r"
    using Cons by simp
  then obtain f where "\<And>c. deserialize_binary_fields D nb bm (Suc i) metas c = Some (f c)" by metis
  ultimately show ?case
    by (simp add: bitmap_is_null_bit split: sum.split)
qed simp

lemma deserialize_binary_fields_step:
  "deserialize_binary_fields D nb bm i metas ctx = Some (Inr (vs, ctx1)) \<Longrightarrow>
   ctx_step ctx ctx1 \<and> length vs = length metas"
proof (induction metas arbitrary: i ctx vs)
  case (Cons meta metas)
  from Cons.prems show ?case
    by (auto split: option.splits sum.splits if_splits dest!: Cons.IH binary_value.deser_step intro: ctx_step_trans)
qed simp

section \<open>Values are values of their column\<close>

text \<open>
  As for the text protocol, with one exception: a TIME column accepts 34 days and any time of
  day, which goes beyond \<open>max_time\<close> by less than an hour.
\<close>

definition binary_value_ok :: "date_lib \<Rightarrow> field_metadata \<Rightarrow> mysql_value \<Rightarrow> bool" where
  "binary_value_ok D meta v \<longleftrightarrow>
     column_value_ok D meta v \<or>
     (fm_protocol_type meta = pft_time \<and> (\<exists>t. v = V_time t \<and> \<bar>t\<bar> < max_time + 3600000000))"

lemma binary_date_ok:
  "deserialize_binary_value_date D ctx = Inr (v, ctx1) \<Longrightarrow> date_time_in_range D v \<and> (v = V_null \<or> (\<exists>d. v = V_date d))"
  by (auto simp: deserialize_binary_value_date_def date_time_in_range_def not_out_of_range split: sum.splits if_splits)

lemma binary_datetime_ok:
  "deserialize_binary_value_datetime D ctx = Inr (v, ctx1) \<Longrightarrow>
   date_time_in_range D v \<and> (v = V_null \<or> (\<exists>t. v = V_datetime t))"
  by (auto simp: deserialize_binary_value_datetime_def not_less date_time_in_range_def [of D V_null]
      intro!: datetime_in_range_intro simp del: micros_per_day_def split: sum.splits if_splits)

lemma binary_time_bound:
  assumes "unat (d :: u32) \<le> 34" and "unat (h :: u8) \<le> 23" and "unat (m :: u8) \<le> 59"
    and "unat (s :: u8) \<le> 59" and "unat (u :: u32) \<le> 999999"
  shows "\<bar>uint d * micros_per_day + hms_micros (uint h) (uint m) (uint s) (uint u)\<bar> < max_time + 3600000000"
    and "\<bar>- (uint d * micros_per_day) - hms_micros (uint h) (uint m) (uint s) (uint u)\<bar> < max_time + 3600000000"
proof -
  have "uint d \<le> 34" using uint_le_nat [OF assms(1)] by simp
  then have "uint d * 86400000000 \<le> 34 * 86400000000" "0 \<le> uint d * 86400000000" by simp_all
  then show *: "\<bar>uint d * micros_per_day + hms_micros (uint h) (uint m) (uint s) (uint u)\<bar> < max_time + 3600000000"
    using hms_words_bounds [OF assms(2-)] by (simp add: max_time_def)
  have "\<bar>- x - y\<bar> = \<bar>x + y\<bar>" for x y :: int by linarith
  then show "\<bar>- (uint d * micros_per_day) - hms_micros (uint h) (uint m) (uint s) (uint u)\<bar> < max_time + 3600000000"
    using * by simp
qed

lemma binary_time_ok:
  "deserialize_binary_value_time ctx = Inr (v, ctx1) \<Longrightarrow> \<exists>t. v = V_time t \<and> \<bar>t\<bar> < max_time + 3600000000"
  by (auto simp: deserialize_binary_value_time_def not_less simp del: micros_per_day_def
      intro!: binary_time_bound split: sum.splits if_splits)

lemma binary_value_ok_intro:
  assumes "deserialize_binary_value D meta ctx = Inr (v, ctx1)"
  shows "binary_value_ok D meta v"
proof (cases "fm_protocol_type meta \<in> {pft_date, pft_timestamp, pft_datetime, pft_time}")
  case True
  then show ?thesis
    using assms binary_date_ok [of D ctx v ctx1] binary_datetime_ok [of D ctx v ctx1]
      binary_time_ok [of ctx v ctx1]
    by (auto simp: deserialize_binary_value_def binary_value_ok_def column_value_ok_def)
next
  case False
  then have "column_value_ok D meta v"
    using assms
    by (cases "fm_protocol_type meta")
      (auto simp: deserialize_binary_value_def column_value_ok_def date_time_in_range_def integer_types_def
        special_types_def binary_number_defs Let_def split: sum.splits if_splits)
  then show ?thesis by (simp add: binary_value_ok_def)
qed

lemma deserialize_binary_fields_ok:
  "deserialize_binary_fields D nb bm i metas ctx = Some (Inr (vs, ctx1)) \<Longrightarrow>
   list_all2 (binary_value_ok D) metas vs"
proof (induction metas arbitrary: i ctx vs)
  case (Cons meta metas)
  from Cons.prems show ?case
    by (auto split: option.splits sum.splits if_splits dest!: Cons.IH binary_value_ok_intro
        simp: binary_value_ok_def)
qed simp

section \<open>Reading what was serialized\<close>

text \<open>
  How the server sends the values of a column: an integer in as many bytes as the protocol gives
  the type of the column (one for TINYINT, two for SMALLINT and YEAR, four for MEDIUMINT and INT,
  eight for BIGINT), in two's complement when it is signed; everything else as a parameter.
\<close>

definition binary_int_size :: "protocol_field_type \<Rightarrow> nat" where
  "binary_int_size t =
     (if t = pft_tiny then 1
      else if t = pft_short \<or> t = pft_year then 2
      else if t = pft_int24 \<or> t = pft_long then 4
      else 8)"

definition enc_binary_cell :: "date_lib \<Rightarrow> capabilities \<Rightarrow> field_metadata \<Rightarrow> mysql_value \<Rightarrow> bytes" where
  "enc_binary_cell D caps meta v =
     (case v of
        V_int64 w \<Rightarrow> le_bytes (binary_int_size (fm_protocol_type meta)) w
      | V_uint64 w \<Rightarrow> le_bytes (binary_int_size (fm_protocol_type meta)) w
      | _ \<Rightarrow> enc_binary_value D caps v)"

text \<open>
  The non-NULL values of a column: of its alternative, integers that fit the column's bytes,
  dates, datetimes and times in their documented ranges, finite floating point numbers.
\<close>

definition binary_int_fits :: "protocol_field_type \<Rightarrow> mysql_value \<Rightarrow> bool" where
  "binary_int_fits t v =
     (let n = 8 * binary_int_size t
      in case v of
           V_int64 w \<Rightarrow> - (2 ^ (n - 1)) \<le> sint w \<and> sint w < 2 ^ (n - 1)
         | V_uint64 w \<Rightarrow> uint w < 2 ^ n
         | _ \<Rightarrow> True)"

definition binary_sendable :: "date_lib \<Rightarrow> field_metadata \<Rightarrow> mysql_value \<Rightarrow> bool" where
  "binary_sendable D meta v \<longleftrightarrow>
     v \<noteq> V_null \<and> column_value_ok D meta v \<and> binary_int_fits (fm_protocol_type meta) v \<and>
     (case v of V_string s \<Rightarrow> in_memory s | _ \<Rightarrow> True)"

lemma deserialize_hms_read:
  "remaining ctx = h # m # s # rest \<Longrightarrow> deserialize_hms ctx = Inr ((h, m, s, ()), ctx_advance 3 ctx)"
  by (simp add: deserialize_hms_def deserialize_cons_def deserialize_nil_def deserialize_int1_Cons)

lemma deserialize_le_bytes_read:
  "remaining ctx = le_bytes (get_int_size t) (v :: 'a::len word) @ rest \<Longrightarrow> LENGTH('a) \<le> 8 * get_int_size t \<Longrightarrow>
   deserialize_fixed_int t ctx = Inr (v, ctx_advance (get_int_size t) ctx)"
  using fixed_int.deser_enc [of t v ctx rest] by (simp add: enc_fixed_int_def)

lemma deserialize_sign_days_hms_read:
  assumes "remaining ctx = n # le_bytes 4 (d :: u32) @ h # m # s # rest"
  shows "deserialize_sign_days_hms ctx = Inr ((n, d, h, m, s, ()), ctx_advance 8 ctx)"
  using assms deserialize_le_bytes_read [of "ctx_advance 1 ctx" int4 d "h # m # s # rest"]
    deserialize_hms_read [of "ctx_advance 5 ctx" h m s rest]
  by (simp add: deserialize_sign_days_hms_def deserialize_cons_def deserialize_int1_Cons)

lemma word_of_int_small:
  "0 \<le> n \<Longrightarrow> n < 256 \<Longrightarrow> uint (word_of_int n :: u8) = n" "0 \<le> n \<Longrightarrow> n < 65536 \<Longrightarrow> uint (word_of_int n :: u16) = n"
  "0 \<le> n \<Longrightarrow> n < 4294967296 \<Longrightarrow> uint (word_of_int n :: u32) = n"
  by (simp_all add: uint_word_of_int_eq take_bit_int_eq_self)

lemma unat_le_uint: "unat (w :: 'a::len word) \<le> n \<longleftrightarrow> uint w \<le> int n" "n < unat w \<longleftrightarrow> int n < uint w"
  by (simp_all only: uint_nat of_nat_le_iff of_nat_less_iff)

lemma deserialize_binary_ymd_read:
  assumes "remaining ctx = enc_binary_ymd (y, m, d) @ rest"
    and "0 \<le> y" "y \<le> 9999" and "1 \<le> m" "m \<le> 12" and "1 \<le> d" "d \<le> 31"
  shows "deserialize_binary_ymd ctx = Inr ((y, m, d), ctx_advance 4 ctx)"
proof -
  have "deserialize_fixed_int int2 ctx = Inr (word_of_int y :: u16, ctx_advance 2 ctx)"
    using assms(1) deserialize_le_bytes_read [of ctx int2 "word_of_int y :: u16"]
    by (simp add: enc_binary_ymd_def)
  then show ?thesis
    using assms
    by (simp add: deserialize_binary_ymd_def enc_binary_ymd_def deserialize_cons_def deserialize_nil_def
        deserialize_int1_Cons unat_le_uint word_of_int_small)
qed

lemma binary_date_read:
  assumes "date_library D" and "min_date D \<le> n" "n \<le> max_date D"
    and "remaining ctx = 4 # enc_binary_ymd (civil_of_days D n) @ rest"
  shows "deserialize_binary_value_date D ctx = Inr (V_date n, ctx_advance 5 ctx)"
proof -
  obtain y m d where c: "civil_of_days D n = (y, m, d)" "ymd_ok D y m d" "sys_days D y m d = n"
      and b: "0 \<le> y" "y \<le> 9999" "1 \<le> m" "m \<le> 12" "1 \<le> d" "d \<le> 31"
    by (rule date_library.civil_in_range [OF assms(1-3)])
  have "deserialize_binary_ymd (ctx_advance 1 ctx) = Inr ((y, m, d), ctx_advance 5 ctx)"
    using deserialize_binary_ymd_read [of "ctx_advance 1 ctx" y m d rest, OF _ b] assms(4) c(1) by simp
  then show ?thesis
    using assms c by (simp add: deserialize_binary_value_date_def deserialize_int1_Cons is_out_of_range_def)
qed

lemma binary_datetime_read:
  assumes "date_library D" and "min_datetime D \<le> t" "t \<le> max_datetime D"
    and "remaining ctx = enc_binary_value D caps (V_datetime t) @ rest"
  shows "deserialize_binary_value_datetime D ctx = Inr (V_datetime t, ctx_advance 12 ctx)"
proof -
  let ?n = "floor_days D t"
  let ?r = "t - ?n * micros_per_day"
  note L = date_library.datetime_in_range [OF assms(1-3)]
  obtain y m d where c: "civil_of_days D ?n = (y, m, d)" "ymd_ok D y m d" "sys_days D y m d = ?n"
      and b: "0 \<le> y" "y \<le> 9999" "1 \<le> m" "m \<le> 12" "1 \<le> d" "d \<le> 31"
    by (rule date_library.civil_in_range [OF assms(1) L(1,2)])
  define a where "a = nat ?r"
  have r: "?r = int a" "a < 86400000000" using L(3,4) by (simp_all add: a_def)
  let ?h = "a div 3600000000" and ?m = "a mod 3600000000 div 60000000" and ?s = "a mod 60000000 div 1000000"
    and ?u = "a mod 1000000"
  have hb: "?h < 24" using r(2) by (simp add: div_less_iff_less_mult)
  note mb = hms_parts_bounds [of a]
  have tod: "tod_fields D ?r = (int ?h, int ?m, int ?s, int ?u)"
    using date_library.tod_fields [OF assms(1), of ?r] r unfolding tod_parts [symmetric] by simp
  have e: "remaining ctx = 11 # enc_binary_ymd (y, m, d) @ word_of_int (int ?h) # word_of_int (int ?m) #
      word_of_int (int ?s) # le_bytes 4 (word_of_int (int ?u) :: u32) @ rest"
    using assms(4) c(1) tod by (simp add: enc_binary_value_def del: of_int_of_nat_eq)
  have 1: "deserialize_binary_ymd (ctx_advance 1 ctx) = Inr ((y, m, d), ctx_advance 5 ctx)"
    using deserialize_binary_ymd_read [of "ctx_advance 1 ctx" y m d, OF _ b] e by simp
  have r5: "remaining (ctx_advance 5 ctx) = word_of_int (int ?h) # word_of_int (int ?m) #
      word_of_int (int ?s) # le_bytes 4 (word_of_int (int ?u) :: u32) @ rest"
    using e by (simp add: enc_binary_ymd_def del: of_int_of_nat_eq)
  note 2 = deserialize_hms_read [OF r5]
  have 3: "deserialize_fixed_int int4 (ctx_advance 8 ctx) = Inr (word_of_int (int ?u) :: u32, ctx_advance 12 ctx)"
    using arg_cong [OF r5, of "drop 3"] deserialize_le_bytes_read [of "ctx_advance 8 ctx" int4 "word_of_int (int ?u) :: u32" rest]
    by (simp del: of_int_of_nat_eq)
  have 0: "deserialize_fixed_int int1 ctx = Inr (11 :: u8, ctx_advance 1 ctx)"
    using e by (simp add: deserialize_int1_Cons)
  have u: "uint (word_of_int (int k) :: u8) = int k" if "k < 256" for k
    using that by (simp add: word_of_int_small del: of_int_of_nat_eq)
  have u4: "uint (word_of_int (int k) :: u32) = int k" if "k < 1000000" for k
    using that by (simp add: word_of_int_small del: of_int_of_nat_eq)
  have nu: "\<not> 999999 < ?u" using mb(3) by linarith
  have "hms_micros (int ?h) (int ?m) (int ?s) (int ?u) = ?r" using hms_parts [of a] r by simp
  then show ?thesis
    using hb mb c(2,3) L
    by (simp add: deserialize_binary_value_datetime_def 0 1 [unfolded One_nat_def] 2 3 deserialize_if_def unat_le_uint u u4 nu is_out_of_range_def
        del: of_int_of_nat_eq micros_per_day_def)
qed

lemma binary_time_parts:
  fixes a :: nat
  shows "int (a div 86400000000) * micros_per_day
    + hms_micros (int (a mod 86400000000 div 3600000000)) (int (a mod 3600000000 div 60000000))
        (int (a mod 60000000 div 1000000)) (int (a mod 1000000)) = int a"
proof -
  define b where "b = a mod 86400000000"
  have m: "b mod 3600000000 = a mod 3600000000" "b mod 60000000 = a mod 60000000" "b mod 1000000 = a mod 1000000"
    by (simp_all add: b_def mod_mod_cancel)
  have "hms_micros (int (b div 3600000000)) (int (a mod 3600000000 div 60000000))
      (int (a mod 60000000 div 1000000)) (int (a mod 1000000)) = int b"
    using hms_parts [of b] unfolding m .
  moreover have "a = a div 86400000000 * 86400000000 + b" by (simp add: b_def)
  then have "int (a div 86400000000) * 86400000000 + int b = int a" by linarith
  ultimately show ?thesis unfolding b_def by simp
qed

lemma binary_time_read:
  assumes "a div 86400000000 \<le> 34" and "remaining ctx = enc_binary_time neg a @ rest"
  shows "deserialize_binary_value_time ctx = Inr (V_time (if neg then - int a else int a), ctx_advance 13 ctx)"
proof -
  let ?d = "a div 86400000000" and ?h = "a mod 86400000000 div 3600000000" and ?m = "a mod 3600000000 div 60000000"
    and ?s = "a mod 60000000 div 1000000" and ?u = "a mod 1000000"
  have hb: "?h < 24" by (rule mod_div_less; simp)
  note mb = hms_parts_bounds [of a]
  have nu: "\<not> 999999 < ?u" using mb(3) by linarith
  have e: "remaining ctx = 12 # (if neg then 1 else 0) # le_bytes 4 (of_nat ?d :: u32) @ of_nat ?h # of_nat ?m #
      of_nat ?s # le_bytes 4 (of_nat ?u :: u32) @ rest"
    using assms(2) by (simp add: enc_binary_time_def)
  have 0: "deserialize_fixed_int int1 ctx = Inr (12 :: u8, ctx_advance 1 ctx)"
    using e by (simp add: deserialize_int1_Cons)
  have r1: "remaining (ctx_advance 1 ctx) = (if neg then 1 else 0) # le_bytes 4 (of_nat ?d :: u32) @ of_nat ?h #
      of_nat ?m # of_nat ?s # le_bytes 4 (of_nat ?u :: u32) @ rest"
    using e by simp
  note 1 = deserialize_sign_days_hms_read [OF r1]
  have "remaining (ctx_advance 9 ctx) = le_bytes 4 (of_nat ?u :: u32) @ rest"
    using arg_cong [OF e, of "drop 9"] by simp
  then have 2: "deserialize_fixed_int int4 (ctx_advance 9 ctx) = Inr (of_nat ?u :: u32, ctx_advance 13 ctx)"
    using deserialize_le_bytes_read [of "ctx_advance 9 ctx" int4 "of_nat ?u :: u32" rest] by simp
  have u: "uint (of_nat k :: u8) = int k" if "k < 256" for k
    using that word_of_int_small(1) [of "int k"] by simp
  have u4: "uint (of_nat k :: u32) = int k" if "k < 1000000" for k
    using that word_of_int_small(3) [of "int k"] by simp
  show ?thesis
    using hb mb assms(1) binary_time_parts [of a]
    by (auto simp: deserialize_binary_value_time_def 0 1 [unfolded One_nat_def] 2 deserialize_if_def unat_le_uint
        u u4 nu simp del: micros_per_day_def)
qed

lemma column_time_days: "\<bar>t\<bar> \<le> max_time \<Longrightarrow> nat \<bar>t\<bar> div 86400000000 \<le> 34"
proof -
  assume "\<bar>t\<bar> \<le> max_time"
  then have "nat \<bar>t\<bar> < 35 * 86400000000" by (simp add: max_time_def)
  then have "nat \<bar>t\<bar> div 86400000000 < 35" by (rule less_mult_imp_div_less)
  then show ?thesis by linarith
qed

text \<open>An integer read at the width of its column is the integer sent, when it fits.\<close>

lemma ucast_fits:
  assumes "uint (w :: u64) < 2 ^ LENGTH('a::len)"
  shows "ucast (ucast w :: 'a word) = w"
proof -
  have "int (unat w) < int (2 ^ LENGTH('a))" using assms by (simp only: uint_nat of_nat_power of_nat_numeral)
  then show ?thesis unfolding ucast_ucast_take_bit take_bit_eq_self_unat by (simp only: of_nat_less_iff)
qed

lemma scast_fits:
  assumes "LENGTH('a::len) \<le> 64" and "- (2 ^ (LENGTH('a) - 1)) \<le> sint (w :: u64)" and "sint w < 2 ^ (LENGTH('a) - 1)"
  shows "scast (ucast w :: 'a word) = w"
proof -
  have u: "uint (ucast w :: 'a word) = take_bit LENGTH('a) (uint w)" by (rule unsigned_ucast_eq)
  have len: "\<not> LENGTH('a) \<le> LENGTH('a) - Suc 0" "min (LENGTH('a) - 1) 63 = LENGTH('a) - 1" using assms(1) by simp_all
  have "sint (ucast w :: 'a word) = signed_take_bit (LENGTH('a) - 1) (uint w)"
    unfolding sint_uint u signed_take_bit_take_bit using len(1) by (simp only: if_False One_nat_def)
  also have "\<dots> = signed_take_bit (LENGTH('a) - 1) (sint w)"
    using len(2) unfolding sint_uint by (simp only: signed_take_bit_signed_take_bit) simp
  also have "\<dots> = sint w" using assms(2,3) by (rule signed_take_bit_int_eq_self)
  finally have e: "sint (ucast w :: 'a word) = sint w" .
  have "scast (ucast w :: 'a word) = (word_of_int (sint (ucast w :: 'a word)) :: u64)" by (rule scast_eq)
  also have "\<dots> = w" unfolding e by simp
  finally show ?thesis .
qed

lemma binary_unsigned_read:
  assumes "LENGTH('a::len) = 8 * get_int_size t" and "uint w < 2 ^ LENGTH('a)"
    and "remaining ctx = le_bytes (get_int_size t) w @ rest"
  shows "deserialize_binary_unsigned t TYPE('a) ctx = Inr (V_uint64 w, ctx_advance (get_int_size t) ctx)"
  using deserialize_le_bytes_read [of ctx t "ucast w :: 'a word" rest] assms
  by (simp add: deserialize_binary_unsigned_def le_bytes_ucast ucast_fits)

lemma binary_signed_read:
  assumes "LENGTH('a::len) = 8 * get_int_size t" and "LENGTH('a) \<le> 64"
    and "- (2 ^ (LENGTH('a) - 1)) \<le> sint w" and "sint w < 2 ^ (LENGTH('a) - 1)"
    and "remaining ctx = le_bytes (get_int_size t) w @ rest"
  shows "deserialize_binary_signed t TYPE('a) ctx = Inr (V_int64 w, ctx_advance (get_int_size t) ctx)"
  using deserialize_le_bytes_read [of ctx t "ucast w :: 'a word" rest] scast_fits [where 'a = 'a, of w] assms
  by (simp add: deserialize_binary_signed_def le_bytes_ucast)

lemma deserialize_binary_int_cell:
  assumes "column_value_ok D meta v" and "binary_int_fits (fm_protocol_type meta) v"
    and "v = V_int64 w \<or> v = V_uint64 w"
    and "remaining ctx = enc_binary_cell D (ctx_caps ctx) meta v @ rest"
  shows "deserialize_binary_value D meta ctx
    = Inr (v, ctx_advance (length (enc_binary_cell D (ctx_caps ctx) meta v)) ctx)"
  using assms(3)
proof
  assume v: "v = V_int64 w"
  then have "fm_protocol_type meta \<in> integer_types" "\<not> fm_is_unsigned meta"
    using assms(1) by (simp_all add: column_value_ok_def)
  moreover note
    binary_signed_read [where 'a = 8, of int1_signed w ctx rest]
    binary_signed_read [where 'a = 16, of int2_signed w ctx rest]
    binary_signed_read [where 'a = 32, of int4_signed w ctx rest]
    binary_signed_read [where 'a = 64, of int8_signed w ctx rest]
  ultimately show ?thesis
    using assms(2,4) v
    by (auto simp: integer_types_def deserialize_binary_value_def deserialize_binary_value_int_def
        enc_binary_cell_def binary_int_size_def binary_int_fits_def Let_def)
next
  assume v: "v = V_uint64 w"
  then have "fm_protocol_type meta \<in> integer_types" "fm_is_unsigned meta"
    using assms(1) by (simp_all add: column_value_ok_def)
  moreover note
    binary_unsigned_read [where 'a = 8, of int1 w ctx rest]
    binary_unsigned_read [where 'a = 16, of int2 w ctx rest]
    binary_unsigned_read [where 'a = 32, of int4 w ctx rest]
    binary_unsigned_read [where 'a = 64, of int8 w ctx rest]
  ultimately show ?thesis
    using assms(2,4) v
    by (auto simp: integer_types_def deserialize_binary_value_def deserialize_binary_value_int_def
        enc_binary_cell_def binary_int_size_def binary_int_fits_def Let_def)
qed

lemma deserialize_binary_cell:
  assumes "date_library D" and "binary_sendable D meta v"
    and "remaining ctx = enc_binary_cell D (ctx_caps ctx) meta v @ rest"
  shows "deserialize_binary_value D meta ctx
    = Inr (v, ctx_advance (length (enc_binary_cell D (ctx_caps ctx) meta v)) ctx)"
proof -
  have ok: "v \<noteq> V_null" "column_value_ok D meta v" "binary_int_fits (fm_protocol_type meta) v" "date_time_in_range D v"
    using assms(2) by (simp_all add: binary_sendable_def column_value_ok_def)
  show ?thesis
  proof (cases v)
    case V_null
    then show ?thesis using ok(1) by simp
  next
    case (V_int64 w)
    then show ?thesis using ok(2,3) assms(3) by (intro deserialize_binary_int_cell) simp_all
  next
    case (V_uint64 w)
    then show ?thesis using ok(2,3) assms(3) by (intro deserialize_binary_int_cell) simp_all
  next
    case (V_string s)
    then have "deserialize_binary_value D meta ctx = deserialize_binary_value_string ctx"
      using ok(2) by (cases "fm_protocol_type meta")
        (auto simp: column_value_ok_def deserialize_binary_value_def special_types_def integer_types_def)
    then show ?thesis
      using V_string assms(2,3) string_lenenc.deser_enc [of s ctx rest]
      by (simp add: enc_binary_cell_def enc_binary_value_def binary_sendable_def deserialize_binary_value_string_def)
  next
    case (V_float w)
    then show ?thesis using ok(2) assms(3)
      by (simp add: enc_binary_cell_def enc_binary_value_def column_value_ok_def deserialize_binary_value_def
          deserialize_binary_value_float_def ctx_simps)
  next
    case (V_double w)
    then show ?thesis using ok(2) assms(3)
      by (simp add: enc_binary_cell_def enc_binary_value_def column_value_ok_def deserialize_binary_value_def
          deserialize_binary_value_double_def ctx_simps)
  next
    case (V_date n)
    then show ?thesis
      using ok(2) assms(3) binary_date_read [OF assms(1), of n ctx rest]
      by (auto simp: enc_binary_cell_def enc_binary_value_def column_value_ok_def date_time_in_range_def
          deserialize_binary_value_def enc_binary_ymd_def split: prod.splits)
  next
    case (V_datetime t)
    then have cell: "enc_binary_cell D (ctx_caps ctx) meta v = enc_binary_value D (ctx_caps ctx) (V_datetime t)"
      by (simp add: enc_binary_cell_def)
    have len: "length (enc_binary_value D (ctx_caps ctx) (V_datetime t)) = 12"
      by (simp add: enc_binary_value_def enc_binary_ymd_def split: prod.split)
    have "min_datetime D \<le> t" "t \<le> max_datetime D"
      using ok(4) V_datetime by (simp_all add: date_time_in_range_def)
    note r = binary_datetime_read [OF assms(1) this assms(3) [unfolded cell]]
    show ?thesis
      using ok(2) r unfolding cell len
      by (auto simp: V_datetime column_value_ok_def deserialize_binary_value_def)
  next
    case (V_time t)
    then have "nat \<bar>t\<bar> div 86400000000 \<le> 34"
      using ok(4) by (intro column_time_days) (auto simp: date_time_in_range_def min_time_def max_time_def)
    then show ?thesis
      using ok(2) assms(3) binary_time_read [of "nat \<bar>t\<bar>" ctx "t < 0" rest] V_time
      by (auto simp: enc_binary_cell_def enc_binary_value_def column_value_ok_def deserialize_binary_value_def
          enc_binary_time_def)
  qed
qed

section \<open>Rows\<close>

text \<open>
  A binary row on the wire: the header byte, the NULL bitmap at bit offset 2, and the values that
  are not NULL.
\<close>

definition binary_row_bitmap :: "mysql_value list \<Rightarrow> bytes" where
  "binary_row_bitmap vs =
     null_bitmap_bytes (null_bitmap_of binary_row_null_bitmap_offset (length vs)) (map is_null vs)"

definition enc_binary_row :: "date_lib \<Rightarrow> capabilities \<Rightarrow> field_metadata list \<Rightarrow> mysql_value list \<Rightarrow> bytes" where
  "enc_binary_row D caps metas vs = 0 # binary_row_bitmap vs @ concat (map2 (enc_binary_cell D caps) metas vs)"

lemma deserialize_binary_fields_enc:
  assumes "date_library D"
    and "list_all2 (\<lambda>meta v. v = V_null \<or> binary_sendable D meta v) metas vs"
    and "\<forall>j < length vs. bitmap_is_null nb bm (i + j) = Some (vs ! j = V_null)"
    and "remaining ctx = concat (map2 (enc_binary_cell D (ctx_caps ctx)) metas vs) @ rest"
  shows "deserialize_binary_fields D nb bm i metas ctx =
    Some (Inr (vs, ctx_advance (length (concat (map2 (enc_binary_cell D (ctx_caps ctx)) metas vs))) ctx))"
  using assms(2-)
proof (induction metas vs arbitrary: i ctx rule: list_all2_induct)
  case Nil
  then show ?case by simp
next
  case (Cons meta metas v vs)
  let ?e = "enc_binary_cell D (ctx_caps ctx)"
  have null: "bitmap_is_null nb bm i = Some (v = V_null)" using Cons.prems(1) by force
  have nulls: "\<forall>j < length vs. bitmap_is_null nb bm (Suc i + j) = Some (vs ! j = V_null)"
    using Cons.prems(1) by (metis Suc_less_eq add_Suc_shift length_Cons nth_Cons_Suc)
  have tail: "deserialize_binary_fields D nb bm (Suc i) metas (ctx_advance (length (?e meta v)) ctx) =
    Some (Inr (vs, ctx_advance (length (concat (map2 ?e metas vs))) (ctx_advance (length (?e meta v)) ctx)))"
    using Cons.IH [OF nulls, of "ctx_advance (length (?e meta v)) ctx"] Cons.prems(2) by simp
  have val: "(if v = V_null then Inr (V_null, ctx) else deserialize_binary_value D meta ctx)
      = Inr (v, ctx_advance (length (?e meta v)) ctx)"
  proof (cases "v = V_null")
    case False
    have r: "remaining ctx = ?e meta v @ concat (map2 ?e metas vs) @ rest" using Cons.prems(2) by simp
    have "binary_sendable D meta v" using Cons.hyps(1) False by simp
    from deserialize_binary_cell [OF assms(1) this r] show ?thesis using False by simp
  qed (simp add: enc_binary_cell_def enc_binary_value_def)
  show ?case by (simp only: deserialize_binary_fields.simps null option.case val sum.case prod.case tail) simp
qed

section \<open>Properties\<close>

text \<open>
  A column a parameter can be read back from: of the type and signedness its own type is sent with.
\<close>

definition parameter_column :: "field_metadata \<Rightarrow> mysql_value \<Rightarrow> bool" where
  "parameter_column meta v \<longleftrightarrow>
     (let t = fm_protocol_type meta
      in case v of
           V_null \<Rightarrow> False
         | V_int64 _ \<Rightarrow> t = pft_longlong \<and> \<not> fm_is_unsigned meta
         | V_uint64 _ \<Rightarrow> t = pft_longlong \<and> fm_is_unsigned meta
         | V_string s \<Rightarrow> t \<notin> special_types \<and> in_memory s
         | V_float _ \<Rightarrow> t = pft_float
         | V_double _ \<Rightarrow> t = pft_double
         | V_date _ \<Rightarrow> t = pft_date
         | V_datetime _ \<Rightarrow> t = pft_timestamp \<or> t = pft_datetime
         | V_time _ \<Rightarrow> t = pft_time)"

definition finite_value :: "mysql_value \<Rightarrow> bool" where
  "finite_value v =
     (case v of
        V_float w \<Rightarrow> \<not> float_isnan w \<and> \<not> float_isinf w
      | V_double w \<Rightarrow> \<not> double_isnan w \<and> \<not> double_isinf w
      | _ \<Rightarrow> True)"

lemma parameter_column_sendable:
  assumes "parameter_column meta v" and "date_time_in_range D v" and "finite_value v"
  shows "binary_sendable D meta v" and "enc_binary_cell D caps meta v = enc_binary_value D caps v"
proof -
  have w: "sint (w :: u64) < 2 ^ 63" "- (2 ^ 63) \<le> sint w" "uint w < 2 ^ 64" for w
    using sint_lt [of w] sint_ge [of w] uint_lt2p [of w] by simp_all
  have "binary_int_fits (fm_protocol_type meta) v"
    using assms(1) w
    by (cases v) (simp_all add: parameter_column_def binary_int_fits_def binary_int_size_def Let_def)
  moreover have "column_value_ok D meta v"
    using assms
    by (cases v) (simp_all add: parameter_column_def finite_value_def column_value_ok_def integer_types_def Let_def)
  ultimately show "binary_sendable D meta v"
    using assms(1) by (cases v) (simp_all add: parameter_column_def binary_sendable_def Let_def)
  show "enc_binary_cell D caps meta v = enc_binary_value D caps v"
    using assms(1) by (cases v)
      (simp_all add: enc_binary_cell_def enc_binary_value_def parameter_column_def binary_int_size_def Let_def)
qed

lemma deserialize_not_finite:
  assumes "parameter_column meta v" and "\<not> finite_value v"
    and "remaining ctx = enc_binary_value D (ctx_caps ctx) v @ rest"
  shows "deserialize_binary_value D meta ctx = Inl protocol_value_error"
  using assms
  by (cases v) (auto simp: finite_value_def parameter_column_def Let_def enc_binary_value_def
      deserialize_binary_value_def deserialize_binary_value_float_def deserialize_binary_value_double_def ctx_simps)

text \<open>
  C34: reading a parameter back as it was sent: every 64-bit integer, string and floating point
  number, and every date, datetime and time in the ranges \<open>value.hpp\<close> documents, is written without
  leaving the buffer \<open>get_size\<close> asks for and without failing an assertion. The bytes, read as a
  column of the type the parameter is sent with, give the same value, whatever follows them;
  except for NaN and the infinities, which are sent but not accepted back.
\<close>
theorem binary_value_roundtrip:
  assumes "date_library D" and "parameter_column meta v" and "date_time_in_range D v"
  shows "\<exists>out. serialize_message (serialize_binary_value D) get_binary_value_size v caps buffer = Some out \<and>
    deserialize_binary_value D meta (make_ctx (out @ rest) caps) =
      (if finite_value v then Inr (v, ctx_advance (length out) (make_ctx (out @ rest) caps))
       else Inl protocol_value_error)"
proof -
  let ?ctx = "make_ctx (enc_binary_value D caps v @ rest) caps"
  have "serialize_message (serialize_binary_value D) get_binary_value_size v caps buffer = Some (enc_binary_value D caps v)"
    using date_time_in_range_asserted [OF assms(1,3)] by (simp add: binary_value.serialize_message_guarded)
  moreover have "deserialize_binary_value D meta ?ctx = Inr (v, ctx_advance (length (enc_binary_value D caps v)) ?ctx)"
    if "finite_value v"
    using deserialize_binary_cell [OF assms(1) parameter_column_sendable(1) [OF assms(2,3) that], of ?ctx rest]
      parameter_column_sendable(2) [OF assms(2,3) that]
    by simp
  moreover have "deserialize_binary_value D meta ?ctx = Inl protocol_value_error" if "\<not> finite_value v"
    by (rule deserialize_not_finite [OF assms(2) that]) simp
  ultimately show ?thesis by simp
qed

definition typed_column :: "protocol_field_type \<Rightarrow> field_metadata" where
  "typed_column t = field_metadata_of (sample_column\<lparr>cd_type := t\<rparr>)"

lemma typed_column_type [simp]: "fm_protocol_type (typed_column t) = t"
  by (simp add: typed_column_def field_metadata_of_def fm_protocol_type_def)

lemma typed_column_signed [simp]: "\<not> fm_is_unsigned (typed_column t)"
  by (simp add: typed_column_def field_metadata_of_def fm_is_unsigned_def fm_flag_set_def sample_column_def)

lemma binary_value_roundtrip_witness:
  "\<exists>out. serialize_message (serialize_binary_value gregorian) get_binary_value_size (V_time (- 5)) (caps_of 0) [] = Some out \<and>
    deserialize_binary_value gregorian (typed_column pft_time) (make_ctx (out @ []) (caps_of 0))
      = Inr (V_time (- 5), ctx_advance (length out) (make_ctx (out @ []) (caps_of 0)))"
  using binary_value_roundtrip [OF gregorian.date_library_axioms, of "typed_column pft_time" "V_time (- 5)" "caps_of 0" "[]" "[]"]
  by (simp add: parameter_column_def finite_value_def date_time_in_range_def min_time_def max_time_def)

lemma deserialize_binary_row_enc:
  assumes "date_library D" and "list_all2 (\<lambda>meta v. v = V_null \<or> binary_sendable D meta v) metas vs"
  shows "deserialize_binary_row D (make_ctx (enc_binary_row D caps metas vs @ rest) caps) metas =
    Some (if rest = [] then Inr vs else Inl (make_error_code extra_bytes))"
proof -
  let ?nb = "null_bitmap_of binary_row_null_bitmap_offset (length metas)"
  let ?c = "make_ctx (enc_binary_row D caps metas vs @ rest) caps"
  have len: "length metas = length vs" using assms(2) by (rule list_all2_lengthD)
  have bm: "length (binary_row_bitmap vs) = byte_count ?nb"
    "j < length vs \<Longrightarrow> bitmap_is_null ?nb (binary_row_bitmap vs) j = Some (vs ! j = V_null)" for j
    using null_bitmap_bytes [of "map is_null vs" ?nb] len by (simp_all add: binary_row_bitmap_def is_null_def)
  let ?c2 = "ctx_advance (byte_count ?nb) (ctx_advance 1 ?c)"
  have r: "remaining ?c2 = concat (map2 (enc_binary_cell D (ctx_caps ?c2)) metas vs) @ rest"
    using bm(1) by (simp add: enc_binary_row_def)
  have f: "deserialize_binary_fields D ?nb (binary_row_bitmap vs) 0 metas ?c2 =
    Some (Inr (vs, ctx_advance (length (concat (map2 (enc_binary_cell D (ctx_caps ?c2)) metas vs))) ?c2))"
    using deserialize_binary_fields_enc [OF assms _ r] bm(2) by simp
  have t: "take (byte_count ?nb) (remaining (ctx_advance 1 ?c)) = binary_row_bitmap vs"
    using bm(1) by (simp add: enc_binary_row_def)
  have wf: "ctx_wf (ctx_advance (length (concat (map2 (enc_binary_cell D (ctx_caps ?c2)) metas vs))) ?c2)"
    using bm(1) r by (intro ctx_wf_advance) (simp_all add: enc_binary_row_def)
  have sz: "enough_size ?c 1" "enough_size (ctx_advance 1 ?c) (byte_count ?nb)"
    using bm(1) by (simp_all add: enough_size_remaining enc_binary_row_def)
  have tail: "remaining (ctx_advance (length (concat (map2 (enc_binary_cell D (ctx_caps ?c2)) metas vs))) ?c2) = rest"
    by (simp only: remaining_advance [of _ ?c2] r) simp
  show ?thesis
    unfolding deserialize_binary_row_def Let_def t f ctx_empty_remaining [OF wf] option.case sum.case prod.case tail
    using sz by simp
qed

text \<open>
  C32: a binary row is understood as a whole: the NULL bitmap and the values, each in the form of its
  column's type (integers in one, two, four or eight bytes, signed or not; finite floating point
  numbers; dates, datetimes and times in their documented ranges), give back the values encoded,
  for any number of columns; bytes after them are reported.
\<close>
theorem binary_row_understood:
  assumes "date_library D" and "list_all2 (\<lambda>meta v. v = V_null \<or> binary_sendable D meta v) metas vs"
  shows "deserialize_binary_row D (make_ctx (enc_binary_row D caps metas vs @ rest) caps) metas =
    Some (if rest = [] then Inr vs else Inl (make_error_code extra_bytes))"
  by (rule deserialize_binary_row_enc [OF assms])

lemma binary_row_understood_witness:
  "deserialize_binary_row gregorian (make_ctx (enc_binary_row gregorian (caps_of 0)
      [typed_column pft_int24, typed_column pft_date] [V_int64 (- 70000), V_null]) (caps_of 0))
     [typed_column pft_int24, typed_column pft_date] = Some (Inr [V_int64 (- 70000), V_null])"
  using binary_row_understood [OF gregorian.date_library_axioms, of "[typed_column pft_int24, typed_column pft_date]"
      "[V_int64 (- 70000), V_null]" "caps_of 0" "[]"]
  by (simp add: binary_sendable_def column_value_ok_def date_time_in_range_def integer_types_def
      binary_int_fits_def binary_int_size_def)

lemma deserialize_binary_row_safe:
  assumes "enough_size ctx 1"
  shows "case deserialize_binary_row D ctx metas of
      None \<Rightarrow> False
    | Some (Inl err) \<Rightarrow> True
    | Some (Inr vs) \<Rightarrow> list_all2 (binary_value_ok D) metas vs"
proof -
  let ?nb = "null_bitmap_of binary_row_null_bitmap_offset (length metas)"
  let ?c1 = "ctx_advance 1 ctx"
  let ?f = "deserialize_binary_fields D ?nb (take (byte_count ?nb) (remaining ?c1)) 0 metas
      (ctx_advance (byte_count ?nb) ?c1)"
  have "enough_size ?c1 (byte_count ?nb) \<Longrightarrow> ?f \<noteq> None"
    by (intro deserialize_binary_fields_total) (simp_all add: enough_size_remaining)
  moreover have "list_all2 (binary_value_ok D) metas vs" if "?f = Some (Inr (vs, c))" for vs c
    using deserialize_binary_fields_ok [OF that] .
  ultimately show ?thesis
    using assms by (auto simp: deserialize_binary_row_def Let_def split: option.split sum.split prod.split)
qed

text \<open>
  C33: whatever bytes the server sends, the row deserializer never reads a bit outside the NULL
  bitmap it received, and the values of a row it accepts are values of their columns.
\<close>
theorem binary_row_safe:
  assumes "enough_size ctx 1"
  shows "case deserialize_binary_row D ctx metas of
      None \<Rightarrow> False
    | Some (Inl err) \<Rightarrow> True
    | Some (Inr vs) \<Rightarrow> list_all2 (binary_value_ok D) metas vs"
  by (rule deserialize_binary_row_safe [OF assms])

lemma binary_row_safe_witness:
  "deserialize_binary_row gregorian (make_ctx [0] (caps_of 0)) [typed_column pft_date] \<noteq> None"
  using binary_row_safe [of "make_ctx [0] (caps_of 0)" gregorian "[typed_column pft_date]"]
  by (auto simp: enough_size_remaining split: option.splits)

text \<open>
  A TIME of 34 days and 23:59:59.999999 is accepted, beyond the documented \<open>max_time\<close>.
\<close>
lemma binary_time_beyond_max:
  "\<exists>t c. deserialize_binary_value_time (make_ctx (enc_binary_time False 3023999999999) (caps_of 0)) = Inr (V_time t, c)
     \<and> max_time < t"
  using binary_time_read [of 3023999999999 "make_ctx (enc_binary_time False 3023999999999) (caps_of 0)" False "[]"]
  by (simp add: max_time_def)

end
