(* ===== verification/Resultset.thy ===== *)
theory Resultset
  imports Session Text_Deserialization Binary_Deserialization
begin

text \<open>
  Reading the rows of a result (\<open>network_algorithms/impl/read_row.hpp\<close>) and the \<open>resultset\<close>
  class with its fetch operations (\<open>impl/resultset.hpp\<close>). Values own their strings here: the
  lifetime of the buffers string views point into is not modelled.
\<close>

section \<open>One message of the rows\<close>

text \<open>
  \<open>deserialize_row_fn\<close>: the text or the binary row deserializer. \<open>None\<close> is reading outside the
  buffer.
\<close>

type_synonym row_fn = "deserialization_context \<Rightarrow> field_metadata list \<Rightarrow> (error_code + mysql_value list) option"

definition text_row_fn :: "lexical_lib \<Rightarrow> date_lib \<Rightarrow> row_fn" where
  "text_row_fn L D ctx metas = Some (deserialize_text_row L D ctx metas)"

definition binary_row_fn :: "date_lib \<Rightarrow> row_fn" where
  "binary_row_fn D = deserialize_binary_row D"

datatype read_row_result = Row_error | Row_row | Row_eof

text \<open>
  The outputs are the values and the OK packet passed by reference. A failed parse may leave them
  half assigned; no caller reads them then, and here they keep their values.
\<close>

record row_outputs =
  ro_values :: "mysql_value list"
  ro_ok_packet :: ok_packet

definition process_read_message ::
    "row_fn \<Rightarrow> capabilities \<Rightarrow> field_metadata list \<Rightarrow> bytes \<Rightarrow> row_outputs \<Rightarrow> error_info \<Rightarrow>
     (read_row_result \<times> error_code \<times> error_info \<times> row_outputs) option" where
  "process_read_message deserializer caps meta buffer outs info =
     (case deserialize_message_type (make_ctx buffer caps) of
        Inl err \<Rightarrow> Some (Row_error, err, info, outs)
      | Inr (msg_type, ctx) \<Rightarrow>
          if msg_type = eof_packet_header then
            (case deserialize_message (deserialize_ok_packet (ro_ok_packet outs)) ctx of
               Inl err \<Rightarrow> Some (Row_error, err, info, outs)
             | Inr ok \<Rightarrow> Some (Row_eof, no_error, info, outs\<lparr>ro_ok_packet := ok\<rparr>))
          else if msg_type = error_packet_header then
            (case process_error_packet ctx info of (err, info1) \<Rightarrow> Some (Row_error, err, info1, outs))
          else
            (case deserializer (ctx_rewind 1 ctx) meta of
               None \<Rightarrow> None
             | Some (Inl err) \<Rightarrow> Some (Row_error, err, info, outs)
             | Some (Inr vs) \<Rightarrow> Some (Row_row, no_error, info, outs\<lparr>ro_values := vs\<rparr>)))"

text \<open>The buffer is passed by reference too; what was read into it is returned.\<close>

definition read_row ::
    "'s stream_ops \<Rightarrow> row_fn \<Rightarrow> field_metadata list \<Rightarrow> row_outputs \<Rightarrow> error_info \<Rightarrow> 's channel \<Rightarrow>
     (read_row_result \<times> error_code \<times> error_info \<times> bytes \<times> row_outputs \<times> 's channel) option" where
  "read_row S deserializer meta outs info ch =
     Option.bind (channel_read S ch) (\<lambda>(buffer, code, ch1).
       if failed code then Some (Row_error, code, info, buffer, outs, ch1)
       else map_option (\<lambda>(r, err, info1, outs1). (r, err, info1, buffer, outs1, ch1))
              (process_read_message deserializer (ch_current_caps ch1) meta buffer outs info))"

section \<open>Resultsets\<close>

record resultset =
  rs_valid :: bool
  rs_deserializer :: "row_fn option"
  rs_meta :: resultset_metadata
  rs_current_row :: "mysql_value list"
  rs_buffer :: bytes
  rs_ok_packet :: ok_packet
  rs_eof_received :: bool

definition default_resultset :: resultset where
  "default_resultset = \<lparr>rs_valid = False, rs_deserializer = None, rs_meta = empty_metadata, rs_current_row = [],
     rs_buffer = [], rs_ok_packet = default_ok_packet, rs_eof_received = False\<rparr>"

definition resultset_with_fields :: "resultset_metadata \<Rightarrow> row_fn \<Rightarrow> resultset" where
  "resultset_with_fields meta deserializer =
     default_resultset\<lparr>rs_valid := True, rs_meta := meta, rs_deserializer := Some deserializer\<rparr>"

definition resultset_empty :: "bytes \<Rightarrow> ok_packet \<Rightarrow> resultset" where
  "resultset_empty buffer ok_pack =
     default_resultset\<lparr>rs_valid := True, rs_buffer := buffer, rs_ok_packet := ok_pack, rs_eof_received := True\<rparr>"

definition rs_complete :: "resultset \<Rightarrow> bool" where
  "rs_complete rs = rs_eof_received rs"

definition rs_fields :: "resultset \<Rightarrow> field_metadata list" where
  "rs_fields rs = rm_fields (rs_meta rs)"

text \<open>The accessors assert that the resultset is complete: \<open>None\<close> when it is not.\<close>

definition rs_affected_rows :: "resultset \<Rightarrow> u64 option" where
  "rs_affected_rows rs = (if rs_complete rs then Some (ok_affected_rows (rs_ok_packet rs)) else None)"

definition rs_last_insert_id :: "resultset \<Rightarrow> u64 option" where
  "rs_last_insert_id rs = (if rs_complete rs then Some (ok_last_insert_id (rs_ok_packet rs)) else None)"

definition rs_warning_count :: "resultset \<Rightarrow> u16 option" where
  "rs_warning_count rs = (if rs_complete rs then Some (ok_warnings (rs_ok_packet rs)) else None)"

definition rs_info :: "resultset \<Rightarrow> bytes option" where
  "rs_info rs = (if rs_complete rs then Some (ok_info (rs_ok_packet rs)) else None)"

text \<open>
  Every fetch asserts that the resultset is valid. An asserted precondition of \<open>read_row\<close>: the
  deserializer is set. It is in every resultset with fields, and one without is complete from the
  start. A failed assertion is \<open>None\<close>.
\<close>

definition fetch_one ::
    "'s stream_ops \<Rightarrow> resultset \<Rightarrow> 's channel \<Rightarrow>
     (mysql_value list option \<times> error_code \<times> error_info \<times> resultset \<times> 's channel) option" where
  "fetch_one S rs ch =
     (if \<not> rs_valid rs then None
      else if rs_complete rs then Some (None, no_error, empty_info, rs, ch)
      else case rs_deserializer rs of
             None \<Rightarrow> None
           | Some d \<Rightarrow>
               map_option (\<lambda>(result, err, info, buffer, outs, ch1).
                   (if result = Row_row then Some (ro_values outs) else None, err, info,
                    rs\<lparr>rs_buffer := buffer, rs_current_row := ro_values outs, rs_ok_packet := ro_ok_packet outs,
                       rs_eof_received := (result = Row_eof)\<rparr>, ch1))
                 (read_row S d (rs_fields rs) \<lparr>ro_values = rs_current_row rs, ro_ok_packet = rs_ok_packet rs\<rparr>
                    empty_info ch))"

text \<open>
  The rows returned are owning: values and the buffer they came in. Each iteration reads into a
  buffer of its own.
\<close>

type_synonym owning_row = "mysql_value list \<times> bytes"

fun fetch_loop ::
    "'s stream_ops \<Rightarrow> row_fn \<Rightarrow> nat \<Rightarrow> error_info \<Rightarrow> resultset \<Rightarrow> 's channel \<Rightarrow>
     (owning_row list \<times> error_code \<times> error_info \<times> resultset \<times> 's channel) option" where
  "fetch_loop S d 0 info rs ch = Some ([], no_error, info, rs, ch)"
| "fetch_loop S d (Suc n) info rs ch =
     Option.bind (read_row S d (rs_fields rs) \<lparr>ro_values = [], ro_ok_packet = rs_ok_packet rs\<rparr> info ch)
       (\<lambda>(result, err, info1, buffer, outs, ch1).
          let rs1 = rs\<lparr>rs_ok_packet := ro_ok_packet outs, rs_eof_received := (result = Row_eof)\<rparr>
          in if result = Row_row
             then map_option (\<lambda>(rows, r). ((ro_values outs, buffer) # rows, r)) (fetch_loop S d n info1 rs1 ch1)
             else Some ([], err, info1, rs1, ch1))"

definition fetch_many ::
    "'s stream_ops \<Rightarrow> nat \<Rightarrow> resultset \<Rightarrow> 's channel \<Rightarrow>
     (owning_row list \<times> error_code \<times> error_info \<times> resultset \<times> 's channel) option" where
  "fetch_many S count rs ch =
     (if \<not> rs_valid rs then None
      else if rs_complete rs then Some ([], no_error, empty_info, rs, ch)
      else case rs_deserializer rs of
             None \<Rightarrow> if count = 0 then Some ([], no_error, empty_info, rs, ch) else None
           | Some d \<Rightarrow> fetch_loop S d count empty_info rs ch)"

definition fetch_all ::
    "'s stream_ops \<Rightarrow> resultset \<Rightarrow> 's channel \<Rightarrow>
     (owning_row list \<times> error_code \<times> error_info \<times> resultset \<times> 's channel) option" where
  "fetch_all S rs ch = fetch_many S size_t_max rs ch"

section \<open>What the messages of the rows are\<close>

definition eof_message :: "ok_packet \<Rightarrow> bytes" where
  "eof_message p = eof_packet_header # enc_ok_packet p"

definition error_message :: "err_packet \<Rightarrow> bytes" where
  "error_message p = error_packet_header # enc_err_packet (caps_of 0) p"

lemma process_read_eof:
  assumes "in_memory (ok_info p)"
  shows "process_read_message d caps metas (eof_message p) outs info
    = Some (Row_eof, no_error, info, outs\<lparr>ro_ok_packet := p\<rparr>)"
proof -
  let ?c = "make_ctx (eof_message p) caps"
  have t: "deserialize_message_type ?c = Inr (0xfe, ctx_advance 1 ?c)"
    by (simp add: deser_simps eof_message_def)
  have "deserialize_message (deserialize_ok_packet (ro_ok_packet outs)) (ctx_advance 1 ?c) = Inr p"
    using assms
    by (simp add: deserialize_message_def deserialize_ok_packet_enc [where rest = "[]"] eof_message_def
        ctx_simps ctx_wf_advance del: extra_bytes_def)
  then show ?thesis by (simp add: process_read_message_def t)
qed

lemma process_read_error:
  assumes "err_packet_wf p"
  shows "process_read_message d caps metas (error_message p) outs info
    = Some (Row_error, make_error_code (Errc (uint (err_error_code p))), \<lparr>ei_msg = err_error_message p\<rparr>, outs)"
proof -
  let ?c = "make_ctx (error_message p) caps"
  have t: "deserialize_message_type ?c = Inr (0xff, ctx_advance 1 ?c)"
    by (simp add: deser_simps error_message_def)
  have "process_error_packet (ctx_advance 1 ?c) info =
      (make_error_code (Errc (uint (err_error_code p))), \<lparr>ei_msg = err_error_message p\<rparr>)"
    using assms by (intro process_error_packet_enc) (simp_all add: error_message_def ctx_wf_advance enc_err_packet_def)
  then show ?thesis by (simp add: process_read_message_def t)
qed

lemma process_read_row:
  assumes "m = b # bs" and "b \<noteq> eof_packet_header" and "b \<noteq> error_packet_header"
  shows "process_read_message d caps metas m outs info =
    (case d (make_ctx m caps) metas of
       None \<Rightarrow> None
     | Some (Inl err) \<Rightarrow> Some (Row_error, err, info, outs)
     | Some (Inr vs) \<Rightarrow> Some (Row_row, no_error, info, outs\<lparr>ro_values := vs\<rparr>))"
proof -
  have "deserialize_message_type (make_ctx m caps) = Inr (b, ctx_advance 1 (make_ctx m caps))"
    using assms(1) by (simp add: deser_simps)
  then show ?thesis using assms(2,3) by (simp add: process_read_message_def)
qed

text \<open>
  A message is never a row when its first byte is the header of an EOF packet, whatever the
  metadata.
\<close>

lemma process_read_not_row:
  "process_read_message d caps metas (0xfe # m) outs info = Some (result, r) \<Longrightarrow> result \<noteq> Row_row"
  by (auto simp: process_read_message_def deser_simps split: sum.splits)

section \<open>The contract of the row deserializers\<close>

text \<open>
  What the client of \<open>deserialize_row_fn\<close> relies on: the rows as a server encodes them are read
  back, they cannot be taken for an EOF or an error packet, every message is read without leaving
  the buffer, and an accepted row has one good value per column.
\<close>

locale row_protocol =
  fixes fn :: row_fn
    and enc :: "capabilities \<Rightarrow> field_metadata list \<Rightarrow> 'r \<Rightarrow> bytes"
    and vals :: "field_metadata list \<Rightarrow> 'r \<Rightarrow> mysql_value list"
    and ok :: "field_metadata list \<Rightarrow> 'r \<Rightarrow> bool"
    and good :: "field_metadata \<Rightarrow> mysql_value \<Rightarrow> bool"
  assumes row_read: "ok metas r \<Longrightarrow> fn (make_ctx (enc caps metas r) caps) metas = Some (Inr (vals metas r))"
    and row_head: "ok metas r \<Longrightarrow>
      \<exists>b bs. enc caps metas r = b # bs \<and> b \<noteq> eof_packet_header \<and> b \<noteq> error_packet_header"
    and row_total: "enough_size ctx 1 \<Longrightarrow> fn ctx metas \<noteq> None"
    and row_good: "enough_size ctx 1 \<Longrightarrow> fn ctx metas = Some (Inr vs) \<Longrightarrow> list_all2 good metas vs"
begin

lemma process_row:
  assumes "ok metas r"
  shows "process_read_message fn caps metas (enc caps metas r) outs info
    = Some (Row_row, no_error, info, outs\<lparr>ro_values := vals metas r\<rparr>)"
proof -
  obtain b bs where "enc caps metas r = b # bs" "b \<noteq> eof_packet_header" "b \<noteq> error_packet_header"
    using row_head [OF assms] by blast
  from process_read_row [OF this] show ?thesis by (simp add: row_read [OF assms])
qed

lemma process_read_good:
  obtains result err info' outs' where "process_read_message fn caps metas m outs info = Some (result, err, info', outs')"
    "result = Row_row \<Longrightarrow> list_all2 good metas (ro_values outs')"
proof (cases m)
  case Nil
  then show ?thesis using that by (simp add: process_read_message_def deser_simps)
next
  case (Cons b bs)
  have e: "enough_size (make_ctx m caps) 1" by (simp add: Cons ctx_simps)
  have t: "deserialize_message_type (make_ctx m caps) = Inr (b, ctx_advance 1 (make_ctx m caps))"
    by (simp add: Cons deser_simps)
  show ?thesis
    using that row_total [OF e, of metas] row_good [OF e, of metas]
    by (cases "process_read_message fn caps metas m outs info")
      (auto simp: process_read_message_def t split: if_splits sum.splits option.splits prod.splits)
qed

end

section \<open>Both protocols\<close>

text \<open>Rows in text form: as many cells as columns, all convertible, the first one not too long.\<close>

definition text_row_ok :: "lexical_lib \<Rightarrow> date_lib \<Rightarrow> field_metadata list \<Rightarrow> bytes option list \<Rightarrow> bool" where
  "text_row_ok L D metas cells \<longleftrightarrow>
     cells \<noteq> [] \<and> length cells = length metas \<and> (\<forall>s. Some s \<in> set cells \<longrightarrow> in_memory s) \<and>
     (\<forall>s. hd cells = Some s \<longrightarrow> length s < 2 ^ 24) \<and> (\<exists>vs. text_cells L D metas cells = Inr vs)"

definition text_row_values :: "lexical_lib \<Rightarrow> date_lib \<Rightarrow> field_metadata list \<Rightarrow> bytes option list \<Rightarrow> mysql_value list" where
  "text_row_values L D metas cells = (case text_cells L D metas cells of Inl _ \<Rightarrow> [] | Inr vs \<Rightarrow> vs)"

definition binary_row_sendable :: "date_lib \<Rightarrow> field_metadata list \<Rightarrow> mysql_value list \<Rightarrow> bool" where
  "binary_row_sendable D metas vs \<longleftrightarrow>
     date_library D \<and> list_all2 (\<lambda>meta v. v = V_null \<or> binary_sendable D meta v) metas vs"

lemma int_lenenc_head:
  assumes "v < 0x1000000"
  shows "\<exists>b bs. enc_int_lenenc caps v = b # bs \<and> b \<noteq> eof_packet_header \<and> b \<noteq> error_packet_header"
proof (cases "v < 251")
  case True
  have "(ucast v :: u8) \<noteq> 0xfe" "(ucast v :: u8) \<noteq> 0xff"
    using small_first_byte(2) [OF True] by auto
  then show ?thesis using True by (simp add: enc_int_lenenc_def le_bytes_numeral)
qed (use assms in \<open>auto simp: enc_int_lenenc_def\<close>)

lemma text_row_head:
  assumes "text_row_ok L D metas cells"
  shows "\<exists>b bs. enc_text_row caps cells = b # bs \<and> b \<noteq> eof_packet_header \<and> b \<noteq> error_packet_header"
proof -
  obtain c cs where cells: "cells = c # cs" using assms by (cases cells) (auto simp: text_row_ok_def)
  have "\<exists>b bs. enc_text_cell caps c = b # bs \<and> b \<noteq> eof_packet_header \<and> b \<noteq> error_packet_header"
  proof (cases c)
    case (Some s)
    then have s: "length s < 2 ^ 24" using assms by (simp add: cells text_row_ok_def)
    then have "(of_nat (length s) :: u64) < 0x1000000"
      by (simp add: word_less_nat_alt unsigned_of_nat take_bit_nat_eq_self)
    from int_lenenc_head [OF this, of caps] show ?thesis
      by (auto simp: Some enc_text_cell_def enc_string_lenenc_def)
  qed (simp add: enc_text_cell_def)
  then show ?thesis by (auto simp: cells enc_text_row_def)
qed

interpretation text_rows: row_protocol "text_row_fn L D" "\<lambda>caps _. enc_text_row caps" "text_row_values L D" "text_row_ok L D"
    "binary_value_ok D" for L D
proof
  show "\<exists>b bs. enc_text_row caps r = b # bs \<and> b \<noteq> eof_packet_header \<and> b \<noteq> error_packet_header"
    if "text_row_ok L D metas r" for metas r caps
    using text_row_head [OF that] .
  show "text_row_fn L D (make_ctx (enc_text_row caps r) caps) metas = Some (Inr (text_row_values L D metas r))"
    if "text_row_ok L D metas r" for metas r caps
    using that deserialize_text_row_enc [of r metas L D caps "[]"]
    by (auto simp: text_row_fn_def text_row_ok_def text_row_values_def)
qed (auto simp: text_row_fn_def binary_value_ok_def dest: deserialize_text_row_ok intro: list_all2_mono)

interpretation binary_rows: row_protocol "binary_row_fn D" "enc_binary_row D" "\<lambda>_ vs. vs" "binary_row_sendable D"
    "binary_value_ok D" for D
proof
  show "\<exists>b bs. enc_binary_row D caps metas r = b # bs \<and> b \<noteq> eof_packet_header \<and> b \<noteq> error_packet_header"
    for metas r caps by (simp add: enc_binary_row_def)
  show "binary_row_fn D (make_ctx (enc_binary_row D caps metas r) caps) metas = Some (Inr r)"
    if "binary_row_sendable D metas r" for metas r caps
    using that deserialize_binary_row_enc [of D metas r caps "[]"]
    by (simp add: binary_row_fn_def binary_row_sendable_def)
  show "binary_row_fn D ctx metas \<noteq> None" if "enough_size ctx 1" for ctx metas
    using deserialize_binary_row_safe [OF that, of D metas]
    by (simp add: binary_row_fn_def split: option.splits)
  show "list_all2 (binary_value_ok D) metas vs"
    if "enough_size ctx 1" "binary_row_fn D ctx metas = Some (Inr vs)" for ctx metas vs
    using deserialize_binary_row_safe [OF that(1), of D metas] that(2)
    by (simp add: binary_row_fn_def split: option.splits)
qed

text \<open>
  The two protocols together: a resultset reads the rows of a query in text form and those of a
  prepared statement in binary form.
\<close>

datatype row_format = Text_format | Binary_format

datatype server_row = Text_row "bytes option list" | Binary_row "mysql_value list"

definition format_row_fn :: "lexical_lib \<Rightarrow> date_lib \<Rightarrow> row_format \<Rightarrow> row_fn" where
  "format_row_fn L D f = (case f of Text_format \<Rightarrow> text_row_fn L D | Binary_format \<Rightarrow> binary_row_fn D)"

definition enc_server_row :: "date_lib \<Rightarrow> capabilities \<Rightarrow> field_metadata list \<Rightarrow> server_row \<Rightarrow> bytes" where
  "enc_server_row D caps metas r =
     (case r of Text_row cells \<Rightarrow> enc_text_row caps cells | Binary_row vs \<Rightarrow> enc_binary_row D caps metas vs)"

definition server_row_values :: "lexical_lib \<Rightarrow> date_lib \<Rightarrow> field_metadata list \<Rightarrow> server_row \<Rightarrow> mysql_value list" where
  "server_row_values L D metas r =
     (case r of Text_row cells \<Rightarrow> text_row_values L D metas cells | Binary_row vs \<Rightarrow> vs)"

definition server_row_ok :: "lexical_lib \<Rightarrow> date_lib \<Rightarrow> row_format \<Rightarrow> field_metadata list \<Rightarrow> server_row \<Rightarrow> bool" where
  "server_row_ok L D f metas r =
     (case r of
        Text_row cells \<Rightarrow> f = Text_format \<and> text_row_ok L D metas cells
      | Binary_row vs \<Rightarrow> f = Binary_format \<and> binary_row_sendable D metas vs)"

interpretation server_rows: row_protocol "format_row_fn L D f" "enc_server_row D" "server_row_values L D"
    "server_row_ok L D f" "binary_value_ok D" for L D f
proof
  show "format_row_fn L D f (make_ctx (enc_server_row D caps metas r) caps) metas = Some (Inr (server_row_values L D metas r))"
    if "server_row_ok L D f metas r" for metas r caps
    using that text_rows.row_read binary_rows.row_read
    by (auto simp: server_row_ok_def format_row_fn_def enc_server_row_def server_row_values_def split: server_row.splits)
  show "\<exists>b bs. enc_server_row D caps metas r = b # bs \<and> b \<noteq> eof_packet_header \<and> b \<noteq> error_packet_header"
    if "server_row_ok L D f metas r" for metas r caps
    using that text_rows.row_head binary_rows.row_head
    by (auto simp: server_row_ok_def enc_server_row_def split: server_row.splits)
  show "format_row_fn L D f ctx metas \<noteq> None" if "enough_size ctx 1" for ctx metas
    using text_rows.row_total [OF that] binary_rows.row_total [OF that] by (cases f) (simp_all add: format_row_fn_def)
  show "list_all2 (binary_value_ok D) metas vs"
    if "enough_size ctx 1" "format_row_fn L D f ctx metas = Some (Inr vs)" for ctx metas vs
    using that text_rows.row_good [OF that(1)] binary_rows.row_good [OF that(1)]
    by (cases f) (simp_all add: format_row_fn_def)
qed

section \<open>Reading the rows of a resultset\<close>

lemma read_row_pending:
  assumes "reliable_stream S inp out" and "pending inp ch (m # ms) rest"
  obtains ch' where "same_session ch ch'" "out (ch_stream ch') = out (ch_stream ch)" "pending inp ch' ms rest"
    "\<And>d metas outs info. read_row S d metas outs info ch =
       map_option (\<lambda>(r, err, info1, outs1). (r, err, info1, m, outs1, ch'))
         (process_read_message d (ch_current_caps ch) metas m outs info)"
proof -
  obtain code ch' where r: "channel_read S ch = Some (m, code, ch')" "\<not> failed code" "same_session ch ch'"
    "out (ch_stream ch') = out (ch_stream ch)" "pending inp ch' ms rest"
    using channel_read_pending [OF assms] by blast
  moreover have "ch_current_caps ch' = ch_current_caps ch" using r(3) by (simp add: same_session_def)
  ultimately show ?thesis using that [of ch'] by (simp add: read_row_def)
qed

text \<open>A valid resultset whose rows are being read with one of the two deserializers.\<close>

definition rs_reading :: "resultset \<Rightarrow> row_fn \<Rightarrow> bool" where
  "rs_reading rs d \<longleftrightarrow> rs_valid rs \<and> \<not> rs_complete rs \<and> rs_deserializer rs = Some d"

lemma rs_reading_unchanged: "rs_reading rs d \<Longrightarrow> rs\<lparr>rs_eof_received := False\<rparr> = rs"
  by (simp add: rs_reading_def rs_complete_def)

lemma fetch_many_reading: "rs_reading rs d \<Longrightarrow> fetch_many S n rs ch = fetch_loop S d n empty_info rs ch"
  by (simp add: fetch_many_def rs_reading_def)

text \<open>
  What fetching may return: rows of values good for their columns, on an incomplete or completed
  resultset with the same metadata and deserializer.
\<close>

definition fetch_outcome ::
    "('s \<Rightarrow> bytes) \<Rightarrow> ('s \<Rightarrow> (bool \<times> bytes) list) \<Rightarrow> (field_metadata \<Rightarrow> mysql_value \<Rightarrow> bool) \<Rightarrow> nat \<Rightarrow> resultset \<Rightarrow> 's channel \<Rightarrow>
     (owning_row list \<times> error_code \<times> error_info \<times> resultset \<times> 's channel) option \<Rightarrow> bool" where
  "fetch_outcome inp out good n rs ch res \<longleftrightarrow>
     (\<exists>rows err info rs' ch'. res = Some (rows, err, info, rs', ch') \<and> progress inp out ch ch' \<and>
        length rows \<le> n \<and> (\<forall>(vs, buffer) \<in> set rows. list_all2 good (rs_fields rs) vs) \<and>
        rs_fields rs' = rs_fields rs \<and> rs_deserializer rs' = rs_deserializer rs \<and> rs_valid rs' = rs_valid rs \<and>
        (rs_complete rs' \<longrightarrow> \<not> failed err))"

context row_protocol
begin

lemma read_row_total:
  assumes "byte_stream S inp out" and "channel_wf ch"
  shows "\<exists>result err info' buffer outs' ch'.
    read_row S fn metas outs info ch = Some (result, err, info', buffer, outs', ch') \<and> progress inp out ch ch' \<and>
    (result = Row_row \<longrightarrow> list_all2 good metas (ro_values outs')) \<and> (result = Row_eof \<longrightarrow> err = no_error)"
proof -
  obtain buf code ch1 where r: "channel_read S ch = Some (buf, code, ch1)" "progress inp out ch ch1"
    using channel_read_progress [OF assms] by blast
  obtain result err info' outs' where
    p: "process_read_message fn (ch_current_caps ch1) metas buf outs info = Some (result, err, info', outs')"
      "result = Row_row \<Longrightarrow> list_all2 good metas (ro_values outs')"
    using process_read_good [of "ch_current_caps ch1" metas buf outs info] by blast
  have "result = Row_eof \<Longrightarrow> err = no_error"
    using p(1) by (auto simp: process_read_message_def split: sum.splits prod.splits if_splits option.splits)
  then show ?thesis
    using r p by (cases "failed code") (simp_all add: read_row_def)
qed

lemma fetch_loop_total:
  assumes "byte_stream S inp out" and "channel_wf ch" and "\<not> rs_complete rs"
  shows "fetch_outcome inp out good n rs ch (fetch_loop S fn n info rs ch)"
  using assms(2,3)
proof (induction n arbitrary: info rs ch)
  case 0
  then show ?case by (auto simp: fetch_outcome_def progress_refl)
next
  case (Suc n)
  obtain result err info1 buffer outs ch1 where
    r: "read_row S fn (rs_fields rs) \<lparr>ro_values = [], ro_ok_packet = rs_ok_packet rs\<rparr> info ch
          = Some (result, err, info1, buffer, outs, ch1)" "progress inp out ch ch1"
      "result = Row_row \<longrightarrow> list_all2 good (rs_fields rs) (ro_values outs)" "result = Row_eof \<longrightarrow> err = no_error"
    using read_row_total [OF assms(1) Suc.prems(1)] by blast
  let ?rs = "rs\<lparr>rs_ok_packet := ro_ok_packet outs, rs_eof_received := (result = Row_eof)\<rparr>"
  have rs: "rs_fields ?rs = rs_fields rs" "rs_deserializer ?rs = rs_deserializer rs" "rs_valid ?rs = rs_valid rs" by (simp_all add: rs_fields_def)
  show ?case
  proof (cases "result = Row_row")
    case True
    have wf: "channel_wf ch1" using r(2) by (simp add: progress_def)
    have "\<not> rs_complete ?rs" using True by (simp add: rs_complete_def)
    from Suc.IH [OF wf this, of info1] obtain rows err' info' rs' ch' where
      "fetch_loop S fn n info1 ?rs ch1 = Some (rows, err', info', rs', ch')" "progress inp out ch1 ch'"
      "length rows \<le> n" "\<forall>(vs, buffer) \<in> set rows. list_all2 good (rs_fields ?rs) vs"
      "rs_fields rs' = rs_fields ?rs" "rs_deserializer rs' = rs_deserializer ?rs" "rs_valid rs' = rs_valid ?rs" "rs_complete rs' \<longrightarrow> \<not> failed err'"
      unfolding fetch_outcome_def by blast
    then show ?thesis
      using r True progress_trans [OF r(2)] unfolding fetch_outcome_def rs by (simp add: Let_def)
  next
    case False
    then show ?thesis
      using r rs unfolding fetch_outcome_def by (simp add: rs_complete_def)
  qed
qed

lemma fetch_many_total:
  assumes "byte_stream S inp out" and "channel_wf ch" and "rs_reading rs fn"
  shows "fetch_outcome inp out good n rs ch (fetch_many S n rs ch)"
  unfolding fetch_many_reading [OF assms(3)]
  using fetch_loop_total [OF assms(1,2)] assms(3) by (simp add: rs_reading_def)

lemma fetch_loop_rows:
  assumes "reliable_stream S inp out" and "rs_reading rs fn"
    and "pending inp ch (map (enc (ch_current_caps ch) (rs_fields rs)) rows @ ms) rest"
    and "\<forall>r \<in> set rows. ok (rs_fields rs) r"
  shows "\<exists>ch'. same_session ch ch' \<and> out (ch_stream ch') = out (ch_stream ch) \<and> pending inp ch' ms rest \<and>
    fetch_loop S fn (length rows + n) info rs ch =
      map_option (\<lambda>(rows', r). (map (\<lambda>r. (vals (rs_fields rs) r, enc (ch_current_caps ch) (rs_fields rs) r)) rows @ rows', r))
        (fetch_loop S fn n info rs ch')"
  using assms(3,4)
proof (induction rows arbitrary: ch)
  case Nil
  then show ?case by (intro exI [of _ ch]) (simp add: case_prod_beta' map_option.identity)
next
  case (Cons r rows)
  let ?enc = "enc (ch_current_caps ch) (rs_fields rs)"
  have pend: "pending inp ch (?enc r # map ?enc rows @ ms) rest" using Cons.prems(1) by simp
  obtain ch1 where ch1: "same_session ch ch1" "out (ch_stream ch1) = out (ch_stream ch)"
      "pending inp ch1 (map ?enc rows @ ms) rest"
    and rd: "\<And>d metas outs info. read_row S d metas outs info ch =
       map_option (\<lambda>(r', err, info1, outs1). (r', err, info1, ?enc r, outs1, ch1))
         (process_read_message d (ch_current_caps ch) metas (?enc r) outs info)"
    using read_row_pending [OF assms(1) pend] by blast
  have caps: "ch_current_caps ch1 = ch_current_caps ch" using ch1(1) by (simp add: same_session_def)
  have "ok (rs_fields rs) r" and oks: "\<forall>r \<in> set rows. ok (rs_fields rs) r" using Cons.prems(2) by simp_all
  note row = process_row [OF this(1), of "ch_current_caps ch"]
  have "pending inp ch1 (map (enc (ch_current_caps ch1) (rs_fields rs)) rows @ ms) rest" using ch1(3) caps by simp
  from Cons.IH [OF this oks] obtain ch' where ch': "same_session ch1 ch'"
      "out (ch_stream ch') = out (ch_stream ch1)" "pending inp ch' ms rest"
    and lp: "fetch_loop S fn (length rows + n) info rs ch1 =
      map_option (\<lambda>(rows', r). (map (\<lambda>r. (vals (rs_fields rs) r, ?enc r)) rows @ rows', r)) (fetch_loop S fn n info rs ch')"
    unfolding caps by blast
  have "fetch_loop S fn (length (r # rows) + n) info rs ch =
      map_option (\<lambda>(rows', r'). ((vals (rs_fields rs) r, ?enc r) # rows', r')) (fetch_loop S fn (length rows + n) info rs ch1)"
    by (simp add: rd row Let_def rs_reading_unchanged [OF assms(2)])
  also have "\<dots> = map_option (\<lambda>(rows', r'). (map (\<lambda>r. (vals (rs_fields rs) r, ?enc r)) (r # rows) @ rows', r'))
      (fetch_loop S fn n info rs ch')"
    by (simp add: lp option.map_comp comp_def case_prod_beta')
  finally show ?case
    using ch1 ch' same_session_trans [OF ch1(1) ch'(1)] by (intro exI [of _ ch']) simp
qed

lemma fetch_many_last:
  assumes "reliable_stream S inp out" and "rs_reading rs fn"
    and "pending inp ch (map (enc (ch_current_caps ch) (rs_fields rs)) rows @ [m]) rest"
    and "\<forall>r \<in> set rows. ok (rs_fields rs) r" and "length rows < n"
    and "process_read_message fn (ch_current_caps ch) (rs_fields rs) m
      \<lparr>ro_values = [], ro_ok_packet = rs_ok_packet rs\<rparr> empty_info = Some (result, err, info, outs)"
    and "result \<noteq> Row_row"
  shows "\<exists>ch'. same_session ch ch' \<and> out (ch_stream ch') = out (ch_stream ch) \<and> pending inp ch' [] rest \<and>
    fetch_many S n rs ch =
      Some (map (\<lambda>r. (vals (rs_fields rs) r, enc (ch_current_caps ch) (rs_fields rs) r)) rows, err, info,
        rs\<lparr>rs_ok_packet := ro_ok_packet outs, rs_eof_received := (result = Row_eof)\<rparr>, ch')"
proof -
  obtain k where k: "n = length rows + Suc k" using assms(5) by (metis add_Suc_right less_imp_Suc_add)
  obtain ch1 where ch1: "same_session ch ch1" "out (ch_stream ch1) = out (ch_stream ch)" "pending inp ch1 [m] rest"
      "fetch_loop S fn (length rows + Suc k) empty_info rs ch =
        map_option (\<lambda>(rows', r). (map (\<lambda>r. (vals (rs_fields rs) r, enc (ch_current_caps ch) (rs_fields rs) r)) rows @ rows', r))
          (fetch_loop S fn (Suc k) empty_info rs ch1)"
    using fetch_loop_rows [OF assms(1-4), of "Suc k" empty_info] by blast
  obtain ch2 where ch2: "same_session ch1 ch2" "out (ch_stream ch2) = out (ch_stream ch1)" "pending inp ch2 [] rest"
      "\<And>d metas outs info. read_row S d metas outs info ch1 =
       map_option (\<lambda>(r, err, info1, outs1). (r, err, info1, m, outs1, ch2))
         (process_read_message d (ch_current_caps ch1) metas m outs info)"
    using read_row_pending [OF assms(1) ch1(3)] by blast
  have "ch_current_caps ch1 = ch_current_caps ch" using ch1(1) by (simp add: same_session_def)
  then show ?thesis
    using same_session_trans [OF ch1(1) ch2(1)] ch1 ch2 assms(6,7)
    by (intro exI [of _ ch2]) (simp add: k fetch_many_reading [OF assms(2)] Let_def)
qed

lemma fetch_many_some:
  assumes "reliable_stream S inp out" and "rs_reading rs fn"
    and "pending inp ch (map (enc (ch_current_caps ch) (rs_fields rs)) rows @ ms) rest"
    and "\<forall>r \<in> set rows. ok (rs_fields rs) r"
  shows "\<exists>ch'. same_session ch ch' \<and> out (ch_stream ch') = out (ch_stream ch) \<and> pending inp ch' ms rest \<and>
    fetch_many S (length rows) rs ch =
      Some (map (\<lambda>r. (vals (rs_fields rs) r, enc (ch_current_caps ch) (rs_fields rs) r)) rows, no_error, empty_info, rs, ch')"
  using fetch_loop_rows [OF assms, of 0 empty_info] by (auto simp: fetch_many_reading [OF assms(2)])

lemma fetch_many_rows:
  assumes "reliable_stream S inp out" and "rs_reading rs fn"
    and "pending inp ch (map (enc (ch_current_caps ch) (rs_fields rs)) rows @ [eof_message p]) rest"
    and "\<forall>r \<in> set rows. ok (rs_fields rs) r" and "in_memory (ok_info p)"
  shows "\<exists>ch'. same_session ch ch' \<and> out (ch_stream ch') = out (ch_stream ch) \<and>
    pending inp ch' (if length rows < n then [] else map (enc (ch_current_caps ch) (rs_fields rs)) (drop n rows) @ [eof_message p]) rest \<and>
    fetch_many S n rs ch =
      Some (map (\<lambda>r. (vals (rs_fields rs) r, enc (ch_current_caps ch) (rs_fields rs) r)) (take n rows), no_error, empty_info,
        if length rows < n then rs\<lparr>rs_ok_packet := p, rs_eof_received := True\<rparr> else rs, ch')"
proof (cases "length rows < n")
  case True
  then show ?thesis
    using fetch_many_last [OF assms(1-4) True process_read_eof [OF assms(5)]] by simp
next
  case False
  have "pending inp ch (map (enc (ch_current_caps ch) (rs_fields rs)) (take n rows) @ (map (enc (ch_current_caps ch) (rs_fields rs)) (drop n rows) @ [eof_message p])) rest"
    using assms(3) by (simp flip: map_append append_assoc)
  moreover have "\<forall>r \<in> set (take n rows). ok (rs_fields rs) r" using assms(4) by (meson in_set_takeD)
  ultimately show ?thesis using fetch_many_some [OF assms(1,2), of ch "take n rows"] False by (simp add: min_absorb2)
qed

end

section \<open>Fetching in parts\<close>

lemma process_read_row_result:
  "process_read_message d caps metas m outs info = Some (Row_row, err, info1, outs1) \<Longrightarrow>
   err = no_error \<and> info1 = info \<and> ro_ok_packet outs1 = ro_ok_packet outs"
  by (auto simp: process_read_message_def split: sum.splits prod.splits if_splits option.splits)

lemma read_row_row_result:
  "read_row S d metas outs info ch = Some (Row_row, err, info1, buffer, outs1, ch1) \<Longrightarrow>
   err = no_error \<and> info1 = info \<and> ro_ok_packet outs1 = ro_ok_packet outs"
  by (auto simp: read_row_def bind_eq_Some_conv dest: process_read_row_result split: if_splits prod.splits)

lemma fetch_loop_full:
  "fetch_loop S d n info rs ch = Some (rows, err, info1, rs1, ch1) \<Longrightarrow> length rows = n \<Longrightarrow> \<not> rs_complete rs \<Longrightarrow>
   err = no_error \<and> info1 = info \<and> rs1 = rs"
proof (induction n arbitrary: info rs ch rows)
  case (Suc n)
  obtain result err' info' buffer outs ch' where
    r: "read_row S d (rs_fields rs) \<lparr>ro_values = [], ro_ok_packet = rs_ok_packet rs\<rparr> info ch
          = Some (result, err', info', buffer, outs, ch')"
    using Suc.prems(1) by (auto simp: bind_eq_Some_conv)
  have row: "result = Row_row" using Suc.prems(1,2) r by (auto simp: Let_def split: if_splits)
  have eq: "info' = info" "ro_ok_packet outs = rs_ok_packet rs" using read_row_row_result r row by force+
  have "rs\<lparr>rs_eof_received := False\<rparr> = rs" using Suc.prems(3) by (simp add: rs_complete_def)
  then obtain rows' where "fetch_loop S d n info rs ch' = Some (rows', err, info1, rs1, ch1)" "length rows' = n"
    using Suc.prems(1,2) r row eq by (auto simp: Let_def)
  then show ?case using Suc.IH Suc.prems(3) by blast
qed simp

lemma fetch_loop_length:
  "fetch_loop S d n info rs ch = Some (rows, err, info1, rs1, ch1) \<Longrightarrow> length rows \<le> n"
  by (induction n arbitrary: info rs ch rows) (auto simp: bind_eq_Some_conv Let_def split: if_splits)

lemma fetch_loop_split:
  "fetch_loop S d (m + n) info rs ch =
    Option.bind (fetch_loop S d m info rs ch) (\<lambda>(rows, err, info1, rs1, ch1).
      if length rows < m then Some (rows, err, info1, rs1, ch1)
      else map_option (\<lambda>(rows', r). (rows @ rows', r)) (fetch_loop S d n info1 rs1 ch1))"
proof (induction m arbitrary: info rs ch)
  case 0
  then show ?case by (simp add: case_prod_beta' map_option.identity)
next
  case (Suc m)
  show ?case
    by (cases "read_row S d (rs_fields rs) \<lparr>ro_values = [], ro_ok_packet = rs_ok_packet rs\<rparr> info ch")
      (auto simp: Suc.IH Let_def option.map_comp comp_def case_prod_beta' bind_map_option map_option_bind
        intro!: Option.bind_cong [OF refl])
qed

lemma fetch_many_split_reading:
  assumes "rs_reading rs d"
  shows "fetch_many S (m + n) rs ch =
    Option.bind (fetch_many S m rs ch) (\<lambda>(rows, err, info, rs1, ch1).
      if length rows < m then Some (rows, err, info, rs1, ch1)
      else map_option (\<lambda>(rows', r). (rows @ rows', r)) (fetch_many S n rs1 ch1))"
proof (cases "fetch_loop S d m empty_info rs ch")
  case None
  then show ?thesis by (simp add: fetch_many_reading [OF assms] fetch_loop_split)
next
  case (Some r)
  obtain rows err info rs1 ch1 where r: "r = (rows, err, info, rs1, ch1)" by (cases r)
  have "rs1 = rs \<and> info = empty_info" if "\<not> length rows < m"
  proof -
    have "length rows = m" using that fetch_loop_length [OF Some [unfolded r]] by simp
    then show ?thesis using fetch_loop_full [OF Some [unfolded r]] assms by (simp add: rs_reading_def)
  qed
  then show ?thesis using Some r by (simp add: fetch_many_reading [OF assms] fetch_loop_split)
qed

lemma process_read_values:
  "process_read_message d caps metas m \<lparr>ro_values = vs, ro_ok_packet = p\<rparr> info =
    map_option (\<lambda>(result, err, info1, outs). (result, err, info1, if result = Row_row then outs else outs\<lparr>ro_values := vs\<rparr>))
      (process_read_message d caps metas m \<lparr>ro_values = [], ro_ok_packet = p\<rparr> info)"
  by (auto simp: process_read_message_def split: sum.split prod.split option.split)

text \<open>What a caller can see of a fetch: the row or rows, the error, and the state of the resultset.\<close>

definition fetch_one_view ::
    "(mysql_value list option \<times> error_code \<times> error_info \<times> resultset \<times> 's channel) option \<Rightarrow>
     (mysql_value list option \<times> error_code \<times> error_info \<times> ok_packet \<times> bool \<times> 's channel) option" where
  "fetch_one_view = map_option (\<lambda>(row, err, info, rs, ch). (row, err, info, rs_ok_packet rs, rs_complete rs, ch))"

definition fetch_many_view ::
    "(owning_row list \<times> error_code \<times> error_info \<times> resultset \<times> 's channel) option \<Rightarrow>
     (mysql_value list option \<times> error_code \<times> error_info \<times> ok_packet \<times> bool \<times> 's channel) option" where
  "fetch_many_view = map_option (\<lambda>(rows, err, info, rs, ch).
     (case rows of [] \<Rightarrow> None | (vs, _) # _ \<Rightarrow> Some vs, err, info, rs_ok_packet rs, rs_complete rs, ch))"

lemma read_row_values:
  "read_row S d metas \<lparr>ro_values = vs, ro_ok_packet = p\<rparr> info ch =
    map_option (\<lambda>(result, err, info1, buffer, outs, ch1).
        (result, err, info1, buffer, if result = Row_row then outs else outs\<lparr>ro_values := vs\<rparr>, ch1))
      (read_row S d metas \<lparr>ro_values = [], ro_ok_packet = p\<rparr> info ch)"
proof (cases "channel_read S ch")
  case (Some r)
  obtain buf code ch1 where "r = (buf, code, ch1)" by (cases r)
  then show ?thesis
    using Some
    by (cases "process_read_message d (ch_current_caps ch1) metas buf \<lparr>ro_values = [], ro_ok_packet = p\<rparr> info")
      (auto simp: read_row_def process_read_values [of d _ metas _ vs])
qed (simp add: read_row_def)

lemma fetch_one_many:
  assumes "rs_complete rs \<or> rs_reading rs d"
  shows "fetch_one_view (fetch_one S rs ch) = fetch_many_view (fetch_many S 1 rs ch)"
proof (cases "rs_complete rs")
  case True
  then show ?thesis by (simp add: fetch_one_view_def fetch_many_view_def fetch_one_def fetch_many_def)
next
  case False
  then have d: "rs_deserializer rs = Some d" and valid: "rs_valid rs" using assms by (simp_all add: rs_reading_def)
  let ?r = "read_row S d (rs_fields rs) \<lparr>ro_values = [], ro_ok_packet = rs_ok_packet rs\<rparr> empty_info ch"
  have one: "fetch_one S rs ch = map_option (\<lambda>(result, err, info, buffer, outs, ch1).
      (if result = Row_row then Some (ro_values outs) else None, err, info,
       rs\<lparr>rs_buffer := buffer, rs_current_row := ro_values outs, rs_ok_packet := ro_ok_packet outs,
          rs_eof_received := (result = Row_eof)\<rparr>, ch1))
    (map_option (\<lambda>(result, err, info1, buffer, outs, ch1).
        (result, err, info1, buffer, if result = Row_row then outs else outs\<lparr>ro_values := rs_current_row rs\<rparr>, ch1)) ?r)"
    using False d valid by (simp add: fetch_one_def read_row_values [where vs = "rs_current_row rs"])
  show ?thesis
  proof (cases ?r)
    case (Some x)
    obtain result err info1 buffer outs ch1 where x: "x = (result, err, info1, buffer, outs, ch1)" by (cases x)
    have "result = Row_row \<Longrightarrow> err = no_error" using Some x read_row_row_result by blast
    then show ?thesis
      using False d valid Some x
      by (simp add: one fetch_one_view_def fetch_many_view_def fetch_many_def rs_complete_def)
  qed (use False d valid in \<open>simp add: one fetch_one_view_def fetch_many_view_def fetch_many_def\<close>)
qed

section \<open>Properties\<close>

definition sample_lexical :: lexical_lib where
  "sample_lexical = \<lparr>lexical_uint64 = \<lambda>_. None, lexical_int64 = \<lambda>_. None, lexical_float = \<lambda>_. None, lexical_double = \<lambda>_. None\<rparr>"

definition sample_resultset :: resultset where
  "sample_resultset =
     resultset_with_fields \<lparr>rm_buffers = [], rm_fields = [varchar_column]\<rparr> (text_row_fn sample_lexical gregorian)"

lemma sample_resultset_reading [simp]:
  "rs_reading sample_resultset (text_row_fn sample_lexical gregorian)" "rs_fields sample_resultset = [varchar_column]"
  by (simp_all add: sample_resultset_def resultset_with_fields_def default_resultset_def rs_reading_def rs_complete_def rs_fields_def)

lemma sample_peer_caps [simp]: "ch_current_caps (sample_peer bs) = caps_of 0"
  by (simp add: sample_peer_def make_channel_def)

lemma default_ok_info [simp]: "in_memory (ok_info default_ok_packet)"
  by (simp add: default_ok_packet_def in_memory_def)

lemma pending_sample [simp]: "pending scr_in (sample_peer (frames_list 0 ms)) ms []"
  by (simp add: pending_def) (simp add: sample_peer_def make_channel_def)

lemma sample_text_row_ok [simp]:
  "length s < 251 \<Longrightarrow> text_row_ok sample_lexical gregorian [varchar_column] [Some s]"
  by (simp add: text_row_ok_def in_memory_def size_t_max_def deserialize_text_value.simps varchar_column_def
      fm_protocol_type_def field_metadata_of_def sample_column_def deserialize_text_value_string_def)

lemma sample_text_row_values [simp]:
  "text_row_values sample_lexical gregorian [varchar_column] [Some s] = [V_string s]"
  by (simp add: text_row_values_def deserialize_text_value.simps varchar_column_def
      fm_protocol_type_def field_metadata_of_def sample_column_def deserialize_text_value_string_def)

text \<open>
  C20: an error packet after some of the rows of a query or a prepared statement: a \<open>fetch_many\<close> that
  asks for more rows than came before it consumes rows and packet, returns those rows, in order and in full,
  with the error code and message of the server, and leaves the resultset as it was, not complete.
\<close>
theorem fetch_many_error_packet:
  assumes "reliable_stream S inp out" and "rs_reading rs (format_row_fn L D f)"
    and "pending inp ch (map (enc_server_row D (ch_current_caps ch) (rs_fields rs)) rows @ [error_message e]) rest"
    and "\<forall>r \<in> set rows. server_row_ok L D f (rs_fields rs) r" and "length rows < count" and "err_packet_wf e"
  shows "\<exists>ch'. same_session ch ch' \<and> out (ch_stream ch') = out (ch_stream ch) \<and> pending inp ch' [] rest \<and>
    \<not> rs_complete rs \<and>
    fetch_many S count rs ch =
      Some (map (\<lambda>r. (server_row_values L D (rs_fields rs) r, enc_server_row D (ch_current_caps ch) (rs_fields rs) r)) rows,
        make_error_code (Errc (uint (err_error_code e))), \<lparr>ei_msg = err_error_message e\<rparr>, rs, ch')"
  using server_rows.fetch_many_last [OF assms(1-5) process_read_error [OF assms(6)]] rs_reading_unchanged [OF assms(2)]
    assms(2) by (simp add: rs_reading_def)

lemma fetch_many_error_packet_witness:
  "\<exists>ch' e. fetch_many scripted_stream 3 sample_resultset
      (sample_peer (frames_list 0 [enc_text_row (caps_of 0) [Some []], error_message (err_packet_of (1317, [0x23], [1, 2, 3, 4, 5], [0x78], ()))]))
    = Some ([([V_string []], e)], make_error_code (Errc 1317), \<lparr>ei_msg = [0x78]\<rparr>, sample_resultset, ch')"
proof -
  have reading: "rs_reading sample_resultset (format_row_fn sample_lexical gregorian Text_format)"
    by (simp add: format_row_fn_def sample_resultset_reading)
  show ?thesis
    using fetch_many_error_packet [OF scripted_reliable reading, of
      "sample_peer (frames_list 0 [enc_text_row (caps_of 0) [Some []], error_message (err_packet_of (1317, [0x23], [1, 2, 3, 4, 5], [0x78], ()))])"
      "[Text_row [Some []]]" "err_packet_of (1317, [0x23], [1, 2, 3, 4, 5], [0x78], ())" "[]" 3]
    by (simp add: err_packet_wf_def err_packet_of_def enc_server_row_def server_row_ok_def server_row_values_def
        del: frames_list.simps) blast
qed

text \<open>
  Fetching in parts is fetching at once, on any stream: \<open>fetch_many(m + n)\<close> is \<open>fetch_many(m)\<close>
  followed by \<open>fetch_many(n)\<close>, unless the first ran out of rows or failed, and then its result is
  the result.
\<close>
theorem fetch_many_split:
  assumes "rs_reading rs d"
  shows "fetch_many S (m + n) rs ch =
    Option.bind (fetch_many S m rs ch) (\<lambda>(rows, err, info, rs1, ch1).
      if length rows < m then Some (rows, err, info, rs1, ch1)
      else map_option (\<lambda>(rows', r). (rows @ rows', r)) (fetch_many S n rs1 ch1))"
  by (rule fetch_many_split_reading [OF assms])

lemma fetch_many_split_witness:
  "fetch_many scripted_stream 3 sample_resultset (sample_peer []) =
    Option.bind (fetch_many scripted_stream 1 sample_resultset (sample_peer [])) (\<lambda>(rows, err, info, rs1, ch1).
      if length rows < 1 then Some (rows, err, info, rs1, ch1)
      else map_option (\<lambda>(rows', r). (rows @ rows', r)) (fetch_many scripted_stream 2 rs1 ch1))"
  using fetch_many_split [OF sample_resultset_reading(1), of scripted_stream 1 2 "sample_peer []"]
  by (simp only: one_plus_numeral semiring_norm)

text \<open>
  \<open>fetch_one\<close> shows a caller the same as \<open>fetch_many\<close> asked for one row: the row or none, the
  error and its message, the OK packet and whether the resultset is complete.
\<close>
theorem fetch_one_as_fetch_many:
  assumes "rs_complete rs \<or> rs_reading rs d"
  shows "fetch_one_view (fetch_one S rs ch) = fetch_many_view (fetch_many S 1 rs ch)"
  by (rule fetch_one_many [OF assms])

lemma fetch_one_as_fetch_many_witness:
  "fetch_one_view (fetch_one scripted_stream sample_resultset (sample_peer []))
     = fetch_many_view (fetch_many scripted_stream 1 sample_resultset (sample_peer []))"
  using fetch_one_as_fetch_many [OF disjI2 [OF sample_resultset_reading(1)]] .

text \<open>
  C21: fetching any number of rows in either protocol returns, whatever the peer sends, as long as what
  it sends is finite: at most that many rows, each with one value per column of the kind and range
  of the column, and the resultset keeps its metadata and is complete only without an error.
\<close>
theorem fetch_many_returns:
  assumes "byte_stream S inp out" and "channel_wf ch"
    and "rs_reading rs (text_row_fn L D) \<or> rs_reading rs (binary_row_fn D)"
  shows "fetch_outcome inp out (binary_value_ok D) count rs ch (fetch_many S count rs ch)"
  using assms(3) text_rows.fetch_many_total [OF assms(1,2)] binary_rows.fetch_many_total [OF assms(1,2)] by blast

lemma fetch_many_returns_witness:
  "fetch_outcome scr_in scr_out (binary_value_ok gregorian) size_t_max sample_resultset (sample_peer [3, 0, 0, 0, 0xfe])
     (fetch_many scripted_stream size_t_max sample_resultset (sample_peer [3, 0, 0, 0, 0xfe]))"
  using fetch_many_returns [OF scripted_byte_stream sample_peer_wf disjI1 [OF sample_resultset_reading(1)]] .

text \<open>
  A text row whose first cell has 16 MB or more begins with the header byte of an EOF packet and is
  never read as a row: the resultset ends early or reports an error.
\<close>
theorem large_first_cell_not_row:
  assumes "2 ^ 24 \<le> length s" and "in_memory s"
    and "process_read_message d caps metas (enc_text_row caps (Some s # cells)) outs info = Some (result, r)"
  shows "result \<noteq> Row_row"
proof -
  have "\<not> (of_nat (length s) :: u64) < 251" "\<not> (of_nat (length s) :: u64) < 0x10000"
    "\<not> (of_nat (length s) :: u64) < 0x1000000"
    using assms(1,2) by (simp_all add: word_less_nat_alt)
  then have "\<exists>bs. enc_text_row caps (Some s # cells) = 0xfe # bs"
    by (simp add: enc_text_row_def enc_text_cell_def enc_string_lenenc_def enc_int_lenenc_def)
  then show ?thesis using process_read_not_row assms(3) by metis
qed

lemma large_first_cell_not_row_witness:
  "\<exists>result r. process_read_message (text_row_fn sample_lexical gregorian) (caps_of 0) [varchar_column]
      (enc_text_row (caps_of 0) [Some (replicate (2 ^ 24) 0)]) \<lparr>ro_values = [], ro_ok_packet = default_ok_packet\<rparr> empty_info
    = Some (result, r) \<and> result \<noteq> Row_row"
proof -
  obtain result err info outs where
    r: "process_read_message (text_row_fn sample_lexical gregorian) (caps_of 0) [varchar_column]
      (enc_text_row (caps_of 0) [Some (replicate (2 ^ 24) 0)]) \<lparr>ro_values = [], ro_ok_packet = default_ok_packet\<rparr> empty_info
    = Some (result, err, info, outs)"
    by (rule text_rows.process_read_good)
  have len: "length (replicate (2 ^ 24) (0 :: u8)) = 2 ^ 24" by (rule length_replicate)
  have "in_memory (replicate (2 ^ 24) 0)" unfolding in_memory_def len by (simp add: size_t_max_def)
  from large_first_cell_not_row [OF eq_refl [OF len [symmetric]] this r] have "result \<noteq> Row_row" .
  with r show ?thesis by (intro exI conjI)
qed

end
