(* ===== verification/Statement_Messages.thy ===== *)
theory Statement_Messages
  imports Binary_Serialization Null_Bitmap
begin

text \<open>
  The messages of text queries and prepared statements (\<open>query_messages.hpp\<close>,
  \<open>prepared_statement_messages.hpp\<close> and its implementation).
\<close>

section \<open>Queries and the preparation of statements\<close>

definition com_query_id :: u8 where
  "com_query_id = 3"

definition serialize_com_query :: "bytes ser" where
  "serialize_com_query = serialize_command com_query_id serialize_string_eof"

definition get_size_com_query :: "bytes sizer" where
  "get_size_com_query = get_size_command get_size_string_eof"

definition com_stmt_prepare_id :: u8 where
  "com_stmt_prepare_id = 0x16"

definition serialize_com_stmt_prepare :: "bytes ser" where
  "serialize_com_stmt_prepare = serialize_command com_stmt_prepare_id serialize_string_eof"

definition get_size_com_stmt_prepare :: "bytes sizer" where
  "get_size_com_stmt_prepare = get_size_command get_size_string_eof"

interpretation com_query: serializer serialize_com_query get_size_com_query "enc_command com_query_id enc_string_eof"
  unfolding serialize_com_query_def get_size_com_query_def
  by (intro serializer_command string_eof.serializer_axioms)

interpretation com_stmt_prepare: serializer serialize_com_stmt_prepare get_size_com_stmt_prepare
    "enc_command com_stmt_prepare_id enc_string_eof"
  unfolding serialize_com_stmt_prepare_def get_size_com_stmt_prepare_def
  by (intro serializer_command string_eof.serializer_axioms)

record com_stmt_prepare_ok_packet =
  sp_statement_id :: u32
  sp_num_columns :: u16
  sp_num_params :: u16
  sp_warning_count :: u16

definition default_prepare_ok :: com_stmt_prepare_ok_packet where
  "default_prepare_ok = \<lparr>sp_statement_id = 0, sp_num_columns = 0, sp_num_params = 0, sp_warning_count = 0\<rparr>"

definition com_stmt_prepare_ok_of :: "u32 \<times> u16 \<times> u16 \<times> u8 \<times> u16 \<times> unit \<Rightarrow> com_stmt_prepare_ok_packet" where
  "com_stmt_prepare_ok_of = (\<lambda>(id, cols, params, _, warns, _).
     \<lparr>sp_statement_id = id, sp_num_columns = cols, sp_num_params = params, sp_warning_count = warns\<rparr>)"

definition deserialize_com_stmt_prepare_ok :: "com_stmt_prepare_ok_packet deser" where
  "deserialize_com_stmt_prepare_ok =
     deserialize_struct com_stmt_prepare_ok_of
       (deserialize_cons (deserialize_fixed_int int4) (deserialize_cons (deserialize_fixed_int int2)
         (deserialize_cons (deserialize_fixed_int int2) (deserialize_cons (deserialize_fixed_int int1)
           (deserialize_cons (deserialize_fixed_int int2) deserialize_nil)))))"

definition com_stmt_prepare_ok_fields :: "com_stmt_prepare_ok_packet \<Rightarrow> u32 \<times> u16 \<times> u16 \<times> u8 \<times> u16 \<times> unit" where
  "com_stmt_prepare_ok_fields p =
     (sp_statement_id p, sp_num_columns p, sp_num_params p, 0, sp_warning_count p, ())"

definition enc_com_stmt_prepare_ok :: "com_stmt_prepare_ok_packet encoding" where
  "enc_com_stmt_prepare_ok caps p =
     le_bytes 4 (sp_statement_id p) @ le_bytes 2 (sp_num_columns p) @ le_bytes 2 (sp_num_params p) @ [0] @
     le_bytes 2 (sp_warning_count p)"

interpretation com_stmt_prepare_ok: prefix_decoder deserialize_com_stmt_prepare_ok enc_com_stmt_prepare_ok "\<lambda>_. True"
proof -
  have d: "prefix_decoder deserialize_com_stmt_prepare_ok
     (enc_struct com_stmt_prepare_ok_fields (enc_cons (enc_fixed_int int4) (enc_cons (enc_fixed_int int2)
       (enc_cons (enc_fixed_int int2) (enc_cons (enc_fixed_int int1) (enc_cons (enc_fixed_int int2) enc_nil))))))
     (\<lambda>p. wf_cons (fits_int int4) (wf_cons (fits_int int2) (wf_cons (fits_int int2) (wf_cons (fits_int int1)
       (wf_cons (fits_int int2) (\<lambda>_. True))))) (com_stmt_prepare_ok_fields p))"
    unfolding deserialize_com_stmt_prepare_ok_def
    by (intro prefix_decoder_struct prefix_decoder_intros)
      (simp add: com_stmt_prepare_ok_of_def com_stmt_prepare_ok_fields_def)
  have e: "enc_struct com_stmt_prepare_ok_fields (enc_cons (enc_fixed_int int4) (enc_cons (enc_fixed_int int2)
       (enc_cons (enc_fixed_int int2) (enc_cons (enc_fixed_int int1) (enc_cons (enc_fixed_int int2) enc_nil)))))
     = enc_com_stmt_prepare_ok"
    by (rule ext)+ (simp add: enc_com_stmt_prepare_ok_def enc_struct_def enc_cons_def enc_nil_def
      enc_fixed_int_def com_stmt_prepare_ok_fields_def)
  show "prefix_decoder deserialize_com_stmt_prepare_ok enc_com_stmt_prepare_ok (\<lambda>_. True)"
    using d unfolding e by (simp add: wf_cons_def)
qed

section \<open>Executing a statement\<close>

text \<open>The range of parameters, two iterators in the code, is a list.\<close>

record com_stmt_execute_packet =
  se_statement_id :: u32
  se_flags :: u8
  se_iteration_count :: u32
  se_new_params_bind_flag :: u8
  se_params :: "mysql_value list"

definition com_stmt_execute_id :: u8 where
  "com_stmt_execute_id = 0x17"

fun get_protocol_field_type :: "mysql_value \<Rightarrow> protocol_field_type" where
  "get_protocol_field_type (V_int64 _) = pft_longlong"
| "get_protocol_field_type (V_uint64 _) = pft_longlong"
| "get_protocol_field_type (V_string _) = pft_varchar"
| "get_protocol_field_type (V_float _) = pft_float"
| "get_protocol_field_type (V_double _) = pft_double"
| "get_protocol_field_type (V_date _) = pft_date"
| "get_protocol_field_type (V_datetime _) = pft_datetime"
| "get_protocol_field_type (V_time _) = pft_time"
| "get_protocol_field_type V_null = pft_null"

definition value_is_unsigned :: "mysql_value \<Rightarrow> bool" where
  "value_is_unsigned v = (case v of V_uint64 _ \<Rightarrow> True | _ \<Rightarrow> False)"

record com_stmt_execute_param_meta_packet =
  pm_type :: protocol_field_type
  pm_unsigned_flag :: u8

definition serialize_param_meta :: "com_stmt_execute_param_meta_packet ser" where
  "serialize_param_meta =
     serialize_struct (\<lambda>p. (pm_type p, pm_unsigned_flag p, ()))
       (serialize_cons (serialize_enum protocol_field_type_byte int1)
         (serialize_cons (serialize_fixed_int int1) serialize_nil))"

definition get_size_param_meta :: "com_stmt_execute_param_meta_packet sizer" where
  "get_size_param_meta =
     get_size_struct (\<lambda>p. (pm_type p, pm_unsigned_flag p, ()))
       (get_size_cons (get_size_enum int1) (get_size_cons (get_size_fixed_int int1) get_size_nil))"

definition param_meta :: "mysql_value \<Rightarrow> com_stmt_execute_param_meta_packet" where
  "param_meta v = \<lparr>pm_type = get_protocol_field_type v, pm_unsigned_flag = (if value_is_unsigned v then 0x80 else 0)\<rparr>"

text \<open>The loops over the parameters: an element at a time, in order.\<close>

fun serialize_each :: "'a ser \<Rightarrow> 'a list ser" where
  "serialize_each s ctx [] = Some ctx"
| "serialize_each s ctx (x # xs) = Option.bind (s ctx x) (\<lambda>ctx1. serialize_each s ctx1 xs)"

text \<open>
  The NULL bitmap is written in place: zeroed with \<open>memset\<close>, its bits set through the cursor,
  and only then skipped.
\<close>

definition sctx_memset_zero :: "nat \<Rightarrow> serialization_context \<Rightarrow> serialization_context option" where
  "sctx_memset_zero n ctx =
     (if sctx_first ctx + n \<le> length (sctx_buffer ctx) \<or> n = 0
      then Some (ctx\<lparr>sctx_buffer := take (sctx_first ctx) (sctx_buffer ctx) @ replicate n 0 @
                       drop (sctx_first ctx + n) (sctx_buffer ctx)\<rparr>)
      else None)"

definition sctx_set_nulls ::
    "null_bitmap_traits \<Rightarrow> bool list \<Rightarrow> serialization_context \<Rightarrow> serialization_context option" where
  "sctx_set_nulls t nulls ctx =
     (case set_nulls t 0 nulls (drop (sctx_first ctx) (sctx_buffer ctx)) of
        None \<Rightarrow> None
      | Some bm \<Rightarrow> Some (ctx\<lparr>sctx_buffer := take (sctx_first ctx) (sctx_buffer ctx) @ bm\<rparr>))"

definition sctx_advance :: "nat \<Rightarrow> serialization_context \<Rightarrow> serialization_context" where
  "sctx_advance n ctx = ctx\<lparr>sctx_first := sctx_first ctx + n\<rparr>"

definition get_size_com_stmt_execute :: "com_stmt_execute_packet sizer" where
  "get_size_com_stmt_execute ctx v =
     (let num_params = length (se_params v)
      in 1 + (get_size_fixed_int int4 ctx (se_statement_id v) + get_size_fixed_int int1 ctx (se_flags v)
              + get_size_fixed_int int4 ctx (se_iteration_count v))
         + byte_count (null_bitmap_of stmt_execute_null_bitmap_offset num_params)
         + get_size_fixed_int int1 ctx (se_new_params_bind_flag v)
         + get_size_param_meta ctx (param_meta V_null) * num_params
         + sum_list (map (get_binary_value_size ctx) (se_params v)))"

text \<open>Both functions assert the number of parameters; the dates among them are asserted to exist.\<close>

definition num_params_asserted :: "com_stmt_execute_packet \<Rightarrow> bool" where
  "num_params_asserted v \<longleftrightarrow> length (se_params v) \<le> 255"

definition serialize_com_stmt_execute :: "date_lib \<Rightarrow> com_stmt_execute_packet ser" where
  "serialize_com_stmt_execute D ctx v =
     (let traits = null_bitmap_of stmt_execute_null_bitmap_offset (length (se_params v))
      in Option.bind
           (serialize_cons (serialize_fixed_int int1) (serialize_cons (serialize_fixed_int int4)
             (serialize_cons (serialize_fixed_int int1) (serialize_cons (serialize_fixed_int int4) serialize_nil)))
             ctx (com_stmt_execute_id, se_statement_id v, se_flags v, se_iteration_count v, ()))
         (\<lambda>c1. Option.bind (sctx_memset_zero (byte_count traits) c1)
         (\<lambda>c2. Option.bind (sctx_set_nulls traits (map is_null (se_params v)) c2)
         (\<lambda>c3. Option.bind (serialize_fixed_int int1 (sctx_advance (byte_count traits) c3) (se_new_params_bind_flag v))
         (\<lambda>c4. Option.bind (serialize_each serialize_param_meta c4 (map param_meta (se_params v)))
         (\<lambda>c5. serialize_each (serialize_binary_value D) c5 (se_params v)))))))"

section \<open>Closing a statement\<close>

definition com_stmt_close_id :: u8 where
  "com_stmt_close_id = 0x19"

definition serialize_com_stmt_close :: "u32 ser" where
  "serialize_com_stmt_close = serialize_command com_stmt_close_id (serialize_fixed_int int4)"

definition get_size_com_stmt_close :: "u32 sizer" where
  "get_size_com_stmt_close = get_size_command (get_size_fixed_int int4)"

interpretation com_stmt_close: serializer serialize_com_stmt_close get_size_com_stmt_close
    "enc_command com_stmt_close_id (enc_fixed_int int4)"
  unfolding serialize_com_stmt_close_def get_size_com_stmt_close_def
  by (intro serializer_command fixed_int.serializer_axioms)

section \<open>The bytes of an execution\<close>

definition enc_com_stmt_execute :: "date_lib \<Rightarrow> com_stmt_execute_packet encoding" where
  "enc_com_stmt_execute D caps v =
     [com_stmt_execute_id] @ le_bytes 4 (se_statement_id v) @ [se_flags v] @ le_bytes 4 (se_iteration_count v) @
     null_bitmap_bytes (null_bitmap_of 0 (length (se_params v))) (map is_null (se_params v)) @
     [se_new_params_bind_flag v] @
     concat (map (\<lambda>p. [protocol_field_type_byte (get_protocol_field_type p), if value_is_unsigned p then 0x80 else 0]) (se_params v)) @
     concat (map (enc_binary_value D caps) (se_params v))"

lemma serialize_each_write_on:
  assumes "\<And>ctx x. x \<in> set xs \<Longrightarrow> s ctx x = sctx_write (e (sctx_caps ctx) x) ctx"
  shows "serialize_each s ctx xs = sctx_write (concat (map (e (sctx_caps ctx)) xs)) ctx"
  using assms
proof (induction xs arbitrary: ctx)
  case (Cons x xs)
  have "serialize_each s ctx (x # xs) = Option.bind (sctx_write (e (sctx_caps ctx) x) ctx)
      (sctx_write (concat (map (e (sctx_caps ctx)) xs)))"
    by (cases "sctx_write (e (sctx_caps ctx) x) ctx")
      (auto simp: Cons.prems Cons.IH dest: sctx_write_caps)
  then show ?case by (simp add: sctx_write_append)
qed simp

lemma serialize_param_meta_write:
  "serialize_param_meta ctx p = sctx_write [protocol_field_type_byte (pm_type p), pm_unsigned_flag p] ctx"
proof -
  have "serialize_param_meta ctx p = serialize_cons (serialize_fixed_int int1)
      (serialize_cons (serialize_fixed_int int1) serialize_nil) ctx
      (protocol_field_type_byte (pm_type p), pm_unsigned_flag p, ())"
    by (simp add: serialize_param_meta_def serialize_struct_def serialize_cons_def serialize_enum_def
        split: option.split)
  then show ?thesis by (simp add: enc_simps sctx_write_append)
qed

text \<open>
  Zeroing, marking and skipping the bitmap in place is the same as writing the finished bitmap.
\<close>

lemma sctx_null_bitmap_write:
  assumes "length nulls = nb_num_fields t"
  shows "Option.bind (sctx_memset_zero (byte_count t) ctx)
      (\<lambda>c2. Option.bind (sctx_set_nulls t nulls c2) (\<lambda>c3. f (sctx_advance (byte_count t) c3)))
    = Option.bind (sctx_write (null_bitmap_bytes t nulls) ctx) f"
proof (cases "sctx_first ctx + byte_count t \<le> length (sctx_buffer ctx) \<or> byte_count t = 0")
  case False
  have "length (null_bitmap_bytes t nulls) = byte_count t" by (rule null_bitmap_bytes [OF assms])
  then show ?thesis using False by (auto simp: sctx_memset_zero_def sctx_write_def Let_def)
next
  case True
  let ?n = "byte_count t" and ?i = "sctx_first ctx" and ?b = "sctx_buffer ctx"
  note bm = null_bitmap_bytes [OF assms]
  have "sctx_set_nulls t nulls (ctx\<lparr>sctx_buffer := take ?i ?b @ replicate ?n 0 @ drop (?i + ?n) ?b\<rparr>)
    = Some (ctx\<lparr>sctx_buffer := take ?i ?b @ null_bitmap_bytes t nulls @ drop (?i + ?n) ?b\<rparr>)"
  proof (cases "?n = 0")
    case z: True
    then have "nulls = []" using assms by (simp add: byte_count_def div_eq_0_iff flip: length_0_conv)
    then show ?thesis using bm z by (simp add: sctx_set_nulls_def)
  next
    case False
    then have "?i \<le> length ?b" using True by linarith
    then have "drop ?i (take ?i ?b @ replicate ?n 0 @ drop (?i + ?n) ?b) = replicate ?n 0 @ drop (?i + ?n) ?b"
      "take ?i (take ?i ?b @ replicate ?n 0 @ drop (?i + ?n) ?b) = take ?i ?b" by simp_all
    then show ?thesis using bm(1) assms by (simp add: sctx_set_nulls_def set_nulls_append)
  qed
  moreover have "null_bitmap_bytes t nulls = [] \<longleftrightarrow> ?n = 0" using bm(2) by auto
  ultimately show ?thesis
    using True bm(2) by (auto simp: sctx_memset_zero_def sctx_write_def sctx_advance_def Let_def)
qed

lemma serialize_each_aborts: "x \<in> set xs \<Longrightarrow> (\<And>ctx. s ctx x = None) \<Longrightarrow> serialize_each s ctx xs = None"
  by (induction xs arbitrary: ctx) (auto simp: bind_eq_None_conv)

text \<open>The parameters whose serialization fails no assertion.\<close>

definition params_asserted :: "date_lib \<Rightarrow> com_stmt_execute_packet \<Rightarrow> bool" where
  "params_asserted D v \<longleftrightarrow> (\<forall>p \<in> set (se_params v). binary_value_asserted D p)"

interpretation com_stmt_execute: guarded_serializer "serialize_com_stmt_execute D" get_size_com_stmt_execute
    "enc_com_stmt_execute D" "params_asserted D" for D
proof
  fix ctx :: serialization_context and v :: com_stmt_execute_packet
  assume "\<not> params_asserted D v"
  then obtain p where "p \<in> set (se_params v)" "\<not> binary_value_asserted D p" by (auto simp: params_asserted_def)
  then have "serialize_each (serialize_binary_value D) c (se_params v) = None" for c
    by (intro serialize_each_aborts binary_value.ser_aborts)
  then show "serialize_com_stmt_execute D ctx v = None"
    by (simp add: serialize_com_stmt_execute_def Let_def bind_eq_None_conv)
next
  fix ctx :: serialization_context and v :: com_stmt_execute_packet
  let ?caps = "sctx_caps ctx" and ?ps = "se_params v"
  assume asserted: "params_asserted D v"
  let ?metas = "concat (map (\<lambda>p. [protocol_field_type_byte (get_protocol_field_type p), if value_is_unsigned p then 0x80 else 0]) ?ps)"
  have metas: "serialize_each serialize_param_meta c (map param_meta ?ps) = sctx_write ?metas c" for c
    by (subst serialize_each_write_on [where e = "\<lambda>_ p. [protocol_field_type_byte (pm_type p), pm_unsigned_flag p]",
          OF serialize_param_meta_write]) (simp add: param_meta_def comp_def)
  have vals: "serialize_each (serialize_binary_value D) c ?ps = sctx_write (concat (map (enc_binary_value D (sctx_caps c)) ?ps)) c" for c
    using asserted by (intro serialize_each_write_on binary_value.ser_asserted) (simp add: params_asserted_def)
  have "serialize_com_stmt_execute D ctx v =
     Option.bind (sctx_write ([com_stmt_execute_id] @ le_bytes 4 (se_statement_id v) @ [se_flags v] @
         le_bytes 4 (se_iteration_count v)) ctx)
       (\<lambda>c1. Option.bind (sctx_write (null_bitmap_bytes (null_bitmap_of 0 (length ?ps)) (map is_null ?ps)) c1)
         (\<lambda>c3. Option.bind (sctx_write [se_new_params_bind_flag v] c3)
         (\<lambda>c4. Option.bind (sctx_write ?metas c4)
         (\<lambda>c5. sctx_write (concat (map (enc_binary_value D (sctx_caps c5)) ?ps)) c5))))"
    unfolding serialize_com_stmt_execute_def Let_def metas vals
    by (subst sctx_null_bitmap_write)
      (simp_all add: enc_simps sctx_write_append serialize_fixed_int_def stmt_execute_null_bitmap_offset_def)
  also have "\<dots> = sctx_write (enc_com_stmt_execute D ?caps v) ctx"
    by (subst bind_sctx_write, subst bind_sctx_write, subst bind_sctx_write, subst bind_sctx_write)
      (auto simp: enc_com_stmt_execute_def)
  finally show "serialize_com_stmt_execute D ctx v = sctx_write (enc_com_stmt_execute D ?caps v) ctx" .
next
  fix ctx :: serialization_context and v :: com_stmt_execute_packet
  let ?caps = "sctx_caps ctx" and ?ps = "se_params v"
  have "length (concat (map (\<lambda>p. [protocol_field_type_byte (get_protocol_field_type p), if value_is_unsigned p then 0x80 else 0]) ps))
      = 2 * length ps" for ps by (induction ps) auto
  moreover have "length (concat (map (enc_binary_value D ?caps) ps)) = sum_list (map (get_binary_value_size ctx) ps)" for ps
    by (induction ps) (simp_all add: binary_value.size_enc [where D = D])
  ultimately show "get_size_com_stmt_execute ctx v = length (enc_com_stmt_execute D ?caps v)"
    using null_bitmap_bytes(2) [of "map is_null ?ps" "null_bitmap_of 0 (length ?ps)"]
    by (simp add: get_size_com_stmt_execute_def enc_com_stmt_execute_def Let_def get_size_fixed_int_def
        get_size_param_meta_def get_size_struct_def get_size_cons_def get_size_nil_def get_size_enum_def
        stmt_execute_null_bitmap_offset_def)
qed

end
