(* ===== verification/Execute.thy ===== *)
theory Execute
  imports Resultset Statement_Messages
begin

text \<open>
  Executing a query or a prepared statement and reading the head of its result
  (\<open>network_algorithms/impl/execute_generic.hpp\<close>, \<open>execute_query.hpp\<close> and
  \<open>execute_statement.hpp\<close>).
\<close>

section \<open>The processor\<close>

text \<open>The channel the code keeps a reference to is an argument.\<close>

record execute_processor =
  ep_deserializer :: row_fn
  ep_buffer :: bytes
  ep_field_count :: nat
  ep_ok_packet :: ok_packet
  ep_fields :: "field_metadata list"
  ep_field_buffers :: "bytes list"

definition make_execute_processor :: "row_fn \<Rightarrow> execute_processor" where
  "make_execute_processor d = \<lparr>ep_deserializer = d, ep_buffer = [], ep_field_count = 0,
     ep_ok_packet = default_ok_packet, ep_fields = [], ep_field_buffers = []\<rparr>"

definition execute_request ::
    "'a ser \<Rightarrow> 'a sizer \<Rightarrow> 'a \<Rightarrow> execute_processor \<Rightarrow> 's channel \<Rightarrow> (execute_processor \<times> 's channel) option" where
  "execute_request ser sz request p ch =
     map_option (\<lambda>buf. (p\<lparr>ep_buffer := buf\<rparr>, reset_sequence_number 0 ch))
       (serialize_message ser sz request (ch_current_caps ch) (ep_buffer p))"

text \<open>
  \<open>vector::reserve\<close> throws \<open>std::length_error\<close> beyond \<open>max_size\<close>, a parameter here: the standard
  library chooses it, never beyond \<open>PTRDIFF_MAX\<close>. The exception is \<open>None\<close>. Only the capacity of
  the vectors changes otherwise.
\<close>

definition execute_response ::
    "nat \<Rightarrow> capabilities \<Rightarrow> error_info \<Rightarrow> execute_processor \<Rightarrow> (error_code \<times> error_info \<times> execute_processor) option" where
  "execute_response max_size caps info p =
     (case deserialize_message_type (make_ctx (ep_buffer p) caps) of
        Inl err \<Rightarrow> Some (err, info, p)
      | Inr (msg_type, ctx) \<Rightarrow>
          if msg_type = ok_packet_header then
            (case deserialize_message (deserialize_ok_packet (ep_ok_packet p)) ctx of
               Inl err \<Rightarrow> Some (err, info, p)
             | Inr ok \<Rightarrow> Some (no_error, info, p\<lparr>ep_ok_packet := ok, ep_field_count := 0\<rparr>))
          else if msg_type = error_packet_header then
            (case process_error_packet ctx info of (err, info1) \<Rightarrow> Some (err, info1, p))
          else
            (case deserialize_message deserialize_int_lenenc (ctx_rewind 1 ctx) of
               Inl err \<Rightarrow> Some (err, info, p)
             | Inr num_fields \<Rightarrow>
                 if unat num_fields > size_t_max then Some (make_error_code protocol_value_error, info, p)
                 else
                   let p1 = p\<lparr>ep_field_count := unat num_fields\<rparr>
                   in if ep_field_count p1 = 0 then Some (make_error_code protocol_value_error, info, p1)
                      else if ep_field_count p1 > max_size then None
                      else Some (no_error, info, p1)))"

definition process_field_definition :: "capabilities \<Rightarrow> execute_processor \<Rightarrow> error_code \<times> execute_processor" where
  "process_field_definition caps p =
     (case deserialize_message deserialize_column_definition (make_ctx (ep_buffer p) caps) of
        Inl err \<Rightarrow> (err, p)
      | Inr field_definition \<Rightarrow>
          (no_error, p\<lparr>ep_fields := ep_fields p @ [field_metadata_of field_definition],
                       ep_field_buffers := ep_field_buffers p @ [ep_buffer p], ep_buffer := []\<rparr>))"

definition create_resultset :: "execute_processor \<Rightarrow> resultset" where
  "create_resultset p =
     (if ep_field_count p = 0 then resultset_empty (ep_buffer p) (ep_ok_packet p)
      else resultset_with_fields \<lparr>rm_buffers = ep_field_buffers p, rm_fields = ep_fields p\<rparr> (ep_deserializer p))"

section \<open>The exchange\<close>

fun read_fields ::
    "'s stream_ops \<Rightarrow> nat \<Rightarrow> error_code \<Rightarrow> execute_processor \<Rightarrow> 's channel \<Rightarrow>
     (error_code \<times> execute_processor \<times> 's channel) option" where
  "read_fields S 0 err p ch = Some (err, p, ch)"
| "read_fields S (Suc n) err p ch =
     Option.bind (channel_read S ch) (\<lambda>(buf, code, ch1).
       let p1 = p\<lparr>ep_buffer := buf\<rparr>
       in if failed code then Some (code, p1, ch1)
          else case process_field_definition (ch_current_caps ch1) p1 of
                 (err, p2) \<Rightarrow> if failed err then Some (err, p2, ch1) else read_fields S n err p2 ch1)"

text \<open>The result is the error, its information, and the output resultset, assigned only on success.\<close>

definition execute_generic ::
    "'s stream_ops \<Rightarrow> nat \<Rightarrow> row_fn \<Rightarrow> 'a ser \<Rightarrow> 'a sizer \<Rightarrow> 'a \<Rightarrow> resultset \<Rightarrow> error_info \<Rightarrow> 's channel \<Rightarrow>
     (error_code \<times> error_info \<times> resultset \<times> 's channel) option" where
  "execute_generic S max_size d ser sz request output info ch =
     Option.bind (execute_request ser sz request (make_execute_processor d) ch) (\<lambda>(p, ch0).
     Option.bind (channel_write S (ep_buffer p) ch0) (\<lambda>(code, ch1).
       if failed code then Some (code, info, output, ch1) else
     Option.bind (channel_read S ch1) (\<lambda>(buf, code, ch2).
       if failed code then Some (code, info, output, ch2) else
     Option.bind (execute_response max_size (ch_current_caps ch2) info (p\<lparr>ep_buffer := buf\<rparr>)) (\<lambda>(err, info1, p1).
       if failed err then Some (err, info1, output, ch2)
       else map_option (\<lambda>(err, p2, ch3). (err, info1, if failed err then output else create_resultset p2, ch3))
              (read_fields S (ep_field_count p1) err p1 ch2)))))"

definition execute_query ::
    "'s stream_ops \<Rightarrow> nat \<Rightarrow> lexical_lib \<Rightarrow> date_lib \<Rightarrow> bytes \<Rightarrow> resultset \<Rightarrow> error_info \<Rightarrow> 's channel \<Rightarrow>
     (error_code \<times> error_info \<times> resultset \<times> 's channel) option" where
  "execute_query S max_size L D query =
     execute_generic S max_size (text_row_fn L D) serialize_com_query get_size_com_query query"

definition make_stmt_execute_packet :: "u32 \<Rightarrow> mysql_value list \<Rightarrow> com_stmt_execute_packet" where
  "make_stmt_execute_packet statement_id params =
     \<lparr>se_statement_id = statement_id, se_flags = 0, se_iteration_count = 1, se_new_params_bind_flag = 1,
      se_params = params\<rparr>"

text \<open>The serialization of the packet asserts the number of its parameters: \<open>None\<close> when it fails.\<close>

definition execute_statement ::
    "'s stream_ops \<Rightarrow> nat \<Rightarrow> date_lib \<Rightarrow> u32 \<Rightarrow> mysql_value list \<Rightarrow> resultset \<Rightarrow> error_info \<Rightarrow> 's channel \<Rightarrow>
     (error_code \<times> error_info \<times> resultset \<times> 's channel) option" where
  "execute_statement S max_size D statement_id params output info ch =
     (if num_params_asserted (make_stmt_execute_packet statement_id params)
      then execute_generic S max_size (binary_row_fn D) (serialize_com_stmt_execute D) get_size_com_stmt_execute
             (make_stmt_execute_packet statement_id params) output info ch
      else None)"

text \<open>What sending the parameters asserts: how many there are, and that the dates among them exist.\<close>

definition execute_asserted :: "date_lib \<Rightarrow> mysql_value list \<Rightarrow> bool" where
  "execute_asserted D params \<longleftrightarrow> length params \<le> 255 \<and> (\<forall>p \<in> set params. binary_value_asserted D p)"

lemma execute_asserted_packet:
  "execute_asserted D params \<longleftrightarrow>
   num_params_asserted (make_stmt_execute_packet n params) \<and> params_asserted D (make_stmt_execute_packet n params)"
  by (simp add: execute_asserted_def num_params_asserted_def params_asserted_def make_stmt_execute_packet_def)

lemma execute_asserted_small:
  "length params \<le> 255 \<Longrightarrow> \<forall>p \<in> set params. date_time_in_range D p \<Longrightarrow> date_library D \<Longrightarrow> execute_asserted D params"
  by (simp add: execute_asserted_def date_time_in_range_asserted)

section \<open>What the responses mean\<close>

definition ok_message :: "ok_packet \<Rightarrow> bytes" where
  "ok_message p = ok_packet_header # enc_ok_packet p"

lemma execute_response_ok:
  assumes "ep_buffer p = ok_message k" and "in_memory (ok_info k)"
  shows "execute_response M caps info p = Some (no_error, info, p\<lparr>ep_ok_packet := k, ep_field_count := 0\<rparr>)"
proof -
  let ?c = "make_ctx (ep_buffer p) caps"
  have t: "deserialize_message_type ?c = Inr (0, ctx_advance 1 ?c)"
    by (simp add: deser_simps assms(1) ok_message_def ok_packet_header_def)
  have "deserialize_message (deserialize_ok_packet (ep_ok_packet p)) (ctx_advance 1 ?c) = Inr k"
    using assms
    by (simp add: deserialize_message_def deserialize_ok_packet_enc [where rest = "[]"] ok_message_def
        ctx_simps ctx_wf_advance del: extra_bytes_def)
  then show ?thesis by (simp add: execute_response_def t ok_packet_header_def)
qed

lemma execute_response_error:
  assumes "ep_buffer p = error_message e" and "err_packet_wf e"
  shows "execute_response M caps info p
    = Some (make_error_code (Errc (uint (err_error_code e))), \<lparr>ei_msg = err_error_message e\<rparr>, p)"
proof -
  let ?c = "make_ctx (ep_buffer p) caps"
  have t: "deserialize_message_type ?c = Inr (0xff, ctx_advance 1 ?c)"
    by (simp add: deser_simps assms(1) error_message_def)
  have "process_error_packet (ctx_advance 1 ?c) info =
      (make_error_code (Errc (uint (err_error_code e))), \<lparr>ei_msg = err_error_message e\<rparr>)"
    using assms by (intro process_error_packet_enc) (simp_all add: error_message_def ctx_wf_advance enc_err_packet_def)
  then show ?thesis by (simp add: execute_response_def t ok_packet_header_def)
qed

lemma int_lenenc_first:
  assumes "v \<noteq> 0"
  shows "\<exists>b bs. enc_int_lenenc caps v = b # bs \<and> b \<noteq> ok_packet_header \<and> b \<noteq> error_packet_header"
proof (cases "v < 251")
  case True
  have "(ucast v :: u8) \<noteq> 0xff" using small_first_byte(2) [OF True] by auto
  moreover have "(ucast v :: u8) \<noteq> 0" using small_first_byte(1) [OF True] assms by auto
  ultimately show ?thesis using True by (simp add: enc_int_lenenc_def le_bytes_numeral ok_packet_header_def)
qed (auto simp: enc_int_lenenc_def ok_packet_header_def)

lemma execute_response_fields:
  assumes "ep_buffer p = enc_int_lenenc (caps_of 0) v" and "v \<noteq> 0"
  shows "execute_response M caps info p =
    (if unat v > M then None else Some (no_error, info, p\<lparr>ep_field_count := unat v\<rparr>))"
proof -
  let ?c = "make_ctx (ep_buffer p) caps"
  obtain b bs where b: "enc_int_lenenc (caps_of 0) v = b # bs" "b \<noteq> ok_packet_header" "b \<noteq> error_packet_header"
    using int_lenenc_first [OF assms(2)] by blast
  have t: "deserialize_message_type ?c = Inr (b, ctx_advance 1 ?c)"
    by (simp add: deser_simps assms(1) b(1))
  have "deserialize_message deserialize_int_lenenc ?c = Inr v"
    by (rule int_lenenc.deserialize_message_enc) (simp_all add: assms(1) enc_int_lenenc_caps [of caps v "caps_of 0"])
  moreover have "\<not> size_t_max < unat v"
  proof -
    have "unat v < 2 ^ 64" by (rule order_less_le_trans [OF unsigned_less]) simp
    then show ?thesis by (simp add: size_t_max_def)
  qed
  ultimately show ?thesis
    using b(2,3) assms(2) by (simp add: execute_response_def t Let_def unat_eq_zero)
qed

lemma process_field_definition_enc:
  assumes "ep_buffer p = enc_column_definition caps cd" and "column_definition_wf cd"
  shows "process_field_definition caps p =
    (no_error, p\<lparr>ep_fields := ep_fields p @ [field_metadata_of cd],
                 ep_field_buffers := ep_field_buffers p @ [enc_column_definition caps cd], ep_buffer := []\<rparr>)"
  using column_definition.deserialize_message_enc [OF assms(2), of "make_ctx (ep_buffer p) caps"] assms(1)
  by (simp add: process_field_definition_def)

section \<open>The head of a result with fields\<close>

lemma read_fields_enc:
  assumes "reliable_stream S inp out"
    and "pending inp ch (map (enc_column_definition (ch_current_caps ch)) cds @ ms) rest"
    and "\<forall>cd \<in> set cds. column_definition_wf cd"
  shows "\<exists>ch' buf. same_session ch ch' \<and> out (ch_stream ch') = out (ch_stream ch) \<and> pending inp ch' ms rest \<and>
    read_fields S (length cds) no_error p ch = Some (no_error,
      p\<lparr>ep_fields := ep_fields p @ map field_metadata_of cds,
        ep_field_buffers := ep_field_buffers p @ map (enc_column_definition (ch_current_caps ch)) cds, ep_buffer := buf\<rparr>, ch')"
  using assms(2,3)
proof (induction cds arbitrary: p ch)
  case Nil
  then show ?case by (auto intro!: exI [of _ ch] exI [of _ "ep_buffer p"])
next
  case (Cons cd cds)
  let ?enc = "enc_column_definition (ch_current_caps ch)"
  have "pending inp ch (?enc cd # map ?enc cds @ ms) rest" using Cons.prems(1) by simp
  then obtain code ch1 where r: "channel_read S ch = Some (?enc cd, code, ch1)" "\<not> failed code" "same_session ch ch1"
      "out (ch_stream ch1) = out (ch_stream ch)" "pending inp ch1 (map ?enc cds @ ms) rest"
    using channel_read_pending [OF assms(1)] by blast
  have caps: "ch_current_caps ch1 = ch_current_caps ch" using r(3) by (simp add: same_session_def)
  define p1 where "p1 = p\<lparr>ep_fields := ep_fields p @ [field_metadata_of cd],
      ep_field_buffers := ep_field_buffers p @ [?enc cd], ep_buffer := []\<rparr>"
  have "process_field_definition (ch_current_caps ch1) (p\<lparr>ep_buffer := ?enc cd\<rparr>) = (no_error, p1)"
    using process_field_definition_enc [of "p\<lparr>ep_buffer := ?enc cd\<rparr>" "ch_current_caps ch" cd] Cons.prems(2)
    by (simp add: caps p1_def)
  then have step: "read_fields S (length (cd # cds)) no_error p ch = read_fields S (length cds) no_error p1 ch1"
    using r(1,2) by simp
  have pend1: "pending inp ch1 (map (enc_column_definition (ch_current_caps ch1)) cds @ ms) rest"
    and wf1: "\<forall>cd \<in> set cds. column_definition_wf cd"
    using r(5) caps Cons.prems(2) by simp_all
  obtain ch' buf where "same_session ch1 ch'" "out (ch_stream ch') = out (ch_stream ch1)" "pending inp ch' ms rest"
      "read_fields S (length cds) no_error p1 ch1 = Some (no_error, p1\<lparr>ep_fields := ep_fields p1 @ map field_metadata_of cds,
        ep_field_buffers := ep_field_buffers p1 @ map (enc_column_definition (ch_current_caps ch1)) cds, ep_buffer := buf\<rparr>, ch')"
    using Cons.IH [OF pend1 wf1, of p1] by blast
  then show ?case
    unfolding step using r(4) same_session_trans [OF r(3)]
    by (intro exI [of _ ch'] exI [of _ buf]) (simp add: p1_def caps)
qed

text \<open>Sending the request: one packet, numbered 0, after which the response is numbered 1.\<close>

lemma execute_request_write:
  assumes "reliable_stream S inp out" and "channel_wf ch"
    and "serialize_message ser sz request (ch_current_caps ch) [] = Some m" and "length m < MAX_PACKET_SIZE"
    and "inp (ch_stream ch) = frames_list 1 ms @ rest"
  shows "\<exists>code ch1. execute_request ser sz request (make_execute_processor d) ch
        = Some ((make_execute_processor d)\<lparr>ep_buffer := m\<rparr>, reset_sequence_number 0 ch) \<and>
    channel_write S m (reset_sequence_number 0 ch) = Some (code, ch1) \<and> \<not> failed code \<and>
    pending inp ch1 ms rest \<and> out (ch_stream ch1) = out (ch_stream ch) @ [(ch_ssl ch, frame_header (length m) 0 @ m)] \<and>
    ch_ssl ch1 = ch_ssl ch \<and> ch_current_caps ch1 = ch_current_caps ch \<and> ch_shared_buff ch1 = ch_shared_buff ch"
proof -
  have wf: "channel_wf (reset_sequence_number 0 ch)" using assms(2) by simp
  show ?thesis
    using channel_write_short [OF assms(1) wf assms(4)] assms(3,5)
    by (auto simp: execute_request_def make_execute_processor_def pending_def reset_sequence_number_def)
qed

text \<open>The whole exchange up to the response, for any response.\<close>

definition request_sent ::
    "('s \<Rightarrow> (bool \<times> bytes) list) \<Rightarrow> bytes \<Rightarrow> 's channel \<Rightarrow> 's channel \<Rightarrow> bool" where
  "request_sent out m ch ch' \<longleftrightarrow>
     out (ch_stream ch') = out (ch_stream ch) @ [(ch_ssl ch, frame_header (length m) 0 @ m)] \<and>
     ch_ssl ch' = ch_ssl ch \<and> ch_current_caps ch' = ch_current_caps ch \<and> ch_shared_buff ch' = ch_shared_buff ch"

lemma request_sent_session:
  "request_sent out m ch ch1 \<Longrightarrow> same_session ch1 ch2 \<Longrightarrow> out (ch_stream ch2) = out (ch_stream ch1) \<Longrightarrow>
   request_sent out m ch ch2"
  by (simp add: request_sent_def same_session_def)

lemma execute_generic_response:
  assumes "reliable_stream S inp out" and "channel_wf ch"
    and "serialize_message ser sz request (ch_current_caps ch) [] = Some m" and "length m < MAX_PACKET_SIZE"
    and "inp (ch_stream ch) = frames_list 1 (response # ms) @ rest"
  shows "\<exists>ch'. pending inp ch' ms rest \<and> request_sent out m ch ch' \<and>
    execute_generic S M d ser sz request output info ch =
      Option.bind (execute_response M (ch_current_caps ch) info ((make_execute_processor d)\<lparr>ep_buffer := response\<rparr>))
        (\<lambda>(err, info1, p1).
          if failed err then Some (err, info1, output, ch')
          else map_option (\<lambda>(err, p2, ch3). (err, info1, if failed err then output else create_resultset p2, ch3))
              (read_fields S (ep_field_count p1) err p1 ch'))"
proof -
  obtain code ch1 where req: "execute_request ser sz request (make_execute_processor d) ch
        = Some ((make_execute_processor d)\<lparr>ep_buffer := m\<rparr>, reset_sequence_number 0 ch)"
      "channel_write S m (reset_sequence_number 0 ch) = Some (code, ch1)" "\<not> failed code"
      "pending inp ch1 (response # ms) rest" "request_sent out m ch ch1"
    using execute_request_write [OF assms] unfolding request_sent_def by blast
  obtain code2 ch2 where rd: "channel_read S ch1 = Some (response, code2, ch2)" "\<not> failed code2" "same_session ch1 ch2"
      "out (ch_stream ch2) = out (ch_stream ch1)" "pending inp ch2 ms rest"
    using channel_read_pending [OF assms(1) req(4)] by blast
  have sent: "request_sent out m ch ch2" by (rule request_sent_session [OF req(5) rd(3,4)])
  then have "ch_current_caps ch2 = ch_current_caps ch" by (simp add: request_sent_def)
  then show ?thesis
    using sent rd(1,2,5) req(1-3) by (intro exI [of _ ch2]) (simp add: execute_generic_def)
qed

lemma execute_generic_fields:
  assumes "reliable_stream S inp out" and "channel_wf ch"
    and "serialize_message ser sz request (ch_current_caps ch) [] = Some m" and "length m < MAX_PACKET_SIZE"
    and "inp (ch_stream ch) = frames_list 1 (enc_int_lenenc (caps_of 0) (of_nat (length cds)) #
           map (enc_column_definition (ch_current_caps ch)) cds @ ms) @ rest"
    and "cds \<noteq> []" and "length cds \<le> size_t_max" and "length cds \<le> M" and "\<forall>cd \<in> set cds. column_definition_wf cd"
  shows "\<exists>ch'. pending inp ch' ms rest \<and> request_sent out m ch ch' \<and>
    execute_generic S M d ser sz request output info ch = Some (no_error, info,
      resultset_with_fields \<lparr>rm_buffers = map (enc_column_definition (ch_current_caps ch)) cds,
        rm_fields = map field_metadata_of cds\<rparr> d, ch')"
proof -
  define p where "p = (make_execute_processor d)\<lparr>ep_buffer := enc_int_lenenc (caps_of 0) (of_nat (length cds))\<rparr>"
  obtain ch1 where ch1: "pending inp ch1 (map (enc_column_definition (ch_current_caps ch)) cds @ ms) rest"
      "request_sent out m ch ch1"
    and eq: "execute_generic S M d ser sz request output info ch =
      Option.bind (execute_response M (ch_current_caps ch) info p)
        (\<lambda>(err, info1, p1).
          if failed err then Some (err, info1, output, ch1)
          else map_option (\<lambda>(err, p2, ch3). (err, info1, if failed err then output else create_resultset p2, ch3))
              (read_fields S (ep_field_count p1) err p1 ch1))"
    using execute_generic_response [OF assms(1-5), of M d "output" info] unfolding p_def by blast
  have len: "unat (of_nat (length cds) :: u64) = length cds"
    using assms(7) by (simp add: size_t_max_def unsigned_of_nat take_bit_nat_eq_self_iff)
  moreover have "(of_nat (length cds) :: u64) \<noteq> 0"
    using assms(6) len by (metis length_0_conv unat_0)
  ultimately have resp: "execute_response M (ch_current_caps ch) info p
      = Some (no_error, info, p\<lparr>ep_field_count := length cds\<rparr>)"
    using execute_response_fields [of p "of_nat (length cds)" M "ch_current_caps ch" info] assms(8)
    by (simp add: p_def)
  have caps: "ch_current_caps ch1 = ch_current_caps ch" using ch1(2) by (simp add: request_sent_def)
  obtain ch' buf where rd: "same_session ch1 ch'" "out (ch_stream ch') = out (ch_stream ch1)" "pending inp ch' ms rest"
      "read_fields S (length cds) no_error (p\<lparr>ep_field_count := length cds\<rparr>) ch1 = Some (no_error,
        p\<lparr>ep_field_count := length cds, ep_fields := map field_metadata_of cds,
          ep_field_buffers := map (enc_column_definition (ch_current_caps ch)) cds, ep_buffer := buf\<rparr>, ch')"
    using read_fields_enc [OF assms(1) _ assms(9), of ch1 ms rest "p\<lparr>ep_field_count := length cds\<rparr>"] ch1(1)
    by (auto simp: caps p_def make_execute_processor_def)
  have d: "ep_deserializer p = d" by (simp add: p_def make_execute_processor_def)
  show ?thesis
    using request_sent_session [OF ch1(2) rd(1,2)] rd(3,4) assms(6)
    by (intro exI [of _ ch']) (simp add: eq resp create_resultset_def d)
qed

section \<open>Results without fields and errors\<close>

lemma execute_generic_ok:
  assumes "reliable_stream S inp out" and "channel_wf ch"
    and "serialize_message ser sz request (ch_current_caps ch) [] = Some m" and "length m < MAX_PACKET_SIZE"
    and "inp (ch_stream ch) = frames_list 1 (ok_message k # ms) @ rest" and "in_memory (ok_info k)"
  shows "\<exists>ch'. pending inp ch' ms rest \<and> request_sent out m ch ch' \<and>
    execute_generic S M d ser sz request output info ch = Some (no_error, info, resultset_empty (ok_message k) k, ch')"
  using execute_generic_response [OF assms(1-5), of M d "output" info]
    execute_response_ok [of "(make_execute_processor d)\<lparr>ep_buffer := ok_message k\<rparr>" k M "ch_current_caps ch" info] assms(6)
  by (auto simp: create_resultset_def)

lemma execute_generic_error:
  assumes "reliable_stream S inp out" and "channel_wf ch"
    and "serialize_message ser sz request (ch_current_caps ch) [] = Some m" and "length m < MAX_PACKET_SIZE"
    and "inp (ch_stream ch) = frames_list 1 (error_message e # ms) @ rest" and "err_packet_wf e"
  shows "\<exists>ch'. pending inp ch' ms rest \<and> request_sent out m ch ch' \<and>
    execute_generic S M d ser sz request output info ch =
      Some (make_error_code (Errc (uint (err_error_code e))), \<lparr>ei_msg = err_error_message e\<rparr>,
        if err_error_code e = 0 then resultset_empty (error_message e) default_ok_packet else output, ch')"
proof -
  define p where "p = (make_execute_processor d)\<lparr>ep_buffer := error_message e\<rparr>"
  have p: "ep_field_count p = 0" "ep_buffer p = error_message e" "ep_ok_packet p = default_ok_packet"
    by (simp_all add: p_def make_execute_processor_def)
  have r: "execute_response M (ch_current_caps ch) info p =
      Some (make_error_code (Errc (uint (err_error_code e))), \<lparr>ei_msg = err_error_message e\<rparr>, p)"
    by (rule execute_response_error [OF p(2) assms(6)])
  have code: "uint (err_error_code e) = 0 \<longleftrightarrow> err_error_code e = 0" by (simp add: uint_0_iff)
  obtain ch' where "pending inp ch' ms rest" "request_sent out m ch ch'"
      "execute_generic S M d ser sz request output info ch =
      Option.bind (execute_response M (ch_current_caps ch) info p)
        (\<lambda>(err, info1, p1).
          if failed err then Some (err, info1, output, ch')
          else map_option (\<lambda>(err, p2, ch3). (err, info1, if failed err then output else create_resultset p2, ch3))
              (read_fields S (ep_field_count p1) err p1 ch'))"
    using execute_generic_response [OF assms(1-5), of M d "output" info] unfolding p_def by blast
  then show ?thesis
    by (intro exI [of _ ch']) (simp add: r p code create_resultset_def)
qed

section \<open>Executing always returns\<close>

text \<open>A parser never reports a failure with the code of success.\<close>

definition reports_failures :: "'a deser \<Rightarrow> bool" where
  "reports_failures d \<longleftrightarrow> (\<forall>ctx err. d ctx = Inl err \<longrightarrow> errc_value err \<noteq> 0)"

lemma reports_failures_intros:
  "reports_failures deserialize_nil"
  "reports_failures d \<Longrightarrow> reports_failures e \<Longrightarrow> reports_failures (deserialize_cons d e)"
  "reports_failures d' \<Longrightarrow> reports_failures (deserialize_struct mk d')"
  "reports_failures (deserialize_fixed_int t)" "reports_failures (deserialize_enum cast t)"
  "reports_failures deserialize_int_lenenc" "reports_failures deserialize_string_lenenc"
  by (auto simp: reports_failures_def deserialize_nil_def deserialize_cons_def deserialize_struct_def
      deserialize_fixed_int_def deserialize_enum_def deserialize_int_lenenc_def deserialize_string_lenenc_def Let_def
      split: sum.splits if_splits)

lemma deserialize_message_failed:
  "reports_failures d \<Longrightarrow> deserialize_message d ctx = Inl code \<Longrightarrow> failed code"
  by (auto simp: deserialize_message_def reports_failures_def split: sum.splits if_splits)

lemma column_definition_failed:
  "deserialize_message deserialize_column_definition ctx = Inl code \<Longrightarrow> failed code"
  by (rule deserialize_message_failed)
    (auto simp: deserialize_column_definition_def intro!: reports_failures_intros)

definition too_many_fields :: "nat \<Rightarrow> capabilities \<Rightarrow> bytes \<Rightarrow> bool" where
  "too_many_fields M caps m \<longleftrightarrow>
     (\<exists>v. deserialize_message deserialize_int_lenenc (make_ctx m caps) = Inr v \<and> M < unat v)"

lemma deserialize_message_type_rewind:
  "deserialize_message_type ctx = Inr (t, ctx1) \<Longrightarrow> ctx_rewind 1 ctx1 = ctx"
  by (auto simp: deserialize_message_type_def deserialize_fixed_int_def Let_def split: sum.splits if_splits)

lemma execute_response_cases:
  assumes "\<not> too_many_fields M caps (ep_buffer p)"
  shows "\<exists>err info' k n. execute_response M caps info p = Some (err, info', p\<lparr>ep_ok_packet := k, ep_field_count := n\<rparr>)"
proof -
  have unchanged: "\<exists>k n. p = p\<lparr>ep_ok_packet := k, ep_field_count := n\<rparr>"
    by (rule exI [of _ "ep_ok_packet p"], rule exI [of _ "ep_field_count p"]) simp
  have only_count: "\<exists>k n. p\<lparr>ep_field_count := m\<rparr> = p\<lparr>ep_ok_packet := k, ep_field_count := n\<rparr>" for m
    by (rule exI [of _ "ep_ok_packet p"], rule exI [of _ m]) simp
  show ?thesis
  proof (cases "deserialize_message_type (make_ctx (ep_buffer p) caps)")
    case (Inl err)
    then show ?thesis using unchanged by (auto simp: execute_response_def)
  next
    case (Inr r)
    obtain t ctx where r: "r = (t, ctx)" by (cases r)
    show ?thesis
      using assms(1) deserialize_message_type_rewind [OF Inr [unfolded r]] unchanged only_count
      by (auto simp: execute_response_def Inr r Let_def too_many_fields_def split: sum.splits prod.splits)
  qed
qed

lemma execute_response_frame:
  "execute_response M caps info p = Some (err, info', p') \<Longrightarrow>
   ep_deserializer p' = ep_deserializer p \<and> ep_fields p' = ep_fields p"
  by (auto simp: execute_response_def Let_def split: sum.splits prod.splits if_splits)

lemma read_fields_total:
  assumes "byte_stream S inp out" and "channel_wf ch"
  shows "\<exists>err p' ch'. read_fields S n err0 p ch = Some (err, p', ch') \<and> progress inp out ch ch' \<and>
    ep_field_count p' = ep_field_count p \<and> ep_deserializer p' = ep_deserializer p \<and>
    (\<not> failed err \<longrightarrow> length (ep_fields p') = length (ep_fields p) + n)"
  using assms(2)
proof (induction n arbitrary: err0 p ch)
  case 0
  then show ?case by (simp add: progress_refl)
next
  case (Suc n)
  obtain buf code ch1 where r: "channel_read S ch = Some (buf, code, ch1)" "progress inp out ch ch1"
    using channel_read_progress [OF assms(1) Suc.prems] by blast
  obtain err p2 where p2: "process_field_definition (ch_current_caps ch1) (p\<lparr>ep_buffer := buf\<rparr>) = (err, p2)" by fastforce
  then have p2': "ep_field_count p2 = ep_field_count p" "ep_deserializer p2 = ep_deserializer p"
      "\<not> failed err \<Longrightarrow> length (ep_fields p2) = Suc (length (ep_fields p))"
    using column_definition_failed by (auto simp: process_field_definition_def split: sum.splits)
  have "channel_wf ch1" using r(2) by (simp add: progress_def)
  from Suc.IH [OF this, of err p2] show ?case
    using r p2 p2' progress_trans [OF r(2)] by (cases "failed code"; cases "failed err") (auto simp: Let_def)
qed

text \<open>
  The outcome of an execution: unless the response announces more fields than a vector can hold,
  it returns; on failure the output is left as it was, and on success it is a valid resultset,
  complete or ready to read rows.
\<close>

definition execute_outcome ::
    "('s \<Rightarrow> bytes) \<Rightarrow> ('s \<Rightarrow> (bool \<times> bytes) list) \<Rightarrow> nat \<Rightarrow> row_fn \<Rightarrow> resultset \<Rightarrow> 's channel \<Rightarrow>
     (error_code \<times> error_info \<times> resultset \<times> 's channel) option \<Rightarrow> bool" where
  "execute_outcome inp out M d output ch res \<longleftrightarrow>
     (case res of
        None \<Rightarrow> \<exists>p seq m rest. inp (ch_stream ch) = p @ frames seq m @ rest \<and> too_many_fields M (ch_current_caps ch) m
      | Some (err, info, rs, ch') \<Rightarrow> progress inp out ch ch' \<and>
          (if failed err then rs = output
           else rs_valid rs \<and> (rs_complete rs \<or> rs_reading rs d \<and> rs_fields rs \<noteq> [])))"

lemma create_resultset_ok:
  assumes "ep_field_count p = 0 \<or> ep_deserializer p = d \<and> ep_fields p \<noteq> []"
  shows "rs_valid (create_resultset p) \<and>
    (rs_complete (create_resultset p) \<or> rs_reading (create_resultset p) d \<and> rs_fields (create_resultset p) \<noteq> [])"
  using assms
  by (auto simp: create_resultset_def resultset_empty_def resultset_with_fields_def rs_complete_def rs_reading_def
      rs_fields_def default_resultset_def)

text \<open>The exchange that opens an execution: the request is written and a response, if any, is read.\<close>

lemma execute_exchange:
  assumes "byte_stream S inp out" and "channel_wf ch"
  obtains code ch1 buf code2 ch2 q q' where "channel_write S m (reset_sequence_number 0 ch) = Some (code, ch1)"
    and "channel_read S ch1 = Some (buf, code2, ch2)"
    and "progress inp out ch ch1" and "progress inp out ch ch2"
    and "inp (ch_stream ch) = q' @ q @ inp (ch_stream ch2)"
    and "\<not> failed code2 \<longrightarrow> q = frames (ch_sequence_number ch1) buf"
proof -
  have wf0: "channel_wf (reset_sequence_number 0 ch)" using assms(2) by simp
  obtain code ch1 where wr: "channel_write S m (reset_sequence_number 0 ch) = Some (code, ch1)" "progress inp out ch ch1"
    using channel_write_progress [OF assms(1) wf0, of m] by auto
  then obtain q' where wf1: "channel_wf ch1" and q': "inp (ch_stream ch) = q' @ inp (ch_stream ch1)"
    by (auto simp: progress_def)
  obtain buf code2 ch2 q where rd: "channel_read S ch1 = Some (buf, code2, ch2)"
      "inp (ch_stream ch1) = q @ inp (ch_stream ch2)" "\<not> failed code2 \<longrightarrow> q = frames (ch_sequence_number ch1) buf"
    using channel_read_any [OF assms(1) wf1] by blast
  have "progress inp out ch ch2"
    using progress_trans [OF wr(2)] channel_read_progress [OF assms(1) wf1] rd(1) by auto
  then show thesis using that [OF wr(1) rd(1) wr(2)] q' rd(2,3) by simp
qed

lemma execute_generic_total:
  assumes "byte_stream S inp out" and "channel_wf ch"
    and "serialize_message ser sz request (ch_current_caps ch) [] = Some m"
  shows "execute_outcome inp out M d output ch (execute_generic S M d ser sz request output info ch)"
proof -
  define p where "p = (make_execute_processor d)\<lparr>ep_buffer := m\<rparr>"
  have req: "execute_request ser sz request (make_execute_processor d) ch = Some (p, reset_sequence_number 0 ch)" "ep_buffer p = m"
    using assms(3) by (simp_all add: execute_request_def make_execute_processor_def p_def)
  obtain code ch1 buf code2 ch2 q q' where wr: "channel_write S m (reset_sequence_number 0 ch) = Some (code, ch1)"
      and rd: "channel_read S ch1 = Some (buf, code2, ch2)" and pr: "progress inp out ch ch1" "progress inp out ch ch2"
      and q: "inp (ch_stream ch) = q' @ q @ inp (ch_stream ch2)" "\<not> failed code2 \<longrightarrow> q = frames (ch_sequence_number ch1) buf"
    by (rule execute_exchange [OF assms(1,2)])
  let ?r = "execute_response M (ch_current_caps ch2) info (p\<lparr>ep_buffer := buf\<rparr>)"
  have caps: "ch_current_caps ch2 = ch_current_caps ch" using pr(2) by (simp add: progress_def)
  consider (io) "failed code \<or> failed code2" | (too_many) "\<not> failed code" "\<not> failed code2" "?r = None"
    | (response) err info1 p1 where "\<not> failed code" "\<not> failed code2" "?r = Some (err, info1, p1)"
    by (cases ?r) auto
  then show ?thesis
  proof cases
    case io
    then show ?thesis using wr pr rd by (auto simp: execute_outcome_def execute_generic_def req)
  next
    case too_many
    then have "too_many_fields M (ch_current_caps ch) buf"
      using execute_response_cases [of M "ch_current_caps ch2" "p\<lparr>ep_buffer := buf\<rparr>" info] caps by auto
    then show ?thesis
      using too_many wr rd q by (auto simp: execute_outcome_def execute_generic_def req)
  next
    case response
    have p1: "ep_deserializer p1 = d" "ep_fields p1 = []"
      using execute_response_frame [OF response(3)] by (simp_all add: p_def make_execute_processor_def)
    have wf2: "channel_wf ch2" using pr(2) by (simp add: progress_def)
    obtain err2 p2 ch3 where rf: "read_fields S (ep_field_count p1) err p1 ch2 = Some (err2, p2, ch3)"
        "progress inp out ch2 ch3" "ep_field_count p2 = ep_field_count p1" "ep_deserializer p2 = d"
        "\<not> failed err2 \<longrightarrow> length (ep_fields p2) = ep_field_count p1"
      using read_fields_total [OF assms(1) wf2, of "ep_field_count p1" err p1] p1 by auto
    then have "execute_generic S M d ser sz request output info ch =
        Some (if failed err then (err, info1, output, ch2)
              else (err2, info1, if failed err2 then output else create_resultset p2, ch3))"
      using wr rd response by (simp add: execute_generic_def req)
    moreover have "\<not> failed err2 \<Longrightarrow> ep_field_count p2 = 0 \<or> ep_deserializer p2 = d \<and> ep_fields p2 \<noteq> []"
      using rf(3-5) by auto
    ultimately show ?thesis
      using pr(2) progress_trans [OF pr(2) rf(2)] create_resultset_ok [of p2 d] by (simp add: execute_outcome_def)
  qed
qed

section \<open>Queries and executions of statements with their rows\<close>

lemma serialize_com_query_message:
  "serialize_message serialize_com_query get_size_com_query query caps buf = Some (com_query_id # query)"
  by (simp add: com_query.serialize_message_exact enc_command_def enc_string_eof_def)

definition result_head :: "capabilities \<Rightarrow> column_definition_packet list \<Rightarrow> bytes list" where
  "result_head caps cds = enc_int_lenenc (caps_of 0) (of_nat (length cds)) # map (enc_column_definition caps) cds"

definition columns_ok :: "nat \<Rightarrow> column_definition_packet list \<Rightarrow> bool" where
  "columns_ok M cds \<longleftrightarrow>
     cds \<noteq> [] \<and> length cds \<le> size_t_max \<and> length cds \<le> M \<and> (\<forall>cd \<in> set cds. column_definition_wf cd)"

context row_protocol
begin

lemma execute_and_fetch:
  assumes "reliable_stream S inp out" and "channel_wf ch"
    and "serialize_message ser sz request (ch_current_caps ch) [] = Some m" and "length m < MAX_PACKET_SIZE"
    and "inp (ch_stream ch) = frames_list 1 (result_head (ch_current_caps ch) cds @
           map (enc (ch_current_caps ch) (map field_metadata_of cds)) rows @ [eof_message p]) @ rest"
    and "columns_ok M cds"
    and "\<forall>r \<in> set rows. ok (map field_metadata_of cds) r" and "length rows < size_t_max" and "in_memory (ok_info p)"
  shows "\<exists>rs ch1 ch2. execute_generic S M fn ser sz request output info ch = Some (no_error, info, rs, ch1) \<and>
    rs_fields rs = map field_metadata_of cds \<and> request_sent out m ch ch2 \<and> pending inp ch2 [] rest \<and>
    fetch_all S rs ch1 =
      Some (map (\<lambda>r. (vals (map field_metadata_of cds) r, enc (ch_current_caps ch) (map field_metadata_of cds) r)) rows, no_error, empty_info,
        rs\<lparr>rs_ok_packet := p, rs_eof_received := True\<rparr>, ch2)"
proof -
  define rs where "rs = resultset_with_fields \<lparr>rm_buffers = map (enc_column_definition (ch_current_caps ch)) cds,
        rm_fields = map field_metadata_of cds\<rparr> fn"
  have inp: "inp (ch_stream ch) = frames_list 1 (enc_int_lenenc (caps_of 0) (of_nat (length cds)) #
           map (enc_column_definition (ch_current_caps ch)) cds @ map (enc (ch_current_caps ch) (map field_metadata_of cds)) rows @ [eof_message p]) @ rest"
    using assms(5) by (simp add: result_head_def)
  obtain ch1 where ex: "pending inp ch1 (map (enc (ch_current_caps ch) (map field_metadata_of cds)) rows @ [eof_message p]) rest"
      "request_sent out m ch ch1" "execute_generic S M fn ser sz request output info ch = Some (no_error, info, rs, ch1)"
    using execute_generic_fields [OF assms(1-4) inp, of M fn "output" info] assms(6)
    unfolding rs_def columns_ok_def by blast
  have caps: "ch_current_caps ch1 = ch_current_caps ch" using ex(2) by (simp add: request_sent_def)
  have rs: "rs_reading rs fn" "rs_fields rs = map field_metadata_of cds"
    by (simp_all add: rs_def resultset_with_fields_def default_resultset_def rs_reading_def rs_complete_def rs_fields_def)
  obtain ch2 where "same_session ch1 ch2" "out (ch_stream ch2) = out (ch_stream ch1)" "pending inp ch2 [] rest"
      "fetch_all S rs ch1 =
      Some (map (\<lambda>r. (vals (map field_metadata_of cds) r, enc (ch_current_caps ch) (map field_metadata_of cds) r)) rows, no_error, empty_info,
        rs\<lparr>rs_ok_packet := p, rs_eof_received := True\<rparr>, ch2)"
    using fetch_many_rows [OF assms(1) rs(1), of ch1 rows p rest size_t_max] ex(1) assms(7-9) rs(2)
    by (auto simp: caps fetch_all_def)
  then show ?thesis
    using ex(3) rs(2) request_sent_session [OF ex(2)] by (intro exI [of _ rs] exI [of _ ch1] exI [of _ ch2]) auto
qed

end

section \<open>Properties\<close>

text \<open>
  C3: a query and the rows of its result: over a stream on which the server's answer is the column
  count, the column definitions, the rows and the final OK packet, the query is sent as one packet
  numbered 0, and \<open>fetch_all\<close> on the resultset returns exactly the rows, in order, and completes
  it with the OK packet.
\<close>
theorem query_and_fetch_all:
  assumes "reliable_stream S inp out" and "channel_wf ch" and "Suc (length query) < MAX_PACKET_SIZE"
    and "inp (ch_stream ch) = frames_list 1 (result_head (ch_current_caps ch) cds @
           map (enc_text_row (ch_current_caps ch)) rows @ [eof_message p]) @ rest"
    and "columns_ok M cds"
    and "\<forall>r \<in> set rows. text_row_ok L D (map field_metadata_of cds) r" and "length rows < size_t_max" and "in_memory (ok_info p)"
  shows "\<exists>rs ch1 ch2. execute_query S M L D query output info ch = Some (no_error, info, rs, ch1) \<and>
    rs_fields rs = map field_metadata_of cds \<and> request_sent out (com_query_id # query) ch ch2 \<and> inp (ch_stream ch2) = rest \<and>
    fetch_all S rs ch1 =
      Some (map (\<lambda>r. (text_row_values L D (map field_metadata_of cds) r, enc_text_row (ch_current_caps ch) r)) rows,
        no_error, empty_info, rs\<lparr>rs_ok_packet := p, rs_eof_received := True\<rparr>, ch2)"
proof -
  have "length (com_query_id # query) < MAX_PACKET_SIZE" using assms(3) by simp
  from text_rows.execute_and_fetch [OF assms(1,2) serialize_com_query_message this assms(4-8)] show ?thesis
    unfolding execute_query_def using pending_Nil by blast
qed

lemma sample_columns_ok [simp]: "columns_ok 1000 [sample_column]"
  by (simp add: columns_ok_def size_t_max_def column_definition_wf_def sample_column_def in_memory_def
      protocol_field_type_of_def protocol_field_types_def)

lemma sample_column_metadata: "map field_metadata_of [sample_column] = [varchar_column]"
  by (simp add: varchar_column_def)

lemma sample_peer_input [simp]: "scr_in (ch_stream (sample_peer bs)) = bs"
  by (simp add: sample_peer_def make_channel_def)

lemma query_and_fetch_all_witness:
  "\<exists>rs ch1 ch2 row. execute_query scripted_stream 1000 sample_lexical gregorian [0x53] default_resultset empty_info
      (sample_peer (frames_list 1 (result_head (caps_of 0) [sample_column] @ [enc_text_row (caps_of 0) [Some [0x61]], eof_message default_ok_packet])))
      = Some (no_error, empty_info, rs, ch1) \<and>
    fetch_all scripted_stream rs ch1 = Some ([([V_string [0x61]], row)], no_error, empty_info,
      rs\<lparr>rs_ok_packet := default_ok_packet, rs_eof_received := True\<rparr>, ch2)"
proof -
  have len: "Suc (length [0x53 :: u8]) < MAX_PACKET_SIZE" by (simp add: MAX_PACKET_SIZE_def)
  show ?thesis
    using query_and_fetch_all [OF scripted_reliable sample_peer_wf len, of
        "frames_list 1 (result_head (caps_of 0) [sample_column] @ [enc_text_row (caps_of 0) [Some [0x61]], eof_message default_ok_packet])"
        "[sample_column]" "[[Some [0x61]]]" default_ok_packet "[]" 1000 sample_lexical gregorian default_resultset empty_info]
    unfolding sample_column_metadata
    by (simp add: size_t_max_def del: frames_list.simps) fast
qed

lemma statement_rows:
  assumes "reliable_stream S inp out" and "channel_wf ch" and "execute_asserted D params"
    and "m = enc_com_stmt_execute D (ch_current_caps ch) (make_stmt_execute_packet statement_id params)"
    and "length m < MAX_PACKET_SIZE"
    and "inp (ch_stream ch) = frames_list 1 (result_head (ch_current_caps ch) cds @
           map (enc_binary_row D (ch_current_caps ch) (map field_metadata_of cds)) rows @ [eof_message p]) @ rest"
    and "columns_ok M cds"
    and "\<forall>r \<in> set rows. binary_row_sendable D (map field_metadata_of cds) r" and "length rows < size_t_max" and "in_memory (ok_info p)"
  shows "\<exists>rs ch1 ch2. execute_statement S M D statement_id params output info ch = Some (no_error, info, rs, ch1) \<and>
    rs_fields rs = map field_metadata_of cds \<and> request_sent out m ch ch2 \<and> pending inp ch2 [] rest \<and>
    fetch_all S rs ch1 =
      Some (map (\<lambda>r. (r, enc_binary_row D (ch_current_caps ch) (map field_metadata_of cds) r)) rows,
        no_error, empty_info, rs\<lparr>rs_ok_packet := p, rs_eof_received := True\<rparr>, ch2)"
proof -
  have ser: "serialize_message (serialize_com_stmt_execute D) get_size_com_stmt_execute
      (make_stmt_execute_packet statement_id params) (ch_current_caps ch) [] = Some m"
    using assms(3,4) by (simp add: com_stmt_execute.serialize_message_guarded execute_asserted_packet [of D params statement_id])
  have "num_params_asserted (make_stmt_execute_packet statement_id params)"
    using assms(3) by (simp add: execute_asserted_packet [of D params statement_id])
  then show ?thesis
    using binary_rows.execute_and_fetch [OF assms(1,2) ser assms(5-10)] by (simp add: execute_statement_def)
qed

text \<open>
  Executing a prepared statement and reading its rows: the statement's number and its parameters
  are sent in one packet, and \<open>fetch_all\<close> returns exactly the rows sent in binary form.
\<close>
theorem statement_and_fetch_all:
  assumes "reliable_stream S inp out" and "channel_wf ch" and "execute_asserted D params"
    and "m = enc_com_stmt_execute D (ch_current_caps ch) (make_stmt_execute_packet statement_id params)"
    and "length m < MAX_PACKET_SIZE"
    and "inp (ch_stream ch) = frames_list 1 (result_head (ch_current_caps ch) cds @
           map (enc_binary_row D (ch_current_caps ch) (map field_metadata_of cds)) rows @ [eof_message p]) @ rest"
    and "columns_ok M cds"
    and "\<forall>r \<in> set rows. binary_row_sendable D (map field_metadata_of cds) r" and "length rows < size_t_max" and "in_memory (ok_info p)"
  shows "\<exists>rs ch1 ch2. execute_statement S M D statement_id params output info ch = Some (no_error, info, rs, ch1) \<and>
    rs_fields rs = map field_metadata_of cds \<and> request_sent out m ch ch2 \<and> inp (ch_stream ch2) = rest \<and>
    fetch_all S rs ch1 =
      Some (map (\<lambda>r. (r, enc_binary_row D (ch_current_caps ch) (map field_metadata_of cds) r)) rows,
        no_error, empty_info, rs\<lparr>rs_ok_packet := p, rs_eof_received := True\<rparr>, ch2)"
  using statement_rows [OF assms] pending_Nil by blast

lemma statement_and_fetch_all_witness:
  "\<exists>rs ch1 ch2 row. execute_statement scripted_stream 1000 gregorian 1 [V_null] default_resultset empty_info
      (sample_peer (frames_list 1 (result_head (caps_of 0) [sample_column] @ [enc_binary_row gregorian (caps_of 0) [varchar_column] [V_null], eof_message default_ok_packet])))
      = Some (no_error, empty_info, rs, ch1) \<and>
    fetch_all scripted_stream rs ch1 = Some ([([V_null], row)], no_error, empty_info,
      rs\<lparr>rs_ok_packet := default_ok_packet, rs_eof_received := True\<rparr>, ch2)"
proof -
  have len: "length (enc_com_stmt_execute gregorian (caps_of 0) (make_stmt_execute_packet 1 [V_null])) < MAX_PACKET_SIZE"
    by (simp add: MAX_PACKET_SIZE_def enc_com_stmt_execute_def make_stmt_execute_packet_def null_bitmap_bytes
        null_bitmap_of_def byte_count_def enc_binary_value_def)
  have row: "binary_row_sendable gregorian [varchar_column] [V_null]"
    by (simp add: binary_row_sendable_def gregorian.date_library_axioms)
  have ps: "execute_asserted gregorian [V_null]" by (simp add: execute_asserted_def binary_value_asserted_def)
  show ?thesis
    using statement_and_fetch_all [OF scripted_reliable sample_peer_wf ps refl, of
        "frames_list 1 (result_head (caps_of 0) [sample_column] @ [enc_binary_row gregorian (caps_of 0) [varchar_column] [V_null], eof_message default_ok_packet])"
        1 "[sample_column]" "[[V_null]]" default_ok_packet "[]" 1000 default_resultset empty_info]
    unfolding sample_column_metadata
    by (simp add: size_t_max_def len row del: frames_list.simps) fast
qed

text \<open>
  C22: a query the server answers with an error packet: the error is the server's code and message and
  the output resultset is left as it was; only a packet that carries code 0 passes for success, with
  a complete resultset that has no fields.
\<close>
theorem query_error_response:
  assumes "reliable_stream S inp out" and "channel_wf ch" and "Suc (length query) < MAX_PACKET_SIZE"
    and "inp (ch_stream ch) = frames_list 1 [error_message e] @ rest" and "err_packet_wf e"
  shows "\<exists>ch'. inp (ch_stream ch') = rest \<and> request_sent out (com_query_id # query) ch ch' \<and>
    execute_query S M L D query output info ch =
      Some (make_error_code (Errc (uint (err_error_code e))), \<lparr>ei_msg = err_error_message e\<rparr>,
        if err_error_code e = 0 then resultset_empty (error_message e) default_ok_packet else output, ch')"
proof -
  have "length (com_query_id # query) < MAX_PACKET_SIZE" using assms(3) by simp
  from execute_generic_error [OF assms(1,2) serialize_com_query_message this assms(4,5)]
  show ?thesis using pending_Nil unfolding execute_query_def by blast
qed

lemma query_error_response_witness:
  "\<exists>ch'. execute_query scripted_stream 10 sample_lexical gregorian [] default_resultset empty_info
      (sample_peer (frames_list 1 [error_message (err_packet_of (1064, [0x23], [1, 2, 3, 4, 5], [0x78], ()))]))
    = Some (make_error_code (Errc 1064), \<lparr>ei_msg = [0x78]\<rparr>, default_resultset, ch')"
  using query_error_response [OF scripted_reliable sample_peer_wf, of "[]"
      "frames_list 1 [error_message (err_packet_of (1064, [0x23], [1, 2, 3, 4, 5], [0x78], ()))]"
      "err_packet_of (1064, [0x23], [1, 2, 3, 4, 5], [0x78], ())" "[]" 10 sample_lexical gregorian default_resultset empty_info]
  by (simp add: err_packet_wf_def err_packet_of_def MAX_PACKET_SIZE_def del: frames_list.simps) blast

text \<open>
  C23: a query returns whatever the peer sends, as long as what it sends is finite: it either fails and
  leaves the output alone, or gives a valid resultset, complete or with fields and ready to read
  text rows; the one exception is a response that announces more fields than a vector can hold.
\<close>
theorem query_returns:
  assumes "byte_stream S inp out" and "channel_wf ch"
  shows "execute_outcome inp out M (text_row_fn L D) output ch (execute_query S M L D query output info ch)"
  unfolding execute_query_def by (rule execute_generic_total [OF assms serialize_com_query_message])

lemma query_returns_witness:
  "execute_outcome scr_in scr_out 10 (text_row_fn sample_lexical gregorian) default_resultset (sample_peer [1, 0, 0, 1, 200])
     (execute_query scripted_stream 10 sample_lexical gregorian [] default_resultset empty_info (sample_peer [1, 0, 0, 1, 200]))"
  by (rule query_returns [OF scripted_byte_stream sample_peer_wf])

text \<open>
  That exception happens: a response of nine bytes makes \<open>reserve\<close> throw \<open>std::length_error\<close>,
  outside the error codes of the interface.
\<close>
lemma query_length_error:
  assumes "reliable_stream S inp out" and "channel_wf ch" and "Suc (length query) < MAX_PACKET_SIZE"
    and "inp (ch_stream ch) = frames_list 1 [enc_int_lenenc (caps_of 0) v] @ rest" and "M < unat v"
  shows "execute_query S M L D query output info ch = None"
proof -
  have m: "length (com_query_id # query) < MAX_PACKET_SIZE" using assms(3) by simp
  have "v \<noteq> 0" using assms(5) by (metis not_less_zero unat_0)
  then show ?thesis
    using execute_generic_response [OF assms(1,2) serialize_com_query_message m assms(4), of M "text_row_fn L D" "output" info]
      execute_response_fields [of "(make_execute_processor (text_row_fn L D))\<lparr>ep_buffer := enc_int_lenenc (caps_of 0) v\<rparr>" v M
        "ch_current_caps ch" info] assms(5)
    by (auto simp: execute_query_def)
qed

end
