(* ===== verification/Async_Rows.thy ===== *)
theory Async_Rows
  imports Async_Channel Execute
begin

text \<open>
  The asynchronous operations that read rows and heads of results: \<open>read_row_op\<close>
  (\<open>impl/read_row.hpp\<close>), \<open>fetch_one_op\<close> and \<open>fetch_many_op\<close> (\<open>impl/resultset.hpp\<close>) and
  \<open>execute_generic_op\<close> (\<open>impl/execute_generic.hpp\<close>), and that each does what the synchronous one does.

  What an operation refers to outside the channel, output parameters included, is in its record. The
  output information is a pointer that may be null: an option.
\<close>

section \<open>Reading a row\<close>

datatype read_row_point = Row_entry | Row_message_read

record read_row_op =
  rr_point :: read_row_point
  rr_deserializer :: row_fn
  rr_meta :: "field_metadata list"
  rr_buffer :: bytes
  rr_outputs :: row_outputs
  rr_output_info :: "error_info option"

definition await_row_message :: "'s stream_ops \<Rightarrow> read_row_op \<times> 's channel \<Rightarrow> (error_code \<times> read_row_op \<times> 's channel) option" where
  "await_row_message S = (\<lambda>(op, ch).
     map_option (\<lambda>(buf, code, ch1). (code, op\<lparr>rr_buffer := buf\<rparr>, ch1)) (async_read S ch))"

fun read_row_resume ::
    "'s stream_ops \<Rightarrow> (read_row_op \<times> 's channel, error_code, error_code \<times> read_row_result) co_resume" where
  "read_row_resume S err (op, ch) =
     (if failed err then Some (Co_complete (err, Row_error), op, ch)
     else case rr_point op of
       Row_entry \<Rightarrow> Some (Co_await (await_row_message S), op\<lparr>rr_point := Row_message_read\<rparr>, ch)
     | Row_message_read \<Rightarrow>
         map_option (\<lambda>(result, err, info, outs).
             (Co_complete (err, result),
              op\<lparr>rr_outputs := outs, rr_output_info := conditional_assign (rr_output_info op) info\<rparr>, ch))
           (process_read_message (rr_deserializer op) (ch_current_caps ch) (rr_meta op) (rr_buffer op)
              (rr_outputs op) empty_info))"

definition async_read_row ::
    "'s stream_ops \<Rightarrow> row_fn \<Rightarrow> field_metadata list \<Rightarrow> row_outputs \<Rightarrow> error_info option \<Rightarrow> 's channel \<Rightarrow>
     (read_row_result \<times> error_code \<times> error_info option \<times> bytes \<times> row_outputs \<times> 's channel) option" where
  "async_read_row S deserializer meta outs output_info ch =
     map_option (\<lambda>((err, result), op, ch1). (result, err, rr_output_info op, rr_buffer op, rr_outputs op, ch1))
       (run_co (read_row_resume S) no_error
          (\<lparr>rr_point = Row_entry, rr_deserializer = deserializer, rr_meta = meta, rr_buffer = [], rr_outputs = outs,
            rr_output_info = output_info\<rparr>, ch))"

text \<open>The information is cleared when an operation of the interface begins.\<close>

definition cleared_info :: "error_info option \<Rightarrow> bool" where
  "cleared_info p \<longleftrightarrow> conditional_assign p empty_info = p"

lemma cleared_infoD: "cleared_info p \<Longrightarrow> conditional_assign p empty_info = p"
  by (simp add: cleared_info_def)

lemma conditional_clear_assign: "conditional_clear p = conditional_assign p empty_info"
  by (cases p) (simp_all add: conditional_clear_def conditional_assign_def error_info_clear_def empty_info_def)

lemma conditional_assign_assign [simp]:
  "conditional_assign (conditional_assign p i) j = conditional_assign p j"
  by (cases p) (simp_all add: conditional_assign_def)

lemma cleared_conditional_assign [simp]: "cleared_info (conditional_assign p empty_info)"
  by (simp add: cleared_info_def)

lemma async_read_cases:
  assumes "byte_stream S inp out" and "channel_wf ch"
  obtains buf code ch1 where "channel_read S ch = Some (buf, code, ch1)"
    "async_read S ch = Some (buf, normal_code code, ch1)" "channel_wf ch1"
    "\<not> failed code \<Longrightarrow> length (inp (ch_stream ch1)) < length (inp (ch_stream ch))"
  using channel_read_progress [OF assms] async_read_eq [OF assms] that
  by (auto simp: normal_read_def progress_def)

lemma async_write_cases:
  assumes "byte_stream S inp out" and "channel_wf ch"
  obtains code ch1 where "channel_write S m ch = Some (code, ch1)"
    "async_write S m ch = Some (normal_code code, ch1)" "channel_wf ch1"
    "length (inp (ch_stream ch1)) \<le> length (inp (ch_stream ch))"
  using channel_write_progress [OF assms, of m] async_write_eq [OF assms, of m] that
  by (auto simp: normal_write_def progress_def)

lemma async_read_row_eq:
  assumes "byte_stream S inp out" and "channel_wf ch" and "cleared_info oi"
  shows "async_read_row S d meta outs oi ch =
    map_option (\<lambda>(result, err, info, r). (result, err, conditional_assign oi info, r)) (read_row S d meta outs empty_info ch)"
proof -
  obtain buf code ch1 where r: "channel_read S ch = Some (buf, code, ch1)"
    "async_read S ch = Some (buf, normal_code code, ch1)"
    by (rule async_read_cases [OF assms(1,2)])
  show ?thesis
  proof (cases "failed code")
    case True
    then show ?thesis
      using cleared_infoD [OF assms(3)]
      by (simp add: async_read_row_def read_row_def r run_co_step await_row_message_def)
  next
    case False
    then show ?thesis
      by (cases "process_read_message d (ch_current_caps ch1) meta buf outs empty_info")
        (auto simp: async_read_row_def read_row_def r run_co_step await_row_message_def)
  qed
qed

section \<open>Fetching one row\<close>

datatype fetch_one_point = Fetch_one_entry | Fetch_one_posted | Fetch_one_row_read

record fetch_one_op =
  fo_point :: fetch_one_point
  fo_resultset :: resultset
  fo_output_info :: "error_info option"

type_synonym row_result = "error_code \<times> read_row_result"

definition await_fetch_one_row ::
    "'s stream_ops \<Rightarrow> row_fn \<Rightarrow> fetch_one_op \<times> 's channel \<Rightarrow> (row_result \<times> fetch_one_op \<times> 's channel) option" where
  "await_fetch_one_row S d = (\<lambda>(op, ch).
     let rs = fo_resultset op
     in map_option (\<lambda>(result, err, info, buffer, outs, ch1).
          ((err, result),
           op\<lparr>fo_resultset := rs\<lparr>rs_buffer := buffer, rs_current_row := ro_values outs, rs_ok_packet := ro_ok_packet outs\<rparr>,
              fo_output_info := info\<rparr>, ch1))
        (async_read_row S d (rs_fields rs) \<lparr>ro_values = rs_current_row rs, ro_ok_packet = rs_ok_packet rs\<rparr>
           (fo_output_info op) ch))"

text \<open>A post calls back with the arguments bound to the handler, or the default ones.\<close>

definition await_post :: "'a \<Rightarrow> 'st \<Rightarrow> ('a \<times> 'st) option" where
  "await_post args st = Some (args, st)"

fun fetch_one_resume ::
    "'s stream_ops \<Rightarrow> (fetch_one_op \<times> 's channel, row_result, error_code \<times> mysql_value list option) co_resume" where
  "fetch_one_resume S (err, result) (op, ch) =
     (case fo_point op of
       Fetch_one_entry \<Rightarrow>
         if rs_complete (fo_resultset op)
         then Some (Co_await (await_post (no_error, Row_error)), op\<lparr>fo_point := Fetch_one_posted\<rparr>, ch)
         else (case rs_deserializer (fo_resultset op) of
                 None \<Rightarrow> None
               | Some d \<Rightarrow> Some (Co_await (await_fetch_one_row S d), op\<lparr>fo_point := Fetch_one_row_read\<rparr>, ch))
     | Fetch_one_posted \<Rightarrow> Some (Co_complete (no_error, None), op, ch)
     | Fetch_one_row_read \<Rightarrow>
         (let rs = (fo_resultset op)\<lparr>rs_eof_received := (result = Row_eof)\<rparr>
          in Some (Co_complete (err, if result = Row_row then Some (rs_current_row rs) else None),
               op\<lparr>fo_resultset := rs\<rparr>, ch)))"

definition async_fetch_one ::
    "'s stream_ops \<Rightarrow> error_info option \<Rightarrow> resultset \<Rightarrow> 's channel \<Rightarrow>
     (mysql_value list option \<times> error_code \<times> error_info option \<times> resultset \<times> 's channel) option" where
  "async_fetch_one S info rs ch =
     (if \<not> rs_valid rs then None
      else map_option (\<lambda>((err, row), op, ch1). (row, err, fo_output_info op, fo_resultset op, ch1))
             (run_co (fetch_one_resume S) (no_error, Row_error)
                (\<lparr>fo_point = Fetch_one_entry, fo_resultset = rs, fo_output_info = conditional_clear info\<rparr>, ch)))"

lemma async_fetch_one_eq:
  assumes "byte_stream S inp out" and "channel_wf ch"
  shows "async_fetch_one S info rs ch =
    map_option (\<lambda>(row, err, info1, r). (row, err, conditional_assign info info1, r)) (fetch_one S rs ch)"
proof (cases "rs_complete rs")
  case True
  then show ?thesis
    by (auto simp: async_fetch_one_def fetch_one_def run_co_step await_post_def conditional_clear_assign)
next
  case False
  show ?thesis
  proof (cases "rs_deserializer rs")
    case None
    then show ?thesis using False by (simp add: async_fetch_one_def fetch_one_def run_co_step)
  next
    case (Some d)
    let ?r = "read_row S d (rs_fields rs) \<lparr>ro_values = rs_current_row rs, ro_ok_packet = rs_ok_packet rs\<rparr> empty_info ch"
    show ?thesis
      using False Some
      by (cases ?r) (auto simp: async_fetch_one_def fetch_one_def run_co_step await_fetch_one_row_def Let_def
          conditional_clear_assign async_read_row_eq [OF assms cleared_conditional_assign])
  qed
qed

section \<open>Fetching many rows\<close>

datatype fetch_many_point = Fetch_many_entry | Fetch_many_row_read | Fetch_many_posted

record fetch_many_op =
  fm_point :: fetch_many_point
  fm_resultset :: resultset
  fm_rows :: "owning_row list"
  fm_buffer :: bytes
  fm_values :: "mysql_value list"
  fm_remaining :: nat
  fm_cont :: bool
  fm_output_info :: "error_info option"

definition row_received :: "fetch_many_op \<Rightarrow> fetch_many_op" where
  "row_received op =
     op\<lparr>fm_rows := fm_rows op @ [(fm_values op, fm_buffer op)], fm_values := [], fm_buffer := [],
        fm_remaining := fm_remaining op - 1\<rparr>"

definition await_fetch_many_row ::
    "'s stream_ops \<Rightarrow> row_fn \<Rightarrow> fetch_many_op \<times> 's channel \<Rightarrow> (row_result \<times> fetch_many_op \<times> 's channel) option" where
  "await_fetch_many_row S d = (\<lambda>(op, ch).
     let rs = fm_resultset op
     in map_option (\<lambda>(result, err, info, buffer, outs, ch1).
          ((err, result),
           op\<lparr>fm_resultset := rs\<lparr>rs_ok_packet := ro_ok_packet outs\<rparr>, fm_buffer := buffer, fm_values := ro_values outs,
              fm_output_info := info\<rparr>, ch1))
        (async_read_row S d (rs_fields rs) \<lparr>ro_values = fm_values op, ro_ok_packet = rs_ok_packet rs\<rparr>
           (fm_output_info op) ch))"

text \<open>The head of the loop, and what follows when it ends.\<close>

definition fetch_many_head ::
    "'s stream_ops \<Rightarrow> error_code \<Rightarrow> fetch_many_op \<Rightarrow> 's channel \<Rightarrow>
     ((fetch_many_op \<times> 's channel, row_result, error_code \<times> owning_row list) co_action \<times> fetch_many_op \<times> 's channel) option" where
  "fetch_many_head S err op ch =
     (if \<not> rs_complete (fm_resultset op) \<and> fm_remaining op > 0
      then (case rs_deserializer (fm_resultset op) of
              None \<Rightarrow> None
            | Some d \<Rightarrow>
                Some (Co_await (await_fetch_many_row S d), op\<lparr>fm_cont := True, fm_point := Fetch_many_row_read\<rparr>, ch))
      else if \<not> fm_cont op
      then Some (Co_await (await_post (err, Row_error)), op\<lparr>fm_point := Fetch_many_posted\<rparr>, ch)
      else Some (Co_complete (err, fm_rows op), op, ch))"

fun fetch_many_resume ::
    "'s stream_ops \<Rightarrow> (fetch_many_op \<times> 's channel, row_result, error_code \<times> owning_row list) co_resume" where
  "fetch_many_resume S (err, result) (op, ch) =
     (case fm_point op of
        Fetch_many_entry \<Rightarrow> fetch_many_head S err op ch
      | Fetch_many_row_read \<Rightarrow>
          if result = Row_error then Some (Co_complete (err, fm_rows op), op, ch)
          else if result = Row_eof
          then fetch_many_head S err (op\<lparr>fm_resultset := (fm_resultset op)\<lparr>rs_eof_received := True\<rparr>\<rparr>) ch
          else fetch_many_head S err (row_received op) ch
      | Fetch_many_posted \<Rightarrow> Some (Co_complete (err, fm_rows op), op, ch))"

definition async_fetch_many ::
    "'s stream_ops \<Rightarrow> nat \<Rightarrow> error_info option \<Rightarrow> resultset \<Rightarrow> 's channel \<Rightarrow>
     (owning_row list \<times> error_code \<times> error_info option \<times> resultset \<times> 's channel) option" where
  "async_fetch_many S count info rs ch =
     (if \<not> rs_valid rs then None
      else map_option (\<lambda>((err, rows), op, ch1). (rows, err, fm_output_info op, fm_resultset op, ch1))
             (run_co (fetch_many_resume S) (no_error, Row_error)
                (\<lparr>fm_point = Fetch_many_entry, fm_resultset = rs, fm_rows = [], fm_buffer = [], fm_values = [],
                  fm_remaining = count, fm_cont = False, fm_output_info = conditional_clear info\<rparr>, ch)))"

definition async_fetch_all ::
    "'s stream_ops \<Rightarrow> error_info option \<Rightarrow> resultset \<Rightarrow> 's channel \<Rightarrow>
     (owning_row list \<times> error_code \<times> error_info option \<times> resultset \<times> 's channel) option" where
  "async_fetch_all S info rs ch = async_fetch_many S size_t_max info rs ch"

lemma read_row_wf:
  assumes "byte_stream S inp out" and "channel_wf ch"
    and "read_row S d metas outs info ch = Some (result, err, info1, buffer, outs1, ch1)"
  shows "channel_wf ch1"
proof -
  obtain buf code ch2 where "channel_read S ch = Some (buf, code, ch2)" "channel_wf ch2"
    by (rule async_read_cases [OF assms(1,2)])
  then show ?thesis using assms(3) by (auto simp: read_row_def split: if_splits)
qed

lemma read_row_eof_result:
  "read_row S d metas outs info ch = Some (Row_eof, err, info1, buffer, outs1, ch1) \<Longrightarrow> err = no_error \<and> info1 = info"
  by (auto simp: read_row_def process_read_message_def bind_eq_Some_conv split: if_splits sum.splits prod.splits option.splits)

definition fetch_many_result ::
    "((error_code \<times> owning_row list) \<times> fetch_many_op \<times> 's channel) option \<Rightarrow>
     (owning_row list \<times> error_code \<times> error_info option \<times> resultset \<times> 's channel) option" where
  "fetch_many_result = map_option (\<lambda>((err, rows), op, ch). (rows, err, fm_output_info op, fm_resultset op, ch))"

text \<open>One pass of the loop: a row is read into the operation, and its resumption decides.\<close>

definition fetch_many_after ::
    "fetch_many_op \<Rightarrow> error_info \<Rightarrow> bytes \<Rightarrow> row_outputs \<Rightarrow> fetch_many_op" where
  "fetch_many_after op info1 buffer outs =
     op\<lparr>fm_cont := True, fm_point := Fetch_many_row_read,
       fm_resultset := (fm_resultset op)\<lparr>rs_ok_packet := ro_ok_packet outs\<rparr>, fm_buffer := buffer,
       fm_values := ro_values outs, fm_output_info := conditional_assign (fm_output_info op) info1\<rparr>"

abbreviation fetch_many_read ::
    "'s stream_ops \<Rightarrow> row_fn \<Rightarrow> resultset \<Rightarrow> 's channel \<Rightarrow>
     (read_row_result \<times> error_code \<times> error_info \<times> bytes \<times> row_outputs \<times> 's channel) option" where
  "fetch_many_read S d rs ch \<equiv>
     read_row S d (rs_fields rs) \<lparr>ro_values = [], ro_ok_packet = rs_ok_packet rs\<rparr> empty_info ch"

lemma fetch_many_await:
  assumes "byte_stream S inp out" and "channel_wf ch" and "cleared_info (fm_output_info op)"
    and "rs_deserializer (fm_resultset op) = Some d" and "\<not> rs_complete (fm_resultset op)" and "fm_values op = []"
    and "0 < fm_remaining op"
  shows "Option.bind (fetch_many_head S no_error op ch) (co_continue (fetch_many_resume S)) =
    Option.bind (fetch_many_read S d (fm_resultset op) ch) (\<lambda>(result, err, info1, buffer, outs, ch1).
      run_co (fetch_many_resume S) (err, result) (fetch_many_after op info1 buffer outs, ch1))"
  using assms(3-)
  by (cases "fetch_many_read S d (fm_resultset op) ch")
    (auto simp: fetch_many_head_def await_fetch_many_row_def Let_def fetch_many_after_def
      async_read_row_eq [OF assms(1-3)])

lemma fetch_many_run_eof:
  "fetch_many_result (run_co (fetch_many_resume S) (no_error, Row_eof) (fetch_many_after op info1 buffer outs, ch1)) =
   Some (fm_rows op, no_error, conditional_assign (fm_output_info op) info1,
     (fm_resultset op)\<lparr>rs_ok_packet := ro_ok_packet outs, rs_eof_received := True\<rparr>, ch1)"
  by (simp add: run_co_step fetch_many_head_def rs_complete_def fetch_many_result_def fetch_many_after_def)

lemma fetch_many_run:
  assumes "byte_stream S inp out" and "channel_wf ch" and "cleared_info (fm_output_info op)"
    and "rs_deserializer (fm_resultset op) = Some d" and "\<not> rs_complete (fm_resultset op)" and "fm_values op = []"
    and "fm_cont op \<or> 0 < n" and "fm_remaining op = n"
  shows "fetch_many_result (Option.bind (fetch_many_head S no_error op ch) (co_continue (fetch_many_resume S))) =
    map_option (\<lambda>(rows, err, info1, r). (fm_rows op @ rows, err, conditional_assign (fm_output_info op) info1, r))
      (fetch_loop S d n empty_info (fm_resultset op) ch)"
  using assms(2-)
proof (induction n arbitrary: op ch)
  case 0
  then show ?case using cleared_infoD [OF 0(2)] by (simp add: fetch_many_head_def fetch_many_result_def)
next
  case (Suc n)
  let ?rs = "fm_resultset op"
  note await = fetch_many_await [OF assms(1) Suc.prems(1-5)]
  show ?case
  proof (cases "fetch_many_read S d ?rs ch")
    case None
    then show ?thesis using Suc.prems(7) by (simp add: await fetch_many_result_def)
  next
    case (Some r)
    then obtain result err info1 buffer outs ch1
      where r: "fetch_many_read S d ?rs ch = Some (result, err, info1, buffer, outs, ch1)"
      by (cases r) auto
    let ?op1 = "fetch_many_after op info1 buffer outs"
    note await_r = await [unfolded r Suc.prems(7), simplified]
    show ?thesis
    proof (cases result)
      case Row_error
      then show ?thesis
        using Suc.prems(4)
        by (simp add: await_r run_co_step fetch_many_result_def fetch_many_after_def r rs_complete_def)
    next
      case Row_eof
      then show ?thesis
        using read_row_eof_result [OF r [unfolded Row_eof]] by (simp add: await_r fetch_many_run_eof r)
    next
      case Row_row
      have row1: "err = no_error" "info1 = empty_info" "ro_ok_packet outs = rs_ok_packet ?rs"
        using read_row_row_result [OF r [unfolded Row_row]] by simp_all
      have rs1: "?rs\<lparr>rs_ok_packet := rs_ok_packet ?rs, rs_eof_received := False\<rparr> = ?rs"
        "?rs\<lparr>rs_ok_packet := rs_ok_packet ?rs\<rparr> = ?rs" "?rs\<lparr>rs_eof_received := False\<rparr> = ?rs"
        using Suc.prems(4) by (simp_all add: rs_complete_def)
      have wf: "channel_wf ch1" by (rule read_row_wf [OF assms(1) Suc.prems(1) r])
      have "run_co (fetch_many_resume S) (err, result) (?op1, ch1) =
          Option.bind (fetch_many_head S no_error (row_received ?op1) ch1) (co_continue (fetch_many_resume S))"
        by (simp add: run_co_step fetch_many_after_def Row_row row1)
      moreover have "fetch_many_result (Option.bind (fetch_many_head S no_error (row_received ?op1) ch1)
            (co_continue (fetch_many_resume S))) =
          map_option (\<lambda>(rows, err, info1, r).
              (fm_rows op @ (ro_values outs, buffer) # rows, err, conditional_assign (fm_output_info op) info1, r))
            (fetch_loop S d n empty_info ?rs ch1)"
        using Suc.IH [OF wf, of "row_received ?op1"] Suc.prems
        by (simp add: row_received_def fetch_many_after_def row1 rs1)
      ultimately show ?thesis
        using Row_row by (simp add: await_r r row1 rs1 option.map_comp comp_def case_prod_unfold)
    qed
  qed
qed

lemma async_fetch_many_eq:
  assumes "byte_stream S inp out" and "channel_wf ch"
  shows "async_fetch_many S count info rs ch =
    map_option (\<lambda>(rows, err, info1, r). (rows, err, conditional_assign info info1, r)) (fetch_many S count rs ch)"
proof (cases "rs_valid rs")
  case False
  then show ?thesis by (simp add: async_fetch_many_def fetch_many_def)
next
  case valid: True
  define op where "op = \<lparr>fm_point = Fetch_many_entry, fm_resultset = rs, fm_rows = [], fm_buffer = [], fm_values = [],
    fm_remaining = count, fm_cont = False, fm_output_info = conditional_clear info\<rparr>"
  have start: "async_fetch_many S count info rs ch =
      fetch_many_result (Option.bind (fetch_many_head S no_error op ch) (co_continue (fetch_many_resume S)))"
    by (simp add: async_fetch_many_def fetch_many_result_def run_co_step op_def valid)
  show ?thesis
  proof (cases "rs_complete rs \<or> count = 0")
    case True
    then have "fetch_many S count rs ch = Some ([], no_error, empty_info, rs, ch)"
      by (auto simp: fetch_many_def valid split: option.split)
    moreover have "fetch_many_head S no_error op ch =
        Some (Co_await (await_post (no_error, Row_error)), op\<lparr>fm_point := Fetch_many_posted\<rparr>, ch)"
      using True by (auto simp: fetch_many_head_def op_def)
    ultimately show ?thesis
      by (simp add: start fetch_many_result_def await_post_def run_co_step op_def conditional_clear_assign)
  next
    case False
    show ?thesis
    proof (cases "rs_deserializer rs")
      case None
      then show ?thesis
        using False by (simp add: start fetch_many_head_def fetch_many_def fetch_many_result_def op_def valid)
    next
      case (Some d)
      then show ?thesis
        using False fetch_many_run [OF assms, of op d count]
        by (simp add: start fetch_many_def op_def conditional_clear_assign valid)
    qed
  qed
qed

section \<open>Executing\<close>

datatype execute_point = Execute_entry | Execute_written | Execute_response_read | Execute_field_read

record execute_op =
  eo_point :: execute_point
  eo_processor :: execute_processor
  eo_remaining_fields :: nat
  eo_output_info :: "error_info option"

definition await_execute_write ::
    "'s stream_ops \<Rightarrow> execute_op \<times> 's channel \<Rightarrow> (error_code \<times> execute_op \<times> 's channel) option" where
  "await_execute_write S = (\<lambda>(op, ch).
     map_option (\<lambda>(code, ch1). (code, op, ch1)) (async_write S (ep_buffer (eo_processor op)) ch))"

definition await_execute_read ::
    "'s stream_ops \<Rightarrow> execute_op \<times> 's channel \<Rightarrow> (error_code \<times> execute_op \<times> 's channel) option" where
  "await_execute_read S = (\<lambda>(op, ch).
     map_option (\<lambda>(buf, code, ch1). (code, op\<lparr>eo_processor := (eo_processor op)\<lparr>ep_buffer := buf\<rparr>\<rparr>, ch1))
       (async_read S ch))"

definition execute_fields_head ::
    "'s stream_ops \<Rightarrow> execute_op \<Rightarrow> 's channel \<Rightarrow>
     ((execute_op \<times> 's channel, error_code, error_code \<times> resultset) co_action \<times> execute_op \<times> 's channel) option" where
  "execute_fields_head S op ch =
     (if eo_remaining_fields op > 0 then Some (Co_await (await_execute_read S), op\<lparr>eo_point := Execute_field_read\<rparr>, ch)
      else Some (Co_complete (no_error, create_resultset (eo_processor op)), op, ch))"

fun execute_resume ::
    "'s stream_ops \<Rightarrow> nat \<Rightarrow> (execute_op \<times> 's channel, error_code, error_code \<times> resultset) co_resume" where
  "execute_resume S max_size err (op, ch) =
     (if failed err then Some (Co_complete (err, default_resultset), op, ch)
      else case eo_point op of
        Execute_entry \<Rightarrow> Some (Co_await (await_execute_write S), op\<lparr>eo_point := Execute_written\<rparr>, ch)
      | Execute_written \<Rightarrow> Some (Co_await (await_execute_read S), op\<lparr>eo_point := Execute_response_read\<rparr>, ch)
      | Execute_response_read \<Rightarrow>
          Option.bind (execute_response max_size (ch_current_caps ch) empty_info (eo_processor op)) (\<lambda>(err1, info, p).
            if failed err1
            then Some (Co_complete (err1, default_resultset),
              op\<lparr>eo_processor := p, eo_output_info := conditional_assign (eo_output_info op) info\<rparr>, ch)
            else execute_fields_head S (op\<lparr>eo_processor := p, eo_remaining_fields := ep_field_count p\<rparr>) ch)
      | Execute_field_read \<Rightarrow>
          (case process_field_definition (ch_current_caps ch) (eo_processor op) of (err1, p) \<Rightarrow>
             if failed err1 then Some (Co_complete (err1, default_resultset), op\<lparr>eo_processor := p\<rparr>, ch)
             else execute_fields_head S
               (op\<lparr>eo_processor := p, eo_remaining_fields := eo_remaining_fields op - 1\<rparr>) ch))"

text \<open>The request is composed by the constructor of the operation.\<close>

definition async_execute_generic ::
    "'s stream_ops \<Rightarrow> nat \<Rightarrow> row_fn \<Rightarrow> 'a ser \<Rightarrow> 'a sizer \<Rightarrow> 'a \<Rightarrow> error_info option \<Rightarrow> 's channel \<Rightarrow>
     (error_code \<times> error_info option \<times> resultset \<times> 's channel) option" where
  "async_execute_generic S max_size d ser sz request info ch =
     Option.bind (execute_request ser sz request (make_execute_processor d) ch) (\<lambda>(p, ch0).
       map_option (\<lambda>((err, rs), op, ch1). (err, eo_output_info op, rs, ch1))
         (run_co (execute_resume S max_size) no_error
            (\<lparr>eo_point = Execute_entry, eo_processor = p, eo_remaining_fields = 0, eo_output_info = info\<rparr>, ch0)))"

definition async_execute_query ::
    "'s stream_ops \<Rightarrow> nat \<Rightarrow> lexical_lib \<Rightarrow> date_lib \<Rightarrow> bytes \<Rightarrow> error_info option \<Rightarrow> 's channel \<Rightarrow>
     (error_code \<times> error_info option \<times> resultset \<times> 's channel) option" where
  "async_execute_query S max_size L D query =
     async_execute_generic S max_size (text_row_fn L D) serialize_com_query get_size_com_query query"

definition async_execute_statement ::
    "'s stream_ops \<Rightarrow> nat \<Rightarrow> date_lib \<Rightarrow> u32 \<Rightarrow> mysql_value list \<Rightarrow> error_info option \<Rightarrow> 's channel \<Rightarrow>
     (error_code \<times> error_info option \<times> resultset \<times> 's channel) option" where
  "async_execute_statement S max_size D statement_id params info ch =
     (if num_params_asserted (make_stmt_execute_packet statement_id params)
      then async_execute_generic S max_size (binary_row_fn D) (serialize_com_stmt_execute D) get_size_com_stmt_execute
             (make_stmt_execute_packet statement_id params) info ch
      else None)"

text \<open>The information of a request that succeeds is left as it was cleared.\<close>

definition async_view ::
    "error_info option \<Rightarrow> (error_code \<times> error_info \<times> 'r) option \<Rightarrow> (error_code \<times> error_info option \<times> 'r) option" where
  "async_view p = map_option (\<lambda>(err, info, r).
     (normal_code err, if failed err then conditional_assign p info else p, r))"

lemma execute_fields_run:
  assumes "byte_stream S inp out" and "channel_wf ch" and "eo_remaining_fields op = n" and "\<not> failed err"
  shows "map_option (\<lambda>((err, rs), op, ch1). (err, eo_output_info op, rs, ch1))
      (Option.bind (execute_fields_head S op ch) (co_continue (execute_resume S M))) =
    map_option (\<lambda>(err, p, ch1). (normal_code err, eo_output_info op, if failed err then default_resultset else create_resultset p, ch1))
      (read_fields S n err (eo_processor op) ch)"
  using assms(2-)
proof (induction n arbitrary: op ch err)
  case 0
  then show ?case by (simp add: execute_fields_head_def)
next
  case (Suc n)
  let ?p = "eo_processor op"
  obtain buf code ch1 where r: "channel_read S ch = Some (buf, code, ch1)"
    "async_read S ch = Some (buf, normal_code code, ch1)" "channel_wf ch1"
    by (rule async_read_cases [OF assms(1) Suc.prems(1)])
  let ?op1 = "op\<lparr>eo_point := Execute_field_read, eo_processor := ?p\<lparr>ep_buffer := buf\<rparr>\<rparr>"
  have await: "Option.bind (execute_fields_head S op ch) (co_continue (execute_resume S M)) =
      run_co (execute_resume S M) (normal_code code) (?op1, ch1)"
    using Suc.prems(2) by (simp add: execute_fields_head_def await_execute_read_def r)
  obtain err1 p1 where pf: "process_field_definition (ch_current_caps ch1) (?p\<lparr>ep_buffer := buf\<rparr>) = (err1, p1)"
    by fastforce
  show ?case
  proof (cases "failed code \<or> failed err1")
    case True
    then show ?thesis unfolding await by (auto simp: run_co_step r pf)
  next
    case False
    then have "run_co (execute_resume S M) (normal_code code) (?op1, ch1) =
        Option.bind (execute_fields_head S (?op1\<lparr>eo_processor := p1, eo_remaining_fields := n\<rparr>) ch1)
          (co_continue (execute_resume S M))"
      using Suc.prems(2) by (simp add: run_co_step pf)
    then show ?thesis
      unfolding await using Suc.IH [OF r(3), of "?op1\<lparr>eo_processor := p1, eo_remaining_fields := n\<rparr>" err1] False
      by (simp add: r(1) pf)
  qed
qed

lemma execute_response_info:
  assumes "execute_response M caps info p = Some (err, info1, p1)" and "\<not> failed err" and "ep_field_count p1 \<noteq> ep_field_count p"
  shows "info1 = info"
  using assms
  by (auto simp: execute_response_def Let_def split: if_splits sum.splits prod.splits)

lemma async_execute_generic_eq:
  assumes "byte_stream S inp out" and "channel_wf ch" and "cleared_info info"
  shows "async_execute_generic S M d ser sz request info ch =
    async_view info (execute_generic S M d ser sz request default_resultset empty_info ch)"
proof (cases "execute_request ser sz request (make_execute_processor d) ch")
  case None
  then show ?thesis by (simp add: async_execute_generic_def execute_generic_def async_view_def)
next
  case (Some r0)
  then obtain p ch0 where p: "execute_request ser sz request (make_execute_processor d) ch = Some (p, ch0)"
    by (cases r0) auto
  have wf0: "channel_wf ch0" and count: "ep_field_count p = 0"
    using p assms(2) by (auto simp: execute_request_def make_execute_processor_def)
  obtain code ch1 where w: "channel_write S (ep_buffer p) ch0 = Some (code, ch1)"
    "async_write S (ep_buffer p) ch0 = Some (normal_code code, ch1)" "channel_wf ch1"
    by (rule async_write_cases [OF assms(1) wf0])
  obtain buf code2 ch2 where r: "channel_read S ch1 = Some (buf, code2, ch2)"
    "async_read S ch1 = Some (buf, normal_code code2, ch2)" "channel_wf ch2"
    by (rule async_read_cases [OF assms(1) w(3)])
  note info = cleared_infoD [OF assms(3)]
  note defs = async_execute_generic_def execute_generic_def async_view_def p w r run_co_step await_execute_write_def
    await_execute_read_def info
  let ?er = "execute_response M (ch_current_caps ch2) empty_info (p\<lparr>ep_buffer := buf\<rparr>)"
  consider (io) "failed code \<or> failed code2" | (stuck) "\<not> failed code" "\<not> failed code2" "?er = None"
    | (error) err info1 p1 where "\<not> failed code" "\<not> failed code2" "?er = Some (err, info1, p1)" "failed err"
    | (fields) err info1 p1 where "\<not> failed code" "\<not> failed code2" "?er = Some (err, info1, p1)" "\<not> failed err"
    by (cases ?er) (metis, metis prod_cases3)
  then show ?thesis
  proof cases
    case io
    then show ?thesis by (auto simp: defs)
  next
    case stuck
    then show ?thesis by (simp add: defs)
  next
    case error
    then show ?thesis by (simp add: defs)
  next
    case (fields err info1 p1)
    have same: "info1 = empty_info \<or> ep_field_count p1 = 0"
      using execute_response_info [OF fields(3,4)] count by auto
    note run = execute_fields_run [OF assms(1) r(3) _ fields(4), of _ "ep_field_count p1" M]
    show ?thesis
    proof (cases "read_fields S (ep_field_count p1) err p1 ch2")
      case None
      then show ?thesis using fields run by (simp add: defs)
    next
      case (Some r2)
      obtain err2 p2 ch3 where r2: "r2 = (err2, p2, ch3)" by (cases r2)
      have "info1 = empty_info \<or> \<not> failed err2" using same Some fields(4) r2 by auto
      then show ?thesis using fields run Some r2 info by (auto simp: defs)
    qed
  qed
qed

section \<open>Properties\<close>

text \<open>
  The asynchronous \<open>fetch_many\<close> delivers what the synchronous one returns: the same rows, error
  and resultset, with the information assigned when the caller asked for it.
\<close>
theorem async_fetch_many_same:
  assumes "byte_stream S inp out" and "channel_wf ch"
  shows "async_fetch_many S count info rs ch =
    map_option (\<lambda>(rows, err, info1, r). (rows, err, conditional_assign info info1, r)) (fetch_many S count rs ch)"
  by (rule async_fetch_many_eq [OF assms])

lemma async_fetch_many_same_witness:
  "async_fetch_many scripted_stream 2 (Some empty_info) sample_resultset (sample_peer [3, 0, 0, 0, 0xfe]) =
   map_option (\<lambda>(rows, err, info1, r). (rows, err, Some info1, r))
     (fetch_many scripted_stream 2 sample_resultset (sample_peer [3, 0, 0, 0, 0xfe]))"
  using async_fetch_many_same [OF scripted_byte_stream sample_peer_wf, of 2 "Some empty_info" sample_resultset "[3, 0, 0, 0, 0xfe]"]
  by (simp add: conditional_assign_def)

end
