(* ===== verification/Prepared_Statement.thy ===== *)
theory Prepared_Statement
  imports Execute C_Stdio
begin

text \<open>
  Prepared statements: preparing one on the server (\<open>network_algorithms/impl/prepare_statement.hpp\<close>),
  the handle with its operations (\<open>prepared_statement.hpp\<close>, \<open>impl/prepared_statement.hpp\<close>), and
  closing it (\<open>network_algorithms/impl/close_statement.hpp\<close>).
\<close>

section \<open>Commands in the shared buffer\<close>

text \<open>
  A command is serialized into the buffer the channel owns, and the sequence numbers start again.
\<close>

definition compose_command :: "'a ser \<Rightarrow> 'a sizer \<Rightarrow> 'a \<Rightarrow> 's channel \<Rightarrow> 's channel option" where
  "compose_command ser sz command ch =
     map_option (\<lambda>buf. reset_sequence_number 0 (ch\<lparr>ch_shared_buff := buf\<rparr>))
       (serialize_message ser sz command (ch_current_caps ch) (ch_shared_buff ch))"

definition send_command ::
    "'s stream_ops \<Rightarrow> 'a ser \<Rightarrow> 'a sizer \<Rightarrow> 'a \<Rightarrow> 's channel \<Rightarrow> (error_code \<times> 's channel) option" where
  "send_command S ser sz command ch = Option.bind (compose_command ser sz command ch) (write_shared S)"

section \<open>Preparing a statement\<close>

record prepared_statement =
  ps_valid :: bool
  ps_msg :: com_stmt_prepare_ok_packet

definition default_statement :: prepared_statement where
  "default_statement = \<lparr>ps_valid = False, ps_msg = default_prepare_ok\<rparr>"

definition statement_of :: "com_stmt_prepare_ok_packet \<Rightarrow> prepared_statement" where
  "statement_of msg = \<lparr>ps_valid = True, ps_msg = msg\<rparr>"

definition prepare_request :: "bytes \<Rightarrow> 's channel \<Rightarrow> 's channel option" where
  "prepare_request statement = compose_command serialize_com_stmt_prepare get_size_com_stmt_prepare statement"

definition prepare_response ::
    "'s channel \<Rightarrow> error_info \<Rightarrow> com_stmt_prepare_ok_packet \<Rightarrow> error_code \<times> error_info \<times> com_stmt_prepare_ok_packet" where
  "prepare_response ch info response =
     (case deserialize_message_type (make_ctx (ch_shared_buff ch) (ch_current_caps ch)) of
        Inl err \<Rightarrow> (err, info, response)
      | Inr (msg_type, ctx) \<Rightarrow>
          if msg_type = error_packet_header then
            (case process_error_packet ctx info of (err, info1) \<Rightarrow> (err, info1, response))
          else if msg_type \<noteq> 0 then (make_error_code protocol_value_error, info, response)
          else (case deserialize_message deserialize_com_stmt_prepare_ok ctx of
                  Inl err \<Rightarrow> (err, info, response)
                | Inr r \<Rightarrow> (no_error, info, r)))"

definition num_metadata_packets :: "com_stmt_prepare_ok_packet \<Rightarrow> nat" where
  "num_metadata_packets response = unat (sp_num_columns response) + unat (sp_num_params response)"

text \<open>One packet per parameter and column, all ignored.\<close>

fun skip_packets :: "'s stream_ops \<Rightarrow> nat \<Rightarrow> error_code \<Rightarrow> 's channel \<Rightarrow> (error_code \<times> 's channel) option" where
  "skip_packets S 0 err ch = Some (err, ch)"
| "skip_packets S (Suc n) err ch =
     Option.bind (read_shared S ch) (\<lambda>(code, ch1).
       if failed code then Some (code, ch1) else skip_packets S n code ch1)"

definition prepare_statement ::
    "'s stream_ops \<Rightarrow> bytes \<Rightarrow> prepared_statement \<Rightarrow> error_info \<Rightarrow> 's channel \<Rightarrow>
     (error_code \<times> error_info \<times> prepared_statement \<times> 's channel) option" where
  "prepare_statement S statement output info ch =
     Option.bind (prepare_request statement ch) (\<lambda>ch0.
     Option.bind (write_shared S ch0) (\<lambda>(code, ch1).
       if failed code then Some (code, info, output, ch1) else
     Option.bind (read_shared S ch1) (\<lambda>(code, ch2).
       if failed code then Some (code, info, output, ch2) else
       case prepare_response ch2 info default_prepare_ok of (err, info1, response) \<Rightarrow>
         if failed err then Some (err, info1, output, ch2)
         else map_option (\<lambda>(code, ch3). (code, info1, if failed code then output else statement_of response, ch3))
                (skip_packets S (num_metadata_packets response) err ch2))))"

section \<open>The handle\<close>

text \<open>
  \<open>stringize\<close> (\<open>auxiliar/stringize.hpp\<close>) writes its arguments one after the other to a string
  stream, which prints texts as they are and numbers in decimal.
\<close>

datatype streamed = Out_text string | Out_number nat

fun stream_out :: "streamed \<Rightarrow> bytes" where
  "stream_out (Out_text s) = ascii s"
| "stream_out (Out_number n) = dec_digits n"

definition stringize :: "streamed list \<Rightarrow> bytes" where
  "stringize inputs = concat (map stream_out inputs)"

text \<open>The accessors and operations assert that the handle is valid.\<close>

definition ps_id :: "prepared_statement \<Rightarrow> u32 option" where
  "ps_id ps = (if ps_valid ps then Some (sp_statement_id (ps_msg ps)) else None)"

definition ps_num_params :: "prepared_statement \<Rightarrow> nat option" where
  "ps_num_params ps = (if ps_valid ps then Some (unat (sp_num_params (ps_msg ps))) else None)"

definition wrong_num_params_message :: "nat \<Rightarrow> nat \<Rightarrow> bytes" where
  "wrong_num_params_message expected got =
     stringize [Out_text ''prepared_statement::execute: expected '', Out_number expected,
       Out_text '' params, but got '', Out_number got]"

definition check_num_params ::
    "prepared_statement \<Rightarrow> mysql_value list \<Rightarrow> error_code \<Rightarrow> error_info \<Rightarrow> (error_code \<times> error_info) option" where
  "check_num_params ps params err info =
     map_option (\<lambda>n. if length params \<noteq> n
         then (make_error_code wrong_num_params, set_message (wrong_num_params_message n (length params)) info)
         else (err, info))
       (ps_num_params ps)"

definition ps_execute ::
    "'s stream_ops \<Rightarrow> nat \<Rightarrow> date_lib \<Rightarrow> prepared_statement \<Rightarrow> mysql_value list \<Rightarrow> error_code \<Rightarrow> error_info \<Rightarrow> 's channel \<Rightarrow>
     (error_code \<times> error_info \<times> resultset \<times> 's channel) option" where
  "ps_execute S max_size D ps params err info ch =
     (case clear_errors err info of (err0, info0) \<Rightarrow>
      Option.bind (check_num_params ps params err0 info0) (\<lambda>(err1, info1).
        if failed err1 then Some (err1, info1, default_resultset, ch)
        else Option.bind (ps_id ps) (\<lambda>n.
          execute_statement S max_size D n params default_resultset info1 ch)))"

section \<open>Closing a statement\<close>

definition close_statement :: "'s stream_ops \<Rightarrow> u32 \<Rightarrow> 's channel \<Rightarrow> (error_code \<times> 's channel) option" where
  "close_statement S statement_id = send_command S serialize_com_stmt_close get_size_com_stmt_close statement_id"

definition ps_close ::
    "'s stream_ops \<Rightarrow> prepared_statement \<Rightarrow> error_code \<Rightarrow> error_info \<Rightarrow> 's channel \<Rightarrow>
     (error_code \<times> error_info \<times> 's channel) option" where
  "ps_close S ps err info ch =
     (case clear_errors err info of (_, info0) \<Rightarrow>
      Option.bind (ps_id ps) (\<lambda>n. map_option (\<lambda>(code, ch1). (code, info0, ch1)) (close_statement S n ch)))"

section \<open>Sending commands\<close>

lemma send_command_ok:
  assumes "reliable_stream S inp out" and "channel_wf ch"
    and "serialize_message ser sz command (ch_current_caps ch) (ch_shared_buff ch) = Some m" and "length m < MAX_PACKET_SIZE"
    and "inp (ch_stream ch) = frames_list 1 ms @ rest"
  shows "\<exists>code ch0 ch1. compose_command ser sz command ch = Some ch0 \<and> write_shared S ch0 = Some (code, ch1) \<and> \<not> failed code \<and>
    pending inp ch1 ms rest \<and> out (ch_stream ch1) = out (ch_stream ch) @ [(ch_ssl ch, frame_header (length m) 0 @ m)] \<and>
    ch_ssl ch1 = ch_ssl ch \<and> ch_current_caps ch1 = ch_current_caps ch"
proof -
  define ch0 where "ch0 = reset_sequence_number 0 (ch\<lparr>ch_shared_buff := m\<rparr>)"
  have ch0: "channel_wf ch0" "ch_shared_buff ch0 = m" "ch_sequence_number ch0 = 0" "ch_stream ch0 = ch_stream ch"
      "ch_ssl ch0 = ch_ssl ch" "ch_current_caps ch0 = ch_current_caps ch"
    using assms(2) by (simp_all add: ch0_def reset_sequence_number_def channel_wf_def)
  obtain code ch1 where "channel_write S m ch0 = Some (code, ch1)" "\<not> failed code" "channel_wf ch1"
      "inp (ch_stream ch1) = inp (ch_stream ch0)" "ch_sequence_number ch1 = ch_sequence_number ch0 + 1"
      "out (ch_stream ch1) = out (ch_stream ch0) @ [(ch_ssl ch0, frame_header (length m) (ch_sequence_number ch0) @ m)]"
      "ch_ssl ch1 = ch_ssl ch0" "ch_current_caps ch1 = ch_current_caps ch0"
    using channel_write_short [OF assms(1) ch0(1) assms(4)] by blast
  then show ?thesis
    using assms(3,5) ch0
    by (intro exI [of _ code] exI [of _ ch0] exI [of _ ch1]) (simp add: compose_command_def write_shared_def pending_def ch0_def)
qed

lemma read_shared_pending:
  assumes "reliable_stream S inp out" and "pending inp ch (m # ms) rest"
  shows "\<exists>code ch'. read_shared S ch = Some (code, ch') \<and> \<not> failed code \<and> ch_shared_buff ch' = m \<and>
    pending inp ch' ms rest \<and> out (ch_stream ch') = out (ch_stream ch) \<and> ch_ssl ch' = ch_ssl ch \<and>
    ch_current_caps ch' = ch_current_caps ch"
proof -
  have "inp (ch_stream ch) = frames (ch_sequence_number ch) m @ frames_list (frames_seq (ch_sequence_number ch) m) ms @ rest"
    and wf: "channel_wf ch"
    using assms(2) by (simp_all add: pending_def)
  from read_shared_ok [OF assms(1) wf this(1)] show ?thesis by (auto simp: pending_def)
qed

lemma skip_packets_pending:
  assumes "reliable_stream S inp out" and "pending inp ch (ps @ ms) rest" and "\<not> failed err"
  shows "\<exists>code ch'. skip_packets S (length ps) err ch = Some (code, ch') \<and> \<not> failed code \<and> pending inp ch' ms rest \<and>
    out (ch_stream ch') = out (ch_stream ch) \<and> ch_ssl ch' = ch_ssl ch \<and> ch_current_caps ch' = ch_current_caps ch"
  using assms(2,3)
proof (induction ps arbitrary: ch err)
  case (Cons p ps)
  have "pending inp ch (p # ps @ ms) rest" using Cons.prems(1) by simp
  then obtain code ch1 where "read_shared S ch = Some (code, ch1)" "\<not> failed code" "pending inp ch1 (ps @ ms) rest"
      "out (ch_stream ch1) = out (ch_stream ch)" "ch_ssl ch1 = ch_ssl ch" "ch_current_caps ch1 = ch_current_caps ch"
    using read_shared_pending [OF assms(1)] by blast
  with Cons.IH [OF this(3,2)] show ?case by auto
qed simp

section \<open>The life of a statement\<close>

definition prepare_ok_message :: "com_stmt_prepare_ok_packet \<Rightarrow> bytes" where
  "prepare_ok_message r = 0 # enc_com_stmt_prepare_ok (caps_of 0) r"

lemma prepare_response_ok:
  assumes "ch_shared_buff ch = prepare_ok_message r"
  shows "prepare_response ch info x = (no_error, info, r)"
proof -
  let ?c = "make_ctx (ch_shared_buff ch) (ch_current_caps ch)"
  have t: "deserialize_message_type ?c = Inr (0, ctx_advance 1 ?c)"
    by (simp add: deser_simps assms prepare_ok_message_def)
  have "deserialize_message deserialize_com_stmt_prepare_ok (ctx_advance 1 ?c) = Inr r"
    by (rule com_stmt_prepare_ok.deserialize_message_enc)
      (simp_all add: assms prepare_ok_message_def ctx_wf_advance enc_com_stmt_prepare_ok_def)
  then show ?thesis by (simp add: prepare_response_def t)
qed

lemma serialize_com_stmt_prepare_message:
  "serialize_message serialize_com_stmt_prepare get_size_com_stmt_prepare statement caps buf = Some (com_stmt_prepare_id # statement)"
  by (simp add: com_stmt_prepare.serialize_message_exact enc_command_def enc_string_eof_def)

lemma serialize_com_stmt_close_message:
  "serialize_message serialize_com_stmt_close get_size_com_stmt_close n caps buf = Some (com_stmt_close_id # le_bytes 4 n)"
  by (simp add: com_stmt_close.serialize_message_exact enc_command_def enc_fixed_int_def)

text \<open>The packets about parameters and columns are \<open>params_meta\<close>: any messages will do.\<close>

lemma prepare_statement_ok:
  assumes "reliable_stream S inp out" and "channel_wf ch" and "Suc (length statement) < MAX_PACKET_SIZE"
    and "inp (ch_stream ch) = frames_list 1 (prepare_ok_message r # params_meta @ ms) @ rest"
    and "length params_meta = num_metadata_packets r"
  shows "\<exists>code ch'. prepare_statement S statement output info ch = Some (code, info, statement_of r, ch') \<and>
    \<not> failed code \<and> pending inp ch' ms rest \<and> ch_ssl ch' = ch_ssl ch \<and> ch_current_caps ch' = ch_current_caps ch \<and>
    out (ch_stream ch') = out (ch_stream ch) @
      [(ch_ssl ch, frame_header (Suc (length statement)) 0 @ com_stmt_prepare_id # statement)]"
proof -
  have len: "length (com_stmt_prepare_id # statement) < MAX_PACKET_SIZE" using assms(3) by simp
  obtain code ch0 ch1 where w: "compose_command serialize_com_stmt_prepare get_size_com_stmt_prepare statement ch = Some ch0"
      "write_shared S ch0 = Some (code, ch1)" "\<not> failed code" "pending inp ch1 (prepare_ok_message r # params_meta @ ms) rest"
      "out (ch_stream ch1) = out (ch_stream ch) @
        [(ch_ssl ch, frame_header (length (com_stmt_prepare_id # statement)) 0 @ com_stmt_prepare_id # statement)]"
      "ch_ssl ch1 = ch_ssl ch" "ch_current_caps ch1 = ch_current_caps ch"
    using send_command_ok [OF assms(1,2) serialize_com_stmt_prepare_message len assms(4)] by blast
  obtain code2 ch2 where rd: "read_shared S ch1 = Some (code2, ch2)" "\<not> failed code2"
      "ch_shared_buff ch2 = prepare_ok_message r" "pending inp ch2 (params_meta @ ms) rest"
      "out (ch_stream ch2) = out (ch_stream ch1)" "ch_ssl ch2 = ch_ssl ch1" "ch_current_caps ch2 = ch_current_caps ch1"
    using read_shared_pending [OF assms(1) w(4)] by blast
  obtain code3 ch3 where "skip_packets S (length params_meta) no_error ch2 = Some (code3, ch3)" "\<not> failed code3"
      "pending inp ch3 ms rest" "out (ch_stream ch3) = out (ch_stream ch2)" "ch_ssl ch3 = ch_ssl ch2"
      "ch_current_caps ch3 = ch_current_caps ch2"
    using skip_packets_pending [OF assms(1) rd(4) failed_no_error] by blast
  then show ?thesis
    using w rd
    by (intro exI [of _ code3] exI [of _ ch3])
      (simp add: prepare_statement_def prepare_request_def prepare_response_ok assms(5))
qed

lemma ps_close_ok:
  assumes "reliable_stream S inp out" and "pending inp ch [] rest" and "ps_valid ps"
  shows "\<exists>code ch'. ps_close S ps err info ch = Some (code, empty_info, ch') \<and> \<not> failed code \<and> pending inp ch' [] rest \<and>
    out (ch_stream ch') = out (ch_stream ch) @
      [(ch_ssl ch, frame_header 5 0 @ com_stmt_close_id # le_bytes 4 (sp_statement_id (ps_msg ps)))]"
proof -
  let ?m = "com_stmt_close_id # le_bytes 4 (sp_statement_id (ps_msg ps))"
  have len: "length ?m = 5" by simp
  then have "length ?m < MAX_PACKET_SIZE" by (simp add: MAX_PACKET_SIZE_def)
  moreover have "inp (ch_stream ch) = frames_list 1 [] @ rest" using pending_Nil [OF assms(2)] by simp
  ultimately show ?thesis
    using send_command_ok [OF assms(1) pending_wf [OF assms(2)]
        serialize_com_stmt_close_message [where n = "sp_statement_id (ps_msg ps)"]] assms(3) unfolding len
    by (fastforce simp: ps_close_def clear_errors_def ps_id_def close_statement_def send_command_def)
qed

lemma statement_of_simps [simp]:
  "ps_id (statement_of r) = Some (sp_statement_id r)" "ps_valid (statement_of r)" "ps_msg (statement_of r) = r"
  by (simp_all add: statement_of_def ps_id_def)

lemma check_num_params_ok:
  "length params = unat (sp_num_params r) \<Longrightarrow> check_num_params (statement_of r) params err info = Some (err, info)"
  by (simp add: check_num_params_def ps_num_params_def statement_of_def)

section \<open>Properties\<close>

text \<open>
  C4: the life of a prepared statement, all operations in sequence on one connection: preparing it
  consumes the server's answer with all its parameter and column packets, executing it with as
  many parameters as it has, no more than 255 and with dates that exist, and fetching gives exactly the rows the server sends, and closing it
  needs no answer; each command is one packet numbered 0.
\<close>
theorem statement_lifecycle:
  assumes "reliable_stream S inp out" and "channel_wf ch" and "Suc (length statement) < MAX_PACKET_SIZE"
    and "inp (ch_stream ch) = frames_list 1 (prepare_ok_message r # params_meta) @
           frames_list 1 (result_head (ch_current_caps ch) cds @
             map (enc_binary_row D (ch_current_caps ch) (map field_metadata_of cds)) rows @ [eof_message p]) @ rest"
    and "length params_meta = num_metadata_packets r"
    and "length params = unat (sp_num_params r)" and "execute_asserted D params"
    and "m = enc_com_stmt_execute D (ch_current_caps ch) (make_stmt_execute_packet (sp_statement_id r) params)"
    and "length m < MAX_PACKET_SIZE" and "columns_ok M cds"
    and "\<forall>r \<in> set rows. binary_row_sendable D (map field_metadata_of cds) r" and "length rows < size_t_max" and "in_memory (ok_info p)"
  shows "\<exists>code1 ch1 rs ch2 ch3 code4 ch4.
    prepare_statement S statement output info ch = Some (code1, info, statement_of r, ch1) \<and> \<not> failed code1 \<and>
    ps_execute S M D (statement_of r) params err2 info2 ch1 = Some (no_error, empty_info, rs, ch2) \<and>
    fetch_all S rs ch2 = Some (map (\<lambda>r. (r, enc_binary_row D (ch_current_caps ch) (map field_metadata_of cds) r)) rows, no_error, empty_info,
        rs\<lparr>rs_ok_packet := p, rs_eof_received := True\<rparr>, ch3) \<and>
    ps_close S (statement_of r) err4 info4 ch3 = Some (code4, empty_info, ch4) \<and> \<not> failed code4 \<and>
    inp (ch_stream ch4) = rest \<and>
    out (ch_stream ch4) = out (ch_stream ch) @ map (\<lambda>m. (ch_ssl ch, frame_header (length m) 0 @ m))
      [com_stmt_prepare_id # statement, m, com_stmt_close_id # le_bytes 4 (sp_statement_id r)]"
proof -
  let ?result = "frames_list 1 (result_head (ch_current_caps ch) cds @
             map (enc_binary_row D (ch_current_caps ch) (map field_metadata_of cds)) rows @ [eof_message p])"
  have inp: "inp (ch_stream ch) = frames_list 1 (prepare_ok_message r # params_meta @ []) @ (?result @ rest)"
    using assms(4) by simp
  obtain code1 ch1 where prep: "prepare_statement S statement output info ch = Some (code1, info, statement_of r, ch1)"
      "\<not> failed code1" "pending inp ch1 [] (?result @ rest)" "ch_ssl ch1 = ch_ssl ch" "ch_current_caps ch1 = ch_current_caps ch"
      "out (ch_stream ch1) = out (ch_stream ch) @
        [(ch_ssl ch, frame_header (Suc (length statement)) 0 @ com_stmt_prepare_id # statement)]"
    using prepare_statement_ok [OF assms(1-3) inp assms(5)] by blast
  have inp1: "inp (ch_stream ch1) = frames_list 1 (result_head (ch_current_caps ch1) cds @
             map (enc_binary_row D (ch_current_caps ch1) (map field_metadata_of cds)) rows @ [eof_message p]) @ rest"
    using pending_Nil [OF prep(3)] by (simp add: prep(5))
  have m: "m = enc_com_stmt_execute D (ch_current_caps ch1) (make_stmt_execute_packet (sp_statement_id r) params)"
    using assms(8) by (simp add: prep(5))
  obtain rs ch2 ch3 where ex: "execute_statement S M D (sp_statement_id r) params default_resultset empty_info ch1
        = Some (no_error, empty_info, rs, ch2)"
      "request_sent out m ch1 ch3" "pending inp ch3 [] rest"
      "fetch_all S rs ch2 = Some (map (\<lambda>r. (r, enc_binary_row D (ch_current_caps ch1) (map field_metadata_of cds) r)) rows, no_error, empty_info,
        rs\<lparr>rs_ok_packet := p, rs_eof_received := True\<rparr>, ch3)"
    using statement_rows [OF assms(1) pending_wf [OF prep(3)] assms(7) m assms(9) inp1 assms(10-13)] by blast
  have "ps_execute S M D (statement_of r) params err2 info2 ch1 = Some (no_error, empty_info, rs, ch2)"
    using ex(1) by (simp add: ps_execute_def clear_errors_def check_num_params_ok [OF assms(6)])
  moreover obtain code4 ch4 where "ps_close S (statement_of r) err4 info4 ch3 = Some (code4, empty_info, ch4)"
      "\<not> failed code4" "pending inp ch4 [] rest"
      "out (ch_stream ch4) = out (ch_stream ch3) @ [(ch_ssl ch3, frame_header 5 0 @ com_stmt_close_id # le_bytes 4 (sp_statement_id r))]"
    using ps_close_ok [OF assms(1) ex(3), of "statement_of r" err4 info4] by auto
  ultimately show ?thesis
    using prep ex(2,4) pending_Nil
    by (intro exI [of _ code1] exI [of _ ch1] exI [of _ rs] exI [of _ ch2] exI [of _ ch3] exI [of _ code4] exI [of _ ch4])
      (auto simp: request_sent_def)
qed

definition sample_prepare_ok :: com_stmt_prepare_ok_packet where
  "sample_prepare_ok = \<lparr>sp_statement_id = 7, sp_num_columns = 1, sp_num_params = 1, sp_warning_count = 0\<rparr>"

lemma statement_lifecycle_witness:
  "\<exists>code1 ch1 rs ch2 ch3 row code4 ch4.
    prepare_statement scripted_stream [0x53] default_statement empty_info
      (sample_peer (frames_list 1 [prepare_ok_message sample_prepare_ok, [], [9]] @
        frames_list 1 (result_head (caps_of 0) [sample_column] @ [enc_binary_row gregorian (caps_of 0) [varchar_column] [V_null], eof_message default_ok_packet])))
      = Some (code1, empty_info, statement_of sample_prepare_ok, ch1) \<and>
    ps_execute scripted_stream 1000 gregorian (statement_of sample_prepare_ok) [V_null] no_error empty_info ch1
      = Some (no_error, empty_info, rs, ch2) \<and>
    fetch_all scripted_stream rs ch2 = Some ([([V_null], row)], no_error, empty_info,
      rs\<lparr>rs_ok_packet := default_ok_packet, rs_eof_received := True\<rparr>, ch3) \<and>
    ps_close scripted_stream (statement_of sample_prepare_ok) no_error empty_info ch3 = Some (code4, empty_info, ch4) \<and>
    length (scr_out (ch_stream ch4)) = 3"
proof -
  let ?ch = "sample_peer (frames_list 1 (prepare_ok_message sample_prepare_ok # [[], [9]]) @
        frames_list 1 (result_head (caps_of 0) [sample_column] @ map (enc_binary_row gregorian (caps_of 0) (map field_metadata_of [sample_column])) [[V_null]] @ [eof_message default_ok_packet]) @ [])"
  have len: "Suc (length [0x53 :: u8]) < MAX_PACKET_SIZE"
    "length (enc_com_stmt_execute gregorian (caps_of 0) (make_stmt_execute_packet 7 [V_null])) < MAX_PACKET_SIZE"
    by (simp_all add: MAX_PACKET_SIZE_def enc_com_stmt_execute_def make_stmt_execute_packet_def null_bitmap_bytes
        null_bitmap_of_def byte_count_def enc_binary_value_def)
  have rows: "\<forall>r \<in> set [[V_null]]. binary_row_sendable gregorian (map field_metadata_of [sample_column]) r"
    by (simp add: binary_row_sendable_def gregorian.date_library_axioms)
  have few: "length [[V_null]] < size_t_max" by (simp add: size_t_max_def)
  have ps: "execute_asserted gregorian [V_null]" by (simp add: execute_asserted_def binary_value_asserted_def)
  have "scr_in (ch_stream ?ch) = frames_list 1 (prepare_ok_message sample_prepare_ok # [[], [9]]) @
      frames_list 1 (result_head (ch_current_caps ?ch) [sample_column] @
        map (enc_binary_row gregorian (ch_current_caps ?ch) (map field_metadata_of [sample_column])) [[V_null]] @ [eof_message default_ok_packet]) @ []"
    by simp
  note lc = statement_lifecycle [OF scripted_reliable sample_peer_wf len(1) this _ _ ps refl _ sample_columns_ok rows few,
      of default_statement empty_info no_error empty_info no_error empty_info]
  have out: "scr_out (ch_stream ?ch) = []" by (simp add: sample_peer_def make_channel_def)
  show ?thesis
    using lc [unfolded out] len(2) unfolding sample_column_metadata
    by (simp add: num_metadata_packets_def sample_prepare_ok_def del: frames_list.simps) (elim exE conjE, intro exI conjI, assumption+, simp)
qed

text \<open>
  Executing with a wrong number of parameters does no input or output: the channel is as it was,
  and the error says how many parameters were expected and how many were given.
\<close>
theorem wrong_num_params_no_io:
  assumes "ps_valid ps" and "length params \<noteq> unat (sp_num_params (ps_msg ps))"
  shows "ps_execute S M D ps params err info ch =
    Some (make_error_code wrong_num_params,
      \<lparr>ei_msg = wrong_num_params_message (unat (sp_num_params (ps_msg ps))) (length params)\<rparr>, default_resultset, ch)"
  using assms
  by (simp add: ps_execute_def clear_errors_def check_num_params_def ps_num_params_def set_message_def empty_info_def)

lemma wrong_num_params_no_io_witness:
  "map_option (\<lambda>(err, info, _). (err, info)) (ps_execute scripted_stream 1000 gregorian (statement_of sample_prepare_ok) [] no_error empty_info (sample_peer []))
     = Some (make_error_code wrong_num_params, \<lparr>ei_msg = ascii ''prepared_statement::execute: expected 1 params, but got 0''\<rparr>)"
  using wrong_num_params_no_io [of "statement_of sample_prepare_ok" "[]" scripted_stream 1000 gregorian no_error empty_info "sample_peer []"]
  by (simp add: sample_prepare_ok_def wrong_num_params_message_def stringize_def dec_digits.simps ascii_def of_char_def)

end
