(* ===== verification/Connection.thy ===== *)
theory Connection
  imports Handshake Prepared_Statement
begin

text \<open>
  Connections: establishing (\<open>network_algorithms/impl/connect.hpp\<close>), quitting and closing
  (\<open>quit_connection.hpp\<close>, \<open>close_connection.hpp\<close>), and the operations of the \<open>connection\<close> and
  \<open>socket_connection\<close> classes (\<open>impl/connection.hpp\<close>), in the variants that return an error code
  and those that throw.
\<close>

section \<open>Quitting and closing\<close>

definition compose_quit :: "'s channel \<Rightarrow> 's channel option" where
  "compose_quit = compose_command serialize_quit_packet get_size_quit_packet ()"

definition quit_connection :: "'s stream_ops \<Rightarrow> 's channel \<Rightarrow> (error_code \<times> 's channel) option" where
  "quit_connection S ch = Option.bind (compose_quit ch) (write_shared S)"

text \<open>The stream is closed whether the quit failed or not; its error is reported if the quit succeeded.\<close>

definition close_connection :: "'s stream_ops \<Rightarrow> error_code \<Rightarrow> 's channel \<Rightarrow> (error_code \<times> 's channel) option" where
  "close_connection S code ch =
     (if so_is_open S (ch_stream ch) then
        map_option (\<lambda>(code1, ch1). case channel_close S ch1 of (err, ch2) \<Rightarrow>
            (if \<not> failed code1 then err else code1, ch2))
          (quit_connection S ch)
      else Some (code, ch))"

section \<open>Connecting\<close>

text \<open>The \<open>connect\<close> of the socket, for an endpoint, is a parameter.\<close>

type_synonym ('e, 's) socket_connect = "'e \<Rightarrow> 's \<Rightarrow> error_code \<times> 's"

definition connect ::
    "('e, 's) socket_connect \<Rightarrow> 's stream_ops \<Rightarrow> crypto_lib \<Rightarrow> 'e \<Rightarrow> connection_params \<Rightarrow> error_info \<Rightarrow> 's channel \<Rightarrow>
     (error_code \<times> error_info \<times> 's channel) option" where
  "connect C S H endpoint params info ch =
     (case C endpoint (ch_stream ch) of (err, s) \<Rightarrow>
        let ch1 = ch\<lparr>ch_stream := s\<rparr>
        in if failed err then
             Some (err, set_message (ascii ''Physical connect failed'') info, snd (channel_close S ch1))
           else map_option (\<lambda>(err, info1, ch2). (err, info1, if failed err then snd (channel_close S ch2) else ch2))
                  (handshake S H params info ch1))"

section \<open>The operations of a connection\<close>

text \<open>
  Each one clears the error and its information and runs the algorithm. The throwing variant runs
  it with an \<open>error_block\<close> and then throws what \<open>check_error_code\<close> makes of the block: a
  \<open>system_error\<close>, on the left, or the result.
\<close>

definition throwing :: "(error_code \<times> error_info \<times> 'r \<times> 's channel) option \<Rightarrow> ((system_error + 'r) \<times> 's channel) option" where
  "throwing = map_option (\<lambda>(err, info, r, ch).
     (case check_error_code err info of Inl e \<Rightarrow> Inl e | Inr () \<Rightarrow> Inr r, ch))"

definition without_result :: "(error_code \<times> error_info \<times> 's channel) option \<Rightarrow> (error_code \<times> error_info \<times> unit \<times> 's channel) option" where
  "without_result = map_option (\<lambda>(err, info, ch). (err, info, (), ch))"

definition with_info :: "error_info \<Rightarrow> (error_code \<times> 's channel) option \<Rightarrow> (error_code \<times> error_info \<times> 's channel) option" where
  "with_info info = map_option (\<lambda>(err, ch). (err, info, ch))"

definition uses_ssl :: "'s channel \<Rightarrow> bool" where
  "uses_ssl ch = ch_ssl ch"

definition connection_handshake ::
    "'s stream_ops \<Rightarrow> crypto_lib \<Rightarrow> connection_params \<Rightarrow> error_code \<Rightarrow> error_info \<Rightarrow> 's channel \<Rightarrow>
     (error_code \<times> error_info \<times> 's channel) option" where
  "connection_handshake S H params code info ch =
     (case clear_errors code info of (_, info0) \<Rightarrow> handshake S H params info0 ch)"

definition connection_handshake_throwing ::
    "'s stream_ops \<Rightarrow> crypto_lib \<Rightarrow> connection_params \<Rightarrow> 's channel \<Rightarrow> ((system_error + unit) \<times> 's channel) option" where
  "connection_handshake_throwing S H params ch =
     throwing (without_result (connection_handshake S H params no_error empty_info ch))"

definition connection_query ::
    "'s stream_ops \<Rightarrow> nat \<Rightarrow> lexical_lib \<Rightarrow> date_lib \<Rightarrow> bytes \<Rightarrow> error_code \<Rightarrow> error_info \<Rightarrow> 's channel \<Rightarrow>
     (error_code \<times> error_info \<times> resultset \<times> 's channel) option" where
  "connection_query S M L D query err info ch =
     (case clear_errors err info of (_, info0) \<Rightarrow> execute_query S M L D query default_resultset info0 ch)"

definition connection_query_throwing ::
    "'s stream_ops \<Rightarrow> nat \<Rightarrow> lexical_lib \<Rightarrow> date_lib \<Rightarrow> bytes \<Rightarrow> 's channel \<Rightarrow> ((system_error + resultset) \<times> 's channel) option" where
  "connection_query_throwing S M L D query ch =
     throwing (execute_query S M L D query default_resultset empty_info ch)"

definition connection_prepare_statement ::
    "'s stream_ops \<Rightarrow> bytes \<Rightarrow> error_code \<Rightarrow> error_info \<Rightarrow> 's channel \<Rightarrow>
     (error_code \<times> error_info \<times> prepared_statement \<times> 's channel) option" where
  "connection_prepare_statement S statement err info ch =
     (case clear_errors err info of (_, info0) \<Rightarrow> prepare_statement S statement default_statement info0 ch)"

definition connection_prepare_statement_throwing ::
    "'s stream_ops \<Rightarrow> bytes \<Rightarrow> 's channel \<Rightarrow> ((system_error + prepared_statement) \<times> 's channel) option" where
  "connection_prepare_statement_throwing S statement ch =
     throwing (prepare_statement S statement default_statement empty_info ch)"

definition connection_quit ::
    "'s stream_ops \<Rightarrow> error_code \<Rightarrow> error_info \<Rightarrow> 's channel \<Rightarrow> (error_code \<times> error_info \<times> 's channel) option" where
  "connection_quit S err info ch =
     (case clear_errors err info of (_, info0) \<Rightarrow> with_info info0 (quit_connection S ch))"

definition connection_quit_throwing :: "'s stream_ops \<Rightarrow> 's channel \<Rightarrow> ((system_error + unit) \<times> 's channel) option" where
  "connection_quit_throwing S ch = throwing (without_result (with_info empty_info (quit_connection S ch)))"

definition socket_connection_connect ::
    "('e, 's) socket_connect \<Rightarrow> 's stream_ops \<Rightarrow> crypto_lib \<Rightarrow> 'e \<Rightarrow> connection_params \<Rightarrow> error_code \<Rightarrow> error_info \<Rightarrow> 's channel \<Rightarrow>
     (error_code \<times> error_info \<times> 's channel) option" where
  "socket_connection_connect C S H endpoint params ec info ch =
     (case clear_errors ec info of (_, info0) \<Rightarrow> connect C S H endpoint params info0 ch)"

definition socket_connection_connect_throwing ::
    "('e, 's) socket_connect \<Rightarrow> 's stream_ops \<Rightarrow> crypto_lib \<Rightarrow> 'e \<Rightarrow> connection_params \<Rightarrow> 's channel \<Rightarrow>
     ((system_error + unit) \<times> 's channel) option" where
  "socket_connection_connect_throwing C S H endpoint params ch =
     throwing (without_result (connect C S H endpoint params empty_info ch))"

definition socket_connection_close ::
    "'s stream_ops \<Rightarrow> error_code \<Rightarrow> error_info \<Rightarrow> 's channel \<Rightarrow> (error_code \<times> error_info \<times> 's channel) option" where
  "socket_connection_close S err info ch =
     (case clear_errors err info of (err0, info0) \<Rightarrow> with_info info0 (close_connection S err0 ch))"

definition socket_connection_close_throwing :: "'s stream_ops \<Rightarrow> 's channel \<Rightarrow> ((system_error + unit) \<times> 's channel) option" where
  "socket_connection_close_throwing S ch = throwing (without_result (with_info empty_info (close_connection S no_error ch)))"

section \<open>The throwing variants of statements and resultsets\<close>

definition ps_execute_throwing ::
    "'s stream_ops \<Rightarrow> nat \<Rightarrow> date_lib \<Rightarrow> prepared_statement \<Rightarrow> mysql_value list \<Rightarrow> 's channel \<Rightarrow>
     ((system_error + resultset) \<times> 's channel) option" where
  "ps_execute_throwing S M D ps params ch = throwing (ps_execute S M D ps params no_error empty_info ch)"

definition ps_close_throwing ::
    "'s stream_ops \<Rightarrow> prepared_statement \<Rightarrow> 's channel \<Rightarrow> ((system_error + unit) \<times> 's channel) option" where
  "ps_close_throwing S ps ch =
     throwing (without_result (Option.bind (ps_id ps) (\<lambda>n. with_info empty_info (close_statement S n ch))))"

text \<open>The resultset is changed before the exception is thrown.\<close>

definition throwing_with :: "(('r \<times> error_code \<times> error_info \<times> 'q \<times> 's channel) option) \<Rightarrow> ((system_error + 'r) \<times> 'q \<times> 's channel) option" where
  "throwing_with = map_option (\<lambda>(r, err, info, q, ch).
     (case check_error_code err info of Inl e \<Rightarrow> Inl e | Inr () \<Rightarrow> Inr r, q, ch))"

definition fetch_one_throwing ::
    "'s stream_ops \<Rightarrow> resultset \<Rightarrow> 's channel \<Rightarrow> ((system_error + mysql_value list option) \<times> resultset \<times> 's channel) option" where
  "fetch_one_throwing S rs ch = throwing_with (fetch_one S rs ch)"

definition fetch_many_throwing ::
    "'s stream_ops \<Rightarrow> nat \<Rightarrow> resultset \<Rightarrow> 's channel \<Rightarrow> ((system_error + owning_row list) \<times> resultset \<times> 's channel) option" where
  "fetch_many_throwing S count rs ch = throwing_with (fetch_many S count rs ch)"

definition fetch_all_throwing ::
    "'s stream_ops \<Rightarrow> resultset \<Rightarrow> 's channel \<Rightarrow> ((system_error + owning_row list) \<times> resultset \<times> 's channel) option" where
  "fetch_all_throwing S rs ch = fetch_many_throwing S size_t_max rs ch"

section \<open>Closing\<close>

text \<open>What \<open>close\<close> of a socket is documented to do.\<close>

definition closing_stream :: "'s stream_ops \<Rightarrow> bool" where
  "closing_stream S \<longleftrightarrow> (\<forall>s. \<not> so_is_open S (snd (so_close S s)))"

lemma channel_close_closed: "closing_stream S \<Longrightarrow> \<not> so_is_open S (ch_stream (snd (channel_close S ch)))"
  by (simp add: closing_stream_def channel_close_def split: prod.split) (metis snd_conv)

lemma channel_close_frame:
  assumes "byte_stream S inp out"
  shows "inp (ch_stream (snd (channel_close S ch))) = inp (ch_stream ch)"
    "out (ch_stream (snd (channel_close S ch))) = out (ch_stream ch)"
    "ch_sequence_number (snd (channel_close S ch)) = ch_sequence_number ch"
    "channel_wf (snd (channel_close S ch)) = channel_wf ch"
    "ch_ssl (snd (channel_close S ch)) = ch_ssl ch"
  using byte_stream_frame [OF assms] by (auto simp: channel_close_def channel_wf_def split: prod.split)

lemma serialize_quit_message:
  "serialize_message serialize_quit_packet get_size_quit_packet () caps buf = Some [quit_command_id]"
  by (simp add: quit_packet.serialize_message_exact enc_command_def enc_nil_def)

lemma quit_connection_any:
  assumes "byte_stream S inp out" and "channel_wf ch"
  shows "\<exists>code ch'. quit_connection S ch = Some (code, ch') \<and> progress inp out ch ch'"
proof -
  define ch0 where "ch0 = reset_sequence_number 0 (ch\<lparr>ch_shared_buff := [quit_command_id]\<rparr>)"
  have "channel_wf ch0" using assms(2) by (simp add: ch0_def)
  from write_shared_progress [OF assms(1) this] show ?thesis
    by (simp add: quit_connection_def compose_quit_def compose_command_def serialize_quit_message flip: ch0_def)
      (simp add: ch0_def)
qed

lemma close_connection_any:
  assumes "byte_stream S inp out" and "channel_wf ch" and "closing_stream S"
  shows "\<exists>code' ch'. close_connection S code ch = Some (code', ch') \<and> \<not> so_is_open S (ch_stream ch') \<and>
    close_connection S code'' ch' = Some (code'', ch')"
proof (cases "so_is_open S (ch_stream ch)")
  case True
  obtain code1 ch1 where q: "quit_connection S ch = Some (code1, ch1)"
    using quit_connection_any [OF assms(1,2)] by blast
  obtain err ch2 where c: "channel_close S ch1 = (err, ch2)" by fastforce
  then have "\<not> so_is_open S (ch_stream ch2)" using channel_close_closed [OF assms(3), of ch1] by simp
  then show ?thesis using True q c by (simp add: close_connection_def)
next
  case False
  then show ?thesis by (simp add: close_connection_def)
qed

lemma quit_connection_ok:
  assumes "reliable_stream S inp out" and "channel_wf ch"
  shows "\<exists>code ch'. quit_connection S ch = Some (code, ch') \<and> \<not> failed code \<and> channel_wf ch' \<and>
    ch_sequence_number ch' = 1 \<and>
    out (ch_stream ch') = out (ch_stream ch) @ [(ch_ssl ch, frame_header 1 0 @ [quit_command_id])]"
proof -
  have inp: "inp (ch_stream ch) = frames_list 1 [] @ inp (ch_stream ch)" by simp
  define ch0 where "ch0 = reset_sequence_number 0 (ch\<lparr>ch_shared_buff := [quit_command_id]\<rparr>)"
  have ch0: "channel_wf ch0" "ch_shared_buff ch0 = [quit_command_id]" "ch_sequence_number ch0 = 0" "ch_stream ch0 = ch_stream ch"
      "ch_ssl ch0 = ch_ssl ch"
    using assms(2) by (simp_all add: ch0_def reset_sequence_number_def channel_wf_def)
  have "compose_quit ch = Some ch0"
    by (simp add: compose_quit_def compose_command_def serialize_quit_message ch0_def)
  moreover have "length [quit_command_id] < MAX_PACKET_SIZE" by (simp add: MAX_PACKET_SIZE_def)
  ultimately show ?thesis
    using channel_write_short [OF assms(1) ch0(1), of "[quit_command_id]"] ch0
    by (auto simp: quit_connection_def write_shared_def)
qed

section \<open>Connecting again\<close>

text \<open>The handshake takes the sequence number as it finds it.\<close>

lemma handshake_mismatch:
  assumes "reliable_stream S inp out" and "channel_wf ch" and "ch_sequence_number ch \<noteq> 0"
    and "inp (ch_stream ch) = frames 0 greeting @ rest" and "length greeting < MAX_PACKET_SIZE"
  shows "\<exists>ch'. handshake S H params info ch = Some (make_error_code sequence_number_mismatch, info, ch')"
proof -
  have inp: "inp (ch_stream ch) = frame_header (length greeting) 0 @ (greeting @ rest)"
    using assms(4,5) by (simp add: frames_short)
  obtain ch' where "channel_read S ch = Some ([], make_error_code sequence_number_mismatch, ch')"
    using channel_read_loop_mismatch [OF assms(1,2) inp, of 0 "[]"] assms(3,5) unfolding channel_read_def by auto
  moreover define e where "e = make_error_code sequence_number_mismatch"
  moreover have "failed e" by (simp add: e_def)
  ultimately show ?thesis by (simp add: handshake_def read_shared_def flip: e_def)
qed

lemma reconnect_mismatch:
  assumes "reliable_stream S inp out" and "channel_wf ch" and "so_is_open S (ch_stream ch)"
    and "close_connection S code ch = Some (code1, ch1)"
    and "C endpoint (ch_stream ch1) = (no_error, s)" and "inp s = frames 0 greeting @ rest"
    and "length greeting < MAX_PACKET_SIZE"
  shows "\<exists>ch2. connect C S H endpoint params info ch1 = Some (make_error_code sequence_number_mismatch, info, ch2)"
proof -
  obtain c q where q: "quit_connection S ch = Some (c, q)" "channel_wf q" "ch_sequence_number q = 1"
    using quit_connection_ok [OF assms(1,2)] by blast
  then have "ch1 = snd (channel_close S q)"
    using assms(3,4) by (auto simp: close_connection_def split: prod.splits)
  then have ch1: "channel_wf ch1" "ch_sequence_number ch1 \<noteq> 0"
    using channel_close_frame [OF reliable_byte_stream [OF assms(1)], of q] q by simp_all
  let ?ch = "ch1\<lparr>ch_stream := s\<rparr>"
  have "channel_wf ?ch" "ch_sequence_number ?ch \<noteq> 0" "inp (ch_stream ?ch) = frames 0 greeting @ rest"
    using ch1 assms(6) by (simp_all add: channel_wf_def)
  from handshake_mismatch [OF assms(1) this assms(7), of H params info] show ?thesis
    using assms(5) by (auto simp: connect_def)
qed

text \<open>Connecting, when the physical connection fails and when it does not.\<close>

lemma connect_any:
  assumes "byte_stream S inp out" and "channel_wf ch" and "closing_stream S"
    and "C endpoint (ch_stream ch) = (code, s)"
  shows "(\<exists>err info' ch'. connect C S H endpoint params info ch = Some (err, info', ch') \<and>
      (failed err \<longrightarrow> \<not> so_is_open S (ch_stream ch')) \<and>
      (failed code \<longrightarrow> err = code \<and> ei_msg info' = ascii ''Physical connect failed'')) \<or>
    connect C S H endpoint params info ch = None \<and> \<not> failed code \<and>
      (\<exists>chx. handshake_aborts S H params info (ch\<lparr>ch_stream := s\<rparr>) chx \<and> auth_switch_aborts (ch_shared_buff chx))"
proof (cases "failed code")
  case True
  then show ?thesis
    using assms(4) channel_close_closed [OF assms(3)] by (simp add: connect_def Let_def set_message_def)
next
  case False
  have wf: "channel_wf (ch\<lparr>ch_stream := s\<rparr>)" using assms(2) by (simp add: channel_wf_def)
  show ?thesis
  proof (rule handshake_total [OF assms(1) wf, of H params info])
    fix err info' ch'
    assume "handshake S H params info (ch\<lparr>ch_stream := s\<rparr>) = Some (err, info', ch')"
    then show ?thesis
      using False assms(4) channel_close_closed [OF assms(3)] by (simp add: connect_def Let_def)
  next
    fix chx
    assume "handshake_aborts S H params info (ch\<lparr>ch_stream := s\<rparr>) chx"
    then show ?thesis
      using False assms(4) handshake_aborts_at [OF assms(1) wf] by (auto simp: connect_def Let_def)
  qed
qed

section \<open>A whole session\<close>

text \<open>The peer of a session: its greeting, the answer to the client's response, and what it sends next.\<close>

definition greeting_message ::
    "bytes \<Rightarrow> u32 \<Rightarrow> bytes \<Rightarrow> u32 \<Rightarrow> u8 \<Rightarrow> u16 \<Rightarrow> bytes \<Rightarrow> bytes" where
  "greeting_message version conn_id challenge scaps charset status plugin =
     10 # enc_handshake_packet version conn_id challenge scaps charset status plugin"

lemma connect_ok:
  assumes "reliable_stream S inp out" and "channel_wf ch" and "ch_sequence_number ch = 0"
    and "C endpoint (ch_stream ch) = (no_error, s)"
    and "no_nul version" and "no_nul plugin" and "20 \<le> length a" and "length a \<le> 254"
    and "caps_has_all (caps_of scaps) (required_capabilities params)"
    and "calculate H plugin (cp_password params) a (tls_wanted params scaps) new_calculator = (code, calc)"
    and "\<not> failed code"
    and "greeting = greeting_message version conn_id a scaps charset status plugin"
    and "length greeting < MAX_PACKET_SIZE"
    and "caps = negotiated params scaps"
    and "length (enc_handshake_response caps (handshake_response_of params caps (ac_response calc) plugin)) < MAX_PACKET_SIZE"
    and "inp s = frames 0 greeting @ frames (if tls_wanted params scaps then 3 else 2) (0 # ok) @ rest"
  shows "\<exists>ch1. connect C S H endpoint params info ch = Some (no_error, info, ch1) \<and> channel_wf ch1 \<and>
    inp (ch_stream ch1) = rest \<and> ch_ssl ch1 = (ch_ssl ch \<or> tls_wanted params scaps) \<and> ch_current_caps ch1 = caps \<and>
    out (ch_stream ch1) = out s @ client_messages params scaps (ac_response calc) plugin (ch_ssl ch)"
proof -
  let ?ch = "ch\<lparr>ch_stream := s\<rparr>"
  have wf: "channel_wf ?ch" "ch_sequence_number ?ch = 0" using assms(2,3) by (simp_all add: channel_wf_def)
  have inp: "inp (ch_stream ?ch) = frames 0 greeting @ frames (if tls_wanted params scaps then 3 else 2) (0 # ok) @ rest"
    using assms(16) by simp
  obtain ch1 where hs: "handshake S H params info ?ch = Some (no_error, info, ch1)" "inp (ch_stream ch1) = rest"
      "out (ch_stream ch1) = out s @ client_messages params scaps (ac_response calc) plugin (ch_ssl ch)"
      "ch_ssl ch1 = (ch_ssl ch \<or> tls_wanted params scaps)" "ch_current_caps ch1 = caps"
    using handshake_ok [OF assms(1) wf assms(5-11) assms(12) [unfolded greeting_message_def] assms(13)
        assms(15) [unfolded assms(14)] inp, of info] assms(14) by auto
  have "channel_wf ch1"
    using handshake_returned [OF reliable_byte_stream [OF assms(1)] wf(1) hs(1)] by (simp add: handshake_outcome_def)
  then show ?thesis using hs assms(4) by (simp add: connect_def)
qed

lemma session_rows:
  assumes "reliable_stream S inp out" and "channel_wf ch" and "ch_sequence_number ch = 0"
    and "C endpoint (ch_stream ch) = (no_error, s)"
    and "no_nul version" and "no_nul plugin" and "20 \<le> length a" and "length a \<le> 254"
    and "caps_has_all (caps_of scaps) (required_capabilities params)"
    and "calculate H plugin (cp_password params) a (tls_wanted params scaps) new_calculator = (code, calc)"
    and "\<not> failed code"
    and "greeting = greeting_message version conn_id a scaps charset status plugin"
    and "length greeting < MAX_PACKET_SIZE"
    and "caps = negotiated params scaps"
    and "length (enc_handshake_response caps (handshake_response_of params caps (ac_response calc) plugin)) < MAX_PACKET_SIZE"
    and "Suc (length query) < MAX_PACKET_SIZE"
    and "inp s = frames 0 greeting @ frames (if tls_wanted params scaps then 3 else 2) (0 # ok) @
      frames_list 1 (result_head caps cds @ map (enc_text_row caps) rows @ [eof_message p]) @ rest"
    and "columns_ok M cds" and "\<forall>r \<in> set rows. text_row_ok L D (map field_metadata_of cds) r"
    and "length rows < size_t_max" and "in_memory (ok_info p)"
  shows "\<exists>ch1 rs ch2 ch3. connect C S H endpoint params info ch = Some (no_error, info, ch1) \<and>
    connection_query S M L D query err2 info2 ch1 = Some (no_error, empty_info, rs, ch2) \<and>
    fetch_all S rs ch2 =
      Some (map (\<lambda>r. (text_row_values L D (map field_metadata_of cds) r, enc_text_row caps r)) rows, no_error, empty_info,
        rs\<lparr>rs_ok_packet := p, rs_eof_received := True\<rparr>, ch3) \<and>
    inp (ch_stream ch3) = rest \<and> out (ch_stream ch3) = out s @
      client_messages params scaps (ac_response calc) plugin (ch_ssl ch) @
      [(ch_ssl ch \<or> tls_wanted params scaps, frame_header (Suc (length query)) 0 @ com_query_id # query)]"
proof -
  obtain ch1 where hs: "connect C S H endpoint params info ch = Some (no_error, info, ch1)" "channel_wf ch1"
      "inp (ch_stream ch1) = frames_list 1 (result_head caps cds @ map (enc_text_row caps) rows @ [eof_message p]) @ rest"
      "ch_ssl ch1 = (ch_ssl ch \<or> tls_wanted params scaps)" "ch_current_caps ch1 = caps"
      "out (ch_stream ch1) = out s @ client_messages params scaps (ac_response calc) plugin (ch_ssl ch)"
    using connect_ok [where C = C and endpoint = endpoint and s = s, OF assms(1-15,17), of info] by blast
  have len: "length (com_query_id # query) < MAX_PACKET_SIZE" using assms(16) by simp
  have inp1: "inp (ch_stream ch1) = frames_list 1 (result_head (ch_current_caps ch1) cds @
      map (enc_text_row (ch_current_caps ch1)) rows @ [eof_message p]) @ rest"
    unfolding hs(5) by (rule hs(3))
  obtain rs ch2 ch3 where "execute_query S M L D query default_resultset empty_info ch1 = Some (no_error, empty_info, rs, ch2)"
      "request_sent out (com_query_id # query) ch1 ch3" "pending inp ch3 [] rest"
      "fetch_all S rs ch2 =
      Some (map (\<lambda>r. (text_row_values L D (map field_metadata_of cds) r, enc_text_row caps r)) rows, no_error, empty_info,
        rs\<lparr>rs_ok_packet := p, rs_eof_received := True\<rparr>, ch3)"
    using text_rows.execute_and_fetch [OF assms(1) hs(2) serialize_com_query_message len inp1 assms(18-21)]
    unfolding execute_query_def hs(5) by blast
  then show ?thesis
    using hs pending_Nil
    by (intro exI [of _ ch1] exI [of _ rs] exI [of _ ch2] exI [of _ ch3])
      (simp add: connection_query_def clear_errors_def request_sent_def)
qed

section \<open>Properties\<close>

text \<open>
  C13: connecting returns whatever the server sends, as long as it is finite, and when it fails the
  socket is closed; when already the physical connection fails, its error is reported with the
  message of the library. There is one exception, and no other: a server that answers the client with
  an authentication switch request whose data does not end in a null byte fails an assertion, which
  ends the program, with that request in the buffer of the channel.
\<close>
theorem connect_failure_closes:
  assumes "byte_stream S inp out" and "channel_wf ch" and "closing_stream S"
    and "C endpoint (ch_stream ch) = (code, s)"
  shows "(\<exists>err info' ch'. connect C S H endpoint params info ch = Some (err, info', ch') \<and>
      (failed err \<longrightarrow> \<not> so_is_open S (ch_stream ch')) \<and>
      (failed code \<longrightarrow> err = code \<and> ei_msg info' = ascii ''Physical connect failed'')) \<or>
    connect C S H endpoint params info ch = None \<and> \<not> failed code \<and>
      (\<exists>chx. handshake_aborts S H params info (ch\<lparr>ch_stream := s\<rparr>) chx \<and> auth_switch_aborts (ch_shared_buff chx))"
  by (rule connect_any [where C = C and endpoint = endpoint, OF assms])

lemma scripted_closing: "closing_stream scripted_stream"
  by (simp add: closing_stream_def scripted_stream_def)

lemma connect_failure_closes_witness:
  "\<exists>info' ch'. connect (\<lambda>_ s. (eof_error, s)) scripted_stream sample_crypto () (sample_params Ssl_enable) empty_info (sample_peer [])
      = Some (eof_error, info', ch') \<and> \<not> scr_open (ch_stream ch')"
  using connect_failure_closes [OF scripted_byte_stream sample_peer_wf scripted_closing,
      where C = "\<lambda>_ s. (eof_error, s)" and endpoint = "()", OF refl, of sample_crypto "sample_params Ssl_enable" empty_info "[]"]
  by (auto simp: failed_def eof_error_def scripted_stream_def)

text \<open>
  C14: closing a connection returns and leaves the socket closed, whether the quit message could be
  sent or not; closing again does nothing.
\<close>
theorem close_connection_closes:
  assumes "byte_stream S inp out" and "channel_wf ch" and "closing_stream S"
  shows "\<exists>code' ch'. close_connection S code ch = Some (code', ch') \<and> \<not> so_is_open S (ch_stream ch') \<and>
    close_connection S code'' ch' = Some (code'', ch')"
  by (rule close_connection_any [OF assms])

lemma close_connection_closes_witness:
  "\<exists>code' ch'. close_connection scripted_stream no_error (sample_peer []) = Some (code', ch') \<and> \<not> scr_open (ch_stream ch') \<and>
    close_connection scripted_stream no_error ch' = Some (no_error, ch')"
  using close_connection_closes [OF scripted_byte_stream sample_peer_wf scripted_closing, of no_error "[]" no_error]
  by (simp add: scripted_stream_def)

text \<open>
  C25: a connection that was closed cannot be connected again: the quit message leaves the next
  sequence number at 1, connecting does not reset it, and the greeting of the server, numbered 0, is
  refused.
\<close>
theorem reconnect_fails:
  assumes "reliable_stream S inp out" and "channel_wf ch" and "so_is_open S (ch_stream ch)"
    and "close_connection S code ch = Some (code1, ch1)"
    and "C endpoint (ch_stream ch1) = (no_error, s)" and "inp s = frames 0 greeting @ rest"
    and "length greeting < MAX_PACKET_SIZE"
  shows "\<exists>ch2. connect C S H endpoint params info ch1 = Some (make_error_code sequence_number_mismatch, info, ch2)"
  by (rule reconnect_mismatch [where C = C and endpoint = endpoint and s = s, OF assms])

lemma reconnect_fails_witness:
  "\<exists>code ch1 ch2. close_connection scripted_stream no_error (sample_peer []) = Some (code, ch1) \<and>
    connect (\<lambda>_ s. (no_error, s\<lparr>scr_in := frames 0 sample_greeting\<rparr>)) scripted_stream sample_crypto ()
      (sample_params Ssl_disable) empty_info ch1 = Some (make_error_code sequence_number_mismatch, empty_info, ch2)"
proof -
  obtain code ch1 where c: "close_connection scripted_stream no_error (sample_peer []) = Some (code, ch1)"
    using close_connection_any [OF scripted_byte_stream sample_peer_wf scripted_closing] by blast
  have "so_is_open scripted_stream (ch_stream (sample_peer []))"
    by (simp add: scripted_stream_def sample_peer_def make_channel_def)
  then show ?thesis
    using c reconnect_fails [where C = "\<lambda>_ s. (no_error, s\<lparr>scr_in := frames 0 sample_greeting\<rparr>)" and endpoint = "()",
        OF scripted_reliable sample_peer_wf _ c, of "ch_stream ch1\<lparr>scr_in := frames 0 sample_greeting\<rparr>" sample_greeting "[]" sample_crypto "sample_params Ssl_disable" empty_info]
      length_sample_greeting
    by auto
qed

end
