(* ===== verification/Cursor.thy ===== *)
theory Cursor
  imports Async_Rows Connection
begin

text \<open>
  A resultset as its user sees it: a cursor over rows. The abstract cursor holds the rows not yet
  returned and whether the end was seen; every fetch operation, in each of its variants, refines
  the same operation on it, so any sequence of them returns the rows in order, each once.
\<close>

section \<open>The abstract cursor\<close>

record 'r cursor =
  cu_rows :: "'r list"
  cu_done :: bool

definition cursor_fetch :: "nat \<Rightarrow> 'r cursor \<Rightarrow> 'r list \<times> 'r cursor" where
  "cursor_fetch n c =
     (if cu_done c then ([], c)
      else (take n (cu_rows c), \<lparr>cu_rows = drop n (cu_rows c), cu_done = length (cu_rows c) < n\<rparr>))"

text \<open>The calls of a program: which operation, in which of its variants.\<close>

datatype call_mode = Blocking | Throwing | Asynchronous

datatype fetch_call = Call_one call_mode | Call_many call_mode nat | Call_all call_mode

fun call_count :: "fetch_call \<Rightarrow> nat" where
  "call_count (Call_one _) = 1"
| "call_count (Call_many _ n) = n"
| "call_count (Call_all _) = size_t_max"

fun cursor_run :: "fetch_call list \<Rightarrow> 'r cursor \<Rightarrow> 'r list list \<times> 'r cursor" where
  "cursor_run [] c = ([], c)"
| "cursor_run (call # calls) c =
     (case cursor_fetch (call_count call) c of (rows, c1) \<Rightarrow>
      case cursor_run calls c1 of (answers, c2) \<Rightarrow> (rows # answers, c2))"

text \<open>What any sequence of calls has returned, and whether it has seen the end.\<close>

lemma cursor_run_done [simp]: "cu_done c \<Longrightarrow> cursor_run calls c = (map (\<lambda>_. []) calls, c)"
  by (induction calls) (simp_all add: cursor_fetch_def)

lemma cursor_run_total:
  assumes "cursor_run calls \<lparr>cu_rows = rows, cu_done = False\<rparr> = (answers, c)"
  shows "concat answers = take (sum_list (map call_count calls)) rows"
    and "cu_rows c = drop (sum_list (map call_count calls)) rows"
    and "cu_done c \<longleftrightarrow> length rows < sum_list (map call_count calls)"
proof -
  have "concat answers = take (sum_list (map call_count calls)) rows \<and>
      cu_rows c = drop (sum_list (map call_count calls)) rows \<and>
      (cu_done c \<longleftrightarrow> length rows < sum_list (map call_count calls))"
    using assms
  proof (induction calls arbitrary: rows answers)
    case (Cons call calls)
    obtain answers1 where run: "cursor_run calls \<lparr>cu_rows = drop (call_count call) rows, cu_done = length rows < call_count call\<rparr>
        = (answers1, c)" "answers = take (call_count call) rows # answers1"
      using Cons.prems by (auto simp: cursor_fetch_def split: prod.splits)
    show ?case
    proof (cases "length rows < call_count call")
      case True
      then show ?thesis using run by auto
    next
      case False
      then show ?thesis
        using Cons.IH [of "drop (call_count call) rows" answers1] run by (auto simp: take_add add.commute)
    qed
  qed auto
  then show "concat answers = take (sum_list (map call_count calls)) rows"
    "cu_rows c = drop (sum_list (map call_count calls)) rows"
    "cu_done c \<longleftrightarrow> length rows < sum_list (map call_count calls)" by simp_all
qed

section \<open>The calls on a resultset\<close>

text \<open>
  What a call tells its user, whichever of its variants is used: the result, or an error and its
  message. The blocking variant reports it through its reference parameters, the throwing one in the
  exception, the asynchronous one to its handler and to the information passed.
\<close>

type_synonym 'r result = "error_code \<times> bytes + 'r"

definition reported :: "error_code \<Rightarrow> error_info \<Rightarrow> 'r \<Rightarrow> 'r result" where
  "reported err info r = (if failed err then Inl (err, ei_msg info) else Inr r)"

definition caught :: "system_error + 'r \<Rightarrow> 'r result" where
  "caught r = map_sum (\<lambda>e. (se_code e, se_what e)) id r"

definition delivered :: "error_code \<Rightarrow> error_info option \<Rightarrow> 'r \<Rightarrow> 'r result" where
  "delivered err info r = reported err (case info of None \<Rightarrow> empty_info | Some i \<Rightarrow> i) r"

definition one_row :: "'a option \<Rightarrow> 'a list" where
  "one_row row = (case row of None \<Rightarrow> [] | Some vs \<Rightarrow> [vs])"

fun run_fetch_call ::
    "'s stream_ops \<Rightarrow> fetch_call \<Rightarrow> resultset \<Rightarrow> 's channel \<Rightarrow>
     (mysql_value list list result \<times> resultset \<times> 's channel) option" where
  "run_fetch_call S (Call_one Blocking) rs ch =
     map_option (\<lambda>(row, err, info, r). (reported err info (one_row row), r)) (fetch_one S rs ch)"
| "run_fetch_call S (Call_many Blocking n) rs ch =
     map_option (\<lambda>(rows, err, info, r). (reported err info (map fst rows), r)) (fetch_many S n rs ch)"
| "run_fetch_call S (Call_all Blocking) rs ch =
     map_option (\<lambda>(rows, err, info, r). (reported err info (map fst rows), r)) (fetch_all S rs ch)"
| "run_fetch_call S (Call_one Throwing) rs ch =
     map_option (\<lambda>(row, r). (map_sum id one_row (caught row), r)) (fetch_one_throwing S rs ch)"
| "run_fetch_call S (Call_many Throwing n) rs ch =
     map_option (\<lambda>(rows, r). (map_sum id (map fst) (caught rows), r)) (fetch_many_throwing S n rs ch)"
| "run_fetch_call S (Call_all Throwing) rs ch =
     map_option (\<lambda>(rows, r). (map_sum id (map fst) (caught rows), r)) (fetch_all_throwing S rs ch)"
| "run_fetch_call S (Call_one Asynchronous) rs ch =
     map_option (\<lambda>(row, err, info, r). (delivered err info (one_row row), r)) (async_fetch_one S (Some empty_info) rs ch)"
| "run_fetch_call S (Call_many Asynchronous n) rs ch =
     map_option (\<lambda>(rows, err, info, r). (delivered err info (map fst rows), r)) (async_fetch_many S n (Some empty_info) rs ch)"
| "run_fetch_call S (Call_all Asynchronous) rs ch =
     map_option (\<lambda>(rows, err, info, r). (delivered err info (map fst rows), r)) (async_fetch_all S (Some empty_info) rs ch)"

fun run_fetch_calls ::
    "'s stream_ops \<Rightarrow> fetch_call list \<Rightarrow> resultset \<Rightarrow> 's channel \<Rightarrow>
     (mysql_value list list result list \<times> resultset \<times> 's channel) option" where
  "run_fetch_calls S [] rs ch = Some ([], rs, ch)"
| "run_fetch_calls S (call # calls) rs ch =
     Option.bind (run_fetch_call S call rs ch) (\<lambda>(rows, rs1, ch1).
       map_option (\<lambda>(answers, r). (rows # answers, r)) (run_fetch_calls S calls rs1 ch1))"

text \<open>The three variants show their caller the same.\<close>

lemma reported_no_error [simp]: "reported no_error info r = Inr r"
  by (simp add: reported_def)

lemma caught_check [simp]:
  "caught (case check_error_code err info of Inl e \<Rightarrow> Inl e | Inr () \<Rightarrow> Inr r) = reported err info r"
  by (simp add: caught_def check_error_code_def reported_def split: unit.split)

lemma delivered_assign [simp]: "delivered err (conditional_assign (Some i) info) r = reported err info r"
  by (simp add: delivered_def conditional_assign_def)

lemma map_reported [simp]: "map_sum id f (reported err info r) = reported err info (f r)"
  by (simp add: reported_def)

fun blocking :: "fetch_call \<Rightarrow> fetch_call" where
  "blocking (Call_one _) = Call_one Blocking"
| "blocking (Call_many _ n) = Call_many Blocking n"
| "blocking (Call_all _) = Call_all Blocking"

lemma blocking_count [simp]: "call_count (blocking call) = call_count call"
  by (cases call) simp_all

lemma run_fetch_call_blocking:
  assumes "byte_stream S inp out" and "channel_wf ch"
  shows "run_fetch_call S call rs ch = run_fetch_call S (blocking call) rs ch"
  by (cases "(S, call, rs, ch)" rule: run_fetch_call.cases)
    (simp_all add: async_fetch_one_eq [OF assms] async_fetch_many_eq [OF assms] async_fetch_all_def fetch_all_def
      fetch_one_throwing_def fetch_many_throwing_def fetch_all_throwing_def throwing_with_def
      option.map_comp comp_def case_prod_unfold)

section \<open>Refinement\<close>

text \<open>
  The resultset and the channel stand for a cursor: it is complete, with the OK packet that ended
  it, or it is reading and the rows left and the OK packet are the messages to come.
\<close>

definition cursor_at ::
    "('s \<Rightarrow> bytes) \<Rightarrow> row_fn \<Rightarrow> (capabilities \<Rightarrow> field_metadata list \<Rightarrow> 'r \<Rightarrow> bytes) \<Rightarrow> ok_packet \<Rightarrow> bytes \<Rightarrow> resultset \<Rightarrow> 's channel \<Rightarrow>
     'r cursor \<Rightarrow> bool" where
  "cursor_at inp d enc p rest rs ch c \<longleftrightarrow>
     (if cu_done c then rs_valid rs \<and> rs_complete rs \<and> rs_ok_packet rs = p \<and> pending inp ch [] rest
      else rs_reading rs d \<and> pending inp ch (map (enc (ch_current_caps ch) (rs_fields rs)) (cu_rows c) @ [eof_message p]) rest)"

lemma cursor_at_wf: "cursor_at inp d enc p rest rs ch c \<Longrightarrow> channel_wf ch"
  by (auto simp: cursor_at_def pending_wf split: if_splits)

context row_protocol
begin

lemma fetch_many_cursor:
  assumes "reliable_stream S inp out" and "cursor_at inp fn enc p rest rs ch c"
    and "\<forall>r \<in> set (cu_rows c). ok (rs_fields rs) r" and "in_memory (ok_info p)"
    and "cursor_fetch n c = (rows, c1)"
  shows "\<exists>rows' rs' ch'. fetch_many S n rs ch = Some (rows', no_error, empty_info, rs', ch') \<and>
    map fst rows' = map (vals (rs_fields rs)) rows \<and> rs_fields rs' = rs_fields rs \<and>
    same_session ch ch' \<and> out (ch_stream ch') = out (ch_stream ch) \<and> cursor_at inp fn enc p rest rs' ch' c1"
proof (cases "cu_done c")
  case True
  then have "rs_valid rs" "rs_complete rs" "rows = []" "c1 = c" using assms(2,5) by (simp_all add: cursor_at_def cursor_fetch_def)
  then show ?thesis
    using assms(2) cursor_at_wf [OF assms(2)]
    by (intro exI [of _ "[]"] exI [of _ rs] exI [of _ ch]) (simp add: fetch_many_def same_session_refl)
next
  case False
  then have rs: "rs_reading rs fn" and pend: "pending inp ch (map (enc (ch_current_caps ch) (rs_fields rs)) (cu_rows c) @ [eof_message p]) rest"
    and abs: "rows = take n (cu_rows c)" "c1 = \<lparr>cu_rows = drop n (cu_rows c), cu_done = length (cu_rows c) < n\<rparr>"
    using assms(2,5) by (simp_all add: cursor_at_def cursor_fetch_def)
  obtain ch' where ch': "same_session ch ch'" "out (ch_stream ch') = out (ch_stream ch)"
      "pending inp ch' (if length (cu_rows c) < n then []
        else map (enc (ch_current_caps ch) (rs_fields rs)) (drop n (cu_rows c)) @ [eof_message p]) rest"
    and run: "fetch_many S n rs ch =
      Some (map (\<lambda>r. (vals (rs_fields rs) r, enc (ch_current_caps ch) (rs_fields rs) r)) (take n (cu_rows c)), no_error, empty_info,
        if length (cu_rows c) < n then rs\<lparr>rs_ok_packet := p, rs_eof_received := True\<rparr> else rs, ch')"
    using fetch_many_rows [OF assms(1) rs pend assms(3,4), of n] by blast
  have "ch_current_caps ch' = ch_current_caps ch" using ch'(1) by (simp add: same_session_def)
  then show ?thesis
    using ch' run rs by (cases "length (cu_rows c) < n") (simp_all add: cursor_at_def abs rs_complete_def rs_fields_def rs_reading_def comp_def)
qed

lemma fetch_one_end:
  assumes "reliable_stream S inp out" and "cursor_at inp fn enc p rest rs ch \<lparr>cu_rows = [], cu_done = False\<rparr>"
    and "in_memory (ok_info p)"
  shows "\<exists>rs' ch'. fetch_one S rs ch = Some (None, no_error, empty_info, rs', ch') \<and> rs_fields rs' = rs_fields rs \<and>
    same_session ch ch' \<and> out (ch_stream ch') = out (ch_stream ch) \<and>
    cursor_at inp fn enc p rest rs' ch' \<lparr>cu_rows = [], cu_done = True\<rparr>"
proof -
  have rs: "rs_valid rs" "\<not> rs_complete rs" "rs_deserializer rs = Some fn" and pend: "pending inp ch [eof_message p] rest"
    using assms(2) by (simp_all add: cursor_at_def rs_reading_def)
  obtain ch' where ch': "same_session ch ch'" "out (ch_stream ch') = out (ch_stream ch)" "pending inp ch' [] rest"
      "\<And>d metas outs info. read_row S d metas outs info ch =
       map_option (\<lambda>(r, err, info1, outs1). (r, err, info1, eof_message p, outs1, ch'))
         (process_read_message d (ch_current_caps ch) metas (eof_message p) outs info)"
    using read_row_pending [OF assms(1) pend] by blast
  let ?rs = "rs\<lparr>rs_buffer := eof_message p, rs_ok_packet := p, rs_eof_received := True\<rparr>"
  have "fetch_one S rs ch = Some (None, no_error, empty_info, ?rs, ch')"
    using rs ch'(4) by (simp add: fetch_one_def process_read_eof [OF assms(3)])
  then show ?thesis using ch'(1-3) rs(1) by (simp add: cursor_at_def rs_complete_def rs_fields_def)
qed

lemma fetch_one_row:
  assumes "reliable_stream S inp out" and "cursor_at inp fn enc p rest rs ch \<lparr>cu_rows = r # rows, cu_done = False\<rparr>"
    and "ok (rs_fields rs) r"
  shows "\<exists>rs' ch'. fetch_one S rs ch = Some (Some (vals (rs_fields rs) r), no_error, empty_info, rs', ch') \<and>
    rs_fields rs' = rs_fields rs \<and> same_session ch ch' \<and> out (ch_stream ch') = out (ch_stream ch) \<and>
    cursor_at inp fn enc p rest rs' ch' \<lparr>cu_rows = rows, cu_done = False\<rparr>"
proof -
  let ?m = "enc (ch_current_caps ch) (rs_fields rs) r" and ?ms = "map (enc (ch_current_caps ch) (rs_fields rs)) rows @ [eof_message p]"
  have rs: "rs_valid rs" "\<not> rs_complete rs" "rs_deserializer rs = Some fn" and pend: "pending inp ch (?m # ?ms) rest"
    using assms(2) by (simp_all add: cursor_at_def rs_reading_def)
  obtain ch' where ch': "same_session ch ch'" "out (ch_stream ch') = out (ch_stream ch)" "pending inp ch' ?ms rest"
      "\<And>d metas outs info. read_row S d metas outs info ch =
       map_option (\<lambda>(r', err, info1, outs1). (r', err, info1, ?m, outs1, ch'))
         (process_read_message d (ch_current_caps ch) metas ?m outs info)"
    using read_row_pending [OF assms(1) pend] by blast
  let ?rs = "rs\<lparr>rs_buffer := ?m, rs_current_row := vals (rs_fields rs) r\<rparr>"
  have "rs\<lparr>rs_buffer := ?m, rs_current_row := vals (rs_fields rs) r,
      rs_ok_packet := rs_ok_packet rs, rs_eof_received := False\<rparr> = ?rs"
    using rs(2) by (cases rs) (simp add: rs_complete_def rs_fields_def)
  then have "fetch_one S rs ch = Some (Some (vals (rs_fields rs) r), no_error, empty_info, ?rs, ch')"
    using rs ch'(4) by (simp add: fetch_one_def process_row [OF assms(3)])
  moreover have "cursor_at inp fn enc p rest ?rs ch' \<lparr>cu_rows = rows, cu_done = False\<rparr>"
    using ch'(1,3) rs by (simp add: cursor_at_def rs_complete_def rs_reading_def rs_fields_def same_session_def)
  ultimately show ?thesis using ch'(1,2) by (simp add: rs_fields_def)
qed

lemma fetch_one_cursor:
  assumes "reliable_stream S inp out" and "cursor_at inp fn enc p rest rs ch c"
    and "\<forall>r \<in> set (cu_rows c). ok (rs_fields rs) r" and "in_memory (ok_info p)"
    and "cursor_fetch 1 c = (rows, c1)"
  shows "\<exists>row rs' ch'. fetch_one S rs ch = Some (row, no_error, empty_info, rs', ch') \<and>
    one_row row = map (vals (rs_fields rs)) rows \<and> rs_fields rs' = rs_fields rs \<and>
    same_session ch ch' \<and> out (ch_stream ch') = out (ch_stream ch) \<and> cursor_at inp fn enc p rest rs' ch' c1"
proof (cases "cu_done c")
  case True
  then have "rs_valid rs" "rs_complete rs" "rows = []" "c1 = c" using assms(2,5) by (simp_all add: cursor_at_def cursor_fetch_def)
  then show ?thesis
    using assms(2) by (simp add: fetch_one_def one_row_def same_session_refl)
next
  case False
  then have c: "c = \<lparr>cu_rows = cu_rows c, cu_done = False\<rparr>" by simp
  show ?thesis
  proof (cases "cu_rows c")
    case Nil
    then have "rows = []" "c1 = \<lparr>cu_rows = [], cu_done = True\<rparr>" using assms(5) False by (simp_all add: cursor_fetch_def)
    moreover have "cursor_at inp fn enc p rest rs ch \<lparr>cu_rows = [], cu_done = False\<rparr>" using assms(2) c Nil by metis
    from fetch_one_end [OF assms(1) this assms(4)] obtain rs' ch' where
      "fetch_one S rs ch = Some (None, no_error, empty_info, rs', ch')" "rs_fields rs' = rs_fields rs" "same_session ch ch'"
      "out (ch_stream ch') = out (ch_stream ch)" "cursor_at inp fn enc p rest rs' ch' \<lparr>cu_rows = [], cu_done = True\<rparr>" by blast
    ultimately show ?thesis by (simp add: one_row_def)
  next
    case (Cons r more_rows)
    then have "rows = [r]" "c1 = \<lparr>cu_rows = more_rows, cu_done = False\<rparr>" using assms(5) False by (auto simp: cursor_fetch_def)
    moreover have "cursor_at inp fn enc p rest rs ch \<lparr>cu_rows = r # more_rows, cu_done = False\<rparr>" using assms(2) c Cons by metis
    moreover have "ok (rs_fields rs) r" using assms(3) Cons by simp
    ultimately show ?thesis using fetch_one_row [OF assms(1)] by (fastforce simp: one_row_def)
  qed
qed

lemma run_fetch_call_cursor:
  assumes "reliable_stream S inp out" and "cursor_at inp fn enc p rest rs ch c"
    and "\<forall>r \<in> set (cu_rows c). ok (rs_fields rs) r" and "in_memory (ok_info p)"
    and "cursor_fetch (call_count call) c = (rows, c1)"
  shows "\<exists>rs' ch'. run_fetch_call S call rs ch = Some (Inr (map (vals (rs_fields rs)) rows), rs', ch') \<and>
    rs_fields rs' = rs_fields rs \<and> same_session ch ch' \<and> out (ch_stream ch') = out (ch_stream ch) \<and>
    cursor_at inp fn enc p rest rs' ch' c1"
proof -
  note block = run_fetch_call_blocking [OF reliable_byte_stream [OF assms(1)] cursor_at_wf [OF assms(2)], of call rs]
  show ?thesis
  proof (cases call)
    case (Call_one m)
    then show ?thesis unfolding block using fetch_one_cursor [OF assms(1-4)] assms(5) by fastforce
  next
    case (Call_many m n)
    then show ?thesis unfolding block using fetch_many_cursor [OF assms(1-4)] assms(5) by fastforce
  next
    case (Call_all m)
    then show ?thesis
      unfolding block using fetch_many_cursor [OF assms(1-4)] assms(5) by (fastforce simp: fetch_all_def)
  qed
qed

lemma cursor_fetch_subset: "cursor_fetch n c = (rows, c1) \<Longrightarrow> set (cu_rows c1) \<subseteq> set (cu_rows c)"
  by (auto simp: cursor_fetch_def dest: in_set_dropD split: if_splits)

lemma run_fetch_calls_cursor:
  assumes "reliable_stream S inp out" and "cursor_at inp fn enc p rest rs ch c"
    and "\<forall>r \<in> set (cu_rows c). ok (rs_fields rs) r" and "in_memory (ok_info p)"
    and "cursor_run calls c = (answers, c1)"
  shows "\<exists>rs' ch'. run_fetch_calls S calls rs ch =
      Some (map (\<lambda>rows. Inr (map (vals (rs_fields rs)) rows)) answers, rs', ch') \<and>
    rs_fields rs' = rs_fields rs \<and> same_session ch ch' \<and> out (ch_stream ch') = out (ch_stream ch) \<and>
    cursor_at inp fn enc p rest rs' ch' c1"
  using assms(2,3,5)
proof (induction calls arbitrary: rs ch c answers)
  case Nil
  then show ?case by (simp add: same_session_refl)
next
  case (Cons call calls)
  obtain rows c2 where step: "cursor_fetch (call_count call) c = (rows, c2)" by fastforce
  then obtain answers1 where run: "cursor_run calls c2 = (answers1, c1)" "answers = rows # answers1"
    using Cons.prems(3) by (auto split: prod.splits)
  obtain rs1 ch1 where one: "run_fetch_call S call rs ch = Some (Inr (map (vals (rs_fields rs)) rows), rs1, ch1)"
      "rs_fields rs1 = rs_fields rs" "same_session ch ch1" "out (ch_stream ch1) = out (ch_stream ch)"
      "cursor_at inp fn enc p rest rs1 ch1 c2"
    using run_fetch_call_cursor [OF assms(1) Cons.prems(1,2) assms(4) step] by blast
  have "\<forall>r \<in> set (cu_rows c2). ok (rs_fields rs1) r"
    using Cons.prems(2) cursor_fetch_subset [OF step] one(2) by auto
  from Cons.IH [OF one(5) this run(1)] show ?case
    using one run(2) same_session_trans [OF one(3)] by auto
qed

end

section \<open>Properties\<close>

text \<open>
  C6: whatever sequence of \<open>fetch_one\<close>, \<open>fetch_many\<close> and \<open>fetch_all\<close>, each blocking, throwing
  or asynchronous, is called on a resultset whose rows and final OK packet are on their way, in the
  text form of a query or the binary form of a prepared statement, every call returns what it would
  on the abstract cursor over these rows, without an error; together the calls have returned the
  first rows in order, as many as were asked for, and the resultset is complete, with the OK packet
  and nothing else read, exactly when more rows were asked for than there are.
\<close>
theorem fetch_calls_refine_cursor:
  assumes "reliable_stream S inp out" and "rs_reading rs (format_row_fn L D f)"
    and "pending inp ch (map (enc_server_row D (ch_current_caps ch) (rs_fields rs)) rows @ [eof_message p]) rest"
    and "\<forall>r \<in> set rows. server_row_ok L D f (rs_fields rs) r" and "in_memory (ok_info p)"
    and "cursor_run calls \<lparr>cu_rows = rows, cu_done = False\<rparr> = (answers, c)"
    and "asked = sum_list (map call_count calls)"
  shows "\<exists>rs' ch'. run_fetch_calls S calls rs ch =
      Some (map (\<lambda>rows. Inr (map (server_row_values L D (rs_fields rs)) rows)) answers, rs', ch') \<and>
    concat answers = take asked rows \<and> out (ch_stream ch') = out (ch_stream ch) \<and>
    cursor_at inp (format_row_fn L D f) (enc_server_row D) p rest rs' ch' c \<and>
    (rs_complete rs' \<longleftrightarrow> length rows < asked)"
proof -
  have "cursor_at inp (format_row_fn L D f) (enc_server_row D) p rest rs ch \<lparr>cu_rows = rows, cu_done = False\<rparr>"
    using assms(2,3) by (simp add: cursor_at_def)
  from server_rows.run_fetch_calls_cursor [OF assms(1) this _ assms(5,6)] assms(4)
  obtain rs' ch' where run: "run_fetch_calls S calls rs ch =
      Some (map (\<lambda>rows. Inr (map (server_row_values L D (rs_fields rs)) rows)) answers, rs', ch')"
    "out (ch_stream ch') = out (ch_stream ch)"
    and at: "cursor_at inp (format_row_fn L D f) (enc_server_row D) p rest rs' ch' c"
    by auto
  note total_of = cursor_run_total [OF assms(6), folded assms(7)]
  have "rs_complete rs' \<longleftrightarrow> length rows < asked"
    using at total_of(3) by (auto simp: cursor_at_def rs_reading_def split: if_splits)
  then show ?thesis using run at total_of(1) by blast
qed

text \<open>The calls of the sample: one row, two rows, all of them, each in another variant.\<close>

abbreviation sample_calls :: "fetch_call list" where
  "sample_calls \<equiv> [Call_one Throwing, Call_many Asynchronous 2, Call_all Blocking]"

definition sample_statement_resultset :: resultset where
  "sample_statement_resultset =
     resultset_with_fields \<lparr>rm_buffers = [], rm_fields = [typed_column pft_tiny]\<rparr> (binary_row_fn gregorian)"

lemma fetch_calls_refine_cursor_witness:
  "(\<exists>rs' ch'. run_fetch_calls scripted_stream sample_calls sample_resultset
      (sample_peer (frames_list 0 [enc_text_row (caps_of 0) [Some [0x61]], enc_text_row (caps_of 0) [Some [0x62]],
         enc_text_row (caps_of 0) [Some [0x63]], eof_message default_ok_packet])) =
      Some ([Inr [[V_string [0x61]]], Inr [[V_string [0x62]], [V_string [0x63]]], Inr []], rs', ch') \<and>
    rs_complete rs') \<and>
   (\<exists>rs' ch'. run_fetch_calls scripted_stream sample_calls sample_statement_resultset
      (sample_peer (frames_list 0 [[0, 0, 0x80], [0, 4], eof_message default_ok_packet])) =
      Some ([Inr [[V_int64 (- 128)]], Inr [[V_null]], Inr []], rs', ch') \<and>
    rs_complete rs')"
proof
  have text_rs: "rs_reading sample_resultset (format_row_fn sample_lexical gregorian Text_format)"
    by (simp add: format_row_fn_def)
  show "\<exists>rs' ch'. run_fetch_calls scripted_stream sample_calls sample_resultset
      (sample_peer (frames_list 0 [enc_text_row (caps_of 0) [Some [0x61]], enc_text_row (caps_of 0) [Some [0x62]],
         enc_text_row (caps_of 0) [Some [0x63]], eof_message default_ok_packet])) =
      Some ([Inr [[V_string [0x61]]], Inr [[V_string [0x62]], [V_string [0x63]]], Inr []], rs', ch') \<and> rs_complete rs'"
    using fetch_calls_refine_cursor [OF scripted_reliable text_rs,
      of "sample_peer (frames_list 0 [enc_text_row (caps_of 0) [Some [0x61]], enc_text_row (caps_of 0) [Some [0x62]],
         enc_text_row (caps_of 0) [Some [0x63]], eof_message default_ok_packet])"
      "[Text_row [Some [0x61]], Text_row [Some [0x62]], Text_row [Some [0x63]]]" default_ok_packet "[]" sample_calls
      "[[Text_row [Some [0x61]]], [Text_row [Some [0x62]], Text_row [Some [0x63]]], []]"
      "\<lparr>cu_rows = [], cu_done = True\<rparr>" "3 + size_t_max"]
    by (simp add: cursor_fetch_def size_t_max_def enc_server_row_def server_row_ok_def server_row_values_def
        del: frames_list.simps) blast
  have binary: "rs_reading sample_statement_resultset (format_row_fn sample_lexical gregorian Binary_format)"
    "rs_fields sample_statement_resultset = [typed_column pft_tiny]"
    by (simp_all add: format_row_fn_def sample_statement_resultset_def resultset_with_fields_def default_resultset_def
        rs_reading_def rs_complete_def rs_fields_def)
  have bytes: "enc_binary_row gregorian (caps_of 0) [typed_column pft_tiny] [V_int64 (- 128)] = [0, 0, 0x80]"
    "enc_binary_row gregorian (caps_of 0) [typed_column pft_tiny] [V_null] = [0, 4]"
    by (simp_all add: enc_binary_row_def binary_row_bitmap_def null_bitmap_bytes_def binary_row_null_bitmap_offset_def
        byte_count_def bitmap_set_null_def byte_pos_def bit_pos_def is_null_def enc_binary_cell_def enc_binary_value_def
        binary_int_size_def le_bytes_numeral)
  have ok: "binary_row_sendable gregorian [typed_column pft_tiny] [V_int64 (- 128)]"
    "binary_row_sendable gregorian [typed_column pft_tiny] [V_null]"
    by (simp_all add: binary_row_sendable_def gregorian.date_library_axioms binary_sendable_def column_value_ok_def
        date_time_in_range_def integer_types_def binary_int_fits_def binary_int_size_def)
  show "\<exists>rs' ch'. run_fetch_calls scripted_stream sample_calls sample_statement_resultset
      (sample_peer (frames_list 0 [[0, 0, 0x80], [0, 4], eof_message default_ok_packet])) =
      Some ([Inr [[V_int64 (- 128)]], Inr [[V_null]], Inr []], rs', ch') \<and> rs_complete rs'"
    using fetch_calls_refine_cursor [OF scripted_reliable binary(1),
      of "sample_peer (frames_list 0 [[0, 0, 0x80], [0, 4], eof_message default_ok_packet])"
      "[Binary_row [V_int64 (- 128)], Binary_row [V_null]]" default_ok_packet "[]" sample_calls
      "[[Binary_row [V_int64 (- 128)]], [Binary_row [V_null]], []]"
      "\<lparr>cu_rows = [], cu_done = True\<rparr>" "3 + size_t_max"]
    by (simp add: cursor_fetch_def size_t_max_def enc_server_row_def server_row_ok_def server_row_values_def
        binary(2) bytes ok del: frames_list.simps) blast
qed

end
