(* ===== verification/Async_Connection.thy ===== *)
theory Async_Connection
  imports Async_Rows Connection
begin

text \<open>
  The asynchronous operations of a connection: \<open>handshake_op\<close> (\<open>impl/handshake.hpp\<close>), \<open>connect_op\<close>
  (\<open>impl/connect.hpp\<close>), \<open>close_op\<close> (\<open>impl/close_connection.hpp\<close>), quitting and closing statements, and
  the asynchronous interface of connections and statements.
\<close>

section \<open>The shared buffer\<close>

text \<open>What an operation waits for that changes nothing but the channel.\<close>

definition await_channel ::
    "('s channel \<Rightarrow> (error_code \<times> 's channel) option) \<Rightarrow> 'op \<times> 's channel \<Rightarrow> (error_code \<times> 'op \<times> 's channel) option" where
  "await_channel f = (\<lambda>(op, ch). map_option (\<lambda>(code, ch1). (code, op, ch1)) (f ch))"

definition async_read_shared :: "'s stream_ops \<Rightarrow> 's channel \<Rightarrow> (error_code \<times> 's channel) option" where
  "async_read_shared S ch =
     map_option (\<lambda>(buf, code, ch1). (code, ch1\<lparr>ch_shared_buff := buf\<rparr>)) (async_read S ch)"

definition async_write_shared :: "'s stream_ops \<Rightarrow> 's channel \<Rightarrow> (error_code \<times> 's channel) option" where
  "async_write_shared S ch = async_write S (ch_shared_buff ch) ch"

lemma await_channel_pair [simp]:
  "await_channel f (op, ch) = map_option (\<lambda>(code, ch1). (code, op, ch1)) (f ch)"
  by (simp add: await_channel_def)

lemma async_read_shared_cases:
  assumes "byte_stream S inp out" and "channel_wf ch"
  obtains code ch1 where "read_shared S ch = Some (code, ch1)" "async_read_shared S ch = Some (normal_code code, ch1)"
    "channel_wf ch1" "\<not> failed code \<longrightarrow> length (inp (ch_stream ch1)) < length (inp (ch_stream ch))"
proof (rule async_read_cases [OF assms])
  fix buf code ch1
  assume "channel_read S ch = Some (buf, code, ch1)" "async_read S ch = Some (buf, normal_code code, ch1)" "channel_wf ch1"
    "\<not> failed code \<Longrightarrow> length (inp (ch_stream ch1)) < length (inp (ch_stream ch))"
  then show thesis
    by (intro that [of code "ch1\<lparr>ch_shared_buff := buf\<rparr>"]) (simp_all add: read_shared_def async_read_shared_def)
qed

lemma async_write_shared_cases:
  assumes "byte_stream S inp out" and "channel_wf ch"
  obtains code ch1 where "write_shared S ch = Some (code, ch1)" "async_write_shared S ch = Some (normal_code code, ch1)"
    "channel_wf ch1" "length (inp (ch_stream ch1)) \<le> length (inp (ch_stream ch))"
  unfolding write_shared_def async_write_shared_def by (rule async_write_cases [OF assms])

section \<open>Handshake\<close>

datatype handshake_point =
  Handshake_entry | Greeting_read | Ssl_request_written | Ssl_handshake_done | Response_written
  | Auth_message_read | Auth_data_written

record handshake_op =
  ho_point :: handshake_point
  ho_processor :: handshake_processor
  ho_auth_state :: auth_result
  ho_output_info :: "error_info option"

type_synonym 's handshake_action =
  "(handshake_op \<times> 's channel, error_code, error_code) co_action \<times> handshake_op \<times> 's channel"

definition handshake_complete :: "error_code \<Rightarrow> error_info \<Rightarrow> handshake_op \<Rightarrow> 's channel \<Rightarrow> 's handshake_action" where
  "handshake_complete code info op ch =
     (Co_complete code, op\<lparr>ho_output_info := conditional_assign (ho_output_info op) info\<rparr>,
      set_current_capabilities (hp_negotiated_caps (ho_processor op)) ch)"

text \<open>The parts of the body between two points: the response, and the head of the authentication loop.\<close>

definition handshake_send_response :: "'s stream_ops \<Rightarrow> handshake_op \<Rightarrow> 's channel \<Rightarrow> 's handshake_action option" where
  "handshake_send_response S op ch =
     map_option (\<lambda>buffer.
         (Co_await (await_channel (async_write_shared S)), op\<lparr>ho_point := Response_written\<rparr>, ch\<lparr>ch_shared_buff := buffer\<rparr>))
       (compose_handshake_response (ch_shared_buff ch) (ho_processor op))"

definition handshake_auth_head :: "'s stream_ops \<Rightarrow> handshake_op \<Rightarrow> 's channel \<Rightarrow> 's handshake_action" where
  "handshake_auth_head S op ch =
     (if ho_auth_state op \<noteq> Auth_complete
      then (Co_await (await_channel (async_read_shared S)), op\<lparr>ho_point := Auth_message_read\<rparr>, ch)
      else handshake_complete no_error empty_info op ch)"

fun handshake_resume ::
    "'s stream_ops \<Rightarrow> crypto_lib \<Rightarrow> (handshake_op \<times> 's channel, error_code, error_code) co_resume" where
  "handshake_resume S H err (op, ch) =
     (if failed err then Some (Co_complete err, op, ch)
      else case ho_point op of
        Handshake_entry \<Rightarrow> Some (Co_await (await_channel (async_read_shared S)), op\<lparr>ho_point := Greeting_read\<rparr>, ch)
      | Greeting_read \<Rightarrow>
          (case process_handshake H (ch_shared_buff ch) empty_info (ho_processor op) of
             (err1, info, p) \<Rightarrow>
               let op1 = op\<lparr>ho_processor := p\<rparr>
               in if failed err1 then Some (handshake_complete err1 info op1 ch)
                  else if use_ssl p
                  then map_option (\<lambda>buffer.
                      (Co_await (await_channel (async_write_shared S)), op1\<lparr>ho_point := Ssl_request_written\<rparr>,
                       ch\<lparr>ch_shared_buff := buffer\<rparr>))
                    (compose_ssl_request (ch_shared_buff ch) p)
                  else handshake_send_response S op1 ch)
      | Ssl_request_written \<Rightarrow>
          Some (Co_await (await_channel (\<lambda>ch. Some (async_ssl_handshake S ch))), op\<lparr>ho_point := Ssl_handshake_done\<rparr>, ch)
      | Ssl_handshake_done \<Rightarrow> handshake_send_response S op ch
      | Response_written \<Rightarrow> Some (handshake_auth_head S op ch)
      | Auth_message_read \<Rightarrow>
          map_option (\<lambda>(err1, buffer, result, info, p).
              let op1 = op\<lparr>ho_processor := p, ho_auth_state := result\<rparr>;
                  ch1 = ch\<lparr>ch_shared_buff := buffer\<rparr>
              in if failed err1 then handshake_complete err1 info op1 ch1
                 else if result = Auth_send_more_data
                 then (Co_await (await_channel (async_write_shared S)), op1\<lparr>ho_point := Auth_data_written\<rparr>, ch1)
                 else handshake_auth_head S op1 ch1)
            (process_handshake_server_response H (ch_shared_buff ch) (ho_auth_state op) empty_info (ho_processor op))
      | Auth_data_written \<Rightarrow> Some (handshake_auth_head S op ch))"

definition async_handshake ::
    "'s stream_ops \<Rightarrow> crypto_lib \<Rightarrow> connection_params \<Rightarrow> error_info option \<Rightarrow> 's channel \<Rightarrow>
     (error_code \<times> error_info option \<times> 's channel) option" where
  "async_handshake S H params info ch =
     map_option (\<lambda>(err, op, ch1). (err, ho_output_info op, ch1))
       (run_co (handshake_resume S H) no_error
          (\<lparr>ho_point = Handshake_entry, ho_processor = make_processor params, ho_auth_state = Auth_invalid,
            ho_output_info = info\<rparr>, ch))"

text \<open>
  What the two handshakes have in common: the code and the channel, except that the asynchronous one
  stores the capabilities even when the handshake failed.
\<close>

definition handshake_view :: "error_code \<Rightarrow> 's channel \<Rightarrow> error_code \<times> 's channel" where
  "handshake_view code ch = (normal_code code, if failed code then ch\<lparr>ch_current_caps := caps_of 0\<rparr> else ch)"

lemma handshake_view_caps [simp]:
  "failed code \<Longrightarrow> handshake_view code (set_current_capabilities c ch) = handshake_view code ch"
  by (simp add: handshake_view_def set_current_capabilities_def)

lemma handshake_view_normal [simp]: "handshake_view (normal_code code) ch = handshake_view code ch"
  by (simp add: handshake_view_def)

lemma server_response_info:
  "map_option (\<lambda>(err, buffer, result, info, p). (err, buffer, result, p)) (process_handshake_server_response H b r info p) =
   map_option (\<lambda>(err, buffer, result, info, p). (err, buffer, result, p)) (process_handshake_server_response H b r info' p)"
  by (simp add: process_handshake_server_response_def process_error_packet_def process_auth_switch_def
      process_auth_more_data_def send_auth_data_def Let_def option.map_comp comp_def
      split: sum.split prod.split option.split)

lemma server_response_cases:
  obtains (none) "process_handshake_server_response H b r info p = None"
      "process_handshake_server_response H b r empty_info p = None"
  | (some) err buffer result info1 info2 p1
    where "process_handshake_server_response H b r info p = Some (err, buffer, result, info1, p1)"
      "process_handshake_server_response H b r empty_info p = Some (err, buffer, result, info2, p1)"
  using server_response_info [of H b r info p empty_info]
  by (cases "process_handshake_server_response H b r info p"; cases "process_handshake_server_response H b r empty_info p")
    (auto split: prod.splits)

text \<open>The synchronous authentication loop once it has read a message, and what callers see of its result.\<close>

definition auth_from_message ::
    "'s stream_ops \<Rightarrow> crypto_lib \<Rightarrow> auth_result \<Rightarrow> handshake_processor \<Rightarrow> error_info \<Rightarrow> 's channel \<Rightarrow>
     (error_code \<times> error_info \<times> handshake_processor \<times> 's channel) option" where
  "auth_from_message S H outcome p info ch =
     Option.bind (process_handshake_server_response H (ch_shared_buff ch) outcome info p)
       (\<lambda>(err, buffer, outcome1, info1, p1).
          if failed err then Some (err, info1, p1, ch\<lparr>ch_shared_buff := buffer\<rparr>)
          else if outcome1 = Auth_send_more_data then
            Option.bind (write_shared S (ch\<lparr>ch_shared_buff := buffer\<rparr>)) (\<lambda>(code, ch1).
              if failed code then Some (code, info1, p1, ch1) else auth_loop S H outcome1 p1 info1 ch1)
          else auth_loop S H outcome1 p1 info1 (ch\<lparr>ch_shared_buff := buffer\<rparr>))"

definition auth_loop_result :: "(error_code \<times> error_info \<times> handshake_processor \<times> 's channel) option \<Rightarrow> (error_code \<times> 's channel) option" where
  "auth_loop_result = map_option (\<lambda>(code, info, p, ch).
     handshake_view code (if failed code then ch else set_current_capabilities (hp_negotiated_caps p) ch))"

definition handshake_result :: "(error_code \<times> 'x \<times> 's channel) option \<Rightarrow> (error_code \<times> 's channel) option" where
  "handshake_result = map_option (\<lambda>(err, _, ch). handshake_view err ch)"

lemma handshake_result_simps [simp]:
  "handshake_result None = None"
  "handshake_result (Some (err, x, ch)) = Some (handshake_view err ch)"
  "auth_loop_result None = None"
  "auth_loop_result (Some (err, info, p, ch)) =
     Some (handshake_view err (if failed err then ch else set_current_capabilities (hp_negotiated_caps p) ch))"
  by (simp_all add: handshake_result_def auth_loop_result_def)

lemma auth_loop_step:
  "auth_loop S H outcome p info ch =
     (if outcome = Auth_complete then Some (no_error, info, p, ch)
      else Option.bind (read_shared S ch) (\<lambda>(code, ch1).
        if failed code then Some (code, info, p, ch1) else auth_from_message S H outcome p info ch1))"
  unfolding auth_from_message_def by (rule auth_loop.simps)

lemma handshake_auth_message_run:
  assumes "byte_stream S inp out" and "channel_wf ch" and "ho_processor op = p" and "ho_auth_state op = outcome"
    and "ho_point op = Auth_message_read"
    and again: "\<And>op' info' ch'. channel_wf ch' \<Longrightarrow> length (inp (ch_stream ch')) \<le> length (inp (ch_stream ch)) \<Longrightarrow>
      handshake_result (co_continue (handshake_resume S H) (handshake_auth_head S op' ch')) =
      auth_loop_result (auth_loop S H (ho_auth_state op') (ho_processor op') info' ch')"
  shows "handshake_result (run_co (handshake_resume S H) no_error (op, ch)) =
    auth_loop_result (auth_from_message S H outcome p info ch)"
proof (rule server_response_cases [of H "ch_shared_buff ch" outcome info p])
  assume "process_handshake_server_response H (ch_shared_buff ch) outcome info p = None"
    "process_handshake_server_response H (ch_shared_buff ch) outcome empty_info p = None"
  then show ?thesis using assms(3-5) by (simp add: auth_from_message_def run_co_step)
next
  fix err buffer result info1 info2 p1
  assume sr: "process_handshake_server_response H (ch_shared_buff ch) outcome info p = Some (err, buffer, result, info1, p1)"
    "process_handshake_server_response H (ch_shared_buff ch) outcome empty_info p = Some (err, buffer, result, info2, p1)"
  let ?ch = "ch\<lparr>ch_shared_buff := buffer\<rparr>" and ?op = "op\<lparr>ho_processor := p1, ho_auth_state := result\<rparr>"
  have wf: "channel_wf ?ch" using assms(2) by simp
  consider (fail) "failed err" | (more) "\<not> failed err" "result = Auth_send_more_data"
    | (next_message) "\<not> failed err" "result \<noteq> Auth_send_more_data" by blast
  then show ?thesis
  proof cases
    case fail
    then show ?thesis
      using assms(3-5) sr by (simp add: auth_from_message_def run_co_step handshake_complete_def Let_def)
  next
    case next_message
    then show ?thesis
      using assms(3-5) sr again [OF wf, of ?op info1] by (simp add: auth_from_message_def run_co_step Let_def)
  next
    case more
    obtain code ch1 where w: "write_shared S ?ch = Some (code, ch1)" "async_write_shared S ?ch = Some (normal_code code, ch1)"
        "channel_wf ch1" "length (inp (ch_stream ch1)) \<le> length (inp (ch_stream ?ch))"
      by (rule async_write_shared_cases [OF assms(1) wf])
    let ?op1 = "?op\<lparr>ho_point := Auth_data_written\<rparr>"
    have "run_co (handshake_resume S H) no_error (op, ch) = run_co (handshake_resume S H) (normal_code code) (?op1, ch1)"
      using assms(3-5) sr(2) more w(2) by (subst run_co_step) (simp add: Let_def)
    also have "\<dots> = (if failed code then Some (code, ?op1, ch1)
        else co_continue (handshake_resume S H) (handshake_auth_head S ?op1 ch1))"
      by (simp add: run_co_step)
    finally show ?thesis
      using sr(1) more w(1,4) again [OF w(3), of ?op1 info1] by (simp add: auth_from_message_def)
  qed
qed

lemma handshake_auth_run:
  assumes "byte_stream S inp out" and "channel_wf ch"
  shows "handshake_result (co_continue (handshake_resume S H) (handshake_auth_head S op ch)) =
    auth_loop_result (auth_loop S H (ho_auth_state op) (ho_processor op) info ch)"
  using assms(2)
proof (induction "length (inp (ch_stream ch))" arbitrary: op info ch rule: less_induct)
  case less
  show ?case
  proof (cases "ho_auth_state op = Auth_complete")
    case True
    then show ?thesis
      by (simp add: auth_loop.simps [of S H Auth_complete] handshake_auth_head_def handshake_complete_def)
  next
    case False
    obtain code ch1 where r: "read_shared S ch = Some (code, ch1)" "async_read_shared S ch = Some (normal_code code, ch1)"
        "channel_wf ch1" "\<not> failed code \<longrightarrow> length (inp (ch_stream ch1)) < length (inp (ch_stream ch))"
      by (rule async_read_shared_cases [OF assms(1) less.prems])
    let ?op = "op\<lparr>ho_point := Auth_message_read\<rparr>"
    have await: "co_continue (handshake_resume S H) (handshake_auth_head S op ch) =
        run_co (handshake_resume S H) (normal_code code) (?op, ch1)"
      using False by (simp add: handshake_auth_head_def r)
    show ?thesis
    proof (cases "failed code")
      case True
      then show ?thesis unfolding await using False by (simp add: auth_loop_step r run_co_step)
    next
      case ok: False
      have "handshake_result (run_co (handshake_resume S H) no_error (?op, ch1)) =
          auth_loop_result (auth_from_message S H (ho_auth_state op) (ho_processor op) info ch1)"
        using r(4) ok by (intro handshake_auth_message_run [OF assms(1) r(3)] less.hyps) simp_all
      then show ?thesis unfolding await using False ok by (simp add: auth_loop_step r)
    qed
  qed
qed

text \<open>The synchronous handshake once the greeting is processed.\<close>

definition handshake_from_ssl ::
    "'s stream_ops \<Rightarrow> crypto_lib \<Rightarrow> handshake_processor \<Rightarrow> error_info \<Rightarrow> 's channel \<Rightarrow> (error_code \<times> error_info \<times> 's channel) option" where
  "handshake_from_ssl S H p info ch =
     Option.bind (setup_ssl S p ch) (\<lambda>(code, ch1).
       if failed code then Some (code, info, ch1) else handshake_tail S H p info ch1)"

lemma handshake_response_run:
  assumes "byte_stream S inp out" and "channel_wf ch" and "ho_processor op = p" and "ho_auth_state op = Auth_invalid"
  shows "handshake_result (Option.bind (handshake_send_response S op ch) (co_continue (handshake_resume S H))) =
    handshake_result (handshake_tail S H p info ch)"
proof (cases "compose_handshake_response (ch_shared_buff ch) p")
  case None
  then show ?thesis
    using assms by (simp add: handshake_send_response_def send_handshake_response_def handshake_tail_def)
next
  case (Some buffer)
  let ?ch = "ch\<lparr>ch_shared_buff := buffer\<rparr>" and ?op = "op\<lparr>ho_point := Response_written\<rparr>"
  have "channel_wf ?ch" using assms(2) by simp
  then obtain code ch1 where w: "write_shared S ?ch = Some (code, ch1)"
      "async_write_shared S ?ch = Some (normal_code code, ch1)" "channel_wf ch1"
    using async_write_shared_cases [OF assms(1)] by metis
  note auth = handshake_auth_run [OF assms(1) w(3), of H ?op info]
  show ?thesis
  proof (cases "failed code")
    case True
    then show ?thesis
      using assms(3) Some w
      by (simp add: handshake_send_response_def send_handshake_response_def handshake_tail_def run_co_step)
  next
    case False
    then have run: "run_co (handshake_resume S H) (normal_code code) (?op, ch1) =
        co_continue (handshake_resume S H) (handshake_auth_head S ?op ch1)"
      by (simp add: run_co_step)
    show ?thesis
      using assms(3,4) Some w auth run False
      by (cases "auth_loop S H Auth_invalid p info ch1")
        (auto simp: handshake_send_response_def send_handshake_response_def handshake_tail_def handshake_result_def)
  qed
qed

text \<open>With TLS: the request, the handshake of TLS, and the response.\<close>

lemma handshake_ssl_run:
  assumes "byte_stream S inp out" and "channel_wf ch" and "use_ssl p" and "ho_processor op = p"
    and "ho_auth_state op = Auth_invalid"
  shows "handshake_result (Option.bind (map_option (\<lambda>buffer.
        (Co_await (await_channel (async_write_shared S)), op\<lparr>ho_point := Ssl_request_written\<rparr>, ch\<lparr>ch_shared_buff := buffer\<rparr>))
      (compose_ssl_request (ch_shared_buff ch) p)) (co_continue (handshake_resume S H))) =
    handshake_result (handshake_from_ssl S H p info ch)"
proof (cases "compose_ssl_request (ch_shared_buff ch) p")
  case None
  then show ?thesis using assms(3) by (simp add: handshake_from_ssl_def setup_ssl_def)
next
  case (Some buffer)
  let ?ch = "ch\<lparr>ch_shared_buff := buffer\<rparr>" and ?op = "op\<lparr>ho_point := Ssl_request_written\<rparr>"
    and ?op1 = "op\<lparr>ho_point := Ssl_handshake_done\<rparr>"
  have "channel_wf ?ch" using assms(2) by simp
  then obtain code ch1 where w: "write_shared S ?ch = Some (code, ch1)"
      "async_write_shared S ?ch = Some (normal_code code, ch1)" "channel_wf ch1"
    using async_write_shared_cases [OF assms(1)] by metis
  obtain code1 ch2 where ssl: "channel_ssl_handshake S ch1 = (code1, ch2)" by fastforce
  have wf: "channel_wf ch2" using w(3) ssl by (auto simp: channel_ssl_handshake_def channel_wf_def split: prod.splits)
  have sync: "setup_ssl S p ch = Some (if failed code then (code, ch1) else (code1, ch2))"
    using assms(3) Some w(1) ssl by (simp add: setup_ssl_def)
  have run: "run_co (handshake_resume S H) (normal_code code) (?op, ch1) =
      (if failed code then Some (code, ?op, ch1) else run_co (handshake_resume S H) code1 (?op1, ch2))"
    using ssl by (simp add: run_co_step [of _ "normal_code code"] async_ssl_handshake_eq)
  show ?thesis
  proof (cases "failed code \<or> failed code1")
    case True
    then show ?thesis
      using Some w(2) run by (auto simp: handshake_from_ssl_def sync run_co_step)
  next
    case False
    then have "run_co (handshake_resume S H) code1 (?op1, ch2) =
        Option.bind (handshake_send_response S ?op1 ch2) (co_continue (handshake_resume S H))"
      by (simp add: run_co_step)
    then show ?thesis
      using Some w(2) run False handshake_response_run [OF assms(1) wf, of ?op1 p H info] assms(4,5)
      by (simp add: handshake_from_ssl_def sync)
  qed
qed

lemma async_handshake_result:
  assumes "byte_stream S inp out" and "channel_wf ch"
  shows "handshake_result (async_handshake S H params oi ch) = handshake_result (handshake S H params empty_info ch)"
proof -
  define op where "op = \<lparr>ho_point = Handshake_entry, ho_processor = make_processor params, ho_auth_state = Auth_invalid,
    ho_output_info = oi\<rparr>"
  obtain code ch1 where r: "read_shared S ch = Some (code, ch1)" "async_read_shared S ch = Some (normal_code code, ch1)"
      "channel_wf ch1"
    by (rule async_read_shared_cases [OF assms])
  obtain err info p where ph: "process_handshake H (ch_shared_buff ch1) empty_info (make_processor params) = (err, info, p)"
    by (metis prod_cases3)
  let ?op1 = "op\<lparr>ho_point := Greeting_read\<rparr>" and ?op2 = "op\<lparr>ho_processor := p, ho_point := Greeting_read\<rparr>"
  have op1: "ho_processor ?op1 = make_processor params" "ho_point ?op1 = Greeting_read" by (simp_all add: op_def)
  have start: "run_co (handshake_resume S H) no_error (op, ch) = run_co (handshake_resume S H) (normal_code code) (?op1, ch1)"
    by (subst run_co_step) (simp add: op_def r)
  have async: "handshake_result (async_handshake S H params oi ch) =
      handshake_result (run_co (handshake_resume S H) (normal_code code) (?op1, ch1))"
    unfolding start [symmetric]
    by (simp add: async_handshake_def op_def handshake_result_def option.map_comp comp_def case_prod_unfold)
  have sync: "handshake S H params empty_info ch =
      Some (if failed code then (code, empty_info, ch1) else (err, info, ch1))" if "failed code \<or> failed err"
    using that by (auto simp: handshake_def r ph)
  show ?thesis
  proof (cases "failed code \<or> failed err")
    case True
    then show ?thesis
      unfolding async sync [OF True] by (auto simp: run_co_step ph op1 handshake_complete_def Let_def)
  next
    case False
    then have "handshake S H params empty_info ch = handshake_from_ssl S H p info ch1"
      unfolding handshake_from_ssl_def handshake_tail_def by (simp add: handshake_def r ph)
    then show ?thesis
      unfolding async
      using False handshake_ssl_run [OF assms(1) r(3), of p ?op2 H info]
        handshake_response_run [OF assms(1) r(3), of ?op2 p H info]
      by (cases "use_ssl p") (simp_all add: run_co_step op1 ph Let_def handshake_from_ssl_def setup_ssl_def op_def)
  qed
qed

lemma async_handshake_eq:
  assumes "byte_stream S inp out" and "channel_wf ch"
  shows "map_option (\<lambda>(err, info, ch1). handshake_view err ch1) (async_handshake S H params oi ch) =
    map_option (\<lambda>(err, info, ch1). handshake_view err ch1) (handshake S H params empty_info ch)"
  using async_handshake_result [OF assms] by (simp add: handshake_result_def)

section \<open>Quitting and closing\<close>

definition async_quit_connection :: "'s stream_ops \<Rightarrow> 's channel \<Rightarrow> (error_code \<times> 's channel) option" where
  "async_quit_connection S ch = Option.bind (compose_quit ch) (async_write_shared S)"

definition async_close_statement :: "'s stream_ops \<Rightarrow> u32 \<Rightarrow> 's channel \<Rightarrow> (error_code \<times> 's channel) option" where
  "async_close_statement S statement_id ch =
     Option.bind (compose_command serialize_com_stmt_close get_size_com_stmt_close statement_id ch) (async_write_shared S)"

datatype close_point = Close_entry | Close_posted | Close_quit_done

fun close_resume :: "'s stream_ops \<Rightarrow> (close_point \<times> 's channel, error_code, error_code) co_resume" where
  "close_resume S err (point, ch) =
     (case point of
        Close_entry \<Rightarrow>
          if \<not> so_is_open S (ch_stream ch) then Some (Co_await (await_post no_error), Close_posted, ch)
          else Some (Co_await (await_channel (async_quit_connection S)), Close_quit_done, ch)
      | Close_posted \<Rightarrow> Some (Co_complete no_error, point, ch)
      | Close_quit_done \<Rightarrow>
          (case channel_close S ch of (close_err, ch1) \<Rightarrow>
             Some (Co_complete (if failed err then err else close_err), point, ch1)))"

definition async_close_connection :: "'s stream_ops \<Rightarrow> 's channel \<Rightarrow> (error_code \<times> 's channel) option" where
  "async_close_connection S ch =
     map_option (\<lambda>(err, point, ch1). (err, ch1)) (run_co (close_resume S) no_error (Close_entry, ch))"

lemma compose_command_wf: "channel_wf ch \<Longrightarrow> compose_command ser sz c ch = Some ch1 \<Longrightarrow> channel_wf ch1"
  by (auto simp: compose_command_def)

lemma async_write_shared_eq:
  "byte_stream S inp out \<Longrightarrow> channel_wf ch \<Longrightarrow> async_write_shared S ch = normal_write (write_shared S ch)"
  by (simp add: async_write_shared_def write_shared_def async_write_eq)

lemma async_command_eq:
  assumes "byte_stream S inp out" and "channel_wf ch"
  shows "Option.bind (compose_command ser sz c ch) (async_write_shared S) =
    normal_write (Option.bind (compose_command ser sz c ch) (write_shared S))"
proof (cases "compose_command ser sz c ch")
  case (Some ch1)
  then show ?thesis
    using async_write_shared_eq [OF assms(1) compose_command_wf [OF assms(2) Some]] by simp
qed (simp add: normal_write_def)

lemma async_quit_connection_eq:
  assumes "byte_stream S inp out" and "channel_wf ch"
  shows "async_quit_connection S ch = normal_write (quit_connection S ch)"
  unfolding async_quit_connection_def quit_connection_def compose_quit_def by (rule async_command_eq [OF assms])

lemma async_close_statement_eq:
  assumes "byte_stream S inp out" and "channel_wf ch"
  shows "async_close_statement S n ch = normal_write (close_statement S n ch)"
  unfolding async_close_statement_def close_statement_def send_command_def by (rule async_command_eq [OF assms])

lemma async_close_connection_eq:
  assumes "byte_stream S inp out" and "channel_wf ch"
  shows "async_close_connection S ch = close_connection S no_error ch"
proof (cases "so_is_open S (ch_stream ch)")
  case False
  then show ?thesis
    by (simp add: async_close_connection_def close_connection_def run_co_step await_post_def)
next
  case True
  note eq = async_quit_connection_eq [OF assms]
  show ?thesis
  proof (cases "quit_connection S ch")
    case None
    then show ?thesis
      using True eq by (simp add: async_close_connection_def close_connection_def run_co_step normal_write_def)
  next
    case (Some r)
    obtain code ch1 where "r = (code, ch1)" by (cases r)
    then show ?thesis
      using True eq Some
      by (cases "failed code")
        (auto simp: async_close_connection_def close_connection_def run_co_step normal_write_def split: prod.split)
  qed
qed

section \<open>Connecting\<close>

datatype connect_point = Connect_entry | Connected | Connect_handshake_done

record connect_op =
  cn_point :: connect_point
  cn_params :: connection_params
  cn_output_info :: "error_info option"

definition await_connect ::
    "('e, 's) socket_connect \<Rightarrow> 'e \<Rightarrow> connect_op \<times> 's channel \<Rightarrow> (error_code \<times> connect_op \<times> 's channel) option" where
  "await_connect C endpoint = (\<lambda>(op, ch).
     case C endpoint (ch_stream ch) of (code, s) \<Rightarrow> Some (code, op, ch\<lparr>ch_stream := s\<rparr>))"

definition await_handshake ::
    "'s stream_ops \<Rightarrow> crypto_lib \<Rightarrow> connect_op \<times> 's channel \<Rightarrow> (error_code \<times> connect_op \<times> 's channel) option" where
  "await_handshake S H = (\<lambda>(op, ch).
     map_option (\<lambda>(code, info, ch1). (code, op\<lparr>cn_output_info := info\<rparr>, ch1))
       (async_handshake S H (cn_params op) (cn_output_info op) ch))"

fun connect_resume ::
    "('e, 's) socket_connect \<Rightarrow> 's stream_ops \<Rightarrow> crypto_lib \<Rightarrow> 'e \<Rightarrow> (connect_op \<times> 's channel, error_code, error_code) co_resume" where
  "connect_resume C S H endpoint code (op, ch) =
     (case cn_point op of
        Connect_entry \<Rightarrow> Some (Co_await (await_connect C endpoint), op\<lparr>cn_point := Connected\<rparr>, ch)
      | Connected \<Rightarrow>
          if failed code
          then Some (Co_complete code,
            op\<lparr>cn_output_info := map_option (set_message (ascii ''Physical connect failed'')) (cn_output_info op)\<rparr>,
            snd (channel_close S ch))
          else Some (Co_await (await_handshake S H), op\<lparr>cn_point := Connect_handshake_done\<rparr>, ch)
      | Connect_handshake_done \<Rightarrow>
          Some (Co_complete code, op, if failed code then snd (channel_close S ch) else ch))"

definition async_connect ::
    "('e, 's) socket_connect \<Rightarrow> 's stream_ops \<Rightarrow> crypto_lib \<Rightarrow> 'e \<Rightarrow> connection_params \<Rightarrow> error_info option \<Rightarrow> 's channel \<Rightarrow>
     (error_code \<times> error_info option \<times> 's channel) option" where
  "async_connect C S H endpoint params info ch =
     map_option (\<lambda>(err, op, ch1). (err, cn_output_info op, ch1))
       (run_co (connect_resume C S H endpoint) no_error
          (\<lparr>cn_point = Connect_entry, cn_params = params, cn_output_info = info\<rparr>, ch))"

lemma channel_close_caps:
  "snd (channel_close S (ch\<lparr>ch_current_caps := c\<rparr>)) = (snd (channel_close S ch))\<lparr>ch_current_caps := c\<rparr>"
  by (simp add: channel_close_def split: prod.split)

lemma handshake_view_close:
  assumes "failed err" and "handshake_view err ch = handshake_view err' ch'"
  shows "handshake_view err (snd (channel_close S ch)) = handshake_view err' (snd (channel_close S ch'))"
proof -
  have "failed err'" using assms by (metis handshake_view_def normal_code_simps(3) prod.inject)
  then have "ch\<lparr>ch_current_caps := caps_of 0\<rparr> = ch'\<lparr>ch_current_caps := caps_of 0\<rparr>" "err = err'"
    using assms by (simp_all add: handshake_view_def)
  then show ?thesis using assms(1) by (simp add: handshake_view_def flip: channel_close_caps)
qed

lemma async_connect_eq:
  assumes "byte_stream S inp out" and "channel_wf ch"
  shows "map_option (\<lambda>(err, info, ch1). handshake_view err ch1) (async_connect C S H endpoint params oi ch) =
    map_option (\<lambda>(err, info, ch1). handshake_view err ch1) (connect C S H endpoint params empty_info ch)"
proof -
  obtain code s where c: "C endpoint (ch_stream ch) = (code, s)" by fastforce
  let ?ch = "ch\<lparr>ch_stream := s\<rparr>"
  show ?thesis
  proof (cases "failed code")
    case True
    then show ?thesis by (simp add: async_connect_def connect_def run_co_step await_connect_def c)
  next
    case False
    have "channel_wf ?ch" using assms(2) by (simp add: channel_wf_def)
    note eq = async_handshake_eq [OF assms(1) this, of H params oi]
    show ?thesis
    proof (cases "handshake S H params empty_info ?ch")
      case None
      then show ?thesis
        using False eq by (simp add: async_connect_def connect_def run_co_step await_connect_def await_handshake_def c)
    next
      case (Some r)
      obtain err info ch1 where r: "r = (err, info, ch1)" by (metis prod_cases3)
      then obtain err' info' ch1' where a: "async_handshake S H params oi ?ch = Some (err', info', ch1')"
          and v: "handshake_view err' ch1' = handshake_view err ch1"
        using eq Some by auto
      have f: "failed err' = failed err" using v by (metis handshake_view_def normal_code_simps(3) prod.inject)
      then show ?thesis
        using False Some r a v handshake_view_close [of err' ch1' err ch1 S]
        by (simp add: async_connect_def connect_def run_co_step await_connect_def await_handshake_def c)
    qed
  qed
qed

section \<open>The asynchronous interface\<close>

definition connection_async_handshake ::
    "'s stream_ops \<Rightarrow> crypto_lib \<Rightarrow> connection_params \<Rightarrow> error_info option \<Rightarrow> 's channel \<Rightarrow>
     (error_code \<times> error_info option \<times> 's channel) option" where
  "connection_async_handshake S H params info ch = async_handshake S H params (conditional_clear info) ch"

definition connection_async_query ::
    "'s stream_ops \<Rightarrow> nat \<Rightarrow> lexical_lib \<Rightarrow> date_lib \<Rightarrow> bytes \<Rightarrow> error_info option \<Rightarrow> 's channel \<Rightarrow>
     (error_code \<times> error_info option \<times> resultset \<times> 's channel) option" where
  "connection_async_query S M L D query info ch = async_execute_query S M L D query (conditional_clear info) ch"

definition connection_async_quit ::
    "'s stream_ops \<Rightarrow> error_info option \<Rightarrow> 's channel \<Rightarrow> (error_code \<times> error_info option \<times> 's channel) option" where
  "connection_async_quit S info ch =
     map_option (\<lambda>(err, ch1). (err, conditional_clear info, ch1)) (async_quit_connection S ch)"

definition socket_connection_async_connect ::
    "('e, 's) socket_connect \<Rightarrow> 's stream_ops \<Rightarrow> crypto_lib \<Rightarrow> 'e \<Rightarrow> connection_params \<Rightarrow> error_info option \<Rightarrow> 's channel \<Rightarrow>
     (error_code \<times> error_info option \<times> 's channel) option" where
  "socket_connection_async_connect C S H endpoint params info ch =
     async_connect C S H endpoint params (conditional_clear info) ch"

definition socket_connection_async_close ::
    "'s stream_ops \<Rightarrow> error_info option \<Rightarrow> 's channel \<Rightarrow> (error_code \<times> error_info option \<times> 's channel) option" where
  "socket_connection_async_close S info ch =
     map_option (\<lambda>(err, ch1). (err, conditional_clear info, ch1)) (async_close_connection S ch)"

text \<open>
  Executing a statement checks the parameters at once; its handler is posted when they are wrong.
\<close>

definition ps_async_execute ::
    "'s stream_ops \<Rightarrow> nat \<Rightarrow> date_lib \<Rightarrow> prepared_statement \<Rightarrow> mysql_value list \<Rightarrow> error_info option \<Rightarrow> 's channel \<Rightarrow>
     (error_code \<times> error_info option \<times> resultset \<times> 's channel) option" where
  "ps_async_execute S max_size D ps params info ch =
     Option.bind (check_num_params ps params no_error empty_info) (\<lambda>(err, nonnull_info).
       if failed err then Some (err, conditional_assign (conditional_clear info) nonnull_info, default_resultset, ch)
       else Option.bind (ps_id ps) (\<lambda>n.
         async_execute_statement S max_size D n params (conditional_clear info) ch))"

definition ps_async_close ::
    "'s stream_ops \<Rightarrow> prepared_statement \<Rightarrow> error_info option \<Rightarrow> 's channel \<Rightarrow>
     (error_code \<times> error_info option \<times> 's channel) option" where
  "ps_async_close S ps info ch =
     Option.bind (ps_id ps) (\<lambda>n.
       map_option (\<lambda>(err, ch1). (err, conditional_clear info, ch1)) (async_close_statement S n ch))"

lemma async_view_assign [simp]: "async_view p None = None"
  by (simp add: async_view_def)

lemma connection_async_query_view:
  assumes "byte_stream S inp out" and "channel_wf ch"
  shows "connection_async_query S M L D query info ch =
    async_view (conditional_clear info) (connection_query S M L D query no_error empty_info ch)"
  using async_execute_generic_eq [OF assms, of "conditional_clear info"]
  by (simp add: connection_async_query_def async_execute_query_def connection_query_def execute_query_def
      clear_errors_def conditional_clear_assign)

lemma ps_async_execute_view:
  assumes "byte_stream S inp out" and "channel_wf ch"
  shows "ps_async_execute S M D ps params info ch =
    async_view (conditional_clear info) (ps_execute S M D ps params no_error empty_info ch)"
proof -
  note eq = async_execute_generic_eq [OF assms, of "conditional_clear info"]
  show ?thesis
    using eq by (cases "ps_num_params ps")
      (auto simp: ps_async_execute_def ps_execute_def check_num_params_def clear_errors_def async_execute_statement_def
        execute_statement_def conditional_clear_assign async_view_def ps_id_def)
qed

section \<open>Properties\<close>

text \<open>
  An asynchronous query completes with what the synchronous one returns: the same error, the
  same resultset, the same state of the connection; the error information of a failure is delivered
  when the caller asked for it, and cleared otherwise.
\<close>
theorem async_query_same:
  assumes "byte_stream S inp out" and "channel_wf ch"
  shows "connection_async_query S M L D query info ch =
    async_view (conditional_clear info) (connection_query S M L D query no_error empty_info ch)"
  by (rule connection_async_query_view [OF assms])

lemma async_query_same_witness:
  "connection_async_query scripted_stream 1000 sample_lexical gregorian [0x53] None (sample_peer []) =
   async_view None (connection_query scripted_stream 1000 sample_lexical gregorian [0x53] no_error empty_info (sample_peer []))"
  using async_query_same [OF scripted_byte_stream sample_peer_wf, of 1000 sample_lexical gregorian "[0x53]" None "[]"]
  by (simp add: conditional_clear_def)

text \<open>
  C19: connecting asynchronously completes with the same error as connecting synchronously, and leaves
  the same connection, closed or not, save for the capabilities after a failure.
\<close>
theorem async_connect_same:
  assumes "byte_stream S inp out" and "channel_wf ch"
  shows "map_option (\<lambda>(err, info, ch1). handshake_view err ch1) (socket_connection_async_connect C S H endpoint params oi ch) =
    map_option (\<lambda>(err, info, ch1). handshake_view err ch1) (socket_connection_connect C S H endpoint params ec info ch)"
  using async_connect_eq [OF assms]
  by (simp add: socket_connection_async_connect_def socket_connection_connect_def clear_errors_def
      error_info_clear_def empty_info_def)

lemma async_connect_same_witness:
  "map_option (\<lambda>(err, info, ch1). handshake_view err ch1)
     (socket_connection_async_connect (\<lambda>_ s. (eof_error, s)) scripted_stream sample_crypto () (sample_params Ssl_enable) None (sample_peer [])) =
   map_option (\<lambda>(err, info, ch1). handshake_view err ch1)
     (socket_connection_connect (\<lambda>_ s. (eof_error, s)) scripted_stream sample_crypto () (sample_params Ssl_enable) no_error empty_info (sample_peer []))"
  by (rule async_connect_same [where C = "\<lambda>_ s. (eof_error, s)", OF scripted_byte_stream sample_peer_wf])

end
