(* ===== verification/Async_Prepare.thy ===== *)
theory Async_Prepare
  imports Async_Connection
begin

text \<open>
  The asynchronous preparation of a statement (\<open>prepare_statement_op\<close> of \<open>impl/prepare_statement.hpp\<close>).
  The code writes \<open>this->complete(self, ...)\<close> where the other operations write \<open>self.complete(...)\<close>; it
  is read as the latter.
\<close>

section \<open>The operation\<close>

datatype prepare_point = Prepare_entry | Prepare_written | Prepare_response_read | Prepare_metadata_read

record prepare_op =
  po_point :: prepare_point
  po_response :: com_stmt_prepare_ok_packet
  po_remaining_meta :: nat
  po_output_info :: "error_info option"

type_synonym 's prepare_action =
  "(prepare_op \<times> 's channel, error_code, error_code \<times> prepared_statement) co_action \<times> prepare_op \<times> 's channel"

text \<open>The head of the loop over the metadata packets, which are read and ignored.\<close>

definition prepare_metadata_head :: "'s stream_ops \<Rightarrow> error_code \<Rightarrow> prepare_op \<Rightarrow> 's channel \<Rightarrow> 's prepare_action" where
  "prepare_metadata_head S err op ch =
     (if po_remaining_meta op > 0
      then (Co_await (await_channel (async_read_shared S)), op\<lparr>po_point := Prepare_metadata_read\<rparr>, ch)
      else (Co_complete (err, statement_of (po_response op)), op, ch))"

fun prepare_resume ::
    "'s stream_ops \<Rightarrow> (prepare_op \<times> 's channel, error_code, error_code \<times> prepared_statement) co_resume" where
  "prepare_resume S err (op, ch) =
     (if failed err then Some (Co_complete (err, default_statement), op, ch)
      else case po_point op of
        Prepare_entry \<Rightarrow> Some (Co_await (await_channel (async_write_shared S)), op\<lparr>po_point := Prepare_written\<rparr>, ch)
      | Prepare_written \<Rightarrow> Some (Co_await (await_channel (async_read_shared S)), op\<lparr>po_point := Prepare_response_read\<rparr>, ch)
      | Prepare_response_read \<Rightarrow>
          (case prepare_response ch empty_info (po_response op) of
             (err1, info, response) \<Rightarrow>
               let op1 = op\<lparr>po_response := response\<rparr>
               in if failed err1
                  then Some (Co_complete (err1, default_statement),
                    op1\<lparr>po_output_info := conditional_assign (po_output_info op) info\<rparr>, ch)
                  else Some (prepare_metadata_head S err1 (op1\<lparr>po_remaining_meta := num_metadata_packets response\<rparr>) ch))
      | Prepare_metadata_read \<Rightarrow>
          Some (prepare_metadata_head S err (op\<lparr>po_remaining_meta := po_remaining_meta op - 1\<rparr>) ch))"

text \<open>The request is composed by the constructor of the operation.\<close>

definition make_prepare_op :: "error_info option \<Rightarrow> prepare_op" where
  "make_prepare_op info =
     \<lparr>po_point = Prepare_entry, po_response = default_prepare_ok, po_remaining_meta = 0, po_output_info = info\<rparr>"

definition async_prepare_statement ::
    "'s stream_ops \<Rightarrow> bytes \<Rightarrow> error_info option \<Rightarrow> 's channel \<Rightarrow>
     (error_code \<times> error_info option \<times> prepared_statement \<times> 's channel) option" where
  "async_prepare_statement S statement info ch =
     Option.bind (prepare_request statement ch) (\<lambda>ch0.
       map_option (\<lambda>((err, ps), op, ch1). (err, po_output_info op, ps, ch1))
         (run_co (prepare_resume S) no_error (make_prepare_op info, ch0)))"

definition connection_async_prepare_statement ::
    "'s stream_ops \<Rightarrow> bytes \<Rightarrow> error_info option \<Rightarrow> 's channel \<Rightarrow>
     (error_code \<times> error_info option \<times> prepared_statement \<times> 's channel) option" where
  "connection_async_prepare_statement S statement info ch =
     async_prepare_statement S statement (conditional_clear info) ch"

section \<open>The same as the synchronous operation\<close>

text \<open>
  An error packet with code 0 ends a preparation without failure; the operation then completes with
  that code, which no caller can tell from success by testing it.
\<close>

definition normal_result :: "(error_code \<times> 'r) option \<Rightarrow> (error_code \<times> 'r) option" where
  "normal_result = map_option (\<lambda>(err, r). (normal_code err, r))"

definition prepare_result ::
    "((error_code \<times> prepared_statement) \<times> prepare_op \<times> 's channel) option \<Rightarrow>
     (error_code \<times> error_info option \<times> prepared_statement \<times> 's channel) option" where
  "prepare_result = map_option (\<lambda>((err, ps), op, ch). (normal_code err, po_output_info op, ps, ch))"

lemma prepare_result_simps [simp]:
  "prepare_result None = None"
  "prepare_result (Some ((err, ps), op, ch)) = Some (normal_code err, po_output_info op, ps, ch)"
  by (simp_all add: prepare_result_def)

lemma prepare_metadata_run:
  assumes "byte_stream S inp out" and "channel_wf ch" and "po_remaining_meta op = n" and "po_response op = response"
    and "po_output_info op = info" and "\<not> failed err" and "\<not> failed err'"
  shows "prepare_result (co_continue (prepare_resume S) (prepare_metadata_head S err' op ch)) =
    map_option (\<lambda>(code, ch1). (normal_code code, info,
        if failed code then default_statement else statement_of response, ch1)) (skip_packets S n err ch)"
  using assms(2-)
proof (induction n arbitrary: op ch err err')
  case 0
  then show ?case by (simp add: prepare_metadata_head_def)
next
  case (Suc n)
  obtain code ch1 where r: "read_shared S ch = Some (code, ch1)" "async_read_shared S ch = Some (normal_code code, ch1)"
      "channel_wf ch1"
    by (rule async_read_shared_cases [OF assms(1) Suc.prems(1)])
  let ?op1 = "op\<lparr>po_point := Prepare_metadata_read\<rparr>"
  have await: "co_continue (prepare_resume S) (prepare_metadata_head S err' op ch) =
      run_co (prepare_resume S) (normal_code code) (?op1, ch1)"
    using Suc.prems(2) by (simp add: prepare_metadata_head_def r)
  show ?case
  proof (cases "failed code")
    case True
    then show ?thesis using Suc.prems(4) by (simp add: await run_co_step r)
  next
    case False
    then have "run_co (prepare_resume S) (normal_code code) (?op1, ch1) =
        co_continue (prepare_resume S) (prepare_metadata_head S no_error (?op1\<lparr>po_remaining_meta := n\<rparr>) ch1)"
      using Suc.prems(2) by (simp add: run_co_step)
    then show ?thesis
      using Suc.IH [OF r(3), of "?op1\<lparr>po_remaining_meta := n\<rparr>" code no_error] Suc.prems(2-4) False by (simp add: await r)
  qed
qed

lemma prepare_response_info:
  assumes "prepare_response ch info r = (err, info1, r1)" and "\<not> failed err" and "num_metadata_packets r = 0"
  shows "info1 = info \<or> num_metadata_packets r1 = 0"
  using assms by (auto simp: prepare_response_def split: if_splits sum.splits prod.splits)

lemma async_prepare_statement_eq:
  assumes "byte_stream S inp out" and "channel_wf ch" and "cleared_info info"
  shows "normal_result (async_prepare_statement S statement info ch) =
    async_view info (prepare_statement S statement default_statement empty_info ch)"
proof (cases "prepare_request statement ch")
  case None
  then show ?thesis by (simp add: async_prepare_statement_def prepare_statement_def async_view_def normal_result_def)
next
  case (Some ch0)
  have wf0: "channel_wf ch0" using compose_command_wf [OF assms(2)] Some by (simp add: prepare_request_def)
  obtain code ch1 where w: "write_shared S ch0 = Some (code, ch1)" "async_write_shared S ch0 = Some (normal_code code, ch1)"
      "channel_wf ch1"
    by (rule async_write_shared_cases [OF assms(1) wf0])
  obtain code2 ch2 where r: "read_shared S ch1 = Some (code2, ch2)" "async_read_shared S ch1 = Some (normal_code code2, ch2)"
      "channel_wf ch2"
    by (rule async_read_shared_cases [OF assms(1) w(3)])
  obtain err info1 response where pr: "prepare_response ch2 empty_info default_prepare_ok = (err, info1, response)"
    by (metis prod_cases3)
  have async: "normal_result (async_prepare_statement S statement info ch) =
      prepare_result (run_co (prepare_resume S) no_error (make_prepare_op info, ch0))"
    by (simp add: async_prepare_statement_def Some normal_result_def prepare_result_def option.map_comp comp_def
        case_prod_unfold)
  note clear = cleared_infoD [OF assms(3)]
  note defs = prepare_statement_def async_view_def Some w r pr run_co_step make_prepare_op_def Let_def
  show ?thesis
  proof (cases "failed code \<or> failed code2 \<or> failed err")
    case True
    then show ?thesis unfolding async by (auto simp: defs clear)
  next
    case False
    let ?n = "num_metadata_packets response"
    let ?op = "\<lparr>po_point = Prepare_response_read, po_response = response, po_remaining_meta = ?n, po_output_info = info\<rparr>"
    have "run_co (prepare_resume S) no_error (make_prepare_op info, ch0) =
        co_continue (prepare_resume S) (prepare_metadata_head S err ?op ch2)"
      using False by (simp add: defs)
    then have run: "normal_result (async_prepare_statement S statement info ch) =
        map_option (\<lambda>(code, ch1). (normal_code code, info,
          if failed code then default_statement else statement_of response, ch1)) (skip_packets S ?n err ch2)"
      unfolding async using prepare_metadata_run [OF assms(1) r(3), of ?op ?n response info err err] False by simp
    have "info1 = empty_info \<or> ?n = 0"
      using prepare_response_info [OF pr] False by (simp add: num_metadata_packets_def default_prepare_ok_def)
    then show ?thesis
      unfolding run using False clear
      by (cases "skip_packets S ?n err ch2") (auto simp: prepare_statement_def async_view_def Some w r pr)
  qed
qed

lemma connection_async_prepare_view:
  assumes "byte_stream S inp out" and "channel_wf ch"
  shows "normal_result (connection_async_prepare_statement S statement info ch) =
    async_view (conditional_clear info) (connection_prepare_statement S statement no_error empty_info ch)"
  using async_prepare_statement_eq [OF assms, of "conditional_clear info"]
  by (simp add: connection_async_prepare_statement_def connection_prepare_statement_def clear_errors_def
      conditional_clear_assign)

section \<open>Properties\<close>

text \<open>
  Preparing a statement asynchronously gives the handle that preparing it synchronously gives, or
  the same error, and leaves the connection in the same state; the error information of a failure is
  delivered when the caller asked for it.
\<close>
theorem async_prepare_same:
  assumes "byte_stream S inp out" and "channel_wf ch"
  shows "normal_result (connection_async_prepare_statement S statement info ch) =
    async_view (conditional_clear info) (connection_prepare_statement S statement no_error empty_info ch)"
  by (rule connection_async_prepare_view [OF assms])

lemma async_prepare_same_witness:
  "normal_result (connection_async_prepare_statement scripted_stream [0x53] None (sample_peer [])) =
   async_view None (connection_prepare_statement scripted_stream [0x53] no_error empty_info (sample_peer []))"
  using async_prepare_same [OF scripted_byte_stream sample_peer_wf, of "[0x53]" None "[]"]
  by (simp add: conditional_clear_def)

end
