(* ===== verification/Sessions.thy ===== *)
theory Sessions
  imports Async_Prepare
begin

text \<open>
  Sequences of operations on one connection, as a transition relation: every operation of the API,
  synchronous or asynchronous, with any arguments and whatever its outcome, is a step from one state of the channel to the next.
  The invariant says that TLS, once active, stays active, and that nothing is written outside it
  from then on.
\<close>

section \<open>Steps\<close>

text \<open>
  The resultsets fetched from are complete or reading rows of one of the two protocols, as those the
  operations return are. Connecting the socket writes nothing. A handshake that ends the program with a
  failed assertion is a step too, to the channel it leaves behind.
\<close>

definition fetchable :: "resultset \<Rightarrow> bool" where
  "fetchable rs \<longleftrightarrow>
     rs_complete rs \<or> (\<exists>L D. rs_reading rs (text_row_fn L D)) \<or> (\<exists>D. rs_reading rs (binary_row_fn D))"

inductive api_step :: "'s stream_ops \<Rightarrow> ('s \<Rightarrow> (bool \<times> bytes) list) \<Rightarrow> 's channel \<Rightarrow> 's channel \<Rightarrow> bool"
  for S :: "'s stream_ops" and out :: "'s \<Rightarrow> (bool \<times> bytes) list" where
  Step_handshake:
    "connection_handshake S H params code info ch = Some (err, info', ch') \<Longrightarrow> api_step S out ch ch'"
| Step_handshake_aborts:
    "handshake_aborts S H params empty_info ch chx \<Longrightarrow> api_step S out ch chx"
| Step_query:
    "connection_query S M L D query code info ch = Some (err, info', rs, ch') \<Longrightarrow> api_step S out ch ch'"
| Step_prepare:
    "connection_prepare_statement S statement code info ch = Some (err, info', ps, ch') \<Longrightarrow> api_step S out ch ch'"
| Step_execute:
    "ps_execute S M D ps params code info ch = Some (err, info', rs, ch') \<Longrightarrow> api_step S out ch ch'"
| Step_close_statement:
    "ps_close S ps code info ch = Some (err, info', ch') \<Longrightarrow> api_step S out ch ch'"
| Step_fetch_one:
    "fetchable rs \<Longrightarrow> fetch_one S rs ch = Some (row, err, info', rs', ch') \<Longrightarrow> api_step S out ch ch'"
| Step_fetch_many:
    "fetchable rs \<Longrightarrow> fetch_many S count rs ch = Some (rows, err, info', rs', ch') \<Longrightarrow> api_step S out ch ch'"
| Step_quit:
    "connection_quit S code info ch = Some (err, info', ch') \<Longrightarrow> api_step S out ch ch'"
| Step_connect:
    "(\<And>s. out (snd (C () s)) = out s) \<Longrightarrow>
     socket_connection_connect C S H () params code info ch = Some (err, info', ch') \<Longrightarrow> api_step S out ch ch'"
| Step_connect_aborts:
    "(\<And>s. out (snd ((C :: (unit, 's) socket_connect) () s)) = out s) \<Longrightarrow>
     handshake_aborts S H params empty_info (ch\<lparr>ch_stream := snd (C () (ch_stream ch))\<rparr>) chx \<Longrightarrow> api_step S out ch chx"
| Step_close:
    "socket_connection_close S code info ch = Some (err, info', ch') \<Longrightarrow> api_step S out ch ch'"
| Step_async_handshake:
    "connection_async_handshake S H params p ch = Some (err, p', ch') \<Longrightarrow> api_step S out ch ch'"
| Step_async_query:
    "connection_async_query S M L D query p ch = Some (err, p', rs, ch') \<Longrightarrow> api_step S out ch ch'"
| Step_async_prepare:
    "connection_async_prepare_statement S statement p ch = Some (err, p', ps, ch') \<Longrightarrow> api_step S out ch ch'"
| Step_async_execute:
    "ps_async_execute S M D ps params p ch = Some (err, p', rs, ch') \<Longrightarrow> api_step S out ch ch'"
| Step_async_close_statement:
    "ps_async_close S ps p ch = Some (err, p', ch') \<Longrightarrow> api_step S out ch ch'"
| Step_async_fetch_one:
    "fetchable rs \<Longrightarrow> async_fetch_one S p rs ch = Some (row, err, p', rs', ch') \<Longrightarrow> api_step S out ch ch'"
| Step_async_fetch_many:
    "fetchable rs \<Longrightarrow> async_fetch_many S count p rs ch = Some (rows, err, p', rs', ch') \<Longrightarrow> api_step S out ch ch'"
| Step_async_quit:
    "connection_async_quit S p ch = Some (err, p', ch') \<Longrightarrow> api_step S out ch ch'"
| Step_async_connect:
    "(\<And>s. out (snd (C () s)) = out s) \<Longrightarrow>
     socket_connection_async_connect C S H () params p ch = Some (err, p', ch') \<Longrightarrow> api_step S out ch ch'"
| Step_async_close:
    "socket_connection_async_close S p ch = Some (err, p', ch') \<Longrightarrow> api_step S out ch ch'"

text \<open>The states of a connection: a new one, and what any sequence of operations makes of it.\<close>

inductive reachable :: "'s stream_ops \<Rightarrow> ('s \<Rightarrow> (bool \<times> bytes) list) \<Rightarrow> 's \<Rightarrow> 's channel \<Rightarrow> bool"
  for S :: "'s stream_ops" and out :: "'s \<Rightarrow> (bool \<times> bytes) list" and s :: 's where
  Reach_new: "reachable S out s (make_channel s)"
| Reach_step: "reachable S out s ch \<Longrightarrow> api_step S out ch ch' \<Longrightarrow> reachable S out s ch'"

section \<open>The invariant\<close>

definition tls_monotone :: "(bool \<times> bytes) list \<Rightarrow> bool" where
  "tls_monotone ws \<longleftrightarrow> (\<exists>xs ys. ws = map (Pair False) xs @ map (Pair True) ys)"

definition session_inv :: "('s \<Rightarrow> (bool \<times> bytes) list) \<Rightarrow> 's channel \<Rightarrow> bool" where
  "session_inv out ch \<longleftrightarrow>
     channel_wf ch \<and> tls_monotone (out (ch_stream ch)) \<and>
     (\<forall>m. (True, m) \<in> set (out (ch_stream ch)) \<longrightarrow> ch_ssl ch)"

text \<open>What every operation does to the channel: it appends writes, those outside TLS before the others.\<close>

definition extends :: "('s \<Rightarrow> (bool \<times> bytes) list) \<Rightarrow> 's channel \<Rightarrow> 's channel \<Rightarrow> bool" where
  "extends out ch ch' \<longleftrightarrow>
     channel_wf ch' \<and> (\<exists>ps qs. out (ch_stream ch') = out (ch_stream ch) @ map (Pair (ch_ssl ch)) ps @ map (Pair True) qs \<and>
       (ch_ssl ch \<or> qs \<noteq> [] \<longrightarrow> ch_ssl ch'))"

lemma extends_inv:
  assumes "session_inv out ch" and "extends out ch ch'"
  shows "session_inv out ch'"
proof -
  obtain ps qs where ext: "channel_wf ch'" "ch_ssl ch \<or> qs \<noteq> [] \<longrightarrow> ch_ssl ch'"
      "out (ch_stream ch') = out (ch_stream ch) @ map (Pair (ch_ssl ch)) ps @ map (Pair True) qs"
    using assms(2) by (auto simp: extends_def)
  obtain xs ys where xs: "out (ch_stream ch) = map (Pair False) xs @ map (Pair True) ys"
    using assms(1) by (auto simp: session_inv_def tls_monotone_def)
  have ys: "ys = [] \<or> ch_ssl ch"
    using assms(1) xs by (cases ys) (auto simp: session_inv_def)
  define us where "us = (if ch_ssl ch then xs else xs @ ps)"
  define vs where "vs = (if ch_ssl ch then ys @ ps @ qs else qs)"
  have ch': "out (ch_stream ch') = map (Pair False) us @ map (Pair True) vs"
    using ext(3) xs ys by (cases "ch_ssl ch") (simp_all add: us_def vs_def)
  have "vs = [] \<or> ch_ssl ch'" using ext(2) by (auto simp: vs_def)
  then have "\<forall>m. (True, m) \<in> set (map (Pair False) us @ map (Pair True) vs) \<longrightarrow> ch_ssl ch'" by auto
  then show ?thesis using ext(1) unfolding session_inv_def tls_monotone_def ch' by blast
qed

lemma progress_extends:
  assumes "progress inp out ch ch'"
  shows "extends out ch ch'"
proof -
  obtain ws where "out (ch_stream ch') = out (ch_stream ch) @ map (Pair (ch_ssl ch)) ws" "channel_wf ch'" "ch_ssl ch' = ch_ssl ch"
    using assms by (auto simp: progress_def)
  then show ?thesis unfolding extends_def by (intro conjI exI [of _ ws] exI [of _ "[]"]) simp_all
qed

lemma handshake_outcome_extends: "handshake_outcome inp out params ch ch' \<Longrightarrow> extends out ch ch'"
  by (auto simp: handshake_outcome_def extends_def)

lemma extends_refl: "channel_wf ch \<Longrightarrow> extends out ch ch"
  by (auto simp: extends_def intro: exI [of _ "[]"])

lemma extends_close:
  assumes "byte_stream S inp out" and "extends out ch ch'"
  shows "extends out ch (snd (channel_close S ch'))"
  using assms(2) by (simp add: extends_def channel_close_frame [OF assms(1)])

section \<open>Every operation keeps it\<close>

lemma execute_generic_extends:
  assumes "byte_stream S inp out" and "channel_wf ch"
    and "serialize_message ser sz request (ch_current_caps ch) [] = Some m"
    and "execute_generic S M d ser sz request output info ch = Some (err, info', rs, ch')"
  shows "extends out ch ch'"
  using execute_generic_total [OF assms(1-3), of M d "output" info] assms(4)
  by (auto simp: execute_outcome_def intro: progress_extends)

lemma execute_statement_extends:
  assumes "byte_stream S inp out" and "channel_wf ch"
    and "execute_statement S M D n params output info ch = Some (err, info', rs, ch')"
  shows "extends out ch ch'"
proof -
  let ?x = "make_stmt_execute_packet n params"
  have g: "execute_generic S M (binary_row_fn D) (serialize_com_stmt_execute D) get_size_com_stmt_execute ?x output info ch
      = Some (err, info', rs, ch')"
    using assms(3) by (simp add: execute_statement_def split: if_splits)
  then have "params_asserted D ?x"
    by (auto simp: execute_generic_def execute_request_def com_stmt_execute.serialize_message_guarded bind_eq_Some_conv
        split: if_splits)
  then show ?thesis
    using execute_generic_extends [OF assms(1,2) _ g] com_stmt_execute.serialize_message_guarded by metis
qed

lemma compose_command_progress:
  assumes "channel_wf ch" and "compose_command ser sz command ch = Some ch0"
  shows "progress inp out ch ch0"
proof -
  have "progress inp out ch ch" by (rule progress_refl [OF assms(1)])
  then show ?thesis using assms(2) by (auto simp: compose_command_def)
qed

lemma send_command_progress:
  assumes "byte_stream S inp out" and "channel_wf ch" and "send_command S ser sz command ch = Some (code, ch')"
  shows "progress inp out ch ch'"
proof -
  obtain ch0 where c: "compose_command ser sz command ch = Some ch0" "write_shared S ch0 = Some (code, ch')"
    using assms(3) by (auto simp: send_command_def bind_eq_Some_conv)
  have "progress inp out ch ch0" by (rule compose_command_progress [OF assms(2) c(1)])
  moreover have "channel_wf ch0" using calculation by (simp add: progress_def)
  ultimately show ?thesis using write_shared_progress [OF assms(1), of ch0] c(2) progress_trans by force
qed

lemma skip_packets_progress:
  assumes "byte_stream S inp out" and "channel_wf ch" and "skip_packets S n err ch = Some (code, ch')"
  shows "progress inp out ch ch'"
  using assms(2,3)
proof (induction n arbitrary: err ch)
  case 0
  then show ?case by (simp add: progress_refl)
next
  case (Suc n)
  obtain code1 ch1 where r: "read_shared S ch = Some (code1, ch1)" "progress inp out ch ch1"
    using read_shared_progress [OF assms(1) Suc.prems(1)] by blast
  then have "channel_wf ch1" by (simp add: progress_def)
  then show ?case
    using Suc.IH [of ch1 code1] Suc.prems(2) r progress_trans [OF r(2)] by (auto split: if_splits)
qed

lemma prepare_statement_progress:
  assumes "byte_stream S inp out" and "channel_wf ch"
    and "prepare_statement S statement output info ch = Some (err, info', ps, ch')"
  shows "progress inp out ch ch'"
proof -
  obtain ch0 where ch0: "prepare_request statement ch = Some ch0"
    using assms(3) by (auto simp: prepare_statement_def bind_eq_Some_conv)
  have p0: "progress inp out ch ch0"
    by (rule compose_command_progress [OF assms(2) ch0 [unfolded prepare_request_def]])
  then have "channel_wf ch0" by (simp add: progress_def)
  then obtain code ch1 where w: "write_shared S ch0 = Some (code, ch1)" "progress inp out ch0 ch1"
    using write_shared_progress [OF assms(1)] by blast
  then have "channel_wf ch1" by (simp add: progress_def)
  then obtain code2 ch2 where r: "read_shared S ch1 = Some (code2, ch2)" "progress inp out ch1 ch2"
    using read_shared_progress [OF assms(1)] by blast
  have p1: "progress inp out ch ch1" by (rule progress_trans [OF p0 w(2)])
  have p2: "progress inp out ch ch2" by (rule progress_trans [OF p1 r(2)])
  have "channel_wf ch2" using r(2) by (simp add: progress_def)
  then have "progress inp out ch ch3" if "skip_packets S n e ch2 = Some (c, ch3)" for n e c ch3
    using skip_packets_progress [OF assms(1) _ that] progress_trans [OF p2] by blast
  then show ?thesis
    using assms(3) p1 p2 by (auto simp: prepare_statement_def ch0 w(1) r(1) split: if_splits prod.splits)
qed

lemma fetch_many_extends:
  assumes "byte_stream S inp out" and "channel_wf ch" and "fetchable rs"
    and "fetch_many S count rs ch = Some (rows, err, info', rs', ch')"
  shows "extends out ch ch'"
proof (cases "rs_complete rs")
  case True
  then show ?thesis using assms(2,4) by (auto simp: fetch_many_def intro: extends_refl split: if_splits)
next
  case False
  then have "(\<exists>L D. rs_reading rs (text_row_fn L D)) \<or> (\<exists>D. rs_reading rs (binary_row_fn D))"
    using assms(3) by (simp add: fetchable_def)
  then obtain good where "fetch_outcome inp out good count rs ch (fetch_many S count rs ch)"
    using text_rows.fetch_many_total [OF assms(1,2)] binary_rows.fetch_many_total [OF assms(1,2)] by blast
  then show ?thesis using assms(4) by (auto simp: fetch_outcome_def intro: progress_extends)
qed

lemma fetch_one_extends:
  assumes "byte_stream S inp out" and "channel_wf ch" and "fetchable rs"
    and "fetch_one S rs ch = Some (row, err, info', rs', ch')"
  shows "extends out ch ch'"
proof -
  obtain d where "rs_complete rs \<or> rs_reading rs d" using assms(3) by (auto simp: fetchable_def)
  then have view: "fetch_one_view (fetch_one S rs ch) = fetch_many_view (fetch_many S 1 rs ch)" by (rule fetch_one_many)
  obtain rows rs'' where "fetch_many S 1 rs ch = Some (rows, err, info', rs'', ch')"
  proof (cases "fetch_many S 1 rs ch")
    case None
    then show ?thesis using view assms(4) by (simp add: fetch_one_view_def fetch_many_view_def)
  next
    case (Some r)
    then show ?thesis
      using that view assms(4) by (cases r) (auto simp: fetch_one_view_def fetch_many_view_def)
  qed
  then show ?thesis by (rule fetch_many_extends [OF assms(1-3)])
qed

lemma handshake_extends:
  assumes "byte_stream S inp out" and "channel_wf ch" and "handshake S H params info ch = Some (err, info', ch')"
  shows "extends out ch ch'"
  by (rule handshake_outcome_extends [OF handshake_returned [OF assms]])

lemma connect_extends:
  assumes "byte_stream S inp out" and "channel_wf ch" and "\<And>s. out (snd (C endpoint s)) = out s"
    and "connect C S H endpoint params info ch = Some (err, info', ch')"
  shows "extends out ch ch'"
proof -
  obtain code s where c: "C endpoint (ch_stream ch) = (code, s)" by fastforce
  let ?ch = "ch\<lparr>ch_stream := s\<rparr>"
  have out: "out s = out (ch_stream ch)" using assms(3) [of "ch_stream ch"] c by simp
  then have same: "extends out ?ch x = extends out ch x" for x by (simp add: extends_def)
  have wf: "channel_wf ?ch" using assms(2) by (simp add: channel_wf_def)
  show ?thesis
  proof (cases "failed code")
    case True
    then have "ch' = snd (channel_close S ?ch)" using assms(4) c by (simp add: connect_def Let_def)
    then show ?thesis using extends_close [OF assms(1) extends_refl [OF wf]] by (simp add: same)
  next
    case False
    then obtain err1 info1 ch1 where hs: "handshake S H params info ?ch = Some (err1, info1, ch1)"
        "ch' = (if failed err1 then snd (channel_close S ch1) else ch1)"
      using assms(4) c by (auto simp: connect_def Let_def)
    then show ?thesis
      using extends_close [OF assms(1)] handshake_extends [OF assms(1) wf hs(1)] by (simp add: same)
  qed
qed

lemma close_connection_extends:
  assumes "byte_stream S inp out" and "channel_wf ch" and "close_connection S code ch = Some (err, ch')"
  shows "extends out ch ch'"
proof -
  obtain code1 ch1 where q: "quit_connection S ch = Some (code1, ch1)" "progress inp out ch ch1"
    using quit_connection_any [OF assms(1,2)] by blast
  have "extends out ch (snd (channel_close S ch1))" by (rule extends_close [OF assms(1) progress_extends [OF q(2)]])
  then show ?thesis
    using assms(2,3) q(1) extends_refl by (auto simp: close_connection_def split: if_splits prod.splits)
qed

text \<open>The asynchronous operations do what the synchronous ones do.\<close>

lemma extends_caps [simp]: "extends out ch (ch'\<lparr>ch_current_caps := c\<rparr>) = extends out ch ch'"
  by (simp add: extends_def channel_wf_def)

lemma async_viewE:
  assumes "async_view p r = Some (err, p', x)"
  obtains err1 info1 where "r = Some (err1, info1, x)"
  using assms by (auto simp: async_view_def)

lemma handshake_view_extends:
  assumes "map_option (\<lambda>(err, info, ch1). handshake_view err ch1) r = map_option (\<lambda>(err, info, ch1). handshake_view err ch1) r'"
    and "r = Some (err, p, ch')" and "\<And>err1 info1 ch1. r' = Some (err1, info1, ch1) \<Longrightarrow> extends out ch ch1"
  shows "extends out ch ch'"
proof -
  obtain err1 info1 ch1 where r': "r' = Some (err1, info1, ch1)" "handshake_view err ch' = handshake_view err1 ch1"
    using assms(1,2) by (cases r') auto
  then have "ch'\<lparr>ch_current_caps := caps_of 0\<rparr> = ch1\<lparr>ch_current_caps := caps_of 0\<rparr>"
    by (auto simp: handshake_view_def split: if_splits)
  then show ?thesis using assms(3) [OF r'(1)] by (metis extends_caps)
qed

lemma normal_writeE:
  assumes "normal_write r = Some (err, ch')"
  obtains err1 where "r = Some (err1, ch')"
  using assms by (auto simp: normal_write_def)

lemma async_api_step_extends:
  assumes "byte_stream S inp out" and "channel_wf ch"
  shows
    "connection_async_handshake S H params p ch = Some (err, p', ch') \<Longrightarrow> extends out ch ch'"
    "connection_async_query S M L D query p ch = Some (err, p', rs, ch') \<Longrightarrow> extends out ch ch'"
    "connection_async_prepare_statement S statement p ch = Some (err, p', ps, ch') \<Longrightarrow> extends out ch ch'"
    "ps_async_execute S M D ps values p ch = Some (err, p', rs, ch') \<Longrightarrow> extends out ch ch'"
    "ps_async_close S ps p ch = Some (err, p', ch') \<Longrightarrow> extends out ch ch'"
    "connection_async_quit S p ch = Some (err, p', ch') \<Longrightarrow> extends out ch ch'"
    "(\<And>s. out (snd (C endpoint s)) = out s) \<Longrightarrow>
     socket_connection_async_connect C S H endpoint params p ch = Some (err, p', ch') \<Longrightarrow> extends out ch ch'"
    "socket_connection_async_close S p ch = Some (err, p', ch') \<Longrightarrow> extends out ch ch'"
proof -
  note generic = execute_generic_extends [OF assms]
  show "extends out ch ch'" if "connection_async_handshake S H params p ch = Some (err, p', ch')"
    using handshake_view_extends [OF async_handshake_eq [OF assms] that [unfolded connection_async_handshake_def]]
      handshake_extends [OF assms] by blast
  show "extends out ch ch'" if "connection_async_query S M L D query p ch = Some (err, p', rs, ch')"
    using that unfolding connection_async_query_view [OF assms]
    by (rule async_viewE) (auto simp: connection_query_def execute_query_def clear_errors_def
      intro: generic [OF serialize_com_query_message])
  show "extends out ch ch'" if "connection_async_prepare_statement S statement p ch = Some (err, p', ps, ch')"
  proof -
    have "async_view (conditional_clear p) (connection_prepare_statement S statement no_error empty_info ch) =
        Some (normal_code err, p', ps, ch')"
      using connection_async_prepare_view [OF assms, of statement p] that by (simp add: normal_result_def)
    then show ?thesis
      by (rule async_viewE) (use prepare_statement_progress [OF assms, THEN progress_extends] in
        \<open>simp add: connection_prepare_statement_def clear_errors_def\<close>)
  qed
  show "extends out ch ch'" if "ps_async_execute S M D ps values p ch = Some (err, p', rs, ch')"
    using that unfolding ps_async_execute_view [OF assms]
    by (rule async_viewE) (use execute_statement_extends [OF assms] extends_refl [OF assms(2)] in
      \<open>auto simp: ps_execute_def clear_errors_def bind_eq_Some_conv split: if_splits\<close>)
  show "extends out ch ch'" if "ps_async_close S ps p ch = Some (err, p', ch')"
    using that async_close_statement_eq [OF assms] send_command_progress [OF assms, THEN progress_extends]
    by (auto simp: ps_async_close_def bind_eq_Some_conv close_statement_def elim!: normal_writeE)
  show "extends out ch ch'" if "connection_async_quit S p ch = Some (err, p', ch')"
    using that async_quit_connection_eq [OF assms] quit_connection_any [OF assms] progress_extends
    by (auto simp: connection_async_quit_def elim!: normal_writeE)
  show "extends out ch ch'" if "\<And>s. out (snd (C endpoint s)) = out s"
    "socket_connection_async_connect C S H endpoint params p ch = Some (err, p', ch')"
    using handshake_view_extends [OF async_connect_eq [OF assms] that(2) [unfolded socket_connection_async_connect_def]]
      connect_extends [where C = C and endpoint = endpoint, OF assms that(1)] by blast
  show "extends out ch ch'" if "socket_connection_async_close S p ch = Some (err, p', ch')"
    using that async_close_connection_eq [OF assms] close_connection_extends [OF assms]
    by (auto simp: socket_connection_async_close_def)
qed

lemma api_step_extends:
  assumes "byte_stream S inp out" and "api_step S out ch ch'" and "channel_wf ch"
  shows "extends out ch ch'"
  using assms(2,3)
proof (cases rule: api_step.cases)
  case (Step_handshake H params code info err info')
  then show ?thesis
    using handshake_extends [OF assms(1,3)] by (simp add: connection_handshake_def clear_errors_def)
next
  case (Step_handshake_aborts H params)
  then show ?thesis using handshake_outcome_extends handshake_aborts_at(2) [OF assms(1,3)] by blast
next
  case (Step_query M L D query code info err info' rs)
  then show ?thesis
    using execute_generic_extends [OF assms(1,3) serialize_com_query_message]
    by (auto simp: connection_query_def execute_query_def clear_errors_def)
next
  case (Step_prepare statement code info err info' ps)
  then show ?thesis
    using prepare_statement_progress [OF assms(1,3), THEN progress_extends]
    by (simp add: connection_prepare_statement_def clear_errors_def)
next
  case (Step_execute M D ps params code info err info' rs)
  then show ?thesis
    using execute_statement_extends [OF assms(1,3)] extends_refl [OF assms(3)]
    by (auto simp: ps_execute_def clear_errors_def bind_eq_Some_conv split: if_splits)
next
  case (Step_close_statement ps code info err info')
  then show ?thesis
    using send_command_progress [OF assms(1,3), THEN progress_extends]
    by (auto simp: ps_close_def close_statement_def clear_errors_def bind_eq_Some_conv)
next
  case (Step_fetch_one rs row err info' rs')
  then show ?thesis using fetch_one_extends [OF assms(1,3)] by blast
next
  case (Step_fetch_many rs count rows err info' rs')
  then show ?thesis using fetch_many_extends [OF assms(1,3)] by blast
next
  case (Step_quit code info err info')
  then show ?thesis
    using quit_connection_any [OF assms(1,3)] progress_extends
    by (auto simp: connection_quit_def with_info_def clear_errors_def)
next
  case (Step_connect C H params code info err info')
  then show ?thesis
    using connect_extends [OF assms(1,3), of C "()"]
    by (simp add: socket_connection_connect_def clear_errors_def)
next
  case (Step_connect_aborts C H params)
  let ?ch = "ch\<lparr>ch_stream := snd (C () (ch_stream ch))\<rparr>"
  have "channel_wf ?ch" using assms(3) by (simp add: channel_wf_def)
  then have "extends out ?ch ch'"
    using handshake_outcome_extends handshake_aborts_at(2) [OF assms(1)] Step_connect_aborts(2) by blast
  then show ?thesis using Step_connect_aborts(1) by (simp add: extends_def)
next
  case (Step_close code info err info')
  then show ?thesis
    using close_connection_extends [OF assms(1,3)]
    by (auto simp: socket_connection_close_def with_info_def clear_errors_def)
next
  case (Step_async_fetch_one rs p row err p' rs')
  then show ?thesis using fetch_one_extends [OF assms(1,3)] by (auto simp: async_fetch_one_eq [OF assms(1,3)])
next
  case (Step_async_fetch_many rs count p rows err p' rs')
  then show ?thesis using fetch_many_extends [OF assms(1,3)] by (auto simp: async_fetch_many_eq [OF assms(1,3)])
next
  case (Step_async_connect C H params p err p')
  then show ?thesis by (intro async_api_step_extends(7) [OF assms(1,3)])
qed (rule async_api_step_extends [OF assms(1,3)], assumption)+

lemma reachable_inv:
  assumes "byte_stream S inp out" and "out s = []" and "reachable S out s ch"
  shows "session_inv out ch"
  using assms(3)
proof (induction rule: reachable.induct)
  case Reach_new
  then show ?case using assms(2) by (simp add: session_inv_def tls_monotone_def make_channel_def channel_wf_def)
next
  case (Reach_step ch ch')
  then have "channel_wf ch" by (simp add: session_inv_def)
  then show ?case using extends_inv Reach_step api_step_extends [OF assms(1)] by blast
qed

section \<open>Properties\<close>

text \<open>
  C2: whatever operations are run on a connection, with whatever arguments, against whatever the
  server sends, in every state they reach, be it by a failed assertion of the handshake, all the writes outside TLS come before those inside it,
  and once something was written inside TLS the channel stays in TLS.
\<close>
theorem tls_never_dropped:
  assumes "byte_stream S inp out" and "out s = []" and "reachable S out s ch"
  shows "session_inv out ch"
  by (rule reachable_inv [OF assms])

lemma tls_never_dropped_witness:
  "\<exists>ch1. reachable scripted_stream scr_out (ch_stream (sample_peer (frames 0 sample_greeting @ frames 3 [0]))) ch1 \<and>
    ch_ssl ch1 \<and> session_inv scr_out ch1"
proof -
  let ?p = "sample_params Ssl_require" and ?ch = "sample_peer (frames 0 sample_greeting @ frames 3 [0])"
  have tls: "tls_wanted ?p 0xffffffff" by (simp add: tls_wanted_def sample_params_def)
  have new: "?ch = make_channel (ch_stream ?ch)" "ch_sequence_number ?ch = 0"
    by (simp_all add: sample_peer_def make_channel_def)
  have inp: "scr_in (ch_stream ?ch) = frames 0 sample_greeting @ frames (if tls_wanted ?p 0xffffffff then 3 else 2) (0 # []) @ []"
    by (simp add: sample_peer_def make_channel_def tls)
  obtain ch1 where ch1: "handshake scripted_stream sample_crypto ?p empty_info ?ch = Some (no_error, empty_info, ch1)" "ch_ssl ch1"
  proof (rule sample_login [of Ssl_require], goal_cases)
    case (1 calc)
    then show ?case
      using handshake_ok [OF scripted_reliable sample_peer_wf new(2) sample_names(3,1) _ _ sample_server_capable 1(2)
          failed_no_error sample_greeting_def length_sample_greeting 1(4) inp, of empty_info] tls by auto
  qed
  then have "api_step scripted_stream scr_out ?ch ch1"
    by (intro Step_handshake [where code = no_error and info = empty_info]) (simp add: connection_handshake_def clear_errors_def)
  then have "reachable scripted_stream scr_out (ch_stream ?ch) ch1"
    using Reach_step [OF Reach_new] new(1) by metis
  moreover have "scr_out (ch_stream ?ch) = []" by (simp add: sample_peer_def make_channel_def)
  ultimately show ?thesis using ch1(2) tls_never_dropped [OF scripted_byte_stream] by blast
qed

end
