(* ===== verification/Commands.thy ===== *)
theory Commands
  imports Cursor Sessions
begin

text \<open>
  Programs: sequences of commands on one connection, each run with the blocking, the throwing or the
  asynchronous variant of its operations, and what the user learns from them. Against any server the
  variant makes no difference.
\<close>

section \<open>Commands and their outcomes\<close>

datatype command =
    Cmd_query bytes
  | Cmd_prepare bytes
  | Cmd_execute prepared_statement "mysql_value list"
  | Cmd_close prepared_statement

datatype outcome =
    Got_rows "field_metadata list" "mysql_value list list" ok_packet
  | Got_ok ok_packet
  | Got_error error_code bytes
  | Got_statement prepared_statement
  | Got_nothing

fun outcome_of :: "('r \<Rightarrow> outcome) \<Rightarrow> 'r result \<Rightarrow> outcome" where
  "outcome_of f (Inl (err, msg)) = Got_error err msg"
| "outcome_of f (Inr r) = f r"

section \<open>The operations in their three variants\<close>

fun run_query ::
    "'s stream_ops \<Rightarrow> nat \<Rightarrow> lexical_lib \<Rightarrow> date_lib \<Rightarrow> call_mode \<Rightarrow> bytes \<Rightarrow> 's channel \<Rightarrow> (resultset result \<times> 's channel) option" where
  "run_query S M L D Blocking query ch =
     map_option (\<lambda>(err, info, rs, ch1). (reported err info rs, ch1)) (connection_query S M L D query no_error empty_info ch)"
| "run_query S M L D Throwing query ch =
     map_option (\<lambda>(rs, ch1). (caught rs, ch1)) (connection_query_throwing S M L D query ch)"
| "run_query S M L D Asynchronous query ch =
     map_option (\<lambda>(err, info, rs, ch1). (delivered err info rs, ch1)) (connection_async_query S M L D query (Some empty_info) ch)"

fun run_prepare ::
    "'s stream_ops \<Rightarrow> call_mode \<Rightarrow> bytes \<Rightarrow> 's channel \<Rightarrow> (prepared_statement result \<times> 's channel) option" where
  "run_prepare S Blocking statement ch =
     map_option (\<lambda>(err, info, ps, ch1). (reported err info ps, ch1))
       (connection_prepare_statement S statement no_error empty_info ch)"
| "run_prepare S Throwing statement ch =
     map_option (\<lambda>(ps, ch1). (caught ps, ch1)) (connection_prepare_statement_throwing S statement ch)"
| "run_prepare S Asynchronous statement ch =
     map_option (\<lambda>(err, info, ps, ch1). (delivered err info ps, ch1))
       (connection_async_prepare_statement S statement (Some empty_info) ch)"

fun run_execute ::
    "'s stream_ops \<Rightarrow> nat \<Rightarrow> date_lib \<Rightarrow> call_mode \<Rightarrow> prepared_statement \<Rightarrow> mysql_value list \<Rightarrow> 's channel \<Rightarrow>
     (resultset result \<times> 's channel) option" where
  "run_execute S M D Blocking ps params ch =
     map_option (\<lambda>(err, info, rs, ch1). (reported err info rs, ch1)) (ps_execute S M D ps params no_error empty_info ch)"
| "run_execute S M D Throwing ps params ch =
     map_option (\<lambda>(rs, ch1). (caught rs, ch1)) (ps_execute_throwing S M D ps params ch)"
| "run_execute S M D Asynchronous ps params ch =
     map_option (\<lambda>(err, info, rs, ch1). (delivered err info rs, ch1)) (ps_async_execute S M D ps params (Some empty_info) ch)"

fun run_close :: "'s stream_ops \<Rightarrow> call_mode \<Rightarrow> prepared_statement \<Rightarrow> 's channel \<Rightarrow> (unit result \<times> 's channel) option" where
  "run_close S Blocking ps ch =
     map_option (\<lambda>(err, info, ch1). (reported err info (), ch1)) (ps_close S ps no_error empty_info ch)"
| "run_close S Throwing ps ch = map_option (\<lambda>(r, ch1). (caught r, ch1)) (ps_close_throwing S ps ch)"
| "run_close S Asynchronous ps ch =
     map_option (\<lambda>(err, info, ch1). (delivered err info (), ch1)) (ps_async_close S ps (Some empty_info) ch)"

section \<open>Programs\<close>

text \<open>A program that runs a query or a statement reads all rows of the resultset, if it has any.\<close>

definition after_execute ::
    "'s stream_ops \<Rightarrow> call_mode \<Rightarrow> resultset result \<times> 's channel \<Rightarrow> (outcome \<times> 's channel) option" where
  "after_execute S m = (\<lambda>(r, ch).
     case r of
       Inl (err, msg) \<Rightarrow> Some (Got_error err msg, ch)
     | Inr rs \<Rightarrow>
         (if rs_complete rs then Some (Got_ok (rs_ok_packet rs), ch)
          else map_option (\<lambda>(rows, rs1, ch1). (outcome_of (\<lambda>rows. Got_rows (rs_fields rs) rows (rs_ok_packet rs1)) rows, ch1))
                 (run_fetch_call S (Call_all m) rs ch)))"

fun run_command ::
    "'s stream_ops \<Rightarrow> nat \<Rightarrow> lexical_lib \<Rightarrow> date_lib \<Rightarrow> call_mode \<Rightarrow> command \<Rightarrow> 's channel \<Rightarrow> (outcome \<times> 's channel) option" where
  "run_command S M L D m (Cmd_query query) ch = Option.bind (run_query S M L D m query ch) (after_execute S m)"
| "run_command S M L D m (Cmd_prepare statement) ch =
     map_option (\<lambda>(r, ch1). (outcome_of Got_statement r, ch1)) (run_prepare S m statement ch)"
| "run_command S M L D m (Cmd_execute ps params) ch = Option.bind (run_execute S M D m ps params ch) (after_execute S m)"
| "run_command S M L D m (Cmd_close ps) ch =
     map_option (\<lambda>(r, ch1). (outcome_of (\<lambda>_. Got_nothing) r, ch1)) (run_close S m ps ch)"

fun run_commands ::
    "'s stream_ops \<Rightarrow> nat \<Rightarrow> lexical_lib \<Rightarrow> date_lib \<Rightarrow> (call_mode \<times> command) list \<Rightarrow> 's channel \<Rightarrow>
     (outcome list \<times> 's channel) option" where
  "run_commands S M L D [] ch = Some ([], ch)"
| "run_commands S M L D ((m, cmd) # cmds) ch =
     Option.bind (run_command S M L D m cmd ch) (\<lambda>(got, ch1).
       map_option (\<lambda>(gots, ch2). (got # gots, ch2)) (run_commands S M L D cmds ch1))"

section \<open>The variant makes no difference\<close>

lemma throwing_caught:
  "map_option (\<lambda>(r, ch). (caught r, ch)) (throwing x) = map_option (\<lambda>(err, info, r, ch). (reported err info r, ch)) x"
  by (simp add: throwing_def option.map_comp comp_def case_prod_unfold)

lemma async_view_delivered:
  "map_option (\<lambda>(err, info, r, ch). (delivered err info r, ch)) (async_view (Some i) x) =
   map_option (\<lambda>(err, info, r, ch). (reported err info r, ch)) x"
  by (cases x) (auto simp: async_view_def delivered_def reported_def conditional_assign_def)

lemma conditional_clear_Some [simp]: "conditional_clear (Some empty_info) = Some empty_info"
  by (simp add: conditional_clear_assign conditional_assign_def)

lemma clear_errors_empty [simp]: "clear_errors no_error empty_info = (no_error, empty_info)"
  by (simp add: clear_errors_def)

lemma run_query_blocking:
  assumes "byte_stream S inp out" and "channel_wf ch"
  shows "run_query S M L D m query ch = run_query S M L D Blocking query ch"
  by (cases m) (simp_all add: connection_query_throwing_def throwing_caught connection_query_def
      connection_async_query_view [OF assms] async_view_delivered)

lemma run_execute_blocking:
  assumes "byte_stream S inp out" and "channel_wf ch"
  shows "run_execute S M D m ps params ch = run_execute S M D Blocking ps params ch"
  by (cases m) (simp_all add: ps_execute_throwing_def throwing_caught ps_async_execute_view [OF assms] async_view_delivered)

lemma run_prepare_blocking:
  assumes "byte_stream S inp out" and "channel_wf ch"
  shows "run_prepare S m statement ch = run_prepare S Blocking statement ch"
proof (cases m)
  case Asynchronous
  let ?async = "connection_async_prepare_statement S statement (Some empty_info) ch"
  have "run_prepare S m statement ch =
      map_option (\<lambda>(err, info, ps, ch1). (delivered err info ps, ch1)) (normal_result ?async)"
    by (cases ?async) (auto simp: Asynchronous normal_result_def delivered_def reported_def)
  then show ?thesis by (simp add: connection_async_prepare_view [OF assms] async_view_delivered)
qed (simp_all add: connection_prepare_statement_throwing_def throwing_caught connection_prepare_statement_def)

lemma run_close_blocking:
  assumes "byte_stream S inp out" and "channel_wf ch"
  shows "run_close S m ps ch = run_close S Blocking ps ch"
proof (cases m)
  case Throwing
  then show ?thesis
    by (cases "ps_id ps")
      (simp_all only: run_close.simps ps_close_throwing_def ps_close_def throwing_caught,
       simp_all add: without_result_def with_info_def option.map_comp comp_def case_prod_unfold)
next
  case Asynchronous
  then show ?thesis
    by (cases "ps_id ps")
      (auto simp: ps_async_close_def ps_close_def async_close_statement_eq [OF assms] normal_write_def option.map_comp
        comp_def delivered_def reported_def intro!: option.map_cong)
qed simp

lemma after_execute_blocking:
  assumes "byte_stream S inp out" and "channel_wf ch"
  shows "after_execute S m (r, ch) = after_execute S Blocking (r, ch)"
  using run_fetch_call_blocking [OF assms, of "Call_all m"]
  by (simp add: after_execute_def del: run_fetch_call.simps split: sum.split)

lemma fetch_loop_wf:
  assumes "byte_stream S inp out"
  shows "channel_wf ch \<Longrightarrow> fetch_loop S d n info rs ch = Some (rows, err, info1, rs1, ch1) \<Longrightarrow> channel_wf ch1"
  by (induction n arbitrary: info rs ch rows)
    (auto simp: bind_eq_Some_conv Let_def split: if_splits dest: read_row_wf [OF assms])

lemma fetch_all_wf:
  assumes "byte_stream S inp out" and "channel_wf ch" and "fetch_all S rs ch = Some (rows, err, info, rs1, ch1)"
  shows "channel_wf ch1"
  using assms(2,3) fetch_loop_wf [OF assms(1,2)]
  by (auto simp: fetch_all_def fetch_many_def split: if_splits option.splits)

lemma after_execute_wf:
  assumes "byte_stream S inp out" and "channel_wf ch" and "after_execute S m (r, ch) = Some (got, ch1)"
  shows "channel_wf ch1"
proof -
  have "after_execute S Blocking (r, ch) = Some (got, ch1)" using assms(3) after_execute_blocking [OF assms(1,2)] by metis
  then show ?thesis
    using assms(2) fetch_all_wf [OF assms(1,2)] by (auto simp: after_execute_def split: if_splits sum.splits)
qed

lemma run_query_wf:
  assumes "byte_stream S inp out" and "channel_wf ch" and "run_query S M L D Blocking query ch = Some (r, ch1)"
  shows "channel_wf ch1"
  using execute_generic_extends [OF assms(1,2) serialize_com_query_message] assms(3)
  by (auto simp: connection_query_def execute_query_def extends_def)

lemma run_execute_wf:
  assumes "byte_stream S inp out" and "channel_wf ch" and "run_execute S M D Blocking ps params ch = Some (r, ch1)"
  shows "channel_wf ch1"
  using execute_statement_extends [OF assms(1,2)] assms(2,3)
  by (auto simp: ps_execute_def bind_eq_Some_conv extends_def split: if_splits)

lemma progress_channel_wf: "progress inp out ch ch' \<Longrightarrow> channel_wf ch'"
  by (simp add: progress_def)

lemma run_prepare_wf:
  assumes "byte_stream S inp out" and "channel_wf ch" and "run_prepare S Blocking statement ch = Some (r, ch1)"
  shows "channel_wf ch1"
  using assms(3)
  by (auto simp: connection_prepare_statement_def dest: prepare_statement_progress [OF assms(1,2), THEN progress_channel_wf])

lemma run_close_wf:
  assumes "byte_stream S inp out" and "channel_wf ch" and "run_close S Blocking ps ch = Some (r, ch1)"
  shows "channel_wf ch1"
  using assms(3)
  by (auto simp: ps_close_def close_statement_def bind_eq_Some_conv
      dest: send_command_progress [OF assms(1,2), THEN progress_channel_wf])

lemma bind_after_execute:
  assumes "byte_stream S inp out" and "\<And>r ch1. x = Some (r, ch1) \<Longrightarrow> channel_wf ch1"
  shows "Option.bind x (after_execute S m) = Option.bind x (after_execute S Blocking)"
  using assms(2) after_execute_blocking [OF assms(1), of _ m] by (cases x) fastforce+

lemma run_command_blocking:
  assumes "byte_stream S inp out" and "channel_wf ch"
  shows "run_command S M L D m cmd ch = run_command S M L D Blocking cmd ch"
proof (cases cmd)
  case (Cmd_query query)
  show ?thesis
    unfolding Cmd_query run_command.simps run_query_blocking [OF assms, of M L D m]
    by (rule bind_after_execute [OF assms(1) run_query_wf [OF assms]])
next
  case (Cmd_execute ps params)
  show ?thesis
    unfolding Cmd_execute run_command.simps run_execute_blocking [OF assms, of M D m]
    by (rule bind_after_execute [OF assms(1) run_execute_wf [OF assms]])
next
  case (Cmd_prepare statement)
  show ?thesis unfolding Cmd_prepare run_command.simps run_prepare_blocking [OF assms, of m] ..
next
  case (Cmd_close ps)
  show ?thesis unfolding Cmd_close run_command.simps run_close_blocking [OF assms, of m] ..
qed

lemma run_command_wf:
  assumes "byte_stream S inp out" and "channel_wf ch" and "run_command S M L D m cmd ch = Some (got, ch1)"
  shows "channel_wf ch1"
proof -
  have run: "run_command S M L D Blocking cmd ch = Some (got, ch1)"
    using assms(3) run_command_blocking [OF assms(1,2)] by metis
  show ?thesis
  proof (cases cmd)
    case (Cmd_query query)
    then obtain r ch2 where "run_query S M L D Blocking query ch = Some (r, ch2)" "after_execute S Blocking (r, ch2) = Some (got, ch1)"
      using run by (auto simp: bind_eq_Some_conv simp del: run_query.simps)
    then show ?thesis using run_query_wf [OF assms(1,2)] after_execute_wf [OF assms(1)] by blast
  next
    case (Cmd_execute ps params)
    then obtain r ch2 where "run_execute S M D Blocking ps params ch = Some (r, ch2)" "after_execute S Blocking (r, ch2) = Some (got, ch1)"
      using run by (auto simp: bind_eq_Some_conv simp del: run_execute.simps)
    then show ?thesis using run_execute_wf [OF assms(1,2)] after_execute_wf [OF assms(1)] by blast
  next
    case (Cmd_prepare statement)
    then show ?thesis using run run_prepare_wf [OF assms(1,2)] by (auto simp del: run_prepare.simps)
  next
    case (Cmd_close ps)
    then show ?thesis using run run_close_wf [OF assms(1,2)] by (auto simp del: run_close.simps)
  qed
qed

lemma run_commands_blocking:
  assumes "byte_stream S inp out" and "channel_wf ch"
  shows "run_commands S M L D cmds ch = run_commands S M L D (map (\<lambda>(_, cmd). (Blocking, cmd)) cmds) ch"
  using assms(2)
proof (induction cmds arbitrary: ch)
  case (Cons c cmds)
  obtain m cmd where c: "c = (m, cmd)" by (cases c)
  show ?case
    unfolding c
    using Cons.IH run_command_blocking [OF assms(1) Cons.prems, of M L D m cmd] run_command_wf [OF assms(1) Cons.prems]
    by (auto intro!: Option.bind_cong [OF refl] simp del: run_command.simps)
qed simp

section \<open>Properties\<close>

text \<open>
  C5: which variant of the operations a program calls makes no difference to it: against any
  server, well-behaved or not, two programs with the same commands, each one run with the variant
  that returns an error code, the one that throws or the asynchronous one, learn the same from every
  command, rows, errors and their messages, and leave the connection in the same state; if one does
  not return, neither does the other.
\<close>
theorem modes_interchangeable:
  assumes "byte_stream S inp out" and "channel_wf ch" and "map snd cmds = map snd cmds'"
  shows "run_commands S M L D cmds ch = run_commands S M L D cmds' ch"
proof -
  have modes: "map (\<lambda>(_, cmd). (Blocking, cmd)) cs = map (Pair Blocking) (map snd cs)" for cs :: "(call_mode \<times> command) list"
    by (simp add: case_prod_unfold)
  show ?thesis
    using run_commands_blocking [OF assms(1,2), of M L D cmds] run_commands_blocking [OF assms(1,2), of M L D cmds']
    unfolding modes assms(3) by simp
qed

lemma modes_interchangeable_witness:
  "run_commands scripted_stream 1000 sample_lexical gregorian
      [(Asynchronous, Cmd_query [0x53]), (Throwing, Cmd_prepare [0x54])] (sample_peer [7, 0, 0, 1, 0, 0, 0, 2, 0, 0, 0]) =
   run_commands scripted_stream 1000 sample_lexical gregorian
      [(Blocking, Cmd_query [0x53]), (Asynchronous, Cmd_prepare [0x54])] (sample_peer [7, 0, 0, 1, 0, 0, 0, 2, 0, 0, 0])"
  by (rule modes_interchangeable [OF scripted_byte_stream sample_peer_wf]) simp

end
