(* ===== verification/Conversation.thy ===== *)
theory Conversation
  imports Commands
begin

text \<open>
  The conversation of a program with a server that answers its commands: every command with every
  kind of answer, results with rows in either protocol, results without rows, errors, and prepared
  statements.
\<close>

section \<open>The server's side\<close>

datatype reply =
    Reply_text_rows "column_definition_packet list" "bytes option list list" ok_packet
  | Reply_binary_rows "column_definition_packet list" "mysql_value list list" ok_packet
  | Reply_ok ok_packet
  | Reply_error err_packet
  | Reply_prepared com_stmt_prepare_ok_packet "bytes list"
  | Reply_none

fun reply_messages :: "date_lib \<Rightarrow> capabilities \<Rightarrow> reply \<Rightarrow> bytes list" where
  "reply_messages D caps (Reply_text_rows cds rows p) = result_head caps cds @ map (enc_text_row caps) rows @ [eof_message p]"
| "reply_messages D caps (Reply_binary_rows cds rows p) = result_head caps cds @ map (enc_binary_row D caps (map field_metadata_of cds)) rows @ [eof_message p]"
| "reply_messages D caps (Reply_ok p) = [ok_message p]"
| "reply_messages D caps (Reply_error e) = [error_message e]"
| "reply_messages D caps (Reply_prepared r metas) = prepare_ok_message r # metas"
| "reply_messages D caps Reply_none = []"

text \<open>The packet a command is sent in.\<close>

fun request_of :: "date_lib \<Rightarrow> capabilities \<Rightarrow> command \<Rightarrow> bytes" where
  "request_of D caps (Cmd_query query) = com_query_id # query"
| "request_of D caps (Cmd_prepare statement) = com_stmt_prepare_id # statement"
| "request_of D caps (Cmd_execute ps params) =
     enc_com_stmt_execute D caps (make_stmt_execute_packet (sp_statement_id (ps_msg ps)) params)"
| "request_of D caps (Cmd_close ps) = com_stmt_close_id # le_bytes 4 (sp_statement_id (ps_msg ps))"

text \<open>
  An answer is one for the command: text rows for queries and binary rows for statements, all of
  them acceptable for their columns. An error is an error: its code is not 0.
\<close>

definition reply_rows_ok ::
    "nat \<Rightarrow> (field_metadata list \<Rightarrow> 'r \<Rightarrow> bool) \<Rightarrow> column_definition_packet list \<Rightarrow> 'r list \<Rightarrow> ok_packet \<Rightarrow> bool" where
  "reply_rows_ok M ok cds rows p \<longleftrightarrow>
     columns_ok M cds \<and> (\<forall>r \<in> set rows. ok (map field_metadata_of cds) r) \<and> length rows < size_t_max \<and>
     in_memory (ok_info p)"

definition params_ok :: "date_lib \<Rightarrow> prepared_statement \<Rightarrow> mysql_value list \<Rightarrow> bool" where
  "params_ok D ps params \<longleftrightarrow>
     ps_valid ps \<and> length params = unat (sp_num_params (ps_msg ps)) \<and> execute_asserted D params"

definition error_ok :: "err_packet \<Rightarrow> bool" where
  "error_ok e \<longleftrightarrow> err_packet_wf e \<and> err_error_code e \<noteq> 0"

fun answers :: "nat \<Rightarrow> lexical_lib \<Rightarrow> date_lib \<Rightarrow> command \<Rightarrow> reply \<Rightarrow> bool" where
  "answers M L D (Cmd_query _) (Reply_text_rows cds rows p) = reply_rows_ok M (text_row_ok L D) cds rows p"
| "answers M L D (Cmd_query _) (Reply_ok p) = in_memory (ok_info p)"
| "answers M L D (Cmd_query _) (Reply_error e) = error_ok e"
| "answers M L D (Cmd_execute ps params) (Reply_binary_rows cds rows p) =
     (params_ok D ps params \<and> reply_rows_ok M (binary_row_sendable D) cds rows p)"
| "answers M L D (Cmd_execute ps params) (Reply_ok p) = (params_ok D ps params \<and> in_memory (ok_info p))"
| "answers M L D (Cmd_execute ps params) (Reply_error e) = (params_ok D ps params \<and> error_ok e)"
| "answers M L D (Cmd_prepare _) (Reply_prepared r metas) = (length metas = num_metadata_packets r)"
| "answers M L D (Cmd_prepare _) (Reply_error e) = error_ok e"
| "answers M L D (Cmd_close ps) Reply_none = ps_valid ps"
| "answers M L D _ _ = False"

text \<open>What the user is to learn from the answer.\<close>

fun reply_outcome :: "lexical_lib \<Rightarrow> date_lib \<Rightarrow> reply \<Rightarrow> outcome" where
  "reply_outcome L D (Reply_text_rows cds rows p) =
     Got_rows (map field_metadata_of cds) (map (text_row_values L D (map field_metadata_of cds)) rows) p"
| "reply_outcome L D (Reply_binary_rows cds rows p) = Got_rows (map field_metadata_of cds) rows p"
| "reply_outcome L D (Reply_ok p) = Got_ok p"
| "reply_outcome L D (Reply_error e) = Got_error (make_error_code (Errc (uint (err_error_code e)))) (err_error_message e)"
| "reply_outcome L D (Reply_prepared r _) = Got_statement (statement_of r)"
| "reply_outcome L D Reply_none = Got_nothing"

section \<open>One exchange\<close>

text \<open>The request is the only packet written, the answer the only bytes read.\<close>

definition exchanged ::
    "('s \<Rightarrow> bytes) \<Rightarrow> ('s \<Rightarrow> (bool \<times> bytes) list) \<Rightarrow> bytes \<Rightarrow> bytes \<Rightarrow> 's channel \<Rightarrow> 's channel \<Rightarrow> bool" where
  "exchanged inp out rest m ch ch' \<longleftrightarrow>
     pending inp ch' [] rest \<and> ch_ssl ch' = ch_ssl ch \<and> ch_current_caps ch' = ch_current_caps ch \<and>
     out (ch_stream ch') = out (ch_stream ch) @ [(ch_ssl ch, frame_header (length m) 0 @ m)]"

lemma exchangedI: "request_sent out m ch ch' \<Longrightarrow> pending inp ch' [] rest \<Longrightarrow> exchanged inp out rest m ch ch'"
  by (simp add: exchanged_def request_sent_def)

abbreviation execute_result ::
    "(error_code \<times> error_info \<times> resultset \<times> 's channel) option \<Rightarrow> (resultset result \<times> 's channel) option" where
  "execute_result \<equiv> map_option (\<lambda>(err, info, rs, ch). (reported err info rs, ch))"

context row_protocol
begin

lemma execute_reply_head:
  assumes "reliable_stream S inp out" and "channel_wf ch"
    and "serialize_message ser sz request (ch_current_caps ch) [] = Some m" and "length m < MAX_PACKET_SIZE"
    and "inp (ch_stream ch) = frames_list 1 (result_head (ch_current_caps ch) cds @
           map (enc (ch_current_caps ch) (map field_metadata_of cds)) rows @ [eof_message p]) @ rest"
    and "reply_rows_ok M ok cds rows p"
  shows "\<exists>rs ch1. execute_generic S M fn ser sz request output info ch = Some (no_error, info, rs, ch1) \<and>
    rs_fields rs = map field_metadata_of cds \<and> \<not> rs_complete rs \<and> request_sent out m ch ch1 \<and>
    cursor_at inp fn enc p rest rs ch1 \<lparr>cu_rows = rows, cu_done = False\<rparr>"
proof -
  define rs where "rs = resultset_with_fields \<lparr>rm_buffers = map (enc_column_definition (ch_current_caps ch)) cds,
        rm_fields = map field_metadata_of cds\<rparr> fn"
  have inp: "inp (ch_stream ch) = frames_list 1 (enc_int_lenenc (caps_of 0) (of_nat (length cds)) #
           map (enc_column_definition (ch_current_caps ch)) cds @ map (enc (ch_current_caps ch) (map field_metadata_of cds)) rows @ [eof_message p]) @ rest"
    using assms(5) by (simp add: result_head_def)
  obtain ch1 where ex: "pending inp ch1 (map (enc (ch_current_caps ch) (map field_metadata_of cds)) rows @ [eof_message p]) rest"
      "request_sent out m ch ch1" "execute_generic S M fn ser sz request output info ch = Some (no_error, info, rs, ch1)"
    using execute_generic_fields [OF assms(1-4) inp, of M fn "output" info] assms(6)
    unfolding rs_def columns_ok_def reply_rows_ok_def by blast
  moreover have "ch_current_caps ch1 = ch_current_caps ch" using ex(2) by (simp add: request_sent_def)
  moreover have "rs_reading rs fn" "rs_fields rs = map field_metadata_of cds" "\<not> rs_complete rs"
    by (simp_all add: rs_def resultset_with_fields_def default_resultset_def rs_reading_def rs_complete_def rs_fields_def)
  ultimately show ?thesis by (intro exI [of _ rs] exI [of _ ch1]) (simp add: cursor_at_def)
qed

lemma execute_reply_rows:
  assumes "reliable_stream S inp out" and "channel_wf ch"
    and "serialize_message ser sz request (ch_current_caps ch) [] = Some m" and "length m < MAX_PACKET_SIZE"
    and "inp (ch_stream ch) = frames_list 1 (result_head (ch_current_caps ch) cds @
           map (enc (ch_current_caps ch) (map field_metadata_of cds)) rows @ [eof_message p]) @ rest"
    and "reply_rows_ok M ok cds rows p" and "metas = map field_metadata_of cds"
  shows "\<exists>ch'. Option.bind (execute_result (execute_generic S M fn ser sz request output info ch)) (after_execute S Blocking)
      = Some (Got_rows metas (map (vals metas) rows) p, ch') \<and> exchanged inp out rest m ch ch'"
proof -
  obtain rs ch1 where ex: "execute_generic S M fn ser sz request output info ch = Some (no_error, info, rs, ch1)"
      "rs_fields rs = metas" "\<not> rs_complete rs" "request_sent out m ch ch1"
      "cursor_at inp fn enc p rest rs ch1 \<lparr>cu_rows = rows, cu_done = False\<rparr>"
    using execute_reply_head [OF assms(1-6)] unfolding assms(7) by blast
  have few: "length rows < size_t_max" using assms(6) by (simp add: reply_rows_ok_def)
  then have all: "cursor_fetch size_t_max \<lparr>cu_rows = rows, cu_done = False\<rparr> = (rows, \<lparr>cu_rows = [], cu_done = True\<rparr>)"
    by (simp add: cursor_fetch_def)
  obtain rows' rs' ch2 where "fetch_many S size_t_max rs ch1 = Some (rows', no_error, empty_info, rs', ch2)"
      "map fst rows' = map (vals metas) rows" "same_session ch1 ch2" "out (ch_stream ch2) = out (ch_stream ch1)"
      "rs_ok_packet rs' = p" "pending inp ch2 [] rest"
    using fetch_many_cursor [OF assms(1) ex(5) _ _ all] assms(6) ex(2)
    by (auto simp: reply_rows_ok_def assms(7) cursor_at_def [of _ _ _ _ _ _ _ "\<lparr>cu_rows = [], cu_done = True\<rparr>"])
  then show ?thesis
    using ex(1-3) exchangedI [OF request_sent_session [OF ex(4)]]
    by (intro exI [of _ ch2]) (simp add: after_execute_def fetch_all_def)
qed

end

lemma execute_reply_ok:
  assumes "reliable_stream S inp out" and "channel_wf ch"
    and "serialize_message ser sz request (ch_current_caps ch) [] = Some m" and "length m < MAX_PACKET_SIZE"
    and "inp (ch_stream ch) = frames_list 1 [ok_message k] @ rest" and "in_memory (ok_info k)"
  shows "\<exists>ch'. Option.bind (execute_result (execute_generic S M d ser sz request output info ch)) (after_execute S Blocking)
      = Some (Got_ok k, ch') \<and> exchanged inp out rest m ch ch'"
  using execute_generic_ok [OF assms, of M d "output" info] exchangedI
  by (fastforce simp: after_execute_def resultset_empty_def rs_complete_def)

lemma execute_reply_error:
  assumes "reliable_stream S inp out" and "channel_wf ch"
    and "serialize_message ser sz request (ch_current_caps ch) [] = Some m" and "length m < MAX_PACKET_SIZE"
    and "inp (ch_stream ch) = frames_list 1 [error_message e] @ rest" and "error_ok e"
  shows "\<exists>ch'. Option.bind (execute_result (execute_generic S M d ser sz request output info ch)) (after_execute S Blocking)
      = Some (Got_error (make_error_code (Errc (uint (err_error_code e)))) (err_error_message e), ch') \<and>
    exchanged inp out rest m ch ch'"
proof -
  have e: "err_packet_wf e" "uint (err_error_code e) \<noteq> 0" using assms(6) by (simp_all add: error_ok_def uint_0_iff)
  show ?thesis
    using execute_generic_error [OF assms(1-5) e(1), of M d "output" info] exchangedI e(2)
    by (fastforce simp: after_execute_def reported_def)
qed

lemma prepare_response_error:
  assumes "ch_shared_buff ch = error_message e" and "err_packet_wf e"
  shows "prepare_response ch info x = (make_error_code (Errc (uint (err_error_code e))), \<lparr>ei_msg = err_error_message e\<rparr>, x)"
proof -
  let ?c = "make_ctx (ch_shared_buff ch) (ch_current_caps ch)"
  have t: "deserialize_message_type ?c = Inr (0xff, ctx_advance 1 ?c)"
    by (simp add: deser_simps assms(1) error_message_def)
  have "process_error_packet (ctx_advance 1 ?c) info =
      (make_error_code (Errc (uint (err_error_code e))), \<lparr>ei_msg = err_error_message e\<rparr>)"
    using assms by (intro process_error_packet_enc) (simp_all add: error_message_def ctx_wf_advance enc_err_packet_def)
  then show ?thesis by (simp add: prepare_response_def t)
qed

lemma prepare_statement_error:
  assumes "reliable_stream S inp out" and "channel_wf ch" and "length (com_stmt_prepare_id # statement) < MAX_PACKET_SIZE"
    and "inp (ch_stream ch) = frames_list 1 [error_message e] @ rest" and "error_ok e"
  shows "\<exists>ch'. prepare_statement S statement output info ch =
      Some (make_error_code (Errc (uint (err_error_code e))), \<lparr>ei_msg = err_error_message e\<rparr>, output, ch') \<and>
    exchanged inp out rest (com_stmt_prepare_id # statement) ch ch'"
proof -
  have e: "err_packet_wf e" "uint (err_error_code e) \<noteq> 0" using assms(5) by (simp_all add: error_ok_def uint_0_iff)
  obtain code ch0 ch1 where w: "compose_command serialize_com_stmt_prepare get_size_com_stmt_prepare statement ch = Some ch0"
      "write_shared S ch0 = Some (code, ch1)" "\<not> failed code" "pending inp ch1 [error_message e] rest"
      "out (ch_stream ch1) = out (ch_stream ch) @
        [(ch_ssl ch, frame_header (length (com_stmt_prepare_id # statement)) 0 @ com_stmt_prepare_id # statement)]"
      "ch_ssl ch1 = ch_ssl ch" "ch_current_caps ch1 = ch_current_caps ch"
    using send_command_ok [OF assms(1,2) serialize_com_stmt_prepare_message assms(3,4)] by blast
  obtain code2 ch2 where rd: "read_shared S ch1 = Some (code2, ch2)" "\<not> failed code2"
      "ch_shared_buff ch2 = error_message e" "pending inp ch2 [] rest"
      "out (ch_stream ch2) = out (ch_stream ch1)" "ch_ssl ch2 = ch_ssl ch1" "ch_current_caps ch2 = ch_current_caps ch1"
    using read_shared_pending [OF assms(1) w(4)] by blast
  then show ?thesis
    using w e(2)
    by (intro exI [of _ ch2])
      (simp add: prepare_statement_def prepare_request_def prepare_response_error [OF rd(3) e(1)] exchanged_def)
qed

lemma ps_execute_eq:
  assumes "params_ok D ps params"
  shows "ps_execute S M D ps params code info ch =
    execute_generic S M (binary_row_fn D) (serialize_com_stmt_execute D) get_size_com_stmt_execute
      (make_stmt_execute_packet (sp_statement_id (ps_msg ps)) params) default_resultset empty_info ch"
  using assms
  by (simp add: params_ok_def ps_execute_def clear_errors_def check_num_params_def ps_num_params_def ps_id_def
      execute_statement_def execute_asserted_def num_params_asserted_def make_stmt_execute_packet_def error_info_clear_def empty_info_def)

lemma connection_query_eq:
  "connection_query S M L D query code info ch =
    execute_generic S M (text_row_fn L D) serialize_com_query get_size_com_query query default_resultset empty_info ch"
  by (simp add: connection_query_def execute_query_def clear_errors_def error_info_clear_def empty_info_def)

lemma execute_answered:
  assumes "reliable_stream S inp out" and "channel_wf ch" and "answers M L D (Cmd_execute ps params) reply"
    and "m = request_of D (ch_current_caps ch) (Cmd_execute ps params)" and "length m < MAX_PACKET_SIZE"
    and "inp (ch_stream ch) = frames_list 1 (reply_messages D (ch_current_caps ch) reply) @ rest"
  shows "\<exists>ch'. run_command S M L D Blocking (Cmd_execute ps params) ch = Some (reply_outcome L D reply, ch') \<and>
    exchanged inp out rest m ch ch'"
proof -
  have params: "params_ok D ps params" using assms(3) by (cases reply) simp_all
  have m: "serialize_message (serialize_com_stmt_execute D) get_size_com_stmt_execute
      (make_stmt_execute_packet (sp_statement_id (ps_msg ps)) params) (ch_current_caps ch) [] = Some m"
    unfolding assms(4) request_of.simps
    using params execute_asserted_packet [of D params "sp_statement_id (ps_msg ps)"]
    by (simp add: com_stmt_execute.serialize_message_guarded params_ok_def)
  show ?thesis
  proof (cases reply)
    case (Reply_binary_rows cds rows p)
    then show ?thesis
      unfolding run_command.simps run_execute.simps ps_execute_eq [OF params]
      using binary_rows.execute_reply_rows [OF assms(1,2) m assms(5), where cds = cds and rows = rows and p = p and rest = rest
          and D = D and M = M, OF _ _ refl]
        assms(3,6) by simp
  next
    case (Reply_ok p)
    then show ?thesis
      unfolding run_command.simps run_execute.simps ps_execute_eq [OF params]
      using execute_reply_ok [OF assms(1,2) m assms(5), of p rest] assms(3,6) by simp
  next
    case (Reply_error e)
    then show ?thesis
      unfolding run_command.simps run_execute.simps ps_execute_eq [OF params]
      using execute_reply_error [OF assms(1,2) m assms(5), of e rest] assms(3,6) by simp
  qed (use assms(3) in simp_all)
qed

lemma query_answered:
  assumes "reliable_stream S inp out" and "channel_wf ch" and "answers M L D (Cmd_query query) reply"
    and "m = com_query_id # query" and "length m < MAX_PACKET_SIZE"
    and "inp (ch_stream ch) = frames_list 1 (reply_messages D (ch_current_caps ch) reply) @ rest"
  shows "\<exists>ch'. run_command S M L D Blocking (Cmd_query query) ch = Some (reply_outcome L D reply, ch') \<and>
    exchanged inp out rest m ch ch'"
proof -
  have m: "serialize_message serialize_com_query get_size_com_query query (ch_current_caps ch) [] = Some m"
    unfolding assms(4) by (rule serialize_com_query_message)
  show ?thesis
  proof (cases reply)
    case (Reply_text_rows cds rows p)
    then show ?thesis
      unfolding run_command.simps run_query.simps connection_query_eq
      using text_rows.execute_reply_rows [OF assms(1,2) m assms(5), where cds = cds and rows = rows and p = p and rest = rest
          and L = L and D = D and M = M, OF _ _ refl]
        assms(3,6) by simp
  next
    case (Reply_ok p)
    then show ?thesis
      unfolding run_command.simps run_query.simps connection_query_eq
      using execute_reply_ok [OF assms(1,2) m assms(5), of p rest] assms(3,6) by simp
  next
    case (Reply_error e)
    then show ?thesis
      unfolding run_command.simps run_query.simps connection_query_eq
      using execute_reply_error [OF assms(1,2) m assms(5), of e rest] assms(3,6) by simp
  qed (use assms(3) in simp_all)
qed

lemma prepare_answered:
  assumes "reliable_stream S inp out" and "channel_wf ch" and "answers M L D (Cmd_prepare statement) reply"
    and "m = com_stmt_prepare_id # statement" and "length m < MAX_PACKET_SIZE"
    and "inp (ch_stream ch) = frames_list 1 (reply_messages D (ch_current_caps ch) reply) @ rest"
  shows "\<exists>ch'. run_command S M L D Blocking (Cmd_prepare statement) ch = Some (reply_outcome L D reply, ch') \<and>
    exchanged inp out rest m ch ch'"
proof (cases reply)
  case (Reply_prepared r metas)
  then show ?thesis
    using prepare_statement_ok [OF assms(1,2), of statement r metas "[]" rest] assms(3-6)
    by (fastforce simp: connection_prepare_statement_def clear_errors_def reported_def exchanged_def)
next
  case (Reply_error e)
  then have e: "error_ok e" using assms(3) by simp
  then have code: "uint (err_error_code e) \<noteq> 0" by (simp add: error_ok_def uint_0_iff)
  show ?thesis
    using prepare_statement_error [OF assms(1,2) assms(5) [unfolded assms(4)] _ e, of rest] assms(4,6) Reply_error code
    by (fastforce simp: connection_prepare_statement_def clear_errors_def reported_def)
qed (use assms(3) in simp_all)

lemma close_answered:
  assumes "reliable_stream S inp out" and "channel_wf ch" and "answers M L D (Cmd_close ps) reply"
    and "m = com_stmt_close_id # le_bytes 4 (sp_statement_id (ps_msg ps))" and "length m < MAX_PACKET_SIZE"
    and "inp (ch_stream ch) = frames_list 1 (reply_messages D (ch_current_caps ch) reply) @ rest"
  shows "\<exists>ch'. run_command S M L D Blocking (Cmd_close ps) ch = Some (reply_outcome L D reply, ch') \<and>
    exchanged inp out rest m ch ch'"
proof -
  have r: "reply = Reply_none" "ps_valid ps" using assms(3) by (cases reply; simp)+
  show ?thesis
    using send_command_ok [OF assms(1,2)
        serialize_com_stmt_close_message [where n = "sp_statement_id (ps_msg ps)", folded assms(4)] assms(5,6)] r
    by (fastforce simp: ps_close_def clear_errors_def ps_id_def close_statement_def send_command_def reported_def
        exchanged_def)
qed

text \<open>Every command, in either mode, learns what the answer says and leaves nothing of it behind.\<close>

lemma run_command_answered:
  assumes "reliable_stream S inp out" and "channel_wf ch" and "answers M L D cmd reply"
    and "length (request_of D (ch_current_caps ch) cmd) < MAX_PACKET_SIZE"
    and "inp (ch_stream ch) = frames_list 1 (reply_messages D (ch_current_caps ch) reply) @ rest"
  shows "\<exists>ch'. run_command S M L D m cmd ch = Some (reply_outcome L D reply, ch') \<and>
    exchanged inp out rest (request_of D (ch_current_caps ch) cmd) ch ch'"
proof -
  have "\<exists>ch'. run_command S M L D Blocking cmd ch = Some (reply_outcome L D reply, ch') \<and>
    exchanged inp out rest (request_of D (ch_current_caps ch) cmd) ch ch'"
  proof (cases cmd)
    case (Cmd_query query)
    then show ?thesis using query_answered [OF assms(1,2), of M L D query reply] assms(3-5) by simp
  next
    case (Cmd_prepare statement)
    then show ?thesis using prepare_answered [OF assms(1,2), of M L D statement reply] assms(3-5) by simp
  next
    case (Cmd_execute ps params)
    then show ?thesis
      using execute_answered [OF assms(1,2) assms(3) [unfolded Cmd_execute] refl] assms(4,5) by simp
  next
    case (Cmd_close ps)
    then show ?thesis using close_answered [OF assms(1,2), of M L D ps reply] assms(3-5) by simp
  qed
  then show ?thesis
    unfolding run_command_blocking [OF reliable_byte_stream [OF assms(1)] assms(2), of M L D m cmd] .
qed

section \<open>Conversations\<close>

text \<open>An exchange is a command, the mode it is run in and the server's answer to it.\<close>

type_synonym exchange = "call_mode \<times> command \<times> reply"

definition exchange_ok :: "nat \<Rightarrow> lexical_lib \<Rightarrow> date_lib \<Rightarrow> capabilities \<Rightarrow> exchange \<Rightarrow> bool" where
  "exchange_ok M L D caps = (\<lambda>(m, cmd, reply).
     answers M L D cmd reply \<and> length (request_of D caps cmd) < MAX_PACKET_SIZE)"

text \<open>The bytes of the server's answers, one after another, and the packets of the commands.\<close>

definition server_bytes :: "date_lib \<Rightarrow> capabilities \<Rightarrow> exchange list \<Rightarrow> bytes" where
  "server_bytes D caps xs = concat (map (\<lambda>(m, cmd, reply). frames_list 1 (reply_messages D caps reply)) xs)"

definition client_packets :: "date_lib \<Rightarrow> capabilities \<Rightarrow> exchange list \<Rightarrow> bytes list" where
  "client_packets D caps xs =
     map (\<lambda>(m, cmd, reply). frame_header (length (request_of D caps cmd)) 0 @ request_of D caps cmd) xs"

definition exchange_command :: "exchange \<Rightarrow> call_mode \<times> command" where
  "exchange_command = (\<lambda>(m, cmd, reply). (m, cmd))"

definition exchange_outcome :: "lexical_lib \<Rightarrow> date_lib \<Rightarrow> exchange \<Rightarrow> outcome" where
  "exchange_outcome L D = (\<lambda>(m, cmd, reply). reply_outcome L D reply)"

lemma run_commands_answered:
  assumes "reliable_stream S inp out" and "channel_wf ch"
    and "\<forall>x \<in> set xs. exchange_ok M L D (ch_current_caps ch) x"
    and "inp (ch_stream ch) = server_bytes D (ch_current_caps ch) xs @ rest"
  shows "\<exists>ch'. run_commands S M L D (map exchange_command xs) ch = Some (map (exchange_outcome L D) xs, ch') \<and>
    channel_wf ch' \<and> inp (ch_stream ch') = rest \<and> ch_ssl ch' = ch_ssl ch \<and> ch_current_caps ch' = ch_current_caps ch \<and>
    out (ch_stream ch') = out (ch_stream ch) @ map (Pair (ch_ssl ch)) (client_packets D (ch_current_caps ch) xs)"
  using assms(2-4)
proof (induction xs arbitrary: ch)
  case Nil
  then show ?case by (simp add: server_bytes_def client_packets_def)
next
  case (Cons x xs)
  obtain m cmd reply where x: "x = (m, cmd, reply)" by (cases x)
  let ?caps = "ch_current_caps ch"
  have ok: "answers M L D cmd reply" "length (request_of D ?caps cmd) < MAX_PACKET_SIZE"
    using Cons.prems(2) by (simp_all add: x exchange_ok_def)
  have "inp (ch_stream ch) = frames_list 1 (reply_messages D ?caps reply) @ server_bytes D ?caps xs @ rest"
    using Cons.prems(3) by (simp add: x server_bytes_def)
  from run_command_answered [OF assms(1) Cons.prems(1) ok this, of m]
  obtain ch1 where run: "run_command S M L D m cmd ch = Some (reply_outcome L D reply, ch1)"
    and ch1: "exchanged inp out (server_bytes D ?caps xs @ rest) (request_of D ?caps cmd) ch ch1" by blast
  have after: "channel_wf ch1" "inp (ch_stream ch1) = server_bytes D ?caps xs @ rest" "ch_ssl ch1 = ch_ssl ch"
      "ch_current_caps ch1 = ?caps"
    using ch1 pending_wf pending_Nil by (fastforce simp: exchanged_def)+
  show ?case
    using Cons.IH [of ch1] after Cons.prems(2) run ch1
    by (auto simp: x exchange_command_def exchange_outcome_def client_packets_def exchanged_def simp del: run_command.simps)
qed

section \<open>A sample\<close>

text \<open>A program of five commands in both modes, one of them answered with an error.\<close>

definition sample_err_packet :: err_packet where
  "sample_err_packet = err_packet_of (1064, [0x23], [1, 2, 3, 4, 5], [0x78], ())"

definition sample_exchanges :: "exchange list" where
  "sample_exchanges =
     [(Asynchronous, Cmd_query [0x53], Reply_text_rows [sample_column] [[Some [0x61]], [None]] default_ok_packet),
      (Throwing, Cmd_query [0x54], Reply_error sample_err_packet),
      (Blocking, Cmd_prepare [0x55], Reply_prepared sample_prepare_ok [[], [9]]),
      (Asynchronous, Cmd_execute (statement_of sample_prepare_ok) [V_null],
         Reply_binary_rows [sample_column] [[V_null]] default_ok_packet),
      (Asynchronous, Cmd_close (statement_of sample_prepare_ok), Reply_none)]"

definition sample_conversation :: "capabilities \<Rightarrow> bytes" where
  "sample_conversation caps = frames 0 sample_greeting @ frames 3 [0] @ server_bytes gregorian caps sample_exchanges"

lemma sample_null_row [simp]:
  "text_row_ok sample_lexical gregorian [varchar_column] [None]"
  "text_row_values sample_lexical gregorian [varchar_column] [None] = [V_null]"
  by (simp_all add: text_row_ok_def text_row_values_def)

lemma sample_exchanges_ok: "\<forall>x \<in> set sample_exchanges. exchange_ok 1000 sample_lexical gregorian caps x"
proof -
  have cell: "text_row_ok sample_lexical gregorian [field_metadata_of sample_column] [Some [0x61]]"
    "text_row_ok sample_lexical gregorian [field_metadata_of sample_column] [None]"
    unfolding varchar_column_def [symmetric] by simp_all
  have row: "binary_row_sendable gregorian [field_metadata_of sample_column] [V_null]"
    by (simp add: binary_row_sendable_def gregorian.date_library_axioms)
  have e: "error_ok sample_err_packet"
    by (simp add: error_ok_def sample_err_packet_def err_packet_wf_def err_packet_of_def)
  have params: "params_ok gregorian (statement_of sample_prepare_ok) [V_null]"
    by (simp add: params_ok_def sample_prepare_ok_def execute_asserted_def binary_value_asserted_def)
  show ?thesis
    by (simp add: sample_exchanges_def exchange_ok_def reply_rows_ok_def cell row e params size_t_max_def MAX_PACKET_SIZE_def
        num_metadata_packets_def enc_com_stmt_execute_def make_stmt_execute_packet_def null_bitmap_bytes
        null_bitmap_of_def byte_count_def enc_binary_value_def)
      (simp add: sample_prepare_ok_def)
qed

lemma sample_exchanges_outcomes:
  "map (exchange_outcome sample_lexical gregorian) sample_exchanges =
    [Got_rows [varchar_column] [[V_string [0x61]], [V_null]] default_ok_packet,
     Got_error (make_error_code (Errc 1064)) [0x78],
     Got_statement (statement_of sample_prepare_ok),
     Got_rows [varchar_column] [[V_null]] default_ok_packet,
     Got_nothing]"
  by (simp add: sample_exchanges_def exchange_outcome_def sample_err_packet_def err_packet_of_def flip: varchar_column_def)

end
