(* ===== verification/Value_Printing.thy ===== *)
theory Value_Printing
  imports Text_Deserialization
begin

text \<open>
  Streaming a value (\<open>print_visitor\<close> of \<open>impl/value.hpp\<close>). Times are formatted by the visitor
  itself; dates and datetimes by the calendar library and floating point numbers by the stream,
  whose output is an argument.
\<close>

record print_lib =
  print_float :: "u32 \<Rightarrow> bytes"
  print_double :: "u64 \<Rightarrow> bytes"
  print_date :: "int \<Rightarrow> bytes"
  print_datetime :: "int \<Rightarrow> bytes"

text \<open>
  \<open>duration_cast\<close> truncates toward zero and \<open>%\<close> takes the sign of the dividend; \<open>std::abs\<close> drops
  it. The buffer of 100 characters is far from full.
\<close>

definition print_time :: "int \<Rightarrow> bytes" where
  "print_time t =
     (let sign = (if t < 0 then [char_minus] else []);
          hours = \<bar>t sdiv 3600000000\<bar>;
          mins = \<bar>(t smod 3600000000) sdiv 60000000\<bar>;
          secs = \<bar>(t smod 60000000) sdiv 1000000\<bar>;
          micros = \<bar>t smod 1000000\<bar>
      in sign @ dec_padded 2 (nat hours) @ char_colon # dec_padded 2 (nat mins) @
         char_colon # dec_padded 2 (nat secs) @ char_dot # dec_padded 6 (nat micros))"

definition print_int :: "int \<Rightarrow> bytes" where
  "print_int n = (if n < 0 then char_minus # dec_digits (nat (- n)) else dec_digits (nat n))"

definition print_value :: "print_lib \<Rightarrow> mysql_value \<Rightarrow> bytes" where
  "print_value P v =
     (case v of
        V_null \<Rightarrow> ascii ''<NULL>''
      | V_int64 w \<Rightarrow> print_int (sint w)
      | V_uint64 w \<Rightarrow> print_int (uint w)
      | V_string s \<Rightarrow> s
      | V_float w \<Rightarrow> print_float P w
      | V_double w \<Rightarrow> print_double P w
      | V_date d \<Rightarrow> print_date P d
      | V_datetime t \<Rightarrow> print_datetime P t
      | V_time t \<Rightarrow> print_time t)"

section \<open>Times\<close>

lemma print_time_format:
  assumes "\<bar>t\<bar> < 3600000000000"
  defines "a \<equiv> nat \<bar>t\<bar>"
  shows "print_time t = (if t < 0 then [char_minus] else []) @
    text_hms (if a div 3600000000 < 100 then 2 else 3) 6 (a div 3600000000)
      (a mod 3600000000 div 60000000) (a mod 60000000 div 1000000) (a mod 1000000)"
proof -
  have t: "\<bar>t\<bar> = int a" by (simp add: a_def)
  have n: "nat (int x div numeral k) = x div numeral k" "nat (int x mod numeral k) = x mod numeral k"
    "int x mod numeral k = int (x mod numeral k)" for x k
    by (simp_all add: nat_div_distrib nat_mod_distrib zmod_int)
  have "a < 1000 * 3600000000" using assms(1) t by simp
  then have "a div 3600000000 < 1000" by (rule less_mult_imp_div_less)
  moreover have "a mod 3600000000 div 60000000 < 10 ^ 2" "a mod 60000000 div 1000000 < 10 ^ 2" "a mod 1000000 < 10 ^ 6"
    using hms_parts_bounds [of a] by simp_all
  ultimately show ?thesis
    by (simp add: print_time_def Let_def abs_sdiv abs_smod sdiv_smod t n dec_padded_2 dec_padded_fixed text_hms_def)
qed

lemma text_time_6:
  assumes "h \<le> 838" and "m < 60" "s < 60" "u < 1000000" and "6 = sanitize_decimals (fm_decimals meta)"
  shows "deserialize_text_value_time ((if neg then [char_minus] else []) @
      text_hms (if h < 100 then 2 else 3) 6 h m s u) meta
    = Inr (V_time ((if neg then -1 else 1) * hms_micros (int h) (int m) (int s) (int u)))"
  using assms(1-4) text_time_value [OF _ _ _ _ assms(5), of "if h < 100 then 2 else 3" h m s u neg] by simp

section \<open>Properties\<close>

text \<open>
  A printed time is what the server writes for it: parsed as a \<open>TIME(6)\<close> column it gives the
  same value back, for every time MySQL can store.
\<close>
theorem print_time_roundtrip:
  assumes "\<bar>t\<bar> \<le> 3020399999999" and "6 \<le> fm_decimals meta"
  shows "deserialize_text_value_time (print_time t) meta = Inr (V_time t)"
proof -
  let ?a = "nat \<bar>t\<bar>"
  let ?h = "?a div 3600000000" and ?m = "?a mod 3600000000 div 60000000"
    and ?s = "?a mod 60000000 div 1000000" and ?u = "?a mod 1000000"
  have dec: "6 = sanitize_decimals (fm_decimals meta)" using assms(2) by (simp add: sanitize_decimals_def)
  have "?a < 839 * 3600000000" using assms(1) by linarith
  then have "?h < 839" by (rule less_mult_imp_div_less)
  then have h: "?h \<le> 838" by linarith
  note ms = hms_parts_bounds [of ?a]
  have "deserialize_text_value_time ((if t < 0 then [char_minus] else []) @
      text_hms (if ?h < 100 then 2 else 3) 6 ?h ?m ?s ?u) meta
    = Inr (V_time ((if t < 0 then -1 else 1) * hms_micros (int ?h) (int ?m) (int ?s) (int ?u)))"
    by (rule text_time_6 [OF h ms dec])
  moreover have "(if t < 0 then -1 else 1) * int ?a = t" by simp
  ultimately show ?thesis using assms(1) unfolding hms_parts by (simp only: print_time_format)
qed

lemma print_time_roundtrip_witness:
  "deserialize_text_value_time (print_time (- 5)) (decimals_column 6) = Inr (V_time (- 5))"
  using print_time_roundtrip [of "- 5" "decimals_column 6"]
  by (simp add: decimals_column_def field_metadata_of_def fm_decimals_def)

end
