(* ===== verification/Rows.thy ===== *)
theory Rows
  imports Value_Printing Resultset
begin

text \<open>
  What a program does with values and rows once it has them: asking for the alternative of a value,
  comparing (\<open>value.hpp\<close>, \<open>row.hpp\<close>, \<open>container_equals.hpp\<close>) and printing (\<open>row.hpp\<close>).
\<close>

section \<open>Alternatives\<close>

definition value_is_int64 :: "mysql_value \<Rightarrow> bool" where
  "value_is_int64 v \<longleftrightarrow> (case v of V_int64 _ \<Rightarrow> True | _ \<Rightarrow> False)"
definition value_is_uint64 :: "mysql_value \<Rightarrow> bool" where
  "value_is_uint64 v \<longleftrightarrow> (case v of V_uint64 _ \<Rightarrow> True | _ \<Rightarrow> False)"
definition value_is_double :: "mysql_value \<Rightarrow> bool" where
  "value_is_double v \<longleftrightarrow> (case v of V_double _ \<Rightarrow> True | _ \<Rightarrow> False)"

definition is_convertible_to :: "(mysql_value \<Rightarrow> 'a option) \<Rightarrow> mysql_value \<Rightarrow> bool" where
  "is_convertible_to get_opt v \<longleftrightarrow> get_opt v \<noteq> None"

section \<open>Comparing\<close>

text \<open>
  Two variants are equal when they hold the same alternative and equal values in it. Floating point
  numbers are compared as such: NaN differs from itself, and the two zeroes are equal.
\<close>

definition float_equal :: "u32 \<Rightarrow> u32 \<Rightarrow> bool" where
  "float_equal a b \<longleftrightarrow> \<not> float_isnan a \<and> \<not> float_isnan b \<and>
     (a = b \<or> float_exp a = 0 \<and> float_mant a = 0 \<and> float_exp b = 0 \<and> float_mant b = 0)"

definition double_equal :: "u64 \<Rightarrow> u64 \<Rightarrow> bool" where
  "double_equal a b \<longleftrightarrow> \<not> double_isnan a \<and> \<not> double_isnan b \<and>
     (a = b \<or> double_exp a = 0 \<and> double_mant a = 0 \<and> double_exp b = 0 \<and> double_mant b = 0)"

definition value_equal :: "mysql_value \<Rightarrow> mysql_value \<Rightarrow> bool" where
  "value_equal v w \<longleftrightarrow>
     (case (v, w) of
        (V_float a, V_float b) \<Rightarrow> float_equal a b
      | (V_double a, V_double b) \<Rightarrow> double_equal a b
      | _ \<Rightarrow> v = w)"

definition value_not_equal :: "mysql_value \<Rightarrow> mysql_value \<Rightarrow> bool" where
  "value_not_equal v w \<longleftrightarrow> \<not> value_equal v w"

definition container_equals :: "('a \<Rightarrow> 'b \<Rightarrow> bool) \<Rightarrow> 'a list \<Rightarrow> 'b list \<Rightarrow> bool" where
  "container_equals equal lhs rhs \<longleftrightarrow>
     (if length lhs \<noteq> length rhs then False else list_all (\<lambda>(x, y). equal x y) (zip lhs rhs))"

text \<open>An owning row is compared by its values, not by its buffer.\<close>

definition row_equal :: "mysql_value list \<Rightarrow> mysql_value list \<Rightarrow> bool" where
  "row_equal lhs rhs \<longleftrightarrow> container_equals value_equal lhs rhs"

definition row_not_equal :: "mysql_value list \<Rightarrow> mysql_value list \<Rightarrow> bool" where
  "row_not_equal lhs rhs \<longleftrightarrow> \<not> row_equal lhs rhs"

definition rows_equal :: "owning_row list \<Rightarrow> owning_row list \<Rightarrow> bool" where
  "rows_equal lhs rhs \<longleftrightarrow> container_equals (\<lambda>x y. row_equal (fst x) (fst y)) lhs rhs"

definition rows_not_equal :: "owning_row list \<Rightarrow> owning_row list \<Rightarrow> bool" where
  "rows_not_equal lhs rhs \<longleftrightarrow> \<not> rows_equal lhs rhs"

section \<open>Printing\<close>

definition print_row :: "print_lib \<Rightarrow> mysql_value list \<Rightarrow> bytes" where
  "print_row P arr =
     ascii ''{'' @
     (case arr of [] \<Rightarrow> [] | v # vs \<Rightarrow> print_value P v @ concat (map (\<lambda>v. ascii '', '' @ print_value P v) vs)) @
     ascii ''}''"

section \<open>Equality of rows\<close>

lemma container_equals_list_all2: "container_equals equal xs ys = list_all2 equal xs ys"
  by (auto simp: container_equals_def list_all2_iff list_all_iff)

definition holds_nan :: "mysql_value \<Rightarrow> bool" where
  "holds_nan v \<longleftrightarrow> (case v of V_float w \<Rightarrow> float_isnan w | V_double w \<Rightarrow> double_isnan w | _ \<Rightarrow> False)"

lemma value_equal_refl_iff: "value_equal v v \<longleftrightarrow> \<not> holds_nan v"
  by (simp add: value_equal_def holds_nan_def float_equal_def double_equal_def split: mysql_value.split)

lemma value_equal_sym: "value_equal v w \<Longrightarrow> value_equal w v"
  by (auto simp: value_equal_def float_equal_def double_equal_def split: mysql_value.splits)

lemma value_equal_trans: "value_equal u v \<Longrightarrow> value_equal v w \<Longrightarrow> value_equal u w"
  by (auto simp: value_equal_def float_equal_def double_equal_def split: mysql_value.splits)

text \<open>Comparing rows is symmetric and transitive, and a row is equal to itself when it holds no NaN.\<close>

lemma row_equal_laws:
  "row_equal r s \<Longrightarrow> row_equal s r"
  "row_equal r s \<Longrightarrow> row_equal s t \<Longrightarrow> row_equal r t"
  "row_equal r r \<longleftrightarrow> (\<forall>v \<in> set r. \<not> holds_nan v)"
  unfolding row_equal_def container_equals_list_all2
proof -
  show "list_all2 value_equal s r" if "list_all2 value_equal r s"
    using that by (auto simp: list_all2_conv_all_nth intro: value_equal_sym)
  show "list_all2 value_equal r t" if "list_all2 value_equal r s" "list_all2 value_equal s t"
    using that by (auto intro: list_all2_trans [OF value_equal_trans])
  show "list_all2 value_equal r r \<longleftrightarrow> (\<forall>v \<in> set r. \<not> holds_nan v)"
    by (auto simp: list_all2_same value_equal_refl_iff)
qed

text \<open>The rows received from a server hold none: they are equal to themselves.\<close>

lemma column_value_no_nan: "column_value_ok D meta v \<Longrightarrow> \<not> holds_nan v"
  by (auto simp: column_value_ok_def holds_nan_def split: mysql_value.splits)

lemma binary_value_no_nan: "binary_value_ok D meta v \<Longrightarrow> \<not> holds_nan v"
  using column_value_no_nan by (auto simp: binary_value_ok_def holds_nan_def)

lemma list_all2_no_nan:
  assumes "list_all2 ok metas vs" and "\<And>meta v. ok meta v \<Longrightarrow> \<not> holds_nan v"
  shows "row_equal vs vs"
  using assms unfolding row_equal_laws(3) list_all2_conv_all_nth by (metis in_set_conv_nth)

lemma received_text_row_equal: "deserialize_text_row L D ctx metas = Inr vs \<Longrightarrow> row_equal vs vs"
  using list_all2_no_nan [OF deserialize_text_row_ok column_value_no_nan] .

lemma received_binary_row_equal:
  "enough_size ctx 1 \<Longrightarrow> deserialize_binary_row D ctx metas = Some (Inr vs) \<Longrightarrow> row_equal vs vs"
  using deserialize_binary_row_safe [of ctx D metas] list_all2_no_nan [of "binary_value_ok D", OF _ binary_value_no_nan] by simp

end
