(* ===== verification/Examples.thy ===== *)
theory Examples
  imports Conversation Rows
begin

text \<open>
  The example programs of the repository (\<open>src/example\<close>), as clients of the modelled API:
  \<open>query_sync.cpp\<close>, \<open>unix_socket.cpp\<close>, \<open>prepared_statements.cpp\<close> and \<open>metadata.cpp\<close> with the
  throwing operations, and the three programs with asynchronous ones, by callbacks, coroutines and
  futures.
\<close>

section \<open>Programs\<close>

text \<open>
  A program has a connection and writes to the standard streams. It ends with a result, an
  exception or a call of \<open>exit\<close>; it has no result when an assertion fails, when it reads outside a
  vector, and when an operation of the library has none.
\<close>

datatype std_error = Std_bad_variant_access | Std_out_of_range

datatype ending = Thrown_system system_error | Thrown_std std_error | Exited nat

record 's world =
  wo_channel :: "'s channel"
  wo_stdout :: bytes
  wo_stderr :: bytes

type_synonym ('s, 'a) program = "'s world \<Rightarrow> ((ending + 'a) \<times> 's world) option"

definition and_then :: "('s, 'a) program \<Rightarrow> ('a \<Rightarrow> ('s, 'b) program) \<Rightarrow> ('s, 'b) program" where
  "and_then m f = (\<lambda>w. Option.bind (m w) (\<lambda>(r, w1). case r of Inl e \<Rightarrow> Some (Inl e, w1) | Inr x \<Rightarrow> f x w1))"

definition returning :: "'a \<Rightarrow> ('s, 'a) program" where
  "returning x = (\<lambda>w. Some (Inr x, w))"

definition ending_with :: "ending \<Rightarrow> ('s, 'a) program" where
  "ending_with e = (\<lambda>w. Some (Inl e, w))"

definition printing :: "bytes \<Rightarrow> ('s, unit) program" where
  "printing s = (\<lambda>w. Some (Inr (), w\<lparr>wo_stdout := wo_stdout w @ s\<rparr>))"

definition complaining :: "bytes \<Rightarrow> ('s, unit) program" where
  "complaining s = (\<lambda>w. Some (Inr (), w\<lparr>wo_stderr := wo_stderr w @ s\<rparr>))"

definition asserting :: "bool \<Rightarrow> ('s, unit) program" where
  "asserting b = (\<lambda>w. if b then Some (Inr (), w) else None)"

text \<open>A call of the throwing interface, and of \<open>fetch_all\<close> on a resultset, whose change is not used.\<close>

definition calling :: "('s channel \<Rightarrow> ((system_error + 'a) \<times> 's channel) option) \<Rightarrow> ('s, 'a) program" where
  "calling f = (\<lambda>w. map_option (\<lambda>(r, ch). (map_sum Thrown_system id r, w\<lparr>wo_channel := ch\<rparr>)) (f (wo_channel w)))"

definition fetching :: "'s stream_ops \<Rightarrow> resultset \<Rightarrow> ('s, mysql_value list list) program" where
  "fetching S rs = calling (\<lambda>ch. map_option (\<lambda>(r, rs1, ch1). (map_sum id (map fst) r, ch1)) (fetch_all_throwing S rs ch))"

text \<open>\<open>v[i]\<close> reads outside the vector when there is no such element; \<open>v.at(i)\<close> throws.\<close>

definition element :: "'a list \<Rightarrow> nat \<Rightarrow> ('s, 'a) program" where
  "element xs i = (\<lambda>w. if i < length xs then Some (Inr (xs ! i), w) else None)"

definition element_at :: "'a list \<Rightarrow> nat \<Rightarrow> ('s, 'a) program" where
  "element_at xs i = (if i < length xs then returning (xs ! i) else ending_with (Thrown_std Std_out_of_range))"

definition get_double :: "mysql_value \<Rightarrow> ('s, u64) program" where
  "get_double v = (case value_get get_optional_double v of
     Inl _ \<Rightarrow> ending_with (Thrown_std Std_bad_variant_access) | Inr d \<Rightarrow> returning d)"

text \<open>
  What a program is run with: the parameters of the model, and how Boost and the standard library
  print errors.
\<close>

record ('e, 's) environment =
  en_stream :: "'s stream_ops"
  en_connect :: "('e, 's) socket_connect"
  en_endpoint :: 'e
  en_crypto :: crypto_lib
  en_max_size :: nat
  en_lexical :: lexical_lib
  en_dates :: date_lib
  en_print :: print_lib
  en_what :: "system_error \<Rightarrow> bytes"
  en_code :: "error_code \<Rightarrow> bytes"
  en_std_what :: "std_error \<Rightarrow> bytes"

definition usage :: "bytes \<Rightarrow> bytes" where
  "usage name = ascii ''Usage: '' @ name @ ascii '' <username> <password>'' @ [10]"

definition checking_arguments :: "bytes list \<Rightarrow> (bytes \<Rightarrow> bytes \<Rightarrow> ('s, unit) program) \<Rightarrow> ('s, unit) program" where
  "checking_arguments argv f =
     (if length argv \<noteq> 3
      then and_then (element argv 0) (\<lambda>name. and_then (complaining (usage name)) (\<lambda>_. ending_with (Exited 1)))
      else f (argv ! 1) (argv ! 2))"

definition example_params :: "bytes \<Rightarrow> bytes \<Rightarrow> connection_params" where
  "example_params username password =
     (make_connection_params username password)\<lparr>cp_database := ascii ''boost_mysql_examples''\<rparr>"

definition quoted :: "string \<Rightarrow> bytes" where
  "quoted s = 0x27 # ascii s @ [0x27]"

definition connecting :: "('e, 's) environment \<Rightarrow> connection_params \<Rightarrow> ('s, unit) program" where
  "connecting E params = calling (socket_connection_connect_throwing (en_connect E) (en_stream E) (en_crypto E) (en_endpoint E) params)"

definition querying :: "('e, 's) environment \<Rightarrow> bytes \<Rightarrow> ('s, resultset) program" where
  "querying E sql = calling (connection_query_throwing (en_stream E) (en_max_size E) (en_lexical E) (en_dates E) sql)"

definition preparing :: "('e, 's) environment \<Rightarrow> bytes \<Rightarrow> ('s, prepared_statement) program" where
  "preparing E sql = calling (connection_prepare_statement_throwing (en_stream E) sql)"

definition executing :: "('e, 's) environment \<Rightarrow> prepared_statement \<Rightarrow> mysql_value list \<Rightarrow> ('s, resultset) program" where
  "executing E ps params = calling (ps_execute_throwing (en_stream E) (en_max_size E) (en_dates E) ps params)"

definition closing_statement :: "('e, 's) environment \<Rightarrow> prepared_statement \<Rightarrow> ('s, unit) program" where
  "closing_statement E ps = calling (ps_close_throwing (en_stream E) ps)"

definition closing :: "('e, 's) environment \<Rightarrow> ('s, unit) program" where
  "closing E = calling (socket_connection_close_throwing (en_stream E))"

text \<open>\<open>main\<close> is the same in all of them: exceptions are reported and make the result 1.\<close>

definition error_report :: "('e, 's) environment \<Rightarrow> ending \<Rightarrow> bytes" where
  "error_report E e = (case e of
     Thrown_system err \<Rightarrow> ascii ''Error: '' @ en_what E err @ ascii '', error code: '' @ en_code E (se_code err) @ [10]
   | Thrown_std err \<Rightarrow> ascii ''Error: '' @ en_std_what E err @ [10]
   | Exited _ \<Rightarrow> [])"

definition example_main ::
    "(('e, 's) environment \<Rightarrow> bytes list \<Rightarrow> ('s, unit) program) \<Rightarrow> ('e, 's) environment \<Rightarrow> bytes list \<Rightarrow> 's world \<Rightarrow>
     (nat \<times> 's world) option" where
  "example_main main_impl E argv w =
     map_option (\<lambda>(r, w1). case r of
         Inr () \<Rightarrow> (0, w1)
       | Inl (Exited n) \<Rightarrow> (n, w1)
       | Inl e \<Rightarrow> (1, w1\<lparr>wo_stderr := wo_stderr w1 @ error_report E e\<rparr>))
       (main_impl E argv w)"

section \<open>The program \<open>query_sync.cpp\<close>\<close>

definition employee_line :: "print_lib \<Rightarrow> mysql_value \<Rightarrow> mysql_value \<Rightarrow> mysql_value \<Rightarrow> bytes" where
  "employee_line P first_name last_name salary =
     ascii ''Employee '' @ 0x27 # print_value P first_name @ ascii '' '' @ print_value P last_name @ 0x27 # ascii '' earns '' @
     print_value P salary @ ascii '' dollars yearly'' @ [10]"

definition print_employee :: "print_lib \<Rightarrow> mysql_value list \<Rightarrow> ('s, unit) program" where
  "print_employee P employee =
     and_then (element employee 0) (\<lambda>first_name.
     and_then (element employee 1) (\<lambda>last_name.
     and_then (element employee 2) (\<lambda>salary.
     printing (employee_line P first_name last_name salary))))"

fun print_employees :: "print_lib \<Rightarrow> mysql_value list list \<Rightarrow> ('s, unit) program" where
  "print_employees P [] = returning ()"
| "print_employees P (employee # employees) = and_then (print_employee P employee) (\<lambda>_. print_employees P employees)"

definition select_employees :: bytes where
  "select_employees = ascii ''SELECT first_name, last_name, salary FROM employee WHERE company_id = '' @ quoted ''HGS''"

definition update_underpaid :: bytes where
  "update_underpaid = ascii ''UPDATE employee SET salary = 10000 WHERE first_name = '' @ quoted ''Underpaid''"

definition select_underpaid :: bytes where
  "select_underpaid = ascii ''SELECT salary FROM employee WHERE first_name = '' @ quoted ''Underpaid''"

text \<open>The numbers the salaries are compared with, as doubles.\<close>

definition double_10000 :: u64 where "double_10000 = 0x40c3880000000000"
definition double_15000 :: u64 where "double_15000 = 0x40cd4c0000000000"
definition double_30000 :: u64 where "double_30000 = 0x40dd4c0000000000"
definition double_35000 :: u64 where "double_35000 = 0x40e1170000000000"

text \<open>What the program does once it has its parameters.\<close>

definition employees_program :: "('e, 's) environment \<Rightarrow> connection_params \<Rightarrow> ('s, unit) program" where
  "employees_program E params =
     and_then (connecting E params) (\<lambda>_.
     and_then (querying E select_employees) (\<lambda>result.
     and_then (fetching (en_stream E) result) (\<lambda>employees.
     and_then (print_employees (en_print E) employees) (\<lambda>_.
     and_then (querying E update_underpaid) (\<lambda>result.
     and_then (asserting (length (rs_fields result) = 0)) (\<lambda>_.
     and_then (querying E select_underpaid) (\<lambda>result.
     and_then (fetching (en_stream E) result) (\<lambda>rows.
     and_then (asserting (length rows = 1)) (\<lambda>_.
     and_then (element rows 0) (\<lambda>row.
     and_then (element row 0) (\<lambda>v.
     and_then (get_double v) (\<lambda>salary.
     and_then (asserting (double_equal salary double_10000)) (\<lambda>_.
     closing E)))))))))))))"

definition query_sync_main_impl :: "('e, 's) environment \<Rightarrow> bytes list \<Rightarrow> ('s, unit) program" where
  "query_sync_main_impl E argv = checking_arguments argv (\<lambda>username password.
     employees_program E (example_params username password))"

section \<open>The program \<open>unix_socket.cpp\<close>\<close>

text \<open>It is the same program over a UNIX socket, whose path may be given as the third argument.\<close>

definition unix_usage :: "bytes \<Rightarrow> bytes" where
  "unix_usage name = ascii ''Usage: '' @ name @ ascii '' <username> <password> [<socket-path>]'' @ [10]"

definition unix_socket_main_impl :: "(bytes \<Rightarrow> 'e) \<Rightarrow> ('e, 's) environment \<Rightarrow> bytes list \<Rightarrow> ('s, unit) program" where
  "unix_socket_main_impl endpoint_of E argv =
     (if length argv \<noteq> 3 \<and> length argv \<noteq> 4
      then and_then (element argv 0) (\<lambda>name. and_then (complaining (unix_usage name)) (\<lambda>_. ending_with (Exited 1)))
      else
        let socket_path = (if length argv = 4 then argv ! 3 else ascii ''/var/run/mysqld/mysqld.sock'')
        in employees_program (E\<lparr>en_endpoint := endpoint_of socket_path\<rparr>) (example_params (argv ! 1) (argv ! 2)))"

section \<open>The program \<open>prepared_statements.cpp\<close>\<close>

definition salary_getter_sql :: bytes where
  "salary_getter_sql = ascii ''SELECT salary FROM employee WHERE first_name = ?''"

definition salary_updater_sql :: bytes where
  "salary_updater_sql = ascii ''UPDATE employee SET salary = ? WHERE first_name = ?''"

definition num_params_is :: "nat \<Rightarrow> prepared_statement \<Rightarrow> bool" where
  "num_params_is n ps \<longleftrightarrow> ps_num_params ps = Some n"

text \<open>Executing the getter, reading the one salary it finds, comparing and printing it.\<close>

definition reading_salary :: "('e, 's) environment \<Rightarrow> prepared_statement \<Rightarrow> u64 \<Rightarrow> string \<Rightarrow> ('s, unit) program" where
  "reading_salary E salary_getter expected msg =
     and_then (executing E salary_getter [V_string (ascii ''Efficient'')]) (\<lambda>result.
     and_then (fetching (en_stream E) result) (\<lambda>salaries.
     and_then (asserting (length salaries = 1)) (\<lambda>_.
     and_then (element salaries 0) (\<lambda>row.
     and_then (element_at row 0) (\<lambda>v.
     and_then (get_double v) (\<lambda>salary.
     and_then (asserting (double_equal salary expected)) (\<lambda>_.
     printing (ascii msg @ print_double (en_print E) salary @ [10]))))))))"

definition prepared_statements_main_impl :: "('e, 's) environment \<Rightarrow> bytes list \<Rightarrow> ('s, unit) program" where
  "prepared_statements_main_impl E argv = checking_arguments argv (\<lambda>username password.
     and_then (connecting E (example_params username password)) (\<lambda>_.
     and_then (preparing E salary_getter_sql) (\<lambda>salary_getter.
     and_then (asserting (num_params_is 1 salary_getter)) (\<lambda>_.
     and_then (preparing E salary_updater_sql) (\<lambda>salary_updater.
     and_then (asserting (num_params_is 2 salary_updater)) (\<lambda>_.
     and_then (reading_salary E salary_getter double_30000 ''The salary before the payrise was: '') (\<lambda>_.
     and_then (executing E salary_updater [value_of_signed (35000 :: 32 word), V_string (ascii ''Efficient'')]) (\<lambda>_.
     and_then (reading_salary E salary_getter double_35000 ''The salary after the payrise was: '') (\<lambda>_.
     and_then (closing_statement E salary_updater) (\<lambda>_.
     and_then (closing_statement E salary_getter) (\<lambda>_.
     closing E)))))))))))"

section \<open>The program \<open>metadata.cpp\<close>\<close>

definition select_companies :: bytes where
  "select_companies = 10 # ascii ''        SELECT comp.name AS company_name, emp.id AS employee_id'' @ 10 #
     ascii ''        FROM employee emp'' @ 10 #
     ascii ''        JOIN company comp ON (comp.id = emp.company_id)'' @ 10 # ascii ''    ''"

definition field_named :: "field_metadata \<Rightarrow> string \<Rightarrow> string \<Rightarrow> string \<Rightarrow> string \<Rightarrow> bool" where
  "field_named f table org_table name org_name \<longleftrightarrow>
     cd_schema (fm_msg f) = ascii ''boost_mysql_examples'' \<and> cd_table (fm_msg f) = ascii table \<and>
     cd_org_table (fm_msg f) = ascii org_table \<and> cd_name (fm_msg f) = ascii name \<and> cd_org_name (fm_msg f) = ascii org_name"

definition is_company_name :: "field_metadata \<Rightarrow> bool" where
  "is_company_name f \<longleftrightarrow>
     field_named f ''comp'' ''company'' ''company_name'' ''name'' \<and> fst (field_metadata_type f) = ft_varchar \<and>
     \<not> fm_is_primary_key f \<and> \<not> fm_is_auto_increment f \<and> fm_is_not_null f"

definition is_employee_id :: "field_metadata \<Rightarrow> bool" where
  "is_employee_id f \<longleftrightarrow>
     field_named f ''emp'' ''employee'' ''employee_id'' ''id'' \<and> fst (field_metadata_type f) = ft_int \<and>
     fm_is_primary_key f \<and> fm_is_auto_increment f \<and> fm_is_not_null f"

definition metadata_main_impl :: "('e, 's) environment \<Rightarrow> bytes list \<Rightarrow> ('s, unit) program" where
  "metadata_main_impl E argv = checking_arguments argv (\<lambda>username password.
     and_then (connecting E (example_params username password)) (\<lambda>_.
     and_then (querying E select_companies) (\<lambda>result.
     and_then (asserting (length (rs_fields result) = 2)) (\<lambda>_.
     and_then (asserting (is_company_name (rs_fields result ! 0))) (\<lambda>_.
     and_then (asserting (is_employee_id (rs_fields result ! 1))) (\<lambda>_.
     closing E))))))"

section \<open>The program \<open>query_async_callbacks.cpp\<close>\<close>

text \<open>
  An asynchronous operation may be passed the address of an \<open>error_info\<close>, which it fills; a program
  that passes none finds no information. The handlers run one after another, each when the operation
  it was given to completes.
\<close>

definition awaiting ::
    "(error_info option \<Rightarrow> 's channel \<Rightarrow> (error_code \<times> error_info option \<times> 'a \<times> 's channel) option) \<Rightarrow> error_info option \<Rightarrow>
     ('s, error_code \<times> error_info \<times> 'a) program" where
  "awaiting f p = (\<lambda>w.
     map_option (\<lambda>(err, p1, r, ch). (Inr (err, case p1 of None \<Rightarrow> empty_info | Some i \<Rightarrow> i, r), w\<lparr>wo_channel := ch\<rparr>))
       (f p (wo_channel w)))"

definition async_connecting ::
    "('e, 's) environment \<Rightarrow> connection_params \<Rightarrow> error_info option \<Rightarrow> ('s, error_code \<times> error_info \<times> unit) program" where
  "async_connecting E params = awaiting (\<lambda>p ch. map_option (\<lambda>(err, p1, ch1). (err, p1, (), ch1))
     (socket_connection_async_connect (en_connect E) (en_stream E) (en_crypto E) (en_endpoint E) params p ch))"

definition async_closing :: "('e, 's) environment \<Rightarrow> error_info option \<Rightarrow> ('s, error_code \<times> error_info \<times> unit) program" where
  "async_closing E = awaiting (\<lambda>p ch. map_option (\<lambda>(err, p1, ch1). (err, p1, (), ch1))
     (socket_connection_async_close (en_stream E) p ch))"

definition async_querying ::
    "('e, 's) environment \<Rightarrow> bytes \<Rightarrow> error_info option \<Rightarrow> ('s, error_code \<times> error_info \<times> resultset) program" where
  "async_querying E sql = awaiting (connection_async_query (en_stream E) (en_max_size E) (en_lexical E) (en_dates E) sql)"

definition async_fetching ::
    "('e, 's) environment \<Rightarrow> resultset \<Rightarrow> error_info option \<Rightarrow> ('s, error_code \<times> error_info \<times> mysql_value list list) program" where
  "async_fetching E rs = awaiting (\<lambda>p ch.
     map_option (\<lambda>(rows, err, p1, rs1, ch1). (err, p1, map fst rows, ch1)) (async_fetch_all (en_stream E) p rs ch))"

definition async_fetching_one ::
    "('e, 's) environment \<Rightarrow> resultset \<Rightarrow> error_info option \<Rightarrow>
     ('s, error_code \<times> error_info \<times> mysql_value list option \<times> resultset) program" where
  "async_fetching_one E rs = awaiting (\<lambda>p ch.
     map_option (\<lambda>(row, err, p1, rs1, ch1). (err, p1, (row, rs1), ch1)) (async_fetch_one (en_stream E) p rs ch))"

text \<open>
  The application with callbacks passes its member \<open>additional_info\<close>, whose value the functions
  below take and pass on.
\<close>

definition die_on_error :: "('e, 's) environment \<Rightarrow> error_code \<Rightarrow> error_info \<Rightarrow> ('s, unit) program" where
  "die_on_error E err info =
     (if failed err
      then and_then (complaining (ascii ''Error: '' @ en_code E err @ ascii '': '' @ ei_msg info @ [10])) (\<lambda>_. ending_with (Exited 1))
      else returning ())"

definition application_close :: "('e, 's) environment \<Rightarrow> error_info \<Rightarrow> ('s, unit) program" where
  "application_close E info =
     and_then (async_closing E (Some info)) (\<lambda>(err, info, _).
     die_on_error E err info)"

definition select_slacker :: bytes where
  "select_slacker = ascii ''SELECT salary FROM employee WHERE last_name = '' @ quoted ''Slacker''"

definition application_query_intern :: "('e, 's) environment \<Rightarrow> error_info \<Rightarrow> ('s, unit) program" where
  "application_query_intern E info =
     and_then (async_querying E select_slacker (Some info)) (\<lambda>(err, info, result).
     and_then (die_on_error E err info) (\<lambda>_.
     and_then (async_fetching E result (Some info)) (\<lambda>(err, info, rows).
     and_then (die_on_error E err info) (\<lambda>_.
     and_then (asserting (length rows = 1)) (\<lambda>_.
     and_then (element rows 0) (\<lambda>row.
     and_then (element row 0) (\<lambda>v.
     and_then (get_double v) (\<lambda>salary.
     and_then (asserting (double_equal salary double_15000)) (\<lambda>_.
     application_close E info)))))))))"

definition update_slacker_sql :: bytes where
  "update_slacker_sql = ascii ''UPDATE employee SET salary = 15000 WHERE last_name = '' @ quoted ''Slacker''"

definition application_update_slacker :: "('e, 's) environment \<Rightarrow> error_info \<Rightarrow> ('s, unit) program" where
  "application_update_slacker E info =
     and_then (async_querying E update_slacker_sql (Some info)) (\<lambda>(err, info, result).
     and_then (die_on_error E err info) (\<lambda>_.
     and_then (asserting (length (rs_fields result) = 0)) (\<lambda>_.
     application_query_intern E info)))"

definition application_query_employees :: "('e, 's) environment \<Rightarrow> error_info \<Rightarrow> ('s, unit) program" where
  "application_query_employees E info =
     and_then (async_querying E select_employees (Some info)) (\<lambda>(err, info, result).
     and_then (die_on_error E err info) (\<lambda>_.
     and_then (async_fetching E result (Some info)) (\<lambda>(err, info, rows).
     and_then (die_on_error E err info) (\<lambda>_.
     and_then (print_employees (en_print E) rows) (\<lambda>_.
     application_update_slacker E info)))))"

definition application_connect :: "('e, 's) environment \<Rightarrow> connection_params \<Rightarrow> error_info \<Rightarrow> ('s, unit) program" where
  "application_connect E conn_params info =
     and_then (async_connecting E conn_params (Some info)) (\<lambda>(err, info, _).
     and_then (die_on_error E err info) (\<lambda>_.
     application_query_employees E info))"

definition async_callbacks_main_impl :: "('e, 's) environment \<Rightarrow> bytes list \<Rightarrow> ('s, unit) program" where
  "async_callbacks_main_impl E argv = checking_arguments argv (\<lambda>username password.
     application_connect E (example_params username password) empty_info)"

section \<open>The programs \<open>query_async_coroutines.cpp\<close> and \<open>query_async_futures.cpp\<close>\<close>

text \<open>
  Both read the rows one by one until there are none. The loop goes on as long as there are rows, and
  is a partial function; what it fetches with, and the state of that, is its argument.
\<close>

partial_function (option) print_rows ::
    "print_lib \<Rightarrow> ('c \<Rightarrow> ('s, mysql_value list option \<times> 'c) program) \<Rightarrow> 'c \<Rightarrow> 's world \<Rightarrow> ((ending + 'c) \<times> 's world) option" where
  "print_rows P fetch c w =
     Option.bind (fetch c w) (\<lambda>(r, w1).
       case r of
         Inl e \<Rightarrow> Some (Inl e, w1)
       | Inr (None, c1) \<Rightarrow> Some (Inr c1, w1)
       | Inr (Some row, c1) \<Rightarrow>
           Option.bind (print_employee P row w1) (\<lambda>(r1, w2).
             case r1 of Inl e \<Rightarrow> Some (Inl e, w2) | Inr _ \<Rightarrow> print_rows P fetch c1 w2))"

definition check_error :: "error_code \<Rightarrow> error_info \<Rightarrow> ('s, unit) program" where
  "check_error err info =
     (if failed err then ending_with (Thrown_system \<lparr>se_code = err, se_what = ei_msg info\<rparr>) else returning ())"

text \<open>The coroutine keeps one \<open>error_info\<close>, passed to all operations but the first.\<close>

definition coroutine_fetch ::
    "('e, 's) environment \<Rightarrow> resultset \<times> error_info \<Rightarrow> ('s, mysql_value list option \<times> resultset \<times> error_info) program" where
  "coroutine_fetch E = (\<lambda>(result, info).
     and_then (async_fetching_one E result (Some info)) (\<lambda>(err, info, row, result).
     and_then (check_error err info) (\<lambda>_.
     returning (row, result, info))))"

definition coroutines_main_impl :: "('e, 's) environment \<Rightarrow> bytes list \<Rightarrow> ('s, unit) program" where
  "coroutines_main_impl E argv = checking_arguments argv (\<lambda>username password.
     and_then (async_connecting E (example_params username password) None) (\<lambda>(err, info, _).
     and_then (check_error err empty_info) (\<lambda>_.
     and_then (async_querying E select_employees (Some empty_info)) (\<lambda>(err, info, result).
     and_then (check_error err info) (\<lambda>_.
     and_then (print_rows (en_print E) (coroutine_fetch E) (result, info)) (\<lambda>(result, info).
     and_then (async_closing E (Some info)) (\<lambda>(err, info, _).
     check_error err info)))))))"

text \<open>The \<open>get\<close> of a future throws the error, without information: none is passed.\<close>

definition getting :: "('s, error_code \<times> error_info \<times> 'a) program \<Rightarrow> ('s, 'a) program" where
  "getting m = and_then m (\<lambda>(err, info, r). and_then (check_error err empty_info) (\<lambda>_. returning r))"

definition futures_main_impl :: "('e, 's) environment \<Rightarrow> bytes list \<Rightarrow> ('s, unit) program" where
  "futures_main_impl E argv = checking_arguments argv (\<lambda>username password.
     and_then (getting (async_connecting E (example_params username password) None)) (\<lambda>_.
     and_then (getting (async_querying E select_employees None)) (\<lambda>result.
     and_then (print_rows (en_print E) (\<lambda>result. getting (async_fetching_one E result None)) result) (\<lambda>result.
     getting (async_closing E None)))))"

end
