(* ===== verification/Example_Runs.thy ===== *)
theory Example_Runs
  imports Examples
begin

text \<open>
  The example programs run against a server that answers them: no assertion fails, and they print
  what the server sent.
\<close>

section \<open>Programs and a server that answers\<close>

text \<open>The connection is in step with a server that is about to send these bytes.\<close>

definition serving :: "('s \<Rightarrow> bytes) \<Rightarrow> capabilities \<Rightarrow> bytes \<Rightarrow> 's channel \<Rightarrow> bool" where
  "serving inp caps input ch \<longleftrightarrow> channel_wf ch \<and> inp (ch_stream ch) = input \<and> ch_current_caps ch = caps"

text \<open>
  The server's side of a handshake that succeeds: a greeting with the capabilities the client
  requires, the acceptance of its response, and what follows.
\<close>

definition accepting :: "crypto_lib \<Rightarrow> connection_params \<Rightarrow> capabilities \<Rightarrow> bytes \<Rightarrow> bytes \<Rightarrow> bool" where
  "accepting H params caps rest input \<longleftrightarrow>
     (\<exists>version plugin a scaps code calc greeting conn_id charset status ok.
        no_nul version \<and> no_nul plugin \<and> 20 \<le> length a \<and> length a \<le> 254 \<and>
        caps_has_all (caps_of scaps) (required_capabilities params) \<and>
        calculate H plugin (cp_password params) a (tls_wanted params scaps) new_calculator = (code, calc) \<and> \<not> failed code \<and>
        greeting = greeting_message version conn_id a scaps charset status plugin \<and> length greeting < MAX_PACKET_SIZE \<and>
        caps = negotiated params scaps \<and>
        length (enc_handshake_response caps (handshake_response_of params caps (ac_response calc) plugin)) < MAX_PACKET_SIZE \<and>
        input = frames 0 greeting @ frames (if tls_wanted params scaps then 3 else 2) (0 # ok) @ rest)"

lemma connect_accepting:
  assumes "reliable_stream S inp out" and "channel_wf ch" and "ch_sequence_number ch = 0"
    and "C endpoint (ch_stream ch) = (no_error, s)" and "accepting H params caps rest (inp s)"
  shows "\<exists>ch1. connect C S H endpoint params info ch = Some (no_error, info, ch1) \<and> serving inp caps rest ch1"
proof -
  obtain version plugin a scaps code calc greeting conn_id charset status ok where
    "no_nul version" "no_nul plugin" "20 \<le> length a" "length a \<le> 254"
    "caps_has_all (caps_of scaps) (required_capabilities params)"
    "calculate H plugin (cp_password params) a (tls_wanted params scaps) new_calculator = (code, calc)" "\<not> failed code"
    "greeting = greeting_message version conn_id a scaps charset status plugin" "length greeting < MAX_PACKET_SIZE"
    "caps = negotiated params scaps"
    "length (enc_handshake_response caps (handshake_response_of params caps (ac_response calc) plugin)) < MAX_PACKET_SIZE"
    "inp s = frames 0 greeting @ frames (if tls_wanted params scaps then 3 else 2) (0 # ok) @ rest"
    using assms(5) unfolding accepting_def by blast
  from connect_ok [where C = C and endpoint = endpoint and s = s, OF assms(1-4) this, of info]
  show ?thesis unfolding serving_def by blast
qed

lemma and_thenI: "m w = Some (Inr x, w1) \<Longrightarrow> f x w1 = r \<Longrightarrow> and_then m f w = r"
  by (simp add: and_then_def)

lemma simple_programs [simp]:
  "and_then (asserting b) f w = (if b then f () w else None)"
  "and_then (returning x) k w = k x w"
  "and_then (printing s) g w = g () (w\<lparr>wo_stdout := wo_stdout w @ s\<rparr>)"
  "and_then (element xs i) h w = (if i < length xs then h (xs ! i) w else None)"
  "i < length ys \<Longrightarrow> element_at ys i = returning (ys ! i)"
  by (simp_all add: and_then_def asserting_def returning_def printing_def element_def element_at_def)

lemma get_double_simp [simp]: "get_optional_double v = Some d \<Longrightarrow> get_double v = returning d"
  by (simp add: get_double_def value_get_def)

lemma checking_arguments_simp [simp]: "checking_arguments [name, username, password] f = f username password"
  by (simp add: checking_arguments_def)

lemma throwing_ok: "\<not> failed err \<Longrightarrow> throwing (Some (err, info, r, ch)) = Some (Inr r, ch)"
  by (simp add: throwing_def check_error_code_def split: unit.split)

lemma connecting_ok:
  assumes "reliable_stream (en_stream E) inp out" and "channel_wf (wo_channel w)" and "ch_sequence_number (wo_channel w) = 0"
    and "en_connect E (en_endpoint E) (ch_stream (wo_channel w)) = (no_error, s)"
    and "accepting (en_crypto E) params caps rest (inp s)"
  shows "\<exists>ch. connecting E params w = Some (Inr (), w\<lparr>wo_channel := ch\<rparr>) \<and> serving inp caps rest ch"
proof -
  obtain ch where "connect (en_connect E) (en_stream E) (en_crypto E) (en_endpoint E) params empty_info (wo_channel w) =
      Some (no_error, empty_info, ch)" "serving inp caps rest ch"
    using connect_accepting [where C = "en_connect E" and endpoint = "en_endpoint E" and s = s, OF assms] by blast
  then show ?thesis
    by (intro exI [of _ ch])
      (simp add: connecting_def calling_def socket_connection_connect_throwing_def without_result_def throwing_ok)
qed

lemma closing_ok:
  assumes "reliable_stream (en_stream E) inp out" and "serving inp caps rest (wo_channel w)"
    and "\<And>ch. \<not> failed (fst (channel_close (en_stream E) ch))"
  shows "\<exists>ch. closing E w = Some (Inr (), w\<lparr>wo_channel := ch\<rparr>)"
proof -
  obtain code ch where "quit_connection (en_stream E) (wo_channel w) = Some (code, ch)" "\<not> failed code"
    using quit_connection_ok [OF assms(1), of "wo_channel w"] assms(2) unfolding serving_def by blast
  moreover obtain err ch1 where "channel_close (en_stream E) ch = (err, ch1)" "\<not> failed err"
    using assms(3) [of ch] by (cases "channel_close (en_stream E) ch") auto
  ultimately have "\<exists>err ch2. close_connection (en_stream E) no_error (wo_channel w) = Some (err, ch2) \<and> \<not> failed err"
    by (simp add: close_connection_def)
  then obtain err ch2 where "close_connection (en_stream E) no_error (wo_channel w) = Some (err, ch2)" "\<not> failed err"
    by blast
  then show ?thesis
    by (intro exI [of _ ch2])
      (simp add: closing_def calling_def socket_connection_close_throwing_def without_result_def with_info_def throwing_ok)
qed

lemma caught_eq [simp]: "caught r = Inr x \<longleftrightarrow> r = Inr x"
  by (cases r) (simp_all add: caught_def)

lemma after_execute_rows:
  assumes "after_execute S Throwing (r, ch) = Some (Got_rows metas rows p, ch1)"
  shows "\<exists>rs orows rs1. r = Inr rs \<and> rs_fields rs = metas \<and> rows = map fst orows \<and>
    fetch_all_throwing S rs ch = Some (Inr orows, rs1, ch1)"
proof (cases r)
  case (Inr rs)
  then obtain r1 rs1 where "fetch_all_throwing S rs ch = Some (r1, rs1, ch1)"
      "outcome_of (\<lambda>rows. Got_rows (rs_fields rs) rows (rs_ok_packet rs1)) (map_sum id (map fst) (caught r1)) = Got_rows metas rows p"
    using assms by (force simp: after_execute_def split: if_splits)
  then show ?thesis using Inr by (cases r1) (auto simp: caught_def)
qed (use assms in \<open>auto simp: after_execute_def\<close>)

lemma fetching_rows:
  assumes "after_execute S Throwing (r, ch) = Some (Got_rows metas rows p, ch1)"
  shows "\<exists>rs. r = Inr rs \<and> rs_fields rs = metas \<and>
    fetching S rs (w\<lparr>wo_channel := ch\<rparr>) = Some (Inr rows, w\<lparr>wo_channel := ch1\<rparr>)"
  using after_execute_rows [OF assms] by (auto simp: fetching_def calling_def)

definition reply_bytes :: "('e, 's) environment \<Rightarrow> capabilities \<Rightarrow> reply \<Rightarrow> bytes" where
  "reply_bytes E caps reply = frames_list 1 (reply_messages (en_dates E) caps reply)"

lemma querying_rows:
  assumes "reliable_stream (en_stream E) inp out"
    and "serving inp caps (reply_bytes E caps (Reply_text_rows cds rows p) @ rest) (wo_channel w)"
    and "reply_rows_ok (en_max_size E) (text_row_ok (en_lexical E) (en_dates E)) cds rows p"
    and "Suc (length sql) < MAX_PACKET_SIZE" and "metas = map field_metadata_of cds"
    and "answer = map (text_row_values (en_lexical E) (en_dates E) metas) rows"
  shows "\<exists>rs ch1 ch2. querying E sql w = Some (Inr rs, w\<lparr>wo_channel := ch1\<rparr>) \<and> rs_fields rs = metas \<and> channel_wf ch1 \<and>
    fetching (en_stream E) rs (w\<lparr>wo_channel := ch1\<rparr>) = Some (Inr answer, w\<lparr>wo_channel := ch2\<rparr>) \<and> serving inp caps rest ch2"
proof -
  let ?ch = "wo_channel w" and ?q = "Cmd_query sql"
  have ch: "channel_wf ?ch" "ch_current_caps ?ch = caps" using assms(2) by (simp_all add: serving_def reply_bytes_def)
  obtain ch2 where run: "run_command (en_stream E) (en_max_size E) (en_lexical E) (en_dates E) Throwing ?q ?ch =
      Some (Got_rows metas answer p, ch2)"
    and ch2: "exchanged inp out rest (com_query_id # sql) ?ch ch2"
    using run_command_answered [OF assms(1) ch(1), where cmd = ?q and reply = "Reply_text_rows cds rows p" and rest = rest
        and M = "en_max_size E" and L = "en_lexical E" and D = "en_dates E" and m = Throwing] assms(2-6)
    by (auto simp: serving_def reply_bytes_def simp del: run_command.simps reply_messages.simps)
  then obtain r ch1 where r: "run_query (en_stream E) (en_max_size E) (en_lexical E) (en_dates E) Throwing sql ?ch = Some (r, ch1)"
      "after_execute (en_stream E) Throwing (r, ch1) = Some (Got_rows metas answer p, ch2)"
    by (auto simp: bind_eq_Some_conv simp del: run_query.simps)
  have wf: "channel_wf ch1"
    using run_query_wf [OF reliable_byte_stream [OF assms(1)] ch(1)] r(1)
      run_query_blocking [OF reliable_byte_stream [OF assms(1)] ch(1), of _ _ _ Throwing] by metis
  have "serving inp caps rest ch2" using ch2 ch(2) by (auto simp: exchanged_def serving_def dest: pending_wf pending_Nil)
  moreover obtain rs where "r = Inr rs" "rs_fields rs = metas"
      "fetching (en_stream E) rs (w\<lparr>wo_channel := ch1\<rparr>) = Some (Inr answer, w\<lparr>wo_channel := ch2\<rparr>)"
    using fetching_rows [OF r(2), of w] by blast
  ultimately show ?thesis
    using r(1) wf by (intro exI [of _ rs] exI [of _ ch1] exI [of _ ch2]) (simp add: querying_def calling_def)
qed

lemma executing_rows:
  assumes "reliable_stream (en_stream E) inp out"
    and "serving inp caps (reply_bytes E caps (Reply_binary_rows cds rows p) @ rest) (wo_channel w)"
    and "params_ok (en_dates E) ps params" and "reply_rows_ok (en_max_size E) (binary_row_sendable (en_dates E)) cds rows p"
    and "length (request_of (en_dates E) caps (Cmd_execute ps params)) < MAX_PACKET_SIZE"
  shows "\<exists>rs ch1 ch2. executing E ps params w = Some (Inr rs, w\<lparr>wo_channel := ch1\<rparr>) \<and>
    fetching (en_stream E) rs (w\<lparr>wo_channel := ch1\<rparr>) = Some (Inr rows, w\<lparr>wo_channel := ch2\<rparr>) \<and> serving inp caps rest ch2"
proof -
  let ?ch = "wo_channel w" and ?q = "Cmd_execute ps params"
  have ch: "channel_wf ?ch" "ch_current_caps ?ch = caps" using assms(2) by (simp_all add: serving_def reply_bytes_def)
  obtain ch2 where run: "run_command (en_stream E) (en_max_size E) (en_lexical E) (en_dates E) Throwing ?q ?ch =
      Some (Got_rows (map field_metadata_of cds) rows p, ch2)"
    and ch2: "exchanged inp out rest (request_of (en_dates E) caps ?q) ?ch ch2"
    using run_command_answered [OF assms(1) ch(1), where cmd = ?q and reply = "Reply_binary_rows cds rows p" and rest = rest
        and M = "en_max_size E" and L = "en_lexical E" and D = "en_dates E" and m = Throwing] assms(2-5)
    by (auto simp: serving_def reply_bytes_def simp del: run_command.simps reply_messages.simps request_of.simps)
  then obtain r ch1 where r: "run_execute (en_stream E) (en_max_size E) (en_dates E) Throwing ps params ?ch = Some (r, ch1)"
      "after_execute (en_stream E) Throwing (r, ch1) = Some (Got_rows (map field_metadata_of cds) rows p, ch2)"
    by (auto simp: bind_eq_Some_conv simp del: run_execute.simps)
  have "serving inp caps rest ch2" using ch2 ch(2) by (auto simp: exchanged_def serving_def dest: pending_wf pending_Nil)
  moreover obtain rs where "r = Inr rs"
      "fetching (en_stream E) rs (w\<lparr>wo_channel := ch1\<rparr>) = Some (Inr rows, w\<lparr>wo_channel := ch2\<rparr>)"
    using fetching_rows [OF r(2), of w] by blast
  ultimately show ?thesis
    using r(1) by (intro exI [of _ rs] exI [of _ ch1] exI [of _ ch2]) (simp add: executing_def calling_def)
qed

lemma executing_ok:
  assumes "reliable_stream (en_stream E) inp out"
    and "serving inp caps (reply_bytes E caps (Reply_ok p) @ rest) (wo_channel w)"
    and "params_ok (en_dates E) ps params" and "in_memory (ok_info p)"
    and "length (request_of (en_dates E) caps (Cmd_execute ps params)) < MAX_PACKET_SIZE"
  shows "\<exists>rs ch1. executing E ps params w = Some (Inr rs, w\<lparr>wo_channel := ch1\<rparr>) \<and> serving inp caps rest ch1"
proof -
  let ?ch = "wo_channel w" and ?x = "make_stmt_execute_packet (sp_statement_id (ps_msg ps)) params"
  let ?m = "request_of (en_dates E) caps (Cmd_execute ps params)"
  have ch: "channel_wf ?ch" "ch_current_caps ?ch = caps" "inp (ch_stream ?ch) = frames_list 1 [ok_message p] @ rest"
    using assms(2) by (simp_all add: serving_def reply_bytes_def)
  have m: "serialize_message (serialize_com_stmt_execute (en_dates E)) get_size_com_stmt_execute ?x (ch_current_caps ?ch) [] = Some ?m"
    using assms(3) execute_asserted_packet [of "en_dates E" params "sp_statement_id (ps_msg ps)"]
    by (simp add: ch(2) com_stmt_execute.serialize_message_guarded params_ok_def)
  obtain ch1 where "pending inp ch1 [] rest" "request_sent out ?m ?ch ch1"
      "execute_generic (en_stream E) (en_max_size E) (binary_row_fn (en_dates E)) (serialize_com_stmt_execute (en_dates E))
        get_size_com_stmt_execute ?x default_resultset empty_info ?ch = Some (no_error, empty_info, resultset_empty (ok_message p) p, ch1)"
    using execute_generic_ok [OF assms(1) ch(1) m assms(5) ch(3) assms(4)] by blast
  then show ?thesis
    using ch(2) pending_wf pending_Nil
    by (intro exI [of _ "resultset_empty (ok_message p) p"] exI [of _ ch1])
      (auto simp: executing_def calling_def ps_execute_throwing_def ps_execute_eq [OF assms(3)] throwing_ok serving_def
        request_sent_def)
qed

lemma preparing_ok:
  assumes "reliable_stream (en_stream E) inp out"
    and "serving inp caps (reply_bytes E caps (Reply_prepared r metas) @ rest) (wo_channel w)"
    and "length metas = num_metadata_packets r" and "Suc (length sql) < MAX_PACKET_SIZE"
  shows "\<exists>ch1. preparing E sql w = Some (Inr (statement_of r), w\<lparr>wo_channel := ch1\<rparr>) \<and> serving inp caps rest ch1"
proof -
  let ?ch = "wo_channel w"
  have ch: "channel_wf ?ch" "ch_current_caps ?ch = caps" "inp (ch_stream ?ch) = frames_list 1 (prepare_ok_message r # metas @ []) @ rest"
    using assms(2) by (simp_all add: serving_def reply_bytes_def)
  obtain code ch1 where "prepare_statement (en_stream E) sql default_statement empty_info ?ch = Some (code, empty_info, statement_of r, ch1)"
      "\<not> failed code" "pending inp ch1 [] rest" "ch_current_caps ch1 = ch_current_caps ?ch"
    using prepare_statement_ok [OF assms(1) ch(1) assms(4) ch(3) assms(3)] by blast
  then show ?thesis
    using ch(2) pending_wf pending_Nil
    by (intro exI [of _ ch1])
      (auto simp: preparing_def calling_def connection_prepare_statement_throwing_def throwing_ok serving_def)
qed

lemma closing_statement_ok:
  assumes "reliable_stream (en_stream E) inp out" and "serving inp caps rest (wo_channel w)" and "ps_valid ps"
  shows "\<exists>ch1. closing_statement E ps w = Some (Inr (), w\<lparr>wo_channel := ch1\<rparr>) \<and> serving inp caps rest ch1"
proof -
  let ?ch = "wo_channel w" and ?n = "sp_statement_id (ps_msg ps)"
  have ch: "channel_wf ?ch" "ch_current_caps ?ch = caps" "inp (ch_stream ?ch) = frames_list 1 [] @ rest"
    using assms(2) by (simp_all add: serving_def reply_bytes_def)
  have len: "length (com_stmt_close_id # le_bytes 4 ?n) < MAX_PACKET_SIZE" by (simp add: MAX_PACKET_SIZE_def)
  obtain code ch0 ch1 where "compose_command serialize_com_stmt_close get_size_com_stmt_close ?n ?ch = Some ch0"
      "write_shared (en_stream E) ch0 = Some (code, ch1)" "\<not> failed code" "pending inp ch1 [] rest" "ch_current_caps ch1 = caps"
    using send_command_ok [OF assms(1) ch(1) serialize_com_stmt_close_message len ch(3)] ch(2) by blast
  then show ?thesis
    using assms(3) pending_wf pending_Nil
    by (intro exI [of _ ch1])
      (auto simp: closing_statement_def calling_def ps_close_throwing_def ps_id_def close_statement_def send_command_def
        with_info_def without_result_def throwing_ok serving_def)
qed

lemma querying_ok:
  assumes "reliable_stream (en_stream E) inp out"
    and "serving inp caps (reply_bytes E caps (Reply_ok p) @ rest) (wo_channel w)"
    and "in_memory (ok_info p)" and "Suc (length sql) < MAX_PACKET_SIZE"
  shows "\<exists>rs ch1. querying E sql w = Some (Inr rs, w\<lparr>wo_channel := ch1\<rparr>) \<and> rs_fields rs = [] \<and> serving inp caps rest ch1"
proof -
  have "inp (ch_stream (wo_channel w)) = frames_list 1 [ok_message p] @ rest" "channel_wf (wo_channel w)"
      "ch_current_caps (wo_channel w) = caps" "length (com_query_id # sql) < MAX_PACKET_SIZE"
    using assms(2,4) by (simp_all add: serving_def reply_bytes_def)
  then obtain ch1 where "pending inp ch1 [] rest" "request_sent out (com_query_id # sql) (wo_channel w) ch1"
      "execute_generic (en_stream E) (en_max_size E) (text_row_fn (en_lexical E) (en_dates E)) serialize_com_query
        get_size_com_query sql default_resultset empty_info (wo_channel w) =
        Some (no_error, empty_info, resultset_empty (ok_message p) p, ch1)"
    using execute_generic_ok [OF assms(1) _ serialize_com_query_message] assms(3) by blast
  then show ?thesis
    using assms(2) pending_wf pending_Nil
    by (intro exI [of _ "resultset_empty (ok_message p) p"] exI [of _ ch1])
      (auto simp: querying_def calling_def connection_query_throwing_def execute_query_def throwing_ok serving_def
        request_sent_def resultset_empty_def rs_fields_def default_resultset_def empty_metadata_def)
qed

lemma salaries_equal [simp]:
  "double_equal double_10000 double_10000" "double_equal double_15000 double_15000"
  "double_equal double_30000 double_30000" "double_equal double_35000 double_35000"
  by (simp_all add: double_equal_def double_10000_def double_15000_def double_30000_def double_35000_def
      double_isnan_def double_exp_def double_mant_def)

lemma print_employees_lines:
  "print_employees P (map (\<lambda>(f, l, s). [f, l, s]) employees) w =
    Some (Inr (), w\<lparr>wo_stdout := wo_stdout w @ concat (map (\<lambda>(f, l, s). employee_line P f l s) employees)\<rparr>)"
proof (induction employees arbitrary: w)
  case Nil
  then show ?case by (simp add: returning_def)
next
  case (Cons e employees)
  obtain f l s where e: "e = (f, l, s)" by (cases e)
  have "print_employee P [f, l, s] w = Some (Inr (), w\<lparr>wo_stdout := wo_stdout w @ employee_line P f l s\<rparr>)"
    by (simp add: print_employee_def printing_def)
  then show ?case using Cons.IH by (simp add: e and_then_def)
qed

lemma statement_lengths [simp]:
  "Suc (length select_employees) < MAX_PACKET_SIZE" "Suc (length update_underpaid) < MAX_PACKET_SIZE"
  "Suc (length select_underpaid) < MAX_PACKET_SIZE" "Suc (length salary_getter_sql) < MAX_PACKET_SIZE"
  "Suc (length salary_updater_sql) < MAX_PACKET_SIZE" "Suc (length select_companies) < MAX_PACKET_SIZE"
  "Suc (length select_slacker) < MAX_PACKET_SIZE" "Suc (length update_slacker_sql) < MAX_PACKET_SIZE"
  by (simp_all add: MAX_PACKET_SIZE_def select_employees_def update_underpaid_def select_underpaid_def salary_getter_sql_def
      salary_updater_sql_def select_companies_def select_slacker_def update_slacker_sql_def quoted_def ascii_def)

lemma example_main_ok: "main_impl E argv w = Some (Inr (), w1) \<Longrightarrow> example_main main_impl E argv w = Some (0, w1)"
  by (simp add: example_main_def split: unit.split)

lemma execute_lengths [simp]:
  "length (enc_com_stmt_execute D caps (make_stmt_execute_packet n [V_string (ascii ''Efficient'')])) < MAX_PACKET_SIZE"
  "length (enc_com_stmt_execute D caps (make_stmt_execute_packet n [value_of_signed (35000 :: 32 word), V_string (ascii ''Efficient'')]))
     < MAX_PACKET_SIZE"
  by (simp_all add: MAX_PACKET_SIZE_def enc_com_stmt_execute_def make_stmt_execute_packet_def null_bitmap_bytes
      null_bitmap_of_def byte_count_def enc_binary_value_def value_of_signed_def ascii_def enc_string_lenenc_def
      enc_int_lenenc_def)

lemma reading_salary_ok:
  assumes "reliable_stream (en_stream E) inp out"
    and "serving inp caps (reply_bytes E caps (Reply_binary_rows cds [V_double d # others] p) @ rest) (wo_channel w)"
    and "params_ok (en_dates E) ps [V_string (ascii ''Efficient'')]"
    and "reply_rows_ok (en_max_size E) (binary_row_sendable (en_dates E)) cds [V_double d # others] p" and "double_equal d d"
  shows "\<exists>ch1. reading_salary E ps d msg w =
      Some (Inr (), w\<lparr>wo_channel := ch1, wo_stdout := wo_stdout w @ ascii msg @ print_double (en_print E) d @ [10]\<rparr>) \<and>
    serving inp caps rest ch1"
proof -
  obtain rs ch1 ch2 where "executing E ps [V_string (ascii ''Efficient'')] w = Some (Inr rs, w\<lparr>wo_channel := ch1\<rparr>)"
      "fetching (en_stream E) rs (w\<lparr>wo_channel := ch1\<rparr>) = Some (Inr [V_double d # others], w\<lparr>wo_channel := ch2\<rparr>)"
      "serving inp caps rest ch2"
    using executing_rows [OF assms(1-4)] by auto
  then show ?thesis
    using assms(5)
    by (intro exI [of _ ch2])
      (simp add: reading_salary_def and_then_def [of "executing _ _ _"] and_then_def [of "fetching _ _"]
        get_optional_double_def printing_def)
qed

text \<open>
  Where the throwing variant returns, the handler of the asynchronous one gets no error and the same
  result, on the same connection.
\<close>

lemma callingE:
  assumes "calling f w = Some (Inr x, w1)"
  obtains ch where "f (wo_channel w) = Some (Inr x, ch)" "w1 = w\<lparr>wo_channel := ch\<rparr>"
proof -
  obtain r ch where "f (wo_channel w) = Some (r, ch)" "map_sum Thrown_system id r = Inr x" "w1 = w\<lparr>wo_channel := ch\<rparr>"
    using assms by (auto simp: calling_def)
  then show ?thesis using that by (cases r) auto
qed

lemma throwingE:
  assumes "throwing m = Some (Inr r, ch)"
  obtains err info where "m = Some (err, info, r, ch)" "\<not> failed err"
  using assms by (auto simp: throwing_def check_error_code_def split: if_splits unit.splits)

lemma awaiting_connect:
  assumes "byte_stream (en_stream E) inp out" and "channel_wf (wo_channel w)" and "connecting E params w = Some (Inr (), w1)"
  shows "\<exists>info1 err. async_connecting E params p w = Some (Inr (err, info1, ()), w1) \<and> \<not> failed err"
proof -
  let ?sync = "connect (en_connect E) (en_stream E) (en_crypto E) (en_endpoint E) params empty_info (wo_channel w)"
  let ?async = "socket_connection_async_connect (en_connect E) (en_stream E) (en_crypto E) (en_endpoint E) params p (wo_channel w)"
  obtain ch where "socket_connection_connect_throwing (en_connect E) (en_stream E) (en_crypto E) (en_endpoint E) params (wo_channel w)
      = Some (Inr (), ch)" and w1: "w1 = w\<lparr>wo_channel := ch\<rparr>"
    using callingE [OF assms(3) [unfolded connecting_def]] by blast
  then obtain err1 info1 where sync: "?sync = Some (err1, info1, ch)" "\<not> failed err1"
    unfolding socket_connection_connect_throwing_def
    by (elim throwingE) (auto simp: without_result_def)
  have "map_option (\<lambda>(err, info, ch1). handshake_view err ch1) ?async = Some (handshake_view err1 ch)"
    unfolding socket_connection_async_connect_def async_connect_eq [OF assms(1,2)] using sync by simp
  then obtain err p1 ch1 where "?async = Some (err, p1, ch1)" "handshake_view err ch1 = handshake_view err1 ch" by auto
  then show ?thesis using sync(2) w1 by (auto simp: async_connecting_def awaiting_def handshake_view_def split: if_splits)
qed

lemma async_querying_of:
  assumes "byte_stream (en_stream E) inp out" and "channel_wf (wo_channel w)" and "querying E sql w = Some (Inr rs, w1)"
  shows "async_querying E sql p w = Some (Inr (no_error, empty_info, rs), w1)"
proof -
  obtain ch where "connection_query_throwing (en_stream E) (en_max_size E) (en_lexical E) (en_dates E) sql (wo_channel w) = Some (Inr rs, ch)"
    and w1: "w1 = w\<lparr>wo_channel := ch\<rparr>"
    using callingE [OF assms(3) [unfolded querying_def]] by blast
  then obtain err i where "execute_query (en_stream E) (en_max_size E) (en_lexical E) (en_dates E) sql default_resultset empty_info
      (wo_channel w) = Some (err, i, rs, ch)" "\<not> failed err"
    unfolding connection_query_throwing_def by (elim throwingE)
  then show ?thesis
    using w1 by (simp add: async_querying_def awaiting_def connection_async_query_view [OF assms(1,2)] connection_query_def
      async_view_def conditional_clear_def split: option.split)
qed

lemma async_fetching_of:
  assumes "byte_stream (en_stream E) inp out" and "channel_wf (wo_channel w)" and "fetching (en_stream E) rs w = Some (Inr rows, w1)"
  shows "\<exists>err info1. async_fetching E rs p w = Some (Inr (err, info1, rows), w1) \<and> \<not> failed err"
proof -
  obtain ch where "map_option (\<lambda>(r, rs1, ch1). (map_sum id (map fst) r, ch1)) (fetch_all_throwing (en_stream E) rs (wo_channel w))
      = Some (Inr rows, ch)" and w1: "w1 = w\<lparr>wo_channel := ch\<rparr>"
    using callingE [OF assms(3) [unfolded fetching_def]] by blast
  then obtain r rs1 where "fetch_all_throwing (en_stream E) rs (wo_channel w) = Some (r, rs1, ch)" "map_sum id (map fst) r = Inr rows"
    by auto
  then obtain orows where "fetch_all_throwing (en_stream E) rs (wo_channel w) = Some (Inr orows, rs1, ch)" and rows: "rows = map fst orows"
    by (cases r) auto
  then obtain err i where "fetch_many (en_stream E) size_t_max rs (wo_channel w) = Some (orows, err, i, rs1, ch)" "\<not> failed err"
    by (auto simp: fetch_all_throwing_def fetch_many_throwing_def throwing_with_def check_error_code_def
        split: if_splits unit.splits)
  then show ?thesis
    using rows w1
    by (simp add: async_fetching_def awaiting_def async_fetch_all_def async_fetch_many_eq [OF assms(1,2)])
qed

lemma async_closing_of:
  assumes "byte_stream (en_stream E) inp out" and "channel_wf (wo_channel w)" and "closing E w = Some (Inr (), w1)"
  shows "\<exists>info1 err. async_closing E p w = Some (Inr (err, info1, ()), w1) \<and> \<not> failed err"
proof -
  obtain ch where "socket_connection_close_throwing (en_stream E) (wo_channel w) = Some (Inr (), ch)" "w1 = w\<lparr>wo_channel := ch\<rparr>"
    using callingE [OF assms(3) [unfolded closing_def]] by blast
  then obtain err i where "without_result (with_info empty_info (close_connection (en_stream E) no_error (wo_channel w))) = Some (err, i, (), ch)"
      "\<not> failed err"
    unfolding socket_connection_close_throwing_def by (elim throwingE)
  then show ?thesis
    using \<open>w1 = w\<lparr>wo_channel := ch\<rparr>\<close>
    by (auto simp: async_closing_def awaiting_def socket_connection_async_close_def
        async_close_connection_eq [OF assms(1,2)] without_result_def with_info_def)
qed

lemma die_on_error_no_error [simp]: "\<not> failed err \<Longrightarrow> and_then (die_on_error E err info) k w = k () w"
  by (simp add: die_on_error_def)

text \<open>The exchanges of the programs that list employees, change a salary and read it back.\<close>

lemma employee_exchanges:
  assumes "reliable_stream (en_stream E) inp out" and "\<And>ch. \<not> failed (fst (channel_close (en_stream E) ch))"
    and "w = \<lparr>wo_channel = ch, wo_stdout = [], wo_stderr = []\<rparr>" and "channel_wf ch" and "ch_sequence_number ch = 0"
    and "en_connect E (en_endpoint E) (ch_stream ch) = (no_error, s)"
    and "accepting (en_crypto E) params caps
      (reply_bytes E caps (Reply_text_rows cds1 rows1 p1) @ reply_bytes E caps (Reply_ok p2) @
       reply_bytes E caps (Reply_text_rows cds3 [row3] p3) @ rest) (inp s)"
    and "reply_rows_ok (en_max_size E) (text_row_ok (en_lexical E) (en_dates E)) cds1 rows1 p1"
    and "in_memory (ok_info p2)"
    and "reply_rows_ok (en_max_size E) (text_row_ok (en_lexical E) (en_dates E)) cds3 [row3] p3"
    and "map (text_row_values (en_lexical E) (en_dates E) (map field_metadata_of cds1)) rows1 = map (\<lambda>(f, l, s). [f, l, s]) employees"
    and "text_row_values (en_lexical E) (en_dates E) (map field_metadata_of cds3) row3 = V_double d # others"
    and "Suc (length sql1) < MAX_PACKET_SIZE" and "Suc (length sql2) < MAX_PACKET_SIZE" and "Suc (length sql3) < MAX_PACKET_SIZE"
    and "lines = concat (map (\<lambda>(f, l, s). employee_line (en_print E) f l s) employees)"
    and "w0 = (\<lambda>ch. \<lparr>wo_channel = ch, wo_stdout = [], wo_stderr = []\<rparr>)"
    and "w1 = (\<lambda>ch. \<lparr>wo_channel = ch, wo_stdout = lines, wo_stderr = []\<rparr>)"
  obtains ch0 rs1 ch1 ch2 rs2 ch3 rs3 ch4 ch5 ch6 where
    "connecting E params w = Some (Inr (), w0 ch0)" "querying E sql1 (w0 ch0) = Some (Inr rs1, w0 ch1)"
    "fetching (en_stream E) rs1 (w0 ch1) = Some (Inr (map (\<lambda>(f, l, s). [f, l, s]) employees), w0 ch2)"
    "print_employees (en_print E) (map (\<lambda>(f, l, s). [f, l, s]) employees) (w0 ch2) = Some (Inr (), w1 ch2)"
    "querying E sql2 (w1 ch2) = Some (Inr rs2, w1 ch3)" "rs_fields rs2 = []"
    "querying E sql3 (w1 ch3) = Some (Inr rs3, w1 ch4)"
    "fetching (en_stream E) rs3 (w1 ch4) = Some (Inr [V_double d # others], w1 ch5)"
    "closing E (w1 ch5) = Some (Inr (), w1 ch6)"
    "\<forall>c \<in> {ch0, ch1, ch2, ch3, ch4, ch5}. channel_wf (wo_channel (w0 c)) \<and> channel_wf (wo_channel (w1 c))"
proof -
  let ?ok2 = "reply_bytes E caps (Reply_ok p2)" and ?rows3 = "reply_bytes E caps (Reply_text_rows cds3 [row3] p3)"
  have w: "channel_wf (wo_channel w)" "ch_sequence_number (wo_channel w) = 0"
      "en_connect E (en_endpoint E) (ch_stream (wo_channel w)) = (no_error, s)"
    using assms(3-6) by simp_all
  obtain ch0 where ch0: "connecting E params w = Some (Inr (), w0 ch0)"
    and at0: "serving inp caps (reply_bytes E caps (Reply_text_rows cds1 rows1 p1) @ ?ok2 @ ?rows3 @ rest) (wo_channel (w0 ch0))"
    using connecting_ok [OF assms(1) w assms(7)] by (auto simp: assms(3,17))
  obtain rs1 ch1 ch2 where ch2: "querying E sql1 (w0 ch0) = Some (Inr rs1, w0 ch1)" "channel_wf ch1"
      "fetching (en_stream E) rs1 (w0 ch1) = Some (Inr (map (\<lambda>(f, l, s). [f, l, s]) employees), w0 ch2)"
    and at2: "serving inp caps (?ok2 @ ?rows3 @ rest) (wo_channel (w1 ch2))"
    using querying_rows [OF assms(1) at0 assms(8,13) refl assms(11) [symmetric]] by (auto simp: assms(17,18))
  have lines: "print_employees (en_print E) (map (\<lambda>(f, l, s). [f, l, s]) employees) (w0 ch2) = Some (Inr (), w1 ch2)"
    by (simp add: print_employees_lines assms(16-18))
  obtain rs2 ch3 where ch3: "querying E sql2 (w1 ch2) = Some (Inr rs2, w1 ch3)" "rs_fields rs2 = []"
    and at3: "serving inp caps (?rows3 @ rest) (wo_channel (w1 ch3))"
    using querying_ok [OF assms(1) at2 assms(9,14)] by (auto simp: assms(18))
  obtain rs3 ch4 ch5 where ch5: "querying E sql3 (w1 ch3) = Some (Inr rs3, w1 ch4)" "channel_wf ch4"
      "fetching (en_stream E) rs3 (w1 ch4) = Some (Inr [V_double d # others], w1 ch5)"
    and at5: "serving inp caps rest (wo_channel (w1 ch5))"
    using querying_rows [OF assms(1) at3 assms(10,15) refl refl] assms(12) by (auto simp: assms(18))
  obtain ch6 where ch6: "closing E (w1 ch5) = Some (Inr (), w1 ch6)"
    using closing_ok [OF assms(1) at5 assms(2)] by (auto simp: assms(18))
  have "\<forall>c \<in> {ch0, ch1, ch2, ch3, ch4, ch5}. channel_wf (wo_channel (w0 c)) \<and> channel_wf (wo_channel (w1 c))"
    using at0 at2 at3 at5 ch2(2) ch5(2) by (simp add: serving_def assms(17,18))
  then show ?thesis by (rule that [OF ch0 ch2(1,3) lines ch3 ch5(1,3) ch6])
qed

section \<open>Reading row by row\<close>

text \<open>
  What a program fetches rows with, one at a time: as long as rows are on their way it returns the
  next one, and then once that there is none.
\<close>

locale row_source =
  fixes fetch :: "'c \<Rightarrow> ('s, mysql_value list option \<times> 'c) program"
    and rows_at :: "'c \<Rightarrow> 's channel \<Rightarrow> 'r list \<Rightarrow> bool"
    and finished :: "'c \<Rightarrow> 's channel \<Rightarrow> bool"
    and row_values :: "'r \<Rightarrow> mysql_value list"
  assumes fetch_row: "rows_at c (wo_channel w) (r # rs) \<Longrightarrow>
      \<exists>c1 ch1. fetch c w = Some (Inr (Some (row_values r), c1), w\<lparr>wo_channel := ch1\<rparr>) \<and> rows_at c1 ch1 rs"
    and fetch_end: "rows_at c (wo_channel w) [] \<Longrightarrow>
      \<exists>c1 ch1. fetch c w = Some (Inr (None, c1), w\<lparr>wo_channel := ch1\<rparr>) \<and> finished c1 ch1"
begin

lemma print_rows_all:
  assumes "rows_at c (wo_channel w) rs" and "map row_values rs = map (\<lambda>(f, l, s). [f, l, s]) employees"
  shows "\<exists>c1 ch1. print_rows P fetch c w =
      Some (Inr c1, w\<lparr>wo_channel := ch1, wo_stdout := wo_stdout w @ concat (map (\<lambda>(f, l, s). employee_line P f l s) employees)\<rparr>) \<and>
    finished c1 ch1"
  using assms
proof (induction rs arbitrary: c w employees)
  case Nil
  then show ?case using fetch_end [of c w] by (auto simp: print_rows.simps)
next
  case (Cons r rs)
  obtain f l s more_employees where e: "employees = (f, l, s) # more_employees" "row_values r = [f, l, s]"
      "map row_values rs = map (\<lambda>(f, l, s). [f, l, s]) more_employees"
    using Cons.prems(2) by (cases employees) auto
  obtain c1 ch1 where one: "fetch c w = Some (Inr (Some [f, l, s], c1), w\<lparr>wo_channel := ch1\<rparr>)" "rows_at c1 ch1 rs"
    using fetch_row [OF Cons.prems(1)] e(2) by auto
  let ?w = "w\<lparr>wo_channel := ch1, wo_stdout := wo_stdout w @ employee_line P f l s\<rparr>"
  have line: "print_employee P [f, l, s] (w\<lparr>wo_channel := ch1\<rparr>) = Some (Inr (), ?w)"
    by (simp add: print_employee_def printing_def)
  have "rows_at c1 (wo_channel ?w) rs" using one(2) by simp
  from Cons.IH [OF this e(3)] obtain c2 ch2 where "print_rows P fetch c1 ?w = Some (Inr c2, ?w\<lparr>wo_channel := ch2,
      wo_stdout := wo_stdout ?w @ concat (map (\<lambda>(f, l, s). employee_line P f l s) more_employees)\<rparr>)" "finished c2 ch2"
    by blast
  then show ?case using one(1) line by (auto simp: print_rows.simps [of P fetch c] e(1))
qed

end

text \<open>A resultset of a query, whose rows are on their way.\<close>

definition text_rows_at ::
    "('e, 's) environment \<Rightarrow> ('s \<Rightarrow> bytes) \<Rightarrow> ('s \<Rightarrow> (bool \<times> bytes) list) \<Rightarrow> ok_packet \<Rightarrow> bytes \<Rightarrow> field_metadata list \<Rightarrow>
     resultset \<Rightarrow> 's channel \<Rightarrow> bytes option list list \<Rightarrow> bool" where
  "text_rows_at E inp out p rest metas rs ch rows \<longleftrightarrow>
     reliable_stream (en_stream E) inp out \<and> in_memory (ok_info p) \<and> rs_fields rs = metas \<and>
     (\<forall>r \<in> set rows. text_row_ok (en_lexical E) (en_dates E) metas r) \<and>
     cursor_at inp (text_row_fn (en_lexical E) (en_dates E)) (\<lambda>caps _. enc_text_row caps) p rest rs ch \<lparr>cu_rows = rows, cu_done = False\<rparr>"

lemma async_fetch_one_row:
  assumes "text_rows_at E inp out p rest metas rs (wo_channel w) (r # rows)"
  shows "\<exists>rs1 ch1. async_fetching_one E rs q w =
      Some (Inr (no_error, empty_info, Some (text_row_values (en_lexical E) (en_dates E) metas r), rs1), w\<lparr>wo_channel := ch1\<rparr>) \<and>
    text_rows_at E inp out p rest metas rs1 ch1 rows"
proof -
  have at: "reliable_stream (en_stream E) inp out" "rs_fields rs = metas" "text_row_ok (en_lexical E) (en_dates E) (rs_fields rs) r"
      "cursor_at inp (text_row_fn (en_lexical E) (en_dates E)) (\<lambda>caps _. enc_text_row caps) p rest rs (wo_channel w) \<lparr>cu_rows = r # rows, cu_done = False\<rparr>"
    using assms by (simp_all add: text_rows_at_def)
  obtain rs1 ch1 where run: "fetch_one (en_stream E) rs (wo_channel w) =
        Some (Some (text_row_values (en_lexical E) (en_dates E) metas r), no_error, empty_info, rs1, ch1)" "rs_fields rs1 = metas"
      "cursor_at inp (text_row_fn (en_lexical E) (en_dates E)) (\<lambda>caps _. enc_text_row caps) p rest rs1 ch1 \<lparr>cu_rows = rows, cu_done = False\<rparr>"
    using text_rows.fetch_one_row [OF at(1,4,3)] unfolding at(2) by blast
  have "text_rows_at E inp out p rest metas rs1 ch1 rows" using assms run(2,3) by (simp add: text_rows_at_def)
  then show ?thesis
    using run(1)
    by (intro exI [of _ rs1] exI [of _ ch1])
      (simp add: async_fetching_one_def awaiting_def conditional_assign_def
        async_fetch_one_eq [OF reliable_byte_stream [OF at(1)] cursor_at_wf [OF at(4)]] split: option.split)
qed

lemma async_fetch_one_end:
  assumes "text_rows_at E inp out p rest metas rs (wo_channel w) []"
  shows "\<exists>rs1 ch1. async_fetching_one E rs q w = Some (Inr (no_error, empty_info, None, rs1), w\<lparr>wo_channel := ch1\<rparr>) \<and> channel_wf ch1"
proof -
  have at: "reliable_stream (en_stream E) inp out" "in_memory (ok_info p)"
      "cursor_at inp (text_row_fn (en_lexical E) (en_dates E)) (\<lambda>caps _. enc_text_row caps) p rest rs (wo_channel w) \<lparr>cu_rows = [], cu_done = False\<rparr>"
    using assms by (simp_all add: text_rows_at_def)
  obtain rs1 ch1 where run: "fetch_one (en_stream E) rs (wo_channel w) = Some (None, no_error, empty_info, rs1, ch1)"
      "cursor_at inp (text_row_fn (en_lexical E) (en_dates E)) (\<lambda>caps _. enc_text_row caps) p rest rs1 ch1 \<lparr>cu_rows = [], cu_done = True\<rparr>"
    using text_rows.fetch_one_end [OF at(1,3,2)] by blast
  then show ?thesis
    using cursor_at_wf [OF run(2)]
    by (intro exI [of _ rs1] exI [of _ ch1])
      (simp add: async_fetching_one_def awaiting_def conditional_assign_def
        async_fetch_one_eq [OF reliable_byte_stream [OF at(1)] cursor_at_wf [OF at(3)]] split: option.split)
qed

lemma check_error_no_error [simp]: "\<not> failed err \<Longrightarrow> and_then (check_error err info) k w = k () w"
  by (simp add: check_error_def)

lemma check_error_last [simp]: "\<not> failed err \<Longrightarrow> check_error err info w = Some (Inr (), w)"
  by (simp add: check_error_def returning_def)

lemma getting_ok: "m w = Some (Inr (err, info, r), w1) \<Longrightarrow> \<not> failed err \<Longrightarrow> getting m w = Some (Inr r, w1)"
  by (simp add: getting_def and_then_def [of m] returning_def)

interpretation coroutine_rows: row_source "coroutine_fetch E"
  "\<lambda>(rs, info). text_rows_at E inp out p rest metas rs" "\<lambda>_. channel_wf" "text_row_values (en_lexical E) (en_dates E) metas"
  for E inp out p rest metas
proof
  show "\<exists>c1 ch1. coroutine_fetch E c w = Some (Inr (Some (text_row_values (en_lexical E) (en_dates E) metas r), c1), w\<lparr>wo_channel := ch1\<rparr>) \<and>
      (case c1 of (rs, info) \<Rightarrow> text_rows_at E inp out p rest metas rs) ch1 rows"
    if "(case c of (rs, info) \<Rightarrow> text_rows_at E inp out p rest metas rs) (wo_channel w) (r # rows)" for c w r rows
    using async_fetch_one_row [of E inp out p rest metas "fst c" w r rows "Some (snd c)"] that
    by (cases c) (auto simp: coroutine_fetch_def and_then_def [of "async_fetching_one _ _ _"] returning_def)
  show "\<exists>c1 ch1. coroutine_fetch E c w = Some (Inr (None, c1), w\<lparr>wo_channel := ch1\<rparr>) \<and> channel_wf ch1"
    if "(case c of (rs, info) \<Rightarrow> text_rows_at E inp out p rest metas rs) (wo_channel w) []" for c w
    using async_fetch_one_end [of E inp out p rest metas "fst c" w "Some (snd c)"] that
    by (cases c) (auto simp: coroutine_fetch_def and_then_def [of "async_fetching_one _ _ _"] returning_def)
qed

interpretation future_rows: row_source "\<lambda>rs. getting (async_fetching_one E rs None)"
  "text_rows_at E inp out p rest metas" "\<lambda>_. channel_wf" "text_row_values (en_lexical E) (en_dates E) metas"
  for E inp out p rest metas
proof
  show "\<exists>c1 ch1. getting (async_fetching_one E rs None) w = Some (Inr (Some (text_row_values (en_lexical E) (en_dates E) metas r), c1),
      w\<lparr>wo_channel := ch1\<rparr>) \<and> text_rows_at E inp out p rest metas c1 ch1 rows"
    if "text_rows_at E inp out p rest metas rs (wo_channel w) (r # rows)" for rs w r rows
    using async_fetch_one_row [OF that, of None]
    by (auto simp: getting_def and_then_def [of "async_fetching_one _ _ _"] returning_def)
  show "\<exists>c1 ch1. getting (async_fetching_one E rs None) w = Some (Inr (None, c1), w\<lparr>wo_channel := ch1\<rparr>) \<and> channel_wf ch1"
    if "text_rows_at E inp out p rest metas rs (wo_channel w) []" for rs w
    using async_fetch_one_end [OF that, of None]
    by (auto simp: getting_def and_then_def [of "async_fetching_one _ _ _"] returning_def)
qed

lemma querying_text_rows:
  assumes "reliable_stream (en_stream E) inp out"
    and "serving inp caps (reply_bytes E caps (Reply_text_rows cds rows p) @ rest) (wo_channel w)"
    and "reply_rows_ok (en_max_size E) (text_row_ok (en_lexical E) (en_dates E)) cds rows p"
    and "Suc (length sql) < MAX_PACKET_SIZE"
  shows "\<exists>rs ch1. querying E sql w = Some (Inr rs, w\<lparr>wo_channel := ch1\<rparr>) \<and>
    text_rows_at E inp out p rest (map field_metadata_of cds) rs ch1 rows"
proof -
  let ?ch = "wo_channel w"
  have ch: "channel_wf ?ch" "ch_current_caps ?ch = caps" "length (com_query_id # sql) < MAX_PACKET_SIZE"
    using assms(2,4) by (simp_all add: serving_def)
  have inp: "inp (ch_stream ?ch) = frames_list 1 (result_head (ch_current_caps ?ch) cds @
      map (enc_text_row (ch_current_caps ?ch)) rows @ [eof_message p]) @ rest"
    using assms(2) by (simp add: serving_def reply_bytes_def)
  obtain rs ch1 where "execute_query (en_stream E) (en_max_size E) (en_lexical E) (en_dates E) sql default_resultset empty_info ?ch
      = Some (no_error, empty_info, rs, ch1)" "rs_fields rs = map field_metadata_of cds"
    "cursor_at inp (text_row_fn (en_lexical E) (en_dates E)) (\<lambda>caps _. enc_text_row caps) p rest rs ch1 \<lparr>cu_rows = rows, cu_done = False\<rparr>"
    using text_rows.execute_reply_head [OF assms(1) ch(1) serialize_com_query_message ch(3) inp assms(3)]
    unfolding execute_query_def by blast
  then show ?thesis
    using assms(1,3)
    by (intro exI [of _ rs] exI [of _ ch1])
      (simp add: querying_def calling_def connection_query_throwing_def throwing_ok text_rows_at_def reply_rows_ok_def)
qed

text \<open>The exchanges of the programs that read row by row.\<close>

lemma row_exchanges:
  assumes "reliable_stream (en_stream E) inp out" and "\<And>ch. \<not> failed (fst (channel_close (en_stream E) ch))"
    and "w = \<lparr>wo_channel = ch, wo_stdout = [], wo_stderr = []\<rparr>" and "channel_wf ch" and "ch_sequence_number ch = 0"
    and "en_connect E (en_endpoint E) (ch_stream ch) = (no_error, s)"
    and "accepting (en_crypto E) params caps (reply_bytes E caps (Reply_text_rows cds rows p) @ rest) (inp s)"
    and "reply_rows_ok (en_max_size E) (text_row_ok (en_lexical E) (en_dates E)) cds rows p"
    and "lines = concat (map (\<lambda>(f, l, s). employee_line (en_print E) f l s) employees)"
    and "w0 = (\<lambda>ch. \<lparr>wo_channel = ch, wo_stdout = [], wo_stderr = []\<rparr>)"
    and "w1 = (\<lambda>ch. \<lparr>wo_channel = ch, wo_stdout = lines, wo_stderr = []\<rparr>)"
  obtains ch0 err0 info0 rs ch1 where
    "async_connecting E params None w = Some (Inr (err0, info0, ()), w0 ch0)" "\<not> failed err0"
    "\<And>q. async_querying E select_employees q (w0 ch0) = Some (Inr (no_error, empty_info, rs), w0 ch1)"
    "text_rows_at E inp out p rest (map field_metadata_of cds) rs (wo_channel (w0 ch1)) rows"
    "\<And>q ch2. channel_wf ch2 \<Longrightarrow>
      \<exists>ch3 info1 err. async_closing E q (w1 ch2) = Some (Inr (err, info1, ()), w1 ch3) \<and> \<not> failed err"
proof -
  note byte = reliable_byte_stream [OF assms(1)]
  have w: "channel_wf (wo_channel w)" "ch_sequence_number (wo_channel w) = 0"
      "en_connect E (en_endpoint E) (ch_stream (wo_channel w)) = (no_error, s)"
    using assms(3-6) by simp_all
  obtain ch0 where ch0: "connecting E params w = Some (Inr (), w0 ch0)"
    and at0: "serving inp caps (reply_bytes E caps (Reply_text_rows cds rows p) @ rest) (wo_channel (w0 ch0))"
    using connecting_ok [OF assms(1) w assms(7)] by (auto simp: assms(3,10))
  then obtain info0 err0 where connect: "async_connecting E params None w = Some (Inr (err0, info0, ()), w0 ch0)" "\<not> failed err0"
    using awaiting_connect [OF byte w(1)] by blast
  obtain rs ch1 where ch1: "querying E select_employees (w0 ch0) = Some (Inr rs, w0 ch1)"
    and at1: "text_rows_at E inp out p rest (map field_metadata_of cds) rs (wo_channel (w0 ch1)) rows"
    using querying_text_rows [OF assms(1) at0 assms(8) statement_lengths(1)] by (auto simp: assms(10))
  have query: "async_querying E select_employees q (w0 ch0) = Some (Inr (no_error, empty_info, rs), w0 ch1)" for q
    using async_querying_of [OF byte _ ch1] at0 by (simp add: serving_def)
  have close: "\<exists>ch3 info1 err. async_closing E q (w1 ch2) = Some (Inr (err, info1, ()), w1 ch3) \<and> \<not> failed err"
    if "channel_wf ch2" for q ch2
  proof -
    have wf: "channel_wf (wo_channel (w1 ch2))" using that by (simp add: assms(11))
    then have "serving inp (ch_current_caps ch2) (inp (ch_stream ch2)) (wo_channel (w1 ch2))" by (simp add: serving_def assms(11))
    from closing_ok [OF assms(1) this assms(2)] obtain ch3 where "closing E (w1 ch2) = Some (Inr (), w1 ch3)"
      by (auto simp: assms(11))
    from async_closing_of [OF byte wf this, of q] show ?thesis by blast
  qed
  show ?thesis by (rule that [OF connect query at1 close])
qed

lemma coroutines_run:
  assumes connect: "async_connecting E (example_params username password) None w = Some (Inr (err0, info0, ()), w0 ch0)" "\<not> failed err0"
    and query: "\<And>q. async_querying E select_employees q (w0 ch0) = Some (Inr (no_error, empty_info, rs), w0 ch1)"
    and rows_at: "text_rows_at E inp out p rest metas rs (wo_channel (w0 ch1)) rows"
    and close: "\<And>q ch2. channel_wf ch2 \<Longrightarrow>
      \<exists>ch3 info1 err. async_closing E q (w1 ch2) = Some (Inr (err, info1, ()), w1 ch3) \<and> \<not> failed err"
    and employees: "map (text_row_values (en_lexical E) (en_dates E) metas) rows = map (\<lambda>(f, l, s). [f, l, s]) employees"
    and worlds: "w0 = (\<lambda>ch. \<lparr>wo_channel = ch, wo_stdout = [], wo_stderr = []\<rparr>)"
      "w1 = (\<lambda>ch. \<lparr>wo_channel = ch, wo_stdout = concat (map (\<lambda>(f, l, s). employee_line (en_print E) f l s) employees), wo_stderr = []\<rparr>)"
  shows "\<exists>ch'. coroutines_main_impl E [name, username, password] w = Some (Inr (), w1 ch')"
    and "\<exists>ch'. futures_main_impl E [name, username, password] w = Some (Inr (), w1 ch')"
proof -
  obtain rs2 info2 ch2 where rows: "print_rows (en_print E) (coroutine_fetch E) (rs, empty_info) (w0 ch1) = Some (Inr (rs2, info2), w1 ch2)"
      "channel_wf ch2"
    using coroutine_rows.print_rows_all [where c = "(rs, empty_info)" and w = "w0 ch1", OF _ employees] rows_at
    by (fastforce simp: worlds)
  obtain ch3 info3 err3 where "async_closing E (Some info2) (w1 ch2) = Some (Inr (err3, info3, ()), w1 ch3)" "\<not> failed err3"
    using close [OF rows(2)] by blast
  then show "\<exists>ch'. coroutines_main_impl E [name, username, password] w = Some (Inr (), w1 ch')"
    using connect query rows(1)
    by (intro exI [of _ ch3])
      (simp add: coroutines_main_impl_def and_then_def [of "async_connecting _ _ _"] and_then_def [of "async_querying _ _ _"]
        and_then_def [of "print_rows _ _ _"] and_then_def [of "async_closing _ _"])
next
  obtain rs2 ch2 where rows: "print_rows (en_print E) (\<lambda>rs. getting (async_fetching_one E rs None)) rs (w0 ch1) = Some (Inr rs2, w1 ch2)"
      "channel_wf ch2"
    using future_rows.print_rows_all [where c = rs and w = "w0 ch1", OF rows_at employees] by (fastforce simp: worlds)
  obtain ch3 info3 err3 where "async_closing E None (w1 ch2) = Some (Inr (err3, info3, ()), w1 ch3)" "\<not> failed err3"
    using close [OF rows(2)] by blast
  then have "getting (async_closing E None) (w1 ch2) = Some (Inr (), w1 ch3)" by (rule getting_ok)
  moreover have "getting (async_connecting E (example_params username password) None) w = Some (Inr (), w0 ch0)"
    using connect by (rule getting_ok)
  moreover have "getting (async_querying E select_employees None) (w0 ch0) = Some (Inr rs, w0 ch1)"
    using query failed_no_error by (rule getting_ok)
  ultimately show "\<exists>ch'. futures_main_impl E [name, username, password] w = Some (Inr (), w1 ch')"
    using rows(1)
    by (intro exI [of _ ch3])
      (simp add: futures_main_impl_def and_then_def [of "getting _"] and_then_def [of "print_rows _ _ _"])
qed

text \<open>Connecting and preparing the two statements.\<close>

lemma prepare_exchanges:
  assumes "reliable_stream (en_stream E) inp out"
    and "w = \<lparr>wo_channel = ch, wo_stdout = [], wo_stderr = []\<rparr>" and "channel_wf ch" and "ch_sequence_number ch = 0"
    and "en_connect E (en_endpoint E) (ch_stream ch) = (no_error, s)"
    and "accepting (en_crypto E) params caps
      (reply_bytes E caps (Reply_prepared r1 metas1) @ reply_bytes E caps (Reply_prepared r2 metas2) @ rest) (inp s)"
    and "length metas1 = num_metadata_packets r1" and "length metas2 = num_metadata_packets r2"
    and "\<And>ch. w0 ch = \<lparr>wo_channel = ch, wo_stdout = [], wo_stderr = []\<rparr>"
  obtains ch0 ch1 ch2 where "connecting E params w = Some (Inr (), w0 ch0)"
    "preparing E salary_getter_sql (w0 ch0) = Some (Inr (statement_of r1), w0 ch1)"
    "preparing E salary_updater_sql (w0 ch1) = Some (Inr (statement_of r2), w0 ch2)"
    "serving inp caps rest (wo_channel (w0 ch2))"
proof -
  let ?prepared2 = "reply_bytes E caps (Reply_prepared r2 metas2)"
  have w: "channel_wf (wo_channel w)" "ch_sequence_number (wo_channel w) = 0"
      "en_connect E (en_endpoint E) (ch_stream (wo_channel w)) = (no_error, s)"
    using assms(2-5) by simp_all
  obtain ch0 where ch0: "connecting E params w = Some (Inr (), w0 ch0)"
    and at0: "serving inp caps (reply_bytes E caps (Reply_prepared r1 metas1) @ ?prepared2 @ rest) (wo_channel (w0 ch0))"
    using connecting_ok [OF assms(1) w assms(6)] by (auto simp: assms(2,9))
  obtain ch1 where ch1: "preparing E salary_getter_sql (w0 ch0) = Some (Inr (statement_of r1), w0 ch1)"
    and at1: "serving inp caps (?prepared2 @ rest) (wo_channel (w0 ch1))"
    using preparing_ok [OF assms(1) at0 assms(7) statement_lengths(4)] by (auto simp: assms(9))
  obtain ch2 where ch2: "preparing E salary_updater_sql (w0 ch1) = Some (Inr (statement_of r2), w0 ch2)"
    and at2: "serving inp caps rest (wo_channel (w0 ch2))"
    using preparing_ok [OF assms(1) at1 assms(8) statement_lengths(5)] by (auto simp: assms(9))
  show ?thesis by (rule that [OF ch0 ch1 ch2 at2])
qed

section \<open>A sample\<close>

lemma accepting_sample:
  assumes "params = example_params [0x75] [0x70]" and "caps = negotiated params 0xffffffff"
  shows "accepting sample_crypto params caps rest (frames 0 sample_greeting @ frames 3 [0] @ rest)"
proof -
  have p: "cp_password params = [0x70]" "length (cp_username params) = 1" "length (cp_database params) = 20"
      "cp_ssl params = Ssl_enable"
    by (simp_all add: assms(1) example_params_def make_connection_params_def default_ssl_options_def ascii_def)
  have "(0xffffffff :: u32) = - 1" by simp
  then have tls: "tls_wanted params 0xffffffff"
    unfolding tls_wanted_def p caps_has_def caps_of_def by (simp add: CLIENT_SSL_def)
  obtain calc where calc: "calculate sample_crypto mysql_native_password_name (cp_password params) (replicate 20 1)
      (tls_wanted params 0xffffffff) new_calculator = (no_error, calc)" "length (ac_response calc) = 20"
    using calculate_cases [OF sample_crypto_library surjective_pairing, of mysql_native_password_name
        "cp_password params" "replicate 20 1" "tls_wanted params 0xffffffff" new_calculator] plugin_names_distinct
    unfolding p(1) by (metis (no_types, lifting) insertCI length_replicate list.discI prod.collapse)
  have "length (enc_handshake_response caps (handshake_response_of params caps (ac_response calc) mysql_native_password_name)) < MAX_PACKET_SIZE"
    using calc(2) p(2,3) sample_names(2)
    by (auto simp: MAX_PACKET_SIZE_def enc_handshake_response_def handshake_response_of_def enc_string_lenenc_def enc_int_lenenc_def)
  moreover have "sample_greeting = greeting_message [0x38] 7 (replicate 20 1) 0xffffffff 33 2 mysql_native_password_name"
    by (simp add: sample_greeting_def greeting_message_def)
  moreover have "frames 0 sample_greeting @ frames 3 [0] @ rest =
      frames 0 sample_greeting @ frames (if tls_wanted params 0xffffffff then 3 else 2) (0 # []) @ rest"
    by (simp only: tls if_True)
  moreover have "20 \<le> length (replicate 20 (1 :: u8))" "length (replicate 20 (1 :: u8)) \<le> 254" by simp_all
  ultimately show ?thesis
    unfolding accepting_def
    using sample_names(1,3) sample_server_capable calc(1) failed_no_error length_sample_greeting assms(2) by blast
qed

definition salary_column :: column_definition_packet where
  "salary_column = sample_column\<lparr>cd_type := pft_double\<rparr>"

text \<open>The numbers of the examples, as texts and as doubles.\<close>

definition example_lexical :: lexical_lib where
  "example_lexical = sample_lexical\<lparr>lexical_double := map_of
     [(ascii ''10000'', double_10000), (ascii ''15000'', double_15000), (ascii ''30000'', double_30000), (ascii ''35000'', double_35000)]\<rparr>"

definition example_print :: print_lib where
  "example_print = \<lparr>print_float = (\<lambda>_. []), print_double = (\<lambda>d. if d = double_30000 then ascii ''30000'' else ascii ''35000''),
     print_date = (\<lambda>_. []), print_datetime = (\<lambda>_. [])\<rparr>"

definition example_environment :: "(unit, scripted) environment" where
  "example_environment = \<lparr>en_stream = scripted_stream, en_connect = (\<lambda>_ s. (no_error, s)), en_endpoint = (),
     en_crypto = sample_crypto, en_max_size = 1000, en_lexical = example_lexical, en_dates = gregorian,
     en_print = example_print, en_what = se_what, en_code = (\<lambda>_. []), en_std_what = (\<lambda>_. [])\<rparr>"

abbreviation example_caps :: capabilities where
  "example_caps \<equiv> negotiated (example_params [0x75] [0x70]) 0xffffffff"

definition example_world :: "bytes \<Rightarrow> scripted world" where
  "example_world bs = \<lparr>wo_channel = sample_peer (frames 0 sample_greeting @ frames 3 [0] @ bs), wo_stdout = [], wo_stderr = []\<rparr>"

lemma example_environment_simps [simp]:
  "en_stream example_environment = scripted_stream" "en_connect example_environment = (\<lambda>_ s. (no_error, s))"
  "en_endpoint example_environment = ()" "en_crypto example_environment = sample_crypto"
  "en_max_size example_environment = 1000" "en_lexical example_environment = example_lexical"
  "en_dates example_environment = gregorian" "en_print example_environment = example_print"
  by (simp_all add: example_environment_def)

lemma scripted_close_succeeds: "\<not> failed (fst (channel_close scripted_stream ch))"
  by (simp add: channel_close_def scripted_stream_def)

lemma sample_columns_fine:
  "columns_ok 1000 [sample_column, sample_column, salary_column]" "columns_ok 1000 [salary_column]"
  by (simp_all add: columns_ok_def size_t_max_def column_definition_wf_def salary_column_def sample_column_def in_memory_def
      protocol_field_type_of_def protocol_field_types_def)

lemma sample_peer_start:
  "ch_sequence_number (sample_peer bs) = 0"
  "accepting sample_crypto (example_params [0x75] [0x70]) example_caps rest
     (scr_in (ch_stream (sample_peer (frames 0 sample_greeting @ frames 3 [0] @ rest))))"
  by (simp_all only: sample_peer_input accepting_sample) (simp add: sample_peer_def make_channel_def)

text \<open>An employee of the example database and a salary, in both protocols.\<close>

definition sample_employee :: "bytes option list" where
  "sample_employee = [Some (ascii ''Coffee''), Some (ascii ''Drinker''), Some (ascii ''30000'')]"

lemma sample_cells [simp]:
  "deserialize_text_value example_lexical gregorian (ascii ''10000'') (field_metadata_of salary_column) = Inr (V_double double_10000)"
  "deserialize_text_value example_lexical gregorian (ascii ''15000'') (field_metadata_of salary_column) = Inr (V_double double_15000)"
  "deserialize_text_value example_lexical gregorian (ascii ''30000'') (field_metadata_of salary_column) = Inr (V_double double_30000)"
  "deserialize_text_value example_lexical gregorian s (field_metadata_of sample_column) = Inr (V_string s)"
  by (simp_all add: deserialize_text_value.simps fm_protocol_type_def field_metadata_of_def salary_column_def sample_column_def
      deserialize_text_value_double_def deserialize_text_value_string_def example_lexical_def ascii_def double_10000_def
      double_15000_def double_30000_def double_isnan_def double_isinf_def double_exp_def double_mant_def)

lemma short_in_memory:
  "length (ascii s) = length s" "in_memory (ascii s) \<longleftrightarrow> length s \<le> size_t_max"
  by (simp_all add: ascii_def in_memory_def)

lemma sample_doubles:
  "binary_sendable gregorian (field_metadata_of salary_column) (V_double double_30000)"
  "binary_sendable gregorian (field_metadata_of salary_column) (V_double double_35000)"
  by (simp_all add: binary_sendable_def binary_int_fits_def column_value_ok_def date_time_in_range_def fm_protocol_type_def field_metadata_of_def salary_column_def
      double_30000_def double_35000_def double_isnan_def double_isinf_def double_exp_def double_mant_def)

lemma sample_rows:
  "reply_rows_ok 1000 (text_row_ok example_lexical gregorian) [sample_column, sample_column, salary_column]
     [sample_employee] default_ok_packet"
  "text_row_values example_lexical gregorian (map field_metadata_of [sample_column, sample_column, salary_column]) sample_employee
     = [V_string (ascii ''Coffee''), V_string (ascii ''Drinker''), V_double double_30000]"
  "reply_rows_ok 1000 (text_row_ok example_lexical gregorian) [salary_column] [[Some (ascii ''10000'')]] default_ok_packet"
  "reply_rows_ok 1000 (text_row_ok example_lexical gregorian) [salary_column] [[Some (ascii ''15000'')]] default_ok_packet"
  "text_row_values example_lexical gregorian (map field_metadata_of [salary_column]) [Some (ascii ''10000'')] = [V_double double_10000]"
  "text_row_values example_lexical gregorian (map field_metadata_of [salary_column]) [Some (ascii ''15000'')] = [V_double double_15000]"
  "reply_rows_ok 1000 (binary_row_sendable gregorian) [salary_column] [[V_double double_30000]] default_ok_packet"
  "reply_rows_ok 1000 (binary_row_sendable gregorian) [salary_column] [[V_double double_35000]] default_ok_packet"
  by (simp_all add: reply_rows_ok_def sample_columns_fine sample_employee_def text_row_ok_def text_row_values_def
      short_in_memory binary_row_sendable_def gregorian.date_library_axioms sample_doubles size_t_max_def)

lemma sample_answer:
  "map (text_row_values example_lexical gregorian (map field_metadata_of [sample_column, sample_column, salary_column])) [sample_employee]
     = map (\<lambda>(f, l, s). [f, l, s]) [(V_string (ascii ''Coffee''), V_string (ascii ''Drinker''), V_double double_30000)]"
  using sample_rows(2) by simp

definition sample_updater :: com_stmt_prepare_ok_packet where
  "sample_updater = sample_prepare_ok\<lparr>sp_statement_id := 8, sp_num_columns := 0, sp_num_params := 2\<rparr>"

section \<open>Properties\<close>

text \<open>
  C16: the example program against the example database: over a stream whose peer accepts the client,
  sends employees as the first result, nothing but an OK as the second and one row with a salary of
  10000 as the third, the program returns 0, no assertion of it fails, and it prints one line per
  employee, in order, and no error.
\<close>
theorem query_sync_prints_employees:
  assumes "reliable_stream (en_stream E) inp out" and "\<And>ch. \<not> failed (fst (channel_close (en_stream E) ch))"
    and "w = \<lparr>wo_channel = ch, wo_stdout = [], wo_stderr = []\<rparr>" and "channel_wf ch" and "ch_sequence_number ch = 0"
    and "en_connect E (en_endpoint E) (ch_stream ch) = (no_error, s)"
    and "accepting (en_crypto E) (example_params username password) caps
      (reply_bytes E caps (Reply_text_rows cds1 rows1 p1) @ reply_bytes E caps (Reply_ok p2) @
       reply_bytes E caps (Reply_text_rows cds3 [row3] p3) @ rest) (inp s)"
    and "reply_rows_ok (en_max_size E) (text_row_ok (en_lexical E) (en_dates E)) cds1 rows1 p1"
    and "in_memory (ok_info p2)"
    and "reply_rows_ok (en_max_size E) (text_row_ok (en_lexical E) (en_dates E)) cds3 [row3] p3"
    and "map (text_row_values (en_lexical E) (en_dates E) (map field_metadata_of cds1)) rows1 = map (\<lambda>(f, l, s). [f, l, s]) employees"
    and "text_row_values (en_lexical E) (en_dates E) (map field_metadata_of cds3) row3 = V_double double_10000 # others"
  shows "\<exists>ch'. example_main query_sync_main_impl E [name, username, password] w =
    Some (0, \<lparr>wo_channel = ch', wo_stdout = concat (map (\<lambda>(f, l, s). employee_line (en_print E) f l s) employees), wo_stderr = []\<rparr>)"
proof (rule employee_exchanges [OF assms statement_lengths(1-3) refl refl refl], goal_cases)
  case (1 ch0 rs1 ch1 ch2 rs2 ch3 rs3 ch4 ch5 ch6)
  from 1(1-9) show ?case
    by (intro exI [of _ ch6] example_main_ok)
      (simp add: query_sync_main_impl_def employees_program_def and_then_def [of "connecting _ _"] and_then_def [of "querying _ _"]
        and_then_def [of "fetching _ _"] and_then_def [of "print_employees _ _"] get_optional_double_def)
qed

lemma query_sync_prints_employees_witness:
  "\<exists>ch'. example_main query_sync_main_impl example_environment [[], [0x75], [0x70]]
      (example_world
        (reply_bytes example_environment example_caps
           (Reply_text_rows [sample_column, sample_column, salary_column] [sample_employee] default_ok_packet) @
         reply_bytes example_environment example_caps (Reply_ok default_ok_packet) @
         reply_bytes example_environment example_caps
           (Reply_text_rows [salary_column] [[Some (ascii ''10000'')]] default_ok_packet))) =
    Some (0, \<lparr>wo_channel = ch',
      wo_stdout = employee_line example_print (V_string (ascii ''Coffee'')) (V_string (ascii ''Drinker'')) (V_double double_30000),
      wo_stderr = []\<rparr>)"
  using query_sync_prints_employees [where E = example_environment and inp = scr_in and out = scr_out and name = "[]"
      and employees = "[(V_string (ascii ''Coffee''), V_string (ascii ''Drinker''), V_double double_30000)]" and others = "[]" and rest = "[]",
      unfolded example_environment_simps, OF scripted_reliable scripted_close_succeeds example_world_def sample_peer_wf
        sample_peer_start(1) refl sample_peer_start(2) sample_rows(1) default_ok_info sample_rows(3)
        sample_answer sample_rows(5)]
  by simp

text \<open>
  The example program with callbacks: with the same server for its own statements, the chain of
  handlers runs to its end: the program returns 0, no assertion of it fails, no handler finds an
  error, and it prints one line per employee, in order.
\<close>
theorem async_callbacks_prints_employees:
  assumes "reliable_stream (en_stream E) inp out" and "\<And>ch. \<not> failed (fst (channel_close (en_stream E) ch))"
    and "w = \<lparr>wo_channel = ch, wo_stdout = [], wo_stderr = []\<rparr>" and "channel_wf ch" and "ch_sequence_number ch = 0"
    and "en_connect E (en_endpoint E) (ch_stream ch) = (no_error, s)"
    and "accepting (en_crypto E) (example_params username password) caps
      (reply_bytes E caps (Reply_text_rows cds1 rows1 p1) @ reply_bytes E caps (Reply_ok p2) @
       reply_bytes E caps (Reply_text_rows cds3 [row3] p3) @ rest) (inp s)"
    and "reply_rows_ok (en_max_size E) (text_row_ok (en_lexical E) (en_dates E)) cds1 rows1 p1"
    and "in_memory (ok_info p2)"
    and "reply_rows_ok (en_max_size E) (text_row_ok (en_lexical E) (en_dates E)) cds3 [row3] p3"
    and "map (text_row_values (en_lexical E) (en_dates E) (map field_metadata_of cds1)) rows1 = map (\<lambda>(f, l, s). [f, l, s]) employees"
    and "text_row_values (en_lexical E) (en_dates E) (map field_metadata_of cds3) row3 = V_double double_15000 # others"
  shows "\<exists>ch'. example_main async_callbacks_main_impl E [name, username, password] w =
    Some (0, \<lparr>wo_channel = ch', wo_stdout = concat (map (\<lambda>(f, l, s). employee_line (en_print E) f l s) employees), wo_stderr = []\<rparr>)"
proof (rule employee_exchanges [OF assms statement_lengths(1,8,7) refl refl refl], goal_cases)
  case (1 ch0 rs1 ch1 ch2 rs2 ch3 rs3 ch4 ch5 ch6)
  let ?w0 = "\<lambda>ch. \<lparr>wo_channel = ch, wo_stdout = [], wo_stderr = []\<rparr>"
  let ?w1 = "\<lambda>ch. \<lparr>wo_channel = ch, wo_stdout = concat (map (\<lambda>(f, l, s). employee_line (en_print E) f l s) employees), wo_stderr = []\<rparr>"
  note byte = reliable_byte_stream [OF assms(1)]
  have wf: "channel_wf (wo_channel w)" using assms(3,4) by simp
  have close: "application_close E info (?w1 ch5) = Some (Inr (), ?w1 ch6)" for info
    using async_closing_of [OF byte _ 1(9), of "Some info"] 1(10)
    by (auto simp: application_close_def and_then_def [of "async_closing _ _"] die_on_error_def returning_def)
  obtain err5 info5 where "async_fetching E rs3 (Some empty_info) (?w1 ch4) = Some (Inr (err5, info5, [V_double double_15000 # others]), ?w1 ch5)"
      "\<not> failed err5"
    using async_fetching_of [OF byte _ 1(8), of "Some empty_info"] 1(10) by auto
  then have intern: "application_query_intern E info (?w1 ch3) = Some (Inr (), ?w1 ch6)" for info
    using async_querying_of [OF byte _ 1(7), of "Some info"] 1(10) close
    by (simp add: application_query_intern_def and_then_def [of "async_querying _ _ _"] and_then_def [of "async_fetching _ _ _"]
        get_optional_double_def)
  have slacker: "application_update_slacker E info (?w1 ch2) = Some (Inr (), ?w1 ch6)" for info
    using async_querying_of [OF byte _ 1(5), of "Some info"] 1(6,10) intern
    by (simp add: application_update_slacker_def and_then_def [of "async_querying _ _ _"])
  obtain err2 info2 where "async_fetching E rs1 (Some empty_info) (?w0 ch1) =
      Some (Inr (err2, info2, map (\<lambda>(f, l, s). [f, l, s]) employees), ?w0 ch2)" "\<not> failed err2"
    using async_fetching_of [OF byte _ 1(3), of "Some empty_info"] 1(10) by auto
  then have employees: "application_query_employees E info (?w0 ch0) = Some (Inr (), ?w1 ch6)" for info
    using async_querying_of [OF byte _ 1(2), of "Some info"] 1(4,10) slacker
    by (simp add: application_query_employees_def and_then_def [of "async_querying _ _ _"] and_then_def [of "async_fetching _ _ _"]
        and_then_def [of "print_employees _ _"])
  obtain err0 info0 where "async_connecting E (example_params username password) (Some empty_info) w =
      Some (Inr (err0, info0, ()), ?w0 ch0)" "\<not> failed err0"
    using awaiting_connect [OF byte wf 1(1)] by blast
  then show ?case
    using employees
    by (intro exI [of _ ch6] example_main_ok)
      (simp add: async_callbacks_main_impl_def application_connect_def and_then_def [of "async_connecting _ _ _"])
qed

lemma async_callbacks_prints_employees_witness:
  "\<exists>ch'. example_main async_callbacks_main_impl example_environment [[], [0x75], [0x70]]
      (example_world
        (reply_bytes example_environment example_caps
           (Reply_text_rows [sample_column, sample_column, salary_column] [sample_employee] default_ok_packet) @
         reply_bytes example_environment example_caps (Reply_ok default_ok_packet) @
         reply_bytes example_environment example_caps
           (Reply_text_rows [salary_column] [[Some (ascii ''15000'')]] default_ok_packet))) =
    Some (0, \<lparr>wo_channel = ch',
      wo_stdout = employee_line example_print (V_string (ascii ''Coffee'')) (V_string (ascii ''Drinker'')) (V_double double_30000),
      wo_stderr = []\<rparr>)"
  using async_callbacks_prints_employees [where E = example_environment and inp = scr_in and out = scr_out and name = "[]"
      and employees = "[(V_string (ascii ''Coffee''), V_string (ascii ''Drinker''), V_double double_30000)]" and others = "[]" and rest = "[]",
      unfolded example_environment_simps, OF scripted_reliable scripted_close_succeeds example_world_def sample_peer_wf
        sample_peer_start(1) refl sample_peer_start(2) sample_rows(1) default_ok_info sample_rows(4)
        sample_answer sample_rows(6)]
  by simp

text \<open>
  C18: the example program for prepared statements: over a stream whose peer accepts the client,
  prepares both statements with the number of parameters their text has, answers the first SELECT
  with a salary of 30000, the UPDATE with an OK and the second SELECT with a salary of 35000, the
  program returns 0, no assertion of it fails, and it prints both salaries and no error.
\<close>
theorem prepared_statements_prints_salaries:
  assumes "reliable_stream (en_stream E) inp out" and "\<And>ch. \<not> failed (fst (channel_close (en_stream E) ch))"
    and "w = \<lparr>wo_channel = ch, wo_stdout = [], wo_stderr = []\<rparr>" and "channel_wf ch" and "ch_sequence_number ch = 0"
    and "en_connect E (en_endpoint E) (ch_stream ch) = (no_error, s)"
    and "accepting (en_crypto E) (example_params username password) caps
      (reply_bytes E caps (Reply_prepared r1 metas1) @ reply_bytes E caps (Reply_prepared r2 metas2) @
       reply_bytes E caps (Reply_binary_rows cds3 [V_double double_30000 # others3] p3) @
       reply_bytes E caps (Reply_ok p4) @
       reply_bytes E caps (Reply_binary_rows cds5 [V_double double_35000 # others5] p5) @ rest) (inp s)"
    and "sp_num_params r1 = 1" and "length metas1 = num_metadata_packets r1"
    and "sp_num_params r2 = 2" and "length metas2 = num_metadata_packets r2"
    and "reply_rows_ok (en_max_size E) (binary_row_sendable (en_dates E)) cds3 [V_double double_30000 # others3] p3"
    and "in_memory (ok_info p4)"
    and "reply_rows_ok (en_max_size E) (binary_row_sendable (en_dates E)) cds5 [V_double double_35000 # others5] p5"
  shows "\<exists>ch'. example_main prepared_statements_main_impl E [name, username, password] w =
    Some (0, \<lparr>wo_channel = ch',
      wo_stdout =
        ascii ''The salary before the payrise was: '' @ print_double (en_print E) double_30000 @ [10] @
        ascii ''The salary after the payrise was: '' @ print_double (en_print E) double_35000 @ [10],
      wo_stderr = []\<rparr>)"
proof -
  let ?salary3 = "reply_bytes E caps (Reply_binary_rows cds3 [V_double double_30000 # others3] p3)"
    and ?updated4 = "reply_bytes E caps (Reply_ok p4)"
    and ?salary5 = "reply_bytes E caps (Reply_binary_rows cds5 [V_double double_35000 # others5] p5)"
  have params: "params_ok (en_dates E) (statement_of r1) [V_string (ascii ''Efficient'')]"
      "params_ok (en_dates E) (statement_of r2) [value_of_signed (35000 :: 32 word), V_string (ascii ''Efficient'')]"
    using assms(8,10) by (simp_all add: params_ok_def execute_asserted_def binary_value_asserted_def value_of_signed_def)
  define before where "before = ascii ''The salary before the payrise was: '' @ print_double (en_print E) double_30000 @ [10]"
  define after where "after = ascii ''The salary after the payrise was: '' @ print_double (en_print E) double_35000 @ [10]"
  define w0 where "w0 ch = \<lparr>wo_channel = ch, wo_stdout = [], wo_stderr = []\<rparr>" for ch :: "'a channel"
  define w3 where "w3 ch = \<lparr>wo_channel = ch, wo_stdout = before, wo_stderr = []\<rparr>" for ch :: "'a channel"
  define w5 where "w5 ch = \<lparr>wo_channel = ch, wo_stdout = before @ after, wo_stderr = []\<rparr>" for ch :: "'a channel"
  note ws = w0_def w3_def w5_def before_def after_def
  obtain ch0 ch1 ch2 where ch2: "connecting E (example_params username password) w = Some (Inr (), w0 ch0)"
      "preparing E salary_getter_sql (w0 ch0) = Some (Inr (statement_of r1), w0 ch1)"
      "preparing E salary_updater_sql (w0 ch1) = Some (Inr (statement_of r2), w0 ch2)"
    and at2: "serving inp caps (?salary3 @ ?updated4 @ ?salary5 @ rest) (wo_channel (w0 ch2))"
    by (rule prepare_exchanges [OF assms(1,3-7,9,11) w0_def])
  obtain ch3 where ch3: "reading_salary E (statement_of r1) double_30000 ''The salary before the payrise was: '' (w0 ch2) = Some (Inr (), w3 ch3)"
    and at3: "serving inp caps (?updated4 @ ?salary5 @ rest) (wo_channel (w3 ch3))"
    using reading_salary_ok [OF assms(1) at2 params(1) assms(12) salaries_equal(3)] by (auto simp: ws)
  obtain rs ch4 where ch4: "executing E (statement_of r2) [value_of_signed (35000 :: 32 word), V_string (ascii ''Efficient'')] (w3 ch3)
      = Some (Inr rs, w3 ch4)"
    and at4: "serving inp caps (?salary5 @ rest) (wo_channel (w3 ch4))"
    using executing_ok [OF assms(1) at3 params(2) assms(13)] by (auto simp: ws)
  obtain ch5 where ch5: "reading_salary E (statement_of r1) double_35000 ''The salary after the payrise was: '' (w3 ch4) = Some (Inr (), w5 ch5)"
    and at5: "serving inp caps rest (wo_channel (w5 ch5))"
    using reading_salary_ok [OF assms(1) at4 params(1) assms(14) salaries_equal(4)] by (auto simp: ws)
  obtain ch6 where ch6: "closing_statement E (statement_of r2) (w5 ch5) = Some (Inr (), w5 ch6)"
    and at6: "serving inp caps rest (wo_channel (w5 ch6))"
    using closing_statement_ok [OF assms(1) at5, of "statement_of r2"] by (auto simp: ws)
  obtain ch7 where ch7: "closing_statement E (statement_of r1) (w5 ch6) = Some (Inr (), w5 ch7)"
    and at7: "serving inp caps rest (wo_channel (w5 ch7))"
    using closing_statement_ok [OF assms(1) at6, of "statement_of r1"] by (auto simp: ws)
  obtain ch8 where "closing E (w5 ch7) = Some (Inr (), w5 ch8)"
    using closing_ok [OF assms(1) at7 assms(2)] by (auto simp: ws)
  then have "prepared_statements_main_impl E [name, username, password] w = Some (Inr (), w5 ch8)"
    using ch2 ch3 ch4 ch5 ch6 ch7 assms(8,10)
    by (simp add: prepared_statements_main_impl_def num_params_is_def ps_num_params_def
        and_then_def [of "connecting _ _"] and_then_def [of "preparing _ _"] and_then_def [of "reading_salary _ _ _ _"]
        and_then_def [of "executing _ _ _"] and_then_def [of "closing_statement _ _"])
  from example_main_ok [of prepared_statements_main_impl, OF this] show ?thesis by (simp add: ws assms(3))
qed

lemma prepared_statements_prints_salaries_witness:
  "\<exists>ch'. example_main prepared_statements_main_impl example_environment [[], [0x75], [0x70]]
      (example_world
        (reply_bytes example_environment example_caps (Reply_prepared sample_prepare_ok [[], [9]]) @
         reply_bytes example_environment example_caps (Reply_prepared sample_updater [[], [9]]) @
         reply_bytes example_environment example_caps (Reply_binary_rows [salary_column] [[V_double double_30000]] default_ok_packet) @
         reply_bytes example_environment example_caps (Reply_ok default_ok_packet) @
         reply_bytes example_environment example_caps (Reply_binary_rows [salary_column] [[V_double double_35000]] default_ok_packet))) =
    Some (0, \<lparr>wo_channel = ch',
      wo_stdout = ascii ''The salary before the payrise was: '' @ ascii ''30000'' @ [10] @
        ascii ''The salary after the payrise was: '' @ ascii ''35000'' @ [10],
      wo_stderr = []\<rparr>)"
proof -
  have printed: "print_double example_print double_30000 = ascii ''30000''" "print_double example_print double_35000 = ascii ''35000''"
    by (simp_all add: example_print_def double_30000_def double_35000_def)
  show ?thesis
    using prepared_statements_prints_salaries [where E = example_environment and inp = scr_in and out = scr_out and name = "[]"
        and rest = "[]" and ?others3.0 = "[]" and ?others5.0 = "[]" and ?metas1.0 = "[[], [9]]" and ?metas2.0 = "[[], [9]]",
        unfolded example_environment_simps, OF scripted_reliable scripted_close_succeeds example_world_def sample_peer_wf
          sample_peer_start(1) refl sample_peer_start(2) _ _ _ _ sample_rows(7) default_ok_info sample_rows(8),
        of sample_prepare_ok sample_updater]
    by (simp add: printed sample_prepare_ok_def sample_updater_def num_metadata_packets_def)
qed

text \<open>
  The example program for metadata: when the first result has the two columns it expects, its
  assertions hold; it closes the connection without reading the rows.
\<close>

theorem metadata_checks_columns:
  assumes "reliable_stream (en_stream E) inp out" and "\<And>ch. \<not> failed (fst (channel_close (en_stream E) ch))"
    and "w = \<lparr>wo_channel = ch, wo_stdout = [], wo_stderr = []\<rparr>" and "channel_wf ch" and "ch_sequence_number ch = 0"
    and "en_connect E (en_endpoint E) (ch_stream ch) = (no_error, s)"
    and "accepting (en_crypto E) (example_params username password) caps
      (reply_bytes E caps (Reply_text_rows [c1, c2] rows p) @ rest) (inp s)"
    and "reply_rows_ok (en_max_size E) (text_row_ok (en_lexical E) (en_dates E)) [c1, c2] rows p"
    and "is_company_name (field_metadata_of c1)" and "is_employee_id (field_metadata_of c2)"
  shows "\<exists>ch'. example_main metadata_main_impl E [name, username, password] w =
    Some (0, \<lparr>wo_channel = ch', wo_stdout = [], wo_stderr = []\<rparr>)"
proof -
  let ?w = "\<lambda>ch. \<lparr>wo_channel = ch, wo_stdout = [], wo_stderr = []\<rparr>"
  have w: "channel_wf (wo_channel w)" "ch_sequence_number (wo_channel w) = 0"
      "en_connect E (en_endpoint E) (ch_stream (wo_channel w)) = (no_error, s)"
    using assms(3-6) by simp_all
  obtain ch0 where ch0: "connecting E (example_params username password) w = Some (Inr (), ?w ch0)"
    and at0: "serving inp caps (reply_bytes E caps (Reply_text_rows [c1, c2] rows p) @ rest) (wo_channel (?w ch0))"
    using connecting_ok [OF assms(1) w assms(7)] by (auto simp: assms(3))
  obtain rs ch1 where ch1: "querying E select_companies (?w ch0) = Some (Inr rs, ?w ch1)"
      "rs_fields rs = [field_metadata_of c1, field_metadata_of c2]" "channel_wf ch1"
    using querying_rows [OF assms(1) at0 assms(8) statement_lengths(6) refl refl] by auto
  have "serving inp (ch_current_caps ch1) (inp (ch_stream ch1)) (wo_channel (?w ch1))" using ch1(3) by (simp add: serving_def)
  from closing_ok [OF assms(1) this assms(2)] obtain ch2 where "closing E (?w ch1) = Some (Inr (), ?w ch2)" by auto
  then show ?thesis
    using ch0 ch1 assms(9,10)
    by (intro exI [of _ ch2] example_main_ok)
      (simp add: metadata_main_impl_def and_then_def [of "connecting _ _"] and_then_def [of "querying _ _"])
qed

text \<open>
  C17: the example program with a coroutine: over a stream whose peer accepts the client and answers
  its query with employees, its loop, which fetches one row at a time until there is none, ends; the
  program returns 0 and prints one line per employee, in order, and no error. The program with
  futures does the same.
\<close>
theorem coroutines_print_employees:
  assumes "reliable_stream (en_stream E) inp out" and "\<And>ch. \<not> failed (fst (channel_close (en_stream E) ch))"
    and "w = \<lparr>wo_channel = ch, wo_stdout = [], wo_stderr = []\<rparr>" and "channel_wf ch" and "ch_sequence_number ch = 0"
    and "en_connect E (en_endpoint E) (ch_stream ch) = (no_error, s)"
    and "accepting (en_crypto E) (example_params username password) caps (reply_bytes E caps (Reply_text_rows cds rows p) @ rest) (inp s)"
    and "reply_rows_ok (en_max_size E) (text_row_ok (en_lexical E) (en_dates E)) cds rows p"
    and "map (text_row_values (en_lexical E) (en_dates E) (map field_metadata_of cds)) rows = map (\<lambda>(f, l, s). [f, l, s]) employees"
    and "main_impl \<in> {coroutines_main_impl, futures_main_impl}"
  shows "\<exists>ch'. example_main main_impl E [name, username, password] w =
    Some (0, \<lparr>wo_channel = ch', wo_stdout = concat (map (\<lambda>(f, l, s). employee_line (en_print E) f l s) employees), wo_stderr = []\<rparr>)"
proof (rule row_exchanges [OF assms(1-8) refl [of "concat (map (\<lambda>(f, l, s). employee_line (en_print E) f l s) employees)"] refl refl],
    goal_cases)
  case (1 ch0 err0 info0 rs ch1)
  show ?case
    using coroutines_run [OF 1 assms(9) refl refl, of name] assms(10) by (auto intro: example_main_ok)
qed

lemma coroutines_print_employees_witness:
  "\<exists>ch'. example_main coroutines_main_impl example_environment [[], [0x75], [0x70]]
      (example_world (reply_bytes example_environment example_caps
         (Reply_text_rows [sample_column, sample_column, salary_column] [sample_employee] default_ok_packet))) =
    Some (0, \<lparr>wo_channel = ch',
      wo_stdout = employee_line example_print (V_string (ascii ''Coffee'')) (V_string (ascii ''Drinker'')) (V_double double_30000),
      wo_stderr = []\<rparr>)"
  using coroutines_print_employees [where E = example_environment and inp = scr_in and out = scr_out and name = "[]"
      and employees = "[(V_string (ascii ''Coffee''), V_string (ascii ''Drinker''), V_double double_30000)]" and rest = "[]"
      and main_impl = coroutines_main_impl,
      unfolded example_environment_simps, OF scripted_reliable scripted_close_succeeds example_world_def sample_peer_wf
        sample_peer_start(1) refl sample_peer_start(2) sample_rows(1) sample_answer]
  by simp

text \<open>The program for UNIX sockets is the first one, with the path of the socket it is given or the default.\<close>

lemma unix_socket_same:
  "unix_socket_main_impl endpoint_of E [name, username, password] =
     query_sync_main_impl (E\<lparr>en_endpoint := endpoint_of (ascii ''/var/run/mysqld/mysqld.sock'')\<rparr>) [name, username, password]"
  "unix_socket_main_impl endpoint_of E [name, username, password, path] =
     query_sync_main_impl (E\<lparr>en_endpoint := endpoint_of path\<rparr>) [name, username, password]"
  by (simp_all add: unix_socket_main_impl_def query_sync_main_impl_def Let_def)

end
