(* ===== verification/Spec2Isabelle.thy ===== *)
theory Spec2Isabelle
  imports Collations Error_Tables Example_Runs
begin

text \<open>
  A verification development for Boost.MySQL, a client for the MySQL protocol on top of Boost.Asio
  (the headers under \<open>include/boost/mysql\<close>). Paths below are relative to that directory.

  \<^bold>\<open>The program.\<close> A \<open>connection\<close> owns a \<open>channel\<close>, the message layer: it splits messages in
  packets, numbers them and, after a TLS handshake, sends them through TLS. The network algorithms
  (\<open>detail/network_algorithms\<close>) exchange messages over the channel: \<open>handshake\<close> negotiates the
  capabilities, sets TLS up and authenticates through one of the plugins of \<open>detail/auth\<close>;
  \<open>execute_generic\<close> sends a query or a statement and reads the head of its result; \<open>read_row\<close> reads a
  row; \<open>prepare_statement\<close>, \<open>close_statement\<close>, \<open>connect\<close>, \<open>quit_connection\<close>, \<open>close_connection\<close> do as
  they are called. Messages are translated by the serialization framework and the row decoders of
  \<open>detail/protocol\<close>. The classes \<open>connection\<close>, \<open>resultset\<close> and \<open>prepared_statement\<close> are the interface.

  \<^bold>\<open>Theories\<close>, in the order of the code, each with its state, operations and lemmas:
  \<^item> \<open>Prelude\<close>, \<open>Errors\<close>, \<open>Error_Tables\<close>: bytes, little-endian numbers; error codes, error information,
    exceptions as the left side of a sum (\<open>error.hpp\<close>, \<open>impl/error.hpp\<close>); the enumeration of codes
    and their descriptions.
  \<^item> \<open>Contexts\<close>, \<open>Serialization\<close>, \<open>Protocol_Types\<close>: the cursors over buffers and the serialization
    framework. A write outside the buffer has no result, so that proving that there is one is
    memory safety. The locales \<open>serializer\<close>, \<open>reader\<close>, \<open>decoder\<close>, \<open>codec\<close> state what a serializable type
    promises, \<open>guarded_serializer\<close> what one with assertions does; every type and message interprets them.
  \<^item> \<open>Protocol_Constants\<close>, \<open>Common_Messages\<close>, \<open>Handshake_Messages\<close>, \<open>Statement_Messages\<close>: the messages,
    field by field, with their encodings as specification.
  \<^item> \<open>Values\<close>, \<open>Value_Printing\<close>, \<open>Date_Time\<close>, \<open>C_Stdio\<close>, \<open>Null_Bitmap\<close>, \<open>Metadata\<close>, \<open>Column_Values\<close>,
    \<open>Text_Deserialization\<close>, \<open>Binary_Serialization\<close>, \<open>Binary_Deserialization\<close>: values, columns and rows
    in both protocols: round trips, safety on any input, the alternative a value of a column has. A row
    of a server is encoded column by column, each integer in the bytes of its column's type.
  \<^item> \<open>Streams\<close>, \<open>Channel\<close>, \<open>Session\<close>: the stream as a record of operations with its documented contract,
    packets and sequence numbers, whole messages, chains of messages.
  \<^item> \<open>Auth\<close>, \<open>Handshake\<close>: the plugins (locale \<open>auth_plugin\<close>) and the handshake. It returns on any finite
    input or fails the one assertion a server can fail; \<open>handshake_aborts\<close> is the relation to the channel
    that leaves behind, which the properties about what was written cover too.
  \<^item> \<open>Resultset\<close> (locale \<open>row_protocol\<close>, interpreted for text rows, binary rows and rows of either), \<open>Execute\<close>,
    \<open>Prepared_Statement\<close>, \<open>Connection\<close>: fetching, executing, statements, connecting and closing, and the
    API in its two error conventions.
  \<^item> \<open>Collations\<close>, \<open>Rows\<close>: the enumeration of collations; comparing and printing values and rows.
  \<^item> \<open>Async_Channel\<close>, \<open>Async_Rows\<close>, \<open>Async_Connection\<close>, \<open>Async_Prepare\<close>: the asynchronous
    operations. Each coroutine is a record with its members and the point it resumes at, and a
    function \<open>..._resume\<close> from the results of what it waited for to the next thing to wait for or its
    completion; \<open>run_co\<close> is the event loop. The lemmas ending in \<open>_eq\<close> and \<open>_view\<close> show that
    each does what the synchronous operation does.
  \<^item> \<open>Sessions\<close>: the operations of the API, synchronous and asynchronous, as a transition relation, and
    its invariant.
  \<^item> \<open>Cursor\<close>, \<open>Commands\<close>, \<open>Conversation\<close>: the abstract specification. A cursor that every fetch operation
    refines; programs of commands, each in one of the three variants of its operation (error code,
    exception, asynchronous), and that the variant makes no difference; a server that answers each
    command, and that a program learns exactly its answers.
  \<^item> \<open>Examples\<close>, \<open>Example_Runs\<close>: the example programs (\<open>src/example\<close>) as clients of the operations, and
    what they print against a server that answers them. A program is a function of the connection and the
    standard streams that ends with a result, an exception or a call of \<open>exit\<close>; the loops that read row by
    row are a partial function, shown to end (locale \<open>row_source\<close>, interpreted for both).
  \<^item> this theory: properties of whole sessions.

  \<^bold>\<open>State.\<close> The channel is the record \<open>channel\<close>: stream, whether there is a TLS block, sequence number,
  header buffer, shared buffer, capabilities. Operations take it and return it with their error code
  and information. Reference parameters and members that an operation changes are returned.

  \<^bold>\<open>Results.\<close> An error code is a value and tests as an error when its number is not 0. \<open>None\<close> stands for
  what has no result in the code: a write outside a buffer, a failed assertion, an exception of the
  standard library, a loop that does not end. The caller can fail the assertions about the number of
  parameters, the dates among them, and a resultset or statement used before it is valid or complete; the
  server can fail the one about the last byte of an authentication switch request.

  \<^bold>\<open>Loops.\<close> \<open>channel_read_loop\<close>, \<open>auth_loop\<close>, \<open>run_co\<close> and \<open>print_rows\<close> may go on as long as the peer sends, and are partial functions;
  the theorems that they return hold for every stream whose peer has finitely many bytes left. All
  other loops are structural or have a measure.

  \<^bold>\<open>Parameters.\<close> The stream and its TLS engine, the socket's connect, the digests, the calendar library,
  the number parsers and printers, and the largest vector of the standard library are not part of the
  program: they are arguments, with what is documented of them as hypotheses, and instances for
  the witnesses.

  \<^bold>\<open>Not modelled.\<close> Two operations in progress on one connection at a time, which the library forbids;
  object lifetimes (a row or an OK packet that refers to a buffer holds its bytes here) and move
  semantics; template machinery and completion tokens; tests; memory that runs out (\<open>bad_alloc\<close>): of
  the exceptions of a vector only \<open>length_error\<close> is. An output of a failed parse that the caller never
  looks at is left as it was, where the source may have assigned some of its fields. Programs are
  modelled with assertions enabled. The completion calls of
  \<open>prepare_statement_op\<close> do not compile when instantiated, and are read as those of its siblings.
\<close>

section \<open>Properties of whole sessions\<close>

text \<open>
  C1: a whole session over a stream whose peer greets with the capabilities the client requires,
  accepts its response and answers each of its commands: \<open>connect\<close> succeeds, with or without TLS;
  then any program of queries, prepares, executions and closes of statements, each with the variant
  that returns an error code, the one that throws or the asynchronous one, learns from each command exactly what the server's answer says,
  rows, results, errors and statements, an error not disturbing the commands after it; and \<open>quit\<close>
  succeeds. All the answers are read and nothing else, and what the client wrote is the handshake's
  messages, one packet for each command and the quit message, through TLS when it was negotiated.
\<close>
theorem session_answered:
  assumes "reliable_stream S inp out" and "channel_wf ch" and "ch_sequence_number ch = 0"
    and "C endpoint (ch_stream ch) = (no_error, s)"
    and "no_nul version" and "no_nul plugin" and "20 \<le> length a" and "length a \<le> 254"
    and "caps_has_all (caps_of scaps) (required_capabilities params)"
    and "calculate H plugin (cp_password params) a (tls_wanted params scaps) new_calculator = (code, calc)"
    and "\<not> failed code"
    and "greeting = greeting_message version conn_id a scaps charset status plugin"
    and "length greeting < MAX_PACKET_SIZE"
    and "caps = negotiated params scaps"
    and "length (enc_handshake_response caps (handshake_response_of params caps (ac_response calc) plugin)) < MAX_PACKET_SIZE"
    and "inp s = frames 0 greeting @ frames (if tls_wanted params scaps then 3 else 2) (0 # ok) @ server_bytes D caps xs @ rest"
    and "\<forall>x \<in> set xs. exchange_ok M L D caps x"
  shows "\<exists>ch1 ch2 code3 ch3. connect C S H endpoint params info ch = Some (no_error, info, ch1) \<and>
    run_commands S M L D (map exchange_command xs) ch1 = Some (map (exchange_outcome L D) xs, ch2) \<and>
    inp (ch_stream ch2) = rest \<and>
    connection_quit S no_error empty_info ch2 = Some (code3, empty_info, ch3) \<and> \<not> failed code3 \<and>
    out (ch_stream ch3) = out s @ client_messages params scaps (ac_response calc) plugin (ch_ssl ch) @
      map (Pair (ch_ssl ch \<or> tls_wanted params scaps)) (client_packets D caps xs @ [frame_header 1 0 @ [quit_command_id]])"
proof -
  obtain ch1 where ch1: "connect C S H endpoint params info ch = Some (no_error, info, ch1)" "channel_wf ch1"
      "inp (ch_stream ch1) = server_bytes D caps xs @ rest" "ch_ssl ch1 = (ch_ssl ch \<or> tls_wanted params scaps)"
      "ch_current_caps ch1 = caps"
      "out (ch_stream ch1) = out s @ client_messages params scaps (ac_response calc) plugin (ch_ssl ch)"
    using connect_ok [where C = C and endpoint = endpoint and s = s, OF assms(1-16), of info] by blast
  obtain ch2 where ch2: "run_commands S M L D (map exchange_command xs) ch1 = Some (map (exchange_outcome L D) xs, ch2)"
      "channel_wf ch2" "inp (ch_stream ch2) = rest" "ch_ssl ch2 = ch_ssl ch1"
      "out (ch_stream ch2) = out (ch_stream ch1) @ map (Pair (ch_ssl ch1)) (client_packets D caps xs)"
    using run_commands_answered [OF assms(1) ch1(2), of xs M L D rest] assms(17) ch1(3,5) by auto
  obtain code3 ch3 where ch3: "quit_connection S ch2 = Some (code3, ch3)" "\<not> failed code3"
      "out (ch_stream ch3) = out (ch_stream ch2) @ [(ch_ssl ch2, frame_header 1 0 @ [quit_command_id])]"
    using quit_connection_ok [OF assms(1) ch2(2)] by blast
  show ?thesis
    using ch1(1,4,6) ch2(1,3-5) ch3
    by (intro exI [of _ ch1] exI [of _ ch2] exI [of _ code3] exI [of _ ch3])
      (simp add: connection_quit_def with_info_def clear_errors_def error_info_clear_def empty_info_def)
qed

lemma session_answered_witness:
  "\<exists>ch1 ch2 code3 ch3. connect (\<lambda>_ s. (no_error, s)) scripted_stream sample_crypto () (sample_params Ssl_require) empty_info
      (sample_peer (sample_conversation (negotiated (sample_params Ssl_require) 0xffffffff))) = Some (no_error, empty_info, ch1) \<and>
    run_commands scripted_stream 1000 sample_lexical gregorian
      [(Asynchronous, Cmd_query [0x53]), (Throwing, Cmd_query [0x54]), (Blocking, Cmd_prepare [0x55]),
       (Asynchronous, Cmd_execute (statement_of sample_prepare_ok) [V_null]),
       (Asynchronous, Cmd_close (statement_of sample_prepare_ok))] ch1
      = Some ([Got_rows [varchar_column] [[V_string [0x61]], [V_null]] default_ok_packet,
         Got_error (make_error_code (Errc 1064)) [0x78], Got_statement (statement_of sample_prepare_ok),
         Got_rows [varchar_column] [[V_null]] default_ok_packet, Got_nothing], ch2) \<and>
    connection_quit scripted_stream no_error empty_info ch2 = Some (code3, empty_info, ch3) \<and> \<not> failed code3"
proof -
  let ?p = "sample_params Ssl_require"
  let ?caps = "negotiated ?p 0xffffffff"
  let ?ch = "sample_peer (sample_conversation ?caps)"
  have tls: "tls_wanted ?p 0xffffffff" by (simp add: tls_wanted_def sample_params_def)
  have greeting: "sample_greeting = greeting_message [0x38] 7 (replicate 20 1) 0xffffffff 33 2 mysql_native_password_name"
    by (simp add: sample_greeting_def greeting_message_def)
  have start: "ch_sequence_number ?ch = 0" "(\<lambda>_ s. (no_error, s)) () (ch_stream ?ch) = (no_error, ch_stream ?ch)"
    by (simp_all add: sample_peer_def make_channel_def)
  have inp: "scr_in (ch_stream ?ch) = frames 0 sample_greeting @ frames (if tls_wanted ?p 0xffffffff then 3 else 2) (0 # []) @
      server_bytes gregorian ?caps sample_exchanges @ []"
    by (simp add: sample_conversation_def tls)
  have commands: "map exchange_command sample_exchanges =
      [(Asynchronous, Cmd_query [0x53]), (Throwing, Cmd_query [0x54]), (Blocking, Cmd_prepare [0x55]),
       (Asynchronous, Cmd_execute (statement_of sample_prepare_ok) [V_null]),
       (Asynchronous, Cmd_close (statement_of sample_prepare_ok))]"
    by (simp add: sample_exchanges_def exchange_command_def)
  show ?thesis
  proof (rule sample_login [of Ssl_require], goal_cases)
    case (1 calc)
    show ?case
      using session_answered [where C = "\<lambda>_ s. (no_error, s)" and endpoint = "()",
          OF scripted_reliable sample_peer_wf start sample_names(3,1) _ _ sample_server_capable 1(1)
          failed_no_error greeting length_sample_greeting refl 1(3) inp sample_exchanges_ok, of empty_info]
      unfolding commands sample_exchanges_outcomes by simp blast
  qed
qed

text \<open>
  A whole session, from connecting to the rows of a query: over a stream whose peer greets with
  the capabilities the client requires, accepts its response and answers its query, \<open>connect\<close>
  succeeds, with or without TLS, \<open>query\<close> succeeds, and \<open>fetch_all\<close> returns exactly the rows the
  server sent; what the client wrote is the handshake's messages and the query, nothing else, the
  query through TLS when it was negotiated.
\<close>
theorem connect_query_fetch:
  assumes "reliable_stream S inp out" and "channel_wf ch" and "ch_sequence_number ch = 0"
    and "C endpoint (ch_stream ch) = (no_error, s)"
    and "no_nul version" and "no_nul plugin" and "20 \<le> length a" and "length a \<le> 254"
    and "caps_has_all (caps_of scaps) (required_capabilities params)"
    and "calculate H plugin (cp_password params) a (tls_wanted params scaps) new_calculator = (code, calc)"
    and "\<not> failed code"
    and "greeting = greeting_message version conn_id a scaps charset status plugin"
    and "length greeting < MAX_PACKET_SIZE"
    and "caps = negotiated params scaps"
    and "length (enc_handshake_response caps (handshake_response_of params caps (ac_response calc) plugin)) < MAX_PACKET_SIZE"
    and "Suc (length query) < MAX_PACKET_SIZE"
    and "inp s = frames 0 greeting @ frames (if tls_wanted params scaps then 3 else 2) (0 # ok) @
      frames_list 1 (result_head caps cds @ map (enc_text_row caps) rows @ [eof_message p]) @ rest"
    and "columns_ok M cds" and "\<forall>r \<in> set rows. text_row_ok L D (map field_metadata_of cds) r"
    and "length rows < size_t_max" and "in_memory (ok_info p)"
  shows "\<exists>ch1 rs ch2 ch3. connect C S H endpoint params info ch = Some (no_error, info, ch1) \<and>
    connection_query S M L D query err2 info2 ch1 = Some (no_error, empty_info, rs, ch2) \<and>
    fetch_all S rs ch2 =
      Some (map (\<lambda>r. (text_row_values L D (map field_metadata_of cds) r, enc_text_row caps r)) rows, no_error, empty_info,
        rs\<lparr>rs_ok_packet := p, rs_eof_received := True\<rparr>, ch3) \<and>
    inp (ch_stream ch3) = rest \<and> out (ch_stream ch3) = out s @
      client_messages params scaps (ac_response calc) plugin (ch_ssl ch) @
      [(ch_ssl ch \<or> tls_wanted params scaps, frame_header (Suc (length query)) 0 @ com_query_id # query)]"
  by (rule session_rows [where C = C and endpoint = endpoint and s = s, OF assms])

definition sample_session :: bytes where
  "sample_session = frames 0 sample_greeting @ frames 3 [0] @
     frames_list 1 (result_head (negotiated (sample_params Ssl_require) 0xffffffff) [sample_column] @
       [enc_text_row (negotiated (sample_params Ssl_require) 0xffffffff) [Some [0x61]], eof_message default_ok_packet])"

lemma connect_query_fetch_witness:
  "\<exists>ch1 rs ch2 row ch3. connect (\<lambda>_ s. (no_error, s)) scripted_stream sample_crypto () (sample_params Ssl_require) empty_info
      (sample_peer sample_session) = Some (no_error, empty_info, ch1) \<and>
    connection_query scripted_stream 1000 sample_lexical gregorian [0x53] no_error empty_info ch1
      = Some (no_error, empty_info, rs, ch2) \<and>
    fetch_all scripted_stream rs ch2 = Some ([([V_string [0x61]], row)], no_error, empty_info,
      rs\<lparr>rs_ok_packet := default_ok_packet, rs_eof_received := True\<rparr>, ch3)"
proof -
  let ?p = "sample_params Ssl_require"
  let ?caps = "negotiated ?p 0xffffffff"
  have tls: "tls_wanted ?p 0xffffffff" by (simp add: tls_wanted_def sample_params_def)
  have greeting: "sample_greeting = greeting_message [0x38] 7 (replicate 20 1) 0xffffffff 33 2 mysql_native_password_name"
    by (simp add: sample_greeting_def greeting_message_def)
  have query: "Suc (length [0x53 :: u8]) < MAX_PACKET_SIZE" by (simp add: MAX_PACKET_SIZE_def)
  have start: "ch_sequence_number (sample_peer sample_session) = 0"
    "(\<lambda>_ s. (no_error, s)) () (ch_stream (sample_peer sample_session)) = (no_error, ch_stream (sample_peer sample_session))"
    by (simp_all add: sample_peer_def make_channel_def)
  have inp: "scr_in (ch_stream (sample_peer sample_session)) = frames 0 sample_greeting @
      frames (if tls_wanted ?p 0xffffffff then 3 else 2) (0 # []) @
      frames_list 1 (result_head ?caps [sample_column] @ map (enc_text_row ?caps) [[Some [0x61]]] @ [eof_message default_ok_packet]) @ []"
    by (simp add: sample_session_def tls)
  have rows: "\<forall>r \<in> set [[Some [0x61]]]. text_row_ok sample_lexical gregorian (map field_metadata_of [sample_column]) r"
    unfolding sample_column_metadata by simp
  have few: "length [[Some [0x61 :: u8]]] < size_t_max" by (simp add: size_t_max_def)
  show ?thesis
  proof (rule sample_login [of Ssl_require], goal_cases)
    case (1 calc)
    show ?case
      using connect_query_fetch [where C = "\<lambda>_ s. (no_error, s)" and endpoint = "()",
          OF scripted_reliable sample_peer_wf start sample_names(3,1) _ _ sample_server_capable 1(1)
          failed_no_error greeting length_sample_greeting refl 1(3) query inp sample_columns_ok rows few default_ok_info,
          of empty_info no_error empty_info]
      unfolding sample_column_metadata by simp blast
  qed
qed

end
